(* ===== verification/Prelude.thy ===== *)
theory Prelude
  imports Main "HOL-Library.Word"
begin

text \<open>
  Shared vocabulary of the development: bytes and machine words as Go has them, big-endian
  reads and writes (package encoding/binary), byte strings with the few functions of
  packages strings and fmt the gateway uses, and the generic facts about lists and maps that
  the component theories rest on.

  A Go \<open>string\<close> is a sequence of bytes and a HOL \<open>char\<close> is one of 256 values, so a Go string
  is a HOL \<open>string\<close>. Case mapping and white space are those of the ASCII range; bytes above
  127 are left alone (the identifiers the gateway compares, that is IMSIs, MAC addresses,
  APNs and NAS identifiers, are ASCII).
\<close>

unbundle bit_operations_syntax

type_synonym byte = "8 word"
type_synonym bytes = "8 word list"
type_synonym u16 = "16 word"
type_synonym u32 = "32 word"
type_synonym u64 = "64 word"

named_theorems wire \<open>reads and writes of wire formats\<close>
named_theorems text_simps \<open>evaluation of the string functions\<close>

section \<open>Slices and big-endian words\<close>

definition slice :: "'a list \<Rightarrow> nat \<Rightarrow> nat \<Rightarrow> 'a list" where
  \<comment> \<open>\<open>b[i:j]\<close>, for \<open>i \<le> j \<le> len(b)\<close>\<close>
  "slice b i j = take (j - i) (drop i b)"

definition hi8 :: "u16 \<Rightarrow> byte" where
  "hi8 v = ucast (drop_bit 8 v)"

definition lo8 :: "u16 \<Rightarrow> byte" where
  "lo8 v = ucast v"

definition put16 :: "u16 \<Rightarrow> bytes" where
  "put16 v = [hi8 v, lo8 v]"

definition be16 :: "byte \<Rightarrow> byte \<Rightarrow> u16" where
  "be16 a b = push_bit 8 (ucast a) OR ucast b"

definition put32 :: "u32 \<Rightarrow> bytes" where
  "put32 v = [ucast (drop_bit 24 v), ucast (drop_bit 16 v), ucast (drop_bit 8 v), ucast v]"

definition be32 :: "byte \<Rightarrow> byte \<Rightarrow> byte \<Rightarrow> byte \<Rightarrow> u32" where
  "be32 a b c d = push_bit 24 (ucast a) OR push_bit 16 (ucast b) OR push_bit 8 (ucast c) OR ucast d"

definition put24 :: "u32 \<Rightarrow> bytes" where
  "put24 v = [ucast (drop_bit 16 v), ucast (drop_bit 8 v), ucast v]"

definition read24 :: "byte \<Rightarrow> byte \<Rightarrow> byte \<Rightarrow> u32" where
  "read24 a b c = push_bit 16 (ucast a) OR push_bit 8 (ucast b) OR ucast c"

lemma not_bit_byte [simp]: "8 \<le> n \<Longrightarrow> \<not> bit (b :: byte) n"
  using bit_imp_le_length [of b n] by auto

lemma be16_put16 [simp, wire]: "be16 (hi8 v) (lo8 v) = v"
  unfolding be16_def hi8_def lo8_def
  by (rule bit_word_eqI) (auto simp: bit_simps)

lemma hi8_be16 [simp, wire]: "hi8 (be16 a b) = a"
  unfolding be16_def hi8_def
  by (rule bit_word_eqI) (auto simp: bit_simps dest: bit_imp_le_length)

lemma lo8_be16 [simp, wire]: "lo8 (be16 a b) = b"
  unfolding be16_def lo8_def
  by (rule bit_word_eqI) (auto simp: bit_simps)

lemma be32_put32 [simp, wire]:
  "be32 (ucast (drop_bit 24 v)) (ucast (drop_bit 16 v)) (ucast (drop_bit 8 v)) (ucast v) = v"
proof (rule bit_word_eqI)
  fix n assume "n < LENGTH(32)"
  then consider "n < 8" | "8 \<le> n" "n < 16" | "16 \<le> n" "n < 24" | "24 \<le> n" "n < 32"
    by fastforce
  then show "bit (be32 (ucast (drop_bit 24 v)) (ucast (drop_bit 16 v)) (ucast (drop_bit 8 v))
      (ucast v)) n = bit v n"
    by cases (auto simp: be32_def bit_simps)
qed

lemma put32_be32 [simp, wire]: "put32 (be32 a b c d) = [a, b, c, d]"
  unfolding be32_def put32_def
  by (auto intro!: bit_word_eqI simp: bit_simps dest: bit_imp_le_length)

lemma put16_be16 [simp, wire]: "put16 (be16 a b) = [a, b]"
  by (simp add: put16_def)

lemma read24_put24 [wire]:
  assumes "v < 2 ^ 24"
  shows "read24 (ucast (drop_bit 16 v)) (ucast (drop_bit 8 v)) (ucast v) = v"
proof -
  have "unat v < 2 ^ 24" using assms by (simp add: word_less_nat_alt)
  then have "take_bit 24 v = v"
    by (simp add: word_unat_eq_iff unsigned_take_bit_eq take_bit_nat_eq_self)
  moreover have "read24 (ucast (drop_bit 16 v)) (ucast (drop_bit 8 v)) (ucast v) = take_bit 24 v"
  proof (rule bit_word_eqI)
    fix n assume "n < LENGTH(32)"
    then consider "n < 8" | "8 \<le> n" "n < 16" | "16 \<le> n" "n < 24" | "24 \<le> n" "n < 32"
      by fastforce
    then show "bit (read24 (ucast (drop_bit 16 v)) (ucast (drop_bit 8 v)) (ucast v)) n
        = bit (take_bit 24 v) n"
      by cases (auto simp: read24_def bit_simps)
  qed
  ultimately show ?thesis by simp
qed

lemma put24_read24 [wire]: "put24 (read24 a b c) = [a, b, c]"
  unfolding put24_def read24_def
  by (auto intro!: bit_word_eqI simp: bit_simps dest: bit_imp_le_length)

lemma read24_less [wire]: "unat (read24 a b c) < 2 ^ 24"
proof -
  have "read24 a b c = take_bit 24 (read24 a b c)"
    unfolding read24_def by (rule bit_word_eqI) (auto simp: bit_simps dest: bit_imp_le_length)
  then have "unat (read24 a b c) = take_bit 24 (unat (read24 a b c))"
    by (metis unsigned_take_bit_eq)
  then show ?thesis by (metis take_bit_nat_less_exp)
qed

lemma length_put16 [simp]: "length (put16 v) = 2"
  by (simp add: put16_def)

lemma length_put32 [simp]: "length (put32 v) = 4"
  by (simp add: put32_def)

lemma length_put24 [simp]: "length (put24 v) = 3"
  by (simp add: put24_def)

lemma drop_4_plus [simp]: "drop (4 + n) (a # b # c # d # xs) = drop n xs"
  by (simp add: numeral_eq_Suc)

lemma drop_8_plus [simp]: "drop (8 + n) (a # b # c # d # e # f # g # h # xs) = drop n xs"
  by (simp add: numeral_eq_Suc)

lemma unat_of_nat_u16 [simp]: "n < 65536 \<Longrightarrow> unat (word_of_nat n :: u16) = n"
  by (simp add: unsigned_of_nat take_bit_nat_eq_self)

lemma unat_of_nat_byte [simp]: "n < 256 \<Longrightarrow> unat (word_of_nat n :: byte) = n"
  by (simp add: unsigned_of_nat take_bit_nat_eq_self)

lemma unat_u16_less [simp]: "unat (w :: u16) < 65536"
  using unsigned_less [of w, where 'a = nat] by simp

lemma unat_byte_less [simp]: "unat (w :: byte) < 256"
  using unsigned_less [of w, where 'a = nat] by simp

lemma unat_byte_le: "unat (w :: byte) \<le> 255"
  using unat_byte_less [of w] by linarith

lemma unat_u16_le [simp]: "unat (w :: u16) \<le> 65535"
  using unat_u16_less [of w] by linarith

lemma unat_inc_u64:
  assumes "(w :: u64) \<noteq> -1" shows "unat (w + 1) = unat w + 1"
proof -
  have "unat w \<noteq> 2 ^ 64 - 1"
    using assms by (auto simp: word_unat_eq_iff unsigned_minus_1_eq_mask mask_eq_exp_minus_1)
  with unsigned_less [of w, where 'a = nat] show ?thesis
    by (simp add: unat_word_ariths)
qed

section \<open>Strings\<close>

definition code_of :: "char \<Rightarrow> nat" where
  "code_of c = of_char c"

definition byte_of :: "char \<Rightarrow> byte" where
  "byte_of c = word_of_nat (code_of c)"

definition char_of_byte :: "byte \<Rightarrow> char" where
  "char_of_byte b = char_of (unat b)"

definition bytes_of :: "string \<Rightarrow> bytes" where
  \<comment> \<open>\<open>[]byte(s)\<close>\<close>
  "bytes_of s = map byte_of s"

definition string_of :: "bytes \<Rightarrow> string" where
  \<comment> \<open>\<open>string(b)\<close>\<close>
  "string_of b = map char_of_byte b"

lemma code_of_less [simp]: "code_of c < 256"
  by (simp add: code_of_def)

lemma char_of_code_of [simp]: "char_of (code_of c) = c"
  by (simp add: code_of_def)

lemma code_of_char_of [simp]: "n < 256 \<Longrightarrow> code_of (char_of n) = n"
  by (simp add: code_of_def of_char_of)

lemma code_of_inject [simp]: "code_of c = code_of d \<longleftrightarrow> c = d"
  by (metis char_of_code_of)

lemma char_of_byte_of [simp]: "char_of_byte (byte_of c) = c"
  by (simp add: char_of_byte_def byte_of_def)

lemma byte_of_char_of_byte [simp]: "byte_of (char_of_byte b) = b"
  by (simp add: char_of_byte_def byte_of_def)

lemma string_of_bytes_of [simp]: "string_of (bytes_of s) = s"
  by (simp add: string_of_def bytes_of_def map_idI)

lemma bytes_of_string_of [simp]: "bytes_of (string_of b) = b"
  by (simp add: string_of_def bytes_of_def map_idI)

lemma length_bytes_of [simp]: "length (bytes_of s) = length s"
  by (simp add: bytes_of_def)

lemma length_string_of [simp]: "length (string_of b) = length b"
  by (simp add: string_of_def)

lemma string_of_inject [simp]: "string_of a = string_of b \<longleftrightarrow> a = b"
  by (metis bytes_of_string_of)

lemma string_of_eq_Nil [simp]: "string_of b = [] \<longleftrightarrow> b = []"
  by (simp add: string_of_def)

lemma bytes_of_eq_Nil [simp]: "bytes_of s = [] \<longleftrightarrow> s = []"
  by (simp add: bytes_of_def)

subsection \<open>Case, white space, splitting\<close>

definition lower_char :: "char \<Rightarrow> char" where
  "lower_char c = (if 65 \<le> code_of c \<and> code_of c \<le> 90 then char_of (code_of c + 32) else c)"

definition to_lower :: "string \<Rightarrow> string" where
  \<comment> \<open>\<open>strings.ToLower\<close>\<close>
  "to_lower s = map lower_char s"

definition equal_fold :: "string \<Rightarrow> string \<Rightarrow> bool" where
  \<comment> \<open>\<open>strings.EqualFold\<close>\<close>
  "equal_fold a b \<longleftrightarrow> to_lower a = to_lower b"

definition is_space :: "char \<Rightarrow> bool" where
  "is_space c \<longleftrightarrow> code_of c = 32 \<or> (9 \<le> code_of c \<and> code_of c \<le> 13)"

definition trim_space :: "string \<Rightarrow> string" where
  \<comment> \<open>\<open>strings.TrimSpace\<close>\<close>
  "trim_space s = rev (dropWhile is_space (rev (dropWhile is_space s)))"

fun split_on :: "char \<Rightarrow> string \<Rightarrow> string list" where
  \<comment> \<open>\<open>strings.Split\<close> with a one-byte separator\<close>
  "split_on d [] = [[]]"
| "split_on d (c # cs) =
     (if c = d then [] # split_on d cs
      else (case split_on d cs of [] \<Rightarrow> [[c]] | p # ps \<Rightarrow> (c # p) # ps))"

definition before :: "char \<Rightarrow> string \<Rightarrow> string" where
  \<comment> \<open>the part before the first \<open>d\<close>, the whole string if there is none\<close>
  "before d s = takeWhile (\<lambda>c. c \<noteq> d) s"

definition split2 :: "char \<Rightarrow> string \<Rightarrow> (string \<times> string) option" where
  \<comment> \<open>\<open>strings.SplitN(s, d, 2)\<close>, \<open>None\<close> when the separator does not occur\<close>
  "split2 d s = (if d \<in> set s then Some (before d s, tl (dropWhile (\<lambda>c. c \<noteq> d) s)) else None)"

definition all_digits :: "string \<Rightarrow> bool" where
  "all_digits s \<longleftrightarrow> list_all (\<lambda>c. 48 \<le> code_of c \<and> code_of c \<le> 57) s"

lemma lower_char_idem [simp]: "lower_char (lower_char c) = lower_char c"
  by (simp add: lower_char_def)

lemma to_lower_idem [simp]: "to_lower (to_lower s) = to_lower s"
  by (simp add: to_lower_def)

lemma length_to_lower [simp]: "length (to_lower s) = length s"
  by (simp add: to_lower_def)

lemma to_lower_Nil [simp]: "to_lower [] = []"
  by (simp add: to_lower_def)

lemma to_lower_eq_Nil [simp]: "to_lower s = [] \<longleftrightarrow> s = []"
  by (simp add: to_lower_def)

lemma equal_fold_refl [simp]: "equal_fold a a"
  by (simp add: equal_fold_def)

lemma equal_fold_sym: "equal_fold a b \<longleftrightarrow> equal_fold b a"
  by (auto simp: equal_fold_def)

lemma equal_fold_trans: "equal_fold a b \<Longrightarrow> equal_fold b c \<Longrightarrow> equal_fold a c"
  by (simp add: equal_fold_def)

lemma dropWhile_rev_nospace:
  assumes "xs \<noteq> []" "\<not> P (hd xs)" shows "dropWhile P xs = xs"
  using assms by (cases xs) auto

lemma trim_space_idem [simp]: "trim_space (trim_space s) = trim_space s"
proof -
  define t where "t = dropWhile is_space s"
  define u where "u = dropWhile is_space (rev t)"
  have hdt: "t = [] \<or> \<not> is_space (hd t)"
    unfolding t_def using hd_dropWhile by blast
  have hdu: "u = [] \<or> \<not> is_space (hd u)"
    unfolding u_def using hd_dropWhile by blast
  have "dropWhile is_space (rev u) = rev u"
  proof (cases "u = []")
    case False
    obtain ys where "rev t = ys @ u"
      unfolding u_def by (metis takeWhile_dropWhile_id)
    then have "t = rev u @ rev ys"
      by (metis rev_append rev_rev_ident)
    with False hdt have "\<not> is_space (hd (rev u))" by auto
    with False show ?thesis by (intro dropWhile_rev_nospace) auto
  qed simp
  moreover have "dropWhile is_space u = u"
    using hdu by (cases "u = []") (auto intro: dropWhile_rev_nospace)
  ultimately show ?thesis
    by (simp add: trim_space_def t_def [symmetric] u_def [symmetric])
qed

lemma before_append: "d \<notin> set a \<Longrightarrow> before d (a @ d # b) = a"
  by (induction a) (auto simp: before_def)

lemma dropWhile_sep: "d \<notin> set a \<Longrightarrow> dropWhile (\<lambda>c. c \<noteq> d) (a @ d # b) = d # b"
  by (induction a) auto

lemma split2_append: "d \<notin> set a \<Longrightarrow> split2 d (a @ d # b) = Some (a, b)"
  by (simp add: split2_def before_append dropWhile_sep)

subsection \<open>Decimal and hexadecimal digits\<close>

definition digit :: "nat \<Rightarrow> char" where
  "digit n = char_of (48 + n)"

fun dec :: "nat \<Rightarrow> string" where
  \<comment> \<open>\<open>%d\<close>\<close>
  "dec n = (if n < 10 then [digit n] else dec (n div 10) @ [digit (n mod 10)])"

declare dec.simps [simp del]

definition undec :: "string \<Rightarrow> nat" where
  "undec s = foldl (\<lambda>a c. 10 * a + (code_of c - 48)) 0 s"

definition dec_int :: "int \<Rightarrow> string" where
  "dec_int i = (if i < 0 then CHR ''-'' # dec (nat (- i)) else dec (nat i))"

definition hex_digit :: "nat \<Rightarrow> char" where
  "hex_digit n = (if n < 10 then char_of (48 + n) else char_of (87 + n))"

definition hex2 :: "byte \<Rightarrow> string" where
  "hex2 b = [hex_digit (unat b div 16), hex_digit (unat b mod 16)]"

definition hex_val :: "char \<Rightarrow> nat option" where
  "hex_val c = (let n = code_of c in
     if 48 \<le> n \<and> n \<le> 57 then Some (n - 48)
     else if 97 \<le> n \<and> n \<le> 102 then Some (n - 87)
     else if 65 \<le> n \<and> n \<le> 70 then Some (n - 55) else None)"

definition hex32 :: "u32 \<Rightarrow> string" where
  \<comment> \<open>\<open>%08x\<close>\<close>
  "hex32 v = concat (map hex2 (put32 v))"

lemma code_of_digit [simp]: "n < 10 \<Longrightarrow> code_of (digit n) = 48 + n"
  by (simp add: digit_def)

lemma dec_digits: "c \<in> set (dec n) \<Longrightarrow> 48 \<le> code_of c \<and> code_of c \<le> 57"
proof (induction n arbitrary: c rule: dec.induct)
  case (1 n)
  show ?case
  proof (cases "n < 10")
    case True
    with "1.prems" show ?thesis by (simp add: dec.simps [of n])
  next
    case False
    with "1.prems" have "c \<in> set (dec (n div 10)) \<or> c = digit (n mod 10)"
      by (auto simp: dec.simps [of n])
    with "1.IH" [OF False] show ?thesis by auto
  qed
qed

lemma undec_snoc: "undec (s @ [c]) = 10 * undec s + (code_of c - 48)"
  by (simp add: undec_def)

lemma undec_dec [simp]: "undec (dec n) = n"
proof (induction n rule: dec.induct)
  case (1 n)
  show ?case
  proof (cases "n < 10")
    case True
    then show ?thesis by (simp add: dec.simps [of n] undec_def)
  next
    case False
    with "1.IH" show ?thesis by (simp add: dec.simps [of n] undec_snoc)
  qed
qed

lemma dec_inject [simp]: "dec m = dec n \<longleftrightarrow> m = n"
  by (metis undec_dec)

lemma dec_not_Nil [simp]: "dec n \<noteq> []"
  by (subst dec.simps) simp

lemma sep_notin_dec: "c \<in> set (dec n) \<Longrightarrow> c \<noteq> CHR ''-'' \<and> c \<noteq> CHR ''.'' \<and> c \<noteq> CHR '':''"
  using dec_digits [of c n] by (auto simp: code_of_def)

lemma all_digits_dec [simp]: "all_digits (dec n)"
  using dec_digits by (auto simp: all_digits_def list_all_iff)

lemma hd_dec_zero: "hd (dec n) = CHR ''0'' \<Longrightarrow> n = 0"
proof (induction n rule: dec.induct)
  case (1 n)
  show ?case
  proof (cases "n < 10")
    case True
    have "code_of (CHR ''0'') = 48" by (simp add: code_of_def)
    with True "1.prems" have "code_of (digit n) = 48"
      by (simp add: dec.simps [of n] del: code_of_digit)
    with True show ?thesis by simp
  next
    case False
    with "1.prems" have "hd (dec (n div 10)) = CHR ''0''" by (simp add: dec.simps [of n])
    with "1.IH" [OF False] False show ?thesis by simp
  qed
qed

lemma dec_single: "n < 10 \<Longrightarrow> dec n = [digit n]"
  by (simp add: dec.simps [of n])

lemma split_on_no_sep: "d \<notin> set a \<Longrightarrow> split_on d a = [a]"
  by (induction a) auto

lemma split_on_append: "d \<notin> set a \<Longrightarrow> split_on d (a @ d # b) = a # split_on d b"
  by (induction a) auto

lemma hex_val_hex_digit [simp]: "n < 16 \<Longrightarrow> hex_val (hex_digit n) = Some n"
  by (simp add: hex_val_def hex_digit_def Let_def)

lemma lower_char_hex_digit [simp]: "n < 16 \<Longrightarrow> lower_char (hex_digit n) = hex_digit n"
  by (simp add: lower_char_def hex_digit_def)

lemma hex_val_less: "hex_val c = Some n \<Longrightarrow> n < 16"
  by (auto simp: hex_val_def Let_def split: if_splits)

subsection \<open>coalesceString, firstNonEmpty\<close>

fun coalesce :: "string list \<Rightarrow> string" where
  \<comment> \<open>\<open>coalesceString\<close>, \<open>coalesce\<close> and \<open>firstNonEmpty\<close> of the packages lifecycle, radius, aaa and gtp\<close>
  "coalesce [] = []"
| "coalesce (v # vs) = (if v \<noteq> [] then v else coalesce vs)"

lemma coalesce_eq_Nil: "coalesce vs = [] \<longleftrightarrow> (\<forall>v \<in> set vs. v = [])"
  by (induction vs) auto

lemma coalesce_mem: "coalesce vs \<noteq> [] \<Longrightarrow> coalesce vs \<in> set vs"
  by (induction vs) auto

end
