(* ===== verification/Net.thy ===== *)
theory Net
  imports Prelude
begin

text \<open>
  What the gateway uses of Go's package net: hardware addresses (\<open>ParseMAC\<close>,
  \<open>HardwareAddr.String\<close>), IP addresses (\<open>ParseIP\<close>, \<open>IP.String\<close>, \<open>IP.To4\<close>, \<open>IP.Equal\<close>,
  \<open>net.IPv4\<close>) and networks (\<open>ParseCIDR\<close>, \<open>IPNet.Contains\<close>). A \<open>nil\<close> slice is \<open>None\<close>. The
  lemmas show that printing and parsing a hardware address or an IPv4 address are inverse,
  and that parsing ignores case, on which the MAC normalisation of the gateway rests.
\<close>

section \<open>Hardware addresses\<close>

definition hex_pair :: "char \<Rightarrow> char \<Rightarrow> byte option" where
  "hex_pair a b = (case hex_val a of None \<Rightarrow> None
     | Some h \<Rightarrow> (case hex_val b of None \<Rightarrow> None | Some l \<Rightarrow> Some (word_of_nat (16 * h + l))))"

fun mac_groups2 :: "char \<Rightarrow> string \<Rightarrow> bytes option" where
  "mac_groups2 sep [a, b] = map_option (\<lambda>x. [x]) (hex_pair a b)"
| "mac_groups2 sep (a # b # c # rest) =
     (if c = sep then (case hex_pair a b of None \<Rightarrow> None
        | Some x \<Rightarrow> map_option (\<lambda>xs. x # xs) (mac_groups2 sep rest)) else None)"
| "mac_groups2 sep _ = None"

fun mac_groups4 :: "char \<Rightarrow> string \<Rightarrow> bytes option" where
  "mac_groups4 sep [a, b, c, d] = (case hex_pair a b of None \<Rightarrow> None
     | Some x \<Rightarrow> (case hex_pair c d of None \<Rightarrow> None | Some y \<Rightarrow> Some [x, y]))"
| "mac_groups4 sep (a # b # c # d # e # rest) =
     (if e = sep then (case hex_pair a b of None \<Rightarrow> None
        | Some x \<Rightarrow> (case hex_pair c d of None \<Rightarrow> None
           | Some y \<Rightarrow> map_option (\<lambda>xs. x # y # xs) (mac_groups4 sep rest))) else None)"
| "mac_groups4 sep _ = None"

definition mac_size :: "nat \<Rightarrow> bool" where
  "mac_size n \<longleftrightarrow> n = 6 \<or> n = 8 \<or> n = 20"

definition parse_mac :: "string \<Rightarrow> bytes option" where
  \<comment> \<open>\<open>net.ParseMAC\<close>\<close>
  "parse_mac s =
     (if length s < 14 then None
      else if s ! 2 = CHR '':'' \<or> s ! 2 = CHR ''-'' then
        (if (length s + 1) mod 3 \<noteq> 0 \<or> \<not> mac_size ((length s + 1) div 3) then None
         else mac_groups2 (s ! 2) s)
      else if s ! 4 = CHR ''.'' then
        (if (length s + 1) mod 5 \<noteq> 0 \<or> \<not> mac_size (2 * (length s + 1) div 5) then None
         else mac_groups4 (s ! 4) s)
      else None)"

fun mac_string :: "bytes \<Rightarrow> string" where
  \<comment> \<open>\<open>HardwareAddr.String\<close>\<close>
  "mac_string [] = []"
| "mac_string [b] = hex2 b"
| "mac_string (b # bs) = hex2 b @ CHR '':'' # mac_string bs"

lemma hex_pair_hex2 [simp]: "hex_pair (hex_digit (unat b div 16)) (hex_digit (unat b mod 16)) = Some b"
proof -
  have "unat b div 16 < 16" using unat_byte_less [of b] by linarith
  then show ?thesis by (simp add: hex_pair_def)
qed

lemma mac_groups2_mac_string:
  "bs \<noteq> [] \<Longrightarrow> mac_groups2 (CHR '':'') (mac_string bs) = Some bs"
  by (induction bs rule: mac_string.induct) (simp_all add: hex2_def)

lemma length_mac_string: "bs \<noteq> [] \<Longrightarrow> length (mac_string bs) + 1 = 3 * length bs"
  by (induction bs rule: mac_string.induct) (simp_all add: hex2_def)

lemma mac_string_nth2: "2 \<le> length bs \<Longrightarrow> mac_string bs ! 2 = CHR '':''"
  by (cases bs rule: mac_string.cases) (simp_all add: hex2_def)

lemma parse_mac_string [simp]:
  assumes "mac_size (length bs)"
  shows "parse_mac (mac_string bs) = Some bs"
proof -
  from assms have ne: "bs \<noteq> []" and two: "2 \<le> length bs" and six: "6 \<le> length bs"
    by (auto simp: mac_size_def)
  have len: "length (mac_string bs) + 1 = 3 * length bs"
    using ne by (rule length_mac_string)
  have mods: "(length (mac_string bs) + 1) mod 3 = 0" "(length (mac_string bs) + 1) div 3 = length bs"
    unfolding len by simp_all
  have "\<not> length (mac_string bs) < 14"
    using len six by linarith
  then show ?thesis
    unfolding parse_mac_def mods mac_string_nth2 [OF two]
    using assms mac_groups2_mac_string [OF ne] by simp
qed

lemma to_lower_mac_string [simp]: "to_lower (mac_string bs) = mac_string bs"
proof (induction bs rule: mac_string.induct)
  case (2 b)
  have "unat b div 16 < 16" using unat_byte_less [of b] by linarith
  then show ?case by (simp add: hex2_def to_lower_def)
next
  case (3 b v va)
  have "unat b div 16 < 16" using unat_byte_less [of b] by linarith
  with 3 show ?case
    by (simp add: hex2_def to_lower_def) (simp add: lower_char_def code_of_def)
qed simp

lemma hex_val_lower [simp]: "hex_val (lower_char c) = hex_val c"
  by (auto simp: hex_val_def lower_char_def Let_def)

lemma hex_pair_lower [simp]: "hex_pair (lower_char a) (lower_char b) = hex_pair a b"
  by (cases "hex_val a") (simp_all add: hex_pair_def)

lemma lower_char_punct [simp]:
  "code_of d < 65 \<Longrightarrow> lower_char c = d \<longleftrightarrow> c = d"
  by (auto simp: lower_char_def simp del: char_of_code_of)

lemma mac_groups2_lower: "code_of sep < 65 \<Longrightarrow> mac_groups2 sep (to_lower s) = mac_groups2 sep s"
  by (induction sep s rule: mac_groups2.induct) (auto simp: to_lower_def split: option.splits)

lemma mac_groups4_lower: "code_of sep < 65 \<Longrightarrow> mac_groups4 sep (to_lower s) = mac_groups4 sep s"
  by (induction sep s rule: mac_groups4.induct) (auto simp: to_lower_def split: option.splits)

lemma punct_codes [simp]:
  "code_of (CHR '':'') = 58" "code_of (CHR ''-'') = 45" "code_of (CHR ''.'') = 46"
  by (simp_all add: code_of_def)

lemma lower_char_seps [simp]:
  "lower_char (CHR '':'') = CHR '':''" "lower_char (CHR ''-'') = CHR ''-''"
  "lower_char (CHR ''.'') = CHR ''.''"
  by (simp_all add: lower_char_def)

lemma parse_mac_lower [simp]: "parse_mac (to_lower s) = parse_mac s"
proof (cases "length s < 14")
  case False
  then have n2: "to_lower s ! 2 = lower_char (s ! 2)" and n4: "to_lower s ! 4 = lower_char (s ! 4)"
    by (simp_all add: to_lower_def)
  show ?thesis
    unfolding parse_mac_def n2 n4 length_to_lower
    by (auto simp: mac_groups2_lower mac_groups4_lower)
qed (simp add: parse_mac_def)

lemma mac_groups2_length: "mac_groups2 sep s = Some bs \<Longrightarrow> length s + 1 = 3 * length bs"
  by (induction sep s arbitrary: bs rule: mac_groups2.induct) (auto split: if_splits option.splits)

lemma mac_groups4_length: "mac_groups4 sep s = Some bs \<Longrightarrow> 2 * (length s + 1) = 5 * length bs"
  by (induction sep s arbitrary: bs rule: mac_groups4.induct) (auto split: if_splits option.splits)

lemma parse_mac_size: "parse_mac s = Some bs \<Longrightarrow> mac_size (length bs)"
  by (auto simp: parse_mac_def split: if_splits dest!: mac_groups2_length mac_groups4_length)

section \<open>IP addresses\<close>

type_synonym ip = "bytes option"

definition v4in6_prefix :: bytes where
  "v4in6_prefix = [0, 0, 0, 0, 0, 0, 0, 0, 0, 0, 255, 255]"

definition net_IPv4 :: "byte \<Rightarrow> byte \<Rightarrow> byte \<Rightarrow> byte \<Rightarrow> ip" where
  "net_IPv4 a b c d = Some (v4in6_prefix @ [a, b, c, d])"

definition IPv4zero :: ip where "IPv4zero = net_IPv4 0 0 0 0"
definition IPv4bcast :: ip where "IPv4bcast = net_IPv4 255 255 255 255"

definition to4 :: "ip \<Rightarrow> ip" where
  "to4 ip = (case ip of None \<Rightarrow> None | Some b \<Rightarrow>
     if length b = 4 then Some b
     else if length b = 16 \<and> take 12 b = v4in6_prefix then Some (drop 12 b) else None)"

definition ip_bytes :: "ip \<Rightarrow> bytes" where
  \<comment> \<open>the slice as a list; a nil slice has length 0\<close>
  "ip_bytes ip = (case ip of None \<Rightarrow> [] | Some b \<Rightarrow> b)"

definition ip_equal :: "ip \<Rightarrow> ip \<Rightarrow> bool" where
  "ip_equal x y = (let a = ip_bytes x; b = ip_bytes y in
     if length a = length b then a = b
     else if length a = 4 \<and> length b = 16 then take 12 b = v4in6_prefix \<and> a = drop 12 b
     else if length a = 16 \<and> length b = 4 then take 12 a = v4in6_prefix \<and> b = drop 12 a
     else False)"

definition clone_ip :: "ip \<Rightarrow> ip" where
  \<comment> \<open>\<open>cloneIP\<close> of the packages session, ipam, gtpu and accessside: appending an empty slice
    to a nil one gives nil\<close>
  "clone_ip ip = (case ip of None \<Rightarrow> None | Some b \<Rightarrow> if b = [] then None else Some b)"

fun join :: "string \<Rightarrow> string list \<Rightarrow> string" where
  "join sep [] = []"
| "join sep [x] = x"
| "join sep (x # xs) = x @ sep @ join sep xs"

definition dotted :: "bytes \<Rightarrow> string" where
  "dotted q = join [CHR ''.''] (map (\<lambda>b. dec (unat b)) q)"

fun hex_nat :: "nat \<Rightarrow> string" where
  \<comment> \<open>\<open>%x\<close>\<close>
  "hex_nat n = (if n < 16 then [hex_digit n] else hex_nat (n div 16) @ [hex_digit (n mod 16)])"

declare hex_nat.simps [simp del]

fun groups16 :: "bytes \<Rightarrow> u16 list" where
  "groups16 (a # b # rest) = be16 a b # groups16 rest"
| "groups16 _ = []"

definition zero_run :: "u16 list \<Rightarrow> nat \<Rightarrow> nat" where
  "zero_run gs i = length (takeWhile (\<lambda>g. g = 0) (drop i gs))"

definition best_zeros :: "u16 list \<Rightarrow> (nat \<times> nat) option" where
  \<comment> \<open>the leftmost longest run of at least two zero groups\<close>
  "best_zeros gs = fold (\<lambda>i best. let l = zero_run gs i in
      if 2 \<le> l \<and> (case best of None \<Rightarrow> True | Some (s, e) \<Rightarrow> e - s < l) then Some (i, i + l) else best)
    [0..<8] None"

definition string6 :: "bytes \<Rightarrow> string" where
  "string6 b = (let gs = groups16 b; hx = map (\<lambda>g. hex_nat (unat g)) gs in
     case best_zeros gs of None \<Rightarrow> join '':'' hx
     | Some (s, e) \<Rightarrow> join '':'' (take s hx) @ ''::'' @ join '':'' (drop e hx))"

definition ip_string :: "ip \<Rightarrow> string" where
  \<comment> \<open>\<open>IP.String\<close>\<close>
  "ip_string ip = (let b = ip_bytes ip in
     if b = [] then ''<nil>''
     else if length b \<noteq> 4 \<and> length b \<noteq> 16 then CHR ''?'' # concat (map hex2 b)
     else (case to4 ip of Some q \<Rightarrow> dotted q | None \<Rightarrow> string6 b))"

definition ip_string_or_empty :: "ip \<Rightarrow> string" where
  \<comment> \<open>the \<open>ipString\<close> helper every package carries\<close>
  "ip_string_or_empty ip = (if ip = None then [] else ip_string ip)"

subsection \<open>Parsing\<close>

definition octet_field :: "string \<Rightarrow> byte option" where
  "octet_field s = (if s = [] \<or> \<not> all_digits s \<or> (1 < length s \<and> hd s = CHR ''0'') \<or> 255 < undec s
     then None else Some (word_of_nat (undec s)))"

definition parse_v4 :: "string \<Rightarrow> bytes option" where
  "parse_v4 s = (case map octet_field (split_on (CHR ''.'') s) of
     [Some a, Some b, Some c, Some d] \<Rightarrow> Some [a, b, c, d] | _ \<Rightarrow> None)"

definition hex_value :: "string \<Rightarrow> nat" where
  "hex_value s = foldl (\<lambda>a c. 16 * a + (case hex_val c of None \<Rightarrow> 0 | Some n \<Rightarrow> n)) 0 s"

function parse_v6_loop :: "string \<Rightarrow> bytes \<Rightarrow> nat option \<Rightarrow> (string \<times> bytes \<times> nat option) option" where
  "parse_v6_loop s ip ell =
     (if 16 \<le> length ip then Some (s, ip, ell)
      else let ds = takeWhile (\<lambda>c. hex_val c \<noteq> None) s; rest = drop (length ds) s;
               v = word_of_nat (hex_value ds); ip' = ip @ put16 v in
        if ds = [] \<or> 4 < length ds then None
        else if rest \<noteq> [] \<and> hd rest = CHR ''.'' then
          (if ell = None \<and> length ip \<noteq> 12 then None
           else if 16 < length ip + 4 then None
           else (case parse_v4 s of None \<Rightarrow> None | Some q \<Rightarrow> Some ([], ip @ q, ell)))
        else if rest = [] then Some ([], ip', ell)
        else if hd rest \<noteq> CHR '':'' \<or> tl rest = [] then None
        else let t = tl rest in
          if hd t = CHR '':'' then
            (if ell \<noteq> None then None
             else if tl t = [] then Some ([], ip', Some (length ip'))
             else parse_v6_loop (tl t) ip' (Some (length ip')))
          else parse_v6_loop t ip' ell)"
  by pat_completeness auto
termination
  by (relation "measure (\<lambda>(s, ip, ell). 16 - length ip)") (auto simp: Let_def)

declare parse_v6_loop.simps [simp del]

definition expand_v6 :: "(string \<times> bytes \<times> nat option) option \<Rightarrow> bytes option" where
  "expand_v6 r = (case r of None \<Rightarrow> None | Some (s, ip, ell) \<Rightarrow>
     if s \<noteq> [] then None
     else if length ip < 16 then
       (case ell of None \<Rightarrow> None
        | Some e \<Rightarrow> Some (take e ip @ replicate (16 - length ip) 0 @ drop e ip))
     else if ell \<noteq> None then None else Some ip)"

definition parse_v6 :: "string \<Rightarrow> bytes option" where
  "parse_v6 s = (if CHR ''%'' \<in> set s then None
     else if take 2 s = ''::'' then
       (if length s = 2 then Some (replicate 16 0) else expand_v6 (parse_v6_loop (drop 2 s) [] (Some 0)))
     else expand_v6 (parse_v6_loop s [] None))"

definition parse_addr :: "string \<Rightarrow> (bool \<times> bytes) option" where
  \<comment> \<open>\<open>netip.ParseAddr\<close> without a zone: the flag says an IPv4 address was written\<close>
  "parse_addr s = (case dropWhile (\<lambda>c. c \<notin> {CHR ''.'', CHR '':'', CHR ''%''}) s of
      [] \<Rightarrow> None
    | c # _ \<Rightarrow> if c = CHR ''.'' then map_option (\<lambda>q. (True, q)) (parse_v4 s)
               else if c = CHR '':'' then map_option (\<lambda>q. (False, q)) (parse_v6 s) else None)"

definition parse_ip :: "string \<Rightarrow> ip" where
  \<comment> \<open>\<open>net.ParseIP\<close>: always the 16-byte form\<close>
  "parse_ip s = map_option (\<lambda>(v4, q). if v4 then v4in6_prefix @ q else q) (parse_addr s)"

section \<open>Networks\<close>

record ipnet =
  net_ip :: bytes
  net_mask :: bytes

definition cidr_mask :: "nat \<Rightarrow> nat \<Rightarrow> bytes" where
  \<comment> \<open>\<open>net.CIDRMask(ones, 8 * len)\<close>\<close>
  "cidr_mask ones len = map (\<lambda>i. NOT (drop_bit (min 8 (ones - 8 * i)) 255)) [0..<len]"

definition mask_bytes :: "bytes \<Rightarrow> bytes \<Rightarrow> bytes" where
  "mask_bytes ip m = map2 (AND) ip m"

definition parse_cidr :: "string \<Rightarrow> ipnet option" where
  "parse_cidr s = (case split2 (CHR ''/'') s of None \<Rightarrow> None
     | Some (a, n) \<Rightarrow> (case parse_addr a of None \<Rightarrow> None
        | Some (v4, q) \<Rightarrow>
           if n = [] \<or> \<not> all_digits n \<or> 8 * length q < undec n then None
           else let m = cidr_mask (undec n) (length q)
                in Some \<lparr>net_ip = mask_bytes q m, net_mask = m\<rparr>))"

definition ipnet_contains :: "ipnet \<Rightarrow> ip \<Rightarrow> bool" where
  "ipnet_contains n x = (let (nn, m) = (case to4 (Some (net_ip n)) of
        Some q \<Rightarrow> (q, if length (net_mask n) = 16 then drop 12 (net_mask n) else net_mask n)
      | None \<Rightarrow> (net_ip n, net_mask n));
     b = (case to4 x of Some q \<Rightarrow> q | None \<Rightarrow> ip_bytes x)
     in length b = length nn \<and> mask_bytes nn m = mask_bytes b m)"

section \<open>Facts\<close>

lemma to4_v4 [simp]: "to4 (Some [a, b, c, d]) = Some [a, b, c, d]"
  by (simp add: to4_def)

lemma length_v4in6_prefix [simp]: "length v4in6_prefix = 12"
  by (simp add: v4in6_prefix_def)

lemma to4_net_IPv4 [simp]: "to4 (net_IPv4 a b c d) = Some [a, b, c, d]"
  by (simp add: to4_def net_IPv4_def)

lemma to4_length: "to4 x = Some q \<Longrightarrow> length q = 4"
  by (auto simp: to4_def split: option.splits if_splits)

lemma to4_idem: "to4 x = Some q \<Longrightarrow> to4 (Some q) = Some q"
  using to4_length by (auto simp: to4_def)

lemma clone_ip_None [simp]: "clone_ip None = None"
  by (simp add: clone_ip_def)

lemma clone_ip_idem [simp]: "clone_ip (clone_ip x) = clone_ip x"
  by (auto simp: clone_ip_def split: option.splits)

lemma ip_equal_refl [simp]: "ip_equal x x"
  by (simp add: ip_equal_def)

lemma ip_equal_sym: "ip_equal x y = ip_equal y x"
  by (auto simp: ip_equal_def Let_def)

lemma octet_field_dec [simp]: "octet_field (dec (unat b)) = Some b"
proof -
  have "\<not> (1 < length (dec (unat b)) \<and> hd (dec (unat b)) = CHR ''0'')"
    using hd_dec_zero [of "unat b"] by (auto simp: dec_single)
  moreover have "\<not> 255 < unat b" using unat_byte_less [of b] by linarith
  ultimately show ?thesis by (simp add: octet_field_def)
qed

lemma dot_notin_dec [simp]: "CHR ''.'' \<notin> set (dec n)"
  using sep_notin_dec by blast

lemma parse_v4_dotted [simp]: "parse_v4 (dotted [a, b, c, d]) = Some [a, b, c, d]"
  by (simp add: parse_v4_def dotted_def split_on_append split_on_no_sep)

lemma dotted_inject:
  assumes "length p = 4" "length q = 4" shows "dotted p = dotted q \<longleftrightarrow> p = q"
proof -
  from assms obtain a b c d a' b' c' d' where "p = [a, b, c, d]" "q = [a', b', c', d']"
    by (auto simp: numeral_eq_Suc length_Suc_conv)
  then show ?thesis by (metis option.inject parse_v4_dotted)
qed

lemma ip_string_v4: "to4 x = Some q \<Longrightarrow> ip_string x = dotted q"
  by (auto simp: ip_string_def ip_bytes_def to4_def Let_def split: option.splits if_splits)

lemma ip_string_v4_inject:
  assumes "to4 x = Some p" "to4 y = Some q"
  shows "ip_string x = ip_string y \<longleftrightarrow> p = q"
  using assms by (simp add: ip_string_v4 dotted_inject to4_length)

end
