(* ===== verification/Session.thy ===== *)
theory Session
  imports Net
begin

text \<open>
  The data of package session (\<open>internal/session/session.go\<close>): the life-cycle states of a
  subscriber session, the session itself, the entries of the authentication cache and the
  recovery tombstones. A field keeps the name it has in the code behind the prefix of its
  record. Times are nanoseconds since the Unix epoch and \<open>time.Time{}\<close> is \<open>zero_time\<close>.
\<close>

type_synonym time = int

definition zero_time :: time where
  \<comment> \<open>the instant of \<open>time.Time{}\<close>, year 1\<close>
  "zero_time = -62135596800000000000"

definition time_is_zero :: "time \<Rightarrow> bool" where
  "time_is_zero t \<longleftrightarrow> t = zero_time"

definition seconds :: "int \<Rightarrow> int" where
  "seconds n = n * 1000000000"

datatype state = Pending | AuthPending | Authorized | IPAllocated | PGWPending
  | Active | Recovering | Terminating | Terminated | Failed

datatype recovery_state = RecoveryNone | RecoveryRequired | RecoveryDisconnecting
  | RecoveryWaitingAccountingStop | RecoveryWaitingReauth | RecoveryFallback
  | RecoveryCompleted | RecoveryExpired

record session =
  s_ID :: string
  s_IMSI :: string
  s_MSISDN :: string
  s_MACAddress :: string
  s_APN :: string
  s_Realm :: string
  s_Username :: string
  s_EAPIdentity :: string
  s_CallingStationID :: string
  s_CalledStationID :: string
  s_NASIP :: string
  s_NASIdentifier :: string
  s_AcctSessionID :: string
  s_AcctMultiSessionID :: string
  s_AccountingActive :: bool
  s_AccountingAtRisk :: bool
  s_LastAccountingAt :: time
  s_AcctInputOctets :: u64
  s_AcctOutputOctets :: u64
  s_AcctInputPackets :: u64
  s_AcctOutputPackets :: u64
  s_AcctTerminateCause :: string
  s_RadiusState :: string
  s_RadiusClass :: bytes
  s_ConnectInfo :: string
  s_FramedMTU :: u32
  s_SubscriberIP :: ip
  s_GatewayIP :: ip
  s_AccessType :: string
  s_AccessInterface :: string
  s_PGWControlIP :: ip
  s_PGWUserIP :: ip
  s_GTPCTEID :: u32
  s_LocalGTPUTEID :: u32
  s_RemoteGTPUTEID :: u32
  s_GTPUErrorCount :: u64
  s_LastGTPUErrorAt :: time
  s_LastGTPUErrorTEID :: u32
  s_Authenticated :: bool
  s_Authorized :: bool
  s_State :: state
  s_CreatedAt :: time
  s_UpdatedAt :: time
  s_ExpiresAt :: time
  s_Reason :: string

definition zero_session :: session where
  \<comment> \<open>the Go zero value of the type\<close>
  "zero_session = \<lparr> s_ID = [], s_IMSI = [], s_MSISDN = [], s_MACAddress = [], s_APN = [],
     s_Realm = [], s_Username = [], s_EAPIdentity = [], s_CallingStationID = [],
     s_CalledStationID = [], s_NASIP = [], s_NASIdentifier = [], s_AcctSessionID = [],
     s_AcctMultiSessionID = [], s_AccountingActive = False, s_AccountingAtRisk = False,
     s_LastAccountingAt = zero_time, s_AcctInputOctets = 0, s_AcctOutputOctets = 0,
     s_AcctInputPackets = 0, s_AcctOutputPackets = 0, s_AcctTerminateCause = [],
     s_RadiusState = [], s_RadiusClass = [], s_ConnectInfo = [], s_FramedMTU = 0,
     s_SubscriberIP = None, s_GatewayIP = None, s_AccessType = [], s_AccessInterface = [],
     s_PGWControlIP = None, s_PGWUserIP = None, s_GTPCTEID = 0, s_LocalGTPUTEID = 0,
     s_RemoteGTPUTEID = 0, s_GTPUErrorCount = 0, s_LastGTPUErrorAt = zero_time,
     s_LastGTPUErrorTEID = 0, s_Authenticated = False, s_Authorized = False,
     s_State = Pending, s_CreatedAt = zero_time, s_UpdatedAt = zero_time,
     s_ExpiresAt = zero_time, s_Reason = [] \<rparr>"

record auth_entry =
  a_MACAddress :: string
  a_IMSI :: string
  a_UserName :: string
  a_APN :: string
  a_MSISDN :: string
  a_NASIP :: string
  a_NASIdentifier :: string
  a_CalledStationID :: string
  a_CallingStationID :: string
  a_SSID :: string
  a_BSSID :: string
  a_AcctSessionID :: string
  a_SessionTimeoutSeconds :: int
  a_AuthStartTime :: time
  a_AuthExpiresAt :: time
  a_LastSeenTime :: time
  a_LastAccessAcceptSessionID :: string
  a_LastAccountingStopAt :: time
  a_LastAccountingStopCause :: string

text \<open>\<open>AuthCacheUpdate\<close> has exactly the fields of an entry.\<close>

type_synonym auth_update = auth_entry

definition zero_auth :: auth_entry where
  "zero_auth = \<lparr> a_MACAddress = [], a_IMSI = [], a_UserName = [], a_APN = [], a_MSISDN = [],
     a_NASIP = [], a_NASIdentifier = [], a_CalledStationID = [], a_CallingStationID = [],
     a_SSID = [], a_BSSID = [], a_AcctSessionID = [], a_SessionTimeoutSeconds = 0,
     a_AuthStartTime = zero_time, a_AuthExpiresAt = zero_time, a_LastSeenTime = zero_time,
     a_LastAccessAcceptSessionID = [], a_LastAccountingStopAt = zero_time,
     a_LastAccountingStopCause = [] \<rparr>"

record tombstone =
  t_MAC :: "bytes option"
  t_IMSI :: string
  t_APN :: string
  t_OldSubscriberIP :: ip
  t_OldSessionID :: string
  t_OldRemoteTEID :: u32
  t_OldLocalTEID :: u32
  t_OriginalUsername :: string
  t_EAPIdentity :: string
  t_RadiusState :: string
  t_NASIP :: string
  t_NASIdentifier :: string
  t_AcctSessionID :: string
  t_CallingStationID :: string
  t_CalledStationID :: string
  t_Class :: bytes
  t_ConnectInfo :: string
  t_FramedMTU :: u32
  t_Reason :: string
  t_State :: recovery_state
  t_CreatedAt :: time
  t_ExpiresAt :: time
  t_LastAction :: string
  t_LastError :: string

text \<open>\<open>clone\<close> copies the slices; on values it is the identity except that an empty, non-nil
  address becomes nil.\<close>

definition clone :: "session \<Rightarrow> session" where
  "clone s = s\<lparr> s_SubscriberIP := clone_ip (s_SubscriberIP s),
     s_GatewayIP := clone_ip (s_GatewayIP s), s_PGWControlIP := clone_ip (s_PGWControlIP s),
     s_PGWUserIP := clone_ip (s_PGWUserIP s) \<rparr>"

lemma clone_idem [simp]: "clone (clone s) = clone s"
  by (simp add: clone_def)

lemma clone_fields [simp]:
  "s_ID (clone s) = s_ID s" "s_IMSI (clone s) = s_IMSI s" "s_APN (clone s) = s_APN s"
  "s_MACAddress (clone s) = s_MACAddress s" "s_State (clone s) = s_State s"
  "s_Authenticated (clone s) = s_Authenticated s" "s_Authorized (clone s) = s_Authorized s"
  "s_GTPCTEID (clone s) = s_GTPCTEID s" "s_ExpiresAt (clone s) = s_ExpiresAt s"
  "s_SubscriberIP (clone s) = clone_ip (s_SubscriberIP s)"
  "s_MSISDN (clone s) = s_MSISDN s" "s_Reason (clone s) = s_Reason s"
  "s_RemoteGTPUTEID (clone s) = s_RemoteGTPUTEID s" "s_LocalGTPUTEID (clone s) = s_LocalGTPUTEID s"
  "s_AcctSessionID (clone s) = s_AcctSessionID s" "s_NASIP (clone s) = s_NASIP s"
  "s_NASIdentifier (clone s) = s_NASIdentifier s"
  by (simp_all add: clone_def)

end
