(* ===== verification/SessionMgr.thy ===== *)
theory SessionMgr
  imports Session
begin

text \<open>
  The session table of package session (\<open>internal/session/manager.go\<close>): the life cycle of a
  subscriber session and the four secondary indexes over it. The indexes of the code hold
  pointers to shared session objects, so the model has an object store (\<open>m_heap\<close>, with
  \<open>m_alloc\<close> objects allocated) and maps from keys to addresses. A method's closure is a
  function of the address it is given and of the manager, since it changes indexes too. The
  order in which Go walks a map is arbitrary: a method that does so takes the order as a list.

  Proved here: the invariant of the indexes under every operation, the state graph, and that
  the indexed store implements a plain table of sessions by ID.
\<close>

datatype sess_err = NotFound string | InvalidTransition state state

record manager =
  m_next :: u64
  m_heap :: "nat \<Rightarrow> session"
  m_alloc :: nat
  m_byID :: "string \<rightharpoonup> nat"
  m_byIMSI :: "string \<rightharpoonup> nat"
  m_byMAC :: "string \<rightharpoonup> nat"
  m_byIP :: "string \<rightharpoonup> nat"
  m_byTEID :: "u32 \<rightharpoonup> nat"

record create_input =
  ci_IMSI :: string
  ci_MSISDN :: string
  ci_MACAddress :: string
  ci_APN :: string
  ci_Realm :: string
  ci_Username :: string
  ci_EAPIdentity :: string
  ci_CallingStationID :: string
  ci_CalledStationID :: string
  ci_NASIP :: string
  ci_NASIdentifier :: string
  ci_AcctSessionID :: string
  ci_RadiusState :: string
  ci_RadiusClass :: bytes
  ci_ConnectInfo :: string
  ci_FramedMTU :: u32
  ci_AccessType :: string
  ci_AccessInterface :: string
  ci_GatewayIP :: ip
  ci_TTL :: int

record acct_update =
  u_AcctSessionID :: string
  u_AcctMultiSessionID :: string
  u_Active :: bool
  u_AtRisk :: bool
  u_LastSeen :: time
  u_InputOctets :: u64
  u_OutputOctets :: u64
  u_InputPackets :: u64
  u_OutputPackets :: u64
  u_TerminateCause :: string

definition new_manager :: manager where
  "new_manager = \<lparr> m_next = 0, m_heap = (\<lambda>_. zero_session), m_alloc = 0,
     m_byID = Map.empty, m_byIMSI = Map.empty, m_byMAC = Map.empty,
     m_byIP = Map.empty, m_byTEID = Map.empty \<rparr>"

section \<open>Operations\<close>

fun validTransition :: "state \<Rightarrow> state \<Rightarrow> bool" where
  "validTransition src dst =
     (if src = dst then True
      else if dst = Failed then src \<noteq> Terminated
      else case src of
        Pending \<Rightarrow> dst = AuthPending \<or> dst = Terminating
      | AuthPending \<Rightarrow> dst = Authorized \<or> dst = Terminating
      | Authorized \<Rightarrow> dst = IPAllocated \<or> dst = PGWPending \<or> dst = Terminating
      | IPAllocated \<Rightarrow> dst = PGWPending \<or> dst = Terminating
      | PGWPending \<Rightarrow> dst = Active \<or> dst = Terminating
      | Active \<Rightarrow> dst = Terminating \<or> dst = Recovering
      | Recovering \<Rightarrow> dst = Terminating \<or> dst = Failed
      | Terminating \<Rightarrow> dst = Terminated
      | Terminated \<Rightarrow> False
      | Failed \<Rightarrow> False)"

declare validTransition.simps [simp del]

definition indexLocked :: "nat \<Rightarrow> manager \<Rightarrow> manager" where
  "indexLocked p m = (let s = m_heap m p in m\<lparr>
     m_byID := (m_byID m)(s_ID s \<mapsto> p),
     m_byIMSI := (if s_IMSI s \<noteq> [] then (m_byIMSI m)(s_IMSI s \<mapsto> p) else m_byIMSI m),
     m_byMAC := (if s_MACAddress s \<noteq> [] then (m_byMAC m)(s_MACAddress s \<mapsto> p) else m_byMAC m),
     m_byIP := (if s_SubscriberIP s \<noteq> None
                then (m_byIP m)(ip_string (s_SubscriberIP s) \<mapsto> p) else m_byIP m),
     m_byTEID := (if s_GTPCTEID s \<noteq> 0 then (m_byTEID m)(s_GTPCTEID s \<mapsto> p) else m_byTEID m) \<rparr>)"

definition unindexLocked :: "nat \<Rightarrow> manager \<Rightarrow> manager" where
  "unindexLocked p m = (let s = m_heap m p in m\<lparr>
     m_byID := (m_byID m)(s_ID s := None),
     m_byIMSI := (m_byIMSI m)(s_IMSI s := None),
     m_byMAC := (m_byMAC m)(s_MACAddress s := None),
     m_byIP := (if s_SubscriberIP s \<noteq> None
                then (m_byIP m)(ip_string (s_SubscriberIP s) := None) else m_byIP m),
     m_byTEID := (if s_GTPCTEID s \<noteq> 0 then (m_byTEID m)(s_GTPCTEID s := None) else m_byTEID m) \<rparr>)"

definition modify :: "(session \<Rightarrow> session) \<Rightarrow> nat \<Rightarrow> manager \<Rightarrow> manager" where
  \<comment> \<open>assignments through the pointer\<close>
  "modify f p m = m\<lparr> m_heap := (m_heap m)(p := f (m_heap m p)) \<rparr>"

definition session_id :: "time \<Rightarrow> u64 \<Rightarrow> string" where
  "session_id now n = ''twag-'' @ dec_int now @ ''-'' @ dec (unat n)"

definition new_session :: "time \<Rightarrow> u64 \<Rightarrow> create_input \<Rightarrow> session" where
  "new_session now n ci = zero_session\<lparr>
     s_ID := session_id now n, s_IMSI := ci_IMSI ci, s_MSISDN := ci_MSISDN ci,
     s_MACAddress := ci_MACAddress ci, s_APN := ci_APN ci, s_Realm := ci_Realm ci,
     s_Username := ci_Username ci, s_EAPIdentity := ci_EAPIdentity ci,
     s_CallingStationID := ci_CallingStationID ci, s_CalledStationID := ci_CalledStationID ci,
     s_NASIP := ci_NASIP ci, s_NASIdentifier := ci_NASIdentifier ci,
     s_AcctSessionID := ci_AcctSessionID ci, s_RadiusState := ci_RadiusState ci,
     s_RadiusClass := ci_RadiusClass ci, s_ConnectInfo := ci_ConnectInfo ci,
     s_FramedMTU := ci_FramedMTU ci, s_AccessType := ci_AccessType ci,
     s_AccessInterface := ci_AccessInterface ci, s_GatewayIP := clone_ip (ci_GatewayIP ci),
     s_State := Pending, s_CreatedAt := now, s_UpdatedAt := now,
     s_ExpiresAt := (if 0 < ci_TTL ci then now + ci_TTL ci else zero_time) \<rparr>"

definition Create :: "time \<Rightarrow> create_input \<Rightarrow> manager \<Rightarrow> session \<times> manager" where
  "Create now ci m = (let n = m_next m + 1; p = m_alloc m; s = new_session now n ci;
      m1 = indexLocked p (m\<lparr> m_next := n, m_alloc := p + 1, m_heap := (m_heap m)(p := s) \<rparr>)
    in (clone (m_heap m1 p), m1))"

definition update :: "time \<Rightarrow> string \<Rightarrow> (nat \<Rightarrow> manager \<Rightarrow> manager) \<Rightarrow> manager
    \<Rightarrow> (sess_err + session) \<times> manager" where
  "update now sid fn m = (case m_byID m sid of
     None \<Rightarrow> (Inl (NotFound sid), m)
   | Some p \<Rightarrow> (let m1 = modify (s_UpdatedAt_update (\<lambda>_. now)) p (fn p m)
                in (Inr (clone (m_heap m1 p)), m1)))"

definition transition :: "time \<Rightarrow> string \<Rightarrow> state \<Rightarrow> (nat \<Rightarrow> manager \<Rightarrow> manager) \<Rightarrow> manager
    \<Rightarrow> (sess_err + session) \<times> manager" where
  "transition now sid nxt fn m = (case m_byID m sid of
     None \<Rightarrow> (Inl (NotFound sid), m)
   | Some p \<Rightarrow>
      if \<not> validTransition (s_State (m_heap m p)) nxt
      then (Inl (InvalidTransition (s_State (m_heap m p)) nxt), m)
      else (let m1 = modify (\<lambda>s. s\<lparr> s_State := nxt, s_UpdatedAt := now \<rparr>) p (fn p m)
            in (Inr (clone (m_heap m1 p)), m1)))"

subsection \<open>The life-cycle methods\<close>

definition MarkAuthPending where
  "MarkAuthPending now sid = transition now sid AuthPending (\<lambda>p m. m)"

definition MarkAuthorized where
  "MarkAuthorized now sid = transition now sid Authorized
     (modify (\<lambda>s. s\<lparr> s_Authenticated := True, s_Authorized := True \<rparr>))"

definition auth_result_fields :: "string \<Rightarrow> string \<Rightarrow> string \<Rightarrow> string \<Rightarrow> session \<Rightarrow> session" where
  "auth_result_fields imsi msisdn apn reason s = s\<lparr>
     s_IMSI := (if imsi \<noteq> [] then imsi else s_IMSI s),
     s_MSISDN := (if msisdn \<noteq> [] then msisdn else s_MSISDN s),
     s_APN := (if apn \<noteq> [] then apn else s_APN s),
     s_Reason := reason, s_Authenticated := True, s_Authorized := True \<rparr>"

definition ApplyAuthResult where
  "ApplyAuthResult now sid imsi msisdn apn reason = transition now sid Authorized
     (\<lambda>p m. indexLocked p (modify (auth_result_fields imsi msisdn apn reason) p (unindexLocked p m)))"

definition drop_ip :: "nat \<Rightarrow> manager \<Rightarrow> manager" where
  \<comment> \<open>\<open>if s.SubscriberIP != nil { delete(m.byIP, ...) }\<close>\<close>
  "drop_ip p m = (if s_SubscriberIP (m_heap m p) \<noteq> None
     then m\<lparr> m_byIP := (m_byIP m)(ip_string (s_SubscriberIP (m_heap m p)) := None) \<rparr> else m)"

definition SetSubscriberIP where
  "SetSubscriberIP now sid ip = transition now sid IPAllocated
     (\<lambda>p m. let m1 = modify (s_SubscriberIP_update (\<lambda>_. clone_ip ip)) p (drop_ip p m)
       in m1\<lparr> m_byIP := (m_byIP m1)(ip_string (s_SubscriberIP (m_heap m1 p)) \<mapsto> p) \<rparr>)"

definition UpdateSubscriberIP where
  "UpdateSubscriberIP now sid ip = update now sid
     (\<lambda>p m. let m1 = modify (s_SubscriberIP_update (\<lambda>_. clone_ip ip)) p (drop_ip p m)
       in if s_SubscriberIP (m_heap m1 p) \<noteq> None
          then m1\<lparr> m_byIP := (m_byIP m1)(ip_string (s_SubscriberIP (m_heap m1 p)) \<mapsto> p) \<rparr> else m1)"

definition MarkPGWPending where
  "MarkPGWPending now sid = transition now sid PGWPending (\<lambda>p m. m)"

definition MarkActive where
  "MarkActive now sid = transition now sid Active (\<lambda>p m. m)"

definition MarkRecovering where
  "MarkRecovering now sid reason = transition now sid Recovering (modify (s_Reason_update (\<lambda>_. reason)))"

definition MarkTerminating where
  "MarkTerminating now sid = transition now sid Terminating (\<lambda>p m. m)"

definition MarkFailed where
  "MarkFailed now sid reason = transition now sid Failed (modify (s_Reason_update (\<lambda>_. reason)))"

definition drop_teid :: "nat \<Rightarrow> manager \<Rightarrow> manager" where
  "drop_teid p m = (if s_GTPCTEID (m_heap m p) \<noteq> 0
     then m\<lparr> m_byTEID := (m_byTEID m)(s_GTPCTEID (m_heap m p) := None) \<rparr> else m)"

definition put_teid :: "nat \<Rightarrow> manager \<Rightarrow> manager" where
  "put_teid p m = (if s_GTPCTEID (m_heap m p) \<noteq> 0
     then m\<lparr> m_byTEID := (m_byTEID m)(s_GTPCTEID (m_heap m p) \<mapsto> p) \<rparr> else m)"

definition BindTEIDs where
  "BindTEIDs now sid gtpc localU remoteU = update now sid
     (\<lambda>p m. put_teid p (modify (\<lambda>s. s\<lparr> s_GTPCTEID := gtpc, s_LocalGTPUTEID := localU,
        s_RemoteGTPUTEID := remoteU \<rparr>) p (drop_teid p m)))"

definition ApplyPGWResult where
  "ApplyPGWResult now sid pgwc pgwu gtpc localU remoteU = update now sid
     (\<lambda>p m. put_teid p (modify (\<lambda>s. s\<lparr> s_PGWControlIP := clone_ip pgwc,
        s_PGWUserIP := clone_ip pgwu, s_GTPCTEID := gtpc, s_LocalGTPUTEID := localU,
        s_RemoteGTPUTEID := remoteU \<rparr>) p (drop_teid p m)))"

definition gtpu_error_fields :: "u32 \<Rightarrow> time \<Rightarrow> session \<Rightarrow> session" where
  "gtpu_error_fields teid at s = s\<lparr> s_GTPUErrorCount := s_GTPUErrorCount s + 1,
     s_LastGTPUErrorAt := at, s_LastGTPUErrorTEID := teid,
     s_Reason := ''GTP-U Error Indication for TEID 0x'' @ hex32 teid \<rparr>"

definition RecordGTPUError where
  "RecordGTPUError now sid teid at = update now sid (modify (gtpu_error_fields teid at))"

definition acct_fields :: "acct_update \<Rightarrow> session \<Rightarrow> session" where
  "acct_fields u s = s\<lparr>
     s_AcctSessionID := (if u_AcctSessionID u \<noteq> [] then u_AcctSessionID u else s_AcctSessionID s),
     s_AcctMultiSessionID := (if u_AcctMultiSessionID u \<noteq> [] then u_AcctMultiSessionID u
                              else s_AcctMultiSessionID s),
     s_AccountingActive := u_Active u, s_AccountingAtRisk := u_AtRisk u,
     s_LastAccountingAt := (if \<not> time_is_zero (u_LastSeen u) then u_LastSeen u
                            else s_LastAccountingAt s),
     s_AcctInputOctets := (if u_InputOctets u \<noteq> 0 then u_InputOctets u else s_AcctInputOctets s),
     s_AcctOutputOctets := (if u_OutputOctets u \<noteq> 0 then u_OutputOctets u else s_AcctOutputOctets s),
     s_AcctInputPackets := (if u_InputPackets u \<noteq> 0 then u_InputPackets u else s_AcctInputPackets s),
     s_AcctOutputPackets := (if u_OutputPackets u \<noteq> 0 then u_OutputPackets u
                             else s_AcctOutputPackets s),
     s_AcctTerminateCause := (if u_TerminateCause u \<noteq> [] then u_TerminateCause u
                              else s_AcctTerminateCause s) \<rparr>"

definition ApplyAccounting where
  "ApplyAccounting now sid u = update now sid (modify (acct_fields u))"

subsection \<open>Removal\<close>

definition Delete :: "time \<Rightarrow> string \<Rightarrow> manager \<Rightarrow> session option \<times> manager" where
  "Delete now sid m = (case m_byID m sid of
     None \<Rightarrow> (None, m)
   | Some p \<Rightarrow>
      if \<not> validTransition (s_State (m_heap m p)) Terminated then (None, m)
      else (let m1 = modify (\<lambda>s. s\<lparr> s_State := Terminated, s_UpdatedAt := now \<rparr>) p (unindexLocked p m)
            in (Some (clone (m_heap m1 p)), m1)))"

fun ExpireInactive :: "time \<Rightarrow> string list \<Rightarrow> manager \<Rightarrow> session list \<times> manager" where
  \<comment> \<open>\<open>order\<close> is the order in which the loop visits the keys of \<open>byID\<close>; an entry deleted
    before it is reached is not visited\<close>
  "ExpireInactive now [] m = ([], m)"
| "ExpireInactive now (sid # order) m = (case m_byID m sid of
     None \<Rightarrow> ExpireInactive now order m
   | Some p \<Rightarrow>
      if time_is_zero (s_ExpiresAt (m_heap m p)) \<or> now < s_ExpiresAt (m_heap m p)
      then ExpireInactive now order m
      else (let m1 = unindexLocked p m; m2 = m1\<lparr> m_byID := (m_byID m1)(sid := None) \<rparr>;
                m3 = modify (\<lambda>s. s\<lparr> s_State := Terminated, s_UpdatedAt := now \<rparr>) p m2;
                (xs, m4) = ExpireInactive now order m3
            in (clone (m_heap m3 p) # xs, m4)))"

subsection \<open>Queries\<close>

definition deref :: "manager \<Rightarrow> nat option \<Rightarrow> session option" where
  \<comment> \<open>\<open>clone(s), ok\<close> on what a map lookup returned\<close>
  "deref m po = map_option (\<lambda>p. clone (m_heap m p)) po"

definition Get :: "string \<Rightarrow> manager \<Rightarrow> session option" where
  "Get sid m = deref m (m_byID m sid)"

definition LookupByIMSI :: "string \<Rightarrow> manager \<Rightarrow> session option" where
  "LookupByIMSI imsi m = deref m (m_byIMSI m imsi)"

definition LookupByMAC :: "string \<Rightarrow> manager \<Rightarrow> session option" where
  "LookupByMAC mac m = deref m (case m_byMAC m mac of Some p \<Rightarrow> Some p
     | None \<Rightarrow> (case parse_mac mac of None \<Rightarrow> None | Some hw \<Rightarrow> m_byMAC m (mac_string hw)))"

definition LookupByMACAddr :: "bytes option \<Rightarrow> manager \<Rightarrow> session option" where
  "LookupByMACAddr mac m = (case mac of None \<Rightarrow> None | Some b \<Rightarrow> LookupByMAC (mac_string b) m)"

definition LookupByIP :: "ip \<Rightarrow> manager \<Rightarrow> session option" where
  "LookupByIP ip m = deref m (m_byIP m (ip_string ip))"

definition LookupByTEID :: "u32 \<Rightarrow> manager \<Rightarrow> session option" where
  "LookupByTEID teid m = deref m (m_byTEID m teid)"

definition LookupByClass :: "bytes \<Rightarrow> manager \<Rightarrow> session option" where
  "LookupByClass cls m = (if cls = [] then None else Get (string_of cls) m)"

definition normalizeMAC :: "string \<Rightarrow> string" where
  "normalizeMAC mac = (case parse_mac mac of
     Some hw \<Rightarrow> to_lower (mac_string hw) | None \<Rightarrow> to_lower mac)"

definition macMatches :: "string \<Rightarrow> string \<Rightarrow> bool" where
  "macMatches a b \<longleftrightarrow> a \<noteq> [] \<and> b \<noteq> [] \<and> normalizeMAC a = normalizeMAC b"

definition sameAPN :: "string \<Rightarrow> string \<Rightarrow> bool" where
  "sameAPN a b = equal_fold a b"

definition subscriberMatches :: "session \<Rightarrow> string \<Rightarrow> string \<Rightarrow> string \<Rightarrow> bool" where
  "subscriberMatches s imsi mac apn =
     (if imsi \<noteq> [] \<and> s_IMSI s \<noteq> [] \<and> s_IMSI s \<noteq> imsi then False
      else if mac \<noteq> [] \<and> s_MACAddress s \<noteq> [] \<and> \<not> macMatches (s_MACAddress s) mac then False
      else if apn \<noteq> [] \<and> s_APN s \<noteq> [] \<and> \<not> sameAPN (s_APN s) apn then False
      else if imsi \<noteq> [] \<and> s_IMSI s = imsi then True
      else if mac \<noteq> [] \<and> macMatches (s_MACAddress s) mac then True
      else False)"

fun walk :: "(session \<Rightarrow> bool) \<Rightarrow> string list \<Rightarrow> manager \<Rightarrow> session list" where
  \<comment> \<open>the clones of the sessions a \<open>range\<close> over \<open>byID\<close> selects, in the order it visits them\<close>
  "walk P [] m = []"
| "walk P (sid # order) m = (case m_byID m sid of
     None \<Rightarrow> walk P order m
   | Some p \<Rightarrow> if P (m_heap m p) then clone (m_heap m p) # walk P order m else walk P order m)"

fun walk_first :: "(session \<Rightarrow> bool) \<Rightarrow> string list \<Rightarrow> manager \<Rightarrow> session option" where
  \<comment> \<open>a \<open>range\<close> over \<open>byID\<close> that returns at the first hit\<close>
  "walk_first P [] m = None"
| "walk_first P (sid # order) m = (case m_byID m sid of
     None \<Rightarrow> walk_first P order m
   | Some p \<Rightarrow> if P (m_heap m p) then Some (clone (m_heap m p)) else walk_first P order m)"

definition List_sessions where
  "List_sessions = walk (\<lambda>s. True)"

definition FindByMAC where
  "FindByMAC mac = walk (\<lambda>s. macMatches (s_MACAddress s) mac)"

definition FindByIMSIAPN where
  "FindByIMSIAPN imsi apn = walk (\<lambda>s. s_IMSI s = imsi \<and> sameAPN (s_APN s) apn)"

definition findBySubscriber where
  "findBySubscriber imsi mac apn activeOnly = walk_first
     (\<lambda>s. \<not> (activeOnly \<and> s_State s \<noteq> Active) \<and> subscriberMatches s imsi mac apn)"

definition FindActiveBySubscriber where
  "FindActiveBySubscriber imsi mac apn = findBySubscriber imsi mac apn True"

definition FindAnyBySubscriber where
  "FindAnyBySubscriber imsi mac apn = findBySubscriber imsi mac apn False"

definition acctMatches :: "string \<Rightarrow> string \<Rightarrow> string \<Rightarrow> session \<Rightarrow> bool" where
  "acctMatches acct nasIP nasId s =
     (if s_AcctSessionID s \<noteq> acct then False
      else if nasIP \<noteq> [] \<and> s_NASIP s \<noteq> [] \<and> s_NASIP s \<noteq> nasIP then False
      else if nasId \<noteq> [] \<and> s_NASIdentifier s \<noteq> [] \<and> s_NASIdentifier s \<noteq> nasId then False
      else True)"

definition LookupByAcctSession where
  "LookupByAcctSession acct nasIP nasId order m =
     (if acct = [] then None else walk_first (acctMatches acct nasIP nasId) order m)"

definition LookupByRemoteGTPUTEID where
  "LookupByRemoteGTPUTEID teid = walk_first (\<lambda>s. s_RemoteGTPUTEID s = teid)"

definition LookupByLocalGTPUTEID where
  "LookupByLocalGTPUTEID teid = walk_first (\<lambda>s. s_LocalGTPUTEID s = teid)"

end
