(* ===== verification/Machine.thy ===== *)
theory Machine
  imports Prelude
begin

text \<open>
  The interface of a component with a state and operations: every operation the environment
  may legally call keeps the component's invariant, and, when the component has an abstract
  specification, answers what the specification answers. The client's lemmas lift both from
  one operation to every legal sequence of operations. The session table, the address pool,
  the GTP transaction table and the tunnel table are instances.
\<close>

fun run :: "('op \<Rightarrow> 's \<Rightarrow> 'r \<times> 's) \<Rightarrow> 'op list \<Rightarrow> 's \<Rightarrow> 'r list \<times> 's" where
  "run step [] s = ([], s)"
| "run step (op # ops) s = (let (r, s1) = step op s; (rs, s2) = run step ops s1 in (r # rs, s2))"

fun legal :: "('op \<Rightarrow> 's \<Rightarrow> 'r \<times> 's) \<Rightarrow> ('op \<Rightarrow> 's \<Rightarrow> bool) \<Rightarrow> 'op list \<Rightarrow> 's \<Rightarrow> bool" where
  \<comment> \<open>every call is legal in the state it meets\<close>
  "legal step ok [] s \<longleftrightarrow> True"
| "legal step ok (op # ops) s \<longleftrightarrow> ok op s \<and> legal step ok ops (snd (step op s))"

lemma run_append:
  "run step (xs @ ys) s = (fst (run step xs s) @ fst (run step ys (snd (run step xs s))),
     snd (run step ys (snd (run step xs s))))"
  by (induction xs arbitrary: s) (auto simp: Let_def split: prod.splits)

lemma legal_append [simp]:
  "legal step ok (xs @ ys) s \<longleftrightarrow> legal step ok xs s \<and> legal step ok ys (snd (run step xs s))"
  by (induction xs arbitrary: s) (auto simp: Let_def split: prod.splits)

lemma run_Cons_snd [simp]: "snd (run step (op # ops) s) = snd (run step ops (snd (step op s)))"
  by (auto simp: Let_def split: prod.splits)

lemma run_Cons_fst [simp]:
  "fst (run step (op # ops) s) = fst (step op s) # fst (run step ops (snd (step op s)))"
  by (auto simp: Let_def split: prod.splits)

lemma length_run [simp]: "length (fst (run step ops s)) = length ops"
  by (induction ops arbitrary: s) (simp_all add: Let_def split_beta)

declare run.simps(2) [simp del]

locale machine =
  fixes step :: "'op \<Rightarrow> 's \<Rightarrow> 'r \<times> 's"
    and ok :: "'op \<Rightarrow> 's \<Rightarrow> bool"
    and inv :: "'s \<Rightarrow> bool"
  assumes step_inv: "inv s \<Longrightarrow> ok op s \<Longrightarrow> inv (snd (step op s))"
begin

lemma run_inv: "inv s \<Longrightarrow> legal step ok ops s \<Longrightarrow> inv (snd (run step ops s))"
proof (induction ops arbitrary: s)
  case (Cons op ops)
  then show ?case by (simp add: step_inv)
qed simp

lemma run_inv_prefix:
  assumes "inv s" "legal step ok (xs @ ys) s" shows "inv (snd (run step xs s))"
  using assms run_inv by simp

end

locale implements = machine step ok inv
  for step :: "'op \<Rightarrow> 's \<Rightarrow> 'r \<times> 's" and ok :: "'op \<Rightarrow> 's \<Rightarrow> bool" and inv :: "'s \<Rightarrow> bool" +
  fixes spec :: "'op \<Rightarrow> 'a \<Rightarrow> 'r \<times> 'a"
    and abs :: "'s \<Rightarrow> 'a"
  assumes simulates: "inv s \<Longrightarrow> ok op s \<Longrightarrow> spec op (abs s) = (fst (step op s), abs (snd (step op s)))"
begin

lemma run_simulates:
  "inv s \<Longrightarrow> legal step ok ops s \<Longrightarrow>
     run spec ops (abs s) = (fst (run step ops s), abs (snd (run step ops s)))"
proof (induction ops arbitrary: s)
  case (Cons op ops)
  then have "inv (snd (step op s))" "legal step ok ops (snd (step op s))"
    by (simp_all add: step_inv)
  with Cons.IH Cons.prems show ?case
    by (simp add: prod_eq_iff simulates)
qed simp

lemma same_replies:
  "inv s \<Longrightarrow> legal step ok ops s \<Longrightarrow> fst (run step ops s) = fst (run spec ops (abs s))"
  by (simp add: run_simulates)

end

end
