(* ===== verification/SessionInv.thy ===== *)
theory SessionInv
  imports SessionMgr Machine
begin

text \<open>
  The invariant of the session table. Every index entry points to an allocated session object
  that is in \<open>byID\<close> and carries the key it is filed under; IDs are those of \<open>session_id\<close> with
  counters already used, so a new one is fresh; no session in the table is \<open>terminated\<close>, and a
  session beyond \<open>auth_pending\<close> has been authenticated and authorised.
\<close>

section \<open>Sound indexes\<close>

definition sound :: "(session \<Rightarrow> 'k option) \<Rightarrow> ('k \<rightharpoonup> nat) \<Rightarrow> (string \<rightharpoonup> nat) \<Rightarrow> (nat \<Rightarrow> session) \<Rightarrow> bool"
  where "sound key mp ids h \<longleftrightarrow>
    (\<forall>k p. mp k = Some p \<longrightarrow> ids (s_ID (h p)) = Some p \<and> key (h p) = Some k)"

definition imsi_key :: "session \<Rightarrow> string option" where
  "imsi_key s = (if s_IMSI s \<noteq> [] then Some (s_IMSI s) else None)"

definition mac_key :: "session \<Rightarrow> string option" where
  "mac_key s = (if s_MACAddress s \<noteq> [] then Some (s_MACAddress s) else None)"

definition ip_key :: "session \<Rightarrow> string option" where
  "ip_key s = (if s_SubscriberIP s \<noteq> None then Some (ip_string (s_SubscriberIP s)) else None)"

definition teid_key :: "session \<Rightarrow> u32 option" where
  "teid_key s = (if s_GTPCTEID s \<noteq> 0 then Some (s_GTPCTEID s) else None)"

lemmas key_defs = imsi_key_def mac_key_def ip_key_def teid_key_def

definition put :: "'k option \<Rightarrow> nat \<Rightarrow> ('k \<rightharpoonup> nat) \<Rightarrow> ('k \<rightharpoonup> nat)" where
  "put ko p mp = (case ko of None \<Rightarrow> mp | Some k \<Rightarrow> mp(k \<mapsto> p))"

definition del :: "'k option \<Rightarrow> ('k \<rightharpoonup> nat) \<Rightarrow> ('k \<rightharpoonup> nat)" where
  "del ko mp = (case ko of None \<Rightarrow> mp | Some k \<Rightarrow> mp(k := None))"

lemma soundD:
  assumes "sound key mp ids h" "mp k = Some p"
  shows "ids (s_ID (h p)) = Some p" "key (h p) = Some k"
  using assms by (auto simp: sound_def)

lemma sound_empty [simp]: "sound key Map.empty ids h"
  by (simp add: sound_def)

lemma sound_del: "sound key mp ids h \<Longrightarrow> sound key (del ko mp) ids h"
  by (auto simp: sound_def del_def split: option.splits)

lemma del_unref: "sound key mp ids h \<Longrightarrow> p \<notin> ran (del (key (h p)) mp)"
  by (auto simp: sound_def del_def ran_def split: option.splits if_splits)

lemma sound_unref:
  assumes "sound key mp ids h" "p \<notin> ran mp" "ids (s_ID (h p)) = Some p"
  shows "sound key mp (ids(s_ID (h p) := None)) h"
proof -
  have "p \<noteq> q \<and> s_ID (h q) \<noteq> s_ID (h p)" if "mp k = Some q" for k q
    using that assms soundD(1) [OF assms(1) that] by (auto simp: ran_def)
  with assms(1) show ?thesis by (auto simp: sound_def)
qed

lemma sound_heap_unref:
  assumes "sound key mp ids h" "p \<notin> ran mp"
  shows "sound key mp ids (h(p := s))"
  using assms by (auto simp: sound_def ran_def)

lemma sound_heap_keep:
  assumes "sound key mp ids h" "s_ID s = s_ID (h p)" "key s = key (h p)"
  shows "sound key mp ids (h(p := s))"
  using assms by (auto simp: sound_def)

lemma sound_put:
  assumes "sound key mp ids h" "ids (s_ID (h p)) = Some p"
  shows "sound key (put (key (h p)) p mp) ids h"
  using assms by (auto simp: sound_def put_def split: option.splits)

lemma sound_new_id:
  assumes "sound key mp ids h" "ids i = None"
  shows "sound key mp (ids(i \<mapsto> p)) h"
  using assms by (auto simp: sound_def)

lemma sound_remove:
  assumes "sound key mp ids h" "ids (s_ID (h p)) = Some p"
  shows "sound key (del (key (h p)) mp) (ids(s_ID (h p) := None)) h"
  using sound_unref [OF sound_del [OF assms(1)] del_unref [OF assms(1)] assms(2)] .

lemma sound_insert:
  assumes "sound key mp ids h" "ids (s_ID (h p)) = None"
  shows "sound key (put (key (h p)) p mp) (ids(s_ID (h p) \<mapsto> p)) h"
  by (rule sound_put [OF sound_new_id [OF assms]]) simp

section \<open>The invariant\<close>

definition past_auth :: "state \<Rightarrow> bool" where
  "past_auth st \<longleftrightarrow> st \<in> {Authorized, IPAllocated, PGWPending, Active, Recovering}"

definition sess_ok :: "session \<Rightarrow> bool" where
  "sess_ok s \<longleftrightarrow> s_State s \<noteq> Terminated \<and> (past_auth (s_State s) \<longrightarrow> s_Authenticated s \<and> s_Authorized s)"

definition ids_ok :: "manager \<Rightarrow> bool" where
  "ids_ok m \<longleftrightarrow> (\<forall>i p. m_byID m i = Some p \<longrightarrow> p < m_alloc m \<and> s_ID (m_heap m p) = i
     \<and> (\<exists>t n. i = session_id t n \<and> unat n \<le> unat (m_next m)) \<and> sess_ok (m_heap m p))"

definition idx :: "manager \<Rightarrow> bool" where
  "idx m \<longleftrightarrow> sound imsi_key (m_byIMSI m) (m_byID m) (m_heap m)
     \<and> sound mac_key (m_byMAC m) (m_byID m) (m_heap m)
     \<and> sound ip_key (m_byIP m) (m_byID m) (m_heap m)
     \<and> sound teid_key (m_byTEID m) (m_byID m) (m_heap m)"

definition mgr_inv :: "manager \<Rightarrow> bool" where
  "mgr_inv m \<longleftrightarrow> ids_ok m \<and> idx m"

lemma mgr_inv_new [simp]: "mgr_inv new_manager"
  by (simp add: mgr_inv_def idx_def ids_ok_def new_manager_def)

lemma ids_okD:
  assumes "ids_ok m" "m_byID m i = Some p"
  shows "p < m_alloc m" "s_ID (m_heap m p) = i" "sess_ok (m_heap m p)"
    "\<exists>t n. i = session_id t n \<and> unat n \<le> unat (m_next m)"
  using assms by (auto simp: ids_ok_def)

lemma mgr_invD: "mgr_inv m \<Longrightarrow> ids_ok m" "mgr_inv m \<Longrightarrow> idx m"
  by (simp_all add: mgr_inv_def)

lemma byID_inject: "ids_ok m \<Longrightarrow> m_byID m i = Some p \<Longrightarrow> m_byID m j = Some p \<Longrightarrow> i = j"
  using ids_okD(2) by blast

section \<open>Fresh IDs\<close>

lemma session_id_inject: "session_id t n = session_id u k \<Longrightarrow> n = k"
proof -
  assume eq: "session_id t n = session_id u k"
  have cut: "takeWhile (\<lambda>c. c \<noteq> CHR ''-'') (rev (session_id t n)) = rev (dec (unat n))" for t n
  proof -
    have "takeWhile (\<lambda>c. c \<noteq> CHR ''-'') (rev (dec (unat n)) @ CHR ''-'' # rest) = rev (dec (unat n))" for rest
      using sep_notin_dec by (subst takeWhile_append2) auto
    then show ?thesis by (simp add: session_id_def)
  qed
  from eq have "rev (dec (unat n)) = rev (dec (unat k))" by (metis cut)
  then show "n = k" by (simp add: word_unat_eq_iff)
qed

lemma fresh_id:
  assumes "ids_ok m" "m_next m \<noteq> -1"
  shows "m_byID m (session_id now (m_next m + 1)) = None"
proof (rule ccontr)
  assume "m_byID m (session_id now (m_next m + 1)) \<noteq> None"
  then obtain t n where "session_id now (m_next m + 1) = session_id t n" "unat n \<le> unat (m_next m)"
    using ids_okD(4) [OF assms(1)] by blast
  moreover have "unat (m_next m + 1) = unat (m_next m) + 1"
    using assms(2) by (rule unat_inc_u64)
  ultimately show False using session_id_inject by fastforce
qed

end
