(* ===== verification/SessionOps.thy ===== *)
theory SessionOps
  imports SessionInv
begin

text \<open>
  Every operation of the session table keeps its invariant. A method's closure \<open>acts\<close> as a
  function on one session when that is its whole effect on the object store, it leaves \<open>byID\<close>
  alone and it leaves the other indexes sound; \<open>update\<close> and \<open>transition\<close> are then treated once.
\<close>

section \<open>Closures\<close>

definition acts :: "(nat \<Rightarrow> manager \<Rightarrow> manager) \<Rightarrow> (session \<Rightarrow> session) \<Rightarrow> bool" where
  "acts fn f \<longleftrightarrow> (\<forall>m p. idx m \<longrightarrow> m_byID m (s_ID (m_heap m p)) = Some p \<longrightarrow>
     m_next (fn p m) = m_next m \<and> m_alloc (fn p m) = m_alloc m \<and> m_byID (fn p m) = m_byID m
     \<and> m_heap (fn p m) = (m_heap m)(p := f (m_heap m p))
     \<and> s_ID (f (m_heap m p)) = s_ID (m_heap m p) \<and> idx (fn p m))"

definition keeps :: "(session \<Rightarrow> session) \<Rightarrow> bool" where
  \<comment> \<open>the fields the indexes are over do not change\<close>
  "keeps f \<longleftrightarrow> (\<forall>s. s_ID (f s) = s_ID s \<and> s_IMSI (f s) = s_IMSI s
     \<and> s_MACAddress (f s) = s_MACAddress s \<and> s_SubscriberIP (f s) = s_SubscriberIP s
     \<and> s_GTPCTEID (f s) = s_GTPCTEID s)"

lemma actsD:
  assumes "acts fn f" "idx m" "m_byID m (s_ID (m_heap m p)) = Some p"
  shows "m_next (fn p m) = m_next m" "m_alloc (fn p m) = m_alloc m" "m_byID (fn p m) = m_byID m"
    "m_heap (fn p m) = (m_heap m)(p := f (m_heap m p))"
    "s_ID (f (m_heap m p)) = s_ID (m_heap m p)" "idx (fn p m)"
  using assms by (auto simp: acts_def)

lemma modify_simps [simp]:
  "m_heap (modify f p m) = (m_heap m)(p := f (m_heap m p))" "m_byID (modify f p m) = m_byID m"
  "m_byIMSI (modify f p m) = m_byIMSI m" "m_byMAC (modify f p m) = m_byMAC m"
  "m_byIP (modify f p m) = m_byIP m" "m_byTEID (modify f p m) = m_byTEID m"
  "m_next (modify f p m) = m_next m" "m_alloc (modify f p m) = m_alloc m"
  by (simp_all add: modify_def)

lemma unindexLocked_frame [simp]:
  "m_next (unindexLocked p m) = m_next m" "m_alloc (unindexLocked p m) = m_alloc m"
  "m_heap (unindexLocked p m) = m_heap m"
  by (simp_all add: unindexLocked_def Let_def)

lemma idx_modify: "idx m \<Longrightarrow> keeps f \<Longrightarrow> idx (modify f p m)"
  by (auto simp: idx_def keeps_def key_defs intro!: sound_heap_keep)

lemma acts_id [simp]: "acts (\<lambda>p m. m) (\<lambda>s. s)"
  by (simp add: acts_def)

lemma acts_modify: "keeps f \<Longrightarrow> acts (modify f) f"
  by (auto simp: acts_def idx_modify) (simp add: keeps_def)

section \<open>Removing and filing a session\<close>

definition unref :: "nat \<Rightarrow> manager \<Rightarrow> bool" where
  "unref p m \<longleftrightarrow> p \<notin> ran (m_byIMSI m) \<and> p \<notin> ran (m_byMAC m) \<and> p \<notin> ran (m_byIP m)
     \<and> p \<notin> ran (m_byTEID m)"

lemma del_none: "sound key mp ids h \<Longrightarrow> (\<And>s. key s \<noteq> Some k) \<Longrightarrow> mp(k := None) = mp"
  by (rule ext) (metis fun_upd_apply option.exhaust soundD(2))

lemma unindexLocked_simps:
  assumes "idx m"
  shows "m_byID (unindexLocked p m) = (m_byID m)(s_ID (m_heap m p) := None)"
    "m_byIMSI (unindexLocked p m) = del (imsi_key (m_heap m p)) (m_byIMSI m)"
    "m_byMAC (unindexLocked p m) = del (mac_key (m_heap m p)) (m_byMAC m)"
    "m_byIP (unindexLocked p m) = del (ip_key (m_heap m p)) (m_byIP m)"
    "m_byTEID (unindexLocked p m) = del (teid_key (m_heap m p)) (m_byTEID m)"
    "m_heap (unindexLocked p m) = m_heap m" "m_next (unindexLocked p m) = m_next m"
    "m_alloc (unindexLocked p m) = m_alloc m"
proof -
  have "(m_byIMSI m)([] := None) = m_byIMSI m"
    using assms by (intro del_none [of imsi_key]) (auto simp: idx_def imsi_key_def)
  then show "m_byIMSI (unindexLocked p m) = del (imsi_key (m_heap m p)) (m_byIMSI m)"
    by (simp add: unindexLocked_def Let_def del_def imsi_key_def)
  have "(m_byMAC m)([] := None) = m_byMAC m"
    using assms by (intro del_none [of mac_key]) (auto simp: idx_def mac_key_def)
  then show "m_byMAC (unindexLocked p m) = del (mac_key (m_heap m p)) (m_byMAC m)"
    by (simp add: unindexLocked_def Let_def del_def mac_key_def)
qed (simp_all add: unindexLocked_def Let_def del_def ip_key_def teid_key_def)

lemma indexLocked_simps:
  "m_byID (indexLocked p m) = (m_byID m)(s_ID (m_heap m p) \<mapsto> p)"
  "m_byIMSI (indexLocked p m) = put (imsi_key (m_heap m p)) p (m_byIMSI m)"
  "m_byMAC (indexLocked p m) = put (mac_key (m_heap m p)) p (m_byMAC m)"
  "m_byIP (indexLocked p m) = put (ip_key (m_heap m p)) p (m_byIP m)"
  "m_byTEID (indexLocked p m) = put (teid_key (m_heap m p)) p (m_byTEID m)"
  "m_heap (indexLocked p m) = m_heap m" "m_next (indexLocked p m) = m_next m"
  "m_alloc (indexLocked p m) = m_alloc m"
  by (simp_all add: indexLocked_def Let_def put_def key_defs)

lemma unref_unindex: "idx m \<Longrightarrow> unref p (unindexLocked p m)"
  by (auto simp: unref_def unindexLocked_simps idx_def dest: del_unref)

lemma idx_unindex:
  assumes "idx m" "m_byID m (s_ID (m_heap m p)) = Some p"
  shows "idx (unindexLocked p m)"
  using assms by (auto simp: idx_def unindexLocked_simps [OF assms(1)] intro!: sound_remove)

lemma idx_modify_unref: "idx m \<Longrightarrow> unref p m \<Longrightarrow> idx (modify f p m)"
  by (auto simp: idx_def unref_def intro!: sound_heap_unref)

lemma idx_index:
  assumes "idx m" "m_byID m (s_ID (m_heap m p)) = None"
  shows "idx (indexLocked p m)"
  using assms by (auto simp: idx_def indexLocked_simps intro!: sound_insert)

lemma acts_reindex:
  assumes "\<And>s. s_ID (f s) = s_ID s"
  shows "acts (\<lambda>p m. indexLocked p (modify f p (unindexLocked p m))) f"
  unfolding acts_def
proof (intro allI impI conjI)
  fix m p assume m: "idx m" "m_byID m (s_ID (m_heap m p)) = Some p"
  note s = unindexLocked_simps [OF m(1)] indexLocked_simps
  let ?m = "modify f p (unindexLocked p m)"
  have "idx ?m"
    using idx_unindex [OF m] unref_unindex [OF m(1)] by (rule idx_modify_unref)
  moreover have "m_byID ?m (s_ID (m_heap ?m p)) = None" by (simp add: s assms)
  ultimately show "idx (indexLocked p ?m)" by (rule idx_index)
  show "m_byID (indexLocked p ?m) = m_byID m" using m(2) by (auto simp: s assms)
qed (auto simp: unindexLocked_simps indexLocked_simps assms)

section \<open>Readdressing\<close>

definition put_ip :: "nat \<Rightarrow> manager \<Rightarrow> manager" where
  "put_ip p m = m\<lparr> m_byIP := put (ip_key (m_heap m p)) p (m_byIP m) \<rparr>"

lemma sound_move:
  assumes "sound key mp ids h" "ids (s_ID (h p)) = Some p" "s_ID s = s_ID (h p)"
  shows "sound key (put (key s) p (del (key (h p)) mp)) ids (h(p := s))"
proof -
  have "sound key (del (key (h p)) mp) ids (h(p := s))"
    by (rule sound_heap_unref [OF sound_del [OF assms(1)] del_unref [OF assms(1)]])
  from sound_put [OF this, of p] show ?thesis using assms(2,3) by simp
qed

lemma drop_ip_eq: "drop_ip p m = m\<lparr> m_byIP := del (ip_key (m_heap m p)) (m_byIP m) \<rparr>"
  by (simp add: drop_ip_def ip_key_def del_def)

lemma drop_teid_eq: "drop_teid p m = m\<lparr> m_byTEID := del (teid_key (m_heap m p)) (m_byTEID m) \<rparr>"
  by (simp add: drop_teid_def teid_key_def del_def)

lemma put_teid_eq: "put_teid p m = m\<lparr> m_byTEID := put (teid_key (m_heap m p)) p (m_byTEID m) \<rparr>"
  by (simp add: put_teid_def teid_key_def put_def)

lemma acts_readdress:
  assumes "\<And>s. s_ID (f s) = s_ID s \<and> s_IMSI (f s) = s_IMSI s \<and> s_MACAddress (f s) = s_MACAddress s
     \<and> s_GTPCTEID (f s) = s_GTPCTEID s"
  shows "acts (\<lambda>p m. put_ip p (modify f p (drop_ip p m))) f"
  unfolding acts_def
proof (intro allI impI conjI)
  fix m p assume m: "idx m" "m_byID m (s_ID (m_heap m p)) = Some p"
  then show "idx (put_ip p (modify f p (drop_ip p m)))"
    unfolding idx_def
  proof (elim conjE, intro conjI)
    note keep = sound_heap_keep [where s = "f (m_heap m p)" and p = p and h = "m_heap m"]
    note move = sound_move [where s = "f (m_heap m p)" and p = p and h = "m_heap m"]
    assume "sound imsi_key (m_byIMSI m) (m_byID m) (m_heap m)"
    then show "sound imsi_key (m_byIMSI (put_ip p (modify f p (drop_ip p m))))
        (m_byID (put_ip p (modify f p (drop_ip p m)))) (m_heap (put_ip p (modify f p (drop_ip p m))))"
      using keep [of imsi_key] m assms by (simp add: put_ip_def drop_ip_eq imsi_key_def)
    assume "sound mac_key (m_byMAC m) (m_byID m) (m_heap m)"
    then show "sound mac_key (m_byMAC (put_ip p (modify f p (drop_ip p m))))
        (m_byID (put_ip p (modify f p (drop_ip p m)))) (m_heap (put_ip p (modify f p (drop_ip p m))))"
      using keep [of mac_key] m assms by (simp add: put_ip_def drop_ip_eq mac_key_def)
    assume "sound ip_key (m_byIP m) (m_byID m) (m_heap m)"
    then show "sound ip_key (m_byIP (put_ip p (modify f p (drop_ip p m))))
        (m_byID (put_ip p (modify f p (drop_ip p m)))) (m_heap (put_ip p (modify f p (drop_ip p m))))"
      using move [of ip_key] m assms by (simp add: put_ip_def drop_ip_eq)
    assume "sound teid_key (m_byTEID m) (m_byID m) (m_heap m)"
    then show "sound teid_key (m_byTEID (put_ip p (modify f p (drop_ip p m))))
        (m_byID (put_ip p (modify f p (drop_ip p m)))) (m_heap (put_ip p (modify f p (drop_ip p m))))"
      using keep [of teid_key] m assms by (simp add: put_ip_def drop_ip_eq teid_key_def)
  qed
qed (simp_all add: put_ip_def drop_ip_eq assms)

lemma acts_rebind:
  assumes "\<And>s. s_ID (f s) = s_ID s \<and> s_IMSI (f s) = s_IMSI s \<and> s_MACAddress (f s) = s_MACAddress s
     \<and> s_SubscriberIP (f s) = s_SubscriberIP s"
  shows "acts (\<lambda>p m. put_teid p (modify f p (drop_teid p m))) f"
  unfolding acts_def
proof (intro allI impI conjI)
  fix m p assume m: "idx m" "m_byID m (s_ID (m_heap m p)) = Some p"
  then show "idx (put_teid p (modify f p (drop_teid p m)))"
    unfolding idx_def
  proof (elim conjE, intro conjI)
    note keep = sound_heap_keep [where s = "f (m_heap m p)" and p = p and h = "m_heap m"]
    note move = sound_move [where s = "f (m_heap m p)" and p = p and h = "m_heap m"]
    assume "sound imsi_key (m_byIMSI m) (m_byID m) (m_heap m)"
    then show "sound imsi_key (m_byIMSI (put_teid p (modify f p (drop_teid p m))))
        (m_byID (put_teid p (modify f p (drop_teid p m)))) (m_heap (put_teid p (modify f p (drop_teid p m))))"
      using keep [of imsi_key] m assms by (simp add: put_teid_eq drop_teid_eq imsi_key_def)
    assume "sound mac_key (m_byMAC m) (m_byID m) (m_heap m)"
    then show "sound mac_key (m_byMAC (put_teid p (modify f p (drop_teid p m))))
        (m_byID (put_teid p (modify f p (drop_teid p m)))) (m_heap (put_teid p (modify f p (drop_teid p m))))"
      using keep [of mac_key] m assms by (simp add: put_teid_eq drop_teid_eq mac_key_def)
    assume "sound ip_key (m_byIP m) (m_byID m) (m_heap m)"
    then show "sound ip_key (m_byIP (put_teid p (modify f p (drop_teid p m))))
        (m_byID (put_teid p (modify f p (drop_teid p m)))) (m_heap (put_teid p (modify f p (drop_teid p m))))"
      using keep [of ip_key] m assms by (simp add: put_teid_eq drop_teid_eq ip_key_def)
    assume "sound teid_key (m_byTEID m) (m_byID m) (m_heap m)"
    then show "sound teid_key (m_byTEID (put_teid p (modify f p (drop_teid p m))))
        (m_byID (put_teid p (modify f p (drop_teid p m)))) (m_heap (put_teid p (modify f p (drop_teid p m))))"
      using move [of teid_key] m assms by (simp add: put_teid_eq drop_teid_eq)
  qed
qed (simp_all add: put_teid_eq drop_teid_eq assms)

lemma acts_set_ip:
  assumes "clone_ip a \<noteq> None"
  shows "acts (\<lambda>p m. let m1 = modify (s_SubscriberIP_update (\<lambda>_. clone_ip a)) p (drop_ip p m)
       in m1\<lparr> m_byIP := (m_byIP m1)(ip_string (s_SubscriberIP (m_heap m1 p)) \<mapsto> p) \<rparr>)
     (s_SubscriberIP_update (\<lambda>_. clone_ip a))"
  using acts_readdress [of "s_SubscriberIP_update (\<lambda>_. clone_ip a)"] assms
  by (simp add: put_ip_def put_def ip_key_def Let_def)

lemma acts_update_ip:
  "acts (\<lambda>p m. let m1 = modify (s_SubscriberIP_update (\<lambda>_. clone_ip a)) p (drop_ip p m)
       in if s_SubscriberIP (m_heap m1 p) \<noteq> None
          then m1\<lparr> m_byIP := (m_byIP m1)(ip_string (s_SubscriberIP (m_heap m1 p)) \<mapsto> p) \<rparr> else m1)
     (s_SubscriberIP_update (\<lambda>_. clone_ip a))"
  using acts_readdress [of "s_SubscriberIP_update (\<lambda>_. clone_ip a)"]
  by (cases "clone_ip a") (simp_all add: put_ip_def put_def ip_key_def Let_def modify_def)

section \<open>\<open>update\<close> and \<open>transition\<close>\<close>

lemma keeps_stamp: "keeps (s_UpdatedAt_update (\<lambda>_. now))" "keeps (\<lambda>s. s\<lparr> s_State := st, s_UpdatedAt := now \<rparr>)"
  by (simp_all add: keeps_def)

lemma mgr_inv_act:
  assumes "mgr_inv m" "m_byID m i = Some p" "acts fn f" "keeps g" "sess_ok (g (f (m_heap m p)))"
  shows "mgr_inv (modify g p (fn p m))"
proof -
  have inv: "ids_ok m" "idx m" using assms(1) by (rule mgr_invD)+
  have p: "m_byID m (s_ID (m_heap m p)) = Some p"
    using assms(2) ids_okD(2) [OF inv(1) assms(2)] by simp
  note a = actsD [OF assms(3) inv(2) p]
  have "ids_ok (modify g p (fn p m))"
    using assms(4,5) inv(1) by (auto simp: ids_ok_def a keeps_def)
  moreover have "idx (modify g p (fn p m))" using a(6) assms(4) by (rule idx_modify)
  ultimately show ?thesis by (simp add: mgr_inv_def)
qed

lemma update_inv:
  assumes "mgr_inv m" "acts fn f" "\<And>s. sess_ok s \<Longrightarrow> sess_ok (f s)"
  shows "mgr_inv (snd (update now i fn m))"
proof (cases "m_byID m i")
  case (Some p)
  have "sess_ok ((f (m_heap m p))\<lparr> s_UpdatedAt := now \<rparr>)"
    using assms(3) [OF ids_okD(3) [OF mgr_invD(1) [OF assms(1)] Some]] by (simp add: sess_ok_def)
  from mgr_inv_act [OF assms(1) Some assms(2) keeps_stamp(1) this] Some show ?thesis
    by (simp add: update_def Let_def)
qed (simp add: update_def assms(1))

lemma transition_inv:
  assumes "mgr_inv m" "acts fn f" "nxt \<noteq> Terminated"
    "\<And>s. sess_ok s \<Longrightarrow> validTransition (s_State s) nxt \<Longrightarrow> past_auth nxt \<Longrightarrow>
        s_Authenticated (f s) \<and> s_Authorized (f s)"
  shows "mgr_inv (snd (transition now i nxt fn m))"
proof (cases "m_byID m i")
  case (Some p)
  show ?thesis
  proof (cases "validTransition (s_State (m_heap m p)) nxt")
    case True
    have "sess_ok ((f (m_heap m p))\<lparr> s_State := nxt, s_UpdatedAt := now \<rparr>)"
      using assms(3) assms(4) [OF ids_okD(3) [OF mgr_invD(1) [OF assms(1)] Some] True]
      by (simp add: sess_ok_def)
    from mgr_inv_act [OF assms(1) Some assms(2) keeps_stamp(2) this] Some True show ?thesis
      by (simp add: transition_def Let_def)
  qed (simp add: transition_def Some assms(1))
qed (simp add: transition_def assms(1))

end
