(* ===== verification/SessionSpec.thy ===== *)
theory SessionSpec
  imports SessionOps
begin

text \<open>
  The session table as a machine, and its specification: a plain map from IDs to sessions and
  the ID counter. The specification has no object store, no pointers and no index; the
  refinement says that no client can tell the difference through the methods that answer from
  \<open>byID\<close>, and what the index lookups answer is characterised separately.
\<close>

section \<open>Operations as data\<close>

datatype sess_op =
    OpCreate time create_input
  | OpAuthPending time string
  | OpAuthorized time string
  | OpAuthResult time string string string string string
  | OpSetIP time string ip
  | OpUpdateIP time string ip
  | OpPGWPending time string
  | OpActive time string
  | OpRecovering time string string
  | OpTerminating time string
  | OpFailed time string string
  | OpBindTEIDs time string u32 u32 u32
  | OpPGWResult time string ip ip u32 u32 u32
  | OpGTPUError time string u32 time
  | OpAccounting time string acct_update
  | OpDelete time string
  | OpExpire time "string list"
  | OpGet string
  | OpList "string list"
  | OpFind string string string bool "string list"
  | OpByAcct string string string "string list"

datatype sess_reply =
    RCreated session
  | RResult "sess_err + session"
  | ROption "session option"
  | RMany "session list"

fun exec_op :: "sess_op \<Rightarrow> manager \<Rightarrow> sess_reply \<times> manager" where
  "exec_op (OpCreate now ci) m = (let (s, m1) = Create now ci m in (RCreated s, m1))"
| "exec_op (OpAuthPending now i) m = map_prod RResult (\<lambda>x. x) (MarkAuthPending now i m)"
| "exec_op (OpAuthorized now i) m = map_prod RResult (\<lambda>x. x) (MarkAuthorized now i m)"
| "exec_op (OpAuthResult now i imsi msisdn apn r) m =
     map_prod RResult (\<lambda>x. x) (ApplyAuthResult now i imsi msisdn apn r m)"
| "exec_op (OpSetIP now i a) m = map_prod RResult (\<lambda>x. x) (SetSubscriberIP now i a m)"
| "exec_op (OpUpdateIP now i a) m = map_prod RResult (\<lambda>x. x) (UpdateSubscriberIP now i a m)"
| "exec_op (OpPGWPending now i) m = map_prod RResult (\<lambda>x. x) (MarkPGWPending now i m)"
| "exec_op (OpActive now i) m = map_prod RResult (\<lambda>x. x) (MarkActive now i m)"
| "exec_op (OpRecovering now i r) m = map_prod RResult (\<lambda>x. x) (MarkRecovering now i r m)"
| "exec_op (OpTerminating now i) m = map_prod RResult (\<lambda>x. x) (MarkTerminating now i m)"
| "exec_op (OpFailed now i r) m = map_prod RResult (\<lambda>x. x) (MarkFailed now i r m)"
| "exec_op (OpBindTEIDs now i a b c) m = map_prod RResult (\<lambda>x. x) (BindTEIDs now i a b c m)"
| "exec_op (OpPGWResult now i pc pu a b c) m =
     map_prod RResult (\<lambda>x. x) (ApplyPGWResult now i pc pu a b c m)"
| "exec_op (OpGTPUError now i t at) m = map_prod RResult (\<lambda>x. x) (RecordGTPUError now i t at m)"
| "exec_op (OpAccounting now i u) m = map_prod RResult (\<lambda>x. x) (ApplyAccounting now i u m)"
| "exec_op (OpDelete now i) m = map_prod ROption (\<lambda>x. x) (Delete now i m)"
| "exec_op (OpExpire now ord) m = map_prod RMany (\<lambda>x. x) (ExpireInactive now ord m)"
| "exec_op (OpGet i) m = (ROption (Get i m), m)"
| "exec_op (OpList ord) m = (RMany (List_sessions ord m), m)"
| "exec_op (OpFind imsi mac apn act ord) m = (ROption (findBySubscriber imsi mac apn act ord m), m)"
| "exec_op (OpByAcct a ip ni ord) m = (ROption (LookupByAcctSession a ip ni ord m), m)"

fun op_ok :: "sess_op \<Rightarrow> manager \<Rightarrow> bool" where
  \<comment> \<open>the counter has not used up its 64 bits, an address that is set is not nil, and the order
    a loop visits the table in is one of the orders Go may choose\<close>
  "op_ok (OpCreate now ci) m \<longleftrightarrow> m_next m \<noteq> -1"
| "op_ok (OpSetIP now i a) m \<longleftrightarrow> clone_ip a \<noteq> None"
| "op_ok (OpExpire now ord) m \<longleftrightarrow> distinct ord \<and> set ord = dom (m_byID m)"
| "op_ok _ m \<longleftrightarrow> True"

section \<open>The specification\<close>

type_synonym table = "string \<rightharpoonup> session"

definition table_of :: "manager \<Rightarrow> table" where
  "table_of m = (\<lambda>i. map_option (m_heap m) (m_byID m i))"

definition abs_mgr :: "manager \<Rightarrow> u64 \<times> table" where
  "abs_mgr m = (m_next m, table_of m)"

definition spec_update :: "time \<Rightarrow> string \<Rightarrow> (session \<Rightarrow> session) \<Rightarrow> table \<Rightarrow> (sess_err + session) \<times> table" where
  "spec_update now i f T = (case T i of None \<Rightarrow> (Inl (NotFound i), T)
     | Some s \<Rightarrow> let s1 = (f s)\<lparr> s_UpdatedAt := now \<rparr> in (Inr (clone s1), T(i \<mapsto> s1)))"

definition spec_transition ::
  "time \<Rightarrow> string \<Rightarrow> state \<Rightarrow> (session \<Rightarrow> session) \<Rightarrow> table \<Rightarrow> (sess_err + session) \<times> table" where
  "spec_transition now i nxt f T = (case T i of None \<Rightarrow> (Inl (NotFound i), T)
     | Some s \<Rightarrow> if validTransition (s_State s) nxt
        then let s1 = (f s)\<lparr> s_State := nxt, s_UpdatedAt := now \<rparr> in (Inr (clone s1), T(i \<mapsto> s1))
        else (Inl (InvalidTransition (s_State s) nxt), T))"

definition dead :: "time \<Rightarrow> session \<Rightarrow> session" where
  "dead now s = s\<lparr> s_State := Terminated, s_UpdatedAt := now \<rparr>"

definition expired :: "time \<Rightarrow> session \<Rightarrow> bool" where
  "expired now s \<longleftrightarrow> \<not> time_is_zero (s_ExpiresAt s) \<and> s_ExpiresAt s \<le> now"

definition spec_delete :: "time \<Rightarrow> string \<Rightarrow> table \<Rightarrow> session option \<times> table" where
  "spec_delete now i T = (case T i of None \<Rightarrow> (None, T)
     | Some s \<Rightarrow> if s_State s \<in> {Terminating, Terminated} then (Some (clone (dead now s)), T(i := None))
                 else (None, T))"

definition spec_expire :: "time \<Rightarrow> string list \<Rightarrow> table \<Rightarrow> session list \<times> table" where
  "spec_expire now ord T =
     (List.map_filter (\<lambda>i. case T i of None \<Rightarrow> None
         | Some s \<Rightarrow> if expired now s then Some (clone (dead now s)) else None) ord,
      \<lambda>i. case T i of None \<Rightarrow> None | Some s \<Rightarrow> if expired now s then None else Some s)"

definition spec_all :: "(session \<Rightarrow> bool) \<Rightarrow> string list \<Rightarrow> table \<Rightarrow> session list" where
  "spec_all P ord T = List.map_filter (\<lambda>i. case T i of None \<Rightarrow> None
     | Some s \<Rightarrow> if P s then Some (clone s) else None) ord"

definition spec_first :: "(session \<Rightarrow> bool) \<Rightarrow> string list \<Rightarrow> table \<Rightarrow> session option" where
  "spec_first P ord T = (case spec_all P ord T of [] \<Rightarrow> None | s # _ \<Rightarrow> Some s)"

fun spec_op :: "sess_op \<Rightarrow> u64 \<times> table \<Rightarrow> sess_reply \<times> (u64 \<times> table)" where
  "spec_op (OpCreate now ci) (n, T) = (let s = new_session now (n + 1) ci
      in (RCreated (clone s), (n + 1, T(s_ID s \<mapsto> s))))"
| "spec_op (OpAuthPending now i) (n, T) =
     map_prod RResult (Pair n) (spec_transition now i AuthPending (\<lambda>s. s) T)"
| "spec_op (OpAuthorized now i) (n, T) = map_prod RResult (Pair n) (spec_transition now i Authorized
     (\<lambda>s. s\<lparr> s_Authenticated := True, s_Authorized := True \<rparr>) T)"
| "spec_op (OpAuthResult now i imsi msisdn apn r) (n, T) = map_prod RResult (Pair n)
     (spec_transition now i Authorized (auth_result_fields imsi msisdn apn r) T)"
| "spec_op (OpSetIP now i a) (n, T) = map_prod RResult (Pair n)
     (spec_transition now i IPAllocated (s_SubscriberIP_update (\<lambda>_. clone_ip a)) T)"
| "spec_op (OpUpdateIP now i a) (n, T) = map_prod RResult (Pair n)
     (spec_update now i (s_SubscriberIP_update (\<lambda>_. clone_ip a)) T)"
| "spec_op (OpPGWPending now i) (n, T) =
     map_prod RResult (Pair n) (spec_transition now i PGWPending (\<lambda>s. s) T)"
| "spec_op (OpActive now i) (n, T) =
     map_prod RResult (Pair n) (spec_transition now i Active (\<lambda>s. s) T)"
| "spec_op (OpRecovering now i r) (n, T) =
     map_prod RResult (Pair n) (spec_transition now i Recovering (s_Reason_update (\<lambda>_. r)) T)"
| "spec_op (OpTerminating now i) (n, T) =
     map_prod RResult (Pair n) (spec_transition now i Terminating (\<lambda>s. s) T)"
| "spec_op (OpFailed now i r) (n, T) =
     map_prod RResult (Pair n) (spec_transition now i Failed (s_Reason_update (\<lambda>_. r)) T)"
| "spec_op (OpBindTEIDs now i a b c) (n, T) = map_prod RResult (Pair n) (spec_update now i
     (\<lambda>s. s\<lparr> s_GTPCTEID := a, s_LocalGTPUTEID := b, s_RemoteGTPUTEID := c \<rparr>) T)"
| "spec_op (OpPGWResult now i pc pu a b c) (n, T) = map_prod RResult (Pair n) (spec_update now i
     (\<lambda>s. s\<lparr> s_PGWControlIP := clone_ip pc, s_PGWUserIP := clone_ip pu, s_GTPCTEID := a,
        s_LocalGTPUTEID := b, s_RemoteGTPUTEID := c \<rparr>) T)"
| "spec_op (OpGTPUError now i t at) (n, T) =
     map_prod RResult (Pair n) (spec_update now i (gtpu_error_fields t at) T)"
| "spec_op (OpAccounting now i u) (n, T) =
     map_prod RResult (Pair n) (spec_update now i (acct_fields u) T)"
| "spec_op (OpDelete now i) (n, T) = map_prod ROption (Pair n) (spec_delete now i T)"
| "spec_op (OpExpire now ord) (n, T) = map_prod RMany (Pair n) (spec_expire now ord T)"
| "spec_op (OpGet i) (n, T) = (ROption (map_option clone (T i)), (n, T))"
| "spec_op (OpList ord) (n, T) = (RMany (spec_all (\<lambda>s. True) ord T), (n, T))"
| "spec_op (OpFind imsi mac apn act ord) (n, T) = (ROption (spec_first
     (\<lambda>s. (act \<longrightarrow> s_State s = Active) \<and> subscriberMatches s imsi mac apn) ord T), (n, T))"
| "spec_op (OpByAcct a ip ni ord) (n, T) =
     (ROption (if a = [] then None else spec_first (acctMatches a ip ni) ord T), (n, T))"

section \<open>The table under one step\<close>

lemma table_act:
  assumes "mgr_inv m" "m_byID m i = Some p" "acts fn f"
  shows "table_of (modify g p (fn p m)) = (table_of m)(i \<mapsto> g (f (m_heap m p)))"
proof -
  have inv: "ids_ok m" "idx m" using assms(1) by (rule mgr_invD)+
  have p: "m_byID m (s_ID (m_heap m p)) = Some p"
    using assms(2) ids_okD(2) [OF inv(1) assms(2)] by simp
  note a = actsD [OF assms(3) inv(2) p]
  have "m_byID m j = Some q \<Longrightarrow> j \<noteq> i \<Longrightarrow> q \<noteq> p" for j q
    using byID_inject [OF inv(1) assms(2)] by blast
  then show ?thesis
    using assms(2) by (auto simp: table_of_def a fun_eq_iff map_option_case split: option.splits)
qed

lemma update_refines:
  assumes "mgr_inv m" "acts fn f"
  shows "spec_update now i f (table_of m) =
    (fst (update now i fn m), table_of (snd (update now i fn m)))"
proof (cases "m_byID m i")
  case (Some p)
  have "m_heap (fn p m) p = f (m_heap m p)"
    using actsD(4) [OF assms(2)] mgr_invD [OF assms(1)] Some ids_okD(2) by fastforce
  then show ?thesis
    using Some table_act [OF assms(1) Some assms(2), of "s_UpdatedAt_update (\<lambda>_. now)"]
    by (simp add: spec_update_def update_def Let_def table_of_def [of m])
qed (simp add: spec_update_def update_def table_of_def)

lemma transition_refines:
  assumes "mgr_inv m" "acts fn f"
  shows "spec_transition now i nxt f (table_of m) =
    (fst (transition now i nxt fn m), table_of (snd (transition now i nxt fn m)))"
proof (cases "m_byID m i")
  case (Some p)
  have "m_heap (fn p m) p = f (m_heap m p)"
    using actsD(4) [OF assms(2)] mgr_invD [OF assms(1)] Some ids_okD(2) by fastforce
  then show ?thesis
    using Some table_act [OF assms(1) Some assms(2), of "\<lambda>s. s\<lparr> s_State := nxt, s_UpdatedAt := now \<rparr>"]
    by (simp add: spec_transition_def transition_def Let_def table_of_def [of m])
qed (simp add: spec_transition_def transition_def table_of_def)

lemma next_kept:
  assumes "mgr_inv m" "acts fn f"
  shows "m_next (snd (update now i fn m)) = m_next m"
    "m_next (snd (transition now i nxt fn m)) = m_next m"
  using actsD(1) [OF assms(2)] mgr_invD [OF assms(1)] ids_okD(2)
  by (fastforce simp: update_def transition_def Let_def split: option.splits)+

lemma remove_step:
  assumes "mgr_inv m" "m_byID m i = Some p"
  shows "mgr_inv (modify g p (unindexLocked p m))"
    "table_of (modify g p (unindexLocked p m)) = (table_of m)(i := None)"
    "m_byID (modify g p (unindexLocked p m)) = (m_byID m)(i := None)"
    "m_next (modify g p (unindexLocked p m)) = m_next m"
proof -
  have inv: "ids_ok m" "idx m" using assms(1) by (rule mgr_invD)+
  have p: "s_ID (m_heap m p) = i" "m_byID m (s_ID (m_heap m p)) = Some p"
    using assms(2) ids_okD(2) [OF inv(1) assms(2)] by simp_all
  note u = unindexLocked_simps [OF inv(2), of p]
  have other: "m_byID m j = Some q \<Longrightarrow> j \<noteq> i \<Longrightarrow> q \<noteq> p" for j q
    using byID_inject [OF inv(1) assms(2)] by blast
  have "ids_ok (modify g p (unindexLocked p m))"
    using inv(1) other by (auto simp: ids_ok_def u p(1))
  with idx_modify_unref [OF idx_unindex [OF inv(2) p(2)] unref_unindex [OF inv(2)]]
  show "mgr_inv (modify g p (unindexLocked p m))" by (simp add: mgr_inv_def)
  show "table_of (modify g p (unindexLocked p m)) = (table_of m)(i := None)"
    using other by (auto simp: table_of_def u p(1) fun_eq_iff map_option_case split: option.splits)
qed (use assms ids_okD(2) [OF mgr_invD(1) [OF assms(1)] assms(2)]
     in \<open>simp_all add: unindexLocked_simps [OF mgr_invD(2)]\<close>)

lemma Delete_inv: "mgr_inv m \<Longrightarrow> mgr_inv (snd (Delete now i m))"
  by (auto simp: Delete_def Let_def remove_step(1) split: option.splits)

lemma valid_to_Terminated: "validTransition st Terminated \<longleftrightarrow> st \<in> {Terminating, Terminated}"
  by (cases st) (auto simp: validTransition.simps)

lemma Delete_refines:
  "mgr_inv m \<Longrightarrow> spec_delete now i (table_of m) = (fst (Delete now i m), table_of (snd (Delete now i m)))"
  by (cases "m_byID m i")
    (auto simp: Delete_def spec_delete_def Let_def remove_step(2) valid_to_Terminated dead_def
      table_of_def [of m] unindexLocked_simps [OF mgr_invD(2)])

lemma Delete_next: "mgr_inv m \<Longrightarrow> m_next (snd (Delete now i m)) = m_next m"
  by (auto simp: Delete_def Let_def remove_step(4) split: option.splits)

lemma map_filter_cong:
  "(\<And>x. x \<in> set xs \<Longrightarrow> f x = g x) \<Longrightarrow> List.map_filter f xs = List.map_filter g xs"
  by (induction xs) (auto simp: map_filter_simps split: option.splits)

lemma spec_expire_Cons:
  assumes "i \<notin> set ord"
  shows "spec_expire now (i # ord) T = (case T i of
     Some s \<Rightarrow> if expired now s
       then (clone (dead now s) # fst (spec_expire now ord (T(i := None))),
             snd (spec_expire now ord (T(i := None))))
       else spec_expire now ord T
   | None \<Rightarrow> spec_expire now ord T)"
proof -
  have "List.map_filter (\<lambda>j. case (T(i := None)) j of None \<Rightarrow> None
         | Some s \<Rightarrow> if expired now s then Some (clone (dead now s)) else None) ord
      = List.map_filter (\<lambda>j. case T j of None \<Rightarrow> None
         | Some s \<Rightarrow> if expired now s then Some (clone (dead now s)) else None) ord"
    using assms by (intro map_filter_cong) auto
  then show ?thesis
    by (auto simp: spec_expire_def map_filter_simps fun_eq_iff split: option.splits)
qed

lemma Expire_step:
  assumes "mgr_inv m" "distinct ord"
  shows "mgr_inv (snd (ExpireInactive now ord m)) \<and> m_next (snd (ExpireInactive now ord m)) = m_next m
    \<and> fst (ExpireInactive now ord m) = fst (spec_expire now ord (table_of m))
    \<and> table_of (snd (ExpireInactive now ord m)) = (\<lambda>i. if i \<in> set ord
         then snd (spec_expire now ord (table_of m)) i else table_of m i)"
  using assms
proof (induction ord arbitrary: m)
  case Nil
  then show ?case by (simp add: spec_expire_def map_filter_simps)
next
  case (Cons i ord)
  show ?case
  proof (cases "m_byID m i")
    case None
    then have "table_of m i = None" by (simp add: table_of_def)
    with None Cons show ?thesis by (auto simp: spec_expire_Cons fun_eq_iff spec_expire_def)
  next
    case (Some p)
    then have T: "table_of m i = Some (m_heap m p)" by (simp add: table_of_def)
    let ?s = "m_heap m p"
    let ?m = "modify (\<lambda>s. s\<lparr> s_State := Terminated, s_UpdatedAt := now \<rparr>) p (unindexLocked p m)"
    have del: "(unindexLocked p m)\<lparr> m_byID := (m_byID (unindexLocked p m))(i := None) \<rparr> = unindexLocked p m"
      using ids_okD(2) [OF mgr_invD(1) [OF Cons.prems(1)] Some]
      by (simp add: unindexLocked_def Let_def)
    show ?thesis
    proof (cases "expired now ?s")
      case False
      with Some T Cons show ?thesis
        by (auto simp: spec_expire_Cons expired_def fun_eq_iff spec_expire_def)
    next
      case True
      have hp: "m_heap ?m p = dead now ?s"
        by (simp add: dead_def unindexLocked_simps [OF mgr_invD(2) [OF Cons.prems(1)]])
      have go: "ExpireInactive now (i # ord) m = (clone (m_heap ?m p) # fst (ExpireInactive now ord ?m),
          snd (ExpireInactive now ord ?m))"
        using True Some by (auto simp: expired_def Let_def del split_beta)
      note r = remove_step [OF Cons.prems(1) Some]
      have IH: "mgr_inv (snd (ExpireInactive now ord ?m))"
        "m_next (snd (ExpireInactive now ord ?m)) = m_next m"
        "fst (ExpireInactive now ord ?m) = fst (spec_expire now ord (table_of ?m))"
        "table_of (snd (ExpireInactive now ord ?m)) = (\<lambda>j. if j \<in> set ord
            then snd (spec_expire now ord (table_of ?m)) j else table_of ?m j)"
        using Cons.IH [OF r(1)] Cons.prems(2) by (simp_all add: r(4))
      show ?thesis
        unfolding go using IH(1,2) Cons.prems(2) True
        by (auto simp: IH(3,4) r(2) spec_expire_Cons T hp [unfolded dead_def, simplified]
              fun_eq_iff dead_def) (auto simp: spec_expire_def)
    qed
  qed
qed

section \<open>Creation and the loops over the table\<close>

lemma new_session_fields [simp]:
  "s_ID (new_session now n ci) = session_id now n" "s_State (new_session now n ci) = Pending"
  "s_SubscriberIP (new_session now n ci) = None" "s_GTPCTEID (new_session now n ci) = 0"
  by (simp_all add: new_session_def zero_session_def)

definition place :: "time \<Rightarrow> create_input \<Rightarrow> manager \<Rightarrow> manager" where
  "place now ci m = m\<lparr> m_next := m_next m + 1, m_alloc := m_alloc m + 1,
     m_heap := (m_heap m)(m_alloc m := new_session now (m_next m + 1) ci) \<rparr>"

lemma place_simps [simp]:
  "m_byID (place now ci m) = m_byID m" "m_byIMSI (place now ci m) = m_byIMSI m"
  "m_byMAC (place now ci m) = m_byMAC m" "m_byIP (place now ci m) = m_byIP m"
  "m_byTEID (place now ci m) = m_byTEID m" "m_alloc (place now ci m) = m_alloc m + 1"
  "m_next (place now ci m) = m_next m + 1"
  "m_heap (place now ci m) = (m_heap m)(m_alloc m := new_session now (m_next m + 1) ci)"
  by (simp_all add: place_def)

lemma Create_place:
  "Create now ci m = (clone (new_session now (m_next m + 1) ci), indexLocked (m_alloc m) (place now ci m))"
  by (simp add: Create_def place_def Let_def indexLocked_simps)

lemma unref_alloc: "mgr_inv m \<Longrightarrow> unref (m_alloc m) m"
  using ids_okD(1) [OF mgr_invD(1)] mgr_invD(2)
  by (fastforce simp: unref_def ran_def idx_def dest: soundD(1))

lemma idx_place: "mgr_inv m \<Longrightarrow> idx (place now ci m)"
  using unref_alloc mgr_invD(2) by (auto simp: idx_def unref_def intro!: sound_heap_unref)

lemma Create_inv:
  assumes "mgr_inv m" "m_next m \<noteq> -1"
  shows "mgr_inv (snd (Create now ci m))"
proof -
  let ?m = "place now ci m"
  have fresh: "m_byID m (session_id now (m_next m + 1)) = None"
    using fresh_id [OF mgr_invD(1) [OF assms(1)] assms(2)] .
  have "idx (indexLocked (m_alloc m) ?m)"
    using idx_place [OF assms(1)] fresh by (intro idx_index) simp_all
  moreover have "ids_ok (indexLocked (m_alloc m) ?m)"
    unfolding ids_ok_def
  proof (intro allI impI)
    fix i p assume "m_byID (indexLocked (m_alloc m) ?m) i = Some p"
    then have "i = session_id now (m_next m + 1) \<and> p = m_alloc m \<or> m_byID m i = Some p"
      by (simp add: indexLocked_simps split: if_splits)
    then consider "i = session_id now (m_next m + 1)" "p = m_alloc m" | "m_byID m i = Some p"
      by blast
    then show "p < m_alloc (indexLocked (m_alloc m) ?m)
        \<and> s_ID (m_heap (indexLocked (m_alloc m) ?m) p) = i
        \<and> (\<exists>t n. i = session_id t n \<and> unat n \<le> unat (m_next (indexLocked (m_alloc m) ?m)))
        \<and> sess_ok (m_heap (indexLocked (m_alloc m) ?m) p)"
    proof cases
      case 1
      then show ?thesis by (auto simp: indexLocked_simps sess_ok_def past_auth_def)
    next
      case 2
      note d = ids_okD [OF mgr_invD(1) [OF assms(1)] 2]
      from d(4) obtain t n where "i = session_id t n" "unat n \<le> unat (m_next m)" by blast
      then have "\<exists>t n. i = session_id t n \<and> unat n \<le> unat (m_next m + 1)"
        using unat_inc_u64 [OF assms(2)] by (metis le_Suc_eq Suc_eq_plus1)
      with d(1-3) show ?thesis by (auto simp: indexLocked_simps)
    qed
  qed
  ultimately show ?thesis by (simp add: Create_place mgr_inv_def)
qed

lemma Create_refines:
  assumes "mgr_inv m"
  shows "table_of (snd (Create now ci m)) =
      (table_of m)(session_id now (m_next m + 1) \<mapsto> new_session now (m_next m + 1) ci)"
proof
  fix i
  have "m_byID m i \<noteq> Some (m_alloc m)"
    using ids_okD(1) [OF mgr_invD(1) [OF assms], of i] by blast
  then show "table_of (snd (Create now ci m)) i =
      ((table_of m)(session_id now (m_next m + 1) \<mapsto> new_session now (m_next m + 1) ci)) i"
    by (cases "m_byID m i") (auto simp: Create_place table_of_def indexLocked_simps)
qed

lemma walk_refines: "walk P ord m = spec_all P ord (table_of m)"
  by (induction ord) (auto simp: spec_all_def map_filter_simps table_of_def split: option.splits)

lemma walk_first_refines: "walk_first P ord m = spec_first P ord (table_of m)"
  by (induction ord)
    (auto simp: spec_first_def spec_all_def map_filter_simps table_of_def split: option.splits list.splits)

section \<open>The machine\<close>

lemma keeps_fields [simp]:
  "keeps (s_Reason_update (\<lambda>_. r))" "keeps (gtpu_error_fields t at)" "keeps (acct_fields u)"
  "keeps (\<lambda>s. s\<lparr> s_Authenticated := True, s_Authorized := True \<rparr>)"
  by (simp_all add: keeps_def gtpu_error_fields_def acct_fields_def)

lemma acts_auth_result:
  "acts (\<lambda>p m. indexLocked p (modify (auth_result_fields imsi msisdn apn r) p (unindexLocked p m)))
     (auth_result_fields imsi msisdn apn r)"
  by (rule acts_reindex) (simp add: auth_result_fields_def)

lemma acts_teids:
  "acts (\<lambda>p m. put_teid p (modify (\<lambda>s. s\<lparr> s_GTPCTEID := a, s_LocalGTPUTEID := b,
        s_RemoteGTPUTEID := c \<rparr>) p (drop_teid p m)))
     (\<lambda>s. s\<lparr> s_GTPCTEID := a, s_LocalGTPUTEID := b, s_RemoteGTPUTEID := c \<rparr>)"
  "acts (\<lambda>p m. put_teid p (modify (\<lambda>s. s\<lparr> s_PGWControlIP := pc, s_PGWUserIP := pu,
        s_GTPCTEID := a, s_LocalGTPUTEID := b, s_RemoteGTPUTEID := c \<rparr>) p (drop_teid p m)))
     (\<lambda>s. s\<lparr> s_PGWControlIP := pc, s_PGWUserIP := pu, s_GTPCTEID := a, s_LocalGTPUTEID := b,
        s_RemoteGTPUTEID := c \<rparr>)"
  by (rule acts_rebind; simp)+

lemmas closure_acts = acts_id acts_modify [OF keeps_fields(1)] acts_modify [OF keeps_fields(2)]
  acts_modify [OF keeps_fields(3)] acts_modify [OF keeps_fields(4)] acts_auth_result acts_teids
  acts_set_ip acts_update_ip

lemmas method_defs = MarkAuthPending_def MarkAuthorized_def ApplyAuthResult_def
  SetSubscriberIP_def UpdateSubscriberIP_def MarkPGWPending_def MarkActive_def
  MarkRecovering_def MarkTerminating_def MarkFailed_def BindTEIDs_def ApplyPGWResult_def
  RecordGTPUError_def ApplyAccounting_def

lemma sess_ok_fields [simp]:
  "sess_ok s \<Longrightarrow> sess_ok (gtpu_error_fields t at s)" "sess_ok s \<Longrightarrow> sess_ok (acct_fields u s)"
  by (simp_all add: sess_ok_def gtpu_error_fields_def acct_fields_def)

lemma valid_into_auth:
  assumes "sess_ok s" "validTransition (s_State s) nxt" "past_auth nxt" "nxt \<noteq> Authorized"
  shows "s_Authenticated s \<and> s_Authorized s"
  using assms by (cases "s_State s"; cases nxt) (auto simp: sess_ok_def past_auth_def validTransition.simps)

lemma method_inv:
  assumes "mgr_inv m"
  shows "mgr_inv (snd (MarkAuthPending now i m))" "mgr_inv (snd (MarkAuthorized now i m))"
    "mgr_inv (snd (ApplyAuthResult now i imsi msisdn apn r m))"
    "clone_ip a \<noteq> None \<Longrightarrow> mgr_inv (snd (SetSubscriberIP now i a m))"
    "mgr_inv (snd (UpdateSubscriberIP now i a m))" "mgr_inv (snd (MarkPGWPending now i m))"
    "mgr_inv (snd (MarkActive now i m))" "mgr_inv (snd (MarkRecovering now i r m))"
    "mgr_inv (snd (MarkTerminating now i m))" "mgr_inv (snd (MarkFailed now i r m))"
    "mgr_inv (snd (BindTEIDs now i x y z m))" "mgr_inv (snd (ApplyPGWResult now i pc pu x y z m))"
    "mgr_inv (snd (RecordGTPUError now i t at m))" "mgr_inv (snd (ApplyAccounting now i u m))"
  unfolding method_defs
  subgoal by (rule transition_inv [OF assms acts_id]) (simp_all add: past_auth_def)
  subgoal by (rule transition_inv [OF assms closure_acts(5)]) simp_all
  subgoal by (rule transition_inv [OF assms acts_auth_result]) (simp_all add: auth_result_fields_def)
  subgoal by (rule transition_inv [OF assms acts_set_ip]) (auto dest: valid_into_auth)
  subgoal by (rule update_inv [OF assms acts_update_ip]) (simp add: sess_ok_def)
  subgoal by (rule transition_inv [OF assms acts_id]) (auto dest: valid_into_auth)
  subgoal by (rule transition_inv [OF assms acts_id]) (auto dest: valid_into_auth)
  subgoal by (rule transition_inv [OF assms closure_acts(2)]) (auto dest: valid_into_auth)
  subgoal by (rule transition_inv [OF assms acts_id]) (simp_all add: past_auth_def)
  subgoal by (rule transition_inv [OF assms closure_acts(2)]) (simp_all add: past_auth_def)
  subgoal by (rule update_inv [OF assms acts_teids(1)]) (simp add: sess_ok_def)
  subgoal by (rule update_inv [OF assms acts_teids(2)]) (simp add: sess_ok_def)
  subgoal by (rule update_inv [OF assms closure_acts(3)]) simp
  subgoal by (rule update_inv [OF assms closure_acts(4)]) simp
  done

lemma op_inv:
  assumes "mgr_inv m" "op_ok op m" shows "mgr_inv (snd (exec_op op m))"
  using assms by (cases op) (simp_all add: split_beta Create_inv Expire_step Delete_inv method_inv)

lemma method_refines:
  assumes "mgr_inv m"
  shows "exec_op op m = map_prod RResult (\<lambda>x. x) (transition now i nxt fn m) \<Longrightarrow> acts fn f \<Longrightarrow>
      map_prod RResult (Pair (m_next m)) (spec_transition now i nxt f (table_of m)) =
        (fst (exec_op op m), abs_mgr (snd (exec_op op m)))"
    "exec_op op m = map_prod RResult (\<lambda>x. x) (update now i fn m) \<Longrightarrow> acts fn f \<Longrightarrow>
      map_prod RResult (Pair (m_next m)) (spec_update now i f (table_of m)) =
        (fst (exec_op op m), abs_mgr (snd (exec_op op m)))"
  by (simp_all add: transition_refines [OF assms] update_refines [OF assms] abs_mgr_def
      next_kept [OF assms])

lemma op_simulates:
  assumes "mgr_inv m" "op_ok op m"
  shows "spec_op op (abs_mgr m) = (fst (exec_op op m), abs_mgr (snd (exec_op op m)))"
proof -
  note R = method_refines [OF assms(1)]
  have unf: "abs_mgr m = (m_next m, table_of m)" by (simp add: abs_mgr_def)
  show ?thesis
  proof (cases op)
    case (OpCreate now ci)
    then show ?thesis
      by (simp add: Create_refines [OF assms(1)] abs_mgr_def split_beta Let_def)
        (simp add: Create_place indexLocked_simps)
  next
    case (OpDelete now i)
    then show ?thesis
      by (simp add: abs_mgr_def Delete_refines [OF assms(1)] Delete_next [OF assms(1)])
  next
    case (OpExpire now ord)
    have "table_of m i = None" if "i \<notin> dom (m_byID m)" for i
      using that by (auto simp: table_of_def)
    then have "(\<lambda>i. if i \<in> dom (m_byID m) then snd (spec_expire now ord (table_of m)) i else table_of m i)
        = snd (spec_expire now ord (table_of m))"
      by (auto simp: spec_expire_def fun_eq_iff)
    with OpExpire assms Expire_step [OF assms(1), of ord now] show ?thesis
      by (simp add: abs_mgr_def prod_eq_iff)
  next
    case (OpFind imsi mac apn act ord)
    then show ?thesis
      by (simp add: abs_mgr_def findBySubscriber_def walk_first_refines)
  next
    case (OpAuthPending now i)
    show ?thesis
      unfolding OpAuthPending unf spec_op.simps by (rule R(1) [OF _ acts_id]) (simp only: exec_op.simps MarkAuthPending_def)
  next
    case (OpAuthorized now i)
    show ?thesis
      unfolding OpAuthorized unf spec_op.simps by (rule R(1) [OF _ closure_acts(5)]) (simp only: exec_op.simps MarkAuthorized_def)
  next
    case (OpAuthResult now i imsi msisdn apn r)
    show ?thesis
      unfolding OpAuthResult unf spec_op.simps by (rule R(1) [OF _ acts_auth_result]) (simp only: exec_op.simps ApplyAuthResult_def)
  next
    case (OpSetIP now i a)
    with assms(2) have a: "clone_ip a \<noteq> None" by simp
    show ?thesis
      unfolding OpSetIP unf spec_op.simps by (rule R(1) [OF _ acts_set_ip [OF a]]) (simp only: exec_op.simps SetSubscriberIP_def)
  next
    case (OpUpdateIP now i a)
    show ?thesis
      unfolding OpUpdateIP unf spec_op.simps by (rule R(2) [OF _ acts_update_ip]) (simp only: exec_op.simps UpdateSubscriberIP_def)
  next
    case (OpPGWPending now i)
    show ?thesis
      unfolding OpPGWPending unf spec_op.simps by (rule R(1) [OF _ acts_id]) (simp only: exec_op.simps MarkPGWPending_def)
  next
    case (OpActive now i)
    show ?thesis
      unfolding OpActive unf spec_op.simps by (rule R(1) [OF _ acts_id]) (simp only: exec_op.simps MarkActive_def)
  next
    case (OpRecovering now i r)
    show ?thesis
      unfolding OpRecovering unf spec_op.simps by (rule R(1) [OF _ closure_acts(2)]) (simp only: exec_op.simps MarkRecovering_def)
  next
    case (OpTerminating now i)
    show ?thesis
      unfolding OpTerminating unf spec_op.simps by (rule R(1) [OF _ acts_id]) (simp only: exec_op.simps MarkTerminating_def)
  next
    case (OpFailed now i r)
    show ?thesis
      unfolding OpFailed unf spec_op.simps by (rule R(1) [OF _ closure_acts(2)]) (simp only: exec_op.simps MarkFailed_def)
  next
    case (OpBindTEIDs now i x y z)
    show ?thesis
      unfolding OpBindTEIDs unf spec_op.simps by (rule R(2) [OF _ acts_teids(1)]) (simp only: exec_op.simps BindTEIDs_def)
  next
    case (OpPGWResult now i pc pu x y z)
    show ?thesis
      unfolding OpPGWResult unf spec_op.simps by (rule R(2) [OF _ acts_teids(2)]) (simp only: exec_op.simps ApplyPGWResult_def)
  next
    case (OpGTPUError now i t at)
    show ?thesis
      unfolding OpGTPUError unf spec_op.simps by (rule R(2) [OF _ closure_acts(3)]) (simp only: exec_op.simps RecordGTPUError_def)
  next
    case (OpAccounting now i u)
    show ?thesis
      unfolding OpAccounting unf spec_op.simps by (rule R(2) [OF _ closure_acts(4)]) (simp only: exec_op.simps ApplyAccounting_def)
  qed (simp_all add: abs_mgr_def walk_refines walk_first_refines List_sessions_def
      LookupByAcctSession_def Get_def deref_def table_of_def option.map_comp comp_def)
qed

interpretation sess_table: implements exec_op op_ok mgr_inv spec_op abs_mgr
  by unfold_locales (simp_all add: op_inv op_simulates)

end
