(* ===== verification/SessionProps.thy ===== *)
theory SessionProps
  imports SessionSpec
begin

text \<open>
  The properties of the session table: refinement of the plain table, soundness of the
  lookups, the life cycle of a session over any legal sequence of calls, and what deleting and
  expiring do.
\<close>

section \<open>Steps of one session\<close>

inductive life_step :: "state \<Rightarrow> state \<Rightarrow> bool" where
  challenge: "life_step Pending AuthPending"
| authorize: "life_step AuthPending Authorized"
| allocate: "life_step Authorized IPAllocated"
| request: "life_step Authorized PGWPending"
| request_ip: "life_step IPAllocated PGWPending"
| activate: "life_step PGWPending Active"
| recover: "life_step Active Recovering"
| terminate: "st \<in> {Pending, AuthPending, Authorized, IPAllocated, PGWPending, Active, Recovering}
    \<Longrightarrow> life_step st Terminating"
| fail: "st \<noteq> Terminated \<Longrightarrow> st \<noteq> Failed \<Longrightarrow> life_step st Failed"
| finish: "life_step Terminating Terminated"

inductive_cases life_stepE: "life_step st st'"
inductive_simps life_step_Failed: "life_step Failed st"
inductive_simps life_step_to_Active: "life_step st Active"

lemma validTransition_life: "validTransition st st' \<longleftrightarrow> st = st' \<or> life_step st st'"
  by (cases st; cases st') (auto simp: validTransition.simps intro: life_step.intros elim: life_stepE)

lemma spec_transition_edge:
  assumes "snd (spec_transition now j nxt f T) i = Some s'" "nxt \<noteq> Terminated"
    "\<And>k s. T k = Some s \<Longrightarrow> s_State s \<noteq> Terminated"
  shows "\<exists>s. T i = Some s \<and> validTransition (s_State s) (s_State s') \<and> s_State s' \<noteq> Terminated"
  using assms by (auto simp: spec_transition_def Let_def validTransition.simps [of x x for x]
      split: option.splits if_splits)

lemma spec_update_edge:
  assumes "snd (spec_update now j f T) i = Some s'" "\<And>s. s_State (f s) = s_State s"
    "\<And>k s. T k = Some s \<Longrightarrow> s_State s \<noteq> Terminated"
  shows "\<exists>s. T i = Some s \<and> validTransition (s_State s) (s_State s') \<and> s_State s' \<noteq> Terminated"
  using assms by (auto simp: spec_update_def Let_def validTransition.simps [of x x for x]
      split: option.splits if_splits)

lemma table_not_Terminated: "mgr_inv m \<Longrightarrow> table_of m i = Some s \<Longrightarrow> s_State s \<noteq> Terminated"
  using ids_okD(3) [OF mgr_invD(1)] by (fastforce simp: table_of_def sess_ok_def)

lemma op_edge:
  assumes "mgr_inv m" "op_ok op m" "table_of (snd (exec_op op m)) i = Some s'"
  shows "s_State s' = Pending \<or>
    (\<exists>s. table_of m i = Some s \<and> validTransition (s_State s) (s_State s'))"
proof -
  have T: "snd (snd (spec_op op (m_next m, table_of m))) i = Some s'"
    using op_simulates [OF assms(1,2)] assms(3) by (simp add: abs_mgr_def)
  note nt = table_not_Terminated [OF assms(1)]
  have stay: "validTransition st st" for st by (simp add: validTransition.simps)
  show ?thesis
  proof (cases op)
    case (OpDelete now j)
    with T show ?thesis by (auto simp: spec_delete_def stay split: option.splits if_splits)
  next
    case (OpExpire now ord)
    with T show ?thesis by (auto simp: spec_expire_def stay split: option.splits if_splits)
  qed (use T nt in \<open>auto simp: stay Let_def gtpu_error_fields_def acct_fields_def split: if_splits
      dest!: spec_transition_edge spec_update_edge\<close>)
qed

section \<open>Along a run\<close>

definition after :: "sess_op list \<Rightarrow> manager" where
  \<comment> \<open>the manager after a sequence of calls, from \<open>NewManager\<close>\<close>
  "after ops = snd (run exec_op ops new_manager)"

definition legal_calls :: "sess_op list \<Rightarrow> bool" where
  "legal_calls ops \<longleftrightarrow> legal exec_op op_ok ops new_manager"

definition state_of :: "manager \<Rightarrow> string \<Rightarrow> state option" where
  "state_of m i = map_option s_State (table_of m i)"

fun history :: "string \<Rightarrow> sess_op list \<Rightarrow> manager \<Rightarrow> state list" where
  \<comment> \<open>the states session \<open>i\<close> shows before, between and after the calls\<close>
  "history i [] m = (case state_of m i of None \<Rightarrow> [] | Some st \<Rightarrow> [st])"
| "history i (op # ops) m =
     (case state_of m i of None \<Rightarrow> [] | Some st \<Rightarrow> [st]) @ history i ops (snd (exec_op op m))"

lemma after_inv: "legal_calls ops \<Longrightarrow> mgr_inv (after ops)"
  unfolding after_def legal_calls_def by (rule sess_table.run_inv) simp_all

lemma after_Nil [simp]: "after [] = new_manager"
  by (simp add: after_def)

lemma after_snoc [simp]: "after (ops @ [op]) = snd (exec_op op (after ops))"
  by (simp add: after_def run_append split_beta)

lemma legal_snoc [simp]: "legal_calls (ops @ [op]) \<longleftrightarrow> legal_calls ops \<and> op_ok op (after ops)"
  by (simp add: legal_calls_def after_def)

lemma history_snoc:
  "history i (ops @ [op]) m = history i ops m @
     (case state_of (snd (exec_op op (snd (run exec_op ops m)))) i of None \<Rightarrow> [] | Some st \<Rightarrow> [st])"
  by (induction ops arbitrary: m) simp_all

lemma history_last: "state_of (after ops) i = Some st \<Longrightarrow> st \<in> set (history i ops new_manager)"
  by (induction ops rule: rev_induct) (auto simp: history_snoc after_def [symmetric])

definition needs :: "state \<Rightarrow> state set" where
  \<comment> \<open>the states a session must have been in to be in this one\<close>
  "needs st = (case st of Active \<Rightarrow> {Pending, AuthPending, Authorized, PGWPending}
     | PGWPending \<Rightarrow> {Pending, AuthPending, Authorized}
     | IPAllocated \<Rightarrow> {Pending, AuthPending, Authorized}
     | Authorized \<Rightarrow> {Pending, AuthPending} | AuthPending \<Rightarrow> {Pending}
     | Recovering \<Rightarrow> {Pending, AuthPending, Authorized, PGWPending, Active} | _ \<Rightarrow> {})"

lemma needs_step: "validTransition st st' \<Longrightarrow> needs st' \<subseteq> insert st (needs st)"
  by (cases st; cases st') (auto simp: validTransition.simps needs_def)

lemma history_needs:
  "legal_calls ops \<Longrightarrow> state_of (after ops) i = Some st \<Longrightarrow> needs st \<subseteq> set (history i ops new_manager)"
proof (induction ops arbitrary: st rule: rev_induct)
  case Nil
  then show ?case by (simp add: after_def state_of_def table_of_def new_manager_def)
next
  case (snoc op ops)
  then have leg: "legal_calls ops" "op_ok op (after ops)" by simp_all
  from snoc.prems obtain s' where s': "table_of (snd (exec_op op (after ops))) i = Some s'" "s_State s' = st"
    by (auto simp: state_of_def)
  from op_edge [OF after_inv [OF leg(1)] leg(2) s'(1)] s'(2)
  have "needs st = {} \<or> (\<exists>st0. state_of (after ops) i = Some st0 \<and> validTransition st0 st)"
    by (auto simp: state_of_def needs_def)
  then show ?case
  proof
    assume "\<exists>st0. state_of (after ops) i = Some st0 \<and> validTransition st0 st"
    then obtain st0 where st0: "state_of (after ops) i = Some st0" "validTransition st0 st" by blast
    from snoc.IH [OF leg(1) st0(1)] history_last [OF st0(1)] needs_step [OF st0(2)]
    show ?thesis by (auto simp: history_snoc)
  qed simp
qed

lemma Failed_step:
  assumes "mgr_inv m" "op_ok op m" "state_of m i = Some Failed" "\<forall>now ord. op \<noteq> OpExpire now ord"
  shows "state_of (snd (exec_op op m)) i = Some Failed"
proof -
  have T: "table_of (snd (exec_op op m)) = snd (snd (spec_op op (m_next m, table_of m)))"
    using op_simulates [OF assms(1,2)] by (simp add: abs_mgr_def)
  from assms(3) obtain s where s: "table_of m i = Some s" "s_State s = Failed"
    by (auto simp: state_of_def)
  have "i \<noteq> session_id now (m_next m + 1)" if "m_next m \<noteq> -1" for now
    using fresh_id [OF mgr_invD(1) [OF assms(1)] that] s(1) by (auto simp: table_of_def)
  with s assms(2,4) show ?thesis
    unfolding state_of_def T
    by (cases op) (auto simp: spec_update_def spec_transition_def spec_delete_def Let_def
        gtpu_error_fields_def acct_fields_def validTransition.simps split: option.splits)
qed

section \<open>Soundness of the lookups\<close>

lemma deref_Some: "deref m (Some p) = Some (clone (m_heap m p))"
  by (simp add: deref_def)

lemma live_lookup:
  assumes "mgr_inv m" "m_byID m (s_ID (m_heap m p)) = Some p"
  shows "Get (s_ID (m_heap m p)) m = Some (clone (m_heap m p))"
  using assms by (simp add: Get_def deref_Some)

lemma lookup_live:
  assumes "mgr_inv m" "deref m (mp k) = Some s" "sound key mp (m_byID m) (m_heap m)"
  shows "Get (s_ID s) m = Some s" "\<exists>s0. s = clone s0 \<and> key s0 = Some k"
proof -
  from assms(2) obtain p where p: "mp k = Some p" "s = clone (m_heap m p)"
    by (auto simp: deref_def)
  note d = soundD [OF assms(3) p(1)]
  show "Get (s_ID s) m = Some s" using live_lookup [OF assms(1) d(1)] by (simp add: p(2))
  show "\<exists>s0. s = clone s0 \<and> key s0 = Some k" using d(2) p(2) by blast
qed

lemma macMatches_canonical:
  assumes "parse_mac a = Some hw" shows "macMatches (mac_string hw) a"
proof -
  have "hw \<noteq> []" "a \<noteq> []"
    using parse_mac_size [OF assms] assms by (auto simp: mac_size_def parse_mac_def)
  moreover have "mac_string hw \<noteq> []"
    using length_mac_string [OF \<open>hw \<noteq> []\<close>] \<open>hw \<noteq> []\<close> by (cases hw) auto
  ultimately show ?thesis
    using assms parse_mac_size [OF assms] by (simp add: macMatches_def normalizeMAC_def)
qed

lemma LookupByMAC_sound:
  assumes "mgr_inv m" "LookupByMAC mac m = Some s"
  shows "Get (s_ID s) m = Some s" "macMatches (s_MACAddress s) mac"
proof -
  note snd = mgr_invD(2) [OF assms(1), unfolded idx_def]
  from assms(2) consider (direct) "deref m (m_byMAC m mac) = Some s"
    | (parsed) hw where "parse_mac mac = Some hw" "deref m (m_byMAC m (mac_string hw)) = Some s"
    by (auto simp: LookupByMAC_def deref_def split: option.splits)
  then have "Get (s_ID s) m = Some s \<and> macMatches (s_MACAddress s) mac"
  proof cases
    case direct
    from lookup_live [of m "m_byMAC m" mac s mac_key, OF assms(1) direct] snd show ?thesis
      by (auto simp: mac_key_def macMatches_def split: if_splits)
  next
    case parsed
    from lookup_live [of m "m_byMAC m" "mac_string hw" s mac_key, OF assms(1) parsed(2)] snd macMatches_canonical [OF parsed(1)] show ?thesis
      by (auto simp: mac_key_def split: if_splits)
  qed
  then show "Get (s_ID s) m = Some s" "macMatches (s_MACAddress s) mac" by simp_all
qed

section \<open>Properties\<close>

definition sample_input :: "string \<Rightarrow> string \<Rightarrow> int \<Rightarrow> create_input" where
  "sample_input imsi mac ttl = \<lparr> ci_IMSI = imsi, ci_MSISDN = [], ci_MACAddress = mac, ci_APN = ''internet'',
     ci_Realm = [], ci_Username = [], ci_EAPIdentity = [], ci_CallingStationID = [],
     ci_CalledStationID = [], ci_NASIP = [], ci_NASIdentifier = [], ci_AcctSessionID = [],
     ci_RadiusState = [], ci_RadiusClass = [], ci_ConnectInfo = [], ci_FramedMTU = 0,
     ci_AccessType = [], ci_AccessInterface = [], ci_GatewayIP = None, ci_TTL = ttl \<rparr>"

definition sample_id :: string where
  "sample_id = session_id 5 1"

definition sample_attach :: "sess_op list" where
  "sample_attach = [OpCreate 5 (sample_input ''001010000000001'' ''02:00:00:00:00:01'' 10),
     OpAuthPending 6 sample_id, OpAuthResult 7 sample_id ''001010000000001'' [] [] ''ok'',
     OpPGWPending 8 sample_id, OpPGWResult 9 sample_id None None 7 8 9,
     OpUpdateIP 9 sample_id (Some [10, 0, 0, 2]), OpActive 10 sample_id]"


text \<open>C15. Whatever an index lookup (by IMSI, MAC address, subscriber IP or control TEID)
  returns is a session of the table, and it carries the key it was looked up by.\<close>

theorem lookups_sound:
  assumes "legal_calls ops" "m = after ops"
  shows "(LookupByIMSI imsi m = Some s \<longrightarrow> Get (s_ID s) m = Some s \<and> s_IMSI s = imsi)
    \<and> (LookupByMAC mac m = Some s \<longrightarrow> Get (s_ID s) m = Some s \<and> macMatches (s_MACAddress s) mac)
    \<and> (LookupByIP a m = Some s \<longrightarrow> Get (s_ID s) m = Some s
         \<and> (\<exists>b. b \<noteq> None \<and> ip_string b = ip_string a \<and> s_SubscriberIP s = clone_ip b))
    \<and> (LookupByTEID teid m = Some s \<longrightarrow> Get (s_ID s) m = Some s \<and> s_GTPCTEID s = teid)"
proof -
  have inv: "mgr_inv m" using assms after_inv by simp
  note L = lookup_live [OF inv] and S = mgr_invD(2) [OF inv, unfolded idx_def]
  show ?thesis
  proof (intro conjI impI)
    assume "LookupByIMSI imsi m = Some s"
    then show "Get (s_ID s) m = Some s" "s_IMSI s = imsi"
      using L [of "m_byIMSI m" imsi s imsi_key] S
      by (auto simp: LookupByIMSI_def imsi_key_def split: if_splits)
  next
    assume "LookupByIP a m = Some s"
    then show "Get (s_ID s) m = Some s"
      "\<exists>b. b \<noteq> None \<and> ip_string b = ip_string a \<and> s_SubscriberIP s = clone_ip b"
      using L [of "m_byIP m" "ip_string a" s ip_key] S
      by (auto simp: LookupByIP_def ip_key_def split: if_splits)
  next
    assume "LookupByTEID teid m = Some s"
    then show "Get (s_ID s) m = Some s" "s_GTPCTEID s = teid"
      using L [of "m_byTEID m" teid s teid_key] S
      by (auto simp: LookupByTEID_def teid_key_def split: if_splits)
  qed (rule LookupByMAC_sound [OF inv]; assumption)+
qed

text \<open>C13. A session that is \<open>active\<close> has been \<open>pending\<close>, \<open>auth_pending\<close>, \<open>authorized\<close> and
  \<open>pgw_pending\<close> before, whatever legal calls were made on any session: no sequence of calls skips
  authentication or the PGW request.\<close>

theorem active_only_after_auth_and_pgw:
  assumes "legal_calls ops" "state_of (after ops) i = Some Active"
  shows "{Pending, AuthPending, Authorized, PGWPending} \<subseteq> set (history i ops new_manager)"
  using history_needs [OF assms] by (simp add: needs_def)

text \<open>A session between \<open>authorized\<close> and \<open>recovering\<close> is marked authenticated and authorised, and
  no session that can be looked up by ID is \<open>terminated\<close>.\<close>

theorem authorized_states:
  assumes "legal_calls ops" "Get i (after ops) = Some s"
  shows "s_ID s = i \<and> s_State s \<noteq> Terminated \<and>
    (s_State s \<in> {Authorized, IPAllocated, PGWPending, Active, Recovering}
       \<longrightarrow> s_Authenticated s \<and> s_Authorized s)"
proof -
  have inv: "ids_ok (after ops)" using after_inv [OF assms(1)] by (rule mgr_invD)
  from assms(2) obtain p where p: "m_byID (after ops) i = Some p" "s = clone (m_heap (after ops) p)"
    by (auto simp: Get_def deref_def)
  from ids_okD(2,3) [OF inv p(1)] show ?thesis by (simp add: p(2) sess_ok_def past_auth_def)
qed

text \<open>A failed session cannot be revived, and it cannot be removed either: as long as
  \<open>ExpireInactive\<close> is not called it stays in the table in state \<open>failed\<close>, whatever else is called
  (\<open>Delete\<close> refuses it, since \<open>failed\<close> has no edge to \<open>terminating\<close> or \<open>terminated\<close>).\<close>

theorem failed_is_forever:
  assumes "legal_calls (ops @ later)" "state_of (after ops) i = Some Failed"
    "\<forall>op \<in> set later. \<forall>now ord. op \<noteq> OpExpire now ord"
  shows "state_of (after (ops @ later)) i = Some Failed"
  using assms
proof (induction later rule: rev_induct)
  case (snoc op later)
  then have "legal_calls (ops @ later)" "op_ok op (after (ops @ later))"
    by (simp_all flip: append_assoc)
  with snoc Failed_step [OF after_inv] show ?case by (simp flip: append_assoc)
qed simp

text \<open>\<open>Delete\<close> succeeds exactly on a session in state \<open>terminating\<close>; it returns the session as
  \<open>terminated\<close>, no lookup finds it any later, and every other session stays as it is.\<close>

theorem delete_removes:
  assumes "legal_calls ops" "m = after ops"
  shows "(fst (Delete now i m) \<noteq> None \<longleftrightarrow> state_of m i = Some Terminating)
    \<and> (fst (Delete now i m) = Some s \<longrightarrow> s_State s = Terminated \<and> s_ID s = i
         \<and> Get i (snd (Delete now i m)) = None
         \<and> (\<forall>k r. LookupByIMSI k (snd (Delete now i m)) = Some r \<longrightarrow> s_ID r \<noteq> i)
         \<and> (\<forall>k r. LookupByMAC k (snd (Delete now i m)) = Some r \<longrightarrow> s_ID r \<noteq> i))
    \<and> (\<forall>j. j \<noteq> i \<longrightarrow> Get j (snd (Delete now i m)) = Get j m)"
proof -
  have inv: "mgr_inv m" using assms after_inv by simp
  let ?m = "snd (Delete now i m)"
  have inv': "mgr_inv ?m" by (rule Delete_inv [OF inv])
  note R = Delete_refines [OF inv, of now i]
  have get: "Get j m' = map_option clone (table_of m' j)" for j m'
    by (simp add: Get_def deref_def table_of_def option.map_comp comp_def)
  have live: "LookupByIMSI k ?m = Some r \<Longrightarrow> Get (s_ID r) ?m = Some r" for k r
    using lookup_live(1) [OF inv', of "m_byIMSI ?m" k r imsi_key] mgr_invD(2) [OF inv']
    by (simp add: LookupByIMSI_def idx_def)
  have id: "table_of m i = Some t \<Longrightarrow> s_ID t = i \<and> s_State t \<noteq> Terminated" for t
    using ids_okD(2,3) [OF mgr_invD(1) [OF inv]] by (fastforce simp: table_of_def sess_ok_def)
  have F: "fst (Delete now i m) = fst (spec_delete now i (table_of m))"
    and T: "table_of ?m = snd (spec_delete now i (table_of m))" using R by simp_all
  have gone: "Get i ?m = None" if "fst (Delete now i m) \<noteq> None"
    using that by (auto simp: F T get spec_delete_def split: option.splits if_splits)
  show ?thesis
  proof (intro conjI allI impI)
    show "fst (Delete now i m) \<noteq> None \<longleftrightarrow> state_of m i = Some Terminating"
      using id by (auto simp: F spec_delete_def state_of_def split: option.splits)
    show "Get j ?m = Get j m" if "j \<noteq> i" for j
      using that by (auto simp: get T spec_delete_def split: option.splits)
    assume s: "fst (Delete now i m) = Some s"
    then show "s_State s = Terminated" "s_ID s = i"
      using id by (auto simp: F spec_delete_def dead_def split: option.splits if_splits)
    show "Get i ?m = None" using gone s by simp
    then show "LookupByIMSI k ?m = Some r \<Longrightarrow> s_ID r \<noteq> i" "LookupByMAC k ?m = Some r \<Longrightarrow> s_ID r \<noteq> i" for k r
      using live LookupByMAC_sound(1) [OF inv'] by fastforce+
  qed
qed

text \<open>\<open>ExpireInactive\<close> removes exactly the sessions whose expiry time is set and not after
  \<open>now\<close>, returns them as \<open>terminated\<close>, and leaves every other session untouched, in whatever
  order Go walks the map it deletes from.\<close>

theorem expire_exact:
  assumes "legal_calls ops" "m = after ops" "distinct ord" "set ord = dom (m_byID m)"
  shows "(\<forall>i s. table_of (snd (ExpireInactive now ord m)) i = Some s \<longleftrightarrow>
            table_of m i = Some s \<and> (s_ExpiresAt s = zero_time \<or> now < s_ExpiresAt s))
    \<and> (\<forall>r. r \<in> set (fst (ExpireInactive now ord m)) \<longleftrightarrow>
            (\<exists>i s. table_of m i = Some s \<and> s_ExpiresAt s \<noteq> zero_time \<and> s_ExpiresAt s \<le> now
              \<and> r = clone (s\<lparr> s_State := Terminated, s_UpdatedAt := now \<rparr>)))"
proof -
  have inv: "mgr_inv m" using assms after_inv by simp
  note E = Expire_step [OF inv assms(3), of now]
  have dom: "i \<in> dom (m_byID m) \<longleftrightarrow> table_of m i \<noteq> None" for i by (auto simp: table_of_def)
  have mf: "r \<in> set (List.map_filter f xs) \<longleftrightarrow> (\<exists>x \<in> set xs. f x = Some r)" for f xs and r :: session
    by (induction xs) (auto simp: map_filter_simps split: option.splits)
  show ?thesis
  proof (intro conjI allI)
    show "table_of (snd (ExpireInactive now ord m)) i = Some s \<longleftrightarrow>
        table_of m i = Some s \<and> (s_ExpiresAt s = zero_time \<or> now < s_ExpiresAt s)" for i s
      using E dom by (auto simp: assms(4) spec_expire_def expired_def time_is_zero_def split: option.splits)
    show "r \<in> set (fst (ExpireInactive now ord m)) \<longleftrightarrow>
        (\<exists>i s. table_of m i = Some s \<and> s_ExpiresAt s \<noteq> zero_time \<and> s_ExpiresAt s \<le> now
          \<and> r = clone (s\<lparr> s_State := Terminated, s_UpdatedAt := now \<rparr>))" for r
    proof -
      let ?F = "\<lambda>i. case table_of m i of None \<Rightarrow> None
          | Some s \<Rightarrow> if expired now s then Some (clone (dead now s)) else None"
      have "?F i = Some r \<Longrightarrow> i \<in> set ord" for i
        by (cases "table_of m i") (auto simp: assms(4) table_of_def)
      then have "r \<in> set (fst (ExpireInactive now ord m)) \<longleftrightarrow> (\<exists>i. ?F i = Some r)"
        using E by (auto simp: spec_expire_def mf)
      also have "\<dots> \<longleftrightarrow> (\<exists>i s. table_of m i = Some s \<and> expired now s \<and> r = clone (dead now s))"
        by (auto split: option.splits if_splits)
      finally show ?thesis by (simp add: expired_def time_is_zero_def dead_def conj_assoc)
    qed
  qed
qed

definition two_imsis :: "sess_op list" where
  "two_imsis = [OpCreate 5 (sample_input ''001010000000001'' ''02:00:00:00:00:01'' 0),
     OpCreate 6 (sample_input ''001010000000002'' ''02:00:00:00:00:01'' 0),
     OpTerminating 7 sample_id, OpDelete 8 sample_id]"

lemma after_table:
  assumes "legal_calls ops"
  shows "table_of (after ops) = snd (snd (run spec_op ops (0, Map.empty)))"
proof -
  have "abs_mgr new_manager = (0, Map.empty)"
    by (simp add: abs_mgr_def table_of_def new_manager_def fun_eq_iff)
  with sess_table.run_simulates [of new_manager ops] assms show ?thesis
    by (simp add: legal_calls_def after_def abs_mgr_def)
qed


section \<open>Witnesses\<close>

lemma sample_legal: "legal_calls sample_attach"
  by (simp add: legal_calls_def sample_attach_def new_manager_def)


lemma sample_active: "state_of (after sample_attach) sample_id = Some Active"
  unfolding state_of_def after_table [OF sample_legal]
  by (simp add: sample_attach_def spec_transition_def spec_update_def sample_id_def [symmetric]
      validTransition.simps auth_result_fields_def Let_def)

theorem active_only_after_auth_and_pgw_witness:
  "{Pending, AuthPending, Authorized, PGWPending} \<subseteq> set (history sample_id sample_attach new_manager)"
  by (rule active_only_after_auth_and_pgw [OF sample_legal sample_active])

lemma sample_session: "table_of (after sample_attach) sample_id \<noteq> None"
  using sample_active by (auto simp: state_of_def)

theorem authorized_states_witness:
  "\<exists>s. Get sample_id (after sample_attach) = Some s \<and> s_Authenticated s \<and> s_Authorized s"
proof -
  obtain s where "table_of (after sample_attach) sample_id = Some s" "s_State s = Active"
    using sample_active by (auto simp: state_of_def)
  then have "Get sample_id (after sample_attach) = Some (clone s)" "s_State (clone s) = Active"
    by (auto simp: Get_def deref_def table_of_def)
  with authorized_states [OF sample_legal this(1)] show ?thesis by auto
qed

definition one_session :: "sess_op list" where
  "one_session = [OpCreate 5 (sample_input ''001010000000001'' ''02:00:00:00:00:01'' 10)]"

lemma one_session_legal: "legal_calls one_session" "legal_calls (one_session @ [OpTerminating 7 sample_id])"
  by (simp_all add: legal_calls_def one_session_def new_manager_def)

lemma one_session_table:
  "table_of (after one_session) = [sample_id \<mapsto>
     new_session 5 1 (sample_input ''001010000000001'' ''02:00:00:00:00:01'' 10)]"
  unfolding after_table [OF one_session_legal(1)]
  by (simp add: one_session_def Let_def sample_id_def)

theorem lookups_sound_witness:
  "\<exists>s. LookupByIMSI ''001010000000001'' (after one_session) = Some s
     \<and> Get (s_ID s) (after one_session) = Some s"
proof -
  have "m_byIMSI (after one_session) ''001010000000001'' \<noteq> None"
    by (simp add: one_session_def after_def Create_place indexLocked_simps key_defs put_def
        new_session_def sample_input_def)
  then obtain s where "LookupByIMSI ''001010000000001'' (after one_session) = Some s"
    by (auto simp: LookupByIMSI_def deref_def)
  with lookups_sound [OF one_session_legal(1) refl] show ?thesis by blast
qed

theorem failed_is_forever_witness:
  "state_of (after ([OpCreate 5 (sample_input [] [] 0), OpFailed 6 sample_id ''no''] @
       [OpTerminating 7 sample_id, OpDelete 8 sample_id])) sample_id = Some Failed"
proof (rule failed_is_forever)
  show legal: "legal_calls ([OpCreate 5 (sample_input [] [] 0), OpFailed 6 sample_id ''no''] @
       [OpTerminating 7 sample_id, OpDelete 8 sample_id])"
    by (simp add: legal_calls_def new_manager_def)
  have "legal_calls [OpCreate 5 (sample_input [] [] 0), OpFailed 6 sample_id ''no'']"
    by (simp add: legal_calls_def new_manager_def)
  from after_table [OF this]
  show "state_of (after [OpCreate 5 (sample_input [] [] 0), OpFailed 6 sample_id ''no'']) sample_id = Some Failed"
    by (simp add: state_of_def spec_transition_def sample_id_def [symmetric] validTransition.simps Let_def)
qed simp

theorem delete_removes_witness:
  "fst (Delete 8 sample_id (after (one_session @ [OpTerminating 7 sample_id]))) \<noteq> None"
proof -
  have "state_of (after (one_session @ [OpTerminating 7 sample_id])) sample_id = Some Terminating"
    unfolding state_of_def after_table [OF one_session_legal(2)]
    by (simp add: one_session_def Let_def spec_transition_def validTransition.simps
        sample_id_def [symmetric])
  with delete_removes [OF one_session_legal(2) refl, of 8 sample_id] show ?thesis by blast
qed

theorem expire_exact_witness:
  "table_of (after one_session) sample_id \<noteq> None
   \<and> table_of (snd (ExpireInactive 15 [sample_id] (after one_session))) sample_id = None"
proof -
  have "set [sample_id] = dom (m_byID (after one_session))"
  proof -
    have "dom (m_byID (after one_session)) = dom (table_of (after one_session))"
      by (auto simp: table_of_def)
    then show ?thesis by (simp add: one_session_table)
  qed
  from expire_exact [OF one_session_legal(1) refl _ this, of 15]
  have "table_of (snd (ExpireInactive 15 [sample_id] (after one_session))) sample_id = Some s \<longleftrightarrow>
      table_of (after one_session) sample_id = Some s \<and> (s_ExpiresAt s = zero_time \<or> 15 < s_ExpiresAt s)" for s
    by simp
  moreover have "s_ExpiresAt (new_session 5 1 (sample_input ''001010000000001'' ''02:00:00:00:00:01'' 10)) = 15"
    by (simp add: new_session_def sample_input_def)
  ultimately have "table_of (snd (ExpireInactive 15 [sample_id] (after one_session))) sample_id \<noteq> Some s" for s
    by (auto simp: one_session_table zero_time_def simp del: ExpireInactive.simps)
  then show ?thesis by (auto simp: one_session_table simp del: ExpireInactive.simps)
qed

end
