(* ===== verification/AuthCache.thy ===== *)
theory AuthCache
  imports SessionMgr Machine
begin

text \<open>
  The authentication cache of package session (\<open>internal/session/manager.go\<close>, the fields
  \<open>authBy...\<close> of \<open>Manager\<close> and the methods on them; no method of the session table touches them).
  The code's four maps share pointers to entries. An entry is only changed between
  \<open>unindexAuthCacheLocked\<close> and \<open>indexAuthCacheLocked\<close>, when no map holds a pointer to it (the
  invariant below: a map holds an entry only under the entry's own keys), so the maps are
  modelled with entries as values. \<open>clock\<close> is what \<open>time.Now()\<close> would return.
\<close>

record auth_cache =
  ac_key :: "string \<rightharpoonup> auth_entry"
  ac_mac :: "string \<rightharpoonup> auth_entry"
  ac_imsi :: "string \<rightharpoonup> auth_entry"
  ac_acct :: "string \<rightharpoonup> auth_entry"

definition empty_cache :: auth_cache where
  "empty_cache = \<lparr> ac_key = Map.empty, ac_mac = Map.empty, ac_imsi = Map.empty, ac_acct = Map.empty \<rparr>"

definition authCacheKey :: "string \<Rightarrow> string \<Rightarrow> string \<Rightarrow> string" where
  "authCacheKey mac imsi apn =
     normalizeMAC mac @ ''|'' @ trim_space imsi @ ''|'' @ to_lower (trim_space apn)"

definition authAcctKey :: "string \<Rightarrow> string \<Rightarrow> string \<Rightarrow> string" where
  "authAcctKey acct nasIP nasId = trim_space acct @ ''|'' @ trim_space nasIP @ ''|'' @ trim_space nasId"

definition entry_key :: "auth_entry \<Rightarrow> string" where
  "entry_key e = authCacheKey (a_MACAddress e) (a_IMSI e) (a_APN e)"

definition acct_keys :: "auth_entry \<Rightarrow> string list" where
  "acct_keys e = (if a_AcctSessionID e \<noteq> []
     then [authAcctKey (a_AcctSessionID e) (a_NASIP e) (a_NASIdentifier e),
           authAcctKey (a_AcctSessionID e) (a_NASIP e) [],
           authAcctKey (a_AcctSessionID e) [] (a_NASIdentifier e),
           authAcctKey (a_AcctSessionID e) [] []]
     else [])"

definition indexAuthCacheLocked :: "auth_entry \<Rightarrow> auth_cache \<Rightarrow> auth_cache" where
  "indexAuthCacheLocked e c = c\<lparr>
     ac_key := (ac_key c)(entry_key e \<mapsto> e),
     ac_mac := (if a_MACAddress e \<noteq> [] then (ac_mac c)(a_MACAddress e \<mapsto> e) else ac_mac c),
     ac_imsi := (if a_IMSI e \<noteq> [] then (ac_imsi c)(a_IMSI e \<mapsto> e) else ac_imsi c),
     ac_acct := fold (\<lambda>k mp. mp(k \<mapsto> e)) (acct_keys e) (ac_acct c) \<rparr>"

definition unindexAuthCacheLocked :: "auth_entry \<Rightarrow> auth_cache \<Rightarrow> auth_cache" where
  "unindexAuthCacheLocked e c = c\<lparr>
     ac_key := (ac_key c)(entry_key e := None),
     ac_mac := (ac_mac c)(a_MACAddress e := None),
     ac_imsi := (ac_imsi c)(a_IMSI e := None),
     ac_acct := fold (\<lambda>k mp. mp(k := None)) (acct_keys e) (ac_acct c) \<rparr>"

definition pick :: "string \<Rightarrow> string \<Rightarrow> string" where
  \<comment> \<open>\<open>if new != "" { old = new }\<close>\<close>
  "pick new old = (if new \<noteq> [] then new else old)"

definition pick_time :: "time \<Rightarrow> time \<Rightarrow> time" where
  "pick_time new old = (if \<not> time_is_zero new then new else old)"

definition merge_update :: "time \<Rightarrow> auth_update \<Rightarrow> auth_entry \<Rightarrow> auth_entry" where
  "merge_update clock u e = e\<lparr>
     a_UserName := pick (a_UserName u) (a_UserName e),
     a_MSISDN := pick (a_MSISDN u) (a_MSISDN e),
     a_NASIP := pick (a_NASIP u) (a_NASIP e),
     a_NASIdentifier := pick (a_NASIdentifier u) (a_NASIdentifier e),
     a_CalledStationID := pick (a_CalledStationID u) (a_CalledStationID e),
     a_CallingStationID := pick (a_CallingStationID u) (a_CallingStationID e),
     a_SSID := pick (a_SSID u) (a_SSID e),
     a_BSSID := pick (a_BSSID u) (a_BSSID e),
     a_AcctSessionID := pick (a_AcctSessionID u) (a_AcctSessionID e),
     a_SessionTimeoutSeconds := (if 0 < a_SessionTimeoutSeconds u then a_SessionTimeoutSeconds u
                                 else a_SessionTimeoutSeconds e),
     a_AuthStartTime := pick_time (a_AuthStartTime u) (a_AuthStartTime e),
     a_AuthExpiresAt := pick_time (a_AuthExpiresAt u) (a_AuthExpiresAt e),
     a_LastSeenTime := pick_time (a_LastSeenTime u) clock,
     a_LastAccessAcceptSessionID := pick (a_LastAccessAcceptSessionID u) (a_LastAccessAcceptSessionID e),
     a_LastAccountingStopAt := pick_time (a_LastAccountingStopAt u) (a_LastAccountingStopAt e),
     a_LastAccountingStopCause := pick (a_LastAccountingStopCause u) (a_LastAccountingStopCause e) \<rparr>"

definition UpsertAuthCache :: "time \<Rightarrow> auth_update \<Rightarrow> auth_cache \<Rightarrow> auth_entry option \<times> auth_cache" where
  "UpsertAuthCache clock u c =
     (let mac = normalizeMAC (a_MACAddress u); imsi = trim_space (a_IMSI u); apn = trim_space (a_APN u) in
      if mac = [] \<or> imsi = [] then (None, c)
      else let (e0, c1) = (case ac_key c (authCacheKey mac imsi apn) of
                 None \<Rightarrow> (zero_auth\<lparr> a_MACAddress := mac, a_IMSI := imsi, a_APN := apn,
                                    a_AuthStartTime := clock \<rparr>, c)
               | Some e \<Rightarrow> (e, unindexAuthCacheLocked e c));
             e1 = merge_update clock u e0
           in (Some e1, indexAuthCacheLocked e1 c1))"

definition authCacheExpired :: "auth_entry \<Rightarrow> time \<Rightarrow> bool" where
  "authCacheExpired e now \<longleftrightarrow> \<not> time_is_zero (a_AuthExpiresAt e) \<and> a_AuthExpiresAt e \<le> now"

definition or_else :: "'a option \<Rightarrow> bool \<Rightarrow> 'a option \<Rightarrow> 'a option" where
  \<comment> \<open>\<open>if entry == nil && cond { entry = ... }\<close>\<close>
  "or_else a cond b = (if a = None \<and> cond then b else a)"

definition auth_candidate :: "string \<Rightarrow> string \<Rightarrow> string \<Rightarrow> auth_cache \<Rightarrow> auth_entry option" where
  "auth_candidate mac imsi apn c =
     (let e1 = (if mac \<noteq> [] \<and> imsi \<noteq> []
        then or_else (ac_key c (authCacheKey (normalizeMAC mac) (trim_space imsi) (trim_space apn)))
               (apn \<noteq> []) (ac_key c (authCacheKey (normalizeMAC mac) (trim_space imsi) []))
        else None);
      e2 = or_else e1 (mac \<noteq> []) (ac_mac c (normalizeMAC mac))
      in or_else e2 (imsi \<noteq> []) (ac_imsi c (trim_space imsi)))"

definition LookupValidAuthCache ::
  "time \<Rightarrow> string \<Rightarrow> string \<Rightarrow> string \<Rightarrow> time \<Rightarrow> auth_cache \<Rightarrow> auth_entry option \<times> auth_cache" where
  "LookupValidAuthCache clock mac imsi apn now0 c =
     (let now = (if time_is_zero now0 then clock else now0) in
      case auth_candidate mac imsi apn c of
        None \<Rightarrow> (None, c)
      | Some e \<Rightarrow>
         if authCacheExpired e now then (None, unindexAuthCacheLocked e c)
         else if apn \<noteq> [] \<and> a_APN e \<noteq> [] \<and> \<not> sameAPN (a_APN e) apn then (None, c)
         else (Some e, c))"

fun acct_scan :: "time \<Rightarrow> string list \<Rightarrow> auth_cache \<Rightarrow> auth_entry option \<times> auth_cache" where
  "acct_scan now [] c = (None, c)"
| "acct_scan now (k # ks) c = (case ac_acct c k of
     None \<Rightarrow> acct_scan now ks c
   | Some e \<Rightarrow> if authCacheExpired e now then acct_scan now ks (unindexAuthCacheLocked e c)
              else (Some e, c))"

definition LookupValidAuthCacheByAcct ::
  "time \<Rightarrow> string \<Rightarrow> string \<Rightarrow> string \<Rightarrow> time \<Rightarrow> auth_cache \<Rightarrow> auth_entry option \<times> auth_cache" where
  "LookupValidAuthCacheByAcct clock acct nasIP nasId now0 c =
     (if acct = [] then (None, c)
      else acct_scan (if time_is_zero now0 then clock else now0)
        [authAcctKey acct nasIP nasId, authAcctKey acct nasIP [], authAcctKey acct [] nasId,
         authAcctKey acct [] []] c)"

definition DeleteAuthCache :: "string \<Rightarrow> string \<Rightarrow> string \<Rightarrow> auth_cache \<Rightarrow> bool \<times> auth_cache" where
  "DeleteAuthCache mac imsi apn c =
     (case or_else (ac_key c (authCacheKey (normalizeMAC mac) (trim_space imsi) (trim_space apn)))
             (mac \<noteq> []) (ac_mac c (normalizeMAC mac)) of
        None \<Rightarrow> (False, c) | Some e \<Rightarrow> (True, unindexAuthCacheLocked e c))"

section \<open>Keys\<close>

lemma normalizeMAC_idem [simp]: "normalizeMAC (normalizeMAC mac) = normalizeMAC mac"
  by (auto simp: normalizeMAC_def parse_mac_size split: option.splits)

lemma normalizeMAC_eq_Nil [simp]: "normalizeMAC mac = [] \<longleftrightarrow> mac = []"
proof
  assume "normalizeMAC mac = []"
  then show "mac = []"
  proof (cases "parse_mac mac")
    case (Some hw)
    then have "hw \<noteq> []" using parse_mac_size [OF Some] by (auto simp: mac_size_def)
    with length_mac_string [of hw] have "mac_string hw \<noteq> []" by (cases hw) auto
    with Some \<open>normalizeMAC mac = []\<close> show ?thesis by (simp add: normalizeMAC_def)
  qed (simp add: normalizeMAC_def)
qed (simp add: normalizeMAC_def parse_mac_def)

lemma authCacheKey_normal [simp]:
  "authCacheKey (normalizeMAC mac) (trim_space imsi) (trim_space apn) = authCacheKey mac imsi apn"
  "authCacheKey (normalizeMAC mac) (trim_space imsi) [] = authCacheKey mac imsi []"
  by (simp_all add: authCacheKey_def)

section \<open>The invariant\<close>

definition filed :: "('k \<Rightarrow> auth_entry \<Rightarrow> bool) \<Rightarrow> ('k \<rightharpoonup> auth_entry) \<Rightarrow> (string \<rightharpoonup> auth_entry) \<Rightarrow> bool" where
  "filed own mp keys \<longleftrightarrow> (\<forall>k e. mp k = Some e \<longrightarrow> own k e \<and> keys (entry_key e) = Some e)"

definition cache_inv :: "auth_cache \<Rightarrow> bool" where
  "cache_inv c \<longleftrightarrow>
     (\<forall>k e. ac_key c k = Some e \<longrightarrow> entry_key e = k \<and> a_MACAddress e \<noteq> [] \<and> a_IMSI e \<noteq> []
        \<and> normalizeMAC (a_MACAddress e) = a_MACAddress e \<and> trim_space (a_IMSI e) = a_IMSI e)
     \<and> filed (\<lambda>k e. a_MACAddress e = k) (ac_mac c) (ac_key c)
     \<and> filed (\<lambda>k e. a_IMSI e = k) (ac_imsi c) (ac_key c)
     \<and> filed (\<lambda>k e. k \<in> set (acct_keys e)) (ac_acct c) (ac_key c)"

lemma fold_del: "fold (\<lambda>k mp. mp(k := None)) ks mp = (\<lambda>k. if k \<in> set ks then None else mp k)"
  by (induction ks arbitrary: mp) (auto simp: fun_eq_iff)

lemma fold_put: "fold (\<lambda>k mp. mp(k \<mapsto> e)) ks mp = (\<lambda>k. if k \<in> set ks then Some e else mp k)"
  by (induction ks arbitrary: mp) (auto simp: fun_eq_iff)

lemma cache_inv_empty [simp]: "cache_inv empty_cache"
  by (simp add: cache_inv_def empty_cache_def filed_def)

lemma filed_remove:
  assumes "filed own mp keys" "keys (entry_key e) = Some e"
    "\<And>k x. mp' k = Some x \<Longrightarrow> mp k = Some x \<and> \<not> own k e"
  shows "filed own mp' (keys(entry_key e := None))"
  unfolding filed_def
proof (intro allI impI)
  fix k x assume "mp' k = Some x"
  with assms(3) have x: "mp k = Some x" "\<not> own k e" by blast+
  with assms(1) have own: "own k x" "keys (entry_key x) = Some x" by (auto simp: filed_def)
  have "entry_key x \<noteq> entry_key e"
  proof
    assume "entry_key x = entry_key e"
    with own(2) assms(2) have "x = e" by (metis option.inject)
    with own(1) x(2) show False by simp
  qed
  with own show "own k x \<and> (keys(entry_key e := None)) (entry_key x) = Some x" by simp
qed

lemma filed_add:
  assumes "filed own mp keys" "keys (entry_key e) = None"
    "\<And>k x. mp' k = Some x \<Longrightarrow> mp k = Some x \<or> x = e \<and> own k e"
  shows "filed own mp' (keys(entry_key e \<mapsto> e))"
  unfolding filed_def
proof (intro allI impI)
  fix k x assume "mp' k = Some x"
  with assms(3) consider "mp k = Some x" | "x = e" "own k e" by blast
  then show "own k x \<and> (keys(entry_key e \<mapsto> e)) (entry_key x) = Some x"
  proof cases
    case 1
    with assms(1) have "own k x" "keys (entry_key x) = Some x" by (auto simp: filed_def)
    with assms(2) show ?thesis by auto
  qed simp
qed

lemma unindex_inv:
  assumes "cache_inv c" "ac_key c (entry_key e) = Some e"
  shows "cache_inv (unindexAuthCacheLocked e c)"
proof -
  have F: "filed (\<lambda>k e. a_MACAddress e = k) (ac_mac c) (ac_key c)"
    "filed (\<lambda>k e. a_IMSI e = k) (ac_imsi c) (ac_key c)"
    "filed (\<lambda>k e. k \<in> set (acct_keys e)) (ac_acct c) (ac_key c)"
    and K: "\<forall>k e. ac_key c k = Some e \<longrightarrow> entry_key e = k \<and> a_MACAddress e \<noteq> [] \<and> a_IMSI e \<noteq> []
        \<and> normalizeMAC (a_MACAddress e) = a_MACAddress e \<and> trim_space (a_IMSI e) = a_IMSI e"
    using assms(1) unfolding cache_inv_def by blast+
  have "filed (\<lambda>k x. a_MACAddress x = k) ((ac_mac c)(a_MACAddress e := None)) ((ac_key c)(entry_key e := None))"
    by (rule filed_remove [OF F(1) assms(2)]) (auto split: if_splits)
  moreover have "filed (\<lambda>k x. a_IMSI x = k) ((ac_imsi c)(a_IMSI e := None)) ((ac_key c)(entry_key e := None))"
    by (rule filed_remove [OF F(2) assms(2)]) (auto split: if_splits)
  moreover have "filed (\<lambda>k x. k \<in> set (acct_keys x))
      (\<lambda>k. if k \<in> set (acct_keys e) then None else ac_acct c k) ((ac_key c)(entry_key e := None))"
    by (rule filed_remove [OF F(3) assms(2)]) (auto split: if_splits)
  ultimately show ?thesis
    unfolding cache_inv_def unindexAuthCacheLocked_def fold_del using K by simp
qed

lemma index_inv:
  assumes "cache_inv c" "ac_key c (entry_key e) = None" "a_MACAddress e \<noteq> []" "a_IMSI e \<noteq> []"
    "normalizeMAC (a_MACAddress e) = a_MACAddress e" "trim_space (a_IMSI e) = a_IMSI e"
  shows "cache_inv (indexAuthCacheLocked e c)"
proof -
  have F: "filed (\<lambda>k e. a_MACAddress e = k) (ac_mac c) (ac_key c)"
    "filed (\<lambda>k e. a_IMSI e = k) (ac_imsi c) (ac_key c)"
    "filed (\<lambda>k e. k \<in> set (acct_keys e)) (ac_acct c) (ac_key c)"
    and K: "\<forall>k e. ac_key c k = Some e \<longrightarrow> entry_key e = k \<and> a_MACAddress e \<noteq> [] \<and> a_IMSI e \<noteq> []
        \<and> normalizeMAC (a_MACAddress e) = a_MACAddress e \<and> trim_space (a_IMSI e) = a_IMSI e"
    using assms(1) unfolding cache_inv_def by blast+
  have "filed (\<lambda>k x. a_MACAddress x = k) ((ac_mac c)(a_MACAddress e \<mapsto> e)) ((ac_key c)(entry_key e \<mapsto> e))"
    by (rule filed_add [OF F(1) assms(2)]) (auto split: if_splits)
  moreover have "filed (\<lambda>k x. a_IMSI x = k) ((ac_imsi c)(a_IMSI e \<mapsto> e)) ((ac_key c)(entry_key e \<mapsto> e))"
    by (rule filed_add [OF F(2) assms(2)]) (auto split: if_splits)
  moreover have "filed (\<lambda>k x. k \<in> set (acct_keys x))
      (\<lambda>k. if k \<in> set (acct_keys e) then Some e else ac_acct c k) ((ac_key c)(entry_key e \<mapsto> e))"
    by (rule filed_add [OF F(3) assms(2)]) (auto split: if_splits)
  ultimately show ?thesis
    unfolding cache_inv_def indexAuthCacheLocked_def fold_put using K assms(3-) by simp
qed

lemma merge_key [simp]:
  "a_MACAddress (merge_update clock u e) = a_MACAddress e" "a_IMSI (merge_update clock u e) = a_IMSI e"
  "a_APN (merge_update clock u e) = a_APN e" "entry_key (merge_update clock u e) = entry_key e"
  by (simp_all add: merge_update_def entry_key_def)

lemma cache_invD:
  assumes "cache_inv c" "ac_key c k = Some e"
  shows "entry_key e = k" "a_MACAddress e \<noteq> []" "a_IMSI e \<noteq> []"
    "normalizeMAC (a_MACAddress e) = a_MACAddress e" "trim_space (a_IMSI e) = a_IMSI e"
  using assms unfolding cache_inv_def by blast+

lemma filedD:
  assumes "cache_inv c"
  shows "ac_mac c k = Some e \<Longrightarrow> a_MACAddress e = k \<and> ac_key c (entry_key e) = Some e"
    "ac_imsi c k = Some e \<Longrightarrow> a_IMSI e = k \<and> ac_key c (entry_key e) = Some e"
    "ac_acct c k = Some e \<Longrightarrow> k \<in> set (acct_keys e) \<and> ac_key c (entry_key e) = Some e"
  using assms unfolding cache_inv_def filed_def by blast+

lemma candidate_live:
  assumes "cache_inv c" "auth_candidate mac imsi apn c = Some e"
  shows "ac_key c (entry_key e) = Some e"
proof -
  have "(\<exists>k. ac_key c k = Some e) \<or> (\<exists>k. ac_mac c k = Some e) \<or> (\<exists>k. ac_imsi c k = Some e)"
    using assms(2) by (auto simp: auth_candidate_def or_else_def Let_def split: if_splits)
  then show ?thesis
    using cache_invD(1) [OF assms(1)] filedD(1,2) [OF assms(1)] by blast
qed

section \<open>The machine\<close>

datatype cache_op =
    CUpsert time auth_update
  | CLookup time string string string time
  | CByAcct time string string string time
  | CDelete string string string

fun exec_cache :: "cache_op \<Rightarrow> auth_cache \<Rightarrow> auth_entry option \<times> auth_cache" where
  "exec_cache (CUpsert clock u) c = UpsertAuthCache clock u c"
| "exec_cache (CLookup clock mac imsi apn now) c = LookupValidAuthCache clock mac imsi apn now c"
| "exec_cache (CByAcct clock a ip ni now) c = LookupValidAuthCacheByAcct clock a ip ni now c"
| "exec_cache (CDelete mac imsi apn) c = (None, snd (DeleteAuthCache mac imsi apn c))"

definition upsert_base :: "time \<Rightarrow> auth_update \<Rightarrow> auth_cache \<Rightarrow> auth_entry \<times> auth_cache" where
  "upsert_base clock u c = (case ac_key c (authCacheKey (a_MACAddress u) (a_IMSI u) (a_APN u)) of
       None \<Rightarrow> (zero_auth\<lparr> a_MACAddress := normalizeMAC (a_MACAddress u), a_IMSI := trim_space (a_IMSI u),
                 a_APN := trim_space (a_APN u), a_AuthStartTime := clock \<rparr>, c)
     | Some e \<Rightarrow> (e, unindexAuthCacheLocked e c))"

lemma Upsert_alt: "UpsertAuthCache clock u c =
    (if a_MACAddress u = [] \<or> trim_space (a_IMSI u) = [] then (None, c)
     else let (e0, c1) = upsert_base clock u c; e1 = merge_update clock u e0
          in (Some e1, indexAuthCacheLocked e1 c1))"
  by (simp add: UpsertAuthCache_def upsert_base_def Let_def)

lemma upsert_base_facts:
  assumes "cache_inv c" "a_MACAddress u \<noteq> []" "trim_space (a_IMSI u) \<noteq> []" "upsert_base clock u c = (e0, c1)"
  shows "cache_inv c1" "ac_key c1 (entry_key e0) = None" "a_MACAddress e0 \<noteq> []" "a_IMSI e0 \<noteq> []"
    "normalizeMAC (a_MACAddress e0) = a_MACAddress e0" "trim_space (a_IMSI e0) = a_IMSI e0"
    "entry_key e0 = authCacheKey (a_MACAddress u) (a_IMSI u) (a_APN u)"
proof -
  let ?k = "authCacheKey (a_MACAddress u) (a_IMSI u) (a_APN u)"
  consider (new) "ac_key c ?k = None" "c1 = c"
      "e0 = zero_auth\<lparr> a_MACAddress := normalizeMAC (a_MACAddress u), a_IMSI := trim_space (a_IMSI u),
         a_APN := trim_space (a_APN u), a_AuthStartTime := clock \<rparr>"
    | (old) "ac_key c ?k = Some e0" "c1 = unindexAuthCacheLocked e0 c"
    using assms(4) by (auto simp: upsert_base_def split: option.splits)
  then have "cache_inv c1 \<and> ac_key c1 (entry_key e0) = None \<and> a_MACAddress e0 \<noteq> [] \<and> a_IMSI e0 \<noteq> []
     \<and> normalizeMAC (a_MACAddress e0) = a_MACAddress e0 \<and> trim_space (a_IMSI e0) = a_IMSI e0
     \<and> entry_key e0 = ?k"
  proof cases
    case new
    then show ?thesis using assms(1-3) by (simp add: entry_key_def)
  next
    case old
    note d = cache_invD [OF assms(1) old(1)]
    with old unindex_inv [OF assms(1), of e0] show ?thesis
      by (simp add: unindexAuthCacheLocked_def)
  qed
  then show "cache_inv c1" "ac_key c1 (entry_key e0) = None" "a_MACAddress e0 \<noteq> []" "a_IMSI e0 \<noteq> []"
    "normalizeMAC (a_MACAddress e0) = a_MACAddress e0" "trim_space (a_IMSI e0) = a_IMSI e0"
    "entry_key e0 = ?k" by blast+
qed

lemma Upsert_inv: "cache_inv c \<Longrightarrow> cache_inv (snd (UpsertAuthCache clock u c))"
proof (cases "a_MACAddress u = [] \<or> trim_space (a_IMSI u) = []")
  case False
  assume c: "cache_inv c"
  obtain e0 c1 where b: "upsert_base clock u c = (e0, c1)" by fastforce
  note f = upsert_base_facts [OF c _ _ b]
  have "cache_inv (indexAuthCacheLocked (merge_update clock u e0) c1)"
    using False f by (intro index_inv) simp_all
  with False b show ?thesis by (simp add: Upsert_alt Let_def)
qed (auto simp: Upsert_alt)

lemma Lookup_inv: "cache_inv c \<Longrightarrow> cache_inv (snd (LookupValidAuthCache clock mac imsi apn now c))"
  by (auto simp: LookupValidAuthCache_def Let_def intro!: unindex_inv dest: candidate_live split: option.splits)

lemma acct_scan_inv: "cache_inv c \<Longrightarrow> cache_inv (snd (acct_scan now ks c))"
  by (induction ks arbitrary: c) (auto split: option.splits simp: filedD(3) unindex_inv)

lemma ByAcct_inv: "cache_inv c \<Longrightarrow> cache_inv (snd (LookupValidAuthCacheByAcct clock a ip ni now c))"
  by (simp add: LookupValidAuthCacheByAcct_def acct_scan_inv del: acct_scan.simps)

lemma DeleteCache_inv: "cache_inv c \<Longrightarrow> cache_inv (snd (DeleteAuthCache mac imsi apn c))"
  by (auto simp: DeleteAuthCache_def or_else_def split: option.splits if_splits
      intro!: unindex_inv dest: cache_invD(1) filedD(1))

interpretation auth: machine exec_cache "\<lambda>_ _. True" cache_inv
proof
  fix s op assume "cache_inv s"
  then show "cache_inv (snd (exec_cache op s))"
    by (cases op) (simp_all add: Upsert_inv Lookup_inv ByAcct_inv DeleteCache_inv)
qed

section \<open>Properties\<close>

definition cache_after :: "cache_op list \<Rightarrow> auth_cache" where
  "cache_after ops = snd (run exec_cache ops empty_cache)"

lemma cache_after_inv: "cache_inv (cache_after ops)"
proof -
  have "legal exec_cache (\<lambda>_ _. True) ops s" for s by (induction ops arbitrary: s) simp_all
  then show ?thesis unfolding cache_after_def by (intro auth.run_inv) simp_all
qed


text \<open>An entry that was just stored is found again by the identifiers it was stored under,
  until it expires: \<open>UpsertAuthCache\<close> followed by \<open>LookupValidAuthCache\<close> returns the merged entry,
  and a second update keeps every field its own update leaves empty.\<close>

theorem auth_upsert_lookup:
  assumes "c = cache_after ops" "UpsertAuthCache clock u c = (Some e, c1)" "now \<noteq> zero_time"
    "a_AuthExpiresAt e = zero_time \<or> now < a_AuthExpiresAt e"
    "a_APN u = [] \<or> a_APN e = [] \<or> sameAPN (a_APN e) (a_APN u)"
  shows "LookupValidAuthCache clock (a_MACAddress u) (a_IMSI u) (a_APN u) now c1 = (Some e, c1)
    \<and> (a_UserName u \<noteq> [] \<longrightarrow> a_UserName e = a_UserName u)
    \<and> (\<forall>old. ac_key c (authCacheKey (a_MACAddress u) (a_IMSI u) (a_APN u)) = Some old
         \<and> a_UserName u = [] \<longrightarrow> a_UserName e = a_UserName old)"
proof -
  have inv: "cache_inv c" using assms(1) cache_after_inv by simp
  from assms(2) have ne: "a_MACAddress u \<noteq> []" "trim_space (a_IMSI u) \<noteq> []"
    by (auto simp: Upsert_alt split: if_splits)
  then have imsi: "a_IMSI u \<noteq> []" by (auto simp: trim_space_def)
  obtain e0 c0 where b: "upsert_base clock u c = (e0, c0)" by fastforce
  with assms(2) ne have e: "e = merge_update clock u e0" "c1 = indexAuthCacheLocked e c0"
    by (auto simp: Upsert_alt Let_def)
  note f = upsert_base_facts [OF inv ne b]
  have "ac_key c1 (authCacheKey (a_MACAddress u) (a_IMSI u) (a_APN u)) = Some e"
    using f(7) by (simp add: e indexAuthCacheLocked_def)
  then have "auth_candidate (a_MACAddress u) (a_IMSI u) (a_APN u) c1 = Some e"
    using ne(1) imsi by (simp add: auth_candidate_def or_else_def)
  with assms(3-5) have "LookupValidAuthCache clock (a_MACAddress u) (a_IMSI u) (a_APN u) now c1 = (Some e, c1)"
    by (auto simp: LookupValidAuthCache_def Let_def time_is_zero_def authCacheExpired_def)
  moreover have "a_UserName e = pick (a_UserName u) (a_UserName e0)"
    by (simp add: e merge_update_def)
  ultimately show ?thesis
    using b by (auto simp: pick_def upsert_base_def)
qed

definition sample_auth :: auth_update where
  "sample_auth = zero_auth\<lparr> a_MACAddress := ''02-00-00-00-00-01'', a_IMSI := ''001010000000001'',
     a_APN := ''internet'', a_UserName := ''u'', a_AuthExpiresAt := 100 \<rparr>"

definition sample_entry :: auth_entry where
  "sample_entry = merge_update 5 sample_auth
     (zero_auth\<lparr> a_MACAddress := normalizeMAC ''02-00-00-00-00-01'', a_IMSI := trim_space ''001010000000001'',
        a_APN := trim_space ''internet'', a_AuthStartTime := 5 \<rparr>)"

definition sample_cache :: auth_cache where
  "sample_cache = snd (UpsertAuthCache 5 sample_auth (cache_after []))"

lemma sample_trims: "trim_space ''internet'' = ''internet''" "trim_space ''001010000000001'' \<noteq> []"
  by code_simp+

lemma sample_entry_fields:
  "a_AuthExpiresAt sample_entry = 100" "a_APN sample_entry = ''internet''"
  by (simp_all add: sample_entry_def merge_update_def sample_auth_def pick_time_def time_is_zero_def
      zero_time_def zero_auth_def sample_trims)

lemma sample_auth_fields: "a_MACAddress sample_auth = ''02-00-00-00-00-01''"
  "a_IMSI sample_auth = ''001010000000001''" "a_APN sample_auth = ''internet''"
  by (simp_all add: sample_auth_def)

lemma sample_upsert: "UpsertAuthCache 5 sample_auth (cache_after []) = (Some sample_entry, sample_cache)"
proof -
  have "fst (UpsertAuthCache 5 sample_auth (cache_after [])) = Some sample_entry"
    by (simp add: Upsert_alt upsert_base_def empty_cache_def sample_auth_fields Let_def sample_trims
        cache_after_def sample_entry_def)
  then show ?thesis by (simp add: sample_cache_def prod_eq_iff)
qed

theorem auth_upsert_lookup_witness:
  "LookupValidAuthCache 5 ''02-00-00-00-00-01'' ''001010000000001'' ''internet'' 99 sample_cache
     = (Some sample_entry, sample_cache)"
  using auth_upsert_lookup [OF refl sample_upsert, of 99]
  by (simp add: sample_auth_fields sample_entry_fields zero_time_def sameAPN_def)

lemma ac_key_index: "ac_key (indexAuthCacheLocked e c) = (ac_key c)(entry_key e \<mapsto> e)"
  by (simp add: indexAuthCacheLocked_def)


end
