(* ===== verification/Wire.thy ===== *)
theory Wire
  imports Net
begin

text \<open>
  The interface of a stream of self-delimiting items, which the gateway decodes three times:
  the information elements of GTPv2-C, the AVPs of Diameter and the attributes of EAP-AKA. The
  provider gives one item's encoder and decoder and the loop over the input; the laws say
  that the item decoder undoes the encoder and consumes exactly its bytes, and that the loop
  is the iteration of the item decoder. The client's lemmas: a concatenation of encoded items
  decodes to the items, and a bad suffix is reported after any good prefix. A stream is closed
  when whatever is decoded could have been encoded; then decoding yields only well-formed items
  and is determined by its normal form. (Diameter is not: it reads a vendor flag with vendor 0.)

  A second interface, of fixed packets: an encoder that may refuse and its decoder.
\<close>

locale item_stream =
  fixes enc :: "'a \<Rightarrow> bytes"
    and item :: "bytes \<Rightarrow> 'e + ('a \<times> bytes)"
    and decode :: "bytes \<Rightarrow> 'e + 'a list"
    and ok :: "'a \<Rightarrow> bool"
  assumes item_enc: "ok x \<Longrightarrow> item (enc x @ rest) = Inr (x, rest)"
    and enc_nonempty: "ok x \<Longrightarrow> enc x \<noteq> []"
    and item_shrinks: "item bs = Inr (x, rest) \<Longrightarrow> length rest < length bs"
    and decode_Nil: "decode [] = Inr []"
    and decode_step: "bs \<noteq> [] \<Longrightarrow> decode bs =
      (case item bs of Inl e \<Rightarrow> Inl e
       | Inr (x, rest) \<Rightarrow> (case decode rest of Inl e \<Rightarrow> Inl e | Inr xs \<Rightarrow> Inr (x # xs)))"
begin

lemma decode_Cons:
  "ok x \<Longrightarrow> decode (enc x @ bs) =
     (case decode bs of Inl e \<Rightarrow> Inl e | Inr xs \<Rightarrow> Inr (x # xs))"
  using enc_nonempty by (simp add: decode_step item_enc)

lemma decode_append:
  "list_all ok xs \<Longrightarrow> decode (concat (map enc xs) @ bs) =
     (case decode bs of Inl e \<Rightarrow> Inl e | Inr ys \<Rightarrow> Inr (xs @ ys))"
  by (induction xs) (auto simp: decode_Cons split: sum.splits)

lemma decode_encode:
  assumes "list_all ok xs"
  shows "decode (concat (map enc xs)) = Inr xs"
  using decode_append [OF assms, of "[]"] by (simp add: decode_Nil)

lemma encode_inject:
  assumes "list_all ok xs" "list_all ok ys" "concat (map enc xs) = concat (map enc ys)"
  shows "xs = ys"
  using assms decode_encode by (metis sum.inject(2))

lemma decode_bad_suffix:
  "list_all ok xs \<Longrightarrow> decode bs = Inl e \<Longrightarrow> decode (concat (map enc xs) @ bs) = Inl e"
  by (simp add: decode_append)

lemma decode_no_more_items: "decode bs = Inr xs \<Longrightarrow> length xs \<le> length bs"
proof (induction "length bs" arbitrary: bs xs rule: less_induct)
  case less
  show ?case
  proof (cases "bs = []")
    case True
    with less.prems show ?thesis by (simp add: decode_Nil)
  next
    case False
    with less.prems obtain x rest ys
      where x: "item bs = Inr (x, rest)" and ys: "decode rest = Inr ys" "xs = x # ys"
      by (auto simp: decode_step split: sum.splits)
    from less.hyps [OF item_shrinks [OF x] ys(1)] ys(2) item_shrinks [OF x] show ?thesis by simp
  qed
qed

end

locale closed_item_stream = item_stream +
  assumes item_ok: "item bs = Inr (x, rest) \<Longrightarrow> ok x"
begin

lemma decode_ok: "decode bs = Inr xs \<Longrightarrow> list_all ok xs"
proof (induction "length bs" arbitrary: bs xs rule: less_induct)
  case less
  show ?case
  proof (cases "bs = []")
    case True
    with less.prems show ?thesis by (simp add: decode_Nil)
  next
    case False
    with less.prems obtain x rest ys
      where x: "item bs = Inr (x, rest)" and ys: "decode rest = Inr ys" "xs = x # ys"
      by (auto simp: decode_step split: sum.splits)
    from less.hyps [OF item_shrinks [OF x] ys(1)] ys(2) item_ok [OF x] show ?thesis by simp
  qed
qed

lemma decode_normal:
  assumes "decode bs = Inr xs"
  shows "decode (concat (map enc xs)) = Inr xs"
  using decode_encode [OF decode_ok [OF assms]] .

end

locale packet_codec =
  fixes enc :: "'a \<Rightarrow> 'e + bytes"
    and dec :: "bytes \<Rightarrow> 'd + 'a"
    and ok :: "'a \<Rightarrow> bool"
  assumes enc_total: "ok x \<Longrightarrow> \<exists>bs. enc x = Inr bs"
    and dec_enc: "ok x \<Longrightarrow> enc x = Inr bs \<Longrightarrow> dec bs = Inr x"
begin

lemma roundtrip: "ok x \<Longrightarrow> \<exists>bs. enc x = Inr bs \<and> dec bs = Inr x"
  using enc_total dec_enc by blast

lemma enc_inject: "ok x \<Longrightarrow> ok y \<Longrightarrow> enc x = Inr bs \<Longrightarrow> enc y = Inr bs \<Longrightarrow> x = y"
  using dec_enc by (metis sum.inject(2))

end

end
