(* ===== verification/GtpV2.thy ===== *)
theory GtpV2
  imports Wire
begin

text \<open>
  GTPv2-C messages and sequence numbers (\<open>internal/gtp/gtpv2.go\<close>, \<open>internal/gtp/errors.go\<close>):
  the header codec, the 24-bit sequence field, the allocator of sequence numbers in the range
  StarOS accepts, and the errors the client reports.
\<close>

unbundle bit_operations_syntax

section \<open>Messages\<close>

definition gtpv2VersionFlag :: byte where "gtpv2VersionFlag = 0x40"
definition gtpv2TEIDFlag :: byte where "gtpv2TEIDFlag = 0x08"
definition gtpv2EchoRequest :: byte where "gtpv2EchoRequest = 1"
definition gtpv2EchoResponse :: byte where "gtpv2EchoResponse = 2"
definition gtpv2CreateSessionReq :: byte where "gtpv2CreateSessionReq = 32"
definition gtpv2CreateSessionResp :: byte where "gtpv2CreateSessionResp = 33"
definition gtpv2DeleteSessionReq :: byte where "gtpv2DeleteSessionReq = 36"
definition gtpv2DeleteSessionResp :: byte where "gtpv2DeleteSessionResp = 37"
definition minGTPv2Sequence :: u32 where "minGTPv2Sequence = 1"
definition maxGTPv2Sequence :: u32 where "maxGTPv2Sequence = 0x7fffff"

record gtpv2_message =
  g_Type :: byte
  g_TEID :: u32
  g_HasTEID :: bool
  g_Sequence :: u32
  g_Payload :: bytes

datatype gtp_codec_err =
    SequenceOutside u32
  | MessageTooLarge nat
  | MessageTooShort nat
  | UnsupportedFlags byte
  | LengthMismatch nat nat
  | TeidMessageTooShort nat
  | IEHeaderTruncated
  | IELengthExceeds byte nat nat

definition gtp_encode :: "gtpv2_message \<Rightarrow> gtp_codec_err + bytes" where
  "gtp_encode m =
     (if g_Sequence m < minGTPv2Sequence \<or> maxGTPv2Sequence < g_Sequence m
      then Inl (SequenceOutside (g_Sequence m))
      else let flags = (if g_HasTEID m then gtpv2VersionFlag OR gtpv2TEIDFlag else gtpv2VersionFlag);
               headerLen = (if g_HasTEID m then 12 else 8);
               len = headerLen - 4 + length (g_Payload m)
           in if 0xffff < len then Inl (MessageTooLarge len)
              else Inr ([flags, g_Type m] @ put16 (word_of_nat len)
                @ (if g_HasTEID m then put32 (g_TEID m) else [])
                @ put24 (g_Sequence m) @ [0] @ g_Payload m))"

fun decode_tail :: "byte \<Rightarrow> bool \<Rightarrow> u32 \<Rightarrow> bytes \<Rightarrow> gtp_codec_err + gtpv2_message" where
  \<comment> \<open>from the sequence number on\<close>
  "decode_tail typ hasTEID teid (a # b # c # spare # payload) =
     Inr \<lparr>g_Type = typ, g_TEID = teid, g_HasTEID = hasTEID, g_Sequence = read24 a b c, g_Payload = payload\<rparr>"
| "decode_tail typ hasTEID teid b = Inl (MessageTooShort (length b))"

definition decodeGTPv2Message :: "bytes \<Rightarrow> gtp_codec_err + gtpv2_message" where
  "decodeGTPv2Message b =
     (if length b < 8 then Inl (MessageTooShort (length b))
      else if b ! 0 AND 0xe0 \<noteq> gtpv2VersionFlag then Inl (UnsupportedFlags (b ! 0))
      else if unat (be16 (b ! 2) (b ! 3)) \<noteq> length b - 4
        then Inl (LengthMismatch (unat (be16 (b ! 2) (b ! 3))) (length b - 4))
      else if b ! 0 AND gtpv2TEIDFlag \<noteq> 0
        then (if length b < 12 then Inl (TeidMessageTooShort (length b))
              else decode_tail (b ! 1) True (be32 (b ! 4) (b ! 5) (b ! 6) (b ! 7)) (drop 8 b))
      else decode_tail (b ! 1) False 0 (drop 4 b))"

section \<open>Sequence numbers\<close>

definition randomInitialGTPv2Sequence :: "(byte \<times> byte \<times> byte \<times> byte) option \<Rightarrow> u32" where
  \<comment> \<open>what \<open>rand.Read\<close> gave, \<open>None\<close> for an error\<close>
  "randomInitialGTPv2Sequence rnd = (case rnd of None \<Rightarrow> minGTPv2Sequence
     | Some (a, b, c, d) \<Rightarrow> let n = be32 a b c d AND maxGTPv2Sequence
                          in if n = 0 then minGTPv2Sequence else n)"

definition next_sequence :: "u32 \<Rightarrow> u32" where
  \<comment> \<open>the value the compare-and-swap of \<open>next\<close> installs and returns\<close>
  "next_sequence cur = (let nxt = cur + 1 in
     if nxt = 0 \<or> maxGTPv2Sequence < nxt then minGTPv2Sequence else nxt)"

fun take_sequences :: "nat \<Rightarrow> u32 \<Rightarrow> u32 list" where
  \<comment> \<open>the results of consecutive calls of \<open>next\<close>; a lost compare-and-swap retries, so calls from
    several goroutines get the same values in some order\<close>
  "take_sequences 0 cur = []"
| "take_sequences (Suc n) cur = (let nxt = next_sequence cur in nxt # take_sequences n nxt)"

section \<open>Errors of the client\<close>

definition GTPv2CauseContextNotFound :: byte where "GTPv2CauseContextNotFound = 64"

record gtp_error =
  ge_Operation :: string
  ge_Cause :: byte
  ge_Message :: string

definition gtp_error_string :: "gtp_error \<Rightarrow> string" where
  "gtp_error_string e = ge_Operation e @ '' rejected with cause '' @ dec (unat (ge_Cause e))
     @ (if ge_Message e \<noteq> [] then '': '' @ ge_Message e else [])"

definition IsContextNotFound :: "gtp_error option \<Rightarrow> bool" where
  \<comment> \<open>\<open>None\<close>: the error chain holds no \<open>GTPError\<close>\<close>
  "IsContextNotFound e = (case e of None \<Rightarrow> False | Some g \<Rightarrow> ge_Cause g = GTPv2CauseContextNotFound)"

section \<open>The codec undoes itself\<close>

lemmas gtp_consts = gtpv2VersionFlag_def gtpv2TEIDFlag_def minGTPv2Sequence_def maxGTPv2Sequence_def

definition gtp_ok :: "gtpv2_message \<Rightarrow> bool" where
  \<comment> \<open>what the wire format can carry\<close>
  "gtp_ok m \<longleftrightarrow> 1 \<le> g_Sequence m \<and> g_Sequence m \<le> 0x7fffff \<and> (g_HasTEID m \<or> g_TEID m = 0)
     \<and> (if g_HasTEID m then 8 else 4) + length (g_Payload m) \<le> 65535"

lemma flag_bits: "(0x40 :: byte) AND 0xe0 = 0x40" "((0x40 :: byte) OR 0x08) AND 0xe0 = 0x40"
  "(0x40 :: byte) AND 0x08 = 0" "((0x40 :: byte) OR 0x08) AND 0x08 \<noteq> 0"
  by simp_all

lemma decode_tail_put:
  assumes "sq \<le> 0x7fffff"
  shows "decode_tail typ hasTEID teid (put24 sq @ 0 # payload) =
    Inr \<lparr>g_Type = typ, g_TEID = teid, g_HasTEID = hasTEID, g_Sequence = sq, g_Payload = payload\<rparr>"
proof -
  have "sq < 2 ^ 24" using assms by (simp add: word_less_nat_alt word_le_nat_alt)
  then show ?thesis by (simp add: put24_def read24_put24)
qed

lemma gtp_encode_total: "gtp_ok m \<Longrightarrow> \<exists>bs. gtp_encode m = Inr bs"
  by (auto simp: gtp_ok_def gtp_encode_def gtp_consts Let_def not_less word_less_nat_alt word_le_nat_alt)

lemma gtp_decode_encode:
  assumes "gtp_ok m" "gtp_encode m = Inr bs"
  shows "decodeGTPv2Message bs = Inr m"
proof -
  define len where "len = (if g_HasTEID m then 8 else 4) + length (g_Payload m)"
  have sq: "g_Sequence m \<le> 0x7fffff" and len: "len < 65536" and t: "\<not> g_HasTEID m \<Longrightarrow> g_TEID m = 0"
    using assms(1) by (auto simp: gtp_ok_def len_def split: if_splits)
  have bs: "bs = [if g_HasTEID m then 0x40 OR 0x08 else 0x40, g_Type m] @ put16 (word_of_nat len)
      @ (if g_HasTEID m then put32 (g_TEID m) else []) @ put24 (g_Sequence m) @ 0 # g_Payload m"
    using assms(2) by (auto simp: gtp_encode_def gtp_consts Let_def len_def split: if_splits)
  have l: "length bs - 4 = len" "12 \<le> length bs \<or> \<not> g_HasTEID m" "8 \<le> length bs"
    by (auto simp: bs len_def)
  show ?thesis
  proof (cases "g_HasTEID m")
    case True
    then have "b ! 0 = 0x40 OR 0x08" if "b = bs" for b using that by (simp add: bs)
    with True len sq l show ?thesis
      by (simp add: decodeGTPv2Message_def gtp_consts) (simp add: bs put16_def put32_def decode_tail_put)
  next
    case False
    with len sq t l show ?thesis
      by (simp add: decodeGTPv2Message_def gtp_consts) (simp add: bs put16_def decode_tail_put)
  qed
qed

interpretation gtp_msg: packet_codec gtp_encode decodeGTPv2Message gtp_ok
  by unfold_locales (simp_all add: gtp_encode_total gtp_decode_encode)

section \<open>Sequence numbers stay in range and do not repeat early\<close>

definition seq_ok :: "u32 \<Rightarrow> bool" where
  "seq_ok s \<longleftrightarrow> 1 \<le> s \<and> s \<le> 0x7fffff"

lemma seq_ok_unat: "seq_ok s \<longleftrightarrow> 1 \<le> unat s \<and> unat s \<le> 0x7fffff"
  by (simp add: seq_ok_def word_le_nat_alt)

lemma unat_next_sequence:
  assumes "seq_ok s"
  shows "unat (next_sequence s) = (if unat s = 0x7fffff then 1 else unat s + 1)"
proof -
  have u: "unat (s + 1) = unat s + 1"
    using assms by (simp add: seq_ok_unat unat_word_ariths)
  then have "s + 1 \<noteq> 0" by (metis Suc_eq_plus1 nat.distinct(1) unsigned_0)
  with u assms show ?thesis
    by (auto simp: next_sequence_def Let_def gtp_consts word_less_nat_alt seq_ok_unat)
qed

lemma seq_ok_next: "seq_ok s \<Longrightarrow> seq_ok (next_sequence s)"
  using unat_next_sequence [of s] by (auto simp: seq_ok_unat split: if_splits)

lemma length_take_sequences [simp]: "length (take_sequences n s) = n"
  by (induction n arbitrary: s) (simp_all add: Let_def)

lemma Suc_mod_shift: "Suc (a mod n + k) mod n = Suc (a + k) mod (n :: nat)"
  by (metis add_Suc_right mod_add_left_eq)

lemma nth_take_sequences:
  "seq_ok s \<Longrightarrow> i < n \<Longrightarrow> unat (take_sequences n s ! i) = 1 + (unat s + i) mod 0x7fffff"
proof (induction n arbitrary: s i)
  case (Suc n)
  have "unat (next_sequence s) = 1 + unat s mod 0x7fffff"
    using unat_next_sequence [OF Suc.prems(1)] Suc.prems(1) by (auto simp: seq_ok_unat)
  with Suc.IH [OF seq_ok_next [OF Suc.prems(1)]] Suc.prems show ?case
    by (cases i) (simp_all add: Let_def Suc_mod_shift)
qed simp

lemma mod_window:
  fixes a i j n :: nat
  assumes "(a + i) mod n = (a + j) mod n" "i < n" "j < n"
  shows "i = j"
proof (rule ccontr)
  assume "i \<noteq> j"
  then consider "i < j" | "j < i" by linarith
  then show False
  proof cases
    case 1
    with assms(1) have "n dvd (a + j) - (a + i)" by (metis mod_eq_dvd_iff_nat add_le_cancel_left less_imp_le)
    with 1 assms(3) show ?thesis by (auto dest: dvd_imp_le)
  next
    case 2
    with assms(1) have "n dvd (a + i) - (a + j)" by (metis mod_eq_dvd_iff_nat add_le_cancel_left less_imp_le)
    with 2 assms(2) show ?thesis by (auto dest: dvd_imp_le)
  qed
qed

lemma take_sequences_distinct:
  assumes "seq_ok s" "n \<le> 0x7fffff" shows "distinct (take_sequences n s)"
  unfolding distinct_conv_nth
proof (intro allI impI)
  fix i j assume ij: "i < length (take_sequences n s)" "j < length (take_sequences n s)" "i \<noteq> j"
  have "(unat s + i) mod 0x7fffff \<noteq> (unat s + j) mod 0x7fffff"
    using mod_window [of "unat s" i "0x7fffff" j] ij assms(2) by auto
  then have "unat (take_sequences n s ! i) \<noteq> unat (take_sequences n s ! j)"
    using nth_take_sequences [OF assms(1)] ij by simp
  then show "take_sequences n s ! i \<noteq> take_sequences n s ! j" by auto
qed

lemma take_sequences_ok: "seq_ok s \<Longrightarrow> list_all seq_ok (take_sequences n s)"
  by (induction n arbitrary: s) (simp_all add: Let_def seq_ok_next)

lemma randomInitial_ok: "seq_ok (randomInitialGTPv2Sequence rnd)"
proof -
  have "unat (n AND 0x7fffff) \<le> 0x7fffff" for n :: u32
  proof -
    have "n AND 0x7fffff = take_bit 23 n" by (simp add: take_bit_eq_mask mask_eq_exp_minus_1)
    then have "unat (n AND 0x7fffff) = take_bit 23 (unat n)" by (simp add: unsigned_take_bit_eq)
    also have "\<dots> < 2 ^ 23" by (rule take_bit_nat_less_exp)
    finally show ?thesis by simp
  qed
  moreover have "n \<noteq> 0 \<Longrightarrow> 1 \<le> unat n" for n :: u32
    by (metis One_nat_def Suc_leI gr_zeroI unsigned_eq_0_iff)
  ultimately show ?thesis
    by (auto simp: randomInitialGTPv2Sequence_def seq_ok_unat gtp_consts Let_def split: option.splits)
qed

text \<open>A GTPv2-C message that fits the header (sequence number in the StarOS range, payload that
  the 16-bit length can count, a TEID only with the TEID flag) is encoded, and decoding the
  bytes gives it back.\<close>

theorem gtpv2_roundtrip:
  assumes "gtp_ok m"
  shows "\<exists>bs. gtp_encode m = Inr bs \<and> decodeGTPv2Message bs = Inr m"
  using assms by (rule gtp_msg.roundtrip)

text \<open>C33. Sequence numbers: from whatever the random source gives, every number the allocator
  hands out is in 0x000001..0x7fffff, and any 8388607 consecutive ones are pairwise distinct,
  so a transaction's number is not used again while fewer than that many follow it.\<close>

theorem sequences_in_range_distinct:
  assumes "n \<le> 0x7fffff"
  shows "list_all (\<lambda>s. minGTPv2Sequence \<le> s \<and> s \<le> maxGTPv2Sequence)
      (take_sequences n (randomInitialGTPv2Sequence rnd))
    \<and> distinct (take_sequences n (randomInitialGTPv2Sequence rnd))"
  using take_sequences_ok [OF randomInitial_ok, of n rnd] take_sequences_distinct [OF randomInitial_ok assms]
  by (simp add: list_all_iff seq_ok_def gtp_consts)

theorem gtpv2_roundtrip_witness:
  "\<exists>bs. gtp_encode \<lparr>g_Type = 32, g_TEID = 7, g_HasTEID = True, g_Sequence = 5, g_Payload = [1, 2]\<rparr> = Inr bs
     \<and> decodeGTPv2Message bs = Inr \<lparr>g_Type = 32, g_TEID = 7, g_HasTEID = True, g_Sequence = 5, g_Payload = [1, 2]\<rparr>"
  by (rule gtpv2_roundtrip) (simp add: gtp_ok_def)

theorem sequences_in_range_distinct_witness:
  "distinct (take_sequences 3 (randomInitialGTPv2Sequence (Some (0, 0x7f, 0xff, 0xfe))))"
  using sequences_in_range_distinct [of 3] by simp

end
