(* ===== verification/GtpIE.thy ===== *)
theory GtpIE
  imports GtpV2
begin

text \<open>
  GTPv2-C information elements (\<open>internal/gtp/gtpv2_ie.go\<close>): the type-length-instance-value
  stream, the elements the gateway builds and the parsers of those it reads.
\<close>

unbundle bit_operations_syntax

definition ieIMSI :: byte where "ieIMSI = 1"
definition ieCause :: byte where "ieCause = 2"
definition ieRecovery :: byte where "ieRecovery = 3"
definition ieAPN :: byte where "ieAPN = 71"
definition ieAMBR :: byte where "ieAMBR = 72"
definition ieEBI :: byte where "ieEBI = 73"
definition ieMSISDN :: byte where "ieMSISDN = 76"
definition iePAA :: byte where "iePAA = 79"
definition ieBearerQoS :: byte where "ieBearerQoS = 80"
definition ieRATType :: byte where "ieRATType = 82"
definition ieServingNetwork :: byte where "ieServingNetwork = 83"
definition ieFTEID :: byte where "ieFTEID = 87"
definition ieBearerContext :: byte where "ieBearerContext = 93"
definition ieChargingChars :: byte where "ieChargingChars = 95"
definition iePDNType :: byte where "iePDNType = 99"
definition ieAPNRestriction :: byte where "ieAPNRestriction = 127"
definition ieSelectionMode :: byte where "ieSelectionMode = 128"

definition causeRequestAccepted :: byte where "causeRequestAccepted = 16"
definition ratTypeWLAN :: byte where "ratTypeWLAN = 3"
definition pdnTypeIPv4 :: byte where "pdnTypeIPv4 = 1"
definition ifaceS2aTWANGTPU :: byte where "ifaceS2aTWANGTPU = 34"
definition ifaceS2aTWANGTPC :: byte where "ifaceS2aTWANGTPC = 35"
definition ifaceS2aPGWGTPC :: byte where "ifaceS2aPGWGTPC = 36"
definition ifaceS2aPGWGTPU :: byte where "ifaceS2aPGWGTPU = 37"
definition defaultChargingCharacteristics :: u16 where "defaultChargingCharacteristics = 0x0800"

record gtpv2_ie =
  ie_Type :: byte
  ie_Instance :: byte
  ie_Payload :: bytes

abbreviation mk_ie :: "byte \<Rightarrow> byte \<Rightarrow> bytes \<Rightarrow> gtpv2_ie" where
  "mk_ie typ inst p \<equiv> \<lparr>ie_Type = typ, ie_Instance = inst, ie_Payload = p\<rparr>"

record cause_info =
  ca_Cause :: byte
  ca_OffendingIEType :: byte
  ca_OffendingIELength :: u16
  ca_OffendingIEInstance :: byte

section \<open>The stream\<close>

definition encode_ie :: "gtpv2_ie \<Rightarrow> bytes" where
  "encode_ie ie = [ie_Type ie] @ put16 (word_of_nat (length (ie_Payload ie)))
     @ [ie_Instance ie AND 0x0f] @ ie_Payload ie"

definition encodeIEs :: "gtpv2_ie list \<Rightarrow> bytes" where
  "encodeIEs ies = concat (map encode_ie ies)"

definition decode_ie :: "bytes \<Rightarrow> gtp_codec_err + (gtpv2_ie \<times> bytes)" where
  \<comment> \<open>one turn of the loop of \<open>decodeIEs\<close>\<close>
  "decode_ie payload =
     (if length payload < 4 then Inl IEHeaderTruncated
      else let l = unat (be16 (payload ! 1) (payload ! 2)) in
        if length payload < 4 + l then Inl (IELengthExceeds (payload ! 0) l (length payload - 4))
        else Inr (mk_ie (payload ! 0) (payload ! 3 AND 0x0f) (slice payload 4 (4 + l)), drop (4 + l) payload))"

function decodeIEs :: "bytes \<Rightarrow> gtp_codec_err + gtpv2_ie list" where
  "decodeIEs payload =
     (if payload = [] then Inr []
      else case decode_ie payload of Inl e \<Rightarrow> Inl e
        | Inr (ie, rest) \<Rightarrow> (case decodeIEs rest of Inl e \<Rightarrow> Inl e | Inr ies \<Rightarrow> Inr (ie # ies)))"
  by pat_completeness auto

termination
  by (relation "measure length") (auto simp: decode_ie_def Let_def split: if_splits)

declare decodeIEs.simps [simp del]

definition findIE :: "gtpv2_ie list \<Rightarrow> byte \<Rightarrow> byte \<Rightarrow> gtpv2_ie option" where
  "findIE ies typ inst = find (\<lambda>ie. ie_Type ie = typ \<and> ie_Instance ie = inst) ies"

section \<open>Elements\<close>

definition tbcd_digits :: "string \<Rightarrow> byte list" where
  "tbcd_digits value = map (\<lambda>c. byte_of c - 48) (filter (\<lambda>c. 48 \<le> code_of c \<and> code_of c \<le> 57) value)"

fun tbcd_pack :: "byte list \<Rightarrow> bytes" where
  "tbcd_pack [] = []"
| "tbcd_pack [lo] = [lo OR push_bit 4 0x0f]"
| "tbcd_pack (lo # hi # ds) = (lo OR push_bit 4 hi) # tbcd_pack ds"

definition encodeTBCD :: "string \<Rightarrow> bytes" where
  "encodeTBCD value = tbcd_pack (tbcd_digits value)"

definition bcdIE :: "byte \<Rightarrow> string \<Rightarrow> gtpv2_ie" where
  "bcdIE typ value = mk_ie typ 0 (encodeTBCD value)"

definition apn_labels :: "string \<Rightarrow> bytes" where
  "apn_labels apn = concat (map (\<lambda>l. if l = [] then [] else word_of_nat (length l) # bytes_of l)
     (split_on (CHR ''.'') apn))"

definition apnIE :: "string \<Rightarrow> gtpv2_ie" where
  "apnIE apn = mk_ie ieAPN 0 (apn_labels apn)"

definition uint8IE :: "byte \<Rightarrow> byte \<Rightarrow> gtpv2_ie" where
  "uint8IE typ v = mk_ie typ 0 [v]"

definition recoveryIE :: "byte \<Rightarrow> gtpv2_ie" where
  "recoveryIE n = uint8IE ieRecovery n"

definition chargingCharacteristicsIE :: "byte \<Rightarrow> u16 \<Rightarrow> gtpv2_ie" where
  "chargingCharacteristicsIE inst v = mk_ie ieChargingChars inst (put16 v)"

definition parseChargingCharacteristicsHex :: "string \<Rightarrow> u16 option" where
  "parseChargingCharacteristicsHex s =
     (if length s \<noteq> 4 \<or> \<not> list_all (\<lambda>c. hex_val c \<noteq> None) s then None
      else Some (word_of_nat (foldl (\<lambda>a c. 16 * a + the (hex_val c)) 0 s)))"

fun plmn_scan :: "string list \<Rightarrow> string \<Rightarrow> string \<Rightarrow> string \<times> string" where
  "plmn_scan [] mcc mnc = (mcc, mnc)"
| "plmn_scan (part # parts) mcc mnc = plmn_scan parts
     (if take 3 part = ''mcc'' \<and> length part = 6 then drop 3 part else mcc)
     (if take 3 part = ''mnc'' \<and> (length part = 5 \<or> length part = 6) then drop 3 part else mnc)"

definition plmnFromRealm :: "string \<Rightarrow> (string \<times> string) option" where
  "plmnFromRealm realm = (let (mcc, mnc) = plmn_scan (split_on (CHR ''.'') realm) [] [] in
     if length mcc \<noteq> 3 \<or> (length mnc \<noteq> 2 \<and> length mnc \<noteq> 3) then None else Some (mcc, mnc))"

definition digitNibble :: "char \<Rightarrow> byte" where
  "digitNibble c = (if 48 \<le> code_of c \<and> code_of c \<le> 57 then byte_of c - 48 else 0x0f)"

definition encodePLMN :: "string \<Rightarrow> string \<Rightarrow> bytes" where
  \<comment> \<open>called with three digits of MCC and two or three of MNC\<close>
  "encodePLMN mcc mnc = (let mnc3 = (if length mnc = 3 then digitNibble (mnc ! 2) else 0x0f) in
     [digitNibble (mcc ! 0) OR push_bit 4 (digitNibble (mcc ! 1)),
      digitNibble (mcc ! 2) OR push_bit 4 mnc3,
      digitNibble (mnc ! 0) OR push_bit 4 (digitNibble (mnc ! 1))])"

definition servingNetworkIE :: "string \<Rightarrow> gtpv2_ie option" where
  "servingNetworkIE realm = (case plmnFromRealm realm of None \<Rightarrow> None
     | Some (mcc, mnc) \<Rightarrow> Some (mk_ie ieServingNetwork 0 (encodePLMN mcc mnc)))"

definition uint8IEInstance :: "byte \<Rightarrow> byte \<Rightarrow> byte \<Rightarrow> gtpv2_ie" where
  "uint8IEInstance typ inst v = mk_ie typ inst [v]"

definition ambrIE :: "u32 \<Rightarrow> u32 \<Rightarrow> gtpv2_ie" where
  "ambrIE uplink downlink = mk_ie ieAMBR 0 (put32 uplink @ put32 downlink)"

definition bearerQoSIE :: "byte \<Rightarrow> gtpv2_ie" where
  "bearerQoSIE qci = mk_ie ieBearerQoS 0 ((replicate 22 0)[1 := qci])"

definition fteidIE :: "byte \<Rightarrow> byte \<Rightarrow> u32 \<Rightarrow> ip \<Rightarrow> gtpv2_ie" where
  "fteidIE inst iface teid ip =
     (if 0x3f < iface then mk_ie ieFTEID inst []
      else mk_ie ieFTEID inst ([0x80 OR iface] @ put32 teid
        @ (case to4 ip of None \<Rightarrow> [] | Some q \<Rightarrow> q)))"

definition paaIE :: "ip \<Rightarrow> gtpv2_ie" where
  "paaIE ip = mk_ie iePAA 0 (pdnTypeIPv4 # (case to4 ip of None \<Rightarrow> [] | Some q \<Rightarrow> q))"

section \<open>Parsers\<close>

definition no_cause :: cause_info where
  "no_cause = \<lparr>ca_Cause = 0, ca_OffendingIEType = 0, ca_OffendingIELength = 0, ca_OffendingIEInstance = 0\<rparr>"

definition parseCauseInfo :: "gtpv2_ie list \<Rightarrow> cause_info" where
  "parseCauseInfo ies = (case findIE ies ieCause 0 of None \<Rightarrow> no_cause
     | Some ie \<Rightarrow> let p = ie_Payload ie in
        if p = [] then no_cause
        else if 6 \<le> length p
          then \<lparr>ca_Cause = p ! 0, ca_OffendingIEType = p ! 2, ca_OffendingIELength = be16 (p ! 3) (p ! 4),
                ca_OffendingIEInstance = p ! 5 AND 0x0f\<rparr>
        else no_cause\<lparr>ca_Cause := p ! 0\<rparr>)"

definition parseCause :: "gtpv2_ie list \<Rightarrow> byte" where
  "parseCause ies = ca_Cause (parseCauseInfo ies)"

definition parsePAA :: "gtpv2_ie list \<Rightarrow> ip" where
  "parsePAA ies = (case findIE ies iePAA 0 of None \<Rightarrow> None
     | Some ie \<Rightarrow> let p = ie_Payload ie in
        if length p < 5 then None
        else if p ! 0 AND 0x07 \<noteq> pdnTypeIPv4 then None
        else net_IPv4 (p ! 1) (p ! 2) (p ! 3) (p ! 4))"

definition parseFTEID :: "gtpv2_ie \<Rightarrow> (byte \<times> u32 \<times> ip) option" where
  "parseFTEID ie = (let p = ie_Payload ie in
     if length p < 5 then None
     else let iface = p ! 0 AND 0x3f; teid = be32 (p ! 1) (p ! 2) (p ! 3) (p ! 4) in
       if p ! 0 AND 0x80 = 0 \<or> length p < 9 then Some (iface, teid, None)
       else Some (iface, teid, net_IPv4 (p ! 5) (p ! 6) (p ! 7) (p ! 8)))"

section \<open>The stream decodes what was encoded\<close>

definition ie_ok :: "gtpv2_ie \<Rightarrow> bool" where
  "ie_ok ie \<longleftrightarrow> ie_Instance ie AND 0x0f = ie_Instance ie \<and> length (ie_Payload ie) < 65536"

lemma length_encode_ie [simp]: "length (encode_ie ie) = 4 + length (ie_Payload ie)"
  by (simp add: encode_ie_def)

lemma decode_ie_encode: "ie_ok ie \<Longrightarrow> decode_ie (encode_ie ie @ rest) = Inr (ie, rest)"
  by (simp add: decode_ie_def encode_ie_def put16_def ie_ok_def slice_def Let_def)

lemma decode_ie_ok:
  assumes "decode_ie bs = Inr (ie, rest)" shows "ie_ok ie" "length rest < length bs"
  using assms by (auto simp: decode_ie_def ie_ok_def slice_def Let_def split: if_splits)

interpretation gtp_ies: closed_item_stream encode_ie decode_ie decodeIEs ie_ok
proof
  fix ie rest assume "ie_ok ie"
  then show "decode_ie (encode_ie ie @ rest) = Inr (ie, rest)" by (rule decode_ie_encode)
next
  fix ie show "encode_ie ie \<noteq> []" by (simp add: encode_ie_def)
next
  fix bs :: bytes assume "bs \<noteq> []"
  then show "decodeIEs bs = (case decode_ie bs of Inl e \<Rightarrow> Inl e
       | Inr (x, rest) \<Rightarrow> (case decodeIEs rest of Inl e \<Rightarrow> Inl e | Inr xs \<Rightarrow> Inr (x # xs)))"
    by (subst decodeIEs.simps) simp
qed (auto simp: decode_ie_ok decodeIEs.simps)

section \<open>Telephony encodings, against readers written from 3GPP TS 23.003 and TS 29.274\<close>

fun tbcd_unpack :: "bytes \<Rightarrow> byte list" where
  \<comment> \<open>reference: low nibble first, 1111 fills the last octet\<close>
  "tbcd_unpack [] = []"
| "tbcd_unpack (b # bs) = (let lo = b AND 0x0f; hi = drop_bit 4 b in
     if hi = 0x0f \<and> bs = [] then [lo] else lo # hi # tbcd_unpack bs)"

lemma nibbles:
  fixes lo hi :: byte
  assumes "lo < 16" "hi < 16"
  shows "(lo OR push_bit 4 hi) AND 0x0f = lo" "drop_bit 4 (lo OR push_bit 4 hi) = hi"
proof -
  have bits: "\<not> bit x n" if "x < 16" "4 \<le> n" for x :: byte and n
  proof -
    have "take_bit 4 x = x"
      using that(1) by (simp add: word_unat_eq_iff unsigned_take_bit_eq take_bit_nat_eq_self word_less_nat_alt)
    then show ?thesis using that(2) by (metis bit_take_bit_iff not_less)
  qed
  have m: "(0x0f :: byte) = mask 4" by (simp add: mask_eq_exp_minus_1)
  show "(lo OR push_bit 4 hi) AND 0x0f = lo"
    unfolding m
    by (rule bit_word_eqI) (use bits [OF assms(1)] not_le in \<open>auto simp: bit_simps\<close>)
  show "drop_bit 4 (lo OR push_bit 4 hi) = hi"
  proof (rule bit_word_eqI)
    fix n assume "n < LENGTH(8)"
    then show "bit (drop_bit 4 (lo OR push_bit 4 hi)) n = bit hi n"
      using bits [OF assms(1), of "4 + n"] bits [OF assms(2), of n]
      by (cases "n < 4") (auto simp: bit_simps dest: bit_imp_le_length)
  qed
qed

lemma digit_bytes: "d \<in> set (tbcd_digits v) \<Longrightarrow> d < 10"
proof -
  assume "d \<in> set (tbcd_digits v)"
  then obtain c where c: "d = byte_of c - 48" "48 \<le> code_of c" "code_of c \<le> 57"
    by (auto simp: tbcd_digits_def)
  define k where "k = code_of c - 48"
  have "code_of c = 48 + k" "k \<le> 9" using c(2,3) by (simp_all add: k_def)
  then have "d = word_of_nat k" using c by (simp add: byte_of_def)
  with \<open>k \<le> 9\<close> show "d < 10" by (simp add: word_less_nat_alt)
qed

lemma tbcd_unpack_pack:
  "(\<And>d. d \<in> set ds \<Longrightarrow> d < 10) \<Longrightarrow> tbcd_unpack (tbcd_pack ds) = ds"
proof (induction ds rule: tbcd_pack.induct)
  case (2 lo)
  then have "lo < 10" by auto
  then have "lo < 16" by (simp add: word_less_nat_alt)
  then show ?case using nibbles [of lo "0x0f"] by (simp add: Let_def)
next
  case (3 lo hi ds)
  have "lo < 10" "hi < 10" using "3.prems" by auto
  then have lt: "lo < 16" "hi < 16" "hi \<noteq> 0x0f" by (auto simp: word_less_nat_alt)
  have "tbcd_unpack (tbcd_pack ds) = ds" using 3 by auto
  with nibbles [OF lt(1,2)] lt(3) show ?case by (simp add: Let_def)
qed simp

function apn_read :: "bytes \<Rightarrow> string list" where
  \<comment> \<open>reference: a length octet, then that many characters\<close>
  "apn_read [] = []"
| "apn_read (n # bs) = string_of (take (unat n) bs) # apn_read (drop (unat n) bs)"
  by pat_completeness auto

termination
  by (relation "measure length") auto

lemma apn_read_labels:
  "list_all (\<lambda>l. l \<noteq> [] \<and> length l < 256) ls \<Longrightarrow>
     apn_read (concat (map (\<lambda>l. if l = [] then [] else word_of_nat (length l) # bytes_of l) ls)) = ls"
  by (induction ls) auto

lemma parseFTEID_fteidIE:
  assumes "iface \<le> 0x3f" "to4 a = Some [w, x, y, z]"
  shows "parseFTEID (fteidIE inst iface teid a) = Some (iface, teid, net_IPv4 w x y z)"
proof -
  have bits: "(0x80 OR iface) AND 0x3f = iface" "(0x80 OR iface) AND 0x80 \<noteq> 0"
  proof -
    have "take_bit 6 iface = iface"
      using assms(1) by (simp add: word_unat_eq_iff unsigned_take_bit_eq take_bit_nat_eq_self word_le_nat_alt)
    moreover have "(0x80 OR iface) AND 0x3f = take_bit 6 iface"
    proof -
      have "x AND 0x3f = take_bit 6 x" for x :: byte
        by (simp add: take_bit_eq_mask mask_eq_exp_minus_1)
      then show ?thesis by (simp add: bit.conj_disj_distrib2)
    qed
    ultimately show "(0x80 OR iface) AND 0x3f = iface" by simp
    have "bit ((0x80 OR iface) AND 0x80) 7" by (simp add: bit_simps)
    then show "(0x80 OR iface) AND 0x80 \<noteq> 0" by auto
  qed
  show ?thesis
    using assms(1,2) bits by (simp add: parseFTEID_def fteidIE_def put32_def Let_def not_less)
qed

lemma parsePAA_paaIE:
  assumes "to4 a = Some [w, x, y, z]" "\<forall>ie \<in> set pre. ie_Type ie \<noteq> iePAA"
  shows "parsePAA (pre @ paaIE a # rest) = net_IPv4 w x y z"
proof -
  have "findIE (pre @ paaIE a # rest) iePAA 0 = Some (paaIE a)"
    using assms(2) by (induction pre) (auto simp: findIE_def paaIE_def)
  then show ?thesis
    using assms(1) by (simp add: parsePAA_def paaIE_def pdnTypeIPv4_def Let_def)
qed

section \<open>Properties\<close>

text \<open>C34. Information elements: whatever list of well-formed elements is encoded, decoding returns
  that list, and garbage after them is reported as it would be on its own; whatever decodes
  is well-formed, and re-encoding it decodes to the same elements.\<close>

theorem ies_roundtrip:
  assumes "list_all ie_ok ies"
  shows "decodeIEs (encodeIEs ies) = Inr ies
    \<and> (\<forall>junk e. decodeIEs junk = Inl e \<longrightarrow> decodeIEs (encodeIEs ies @ junk) = Inl e)
    \<and> (\<forall>bs xs. decodeIEs bs = Inr xs \<longrightarrow> list_all ie_ok xs \<and> decodeIEs (encodeIEs xs) = Inr xs)"
  unfolding encodeIEs_def
  using gtp_ies.decode_encode [OF assms] gtp_ies.decode_bad_suffix [OF assms] gtp_ies.decode_ok
    gtp_ies.decode_normal by blast

text \<open>A fully qualified TEID and a PDN address survive the trip: parsing the F-TEID element
  built for an interface type, a TEID and an IPv4 address gives them back, and so does parsing
  the PAA element, wherever it stands in the message.\<close>

theorem fteid_paa_roundtrip:
  assumes "iface \<le> 0x3f" "to4 a = Some [w, x, y, z]" "\<forall>ie \<in> set pre. ie_Type ie \<noteq> iePAA"
  shows "parseFTEID (fteidIE inst iface teid a) = Some (iface, teid, net_IPv4 w x y z)
    \<and> parsePAA (pre @ paaIE a # rest) = net_IPv4 w x y z"
  using parseFTEID_fteidIE [OF assms(1,2)] parsePAA_paaIE [OF assms(2,3)] by simp

text \<open>The telephony encodings are what the standards say: a TBCD string read low nibble
  first with a 1111 filler yields the decimal digits of the number, whatever else the string
  contains, and an APN whose labels are not empty is read back label by label.\<close>

theorem tbcd_apn_readable:
  assumes "list_all (\<lambda>l. l \<noteq> [] \<and> length l < 256) (split_on (CHR ''.'') apn)"
  shows "tbcd_unpack (encodeTBCD number) = tbcd_digits number
    \<and> apn_read (ie_Payload (apnIE apn)) = split_on (CHR ''.'') apn"
  using apn_read_labels [OF assms] tbcd_unpack_pack [OF digit_bytes]
  by (simp add: encodeTBCD_def apnIE_def apn_labels_def)

theorem ies_roundtrip_witness:
  "decodeIEs (encodeIEs [uint8IE ieRATType ratTypeWLAN, ambrIE 1 2]) =
     Inr [uint8IE ieRATType ratTypeWLAN, ambrIE 1 2]"
  using ies_roundtrip [of "[uint8IE ieRATType ratTypeWLAN, ambrIE 1 2]"]
  by (simp add: ie_ok_def uint8IE_def ambrIE_def)

theorem fteid_paa_roundtrip_witness:
  "parseFTEID (fteidIE 1 ifaceS2aTWANGTPU 77 (Some [10, 0, 0, 1])) = Some (ifaceS2aTWANGTPU, 77, net_IPv4 10 0 0 1)"
  using fteid_paa_roundtrip [of ifaceS2aTWANGTPU "Some [10, 0, 0, 1]" 10 0 0 1 "[]" 1 77]
  by (simp add: ifaceS2aTWANGTPU_def)

theorem tbcd_apn_readable_witness:
  "tbcd_unpack (encodeTBCD ''00101'') = [0, 0, 1, 0, 1]
   \<and> apn_read (ie_Payload (apnIE ''ims.mnc001'')) = [''ims'', ''mnc001'']"
proof -
  have s: "split_on (CHR ''.'') ''ims.mnc001'' = [''ims'', ''mnc001'']" by simp
  have d: "tbcd_digits ''00101'' = [0, 0, 1, 0, 1]" by code_simp
  from tbcd_apn_readable [of "''ims.mnc001''" "''00101''"] show ?thesis by (simp add: s d)
qed

end
