(* ===== verification/GtpU.thy ===== *)
theory GtpU
  imports Wire Machine Session
begin

text \<open>
  The user-space GTP-U endpoint (\<open>internal/gtpu/forwarder.go\<close>): the packet codec, the control
  messages (echo, error indication), and the table that binds a local TEID to a session. The
  socket is outside: what the code writes to it is a value of the model. A session stored in
  the table is a private copy that nobody changes, so the three maps hold values.
\<close>

unbundle bit_operations_syntax

definition msgTypeEchoRequest :: byte where "msgTypeEchoRequest = 1"
definition msgTypeEchoResponse :: byte where "msgTypeEchoResponse = 2"
definition msgTypeErrorIndication :: byte where "msgTypeErrorIndication = 26"
definition msgTypeGTPU :: byte where "msgTypeGTPU = 255"
definition ieRecoveryU :: byte where "ieRecoveryU = 14"
definition ieTunnelEndpointIDDataI :: byte where "ieTunnelEndpointIDDataI = 16"

lemmas gtpu_consts = msgTypeEchoRequest_def msgTypeEchoResponse_def msgTypeErrorIndication_def
  msgTypeGTPU_def ieRecoveryU_def ieTunnelEndpointIDDataI_def

datatype gtpu_err =
    TeidRequired
  | PayloadTooLarge nat
  | Truncated
  | UnsupportedVersion byte
  | UnsupportedType byte
  | LengthExceeds nat nat
  | SequenceTruncated
  | OffsetExceedsLength
  | UnexpectedPeer
  | UnknownTEID u32
  | SessionRequired
  | SessionIDRequired
  | NoLocalTEID string
  | NoRemoteTEID string
  | NoSubscriberIP string
  | Cancelled

section \<open>Packets\<close>

definition EncodePacket :: "u32 \<Rightarrow> bytes \<Rightarrow> gtpu_err + bytes" where
  "EncodePacket teid payload =
     (if teid = 0 then Inl TeidRequired
      else if 65535 - 8 < length payload then Inl (PayloadTooLarge (length payload))
      else Inr ([0x30, msgTypeGTPU] @ put16 (word_of_nat (length payload)) @ put32 teid @ payload))"

definition DecodePacket :: "bytes \<Rightarrow> gtpu_err + (u32 \<times> bytes)" where
  "DecodePacket p =
     (if length p < 8 then Inl Truncated
      else if drop_bit 5 (p ! 0) \<noteq> 1 then Inl (UnsupportedVersion (drop_bit 5 (p ! 0)))
      else if p ! 1 \<noteq> msgTypeGTPU then Inl (UnsupportedType (p ! 1))
      else let len = unat (be16 (p ! 2) (p ! 3)) in
        if length p - 8 < len then Inl (LengthExceeds len (length p - 8))
        else let teid = be32 (p ! 4) (p ! 5) (p ! 6) (p ! 7) in
          if teid = 0 then Inl TeidRequired else Inr (teid, slice p 8 (8 + len)))"

record control_message =
  cm_Type :: byte
  cm_TEID :: u32
  cm_Sequence :: u16
  cm_Payload :: bytes
  cm_OffendingTEID :: u32

fun parseOffendingTEID :: "bytes \<Rightarrow> u32" where
  \<comment> \<open>the loop over \<open>i\<close>, on the bytes from \<open>i\<close> on\<close>
  "parseOffendingTEID (typ # b # rest) =
     (if typ = ieTunnelEndpointIDDataI
      then (case rest of c # d # e # _ \<Rightarrow> be32 b c d e | _ \<Rightarrow> 0)
      else if typ = ieRecoveryU then parseOffendingTEID rest
      else parseOffendingTEID (b # rest))"
| "parseOffendingTEID _ = 0"

definition DecodeControlPacket :: "bytes \<Rightarrow> gtpu_err + control_message" where
  "DecodeControlPacket p =
     (if length p < 8 then Inl Truncated
      else if drop_bit 5 (p ! 0) \<noteq> 1 then Inl (UnsupportedVersion (drop_bit 5 (p ! 0)))
      else if p ! 1 \<noteq> msgTypeEchoRequest \<and> p ! 1 \<noteq> msgTypeEchoResponse \<and> p ! 1 \<noteq> msgTypeErrorIndication
        then Inl (UnsupportedType (p ! 1))
      else let len = unat (be16 (p ! 2) (p ! 3)) in
        if length p - 8 < len then Inl (LengthExceeds len (length p - 8))
        else let hasSeq = (p ! 0 AND 0x02 \<noteq> 0) in
          if hasSeq \<and> (length p < 12 \<or> len < 4) then Inl SequenceTruncated
          else let off = (if hasSeq then 12 else 8) in
            if 8 + len < off then Inl OffsetExceedsLength
            else let payload = slice p off (8 + len) in
              Inr \<lparr> cm_Type = p ! 1, cm_TEID = be32 (p ! 4) (p ! 5) (p ! 6) (p ! 7),
                 cm_Sequence = (if hasSeq then be16 (p ! 8) (p ! 9) else 0),
                 cm_Payload = payload, cm_OffendingTEID = parseOffendingTEID payload \<rparr>)"

definition EncodeEchoResponse :: "u16 \<Rightarrow> bytes" where
  "EncodeEchoResponse sq = [0x32, msgTypeEchoResponse] @ put16 (4 + 3) @ put32 0 @ put16 sq @ [0, 0]
     @ [ieRecoveryU, 1, 0]"

definition EncodeEchoRequest :: "u16 \<Rightarrow> bytes" where
  "EncodeEchoRequest sq = [0x32, msgTypeEchoRequest] @ put16 4 @ put32 0 @ put16 sq @ [0, 0]"

section \<open>The session table of the forwarder\<close>

type_synonym udp_addr = "ip \<times> nat"

record forwarder =
  fw_remote :: udp_addr
  fw_bySessionID :: "string \<rightharpoonup> session"
  fw_byLocalTEID :: "u32 \<rightharpoonup> session"
  fw_byIP :: "string \<rightharpoonup> session"

definition newForwarder :: "udp_addr \<Rightarrow> forwarder" where
  "newForwarder remote = \<lparr> fw_remote = remote, fw_bySessionID = Map.empty, fw_byLocalTEID = Map.empty,
     fw_byIP = Map.empty \<rparr>"

definition fw_unbind :: "session \<Rightarrow> forwarder \<Rightarrow> forwarder" where
  "fw_unbind old f = f\<lparr> fw_byLocalTEID := (fw_byLocalTEID f)(s_LocalGTPUTEID old := None),
     fw_byIP := (if s_SubscriberIP old \<noteq> None
                 then (fw_byIP f)(ip_string (s_SubscriberIP old) := None) else fw_byIP f) \<rparr>"

definition fw_AddSession :: "session option \<Rightarrow> forwarder \<Rightarrow> (gtpu_err + unit) \<times> forwarder" where
  "fw_AddSession so f = (case so of None \<Rightarrow> (Inl SessionRequired, f)
     | Some s \<Rightarrow>
        if s_ID s = [] then (Inl SessionIDRequired, f)
        else if s_LocalGTPUTEID s = 0 then (Inl (NoLocalTEID (s_ID s)), f)
        else if s_RemoteGTPUTEID s = 0 then (Inl (NoRemoteTEID (s_ID s)), f)
        else if s_SubscriberIP s = None then (Inl (NoSubscriberIP (s_ID s)), f)
        else let cp = clone s;
                 f1 = (case fw_bySessionID f (s_ID cp) of None \<Rightarrow> f | Some old \<Rightarrow> fw_unbind old f)
             in (Inr (), f1\<lparr> fw_bySessionID := (fw_bySessionID f1)(s_ID cp \<mapsto> cp),
                   fw_byLocalTEID := (fw_byLocalTEID f1)(s_LocalGTPUTEID cp \<mapsto> cp),
                   fw_byIP := (fw_byIP f1)(ip_string (s_SubscriberIP cp) \<mapsto> cp) \<rparr>))"

definition fw_RemoveSession :: "string \<Rightarrow> forwarder \<Rightarrow> forwarder" where
  "fw_RemoveSession sid f = (case fw_bySessionID f sid of None \<Rightarrow> f
     | Some s \<Rightarrow> fw_unbind s (f\<lparr> fw_bySessionID := (fw_bySessionID f)(sid := None) \<rparr>))"

definition remoteForSession :: "forwarder \<Rightarrow> session \<Rightarrow> udp_addr" where
  "remoteForSession f s = (if s_PGWUserIP s \<noteq> None then (s_PGWUserIP s, snd (fw_remote f)) else fw_remote f)"

definition SendUplinkPacket :: "bool \<Rightarrow> session option \<Rightarrow> bytes \<Rightarrow> forwarder \<Rightarrow> gtpu_err + (bytes \<times> udp_addr)" where
  \<comment> \<open>what is handed to \<open>WriteToUDP\<close>; \<open>cancelled\<close> is \<open>ctx.Err() != nil\<close>\<close>
  "SendUplinkPacket cancelled so payload f =
     (if cancelled then Inl Cancelled
      else case so of None \<Rightarrow> Inl SessionRequired
        | Some s \<Rightarrow>
           if s_RemoteGTPUTEID s = 0 then Inl (NoRemoteTEID (s_ID s))
           else (case EncodePacket (s_RemoteGTPUTEID s) payload of Inl e \<Rightarrow> Inl e
                 | Inr packet \<Rightarrow> Inr (packet, remoteForSession f s)))"

definition Decapsulate :: "bytes \<Rightarrow> udp_addr option \<Rightarrow> forwarder \<Rightarrow> gtpu_err + (session \<times> bytes)" where
  "Decapsulate packet peer f = (case DecodePacket packet of Inl e \<Rightarrow> Inl e
     | Inr (teid, payload) \<Rightarrow>
        if (case peer of None \<Rightarrow> False | Some (a, _) \<Rightarrow> \<not> ip_equal a (fst (fw_remote f)))
        then Inl UnexpectedPeer
        else (case fw_byLocalTEID f teid of None \<Rightarrow> Inl (UnknownTEID teid)
              | Some s \<Rightarrow> Inr (clone s, payload)))"

datatype control_outcome =
    NotControl
  | Ignored
  | EchoReply bytes udp_addr
  | ErrorIndication u32 bytes udp_addr
  | NilPeer \<comment> \<open>\<open>peer.IP\<close> on a nil pointer: a panic, cannot happen behind \<open>ReadFromUDP\<close>\<close>

definition handleControlPacket :: "bytes \<Rightarrow> udp_addr option \<Rightarrow> forwarder \<Rightarrow> control_outcome" where
  "handleControlPacket packet peer f = (case DecodeControlPacket packet of Inl e \<Rightarrow> NotControl
     | Inr msg \<Rightarrow>
        if (case peer of None \<Rightarrow> False | Some (a, _) \<Rightarrow> \<not> ip_equal a (fst (fw_remote f))) then Ignored
        else if cm_Type msg = msgTypeEchoRequest
          then (case peer of None \<Rightarrow> NilPeer | Some a \<Rightarrow> EchoReply (EncodeEchoResponse (cm_Sequence msg)) a)
        else if cm_Type msg = msgTypeErrorIndication
          then (case peer of None \<Rightarrow> NilPeer
                | Some a \<Rightarrow> ErrorIndication (cm_OffendingTEID msg) (cm_Payload msg) a)
        else NotControl)"

datatype receive_outcome = Control control_outcome | Downlink session bytes | Dropped gtpu_err

definition receive :: "bytes \<Rightarrow> udp_addr \<Rightarrow> forwarder \<Rightarrow> receive_outcome" where
  \<comment> \<open>one packet through the body of \<open>readLoop\<close>\<close>
  "receive packet peer f = (let c = handleControlPacket packet (Some peer) f in
     if c \<noteq> NotControl then Control c
     else (case Decapsulate packet (Some peer) f of Inl e \<Rightarrow> Dropped e | Inr (s, b) \<Rightarrow> Downlink s b))"

section \<open>The codec undoes itself\<close>

definition gtpu_ok :: "u32 \<times> bytes \<Rightarrow> bool" where
  "gtpu_ok x \<longleftrightarrow> fst x \<noteq> 0 \<and> length (snd x) \<le> 65527"

lemma DecodePacket_Encode:
  assumes "teid \<noteq> 0" "EncodePacket teid payload = Inr bs"
  shows "DecodePacket (bs @ trailing) = Inr (teid, payload)"
proof -
  have "length payload \<le> 65527"
    and bs: "bs = [0x30, msgTypeGTPU] @ put16 (word_of_nat (length payload)) @ put32 teid @ payload"
    using assms by (auto simp: EncodePacket_def split: if_splits)
  then show ?thesis
    using assms(1) by (simp add: DecodePacket_def bs put16_def put32_def slice_def Let_def)
qed

interpretation gtpu_codec: packet_codec "\<lambda>x. EncodePacket (fst x) (snd x)" DecodePacket gtpu_ok
proof
  fix x show "gtpu_ok x \<Longrightarrow> \<exists>bs. EncodePacket (fst x) (snd x) = Inr bs"
    by (simp add: gtpu_ok_def EncodePacket_def)
next
  fix x bs assume "gtpu_ok x" "EncodePacket (fst x) (snd x) = Inr bs"
  then show "DecodePacket bs = Inr x"
    using DecodePacket_Encode [of "fst x" "snd x" bs "[]"] by (simp add: gtpu_ok_def)
qed

lemma DecodePacket_teid: "DecodePacket p = Inr (teid, b) \<Longrightarrow> teid \<noteq> 0"
  by (auto simp: DecodePacket_def Let_def split: if_splits)

section \<open>The table\<close>

definition fw_inv :: "forwarder \<Rightarrow> bool" where
  "fw_inv f \<longleftrightarrow>
     (\<forall>i s. fw_bySessionID f i = Some s \<longrightarrow> s_ID s = i \<and> s_LocalGTPUTEID s \<noteq> 0 \<and> s_RemoteGTPUTEID s \<noteq> 0)
     \<and> (\<forall>t s. fw_byLocalTEID f t = Some s \<longrightarrow> s_LocalGTPUTEID s = t \<and> fw_bySessionID f (s_ID s) = Some s)"

lemma fw_invD:
  assumes "fw_inv f"
  shows "fw_bySessionID f i = Some s \<Longrightarrow> s_ID s = i \<and> s_LocalGTPUTEID s \<noteq> 0 \<and> s_RemoteGTPUTEID s \<noteq> 0"
    "fw_byLocalTEID f t = Some s \<Longrightarrow> s_LocalGTPUTEID s = t \<and> fw_bySessionID f (s_ID s) = Some s"
  using assms unfolding fw_inv_def by blast+

lemma fw_inv_new [simp]: "fw_inv (newForwarder remote)"
  by (simp add: fw_inv_def newForwarder_def)

lemma fw_unbind_simps [simp]:
  "fw_bySessionID (fw_unbind old f) = fw_bySessionID f" "fw_remote (fw_unbind old f) = fw_remote f"
  "fw_byLocalTEID (fw_unbind old f) = (fw_byLocalTEID f)(s_LocalGTPUTEID old := None)"
  by (simp_all add: fw_unbind_def)

lemma fw_Remove_byID: "fw_bySessionID (fw_RemoveSession i f) = (fw_bySessionID f)(i := None)"
  by (auto simp: fw_RemoveSession_def split: option.splits)

lemma fw_Remove_byTEID:
  assumes "fw_inv f"
  shows "fw_byLocalTEID (fw_RemoveSession i f) t = Some s \<longleftrightarrow>
    fw_byLocalTEID f t = Some s \<and> (case fw_bySessionID f i of None \<Rightarrow> True | Some x \<Rightarrow> s_LocalGTPUTEID x \<noteq> t)"
  by (auto simp: fw_RemoveSession_def split: option.splits)

lemma fw_Remove_inv: "fw_inv f \<Longrightarrow> fw_inv (fw_RemoveSession i f)"
proof -
  assume f: "fw_inv f"
  have "s_ID s \<noteq> i" if "fw_byLocalTEID (fw_RemoveSession i f) t = Some s" for t s
    using that fw_invD(2) [OF f, of t s] by (auto simp: fw_Remove_byTEID [OF f])
  moreover have "s_LocalGTPUTEID s = t \<and> fw_bySessionID f (s_ID s) = Some s"
    if "fw_byLocalTEID (fw_RemoveSession i f) t = Some s" for t s
    using that fw_invD(2) [OF f, of t s] by (simp add: fw_Remove_byTEID [OF f])
  ultimately show ?thesis
    unfolding fw_inv_def fw_Remove_byID using fw_invD(1) [OF f] by auto
qed

definition fw_bind :: "session \<Rightarrow> forwarder \<Rightarrow> forwarder" where
  "fw_bind cp f = f\<lparr> fw_bySessionID := (fw_bySessionID f)(s_ID cp \<mapsto> cp),
     fw_byLocalTEID := (fw_byLocalTEID f)(s_LocalGTPUTEID cp \<mapsto> cp),
     fw_byIP := (fw_byIP f)(ip_string (s_SubscriberIP cp) \<mapsto> cp) \<rparr>"

lemma fw_bind_inv:
  assumes "fw_inv f" "fw_bySessionID f (s_ID cp) = None" "s_LocalGTPUTEID cp \<noteq> 0" "s_RemoteGTPUTEID cp \<noteq> 0"
  shows "fw_inv (fw_bind cp f)"
proof -
  have "s_ID s \<noteq> s_ID cp" if "fw_byLocalTEID f t = Some s" for t s
    using fw_invD(2) [OF assms(1) that] assms(2) by auto
  then show ?thesis
    unfolding fw_inv_def using fw_invD [OF assms(1)] assms(3,4) by (auto simp: fw_bind_def)
qed

lemma fw_Add_alt:
  assumes "s_ID s \<noteq> []" "s_LocalGTPUTEID s \<noteq> 0" "s_RemoteGTPUTEID s \<noteq> 0" "s_SubscriberIP s \<noteq> None"
  shows "fst (fw_AddSession (Some s) f) = Inr ()"
    "fw_bySessionID (snd (fw_AddSession (Some s) f)) = fw_bySessionID (fw_bind (clone s) (fw_RemoveSession (s_ID s) f))"
    "fw_byLocalTEID (snd (fw_AddSession (Some s) f)) = fw_byLocalTEID (fw_bind (clone s) (fw_RemoveSession (s_ID s) f))"
    "fw_remote (snd (fw_AddSession (Some s) f)) = fw_remote f"
  using assms by (auto simp: fw_AddSession_def fw_bind_def fw_RemoveSession_def Let_def split: option.splits)

lemma fw_Add_inv: "fw_inv f \<Longrightarrow> fw_inv (snd (fw_AddSession so f))"
proof (cases so)
  case (Some s)
  assume f: "fw_inv f"
  show ?thesis
  proof (cases "s_ID s \<noteq> [] \<and> s_LocalGTPUTEID s \<noteq> 0 \<and> s_RemoteGTPUTEID s \<noteq> 0 \<and> s_SubscriberIP s \<noteq> None")
    case True
    have "fw_inv (fw_bind (clone s) (fw_RemoveSession (s_ID s) f))"
      using True by (intro fw_bind_inv fw_Remove_inv f) (simp_all add: fw_Remove_byID)
    with True show ?thesis by (simp add: fw_inv_def fw_Add_alt Some)
  qed (use f Some in \<open>auto simp: fw_AddSession_def\<close>)
qed (simp add: fw_AddSession_def)

datatype fw_op = FAdd "session option" | FRemove string

fun exec_fw :: "fw_op \<Rightarrow> forwarder \<Rightarrow> (gtpu_err + unit) \<times> forwarder" where
  "exec_fw (FAdd so) f = fw_AddSession so f"
| "exec_fw (FRemove i) f = (Inr (), fw_RemoveSession i f)"

interpretation fwd: machine exec_fw "\<lambda>_ _. True" fw_inv
proof
  fix f op assume "fw_inv f"
  then show "fw_inv (snd (exec_fw op f))" by (cases op) (simp_all add: fw_Add_inv fw_Remove_inv)
qed

definition fw_after :: "fw_op list \<Rightarrow> udp_addr \<Rightarrow> forwarder" where
  "fw_after ops remote = snd (run exec_fw ops (newForwarder remote))"

lemma fw_after_inv: "fw_inv (fw_after ops remote)"
proof -
  have "legal exec_fw (\<lambda>_ _. True) ops s" for s by (induction ops arbitrary: s) simp_all
  then show ?thesis unfolding fw_after_def by (intro fwd.run_inv) simp_all
qed

lemma fw_remote_exec: "fw_remote (snd (exec_fw op f)) = fw_remote f"
  by (cases op) (auto simp: fw_AddSession_def fw_RemoveSession_def Let_def split: option.splits)

lemma fw_remote_after: "fw_remote (fw_after ops remote) = remote"
proof -
  have "fw_remote (snd (run exec_fw ops f)) = fw_remote f" for f
    by (induction ops arbitrary: f) (simp_all add: fw_remote_exec)
  then show ?thesis by (simp add: fw_after_def newForwarder_def)
qed

section \<open>Properties\<close>

text \<open>A G-PDU survives the trip: what \<open>EncodePacket\<close> accepts, \<open>DecodePacket\<close> returns, also with
  trailing bytes after it; \<open>EncodePacket\<close> refuses exactly TEID 0 and payloads above 65527 bytes.\<close>

theorem gtpu_roundtrip:
  "((\<exists>bs. EncodePacket teid payload = Inr bs) \<longleftrightarrow> teid \<noteq> 0 \<and> length payload \<le> 65527)
   \<and> (\<forall>bs trailing. EncodePacket teid payload = Inr bs \<longrightarrow> DecodePacket (bs @ trailing) = Inr (teid, payload))"
proof -
  have "(\<exists>bs. EncodePacket teid payload = Inr bs) \<longleftrightarrow> teid \<noteq> 0 \<and> length payload \<le> 65527"
    by (auto simp: EncodePacket_def)
  then show ?thesis using DecodePacket_Encode by blast
qed

text \<open>C20. Downlink traffic reaches only the session bound to the packet's TEID: after any
  sequence of \<open>AddSession\<close> and \<open>RemoveSession\<close>, a delivered packet came from the configured PGW,
  carries the session's local TEID, and the session is bound; a packet for a TEID that was
  removed, or that comes from another peer, is dropped.\<close>

theorem downlink_isolation:
  assumes "f = fw_after ops remote" "Decapsulate packet (Some (a, port)) f = Inr (s, payload)"
  shows "ip_equal a (fst (fw_remote f))
    \<and> (\<exists>s0. s = clone s0 \<and> fw_bySessionID f (s_ID s) = Some s0 \<and>
          DecodePacket packet = Inr (s_LocalGTPUTEID s, payload))
    \<and> (\<exists>e. Decapsulate packet (Some (a, port)) (fw_RemoveSession (s_ID s) f) = Inl e)"
proof -
  have inv: "fw_inv f" using assms(1) fw_after_inv by simp
  obtain teid s0 where d: "DecodePacket packet = Inr (teid, payload)" "ip_equal a (fst (fw_remote f))"
    "fw_byLocalTEID f teid = Some s0" "s = clone s0"
    using assms(2) by (auto simp: Decapsulate_def split: sum.splits prod.splits option.splits if_splits)
  note s0 = fw_invD(2) [OF inv d(3)]
  have "fw_byLocalTEID (fw_RemoveSession (s_ID s) f) teid = None"
    using s0 d(4) by (auto simp: fw_RemoveSession_def)
  moreover have "fw_remote (fw_RemoveSession (s_ID s) f) = fw_remote f"
    by (auto simp: fw_RemoveSession_def split: option.splits)
  ultimately show ?thesis using d s0 by (auto simp: Decapsulate_def clone_def)
qed

text \<open>C35. Once a session with TEIDs and an address is bound, packets the PGW sends to its local TEID
  are delivered to it, whatever was bound before, and the packets it sends go out under its
  remote TEID to its own PGW user-plane address.\<close>

theorem bound_session_reachable:
  assumes "s_ID s \<noteq> []" "s_LocalGTPUTEID s \<noteq> 0" "s_RemoteGTPUTEID s \<noteq> 0" "s_SubscriberIP s \<noteq> None"
    "s_PGWUserIP s = Some (x # xs)" "length payload \<le> 65527" "f = fw_after (ops @ [FAdd (Some s)]) remote"
  shows "(\<exists>bs. EncodePacket (s_LocalGTPUTEID s) payload = Inr bs \<and>
           receive bs (fst remote, port) f = Downlink (clone s) payload)
    \<and> (\<exists>up. SendUplinkPacket False (Some (clone s)) payload f = Inr (up, (Some (x # xs), snd remote))
           \<and> DecodePacket up = Inr (s_RemoteGTPUTEID s, payload))"
proof -
  let ?g = "fw_after ops remote"
  have f: "f = snd (fw_AddSession (Some s) ?g)"
    using assms(7) by (simp add: fw_after_def run_append)
  have rem: "fw_remote (fw_after ops' remote) = remote" for ops'
    by (rule fw_remote_after)
  have teid: "fw_byLocalTEID f (s_LocalGTPUTEID s) = Some (clone s)"
    using assms(1-4) by (simp add: f fw_Add_alt fw_bind_def clone_def)
  obtain bs where bs: "EncodePacket (s_LocalGTPUTEID s) payload = Inr bs"
    using assms(2,6) by (auto simp: EncodePacket_def)
  have ctl: "DecodeControlPacket bs = Inl (UnsupportedType msgTypeGTPU)"
    using bs by (auto simp: EncodePacket_def DecodeControlPacket_def gtpu_consts put16_def put32_def split: if_splits)
  have "DecodePacket bs = Inr (s_LocalGTPUTEID s, payload)"
    using DecodePacket_Encode [OF assms(2) bs, of "[]"] by simp
  then have down: "receive bs (fst remote, port) f = Downlink (clone s) payload"
    using teid assms(7) rem by (simp add: receive_def handleControlPacket_def ctl Decapsulate_def Let_def)
  obtain up where up: "EncodePacket (s_RemoteGTPUTEID s) payload = Inr up"
    using assms(3,6) by (auto simp: EncodePacket_def)
  have "SendUplinkPacket False (Some (clone s)) payload f = Inr (up, (Some (x # xs), snd remote))"
    using assms(3,5,7) rem up
    by (simp add: SendUplinkPacket_def remoteForSession_def clone_def clone_ip_def)
  with DecodePacket_Encode [OF assms(3) up, of "[]"] bs down show ?thesis by auto
qed

definition sample_tunnel :: session where
  "sample_tunnel = zero_session\<lparr> s_ID := ''s'', s_LocalGTPUTEID := 7, s_RemoteGTPUTEID := 8,
     s_SubscriberIP := Some [10, 0, 0, 2], s_PGWUserIP := Some [192, 0, 2, 1] \<rparr>"

theorem gtpu_roundtrip_witness:
  "\<exists>bs. EncodePacket 7 [1, 2, 3] = Inr bs \<and> DecodePacket (bs @ [9]) = Inr (7, [1, 2, 3])"
  using gtpu_roundtrip [of 7 "[1, 2, 3]"] by auto

theorem bound_session_reachable_witness:
  "\<exists>bs. receive bs (Some [192, 0, 2, 1], 2152)
      (fw_after [FAdd (Some sample_tunnel)] (Some [192, 0, 2, 1], 2152)) = Downlink (clone sample_tunnel) [69]"
  using bound_session_reachable [where s = sample_tunnel and payload = "[69]" and ops = "[]" and port = 2152
      and remote = "(Some [192, 0, 2, 1], 2152)" and x = 192 and xs = "[0, 2, 1]", OF _ _ _ _ _ _ refl]
  by (auto simp: sample_tunnel_def)

theorem downlink_isolation_witness:
  "\<exists>bs e. Decapsulate bs (Some (Some [192, 0, 2, 1], 2152))
      (fw_RemoveSession ''s'' (fw_after [FAdd (Some sample_tunnel)] (Some [192, 0, 2, 1], 2152))) = Inl e"
proof -
  let ?f = "fw_after [FAdd (Some sample_tunnel)] (Some [192, 0, 2, 1], 2152)"
  obtain bs where bs: "EncodePacket 7 [69] = Inr bs" by (auto simp: EncodePacket_def)
  have "DecodePacket bs = Inr (7, [69])" using DecodePacket_Encode [OF _ bs, of "[]"] by simp
  then have "Decapsulate bs (Some (Some [192, 0, 2, 1], 2152)) ?f = Inr (clone sample_tunnel, [69])"
    by (simp add: Decapsulate_def fw_after_def fw_AddSession_def sample_tunnel_def newForwarder_def clone_def
        clone_ip_def Let_def zero_session_def)
  from downlink_isolation [OF refl this] show ?thesis by (auto simp: sample_tunnel_def clone_def)
qed

end
