(* ===== verification/DiamMsg.thy ===== *)
theory DiamMsg
  imports Wire
begin

text \<open>
  Diameter messages and AVPs (\<open>internal/diameter/message.go\<close>). A reader is the list of bytes the
  peer has sent and will send; running out of it is the error of \<open>io.ReadFull\<close>.
\<close>

unbundle bit_operations_syntax

definition flagRequest :: byte where "flagRequest = 0x80"
definition flagProxiable :: byte where "flagProxiable = 0x40"
definition flagVendorAVP :: byte where "flagVendorAVP = 0x80"
definition flagMandatory :: byte where "flagMandatory = 0x40"
definition diameterVer :: byte where "diameterVer = 1"

definition commandCER :: u32 where "commandCER = 257"
definition commandASR :: u32 where "commandASR = 274"
definition commandSTR :: u32 where "commandSTR = 275"
definition commandDER :: u32 where "commandDER = 268"
definition commandDWR :: u32 where "commandDWR = 280"
definition commandDPR :: u32 where "commandDPR = 282"
definition commandRTR :: u32 where "commandRTR = 304"
definition commandPPR :: u32 where "commandPPR = 305"

definition avpUserName :: u32 where "avpUserName = 1"
definition avpAuthApplicationID :: u32 where "avpAuthApplicationID = 258"
definition avpVendorSpecificApplicationID :: u32 where "avpVendorSpecificApplicationID = 260"
definition avpSessionID :: u32 where "avpSessionID = 263"
definition avpOriginHost :: u32 where "avpOriginHost = 264"
definition avpVendorID :: u32 where "avpVendorID = 266"
definition avpResultCode :: u32 where "avpResultCode = 268"
definition avpAuthRequestType :: u32 where "avpAuthRequestType = 274"
definition avpAuthSessionState :: u32 where "avpAuthSessionState = 277"
definition avpDestinationRealm :: u32 where "avpDestinationRealm = 283"
definition avpDestinationHost :: u32 where "avpDestinationHost = 293"
definition avpOriginRealm :: u32 where "avpOriginRealm = 296"
definition avpExperimentalResult :: u32 where "avpExperimentalResult = 297"
definition avpExperimentalResultCode :: u32 where "avpExperimentalResultCode = 298"
definition avpEAPPayload :: u32 where "avpEAPPayload = 462"
definition avpEAPMasterSessionKey :: u32 where "avpEAPMasterSessionKey = 464"
definition avpServiceSelection :: u32 where "avpServiceSelection = 493"
definition vendor3GPP :: u32 where "vendor3GPP = 10415"

record avp =
  v_Code :: u32
  v_VendorID :: u32
  v_Flags :: byte
  v_Data :: bytes

record message =
  d_Flags :: byte
  d_CommandCode :: u32
  d_AppID :: u32
  d_HopByHop :: u32
  d_EndToEnd :: u32
  d_AVPs :: "avp list"

datatype diam_err =
    ReadFailed
  | BadVersion byte
  | TooShort nat
  | AVPHeaderTruncated
  | VendorHeaderTruncated
  | AVPLengthInvalid
  | AVPPaddingTruncated

definition isRequest :: "message \<Rightarrow> bool" where
  "isRequest m \<longleftrightarrow> d_Flags m AND flagRequest \<noteq> 0"

definition pad4 :: "nat \<Rightarrow> nat" where
  "pad4 n = (if n mod 4 \<noteq> 0 then n + 4 - n mod 4 else n)"

definition encode_avp :: "avp \<Rightarrow> bytes" where
  "encode_avp a =
     (let flags = (if v_VendorID a \<noteq> 0 then v_Flags a OR flagVendorAVP else v_Flags a);
          headerSize = (if v_VendorID a \<noteq> 0 then 12 else 8);
          len = headerSize + length (v_Data a)
      in put32 (v_Code a) @ [flags] @ put24 (word_of_nat len)
         @ (if v_VendorID a \<noteq> 0 then put32 (v_VendorID a) else [])
         @ v_Data a @ replicate (pad4 len - len) 0)"

definition encode_message :: "message \<Rightarrow> bytes" where
  "encode_message m =
     (let payload = concat (map encode_avp (d_AVPs m)); totalLen = 20 + length payload
      in [diameterVer] @ put24 (word_of_nat totalLen) @ [d_Flags m] @ put24 (d_CommandCode m)
         @ put32 (d_AppID m) @ put32 (d_HopByHop m) @ put32 (d_EndToEnd m) @ payload)"

definition decode_avp :: "bytes \<Rightarrow> diam_err + (avp \<times> bytes)" where
  \<comment> \<open>one turn of the loop of \<open>decodeAVPs\<close>\<close>
  "decode_avp data =
     (if length data < 8 then Inl AVPHeaderTruncated
      else let code = be32 (data ! 0) (data ! 1) (data ! 2) (data ! 3); flags = data ! 4;
               len = unat (read24 (data ! 5) (data ! 6) (data ! 7));
               vendor = (flags AND flagVendorAVP \<noteq> 0);
               headerSize = (if vendor then 12 else 8)
           in if vendor \<and> length data < 12 then Inl VendorHeaderTruncated
              else if len < headerSize \<or> length data < len then Inl AVPLengthInvalid
              else if length data < pad4 len then Inl AVPPaddingTruncated
              else Inr (\<lparr> v_Code = code,
                  v_VendorID = (if vendor then be32 (data ! 8) (data ! 9) (data ! 10) (data ! 11) else 0),
                  v_Flags = flags, v_Data = slice data headerSize len \<rparr>, drop (pad4 len) data))"

lemma pad4_ge: "n \<le> pad4 n"
  using mod_less_divisor [of 4 n] by (simp add: pad4_def) linarith

lemma decode_avp_shrinks:
  assumes "decode_avp bs = Inr (a, rest)" shows "length rest < length bs"
proof -
  obtain len where "rest = drop (pad4 len) bs" "8 \<le> len" "pad4 len \<le> length bs"
    using assms by (auto simp: decode_avp_def Let_def not_less split: if_splits)
  with pad4_ge [of len] show ?thesis by simp
qed

function decodeAVPs :: "bytes \<Rightarrow> diam_err + avp list" where
  "decodeAVPs data =
     (if data = [] then Inr []
      else case decode_avp data of Inl e \<Rightarrow> Inl e
        | Inr (a, rest) \<Rightarrow> (case decodeAVPs rest of Inl e \<Rightarrow> Inl e | Inr as \<Rightarrow> Inr (a # as)))"
  by pat_completeness auto

termination
  by (relation "measure length") (auto dest: decode_avp_shrinks)

declare decodeAVPs.simps [simp del]

definition decodeMessage :: "bytes \<Rightarrow> diam_err + (message \<times> bytes)" where
  "decodeMessage r =
     (if length r < 4 then Inl ReadFailed
      else if r ! 0 \<noteq> diameterVer then Inl (BadVersion (r ! 0))
      else let len = unat (read24 (r ! 1) (r ! 2) (r ! 3)) in
        if len < 20 then Inl (TooShort len)
        else if length r < len then Inl ReadFailed
        else let full = take len r in
          (case decodeAVPs (drop 20 full) of Inl e \<Rightarrow> Inl e
           | Inr avps \<Rightarrow> Inr (\<lparr> d_Flags = full ! 4, d_CommandCode = read24 (full ! 5) (full ! 6) (full ! 7),
               d_AppID = be32 (full ! 8) (full ! 9) (full ! 10) (full ! 11),
               d_HopByHop = be32 (full ! 12) (full ! 13) (full ! 14) (full ! 15),
               d_EndToEnd = be32 (full ! 16) (full ! 17) (full ! 18) (full ! 19), d_AVPs = avps \<rparr>,
               drop len r)))"

section \<open>AVPs\<close>

definition utf8AVPFlags :: "u32 \<Rightarrow> u32 \<Rightarrow> byte \<Rightarrow> string \<Rightarrow> avp" where
  "utf8AVPFlags code vendor flags value =
     \<lparr> v_Code = code, v_VendorID = vendor, v_Flags = flags, v_Data = bytes_of value \<rparr>"

definition utf8AVP :: "u32 \<Rightarrow> u32 \<Rightarrow> string \<Rightarrow> avp" where
  "utf8AVP code vendor value = utf8AVPFlags code vendor flagMandatory value"

definition uint32AVPFlags :: "u32 \<Rightarrow> u32 \<Rightarrow> byte \<Rightarrow> u32 \<Rightarrow> avp" where
  "uint32AVPFlags code vendor flags value =
     \<lparr> v_Code = code, v_VendorID = vendor, v_Flags = flags, v_Data = put32 value \<rparr>"

definition uint32AVP :: "u32 \<Rightarrow> u32 \<Rightarrow> u32 \<Rightarrow> avp" where
  "uint32AVP code vendor value = uint32AVPFlags code vendor flagMandatory value"

definition groupedAVP :: "u32 \<Rightarrow> u32 \<Rightarrow> avp list \<Rightarrow> avp" where
  "groupedAVP code vendor children = \<lparr> v_Code = code, v_VendorID = vendor, v_Flags = flagMandatory,
     v_Data = concat (map encode_avp children) \<rparr>"

definition addressAVP :: "u32 \<Rightarrow> byte \<Rightarrow> byte \<Rightarrow> byte \<Rightarrow> byte \<Rightarrow> avp" where
  "addressAVP code a b c d = \<lparr> v_Code = code, v_VendorID = 0, v_Flags = flagMandatory,
     v_Data = [0, 1, a, b, c, d] \<rparr>"

definition findAVP :: "avp list \<Rightarrow> u32 \<Rightarrow> u32 \<Rightarrow> avp option" where
  "findAVP avps code vendor = find (\<lambda>a. v_Code a = code \<and> v_VendorID a = vendor) avps"

definition avpString :: "avp list \<Rightarrow> u32 \<Rightarrow> u32 \<Rightarrow> string" where
  "avpString avps code vendor = (case findAVP avps code vendor of None \<Rightarrow> [] | Some a \<Rightarrow> string_of (v_Data a))"

definition avpUint32 :: "avp list \<Rightarrow> u32 \<Rightarrow> u32 \<Rightarrow> u32 option" where
  "avpUint32 avps code vendor = (case findAVP avps code vendor of None \<Rightarrow> None
     | Some a \<Rightarrow> (case v_Data a of w # x # y # z # _ \<Rightarrow> Some (be32 w x y z) | _ \<Rightarrow> None))"

definition experimentalResultCode :: "avp list \<Rightarrow> u32 option" where
  "experimentalResultCode avps = (case findAVP avps avpExperimentalResult 0 of None \<Rightarrow> None
     | Some a \<Rightarrow> (case decodeAVPs (v_Data a) of Inl _ \<Rightarrow> None
                  | Inr children \<Rightarrow> avpUint32 children avpExperimentalResultCode 0))"

section \<open>The stream of AVPs\<close>

definition avp_ok :: "avp \<Rightarrow> bool" where
  \<comment> \<open>the vendor flag tells whether there is a vendor, and the 24-bit length can count the AVP\<close>
  "avp_ok a \<longleftrightarrow> (v_Flags a AND flagVendorAVP \<noteq> 0 \<longleftrightarrow> v_VendorID a \<noteq> 0) \<and> 12 + length (v_Data a) < 2 ^ 24"

definition wire_form :: "avp \<Rightarrow> avp" where
  \<comment> \<open>what a peer sees: \<open>encode\<close> sets the vendor flag\<close>
  "wire_form a = (if v_VendorID a \<noteq> 0 then a\<lparr> v_Flags := v_Flags a OR flagVendorAVP \<rparr> else a)"

lemma length_encode_avp:
  "length (encode_avp a) = pad4 ((if v_VendorID a \<noteq> 0 then 12 else 8) + length (v_Data a))"
  using pad4_ge [of "12 + length (v_Data a)"] pad4_ge [of "8 + length (v_Data a)"]
  by (auto simp: encode_avp_def Let_def)

lemma vendor_flag: "x AND flagVendorAVP = 0 \<longleftrightarrow> \<not> bit x 7" "bit x 7 \<Longrightarrow> x OR flagVendorAVP = x"
proof -
  have f: "flagVendorAVP = 2 ^ 7" by (simp add: flagVendorAVP_def)
  show "x AND flagVendorAVP = 0 \<longleftrightarrow> \<not> bit x 7" by (simp only: f and_exp_eq_0_iff_not_bit)
  show "bit x 7 \<Longrightarrow> x OR flagVendorAVP = x"
    unfolding f by (rule bit_word_eqI) (auto simp only: bit_or_iff bit_exp_iff)
qed

lemma unat_read24_put24:
  assumes "n < 2 ^ 24"
  shows "unat (read24 (ucast (drop_bit 16 (word_of_nat n :: u32))) (ucast (drop_bit 8 (word_of_nat n :: u32)))
    (ucast (word_of_nat n :: u32))) = n"
proof -
  have "unat (word_of_nat n :: u32) = n" using assms by (simp add: unsigned_of_nat take_bit_nat_eq_self)
  moreover then have "(word_of_nat n :: u32) < 2 ^ 24" using assms by (simp add: word_less_nat_alt)
  ultimately show ?thesis by (simp add: read24_put24)
qed

lemma decode_avp_encode:
  assumes "avp_ok a" shows "decode_avp (encode_avp a @ rest) = Inr (a, rest)"
proof -
  define h where "h = (if v_VendorID a \<noteq> 0 then 12 else 8 :: nat)"
  define len where "len = h + length (v_Data a)"
  define pad where "pad = replicate (pad4 len - len) (0 :: byte)"
  have flags: "v_Flags a OR flagVendorAVP = v_Flags a" if "v_VendorID a \<noteq> 0"
    using assms that vendor_flag by (auto simp: avp_ok_def)
  have len24: "len < 2 ^ 24" using assms by (simp add: avp_ok_def len_def h_def)
  have enc: "encode_avp a = put32 (v_Code a) @ [v_Flags a] @ put24 (word_of_nat len)
      @ (if v_VendorID a \<noteq> 0 then put32 (v_VendorID a) else []) @ v_Data a @ pad"
    using flags by (simp add: encode_avp_def len_def h_def pad_def Let_def)
  let ?bs = "encode_avp a @ rest"
  have le: "len \<le> pad4 len" by (rule pad4_ge)
  have L: "length (encode_avp a) = pad4 len" by (simp add: length_encode_avp len_def h_def)
  have n: "?bs ! 4 = v_Flags a" "be32 (?bs ! 0) (?bs ! 1) (?bs ! 2) (?bs ! 3) = v_Code a"
    "unat (read24 (?bs ! 5) (?bs ! 6) (?bs ! 7)) = len"
    by (simp_all add: enc put32_def put24_def unat_read24_put24 [OF len24])
  have vn: "be32 (?bs ! 8) (?bs ! 9) (?bs ! 10) (?bs ! 11) = v_VendorID a" if "v_VendorID a \<noteq> 0"
    using that by (simp add: enc put32_def put24_def)
  have sl: "slice ?bs h len = v_Data a"
    by (simp add: slice_def enc len_def h_def put32_def put24_def)
  have fl: "v_Flags a AND flagVendorAVP \<noteq> 0 \<longleftrightarrow> v_VendorID a \<noteq> 0" using assms by (simp add: avp_ok_def)
  have hl: "h = (if v_VendorID a \<noteq> 0 then 12 else 8)" "h \<le> len" "8 \<le> len" "h = 12 \<longrightarrow> 12 \<le> len"
    by (auto simp: h_def len_def)
  show ?thesis
    using le L hl sl vn
    by (cases "v_VendorID a = 0") (simp_all add: decode_avp_def n [simplified] n fl Let_def)
qed

interpretation diam_avps: item_stream encode_avp decode_avp decodeAVPs avp_ok
proof
  fix a rest assume "avp_ok a"
  then show "decode_avp (encode_avp a @ rest) = Inr (a, rest)" by (rule decode_avp_encode)
next
  fix a :: avp show "encode_avp a \<noteq> []" by (simp add: encode_avp_def put32_def Let_def)
next
  fix bs :: bytes assume "bs \<noteq> []"
  then show "decodeAVPs bs = (case decode_avp bs of Inl e \<Rightarrow> Inl e
       | Inr (x, rest) \<Rightarrow> (case decodeAVPs rest of Inl e \<Rightarrow> Inl e | Inr xs \<Rightarrow> Inr (x # xs)))"
    by (subst decodeAVPs.simps) simp
qed (auto simp: decode_avp_shrinks decodeAVPs.simps)

section \<open>Messages\<close>

definition sendable :: "avp \<Rightarrow> bool" where
  "sendable a \<longleftrightarrow> (v_VendorID a = 0 \<longrightarrow> v_Flags a AND flagVendorAVP = 0) \<and> 12 + length (v_Data a) < 2 ^ 24"

definition message_ok :: "message \<Rightarrow> bool" where
  "message_ok m \<longleftrightarrow> d_CommandCode m < 2 ^ 24 \<and> list_all sendable (d_AVPs m)
     \<and> 20 + length (concat (map encode_avp (d_AVPs m))) < 2 ^ 24"

lemma encode_wire_form [simp]: "encode_avp (wire_form a) = encode_avp a"
  by (simp add: encode_avp_def wire_form_def or.assoc)

lemma wire_form_ok: "sendable a \<Longrightarrow> avp_ok (wire_form a)"
proof -
  have "bit (x OR flagVendorAVP) 7" for x :: byte
    by (simp add: bit_or_iff flagVendorAVP_def)
  then show "sendable a \<Longrightarrow> avp_ok (wire_form a)"
    by (auto simp: sendable_def avp_ok_def wire_form_def vendor_flag(1))
qed

lemma decode_sendable:
  assumes "list_all sendable as"
  shows "decodeAVPs (concat (map encode_avp as)) = Inr (map wire_form as)"
proof -
  have "list_all avp_ok (map wire_form as)" using assms wire_form_ok by (auto simp: list_all_iff)
  from diam_avps.decode_encode [OF this] show ?thesis by (simp add: comp_def)
qed

lemma decode_encode_message:
  assumes "message_ok m"
  shows "decodeMessage (encode_message m @ rest) = Inr (m\<lparr> d_AVPs := map wire_form (d_AVPs m) \<rparr>, rest)"
proof -
  define payload where "payload = concat (map encode_avp (d_AVPs m))"
  define len where "len = 20 + length payload"
  have len: "len < 2 ^ 24" and cc: "d_CommandCode m < 2 ^ 24" and av: "list_all sendable (d_AVPs m)"
    using assms by (simp_all add: message_ok_def payload_def len_def)
  let ?bs = "encode_message m @ rest"
  have enc: "encode_message m = [diameterVer] @ put24 (word_of_nat len) @ [d_Flags m] @ put24 (d_CommandCode m)
         @ put32 (d_AppID m) @ put32 (d_HopByHop m) @ put32 (d_EndToEnd m) @ payload"
    by (simp add: encode_message_def payload_def len_def Let_def)
  have L: "length (encode_message m) = len" by (simp add: enc len_def)
  have n: "?bs ! 0 = diameterVer" "unat (read24 (?bs ! 1) (?bs ! 2) (?bs ! 3)) = len"
    by (simp_all add: enc put24_def unat_read24_put24 [OF len])
  have t: "take len ?bs = encode_message m" "drop len ?bs = rest" by (simp_all add: L)
  have p: "drop 20 (encode_message m) = payload" by (simp add: enc put24_def put32_def)
  have d: "decodeAVPs payload = Inr (map wire_form (d_AVPs m))"
    unfolding payload_def by (rule decode_sendable [OF av])
  have l: "\<not> length ?bs < 4" "\<not> len < 20" "\<not> length ?bs < len" using L by (auto simp: len_def)
  show ?thesis
    unfolding decodeMessage_def Let_def n t p d using l
    by (simp add: n [simplified] d) (simp add: enc put24_def put32_def read24_put24 [OF cc])
qed

interpretation diam_msg: packet_codec "\<lambda>m. Inr (encode_message m) :: unit + bytes"
  "\<lambda>bs. map_sum id fst (decodeMessage bs)" "\<lambda>m. message_ok m \<and> list_all avp_ok (d_AVPs m)"
proof
  fix m bs assume m: "message_ok m \<and> list_all avp_ok (d_AVPs m)" and "(Inr (encode_message m) :: unit + bytes) = Inr bs"
  have "map wire_form (d_AVPs m) = d_AVPs m"
  proof (rule map_idI)
    fix a assume "a \<in> set (d_AVPs m)"
    with m have "avp_ok a" by (auto simp: list_all_iff)
    then show "wire_form a = a" by (auto simp: wire_form_def avp_ok_def vendor_flag)
  qed
  with decode_encode_message [of m "[]"] m \<open>Inr (encode_message m) = Inr bs\<close>
  show "map_sum id fst (decodeMessage bs) = Inr m" by auto
qed simp

section \<open>Properties\<close>

text \<open>C36. A Diameter message reaches the peer as it was built: reading the encoding from a stream
  that goes on yields the message and leaves exactly what follows; the only change is that
  AVPs with a vendor have the vendor flag, and with the flags already right nothing changes.\<close>

theorem diameter_roundtrip:
  assumes "message_ok m"
  shows "decodeMessage (encode_message m @ rest) = Inr (m\<lparr> d_AVPs := map wire_form (d_AVPs m) \<rparr>, rest)
    \<and> (list_all avp_ok (d_AVPs m) \<longrightarrow> map_sum id fst (decodeMessage (encode_message m)) = Inr m)"
  using decode_encode_message [OF assms] diam_msg.dec_enc assms by blast

text \<open>Grouped AVPs nest: the children of a grouped AVP come out in order, so an
  Experimental-Result with its code is recognised wherever it stands among the AVPs, as long
  as no other Experimental-Result precedes it.\<close>

theorem experimental_result_found:
  assumes "\<forall>a \<in> set pre. v_Code a \<noteq> avpExperimentalResult"
    "\<forall>a \<in> set kids. v_Code a \<noteq> avpExperimentalResultCode" "list_all sendable kids" "list_all sendable later"
  shows "experimentalResultCode (pre @ groupedAVP avpExperimentalResult 0
     (kids @ uint32AVP avpExperimentalResultCode 0 code # later) # rest) = Some code"
proof -
  let ?g = "groupedAVP avpExperimentalResult 0 (kids @ uint32AVP avpExperimentalResultCode 0 code # later)"
  have f: "findAVP (pre @ ?g # rest) avpExperimentalResult 0 = Some ?g"
    using assms(1) by (induction pre) (auto simp: findAVP_def groupedAVP_def)
  have u: "sendable (uint32AVP avpExperimentalResultCode 0 code)"
    by (simp add: sendable_def uint32AVP_def uint32AVPFlags_def flagMandatory_def flagVendorAVP_def)
  have d: "decodeAVPs (v_Data ?g) = Inr (map wire_form (kids @ uint32AVP avpExperimentalResultCode 0 code # later))"
    using decode_sendable [of "kids @ uint32AVP avpExperimentalResultCode 0 code # later"] u assms(3,4)
    by (simp add: groupedAVP_def)
  have "findAVP (map wire_form kids @ wire_form (uint32AVP avpExperimentalResultCode 0 code) # xs)
      avpExperimentalResultCode 0 = Some (uint32AVP avpExperimentalResultCode 0 code)" for xs
    using assms(2)
    by (induction kids) (auto simp: findAVP_def wire_form_def uint32AVP_def uint32AVPFlags_def)
  then have "findAVP (map wire_form (kids @ uint32AVP avpExperimentalResultCode 0 code # later))
      avpExperimentalResultCode 0 = Some (uint32AVP avpExperimentalResultCode 0 code)" by simp
  moreover have "v_Data (uint32AVP avpExperimentalResultCode 0 code) = put32 code"
    by (simp add: uint32AVP_def uint32AVPFlags_def)
  ultimately show ?thesis
    unfolding experimentalResultCode_def f option.case d sum.case avpUint32_def
    by (simp only: option.case) (simp add: put32_def)
qed

definition sample_der :: message where
  "sample_der = \<lparr> d_Flags = flagRequest OR flagProxiable, d_CommandCode = commandDER, d_AppID = 16777250,
     d_HopByHop = 1, d_EndToEnd = 2,
     d_AVPs = [utf8AVP avpSessionID 0 ''s;1'', uint32AVP avpVendorID vendor3GPP 5] \<rparr>"

theorem diameter_roundtrip_witness:
  "decodeMessage (encode_message sample_der @ [9]) = Inr (sample_der\<lparr> d_AVPs := map wire_form (d_AVPs sample_der) \<rparr>, [9])"
  using diameter_roundtrip [of sample_der "[9]"]
  by (simp add: message_ok_def sample_der_def sendable_def utf8AVP_def utf8AVPFlags_def uint32AVP_def
      uint32AVPFlags_def commandDER_def vendor3GPP_def flagMandatory_def flagVendorAVP_def length_encode_avp pad4_def)

theorem experimental_result_found_witness:
  "experimentalResultCode [utf8AVP avpUserName 0 ''u'',
     groupedAVP avpExperimentalResult 0 [uint32AVP avpVendorID 0 vendor3GPP, uint32AVP avpExperimentalResultCode 0 5004]]
   = Some 5004"
  using experimental_result_found [of "[utf8AVP avpUserName 0 ''u'']" "[uint32AVP avpVendorID 0 vendor3GPP]" "[]" 5004 "[]"]
  by (simp add: utf8AVP_def utf8AVPFlags_def uint32AVP_def uint32AVPFlags_def sendable_def flagMandatory_def
      flagVendorAVP_def avpUserName_def avpExperimentalResult_def avpVendorID_def avpExperimentalResultCode_def)

end
