(* ===== verification/Ipam.thy ===== *)
theory Ipam
  imports Net Machine "HOL-Library.List_Lexorder" "HOL-Library.Char_ord"
begin

text \<open>
  The in-memory address pool (\<open>internal/ipam/ipam.go\<close>). Addresses are the byte slices of package
  net; the loops that walk the pool stop when an address leaves it, which a pool of prefix
  length 0 never does, so they are partial functions whose \<open>None\<close> is not returning. For every
  pool with a prefix of 1 to 32 bits they are shown to return and to be a search through the
  host addresses in order.
\<close>

unbundle bit_operations_syntax

section \<open>The code\<close>

datatype ipam_err = IdRequired | PoolExhausted | BadPool | GatewayNotIPv4 | GatewayOutside | NoUsable

record ipam =
  ip_pool :: ipnet
  ip_gateway :: ip
  ip_total :: nat
  ip_leases :: "string \<rightharpoonup> ip"
  ip_assigned :: "string \<rightharpoonup> string"

fun inc_rev :: "bytes \<Rightarrow> bytes" where
  "inc_rev [] = []"
| "inc_rev (b # bs) = (if b + 1 \<noteq> 0 then (b + 1) # bs else 0 # inc_rev bs)"

definition incIPv4 :: "ip \<Rightarrow> ip" where
  "incIPv4 = map_option (\<lambda>b. rev (inc_rev (rev b)))"

definition firstUsable :: "ipnet \<Rightarrow> ip" where
  "firstUsable pool = incIPv4 (clone_ip (to4 (Some (net_ip pool))))"

definition isBroadcast :: "ipnet \<Rightarrow> ip \<Rightarrow> bool" where
  "isBroadcast pool ip = (case (to4 ip, to4 (Some (net_ip pool))) of
     (Some q, Some p) \<Rightarrow> ip_equal (Some q) (Some (map (\<lambda>i. p ! i OR NOT (net_mask pool ! i)) [0..<4]))
   | _ \<Rightarrow> False)"

definition skipped :: "ipnet \<Rightarrow> ip \<Rightarrow> ip \<Rightarrow> bool" where
  "skipped pool gateway ip \<longleftrightarrow> ip_equal ip gateway \<or> isBroadcast pool ip"

partial_function (option) alloc_loop :: "ipnet \<Rightarrow> ip \<Rightarrow> (string \<Rightarrow> bool) \<Rightarrow> ip \<Rightarrow> ip option option" where
  \<comment> \<open>the loop of \<open>Allocate\<close>: \<open>Some None\<close> when the pool is exhausted\<close>
  "alloc_loop pool gateway taken ip =
     (if \<not> ipnet_contains pool ip then Some None
      else if skipped pool gateway ip then alloc_loop pool gateway taken (incIPv4 ip)
      else if taken (ip_string ip) then alloc_loop pool gateway taken (incIPv4 ip)
      else Some (Some ip))"

partial_function (option) count_loop :: "ipnet \<Rightarrow> ip \<Rightarrow> nat \<Rightarrow> ip \<Rightarrow> nat option" where
  "count_loop pool gateway count ip =
     (if ip = None \<or> \<not> ipnet_contains pool ip then Some count
      else if skipped pool gateway ip then count_loop pool gateway count (incIPv4 ip)
      else count_loop pool gateway (count + 1) (incIPv4 ip))"

definition usableCount :: "ipnet \<Rightarrow> ip \<Rightarrow> nat option" where
  "usableCount pool gateway = count_loop pool gateway 0 (firstUsable pool)"

definition NewMemory :: "string \<Rightarrow> string \<Rightarrow> (ipam_err + ipam) option" where
  \<comment> \<open>\<open>None\<close>: does not return\<close>
  "NewMemory cidr gw = (case parse_cidr cidr of None \<Rightarrow> Some (Inl BadPool)
     | Some pool \<Rightarrow> (case to4 (parse_ip gw) of None \<Rightarrow> Some (Inl GatewayNotIPv4)
        | Some g \<Rightarrow> if \<not> ipnet_contains pool (Some g) then Some (Inl GatewayOutside)
            else (case usableCount pool (Some g) of None \<Rightarrow> None
              | Some n \<Rightarrow> if n = 0 then Some (Inl NoUsable)
                  else Some (Inr \<lparr> ip_pool = pool, ip_gateway = Some g, ip_total = n,
                    ip_leases = Map.empty, ip_assigned = Map.empty \<rparr>))))"

definition Allocate :: "string \<Rightarrow> ipam \<Rightarrow> ((ipam_err + ip) \<times> ipam) option" where
  "Allocate sid m =
     (if sid = [] then Some (Inl IdRequired, m)
      else case ip_leases m sid of Some a \<Rightarrow> Some (Inr (clone_ip a), m)
        | None \<Rightarrow> (case alloc_loop (ip_pool m) (ip_gateway m) (\<lambda>k. ip_assigned m k \<noteq> None)
                          (firstUsable (ip_pool m)) of
             None \<Rightarrow> None
           | Some None \<Rightarrow> Some (Inl PoolExhausted, m)
           | Some (Some a) \<Rightarrow> let lease = clone_ip a in
               Some (Inr (clone_ip lease), m\<lparr> ip_leases := (ip_leases m)(sid \<mapsto> lease),
                  ip_assigned := (ip_assigned m)(ip_string a \<mapsto> sid) \<rparr>)))"

definition Release :: "string \<Rightarrow> ipam \<Rightarrow> (ipam_err + unit) \<times> ipam" where
  "Release sid m =
     (if sid = [] then (Inl IdRequired, m)
      else case ip_leases m sid of None \<Rightarrow> (Inr (), m)
        | Some a \<Rightarrow> (Inr (), m\<lparr> ip_leases := (ip_leases m)(sid := None),
            ip_assigned := (ip_assigned m)(ip_string a := None) \<rparr>))"

definition Lookup :: "string \<Rightarrow> ipam \<Rightarrow> ip option" where
  "Lookup sid m = (if sid = [] then None else map_option clone_ip (ip_leases m sid))"

definition Gateway :: "ipam \<Rightarrow> ip" where
  "Gateway m = clone_ip (ip_gateway m)"

record ipam_status =
  is_TotalUsable :: nat
  is_Used :: nat
  is_Free :: int
  is_Leases :: "(string \<times> ip) list"

definition Status :: "string list \<Rightarrow> ipam \<Rightarrow> ipam_status" where
  \<comment> \<open>\<open>ord\<close>: the keys of \<open>leases\<close> in the order the loop meets them\<close>
  "Status ord m = \<lparr> is_TotalUsable = ip_total m, is_Used = length ord,
     is_Free = int (ip_total m) - int (length ord),
     is_Leases = sort_key fst (List.map_filter (\<lambda>i. map_option (\<lambda>a. (i, clone_ip a)) (ip_leases m i)) ord) \<rparr>"

section \<open>Addresses as numbers\<close>

definition addr :: "u32 \<Rightarrow> ip" where
  "addr w = Some (put32 w)"

lemma push_or_nat:
  fixes x y :: nat
  assumes "x < 2 ^ n" shows "push_bit n y OR x = 2 ^ n * y + x"
proof -
  have "\<not> bit x m" if "n \<le> m" for m
    using assms that by (metis bit_take_bit_iff not_le take_bit_nat_eq_self)
  then have "push_bit n y AND x = 0"
    by (intro bit_eqI) (auto simp: bit_simps)
  then show ?thesis by (simp add: disjunctive_add_eq_or [symmetric] push_bit_eq_mult mult.commute)
qed

lemma unat_be32:
  "unat (be32 a b c d) = unat a * 16777216 + unat b * 65536 + unat c * 256 + unat d"
proof -
  have u: "unat (push_bit n (ucast x :: u32)) = push_bit n (unat x)" if "n \<le> 24" for n and x :: byte
  proof -
    have "push_bit n (unat x) < 2 ^ 32"
    proof -
      have "unat x * 2 ^ n < 2 ^ 8 * 2 ^ n" by simp
      also have "\<dots> \<le> 2 ^ 8 * 2 ^ 24" using that by (intro mult_left_mono power_increasing) auto
      finally show ?thesis by (simp add: push_bit_eq_mult)
    qed
    moreover have "take_bit 32 (unat x) = unat x"
      using unat_byte_le [of x] by (intro take_bit_nat_eq_self) simp
    ultimately show ?thesis
      by (simp add: unsigned_push_bit_eq unsigned_ucast_eq take_bit_nat_eq_self)
  qed
  have lt: "unat c * 256 + unat d < 2 ^ 16" "unat b * 65536 + (unat c * 256 + unat d) < 2 ^ 24"
    using unat_byte_le [of b] unat_byte_le [of c] unat_byte_le [of d] by simp_all
  have "unat (be32 a b c d) = push_bit 24 (unat a) OR (push_bit 16 (unat b) OR (push_bit 8 (unat c) OR unat d))"
    using u [of 24 a] u [of 16 b] u [of 8 c] u [of 0 d]
    by (simp add: be32_def unsigned_or_eq or.assoc)
  also have "\<dots> = unat a * 16777216 + (unat b * 65536 + (unat c * 256 + unat d))"
    using lt by (simp add: push_or_nat [of _ 8] push_or_nat [of _ 16] push_or_nat [of _ 24] mult.commute)
  finally show ?thesis by simp
qed

lemma be32_cases: obtains a b c d where "w = be32 a b c d" "put32 w = [a, b, c, d]"
  by (metis be32_put32 put32_be32)

lemma byte_inc: "unat ((x :: byte) + 1) = (unat x + 1) mod 256" "x + 1 = 0 \<longleftrightarrow> unat x = 255"
proof -
  show u: "unat (x + 1) = (unat x + 1) mod 256" by (simp add: unat_word_ariths)
  have "x + 1 = 0 \<longleftrightarrow> unat (x + 1) = 0" by (simp add: word_unat_eq_iff)
  with u unat_byte_le [of x] show "x + 1 = 0 \<longleftrightarrow> unat x = 255" by (simp add: mod_Suc split: if_splits)
qed

lemma inc_addr: "incIPv4 (addr w) = addr (w + 1)"
proof -
  obtain a b c d where w: "w = be32 a b c d" by (metis be32_put32)
  have one: "put32 (w + 1) = [p, q, r, s]"
    if "unat (be32 p q r s) = (unat (be32 a b c d) + 1) mod 2 ^ 32" for p q r s
  proof -
    have "be32 p q r s = w + 1" using that by (simp add: w word_unat_eq_iff unat_word_ariths)
    then show ?thesis by (metis put32_be32)
  qed
  note lt = unat_byte_le [of a] unat_byte_le [of b] unat_byte_le [of c] unat_byte_le [of d]
  have "rev (inc_rev [d, c, b, a]) = put32 (w + 1)"
  proof (cases "unat d = 255")
    case False
    with lt show ?thesis
      by (simp add: byte_inc(2)) (rule one [symmetric], simp add: unat_be32 byte_inc(1))
  next
    case d: True
    show ?thesis
    proof (cases "unat c = 255")
      case False
      with d lt show ?thesis
        by (simp add: byte_inc(2)) (rule one [symmetric], simp add: unat_be32 byte_inc(1))
    next
      case c: True
      show ?thesis
      proof (cases "unat b = 255")
        case False
        with c d lt show ?thesis
          by (simp add: byte_inc(2)) (rule one [symmetric], simp add: unat_be32 byte_inc(1))
      next
        case b: True
        show ?thesis
        proof (cases "unat a = 255")
          case False
          with b c d lt show ?thesis
            by (simp add: byte_inc(2)) (rule one [symmetric], simp add: unat_be32 byte_inc(1))
        next
          case True
          with b c d show ?thesis
            by (simp add: byte_inc(2)) (rule one [symmetric], simp add: unat_be32)
        qed
      qed
    qed
  qed
  then show ?thesis by (simp add: incIPv4_def addr_def w)
qed

section \<open>Pools as ranges\<close>

definition pool_of :: "u32 \<Rightarrow> nat \<Rightarrow> ipnet" where
  \<comment> \<open>the pool of \<open>2 ^ k\<close> addresses around \<open>b\<close>\<close>
  "pool_of b k = \<lparr> net_ip = put32 (b AND NOT (mask k)), net_mask = put32 (NOT (mask k)) \<rparr>"

lemma put32_inject [simp]: "put32 x = put32 y \<longleftrightarrow> x = y"
proof
  have rd: "be32 (put32 w ! 0) (put32 w ! 1) (put32 w ! 2) (put32 w ! 3) = w" for w
    by (simp add: put32_def)
  assume "put32 x = put32 y"
  then show "x = y" using rd [of x] rd [of y] by simp
qed simp

lemma put32_and: "map2 (AND) (put32 x) (put32 y) = put32 (x AND y)"
  by (auto simp: put32_def intro!: bit_word_eqI simp: bit_simps)

lemma put32_or_not: "map (\<lambda>i. put32 x ! i OR NOT (put32 y ! i)) [0..<4] = put32 (x OR NOT y)"
proof -
  have "[0..<4] = [0, 1, 2, 3 :: nat]" by (simp add: upt_rec)
  then show ?thesis by (auto simp: put32_def intro!: bit_word_eqI simp: bit_simps)
qed

lemma to4_put32 [simp]: "to4 (Some (put32 w)) = Some (put32 w)"
  by (simp add: put32_def)

lemma to4_addr [simp]: "to4 (addr w) = Some (put32 w)"
  by (simp add: addr_def)

lemma clone_addr [simp]: "clone_ip (addr w) = addr w"
  by (simp add: addr_def clone_ip_def put32_def)

lemma addr_inject [simp]: "addr x = addr y \<longleftrightarrow> x = y"
  by (simp add: addr_def)

lemma ip_equal_addr [simp]: "ip_equal (addr x) (addr y) \<longleftrightarrow> x = y"
  by (simp add: ip_equal_def addr_def ip_bytes_def)

lemma ip_string_addr [simp]: "ip_string (addr x) = ip_string (addr y) \<longleftrightarrow> x = y"
  using ip_string_v4_inject [OF to4_addr to4_addr] by simp

definition base :: "u32 \<Rightarrow> nat \<Rightarrow> nat" where
  "base b k = (unat b div 2 ^ k) * 2 ^ k"

lemma unat_drop: "unat (drop_bit k x) = unat x div 2 ^ k" for x :: u32
proof -
  have "take_bit 32 (unat x) = unat x"
    using unsigned_less [of x, where 'a = nat] by (intro take_bit_nat_eq_self) simp
  then show ?thesis unfolding unsigned_drop_bit_eq by (simp add: drop_bit_eq_div)
qed

lemma mask_low: "w AND NOT (mask k) = v AND NOT (mask k) \<longleftrightarrow> unat w div 2 ^ k = unat v div 2 ^ k" for w v :: u32
proof -
  have pd: "x AND NOT (mask k) = push_bit k (drop_bit k x)" for x :: u32
    by (rule bit_word_eqI) (auto simp: bit_simps)
  have dp: "drop_bit k (x AND NOT (mask k)) = drop_bit k x" for x :: u32
    by (rule bit_word_eqI) (auto simp: bit_simps dest: bit_imp_le_length)
  have "w AND NOT (mask k) = v AND NOT (mask k) \<longleftrightarrow> drop_bit k w = drop_bit k v"
    by (metis pd dp)
  also have "\<dots> \<longleftrightarrow> unat w div 2 ^ k = unat v div 2 ^ k"
    by (simp only: word_unat_eq_iff unat_drop)
  finally show ?thesis .
qed

lemma contains_pool: "ipnet_contains (pool_of b k) (addr w) \<longleftrightarrow> unat w div 2 ^ k = unat b div 2 ^ k"
  using mask_low [of b k w]
  by (auto simp: ipnet_contains_def pool_of_def mask_bytes_def put32_and and.assoc)

lemma unat_network: "unat (b AND NOT (mask k)) = base b k" for b :: u32
proof -
  have "b AND NOT (mask k) = push_bit k (drop_bit k b)"
    by (rule bit_word_eqI) (auto simp: bit_simps)
  then have "unat (b AND NOT (mask k)) = unat (push_bit k (drop_bit k b))" by (simp only:)
  also have "\<dots> = take_bit 32 (unat b div 2 ^ k * 2 ^ k)"
    unfolding unsigned_push_bit_eq unat_drop by (simp add: push_bit_eq_mult)
  also have "\<dots> = unat b div 2 ^ k * 2 ^ k"
  proof -
    have "unat b div 2 ^ k * 2 ^ k \<le> unat b" by simp
    also have "unat b < 2 ^ 32" using unsigned_less [of b, where 'a = nat] by simp
    finally show ?thesis by (rule take_bit_nat_eq_self)
  qed
  finally show ?thesis by (simp add: base_def)
qed

definition host :: "u32 \<Rightarrow> nat \<Rightarrow> nat \<Rightarrow> u32" where
  "host b k i = (b AND NOT (mask k)) + word_of_nat i"

lemma base_room:
  assumes "k \<le> 32" shows "base b k + 2 ^ k \<le> 2 ^ 32"
proof -
  have "unat b < 2 ^ (32 - k) * 2 ^ k"
    using unsigned_less [of b, where 'a = nat] assms by (simp flip: power_add)
  then have "unat b div 2 ^ k < 2 ^ (32 - k)" by (simp add: less_mult_imp_div_less)
  then have "(unat b div 2 ^ k + 1) * 2 ^ k \<le> 2 ^ (32 - k) * 2 ^ k" by (intro mult_right_mono) auto
  with assms show ?thesis by (simp add: base_def flip: power_add)
qed

lemma unat_host:
  assumes "k \<le> 32" "i < 2 ^ k" shows "unat (host b k i) = base b k + i"
proof -
  have lt: "base b k + i < 2 ^ 32" using base_room [OF assms(1), of b] assms(2) by linarith
  then have "i < 2 ^ 32" by simp
  then have "unat (word_of_nat i :: u32) = i" by (simp add: unsigned_of_nat take_bit_nat_eq_self)
  with lt show ?thesis by (simp add: host_def unat_word_ariths unat_network)
qed

lemma host_inside:
  assumes "k \<le> 32" "i < 2 ^ k" shows "ipnet_contains (pool_of b k) (addr (host b k i))"
  using assms by (simp add: contains_pool unat_host base_def div_mult_self3)

lemma host_end:
  assumes "k < 32" shows "\<not> ipnet_contains (pool_of b k) (addr (host b k (2 ^ k)))"
proof -
  let ?q = "unat b div 2 ^ k"
  have k2: "(2 :: nat) ^ k < 2 ^ 32" using assms by (intro power_strict_increasing) auto
  have u: "unat (host b k (2 ^ k)) = (base b k + 2 ^ k) mod 2 ^ 32"
  proof -
    have "unat (word_of_nat (2 ^ k) :: u32) = 2 ^ k"
      unfolding unsigned_of_nat using k2 assms by (simp add: take_bit_nat_eq_self)
    then show ?thesis unfolding host_def unat_word_ariths unat_network by simp
  qed
  show ?thesis
  proof (cases "base b k + 2 ^ k = 2 ^ 32")
    case True
    have "?q \<noteq> 0"
    proof
      assume "?q = 0"
      then have "base b k = 0" by (simp add: base_def)
      with True k2 show False by simp
    qed
    with True u show ?thesis by (simp add: contains_pool)
  next
    case False
    then have "base b k + 2 ^ k < 2 ^ 32" using base_room [of k b] assms by simp
    then have "unat (host b k (2 ^ k)) = (?q + 1) * 2 ^ k" using u by (simp add: base_def)
    then show ?thesis by (simp add: contains_pool)
  qed
qed

lemma inc_host: "incIPv4 (addr (host b k i)) = addr (host b k (i + 1))"
  by (simp add: inc_addr host_def ac_simps)

lemma first_host: "firstUsable (pool_of b k) = addr (host b k 1)"
  by (simp add: firstUsable_def pool_of_def host_def inc_addr flip: addr_def)

section \<open>The loops are searches\<close>

definition hosts :: "u32 \<Rightarrow> nat \<Rightarrow> nat \<Rightarrow> ip list" where
  "hosts b k i = map (\<lambda>j. addr (host b k j)) [i..<2 ^ k]"

lemma hosts_step: "i < 2 ^ k \<Longrightarrow> hosts b k i = addr (host b k i) # hosts b k (Suc i)"
  by (simp add: hosts_def upt_conv_Cons)

lemma hosts_done: "hosts b k (2 ^ k) = []"
  by (simp add: hosts_def)

definition usable :: "u32 \<Rightarrow> nat \<Rightarrow> ip \<Rightarrow> ip list" where
  "usable b k gw = filter (\<lambda>a. \<not> skipped (pool_of b k) gw a) (hosts b k 1)"

lemma alloc_loop_search:
  assumes "k < 32" "i \<le> 2 ^ k"
  shows "alloc_loop (pool_of b k) gw taken (addr (host b k i)) =
    Some (find (\<lambda>a. \<not> skipped (pool_of b k) gw a \<and> \<not> taken (ip_string a)) (hosts b k i))"
  using assms(2)
proof (induction "2 ^ k - i" arbitrary: i)
  case 0
  then have "i = 2 ^ k" by simp
  with host_end [OF assms(1), of b] show ?case by (subst alloc_loop.simps) (simp add: hosts_done)
next
  case (Suc n)
  then have i: "i < 2 ^ k" and IH: "alloc_loop (pool_of b k) gw taken (addr (host b k (Suc i))) =
      Some (find (\<lambda>a. \<not> skipped (pool_of b k) gw a \<and> \<not> taken (ip_string a)) (hosts b k (Suc i)))"
    by simp_all
  from host_inside [OF _ i, of b] assms(1) show ?case
    by (subst alloc_loop.simps) (simp add: hosts_step [OF i] inc_host IH)
qed

lemma count_loop_search:
  assumes "k < 32" "i \<le> 2 ^ k"
  shows "count_loop (pool_of b k) gw n (addr (host b k i)) =
    Some (n + length (filter (\<lambda>a. \<not> skipped (pool_of b k) gw a) (hosts b k i)))"
  using assms(2)
proof (induction "2 ^ k - i" arbitrary: i n)
  case 0
  then have "i = 2 ^ k" by simp
  with host_end [OF assms(1), of b] show ?case by (subst count_loop.simps) (simp add: hosts_done)
next
  case (Suc m)
  then have i: "i < 2 ^ k" and IH: "count_loop (pool_of b k) gw n' (addr (host b k (Suc i))) =
      Some (n' + length (filter (\<lambda>a. \<not> skipped (pool_of b k) gw a) (hosts b k (Suc i))))" for n'
    by simp_all
  have some: "addr (host b k i) \<noteq> None" by (simp add: addr_def)
  from host_inside [OF _ i, of b] assms(1) show ?case
    by (subst count_loop.simps) (simp add: hosts_step [OF i] inc_host IH some)
qed

lemma alloc_loop_first:
  assumes "k < 32"
  shows "alloc_loop (pool_of b k) gw taken (firstUsable (pool_of b k)) =
    Some (find (\<lambda>a. \<not> taken (ip_string a)) (usable b k gw))"
proof -
  have "find (\<lambda>a. \<not> s a \<and> \<not> t a) xs = find (\<lambda>a. \<not> t a) (filter (\<lambda>a. \<not> s a) xs)" for s t :: "ip \<Rightarrow> bool" and xs
    by (induction xs) auto
  then show ?thesis
    using alloc_loop_search [OF assms, of 1] by (simp add: first_host usable_def)
qed

lemma usableCount_length: "k < 32 \<Longrightarrow> usableCount (pool_of b k) gw = Some (length (usable b k gw))"
  using count_loop_search [of k 1 b gw 0] by (simp add: usableCount_def first_host usable_def)

lemma broadcast_host:
  assumes "k \<le> 32"
  shows "isBroadcast (pool_of b k) (addr w) \<longleftrightarrow> w = (b AND NOT (mask k)) OR mask k"
proof -
  have "isBroadcast (pool_of b k) (addr w) \<longleftrightarrow> put32 w = put32 ((b AND NOT (mask k)) OR NOT (NOT (mask k)))"
    by (simp add: isBroadcast_def pool_of_def put32_or_not ip_equal_def ip_bytes_def)
  then show ?thesis by simp
qed

lemma usable_mem:
  assumes "a \<in> set (usable b k gw)"
  obtains i where "a = addr (host b k i)" "1 \<le> i" "i < 2 ^ k" "\<not> skipped (pool_of b k) gw a"
  using assms by (auto simp: usable_def hosts_def)

lemma distinct_usable: "k \<le> 32 \<Longrightarrow> distinct (usable b k gw)"
proof -
  assume k: "k \<le> 32"
  have "inj_on (\<lambda>j. addr (host b k j)) {1..<2 ^ k}"
  proof (rule inj_onI)
    fix i j assume ij: "i \<in> {1..<2 ^ k}" "j \<in> {1..<2 ^ k}" "addr (host b k i) = addr (host b k j)"
    then have "host b k i = host b k j" by (simp add: addr_def)
    then have "unat (host b k i) = unat (host b k j)" by simp
    moreover have "i < 2 ^ k" "j < 2 ^ k" using ij by simp_all
    ultimately show "i = j" by (simp only: unat_host [OF k] add_left_cancel)
  qed
  then show ?thesis by (simp add: usable_def hosts_def distinct_map)
qed

lemma usable_strings:
  assumes "a \<in> set (usable b k gw)" "c \<in> set (usable b k gw)"
  shows "ip_string a = ip_string c \<longleftrightarrow> a = c"
  using assms by (auto elim!: usable_mem)

lemma usable_clone: "a \<in> set (usable b k gw) \<Longrightarrow> clone_ip a = a"
  by (auto elim!: usable_mem)

section \<open>The invariant\<close>

definition ipam_inv :: "u32 \<Rightarrow> nat \<Rightarrow> ipam \<Rightarrow> bool" where
  "ipam_inv b k m \<longleftrightarrow> ip_pool m = pool_of b k \<and> ip_total m = length (usable b k (ip_gateway m))
     \<and> (\<forall>i a. ip_leases m i = Some a \<longrightarrow> i \<noteq> [] \<and> a \<in> set (usable b k (ip_gateway m))
           \<and> ip_assigned m (ip_string a) = Some i)
     \<and> (\<forall>key i. ip_assigned m key = Some i \<longrightarrow> (\<exists>a. ip_leases m i = Some a \<and> ip_string a = key))"

lemma ipam_invD:
  assumes "ipam_inv b k m"
  shows "ip_pool m = pool_of b k" "ip_total m = length (usable b k (ip_gateway m))"
    "ip_leases m i = Some a \<Longrightarrow> i \<noteq> [] \<and> a \<in> set (usable b k (ip_gateway m)) \<and> ip_assigned m (ip_string a) = Some i"
    "ip_assigned m key = Some i \<Longrightarrow> \<exists>a. ip_leases m i = Some a \<and> ip_string a = key"
  using assms unfolding ipam_inv_def by blast+

lemma taken_iff:
  assumes "ipam_inv b k m" "a \<in> set (usable b k (ip_gateway m))"
  shows "ip_assigned m (ip_string a) \<noteq> None \<longleftrightarrow> a \<in> ran (ip_leases m)"
proof
  assume "ip_assigned m (ip_string a) \<noteq> None"
  then obtain i c where "ip_leases m i = Some c" "ip_string c = ip_string a"
    using ipam_invD(4) [OF assms(1)] by blast
  moreover then have "c \<in> set (usable b k (ip_gateway m))" using ipam_invD(3) [OF assms(1)] by blast
  ultimately show "a \<in> ran (ip_leases m)" using usable_strings [OF _ assms(2)] by (auto simp: ran_def)
next
  assume "a \<in> ran (ip_leases m)"
  then show "ip_assigned m (ip_string a) \<noteq> None" using ipam_invD(3) [OF assms(1)] by (auto simp: ran_def)
qed

lemma Allocate_cases:
  assumes "ipam_inv b k m" "k < 32" "i \<noteq> []" "ip_leases m i = None"
  shows "Allocate i m = (case find (\<lambda>a. a \<notin> ran (ip_leases m)) (usable b k (ip_gateway m)) of
      None \<Rightarrow> Some (Inl PoolExhausted, m)
    | Some a \<Rightarrow> Some (Inr a, m\<lparr> ip_leases := (ip_leases m)(i \<mapsto> a),
                  ip_assigned := (ip_assigned m)(ip_string a \<mapsto> i) \<rparr>))"
proof -
  have find_cong: "find P xs = find Q xs" if "\<And>x. x \<in> set xs \<Longrightarrow> P x = Q x" for P Q and xs :: "ip list"
    using that by (induction xs) auto
  have "find (\<lambda>a. \<not> ip_assigned m (ip_string a) \<noteq> None) (usable b k (ip_gateway m)) =
      find (\<lambda>a. a \<notin> ran (ip_leases m)) (usable b k (ip_gateway m))"
    by (rule find_cong) (use taken_iff [OF assms(1)] in blast)
  moreover have "clone_ip a = a" if "find P (usable b k (ip_gateway m)) = Some a" for P a
  proof -
    have "a \<in> set (usable b k (ip_gateway m))" using that by (auto simp: find_Some_iff)
    then show ?thesis by (rule usable_clone)
  qed
  ultimately show ?thesis
    using assms(3,4) alloc_loop_first [OF assms(2)]
    by (auto simp: Allocate_def ipam_invD(1) [OF assms(1)] Let_def split: option.splits)
qed

lemma Allocate_again:
  assumes "ipam_inv b k m" "ip_leases m i = Some a"
  shows "Allocate i m = Some (Inr a, m)"
proof -
  have "i \<noteq> []" "clone_ip a = a" using ipam_invD(3) [OF assms] usable_clone by blast+
  with assms(2) show ?thesis by (simp add: Allocate_def)
qed

definition leased :: "string \<Rightarrow> ip \<Rightarrow> ipam \<Rightarrow> ipam" where
  "leased i a m = m\<lparr> ip_leases := (ip_leases m)(i \<mapsto> a), ip_assigned := (ip_assigned m)(ip_string a \<mapsto> i) \<rparr>"

lemma leased_inv:
  assumes "ipam_inv b k m" "i \<noteq> []" "ip_leases m i = None" "a \<in> set (usable b k (ip_gateway m))"
    "a \<notin> ran (ip_leases m)"
  shows "ipam_inv b k (leased i a m)"
proof -
  have other: "ip_string c \<noteq> ip_string a" if "ip_leases m j = Some c" for j c
    using that assms(4,5) ipam_invD(3) [OF assms(1) that] usable_strings by (auto simp: ran_def)
  have free: "ip_assigned m key \<noteq> Some i" for key
    using ipam_invD(4) [OF assms(1), of key i] assms(3) by auto
  show ?thesis
    unfolding ipam_inv_def leased_def
    using ipam_invD [OF assms(1)] assms(2,4) other free by auto
qed

lemma Release_inv:
  assumes "ipam_inv b k m" shows "ipam_inv b k (snd (Release i m))"
proof (cases "i = [] \<or> ip_leases m i = None")
  case False
  then obtain a where a: "ip_leases m i = Some a" by auto
  have other: "ip_string c \<noteq> ip_string a" if "ip_leases m j = Some c" "j \<noteq> i" for j c
    using that ipam_invD(3) [OF assms that(1)] ipam_invD(3) [OF assms a] by auto
  have key: "j \<noteq> i" if "ip_assigned m key = Some j" "key \<noteq> ip_string a" for key j
    using that ipam_invD(4) [OF assms that(1)] a by auto
  have "snd (Release i m) = m\<lparr> ip_leases := (ip_leases m)(i := None), ip_assigned := (ip_assigned m)(ip_string a := None) \<rparr>"
    using False a by (simp add: Release_def)
  moreover have "ipam_inv b k \<dots>"
    unfolding ipam_inv_def
  proof (intro conjI allI impI)
    fix j c assume "ip_leases (m\<lparr> ip_leases := (ip_leases m)(i := None),
        ip_assigned := (ip_assigned m)(ip_string a := None) \<rparr>) j = Some c"
    then have j: "ip_leases m j = Some c" "j \<noteq> i" by (auto split: if_splits)
    with ipam_invD(3) [OF assms j(1)] other [OF j] show "j \<noteq> []"
      "c \<in> set (usable b k (ip_gateway (m\<lparr> ip_leases := (ip_leases m)(i := None),
          ip_assigned := (ip_assigned m)(ip_string a := None) \<rparr>)))"
      "ip_assigned (m\<lparr> ip_leases := (ip_leases m)(i := None),
          ip_assigned := (ip_assigned m)(ip_string a := None) \<rparr>) (ip_string c) = Some j"
      by simp_all
  next
    fix kk j assume "ip_assigned (m\<lparr> ip_leases := (ip_leases m)(i := None),
        ip_assigned := (ip_assigned m)(ip_string a := None) \<rparr>) kk = Some j"
    then have "ip_assigned m kk = Some j" "kk \<noteq> ip_string a" by (auto split: if_splits)
    with ipam_invD(4) [OF assms] key show "\<exists>c. ip_leases (m\<lparr> ip_leases := (ip_leases m)(i := None),
        ip_assigned := (ip_assigned m)(ip_string a := None) \<rparr>) j = Some c \<and> ip_string c = kk"
      by simp
  qed (use ipam_invD(1,2) [OF assms] in simp_all)
  ultimately show ?thesis by simp
qed (use assms in \<open>auto simp: Release_def\<close>)

section \<open>The contract the life cycle relies on\<close>

text \<open>\<open>lifecycle.Service\<close> uses the pool through the interface \<open>ipam.IPAM\<close>. The laws of the
  interface: an address is never leased to two sessions, a lease is found until it is
  released, and releasing touches no other session.\<close>

definition pool_step ::
  "(string \<Rightarrow> 's \<Rightarrow> 'a option \<times> 's) \<Rightarrow> (string \<Rightarrow> 's \<Rightarrow> 's) \<Rightarrow> string \<times> bool \<Rightarrow> 's \<Rightarrow> 'a option \<times> 's" where
  \<comment> \<open>\<open>(i, True)\<close> allocates for session \<open>i\<close>, \<open>(i, False)\<close> releases\<close>
  "pool_step alloc release op s = (case op of (i, al) \<Rightarrow> if al then alloc i s else (None, release i s))"

locale address_pool =
  fixes alloc :: "string \<Rightarrow> 's \<Rightarrow> 'a option \<times> 's"
    and release :: "string \<Rightarrow> 's \<Rightarrow> 's"
    and holds :: "'s \<Rightarrow> string \<Rightarrow> 'a option"
    and inv :: "'s \<Rightarrow> bool"
  assumes alloc_inv: "inv s \<Longrightarrow> inv (snd (alloc i s))"
    and release_inv: "inv s \<Longrightarrow> inv (release i s)"
    and alloc_holds: "inv s \<Longrightarrow> alloc i s = (Some a, s') \<Longrightarrow> holds s' = (holds s)(i \<mapsto> a)"
    and alloc_fails: "inv s \<Longrightarrow> alloc i s = (None, s') \<Longrightarrow> s' = s"
    and alloc_stable: "inv s \<Longrightarrow> holds s i = Some a \<Longrightarrow> alloc i s = (Some a, s)"
    and release_holds: "inv s \<Longrightarrow> holds (release i s) = (holds s)(i := None)"
    and exclusive: "inv s \<Longrightarrow> holds s i = Some a \<Longrightarrow> holds s j = Some a \<Longrightarrow> i = j"
begin

lemma pool_step_inv: "inv s \<Longrightarrow> inv (snd (pool_step alloc release op s))"
  by (cases op) (simp add: pool_step_def alloc_inv release_inv)

lemma run_pool_inv: "inv s \<Longrightarrow> inv (snd (run (pool_step alloc release) ops s))"
  by (induction ops arbitrary: s) (simp_all add: pool_step_inv)

lemma step_keeps:
  assumes "inv s" "holds s i = Some a" "op \<noteq> (i, False)"
  shows "holds (snd (pool_step alloc release op s)) i = Some a"
proof -
  obtain j al where op: "op = (j, al)" by fastforce
  obtain r s' where r: "alloc j s = (r, s')" by fastforce
  show ?thesis
  proof (cases al)
    case False
    with op assms release_holds [OF assms(1)] show ?thesis by (auto simp: pool_step_def)
  next
    case al: True
    show ?thesis
    proof (cases "j = i")
      case True
      then show ?thesis using op al alloc_stable [OF assms(1,2)] assms(2) by (simp add: pool_step_def)
    next
      case False
      with op al r assms alloc_holds [OF assms(1)] alloc_fails [OF assms(1), of j s'] show ?thesis
        by (cases r) (auto simp: pool_step_def)
    qed
  qed
qed

lemma lease_lasts:
  "inv s \<Longrightarrow> holds s i = Some a \<Longrightarrow> (i, False) \<notin> set ops \<Longrightarrow>
     holds (snd (run (pool_step alloc release) ops s)) i = Some a"
proof (induction ops arbitrary: s)
  case (Cons op ops)
  have "holds (snd (pool_step alloc release op s)) i = Some a" using Cons.prems by (intro step_keeps) auto
  with Cons pool_step_inv show ?case by simp
qed simp

lemma never_shared:
  assumes "inv s" "holds (snd (run (pool_step alloc release) ops s)) i = Some a" "holds (snd (run (pool_step alloc release) ops s)) j = Some a"
  shows "i = j"
  using exclusive [OF run_pool_inv [OF assms(1)] assms(2,3)] .

end

definition alloc_ip :: "string \<Rightarrow> ipam \<Rightarrow> ip option \<times> ipam" where
  \<comment> \<open>\<open>Allocate\<close> on a pool whose loop returns\<close>
  "alloc_ip i m = (case Allocate i m of Some (Inr a, m') \<Rightarrow> (Some a, m') | Some (Inl e, m') \<Rightarrow> (None, m') | None \<Rightarrow> (None, m))"

definition release_ip :: "string \<Rightarrow> ipam \<Rightarrow> ipam" where
  "release_ip i m = snd (Release i m)"

definition pool_ok :: "ipam \<Rightarrow> bool" where
  "pool_ok m \<longleftrightarrow> (\<exists>b k. k < 32 \<and> ipam_inv b k m)"

lemma alloc_ip_eq:
  assumes "ipam_inv b k m" "k < 32"
  shows "alloc_ip i m = (if i = [] then (None, m) else case ip_leases m i of Some a \<Rightarrow> (Some a, m)
     | None \<Rightarrow> (case find (\<lambda>a. a \<notin> ran (ip_leases m)) (usable b k (ip_gateway m)) of
         None \<Rightarrow> (None, m) | Some a \<Rightarrow> (Some a, leased i a m)))"
proof (cases "i = []")
  case False
  then show ?thesis
    using Allocate_cases [OF assms False] Allocate_again [OF assms(1), of i]
    by (auto simp: alloc_ip_def leased_def split: option.splits)
qed (simp add: alloc_ip_def Allocate_def)

interpretation mem_pool: address_pool alloc_ip release_ip ip_leases pool_ok
proof
  fix m i assume "pool_ok m"
  then obtain b k where k: "k < 32" and inv: "ipam_inv b k m" by (auto simp: pool_ok_def)
  have F: "a \<in> set (usable b k (ip_gateway m)) \<and> a \<notin> ran (ip_leases m)"
    if "find (\<lambda>a. a \<notin> ran (ip_leases m)) (usable b k (ip_gateway m)) = Some a" for a
    using that by (auto simp: find_Some_iff)
  note eq = alloc_ip_eq [OF inv k]
  show "pool_ok (release_ip i m)" using Release_inv [OF inv] k by (auto simp: pool_ok_def release_ip_def)
  show "pool_ok (snd (alloc_ip i m))"
    unfolding pool_ok_def
  proof (intro exI conjI)
    show "ipam_inv b k (snd (alloc_ip i m))"
      using leased_inv [OF inv] F inv by (auto simp: eq split: option.splits)
  qed (rule k)
  show "alloc_ip i m = (None, s') \<Longrightarrow> s' = m" for s'
    by (auto simp: eq split: option.splits if_splits)
  show "alloc_ip i m = (Some a, s') \<Longrightarrow> ip_leases s' = (ip_leases m)(i \<mapsto> a)" for a s'
    by (auto simp: eq leased_def split: option.splits if_splits)
  show "ip_leases m i = Some a \<Longrightarrow> alloc_ip i m = (Some a, m)" for a
    using ipam_invD(3) [OF inv] by (auto simp: eq)
  show "ip_leases (release_ip i m) = (ip_leases m)(i := None)"
    using ipam_invD(3) [OF inv, of i] by (auto simp: release_ip_def Release_def split: option.splits)
  show "ip_leases m i = Some a \<Longrightarrow> ip_leases m j = Some a \<Longrightarrow> i = j" for j a
    using ipam_invD(3) [OF inv] by (metis option.inject)
qed

section \<open>Pools from the configuration\<close>

lemma cidr_mask_word: "n \<le> 32 \<Longrightarrow> cidr_mask n 4 = put32 (NOT (mask (32 - n)))"
proof -
  have "\<forall>n \<in> set [0..<33]. cidr_mask n 4 = put32 (NOT (mask (32 - n)))" by code_simp
  moreover assume "n \<le> 32"
  ultimately show ?thesis by simp
qed

lemma v4_pool:
  assumes "parse_cidr s = Some pool" "length (net_ip pool) = 4"
  obtains b k where "pool = pool_of b k" "k \<le> 32"
proof -
  from assms(1) obtain a n v4 q where p: "parse_addr a = Some (v4, q)" "undec n \<le> 8 * length q"
      "pool = \<lparr>net_ip = mask_bytes q (cidr_mask (undec n) (length q)), net_mask = cidr_mask (undec n) (length q)\<rparr>"
    by (auto simp: parse_cidr_def Let_def not_less split: option.splits prod.splits if_splits)
  have len: "length q = 4" using assms(2) p(3) by (simp add: mask_bytes_def cidr_mask_def)
  then obtain w x y z where "q = [w, x, y, z]" by (auto simp: numeral_eq_Suc length_Suc_conv)
  then have q: "q = put32 (be32 w x y z)" by simp
  have "pool = pool_of (be32 w x y z) (32 - undec n)"
    using len p(2) unfolding p(3) q
    by (simp add: cidr_mask_word mask_bytes_def put32_and pool_of_def del: put32_be32)
  with that show ?thesis by force
qed

lemma contains_all: "ipnet_contains (pool_of b 32) (addr w)"
proof -
  have "unat x div 2 ^ 32 = 0" for x :: u32 using unsigned_less [of x, where 'a = nat] by simp
  then show ?thesis by (simp add: contains_pool)
qed

lemma count_loop_returns_finite:
  "count_loop pool gw n x = Some r \<Longrightarrow> pool = pool_of b 32 \<longrightarrow> (\<forall>w. x \<noteq> addr w)"
proof (rule count_loop.raw_induct [where P = "\<lambda>pool gw n x r. pool = pool_of b 32 \<longrightarrow> (\<forall>w. x \<noteq> addr w)"])
  fix loop pool gw n x r
  assume IH: "\<And>pool gw n x r. loop pool gw n x = Some r \<Longrightarrow> pool = pool_of b 32 \<longrightarrow> (\<forall>w. x \<noteq> addr w)"
    and body: "(if x = None \<or> \<not> ipnet_contains pool x then Some n
      else if skipped pool gw x then loop pool gw n (incIPv4 x) else loop pool gw (n + 1) (incIPv4 x)) = Some r"
  show "pool = pool_of b 32 \<longrightarrow> (\<forall>w. x \<noteq> addr w)"
  proof (intro impI allI notI)
    fix w assume w: "pool = pool_of b 32" "x = addr w"
    then have "x \<noteq> None" "ipnet_contains pool x" by (simp_all add: addr_def contains_all [unfolded addr_def])
    with body have "loop pool gw n (incIPv4 x) = Some r \<or> loop pool gw (n + 1) (incIPv4 x) = Some r"
      by (simp split: if_splits)
    then have "\<forall>v. incIPv4 x \<noteq> addr v" using IH w(1) by blast
    then show False using inc_addr [of w] w(2) by simp
  qed
qed assumption

lemma count_loop_whole_space: "count_loop (pool_of b 32) gw n (addr w) = None"
  using count_loop_returns_finite [of "pool_of b 32" gw n "addr w" _ b]
  by (cases "count_loop (pool_of b 32) gw n (addr w)") auto

lemma NewMemory_ok:
  assumes "NewMemory cidr gw = Some (Inr m)" "length (net_ip (ip_pool m)) = 4"
  shows "pool_ok m" "ip_leases m = Map.empty" "\<exists>b k. k < 32 \<and> ipam_inv b k m"
proof -
  from assms(1) obtain pool g n where p: "parse_cidr cidr = Some pool" "usableCount pool (Some g) = Some n"
      "m = \<lparr> ip_pool = pool, ip_gateway = Some g, ip_total = n, ip_leases = Map.empty, ip_assigned = Map.empty \<rparr>"
    by (auto simp: NewMemory_def split: option.splits if_splits)
  obtain b k where bk: "pool = pool_of b k" "k \<le> 32" using v4_pool [OF p(1)] assms(2) p(3) by auto
  have "k \<noteq> 32"
    using p(2) bk(1) count_loop_whole_space [of b] by (auto simp: usableCount_def first_host)
  with bk(2) have k: "k < 32" by simp
  then have "n = length (usable b k (Some g))" using p(2) bk(1) usableCount_length by simp
  with p(3) bk(1) have "ipam_inv b k m" by (simp add: ipam_inv_def)
  with k show "pool_ok m" "\<exists>b k. k < 32 \<and> ipam_inv b k m" by (auto simp: pool_ok_def)
  show "ip_leases m = Map.empty" by (simp add: p(3))
qed

section \<open>Properties\<close>

lemma leases_counted:
  assumes "ipam_inv b k m" "k < 32"
  shows "finite (dom (ip_leases m))" "card (dom (ip_leases m)) = card (ran (ip_leases m))"
    "ran (ip_leases m) \<subseteq> set (usable b k (ip_gateway m))"
    "card (dom (ip_leases m)) \<le> ip_total m"
    "card (dom (ip_leases m)) = ip_total m \<longleftrightarrow> set (usable b k (ip_gateway m)) \<subseteq> ran (ip_leases m)"
proof -
  let ?U = "set (usable b k (ip_gateway m))"
  show sub: "ran (ip_leases m) \<subseteq> ?U" using ipam_invD(3) [OF assms(1)] by (auto simp: ran_def)
  have inj: "inj_on (\<lambda>i. the (ip_leases m i)) (dom (ip_leases m))"
    using ipam_invD(3) [OF assms(1)] by (intro inj_onI) (metis domD option.sel option.inject)
  have img: "(\<lambda>i. the (ip_leases m i)) ` dom (ip_leases m) = ran (ip_leases m)"
    by (force simp: ran_def image_iff)
  have fin: "finite (ran (ip_leases m))" using sub finite_subset by blast
  then show "finite (dom (ip_leases m))" using inj img finite_imageD by metis
  show c: "card (dom (ip_leases m)) = card (ran (ip_leases m))" using card_image [OF inj] img by simp
  have t: "ip_total m = card ?U"
    using ipam_invD(2) [OF assms(1)] distinct_usable [of k b "ip_gateway m"] assms(2)
    by (simp add: distinct_card)
  show "card (dom (ip_leases m)) \<le> ip_total m" unfolding c t using sub by (intro card_mono) auto
  show "card (dom (ip_leases m)) = ip_total m \<longleftrightarrow> ?U \<subseteq> ran (ip_leases m)"
    unfolding c t using sub fin by (metis List.finite_set card_subset_eq subset_antisym order_refl)
qed

text \<open>C22. Allocation: for a pool the service starts with, whatever was allocated and released before,
  a request of a session without a lease is answered (the search through the pool ends). The
  address it gets lies in the pool, is neither the gateway nor the network nor the broadcast
  address, and no other session holds it; the request fails exactly when the number of leases
  has reached \<open>total\<close>, the count made at start-up.\<close>

theorem allocate_correct:
  assumes "NewMemory cidr gw = Some (Inr m0)" "length (net_ip (ip_pool m0)) = 4"
    "m = snd (run (pool_step alloc_ip release_ip) ops m0)" "i \<noteq> []" "ip_leases m i = None"
  shows "\<exists>r m'. Allocate i m = Some (r, m') \<and> (case r of
      Inr a \<Rightarrow> ipnet_contains (ip_pool m) a \<and> \<not> ip_equal a (ip_gateway m) \<and> \<not> isBroadcast (ip_pool m) a
        \<and> \<not> ip_equal a (Some (net_ip (ip_pool m))) \<and> a \<notin> ran (ip_leases m)
        \<and> ip_leases m' = (ip_leases m)(i \<mapsto> a) \<and> card (dom (ip_leases m)) < ip_total m
    | Inl e \<Rightarrow> e = PoolExhausted \<and> m' = m \<and> card (dom (ip_leases m)) = ip_total m)"
proof -
  have "pool_ok m" using NewMemory_ok(1) [OF assms(1,2)] mem_pool.run_pool_inv by (simp add: assms(3))
  then obtain b k where k: "k < 32" and inv: "ipam_inv b k m" by (auto simp: pool_ok_def)
  note A = Allocate_cases [OF inv k assms(4,5)] and L = leases_counted [OF inv k] and P = ipam_invD(1) [OF inv]
  show ?thesis
  proof (cases "find (\<lambda>a. a \<notin> ran (ip_leases m)) (usable b k (ip_gateway m))")
    case None
    then have "set (usable b k (ip_gateway m)) \<subseteq> ran (ip_leases m)" by (auto simp: find_None_iff)
    with L(5) show ?thesis by (simp add: A None)
  next
    case (Some a)
    then have a: "a \<in> set (usable b k (ip_gateway m))" "a \<notin> ran (ip_leases m)" by (auto simp: find_Some_iff)
    from a(1) obtain j where j: "a = addr (host b k j)" "1 \<le> j" "j < 2 ^ k"
      "\<not> skipped (pool_of b k) (ip_gateway m) a" by (rule usable_mem)
    have "unat (host b k j) \<noteq> unat (host b k 0)" using unat_host [of k] j k by simp
    then have net: "\<not> ip_equal a (Some (net_ip (ip_pool m)))"
      by (auto simp: P pool_of_def j(1) host_def simp flip: addr_def)
    have "card (dom (ip_leases m)) < ip_total m" using L(4,5) a by fastforce
    with a(2) j net host_inside [of k j b] k show ?thesis by (simp add: A Some P skipped_def)
  qed
qed

text \<open>C21. Leases are exclusive and stable: over any sequence of allocations and releases no two
  sessions ever hold the same address, and a session keeps the address it got until it is
  itself released, also when \<open>Allocate\<close> is called for it again.\<close>

theorem leases_exclusive_and_stable:
  assumes "NewMemory cidr gw = Some (Inr m0)" "length (net_ip (ip_pool m0)) = 4"
    "m = snd (run (pool_step alloc_ip release_ip) ops m0)"
  shows "(\<forall>i j a. ip_leases m i = Some a \<and> ip_leases m j = Some a \<longrightarrow> i = j)
    \<and> (\<forall>i a later. ip_leases m i = Some a \<and> (i, False) \<notin> set later \<longrightarrow>
         ip_leases (snd (run (pool_step alloc_ip release_ip) later m)) i = Some a)"
proof -
  have m0: "pool_ok m0" by (rule NewMemory_ok(1) [OF assms(1,2)])
  then have "pool_ok m" using mem_pool.run_pool_inv by (simp add: assms(3))
  then show ?thesis using mem_pool.never_shared [OF m0, of ops] mem_pool.lease_lasts assms(3) by blast
qed

text \<open>C40. A pool of prefix length 0 with an IPv4 gateway stops the service from starting: counting
  its usable addresses never ends, because the search wraps around at 255.255.255.255 and
  every address is inside the pool.\<close>

theorem whole_space_pool_hangs:
  assumes "to4 (parse_ip gw) = Some g"
  shows "NewMemory ''0.0.0.0/0'' gw = None"
proof -
  have p: "parse_cidr ''0.0.0.0/0'' = Some (pool_of 0 32)" by code_simp
  obtain w x y z where "g = [w, x, y, z]" using to4_length [OF assms] by (auto simp: numeral_eq_Suc length_Suc_conv)
  then have "Some g = addr (be32 w x y z)" by (simp add: addr_def)
  then have "ipnet_contains (pool_of 0 32) (Some g)" using contains_all by simp
  moreover have "usableCount (pool_of 0 32) (Some g) = None"
    by (simp add: usableCount_def first_host count_loop_whole_space)
  ultimately show ?thesis by (simp add: NewMemory_def p assms)
qed

theorem whole_space_pool_hangs_witness: "NewMemory ''0.0.0.0/0'' ''10.0.0.1'' = None"
proof (rule whole_space_pool_hangs)
  show "to4 (parse_ip ''10.0.0.1'') = Some [10, 0, 0, 1]" by code_simp
qed

definition sample_pool :: ipam where
  "sample_pool = \<lparr> ip_pool = pool_of (be32 10 0 0 0) 2, ip_gateway = Some [10, 0, 0, 1], ip_total = 1,
     ip_leases = Map.empty, ip_assigned = Map.empty \<rparr>"

lemma sample_NewMemory: "NewMemory ''10.0.0.0/30'' ''10.0.0.1'' = Some (Inr sample_pool)"
proof -
  have p: "parse_cidr ''10.0.0.0/30'' = Some (pool_of (be32 10 0 0 0) 2)" by code_simp
  have g: "to4 (parse_ip ''10.0.0.1'') = Some [10, 0, 0, 1]" by code_simp
  have c: "ipnet_contains (pool_of (be32 10 0 0 0) 2) (Some [10, 0, 0, 1])" by code_simp
  have u: "length (usable (be32 10 0 0 0) 2 (Some [10, 0, 0, 1])) = 1" by code_simp
  show ?thesis using usableCount_length [of 2] by (simp add: NewMemory_def p g c u sample_pool_def)
qed

lemma sample_pool_v4: "length (net_ip (ip_pool sample_pool)) = 4"
  by (simp add: sample_pool_def pool_of_def)

theorem allocate_correct_witness: "\<exists>r m'. Allocate ''s1'' sample_pool = Some (r, m')"
  using allocate_correct [OF sample_NewMemory sample_pool_v4, of sample_pool "[]" "''s1''"]
  by (simp add: sample_pool_def) blast

theorem leases_exclusive_and_stable_witness:
  "\<exists>a. ip_leases (snd (run (pool_step alloc_ip release_ip) [(''s1'', True)] sample_pool)) ''s1'' = Some a
     \<and> ip_leases (snd (run (pool_step alloc_ip release_ip) [(''s2'', True), (''s1'', True)]
          (snd (run (pool_step alloc_ip release_ip) [(''s1'', True)] sample_pool)))) ''s1'' = Some a"
proof -
  let ?m = "snd (run (pool_step alloc_ip release_ip) [(''s1'', True)] sample_pool)"
  obtain b k where bk: "k < 32" "ipam_inv b k sample_pool"
    using NewMemory_ok(3) [OF sample_NewMemory sample_pool_v4] by blast
  have "find (\<lambda>a. True) (usable b k (ip_gateway sample_pool)) \<noteq> None"
    using ipam_invD(2) [OF bk(2)] by (auto simp: find_None_iff sample_pool_def)
  moreover have empty: "ip_leases sample_pool = Map.empty" by (simp add: sample_pool_def)
  ultimately obtain a where a: "ip_leases ?m ''s1'' = Some a"
    by (auto simp: pool_step_def alloc_ip_eq [OF bk(2,1)] leased_def)
  note stable = leases_exclusive_and_stable [OF sample_NewMemory sample_pool_v4 refl, THEN conjunct2, rule_format]
  show ?thesis
    by (intro exI conjI, rule a, rule stable) (use a in simp)
qed

end
