(* ===== verification/AccessNet.thy ===== *)
theory AccessNet
  imports Net
begin

text \<open>
  Frames on the access side (\<open>internal/accessside/arp.go\<close>, \<open>dhcp.go\<close>, \<open>manager.go\<close>): the ARP request
  and reply, the DHCP packet with its options, and the Internet checksum.
\<close>

unbundle bit_operations_syntax

definition etherTypeIPv4 :: u16 where "etherTypeIPv4 = 0x0800"
definition etherTypeARP :: u16 where "etherTypeARP = 0x0806"

definition dhcpDiscover :: byte where "dhcpDiscover = 1"
definition dhcpOffer :: byte where "dhcpOffer = 2"
definition dhcpRequest :: byte where "dhcpRequest = 3"
definition dhcpAck :: byte where "dhcpAck = 5"
definition dhcpNak :: byte where "dhcpNak = 6"
definition optSubnetMask :: byte where "optSubnetMask = 1"
definition optRouter :: byte where "optRouter = 3"
definition optDNSServer :: byte where "optDNSServer = 6"
definition optRequestedIP :: byte where "optRequestedIP = 50"
definition optLeaseTime :: byte where "optLeaseTime = 51"
definition optMessageType :: byte where "optMessageType = 53"
definition optServerIdentifier :: byte where "optServerIdentifier = 54"
definition optRenewalTime :: byte where "optRenewalTime = 58"
definition optRebindingTime :: byte where "optRebindingTime = 59"
definition optEnd :: byte where "optEnd = 255"

lemmas dhcp_consts = dhcpDiscover_def dhcpOffer_def dhcpRequest_def dhcpAck_def dhcpNak_def
  optSubnetMask_def optRouter_def optDNSServer_def optRequestedIP_def optLeaseTime_def
  optMessageType_def optServerIdentifier_def optRenewalTime_def optRebindingTime_def optEnd_def

definition copy_n :: "nat \<Rightarrow> bytes \<Rightarrow> bytes" where
  \<comment> \<open>\<open>copy\<close> of a slice into \<open>n\<close> zeroed bytes\<close>
  "copy_n n src = take n (src @ replicate n 0)"

lemma length_copy_n [simp]: "length (copy_n n src) = n"
  by (simp add: copy_n_def)

lemma copy_n_exact: "length src = n \<Longrightarrow> copy_n n src = src"
  by (simp add: copy_n_def)

definition firstIP :: "ip list \<Rightarrow> ip" where
  "firstIP values = (case find (\<lambda>x. x \<noteq> None) values of None \<Rightarrow> None | Some x \<Rightarrow> x)"

definition ethernetSrc :: "bytes \<Rightarrow> bytes option" where
  "ethernetSrc frame = (if length frame < 12 then None else Some (slice frame 6 12))"

section \<open>The Internet checksum\<close>

fun sum16 :: "bytes \<Rightarrow> u32 \<Rightarrow> u32" where
  "sum16 (a # b # rest) s = sum16 rest (s + ucast (be16 a b))"
| "sum16 [a] s = s + push_bit 8 (ucast a)"
| "sum16 [] s = s"

lemma fold16_unat:
  "unat (drop_bit 16 s) = unat s div 65536" "unat (s AND 0xffff) = unat s mod 65536"
  "unat ((s AND 0xffff) + drop_bit 16 s) = unat s mod 65536 + unat s div 65536" for s :: u32
proof -
  have s: "unat s < 2 ^ 32" using unsigned_less [of s, where 'a = nat] by simp
  have "take_bit 32 (unat s) = unat s" using s by (rule take_bit_nat_eq_self)
  then show d: "unat (drop_bit 16 s) = unat s div 65536"
    unfolding unsigned_drop_bit_eq by (simp add: drop_bit_eq_div)
  have "s AND 0xffff = take_bit 16 s" by (simp add: take_bit_eq_mask mask_eq_exp_minus_1)
  then have "unat (s AND 0xffff) = take_bit 16 (unat s)" by (simp only: unsigned_take_bit_eq)
  then show m: "unat (s AND 0xffff) = unat s mod 65536" by (simp add: take_bit_eq_mod)
  have "unat s mod 65536 + unat s div 65536 < 2 ^ 32"
  proof -
    have "unat s mod 65536 < 65536" by simp
    moreover have "unat s div 65536 < 65536" using s by (simp add: less_mult_imp_div_less)
    ultimately show ?thesis by simp
  qed
  with d m show "unat ((s AND 0xffff) + drop_bit 16 s) = unat s mod 65536 + unat s div 65536"
    by (simp add: unat_word_ariths)
qed

function fold16 :: "u32 \<Rightarrow> u32" where
  "fold16 s = (if drop_bit 16 s = 0 then s else fold16 ((s AND 0xffff) + drop_bit 16 s))"
  by pat_completeness auto

termination fold16
proof (relation "measure unat")
  fix s :: u32 assume "drop_bit 16 s \<noteq> 0"
  then have "unat s div 65536 \<noteq> 0" using fold16_unat(1) [of s] by (metis unsigned_eq_0_iff)
  then have "unat s mod 65536 + unat s div 65536 < unat s"
    using div_mult_mod_eq [of "unat s" 65536] by linarith
  then show "((s AND 0xffff) + drop_bit 16 s, s) \<in> measure unat" by (simp only: in_measure fold16_unat(3))
qed simp

declare fold16.simps [simp del]

definition checksum :: "bytes \<Rightarrow> u16" where
  "checksum b = NOT (ucast (fold16 (sum16 b 0)))"

fun word_sum :: "bytes \<Rightarrow> nat" where
  "word_sum (a # b # rest) = unat (be16 a b) + word_sum rest"
| "word_sum [a] = 256 * unat a"
| "word_sum [] = 0"

lemma unat_be16_le: "unat (be16 a b) \<le> 65535"
  using unsigned_less [of "be16 a b", where 'a = nat] by simp

lemma word_sum_append: "even (length a) \<Longrightarrow> word_sum (a @ b) = word_sum a + word_sum b"
  by (induction a rule: word_sum.induct) simp_all

lemma word_sum_put16 [simp]: "word_sum (put16 w) = unat w"
  by (simp add: put16_def)

lemma word_sum_le: "word_sum b \<le> 65535 * length b"
proof (induction b rule: word_sum.induct)
  case (1 a b rest)
  then have "word_sum (a # b # rest) \<le> 65535 + 65535 * length rest"
    unfolding word_sum.simps by (intro add_mono unat_be16_le)
  then show ?case by simp
next
  case (2 a)
  then show ?case using unat_byte_le [of a] by simp
qed simp

lemma unat_sum16:
  "unat s + 65535 * length b < 2 ^ 32 \<Longrightarrow> unat (sum16 b s) = unat s + word_sum b"
proof (induction b s rule: sum16.induct)
  case (1 a b rest s)
  define n where "n = unat (be16 a b)"
  have le: "n \<le> 65535" unfolding n_def by (rule unat_be16_le)
  have u: "unat (ucast (be16 a b) :: u32) = n"
    unfolding n_def unsigned_ucast_eq by (rule take_bit_nat_eq_self) (rule less_trans [OF unat_u16_less], simp)
  have "unat (s + ucast (be16 a b)) = unat s + n"
    unfolding unat_word_ariths u using 1(2) le by simp
  moreover have "unat s + n + 65535 * length rest < 2 ^ 32"
    using 1(2) le by simp
  ultimately show ?case using 1(1) by (simp add: n_def)
next
  case (2 a s)
  have a: "unat a \<le> 255" by (rule unat_byte_le)
  have u: "unat (push_bit 8 (ucast a) :: u32) = 256 * unat a"
    using a by (simp add: push_bit_eq_mult unat_word_ariths unsigned_ucast_eq take_bit_nat_eq_self)
  show ?case using 2 a by (simp add: unat_word_ariths u)
qed simp

lemma fold16_mod:
  "unat (fold16 s) mod 65535 = unat s mod 65535 \<and> unat (fold16 s) \<le> 65535
   \<and> (unat (fold16 s) = 0 \<longleftrightarrow> unat s = 0)"
proof (induction s rule: fold16.induct)
  case (1 s)
  show ?case
  proof (cases "drop_bit 16 s = 0")
    case True
    then have "unat s div 65536 = 0" using fold16_unat(1) [of s] by (metis unsigned_eq_0_iff)
    then have "unat s \<le> 65535" by (simp add: div_eq_0_iff)
    with True show ?thesis by (subst (1 2 3) fold16.simps) simp
  next
    case False
    have f: "fold16 s = fold16 ((s AND 0xffff) + drop_bit 16 s)" by (subst fold16.simps) (simp add: False)
    have eq: "unat s = unat s mod 65536 + unat s div 65536 + 65535 * (unat s div 65536)"
      using div_mult_mod_eq [of "unat s" 65536] by linarith
    have m: "unat s mod 65535 = (unat s mod 65536 + unat s div 65536) mod 65535"
      by (subst (1) eq) (rule mod_mult_self2)
    have z: "unat s = 0 \<longleftrightarrow> unat s mod 65536 + unat s div 65536 = 0"
      using eq by auto
    show ?thesis using 1 [OF False] unfolding f fold16_unat(3) m z by simp
  qed
qed

lemma unat_checksum: "unat (checksum b) = 65535 - unat (fold16 (sum16 b 0))"
proof -
  have "unat (ucast (fold16 (sum16 b 0)) :: u16) = unat (fold16 (sum16 b 0))"
    using fold16_mod [of "sum16 b 0"] by (simp add: unsigned_ucast_eq take_bit_nat_eq_self)
  moreover have "unat (NOT w) = 65535 - unat w" for w :: u16
  proof -
    have n: "NOT w = (-1) - w" by (simp add: not_eq_complement)
    have top: "unat (-1 :: u16) = 65535" by (simp add: unsigned_minus_1_eq_mask mask_eq_exp_minus_1)
    then have "w \<le> -1" by (simp add: word_le_nat_alt)
    then show ?thesis unfolding n by (simp only: unat_sub top)
  qed
  ultimately show ?thesis by (simp add: checksum_def)
qed

text \<open>Filling in the checksum of a header makes the checksum of the whole header zero, which is
  what a receiver tests.\<close>

lemma checksum_fills:
  assumes "word_sum whole = word_sum blank + unat (checksum blank)" and "0 < word_sum blank"
    and "length whole = length blank" "length blank \<le> 1000"
  shows "checksum whole = 0"
proof -
  let ?f = "unat (fold16 (sum16 blank 0))" and ?g = "unat (fold16 (sum16 whole 0))"
  have sb: "unat (sum16 blank 0) = word_sum blank" and sw: "unat (sum16 whole 0) = word_sum whole"
    using assms(3,4) by (simp_all add: unat_sum16)
  have f: "?f mod 65535 = word_sum blank mod 65535" "?f \<le> 65535"
    using fold16_mod [of "sum16 blank 0"] sb by simp_all
  have g: "?g mod 65535 = word_sum whole mod 65535" "?g \<le> 65535" "?g \<noteq> 0"
    using fold16_mod [of "sum16 whole 0"] sw assms(1,2) by simp_all
  have "word_sum whole mod 65535 = (word_sum blank + (65535 - ?f)) mod 65535"
    by (simp add: assms(1) unat_checksum)
  also have "\<dots> = (?f + (65535 - ?f)) mod 65535"
    using f(1) by (metis mod_add_left_eq)
  also have "\<dots> = 0" using f(2) by simp
  finally have "65535 dvd ?g" using g(1) by (simp add: mod_eq_0_iff_dvd)
  then have "?g = 65535" using g(2,3) by (metis dvd_imp_le le_antisym not_gr_zero)
  then have "unat (checksum whole) = 0" by (simp add: unat_checksum)
  then show ?thesis by (simp add: unsigned_eq_0_iff)
qed

section \<open>ARP\<close>

record arp_request =
  ar_SenderMAC :: bytes
  ar_SenderIP :: ip
  ar_TargetIP :: ip

definition u16_at :: "bytes \<Rightarrow> nat \<Rightarrow> u16" where
  "u16_at b i = be16 (b ! i) (b ! (i + 1))"

definition parseARPRequest :: "bytes \<Rightarrow> arp_request option" where
  "parseARPRequest frame =
     (if length frame < 42 \<or> u16_at frame 12 \<noteq> etherTypeARP then None
      else let arp = slice frame 14 42 in
        if u16_at arp 0 \<noteq> 1 \<or> u16_at arp 2 \<noteq> etherTypeIPv4 \<or> arp ! 4 \<noteq> 6 \<or> arp ! 5 \<noteq> 4 \<or> u16_at arp 6 \<noteq> 1
        then None
        else Some \<lparr> ar_SenderMAC = slice arp 8 14, ar_SenderIP = Some (slice arp 14 18),
                    ar_TargetIP = Some (slice arp 24 28) \<rparr>)"

definition buildARPReply :: "arp_request \<Rightarrow> bytes \<Rightarrow> ip \<Rightarrow> bytes" where
  "buildARPReply req srcMAC gateway =
     copy_n 6 (ar_SenderMAC req) @ copy_n 6 srcMAC @ put16 etherTypeARP
     @ put16 1 @ put16 etherTypeIPv4 @ [6, 4] @ put16 2
     @ copy_n 6 srcMAC @ copy_n 4 (ip_bytes (to4 gateway))
     @ copy_n 6 (ar_SenderMAC req) @ copy_n 4 (ip_bytes (to4 (ar_SenderIP req)))"

section \<open>DHCP\<close>

record dhcp_packet =
  dp_XID :: u32
  dp_ClientMAC :: bytes
  dp_ClientIP :: ip
  dp_RequestedIP :: ip
  dp_ServerIdentifier :: ip
  dp_MessageType :: byte

type_synonym dhcp_option = "byte \<times> bytes"

function parseOptions :: "bytes \<Rightarrow> (byte \<rightharpoonup> bytes) \<Rightarrow> (byte \<rightharpoonup> bytes)" where
  "parseOptions [] opts = opts"
| "parseOptions (code # b) opts =
     (if code = optEnd then opts
      else if code = 0 then parseOptions b opts
      else case b of [] \<Rightarrow> opts
        | l # rest \<Rightarrow> if length rest < unat l then opts
            else parseOptions (drop (unat l) rest) (opts(code \<mapsto> take (unat l) rest)))"
  by pat_completeness auto

termination
  by (relation "measure (\<lambda>(b, opts). length b)") auto

definition opt_of_length :: "nat \<Rightarrow> bytes option \<Rightarrow> bytes option" where
  "opt_of_length n v = (case v of None \<Rightarrow> None | Some b \<Rightarrow> if length b = n then Some b else None)"

definition parseDHCPFrame :: "bytes \<Rightarrow> dhcp_packet option" where
  "parseDHCPFrame frame =
     (if length frame < 14 + 20 + 8 + 240 \<or> u16_at frame 12 \<noteq> etherTypeIPv4 then None
      else let ip = drop 14 frame; ihl = unat (ip ! 0 AND 0x0f) * 4 in
        if length ip < ihl + 8 + 240 \<or> ip ! 9 \<noteq> 17 then None
        else let udp = drop ihl ip in
          if u16_at udp 2 \<noteq> 67 then None
          else let d = drop 8 udp in
            if length d < 240 \<or> d ! 0 \<noteq> 1 \<or> d ! 1 \<noteq> 1 \<or> d ! 2 \<noteq> 6 then None
            else if be32 (d ! 236) (d ! 237) (d ! 238) (d ! 239) \<noteq> 0x63825363 then None
            else let opts = parseOptions (drop 240 d) Map.empty;
                     mt = (case opt_of_length 1 (opts optMessageType) of Some [x] \<Rightarrow> x | _ \<Rightarrow> 0)
              in if mt = 0 then None
                 else Some \<lparr> dp_XID = be32 (d ! 4) (d ! 5) (d ! 6) (d ! 7),
                   dp_ClientMAC = slice d 28 34, dp_ClientIP = Some (slice d 12 16),
                   dp_RequestedIP = opt_of_length 4 (opts optRequestedIP),
                   dp_ServerIdentifier = opt_of_length 4 (opts optServerIdentifier),
                   dp_MessageType = mt \<rparr>)"

definition encode_options :: "dhcp_option list \<Rightarrow> bytes" where
  "encode_options opts = concat (map (\<lambda>(c, d). if d = [] then [] else c # word_of_nat (length d) # d) opts)"

definition dhcp_payload :: "dhcp_packet \<Rightarrow> ip \<Rightarrow> dhcp_option list \<Rightarrow> bytes" where
  "dhcp_payload req yiaddr opts =
     [2, 1, 6, 0] @ put32 (dp_XID req) @ replicate 8 0 @ copy_n 4 (ip_bytes (to4 yiaddr))
     @ replicate 8 0 @ copy_n 6 (dp_ClientMAC req) @ replicate 202 0 @ put32 0x63825363
     @ encode_options opts @ [optEnd]"

definition ip_header :: "nat \<Rightarrow> ip \<Rightarrow> ip \<Rightarrow> u16 \<Rightarrow> bytes" where
  "ip_header ipLen srcIP dstIP ck =
     [0x45, 0] @ put16 (word_of_nat ipLen) @ [0, 0, 0, 0, 64, 17] @ put16 ck
     @ copy_n 4 (ip_bytes (to4 srcIP)) @ copy_n 4 (ip_bytes (to4 dstIP))"

definition buildDHCPFrame :: "dhcp_packet \<Rightarrow> bytes \<Rightarrow> ip \<Rightarrow> ip \<Rightarrow> ip \<Rightarrow> dhcp_option list \<Rightarrow> bytes" where
  "buildDHCPFrame req srcMAC0 srcIP0 yiaddr dstIP opts =
     (let srcMAC = (if length srcMAC0 \<noteq> 6 then replicate 6 0 else srcMAC0);
          srcIP = (if srcIP0 = None \<or> to4 srcIP0 = None then IPv4zero else srcIP0);
          payload = dhcp_payload req yiaddr opts;
          udpLen = 8 + length payload; ipLen = 20 + udpLen
      in copy_n 6 (dp_ClientMAC req) @ copy_n 6 srcMAC @ put16 etherTypeIPv4
         @ ip_header ipLen srcIP dstIP (checksum (ip_header ipLen srcIP dstIP 0))
         @ put16 67 @ put16 68 @ put16 (word_of_nat udpLen) @ [0, 0]
         @ payload)"

fun ipListBytes :: "string list \<Rightarrow> bytes" where
  "ipListBytes [] = []"
| "ipListBytes (v # vs) = (case to4 (parse_ip v) of None \<Rightarrow> ipListBytes vs | Some q \<Rightarrow> q @ ipListBytes vs)"

section \<open>What the encoders write\<close>

lemma even_ip_header_parts [simp]: "word_sum (copy_n 4 x @ r) = word_sum (copy_n 4 x) + word_sum r"
  by (rule word_sum_append) simp

lemma ip_header_checksum: "checksum (ip_header n src dst (checksum (ip_header n src dst 0))) = 0"
proof (rule checksum_fills)
  have ws: "word_sum (ip_header n src dst ck) = word_sum (ip_header n src dst 0) + unat ck" for ck
    unfolding ip_header_def by (simp add: word_sum_append)
  then show "word_sum (ip_header n src dst (checksum (ip_header n src dst 0)))
    = word_sum (ip_header n src dst 0) + unat (checksum (ip_header n src dst 0))" by blast
  show "0 < word_sum (ip_header n src dst 0)"
    unfolding ip_header_def by (simp add: be16_def)
qed (simp_all add: ip_header_def)

definition opt_ok :: "dhcp_option \<Rightarrow> bool" where
  "opt_ok o' \<longleftrightarrow> fst o' \<noteq> 0 \<and> fst o' \<noteq> optEnd \<and> length (snd o') < 256"

fun read_opts :: "dhcp_option list \<Rightarrow> (byte \<rightharpoonup> bytes) \<Rightarrow> (byte \<rightharpoonup> bytes)" where
  \<comment> \<open>what a client reads: the last option of a code, empty ones left out\<close>
  "read_opts [] opts = opts"
| "read_opts ((c, d) # rest) opts = read_opts rest (if d = [] then opts else opts(c \<mapsto> d))"

lemma parseOptions_encode:
  "list_all opt_ok os \<Longrightarrow> parseOptions (encode_options os @ optEnd # r) opts = read_opts os opts"
  by (induction os arbitrary: opts) (auto simp: encode_options_def opt_ok_def)

lemma length_dhcp_payload: "length (dhcp_payload req yiaddr os) = 241 + length (encode_options os)"
  by (simp add: dhcp_payload_def)

text \<open>The parts of a reply frame, as a client's stack would cut it up.\<close>

lemma buildDHCPFrame_parts:
  "\<exists>eth hdr udp. buildDHCPFrame req mac src yiaddr dst os = eth @ hdr @ udp @ dhcp_payload req yiaddr os
     \<and> length eth = 14 \<and> take 6 eth = copy_n 6 (dp_ClientMAC req) \<and> length hdr = 20
     \<and> checksum hdr = 0 \<and> length udp = 8"
proof -
  define hdr where "hdr = (let n = 20 + (8 + length (dhcp_payload req yiaddr os));
      s = (if src = None \<or> to4 src = None then IPv4zero else src)
    in ip_header n s dst (checksum (ip_header n s dst 0)))"
  have h: "length hdr = 20" "checksum hdr = 0"
    unfolding hdr_def Let_def by (simp add: ip_header_def) (rule ip_header_checksum)
  show ?thesis
    by (rule exI [of _ "copy_n 6 (dp_ClientMAC req) @ copy_n 6 (if length mac \<noteq> 6 then replicate 6 0 else mac) @ put16 etherTypeIPv4"],
        rule exI [of _ hdr], rule exI [of _ "put16 67 @ put16 68 @ put16 (word_of_nat (8 + length (dhcp_payload req yiaddr os))) @ [0, 0]"])
      (simp add: h, simp add: buildDHCPFrame_def hdr_def Let_def)
qed

end
