(* ===== verification/Recovery.thy ===== *)
theory Recovery
  imports SessionMgr Machine
begin

text \<open>
  The recovery tombstones of package session (\<open>internal/session/manager.go\<close>, the fields
  \<open>recoveryBy...\<close> of \<open>Manager\<close> and the methods on them): what is kept of a session that lost its
  tunnel so that the subscriber can be sent back through authentication. As for the
  authentication cache, a tombstone is changed only while no map points to it, so the maps
  hold values. \<open>clock\<close> is what \<open>time.Now()\<close> returns; \<open>ordM\<close> and \<open>ordI\<close> are the orders in which
  \<open>UpdateRecovery\<close> walks the maps.
\<close>

record recovery =
  rc_mac :: "string \<rightharpoonup> tombstone"
  rc_imsi :: "string \<rightharpoonup> tombstone"
  rc_ip :: "string \<rightharpoonup> tombstone"
  rc_teid :: "u32 \<rightharpoonup> tombstone"

definition empty_recovery :: recovery where
  "empty_recovery = \<lparr> rc_mac = Map.empty, rc_imsi = Map.empty, rc_ip = Map.empty, rc_teid = Map.empty \<rparr>"

definition cloneRecovery :: "tombstone \<Rightarrow> tombstone" where
  "cloneRecovery t = t\<lparr> t_MAC := clone_ip (t_MAC t), t_OldSubscriberIP := clone_ip (t_OldSubscriberIP t) \<rparr>"

definition mac_index :: "tombstone \<Rightarrow> string option" where
  "mac_index t = map_option mac_string (t_MAC t)"

definition indexRecoveryLocked :: "tombstone \<Rightarrow> recovery \<Rightarrow> recovery" where
  "indexRecoveryLocked t r = r\<lparr>
     rc_mac := (case t_MAC t of Some hw \<Rightarrow> (rc_mac r)(mac_string hw \<mapsto> t) | None \<Rightarrow> rc_mac r),
     rc_imsi := (if t_IMSI t \<noteq> [] then (rc_imsi r)(t_IMSI t \<mapsto> t) else rc_imsi r),
     rc_ip := (if t_OldSubscriberIP t \<noteq> None
               then (rc_ip r)(ip_string (t_OldSubscriberIP t) \<mapsto> t) else rc_ip r),
     rc_teid := (if t_OldRemoteTEID t \<noteq> 0 then (rc_teid r)(t_OldRemoteTEID t \<mapsto> t) else rc_teid r) \<rparr>"

definition unindexRecoveryLocked :: "tombstone \<Rightarrow> recovery \<Rightarrow> recovery" where
  "unindexRecoveryLocked t r = r\<lparr>
     rc_mac := (case t_MAC t of Some hw \<Rightarrow> (rc_mac r)(mac_string hw := None) | None \<Rightarrow> rc_mac r),
     rc_imsi := (if t_IMSI t \<noteq> [] then (rc_imsi r)(t_IMSI t := None) else rc_imsi r),
     rc_ip := (if t_OldSubscriberIP t \<noteq> None
               then (rc_ip r)(ip_string (t_OldSubscriberIP t) := None) else rc_ip r),
     rc_teid := (if t_OldRemoteTEID t \<noteq> 0 then (rc_teid r)(t_OldRemoteTEID t := None) else rc_teid r) \<rparr>"

definition recoveryExpired :: "time \<Rightarrow> tombstone \<Rightarrow> bool" where
  "recoveryExpired clock t \<longleftrightarrow> \<not> time_is_zero (t_ExpiresAt t) \<and> t_ExpiresAt t < clock"

definition checked :: "time \<Rightarrow> tombstone option \<Rightarrow> recovery \<Rightarrow> tombstone option \<times> recovery" where
  \<comment> \<open>the tail of the lookups: \<open>recoveryExpiredLocked\<close>, then the clone\<close>
  "checked clock to r = (case to of None \<Rightarrow> (None, r)
     | Some t \<Rightarrow> if recoveryExpired clock t then (None, unindexRecoveryLocked t r)
                else (Some (cloneRecovery t), r))"

definition tombstone_of :: "time \<Rightarrow> session \<Rightarrow> string \<Rightarrow> int \<Rightarrow> tombstone" where
  "tombstone_of clock s reason ttl =
     (let hw = (if s_MACAddress s \<noteq> [] then parse_mac (s_MACAddress s) else None) in
      \<lparr> t_MAC = hw, t_IMSI = s_IMSI s, t_APN = s_APN s,
        t_OldSubscriberIP = clone_ip (s_SubscriberIP s), t_OldSessionID = s_ID s,
        t_OldRemoteTEID = s_RemoteGTPUTEID s, t_OldLocalTEID = s_LocalGTPUTEID s,
        t_OriginalUsername = s_Username s, t_EAPIdentity = s_EAPIdentity s,
        t_RadiusState = s_RadiusState s, t_NASIP = s_NASIP s, t_NASIdentifier = s_NASIdentifier s,
        t_AcctSessionID = s_AcctSessionID s,
        t_CallingStationID = (case hw of Some b \<Rightarrow>
            if s_CallingStationID s = [] then mac_string b else s_CallingStationID s
          | None \<Rightarrow> s_CallingStationID s),
        t_CalledStationID = s_CalledStationID s, t_Class = s_RadiusClass s,
        t_ConnectInfo = s_ConnectInfo s, t_FramedMTU = s_FramedMTU s, t_Reason = reason,
        t_State = RecoveryRequired, t_CreatedAt = clock, t_ExpiresAt = clock + ttl,
        t_LastAction = [], t_LastError = [] \<rparr>)"

definition AddRecoveryTombstone ::
  "time \<Rightarrow> session option \<Rightarrow> string \<Rightarrow> int \<Rightarrow> recovery \<Rightarrow> tombstone option \<times> recovery" where
  "AddRecoveryTombstone clock so reason ttl r = (case so of None \<Rightarrow> (None, r)
     | Some s \<Rightarrow> if ttl \<le> 0 then (None, r)
        else let t = tombstone_of clock s reason ttl
             in (Some (cloneRecovery t), indexRecoveryLocked t r))"

fun scan :: "string \<Rightarrow> 'k list \<Rightarrow> ('k \<rightharpoonup> tombstone) \<Rightarrow> tombstone option" where
  "scan old [] mp = None"
| "scan old (k # ks) mp = (case mp k of
     Some t \<Rightarrow> if t_OldSessionID t = old then Some t else scan old ks mp
   | None \<Rightarrow> scan old ks mp)"

definition UpdateRecovery :: "time \<Rightarrow> string list \<Rightarrow> string list \<Rightarrow> string
    \<Rightarrow> (tombstone \<Rightarrow> tombstone) \<Rightarrow> recovery \<Rightarrow> tombstone option \<times> recovery" where
  "UpdateRecovery clock ordM ordI old fn r =
     (if old = [] then (None, r)
      else let t0 = scan old ordM (rc_mac r);
               t1 = (if t0 = None then scan old ordI (rc_imsi r) else t0)
           in case t1 of None \<Rightarrow> (None, r)
              | Some t \<Rightarrow>
                 if recoveryExpired clock t then (None, unindexRecoveryLocked t r)
                 else (Some (cloneRecovery (fn t)), indexRecoveryLocked (fn t) (unindexRecoveryLocked t r)))"

definition LookupRecoveryByMACAddr where
  "LookupRecoveryByMACAddr clock mac r = (case mac of None \<Rightarrow> (None, r)
     | Some hw \<Rightarrow> checked clock (rc_mac r (mac_string hw)) r)"

definition LookupRecoveryByIP where
  "LookupRecoveryByIP clock ip r = (if ip = None then (None, r)
     else checked clock (rc_ip r (ip_string ip)) r)"

definition recovery_candidate :: "string \<Rightarrow> string \<Rightarrow> recovery \<Rightarrow> tombstone option" where
  "recovery_candidate imsi mac r =
     (let t = (if mac \<noteq> [] then (case parse_mac mac of
                 Some hw \<Rightarrow> rc_mac r (mac_string hw) | None \<Rightarrow> rc_mac r mac) else None)
      in if t = None \<and> imsi \<noteq> [] then rc_imsi r imsi else t)"

definition FindRecovery where
  "FindRecovery clock imsi mac r = checked clock (recovery_candidate imsi mac r) r"

definition complete_candidate :: "session \<Rightarrow> recovery \<Rightarrow> tombstone option" where
  "complete_candidate s r =
     (let t = (if s_MACAddress s \<noteq> [] then (case parse_mac (s_MACAddress s) of
                 Some hw \<Rightarrow> rc_mac r (mac_string hw) | None \<Rightarrow> None) else None)
      in if t = None \<and> s_IMSI s \<noteq> [] then rc_imsi r (s_IMSI s) else t)"

definition CompleteRecoveryFor ::
  "time \<Rightarrow> session option \<Rightarrow> recovery \<Rightarrow> tombstone option \<times> recovery" where
  "CompleteRecoveryFor clock so r = (case so of None \<Rightarrow> (None, r)
     | Some s \<Rightarrow> (case complete_candidate s r of None \<Rightarrow> (None, r)
        | Some t \<Rightarrow> if recoveryExpired clock t then (None, unindexRecoveryLocked t r)
                   else (Some (cloneRecovery t), unindexRecoveryLocked t r)))"

section \<open>The invariant: a tombstone is filed under its own keys only\<close>

definition rec_inv :: "recovery \<Rightarrow> bool" where
  "rec_inv r \<longleftrightarrow>
     (\<forall>k t. rc_mac r k = Some t \<longrightarrow> mac_index t = Some k)
     \<and> (\<forall>k t. rc_imsi r k = Some t \<longrightarrow> t_IMSI t = k \<and> k \<noteq> [])
     \<and> (\<forall>k t. rc_ip r k = Some t \<longrightarrow> t_OldSubscriberIP t \<noteq> None \<and> ip_string (t_OldSubscriberIP t) = k)
     \<and> (\<forall>k t. rc_teid r k = Some t \<longrightarrow> t_OldRemoteTEID t = k \<and> k \<noteq> 0)"

lemma rec_inv_empty [simp]: "rec_inv empty_recovery"
  by (simp add: rec_inv_def empty_recovery_def)

lemma rec_inv_index: "rec_inv r \<Longrightarrow> rec_inv (indexRecoveryLocked t r)"
  unfolding rec_inv_def indexRecoveryLocked_def mac_index_def by (auto split: option.splits)

lemma rec_inv_unindex: "rec_inv r \<Longrightarrow> rec_inv (unindexRecoveryLocked t r)"
  unfolding rec_inv_def unindexRecoveryLocked_def by (auto split: option.splits)

lemma checked_inv: "rec_inv r \<Longrightarrow> rec_inv (snd (checked clock to r))"
  by (simp add: checked_def rec_inv_unindex split: option.splits)

lemma rec_invD:
  assumes "rec_inv r"
  shows "rc_mac r k = Some t \<Longrightarrow> mac_index t = Some k"
    "rc_imsi r k = Some t \<Longrightarrow> t_IMSI t = k \<and> k \<noteq> []"
    "rc_ip r k = Some t \<Longrightarrow> t_OldSubscriberIP t \<noteq> None \<and> ip_string (t_OldSubscriberIP t) = k"
    "rc_teid r n = Some t \<Longrightarrow> t_OldRemoteTEID t = n \<and> n \<noteq> 0"
  using assms unfolding rec_inv_def by blast+

lemma unindexed:
  assumes "rec_inv r"
  shows "rc_mac (unindexRecoveryLocked t r) k \<noteq> Some t" "rc_imsi (unindexRecoveryLocked t r) k \<noteq> Some t"
    "rc_ip (unindexRecoveryLocked t r) i \<noteq> Some t" "rc_teid (unindexRecoveryLocked t r) n \<noteq> Some t"
  by (cases "t_MAC t"; auto simp: unindexRecoveryLocked_def mac_index_def dest: rec_invD(1) [OF assms])
    (auto simp: unindexRecoveryLocked_def split: if_splits dest: rec_invD(2-4) [OF assms])

datatype rec_op =
    RAdd time session string int
  | RMark time "string list" "string list" string recovery_state string string
  | RByMAC time "bytes option"
  | RByIP time ip
  | RFind time string string
  | RComplete time session

fun exec_rec :: "rec_op \<Rightarrow> recovery \<Rightarrow> tombstone option \<times> recovery" where
  "exec_rec (RAdd clock s reason ttl) r = AddRecoveryTombstone clock (Some s) reason ttl r"
| "exec_rec (RMark clock ordM ordI old st act err) r = UpdateRecovery clock ordM ordI old
     (\<lambda>t. t\<lparr> t_State := st, t_LastAction := act, t_LastError := err \<rparr>) r"
| "exec_rec (RByMAC clock mac) r = LookupRecoveryByMACAddr clock mac r"
| "exec_rec (RByIP clock ip) r = LookupRecoveryByIP clock ip r"
| "exec_rec (RFind clock imsi mac) r = FindRecovery clock imsi mac r"
| "exec_rec (RComplete clock s) r = CompleteRecoveryFor clock (Some s) r"

interpretation tombs: machine exec_rec "\<lambda>_ _. True" rec_inv
proof
  fix r op assume "rec_inv r"
  then show "rec_inv (snd (exec_rec op r))"
    by (cases op) (auto simp: AddRecoveryTombstone_def UpdateRecovery_def LookupRecoveryByMACAddr_def
        LookupRecoveryByIP_def FindRecovery_def CompleteRecoveryFor_def Let_def
        rec_inv_index rec_inv_unindex checked_inv split: option.splits)
qed

section \<open>Properties\<close>

definition recovery_after :: "rec_op list \<Rightarrow> recovery" where
  "recovery_after ops = snd (run exec_rec ops empty_recovery)"

lemma recovery_after_inv: "rec_inv (recovery_after ops)"
proof -
  have "legal exec_rec (\<lambda>_ _. True) ops s" for s by (induction ops arbitrary: s) simp_all
  then show ?thesis unfolding recovery_after_def by (intro tombs.run_inv) simp_all
qed

text \<open>When a session is re-established its tombstone goes away: after
  \<open>CompleteRecoveryFor\<close> the tombstone it found is in none of the four maps, whether it was
  returned or had expired, and what is returned has not expired and belongs to the
  session's MAC address or IMSI.\<close>

theorem recovery_completed:
  assumes "r = recovery_after ops" "complete_candidate s r = Some t"
    "CompleteRecoveryFor clock (Some s) r = (out, r')"
  shows "t \<notin> ran (rc_mac r') \<union> ran (rc_imsi r') \<union> ran (rc_ip r') \<union> ran (rc_teid r')
    \<and> (out = None \<longleftrightarrow> recoveryExpired clock t) \<and> (out \<noteq> None \<longrightarrow> out = Some (cloneRecovery t))
    \<and> (parse_mac (s_MACAddress s) = t_MAC t \<or> t_IMSI t = s_IMSI s \<or>
         mac_index t = map_option mac_string (parse_mac (s_MACAddress s)))"
proof -
  have inv: "rec_inv r" using assms(1) recovery_after_inv by simp
  have r': "r' = unindexRecoveryLocked t r" using assms(2,3) by (auto simp: CompleteRecoveryFor_def split: if_splits)
  have "mac_index t = map_option mac_string (parse_mac (s_MACAddress s)) \<or> t_IMSI t = s_IMSI s"
    using assms(2) inv unfolding complete_candidate_def rec_inv_def
    by (auto simp: Let_def split: if_splits option.splits)
  with assms(2,3) unindexed [OF inv, of t] show ?thesis
    by (auto simp: CompleteRecoveryFor_def r' ran_def split: if_splits)
qed

text \<open>A tombstone is found by the subscriber it was made for until its time is over: after
  \<open>AddRecoveryTombstone\<close> for a session with a MAC address and an IMSI, \<open>FindRecovery\<close> by
  either returns it before \<open>clock + ttl\<close>, and returns nothing later and forgets it.\<close>

theorem recovery_found_until_expiry:
  assumes "0 < ttl" "s_MACAddress s \<noteq> []" "parse_mac (s_MACAddress s) = Some hw" "s_IMSI s \<noteq> []"
    "AddRecoveryTombstone clock (Some s) reason ttl (recovery_after ops) = (Some t, r)"
    "clock + ttl \<noteq> zero_time"
  shows "if now \<le> clock + ttl
    then fst (FindRecovery now (s_IMSI s) (s_MACAddress s) r) = Some t
       \<and> fst (FindRecovery now (s_IMSI s) [] r) = Some t \<and> t_OldSessionID t = s_ID s
       \<and> t_State t = RecoveryRequired
    else fst (FindRecovery now (s_IMSI s) (s_MACAddress s) r) = None
       \<and> fst (FindRecovery now (s_IMSI s) []
           (snd (FindRecovery now (s_IMSI s) (s_MACAddress s) r))) = None"
proof -
  define u where "u = tombstone_of clock s reason ttl"
  have u: "t_MAC u = Some hw" "t_IMSI u = s_IMSI s" "t_ExpiresAt u = clock + ttl" "t_OldSessionID u = s_ID s"
    "t_State u = RecoveryRequired"
    using assms(2,3) by (simp_all add: u_def tombstone_of_def)
  have r: "r = indexRecoveryLocked u (recovery_after ops)" "t = cloneRecovery u"
    using assms(1,5) by (auto simp: AddRecoveryTombstone_def u_def Let_def)
  have cand: "recovery_candidate (s_IMSI s) (s_MACAddress s) r = Some u" "recovery_candidate (s_IMSI s) [] r = Some u"
    using assms(2-4) u(1,2) by (simp_all add: recovery_candidate_def r(1) indexRecoveryLocked_def)
  have "recoveryExpired now u \<longleftrightarrow> clock + ttl < now"
    using assms(6) by (auto simp: recoveryExpired_def u(3) time_is_zero_def)
  moreover have "recovery_candidate (s_IMSI s) [] (unindexRecoveryLocked u r) = None"
    using assms(4) u(2) by (simp add: recovery_candidate_def unindexRecoveryLocked_def)
  ultimately show ?thesis
    using cand u by (auto simp: FindRecovery_def checked_def r(2) cloneRecovery_def)
qed

definition sample_session :: session where
  "sample_session = zero_session\<lparr> s_ID := ''twag-5-1'', s_IMSI := ''001010000000001'',
     s_MACAddress := ''02:00:00:00:00:01'' \<rparr>"

lemma sample_session_mac: "parse_mac ''02:00:00:00:00:01'' = Some [2, 0, 0, 0, 0, 1]"
  by code_simp

lemma sample_session_fields: "s_IMSI sample_session = ''001010000000001''"
  "s_MACAddress sample_session = ''02:00:00:00:00:01''" "s_ID sample_session = ''twag-5-1''"
  by (simp_all add: sample_session_def)

theorem recovery_found_until_expiry_witness:
  "\<exists>t r. AddRecoveryTombstone 0 (Some sample_session) ''lost'' 10 (recovery_after []) = (Some t, r)
     \<and> fst (FindRecovery 9 ''001010000000001'' [] r) = Some t"
proof -
  obtain t r where tr: "AddRecoveryTombstone 0 (Some sample_session) ''lost'' 10 (recovery_after []) = (Some t, r)"
    by (simp add: AddRecoveryTombstone_def Let_def)
  from recovery_found_until_expiry [OF _ _ _ _ tr, of "[2, 0, 0, 0, 0, 1]" 9] tr show ?thesis
    by (auto simp: sample_session_fields sample_session_mac zero_time_def)
qed

theorem recovery_completed_witness:
  "\<exists>t. CompleteRecoveryFor 5 (Some sample_session)
         (recovery_after [RAdd 0 sample_session ''lost'' 10]) = (Some t, empty_recovery)
     \<and> t_OldSessionID t = ''twag-5-1''"
proof -
  define u where "u = tombstone_of 0 sample_session ''lost'' 10"
  have u: "t_MAC u = Some [2, 0, 0, 0, 0, 1]" "t_IMSI u = ''001010000000001''" "t_ExpiresAt u = 10"
    "t_OldSessionID u = ''twag-5-1''" "t_OldSubscriberIP u = None" "t_OldRemoteTEID u = 0"
    by (simp_all add: u_def tombstone_of_def sample_session_def sample_session_mac zero_session_def)
  have r: "recovery_after [RAdd 0 sample_session ''lost'' 10] = indexRecoveryLocked u empty_recovery"
    by (simp add: recovery_after_def AddRecoveryTombstone_def u_def Let_def)
  have cand: "complete_candidate sample_session (recovery_after [RAdd 0 sample_session ''lost'' 10]) = Some u"
    by (simp add: complete_candidate_def r indexRecoveryLocked_def u sample_session_fields sample_session_mac)
  obtain out r' where out: "CompleteRecoveryFor 5 (Some sample_session)
      (recovery_after [RAdd 0 sample_session ''lost'' 10]) = (out, r')" by fastforce
  from recovery_completed [OF refl cand out] have "out = Some (cloneRecovery u)"
    by (auto simp: recoveryExpired_def u(3))
  with out cand show ?thesis
    by (auto simp: CompleteRecoveryFor_def recoveryExpired_def u cloneRecovery_def r
        unindexRecoveryLocked_def indexRecoveryLocked_def empty_recovery_def)
qed

end
