(* ===== verification/AccessSide.thy ===== *)
theory AccessSide
  imports AccessNet Recovery
begin

text \<open>
  The access side (\<open>internal/accessside\<close>): the ARP proxy, the DHCP server and the forwarding
  manager. Each frame handler is a function from the frame, the session table, the recovery
  tombstones and the server's own state to the reply (\<open>None\<close> for no reply), the callbacks it
  starts and the new state. Within one call \<open>time.Now()\<close> is one value, \<open>clock\<close>. Reading frames
  from raw sockets and logging are left out; the netlink handle of the forwarding manager is a
  parameter.
\<close>

section \<open>Configuration\<close>

record dhcp_config =
  dc_Enabled :: bool
  dc_RequireAuthorizedSession :: bool
  dc_RecoverFromAuthCache :: bool
  dc_LeaseTimeSeconds :: u32
  dc_RenewalTimeSeconds :: u32
  dc_RebindingTimeSeconds :: u32
  dc_Interface :: string
  dc_Mode :: string
  dc_Netmask :: string
  dc_Router :: string
  dc_ServerIdentifier :: string
  dc_DNS :: "string list"
  dc_StaleRequestAction :: string

record arp_config =
  ac_Enabled :: bool
  ac_Interface :: string
  ac_GatewayIP :: string
  ac_RequireAuthorizedSession :: bool

record forwarding_config =
  fc_Enabled :: bool
  fc_Interface :: string
  fc_RequireAuthorizedSession :: bool
  fc_VirtualGatewayIP :: string

section \<open>The ARP proxy\<close>

definition arp_authorizedSession ::
  "arp_config \<Rightarrow> manager \<Rightarrow> bytes \<Rightarrow> ip \<Rightarrow> session option \<times> bool" where
  "arp_authorizedSession cfg m mac senderIP =
     (if \<not> ac_RequireAuthorizedSession cfg then (Some zero_session, True)
      else case LookupByMACAddr (Some mac) m of
        None \<Rightarrow> (None, False)
      | Some sess \<Rightarrow>
          if s_State sess \<noteq> Active \<or> s_SubscriberIP sess = None then (Some sess, False)
          else if senderIP \<noteq> None \<and> \<not> ip_equal senderIP IPv4zero
                  \<and> \<not> ip_equal senderIP (s_SubscriberIP sess) then (Some sess, False)
          else (Some sess, True))"

definition arp_HandleFrame ::
  "arp_config \<Rightarrow> bytes \<Rightarrow> time \<Rightarrow> manager \<Rightarrow> bytes \<Rightarrow> recovery \<Rightarrow> bytes option \<times> recovery" where
  "arp_HandleFrame cfg ifaceMAC clock m frame r = (case parseARPRequest frame of
     None \<Rightarrow> (None, r)
   | Some req \<Rightarrow>
      let gateway = to4 (parse_ip (ac_GatewayIP cfg)) in
      if gateway = None \<or> \<not> ip_equal (ar_TargetIP req) gateway then (None, r)
      else let (sess, authorized) = arp_authorizedSession cfg m (ar_SenderMAC req) (ar_SenderIP req) in
        if \<not> authorized then (None, snd (LookupRecoveryByMACAddr clock (Some (ar_SenderMAC req)) r))
        else (Some (buildARPReply req ifaceMAC gateway), r))"

section \<open>The DHCP server\<close>

record lease =
  le_SessionID :: string
  le_IMSI :: string
  le_SubscriberIP :: ip
  le_ExpiresAt :: time

record dhcp_server =
  ds_cfg :: dhcp_config
  ds_ifaceMAC :: bytes
  ds_leases :: "string \<rightharpoonup> lease"
  ds_recoveryHandler :: bool  \<comment> \<open>a recovery handler is set\<close>
  ds_authCacheHandler :: bool
  ds_recoveryAttempts :: "string \<rightharpoonup> time"

datatype dhcp_callback = CallAuthCache string | CallRecoveryAttach tombstone

definition NewDHCPServer :: "dhcp_config \<Rightarrow> bytes \<Rightarrow> dhcp_server" where
  "NewDHCPServer cfg mac = \<lparr> ds_cfg = cfg, ds_ifaceMAC = mac, ds_leases = Map.empty,
     ds_recoveryHandler = False, ds_authCacheHandler = False, ds_recoveryAttempts = Map.empty \<rparr>"

definition SetRecoveryAttachHandler :: "bool \<Rightarrow> dhcp_server \<Rightarrow> dhcp_server" where
  "SetRecoveryAttachHandler h s = s\<lparr> ds_recoveryHandler := h \<rparr>"

definition SetAuthCacheRecoveryHandler :: "bool \<Rightarrow> dhcp_server \<Rightarrow> dhcp_server" where
  "SetAuthCacheRecoveryHandler h s = s\<lparr> ds_authCacheHandler := h \<rparr>"

definition dhcp_RemoveSession :: "session option \<Rightarrow> dhcp_server \<Rightarrow> dhcp_server" where
  "dhcp_RemoveSession so s = (case so of None \<Rightarrow> s
     | Some sess \<Rightarrow> if s_MACAddress sess = [] then s
                   else s\<lparr> ds_leases := (ds_leases s)(s_MACAddress sess := None) \<rparr>)"

definition too_soon :: "time \<Rightarrow> int \<Rightarrow> string \<Rightarrow> dhcp_server \<Rightarrow> bool" where
  "too_soon clock limit key s = (case ds_recoveryAttempts s key of
     None \<Rightarrow> False | Some t \<Rightarrow> \<not> time_is_zero t \<and> clock - t < limit)"

definition attempt :: "time \<Rightarrow> int \<Rightarrow> string \<Rightarrow> dhcp_callback \<Rightarrow> dhcp_server
    \<Rightarrow> dhcp_callback list \<times> dhcp_server" where
  "attempt clock limit key cb s =
     (if too_soon clock limit key s then ([], s)
      else ([cb], s\<lparr> ds_recoveryAttempts := (ds_recoveryAttempts s)(key \<mapsto> clock) \<rparr>))"

definition triggerAuthCacheRecovery ::
  "time \<Rightarrow> bytes \<Rightarrow> dhcp_server \<Rightarrow> dhcp_callback list \<times> dhcp_server" where
  "triggerAuthCacheRecovery clock mac s =
     (if \<not> dc_RecoverFromAuthCache (ds_cfg s) \<or> \<not> ds_authCacheHandler s then ([], s)
      else attempt clock (seconds 2) (''auth-cache|'' @ mac_string mac)
             (CallAuthCache (mac_string mac)) s)"

definition attach_key :: "tombstone \<Rightarrow> string" where
  "attach_key t = (if t_OldSessionID t = [] \<and> t_MAC t \<noteq> None
     then mac_string (ip_bytes (t_MAC t)) else t_OldSessionID t)"

definition triggerRecoveryAttach ::
  "time \<Rightarrow> tombstone option \<Rightarrow> dhcp_server \<Rightarrow> dhcp_callback list \<times> dhcp_server" where
  "triggerRecoveryAttach clock to s = (case to of None \<Rightarrow> ([], s)
     | Some t \<Rightarrow>
        if \<not> ds_recoveryHandler s \<or> attach_key t = [] then ([], s)
        else attempt clock (seconds 5) (attach_key t) (CallRecoveryAttach t) s)"

definition dhcp_authorizedSession :: "dhcp_config \<Rightarrow> manager \<Rightarrow> bytes \<Rightarrow> session option \<times> bool" where
  "dhcp_authorizedSession cfg m mac =
     (if \<not> dc_RequireAuthorizedSession cfg
      then (Some (zero_session\<lparr> s_SubscriberIP := parse_ip ''0.0.0.0'' \<rparr>), True)
      else case LookupByMACAddr (Some mac) m of
        None \<Rightarrow> (None, False)
      | Some sess \<Rightarrow> (Some sess, s_State sess = Active \<and> s_SubscriberIP sess \<noteq> None))"

definition reply_options :: "dhcp_config \<Rightarrow> byte \<Rightarrow> dhcp_option list" where
  "reply_options cfg msgType =
     [(optMessageType, [msgType]),
      (optSubnetMask, ip_bytes (to4 (parse_ip (dc_Netmask cfg)))),
      (optRouter, ip_bytes (to4 (parse_ip (dc_Router cfg)))),
      (optDNSServer, ipListBytes (dc_DNS cfg)),
      (optLeaseTime, put32 (dc_LeaseTimeSeconds cfg)),
      (optServerIdentifier, ip_bytes (to4 (parse_ip (dc_ServerIdentifier cfg)))),
      (optRenewalTime, put32 (dc_RenewalTimeSeconds cfg)),
      (optRebindingTime, put32 (dc_RebindingTimeSeconds cfg))]"

definition buildReply :: "dhcp_server \<Rightarrow> dhcp_packet \<Rightarrow> session \<Rightarrow> byte \<Rightarrow> bytes" where
  "buildReply s req sess msgType =
     buildDHCPFrame req (ds_ifaceMAC s) (parse_ip (dc_ServerIdentifier (ds_cfg s)))
       (to4 (s_SubscriberIP sess)) IPv4bcast (reply_options (ds_cfg s) msgType)"

definition buildNAK :: "dhcp_server \<Rightarrow> dhcp_packet \<Rightarrow> bytes" where
  "buildNAK s req =
     buildDHCPFrame req (ds_ifaceMAC s) (parse_ip (dc_ServerIdentifier (ds_cfg s))) IPv4zero IPv4bcast
       [(optMessageType, [dhcpNak]),
        (optServerIdentifier, ip_bytes (to4 (parse_ip (dc_ServerIdentifier (ds_cfg s)))))]"

definition lease_of :: "time \<Rightarrow> dhcp_config \<Rightarrow> session \<Rightarrow> lease" where
  "lease_of clock cfg sess = \<lparr> le_SessionID = s_ID sess, le_IMSI = s_IMSI sess,
     le_SubscriberIP = clone_ip (s_SubscriberIP sess),
     le_ExpiresAt = clock + seconds (int (unat (dc_LeaseTimeSeconds cfg))) \<rparr>"

type_synonym dhcp_result = "bytes option \<times> dhcp_callback list \<times> dhcp_server \<times> recovery"

definition handle_discover ::
  "time \<Rightarrow> dhcp_packet \<Rightarrow> session option \<times> bool \<Rightarrow> dhcp_server \<Rightarrow> recovery \<Rightarrow> dhcp_result" where
  "handle_discover clock p auth s r = (case auth of
     (Some sess, True) \<Rightarrow> (Some (buildReply s p sess dhcpOffer), [], s, r)
   | _ \<Rightarrow>
      let (t, r') = LookupRecoveryByMACAddr clock (Some (dp_ClientMAC p)) r;
          (cbs, s') = (if t \<noteq> None then triggerRecoveryAttach clock t s
                       else triggerAuthCacheRecovery clock (dp_ClientMAC p) s)
      in (None, cbs, s', r'))"

definition stale_action :: "dhcp_config \<Rightarrow> string" where
  "stale_action cfg = (if dc_StaleRequestAction cfg = [] then ''ignore'' else dc_StaleRequestAction cfg)"

definition handle_request ::
  "time \<Rightarrow> dhcp_packet \<Rightarrow> session option \<times> bool \<Rightarrow> dhcp_server \<Rightarrow> recovery \<Rightarrow> dhcp_result" where
  "handle_request clock p auth s r = (case auth of
     (Some sess, True) \<Rightarrow>
      let requested = firstIP [dp_RequestedIP p, dp_ClientIP p] in
      if requested \<noteq> None \<and> \<not> ip_equal requested (s_SubscriberIP sess) then (Some (buildNAK s p), [], s, r)
      else (Some (buildReply s p sess dhcpAck), [],
            s\<lparr> ds_leases := (ds_leases s)(mac_string (dp_ClientMAC p) \<mapsto> lease_of clock (ds_cfg s) sess) \<rparr>, r)
   | _ \<Rightarrow>
      let (t, r') = LookupRecoveryByMACAddr clock (Some (dp_ClientMAC p)) r in
      if t \<noteq> None then
        (if stale_action (ds_cfg s) = ''nak'' then Some (buildNAK s p) else None, [], s, r')
      else let (cbs, s') = triggerAuthCacheRecovery clock (dp_ClientMAC p) s in (None, cbs, s', r'))"

definition dhcp_HandleFrame ::
  "time \<Rightarrow> manager \<Rightarrow> bytes \<Rightarrow> dhcp_server \<Rightarrow> recovery \<Rightarrow> dhcp_result" where
  "dhcp_HandleFrame clock m frame s r = (case parseDHCPFrame frame of
     None \<Rightarrow> (None, [], s, r)
   | Some p \<Rightarrow>
      let auth = dhcp_authorizedSession (ds_cfg s) m (dp_ClientMAC p) in
      if dp_MessageType p = dhcpDiscover then handle_discover clock p auth s r
      else if dp_MessageType p = dhcpRequest then handle_request clock p auth s r
      else (None, [], s, r))"

section \<open>The forwarding manager\<close>

text \<open>What the code tells apart of the errors of the netlink library, and the message it sends.\<close>

datatype nl_error = LinkNotFound | NotExist | ENOENT | ESRCH | OtherNetlinkError string

record neigh =
  ne_LinkIndex :: int
  ne_Permanent :: bool
  ne_IP :: ip
  ne_HardwareAddr :: bytes

record netlink =
  nl_LinkByName :: "string \<Rightarrow> nl_error + int"
  nl_NeighSet :: "neigh \<Rightarrow> nl_error option"
  nl_NeighDel :: "neigh \<Rightarrow> nl_error option"

datatype acc_error = CtxErr string | LookupInterface string nl_error | ParseSessionMAC string | Netlink nl_error

datatype nl_call = NeighSet neigh | NeighDel neigh

definition isNotFound :: "nl_error \<Rightarrow> bool" where
  "isNotFound e \<longleftrightarrow> e \<in> {LinkNotFound, NotExist, ENOENT, ESRCH}"

definition neigh_of :: "forwarding_config \<Rightarrow> netlink \<Rightarrow> bool \<Rightarrow> session \<Rightarrow> acc_error + neigh" where
  "neigh_of fc nl permanent sess = (case nl_LinkByName nl (fc_Interface fc) of
     Inl e \<Rightarrow> Inl (LookupInterface (fc_Interface fc) e)
   | Inr ix \<Rightarrow> (case parse_mac (s_MACAddress sess) of
       None \<Rightarrow> Inl (ParseSessionMAC (s_MACAddress sess))
     | Some mac \<Rightarrow> Inr \<lparr> ne_LinkIndex = ix, ne_Permanent = permanent,
         ne_IP = to4 (s_SubscriberIP sess), ne_HardwareAddr = mac \<rparr>))"

definition installNeighbor ::
  "forwarding_config \<Rightarrow> netlink option \<Rightarrow> session \<Rightarrow> acc_error option \<times> nl_call list" where
  "installNeighbor fc nlo sess = (case nlo of None \<Rightarrow> (None, [])
     | Some nl \<Rightarrow> (case neigh_of fc nl True sess of
         Inl e \<Rightarrow> (Some e, [])
       | Inr n \<Rightarrow> (map_option Netlink (nl_NeighSet nl n), [NeighSet n])))"

definition removeNeighbor ::
  "forwarding_config \<Rightarrow> netlink option \<Rightarrow> session \<Rightarrow> acc_error option \<times> nl_call list" where
  "removeNeighbor fc nlo sess = (case nlo of None \<Rightarrow> (None, [])
     | Some nl \<Rightarrow> (case neigh_of fc nl False sess of
         Inl e \<Rightarrow> (Some e, [])
       | Inr n \<Rightarrow> (case nl_NeighDel nl n of
           Some e \<Rightarrow> (if isNotFound e then None else Some (Netlink e), [NeighDel n])
         | None \<Rightarrow> (None, [NeighDel n]))))"

definition access_AddSession :: "forwarding_config \<Rightarrow> netlink option \<Rightarrow> string option
    \<Rightarrow> session option \<Rightarrow> acc_error option \<times> nl_call list" where
  "access_AddSession fc nlo ctx_err so = (case ctx_err of Some e \<Rightarrow> (Some (CtxErr e), [])
     | None \<Rightarrow> (case so of None \<Rightarrow> (None, [])
       | Some sess \<Rightarrow>
          if \<not> fc_Enabled fc then (None, [])
          else if fc_RequireAuthorizedSession fc \<and> s_State sess \<noteq> Active then (None, [])
          else if s_SubscriberIP sess = None \<or> s_MACAddress sess = [] then (None, [])
          else installNeighbor fc nlo sess))"

definition access_RemoveSession :: "forwarding_config \<Rightarrow> netlink option \<Rightarrow> string option
    \<Rightarrow> session option \<Rightarrow> dhcp_server \<Rightarrow> (acc_error option \<times> nl_call list) \<times> dhcp_server" where
  "access_RemoveSession fc nlo ctx_err so ds = (case ctx_err of Some e \<Rightarrow> ((Some (CtxErr e), []), ds)
     | None \<Rightarrow> (case so of None \<Rightarrow> ((None, []), ds)
       | Some sess \<Rightarrow>
          (if \<not> fc_Enabled fc \<or> s_SubscriberIP sess = None \<or> s_MACAddress sess = [] then (None, [])
           else removeNeighbor fc nlo sess,
           dhcp_RemoveSession (Some sess) ds)))"

end
