(* ===== verification/AccessProps.thy ===== *)
theory AccessProps
  imports AccessSide SessionProps
begin

text \<open>
  What the access side guarantees: who gets an address or an ARP answer, that replies are well
  formed, and that recoveries are rate limited.
\<close>

section \<open>Reading a reply back\<close>

definition frame_dhcp :: "bytes \<Rightarrow> bytes" where "frame_dhcp f = drop 42 f"

definition frame_yiaddr :: "bytes \<Rightarrow> bytes" where "frame_yiaddr f = slice (frame_dhcp f) 16 20"

definition frame_options :: "bytes \<Rightarrow> (byte \<rightharpoonup> bytes)" where
  "frame_options f = parseOptions (drop 240 (frame_dhcp f)) Map.empty"

definition frame_dst :: "bytes \<Rightarrow> bytes" where "frame_dst f = take 6 f"

definition frame_ip_header :: "bytes \<Rightarrow> bytes" where "frame_ip_header f = slice f 14 34"

lemma built_frame:
  assumes "f = buildDHCPFrame req mac src yiaddr dst os" "list_all opt_ok os"
  shows "checksum (frame_ip_header f) = 0" "frame_dst f = copy_n 6 (dp_ClientMAC req)"
    "frame_yiaddr f = copy_n 4 (ip_bytes (to4 yiaddr))" "frame_options f = read_opts os Map.empty"
proof -
  obtain eth hdr udp where f: "f = eth @ hdr @ udp @ dhcp_payload req yiaddr os"
    and l: "length eth = 14" "take 6 eth = copy_n 6 (dp_ClientMAC req)" "length hdr = 20"
      "checksum hdr = 0" "length udp = 8"
    using buildDHCPFrame_parts [of req mac src yiaddr dst os] assms(1) by blast
  have d: "frame_dhcp f = dhcp_payload req yiaddr os" using l by (simp add: frame_dhcp_def f)
  show "checksum (frame_ip_header f) = 0" using l by (simp add: frame_ip_header_def slice_def f)
  show "frame_dst f = copy_n 6 (dp_ClientMAC req)" using l by (simp add: frame_dst_def f)
  show "frame_yiaddr f = copy_n 4 (ip_bytes (to4 yiaddr))"
    unfolding frame_yiaddr_def d by (simp add: dhcp_payload_def slice_def put32_def)
  have "drop 240 (dhcp_payload req yiaddr os) = encode_options os @ optEnd # []"
    by (simp add: dhcp_payload_def)
  then show "frame_options f = read_opts os Map.empty"
    unfolding frame_options_def d using assms(2) by (simp add: parseOptions_encode)
qed

lemma length_ip_bytes_to4: "length (ip_bytes (to4 x)) \<le> 4"
  by (cases "to4 x") (simp_all add: ip_bytes_def to4_length)

lemma length_ipListBytes: "length (ipListBytes vs) \<le> 4 * length vs"
  by (induction vs) (auto dest: to4_length split: option.splits)

lemma reply_options_ok:
  assumes "length (dc_DNS cfg) < 64" shows "list_all opt_ok (reply_options cfg ty)"
proof -
  have "length (ip_bytes (to4 x)) < 256" for x using length_ip_bytes_to4 [of x] by linarith
  moreover have "length (ipListBytes (dc_DNS cfg)) < 256"
    using length_ipListBytes [of "dc_DNS cfg"] assms by linarith
  ultimately show ?thesis by (simp add: reply_options_def opt_ok_def dhcp_consts)
qed

lemma nak_options_ok: "list_all opt_ok [(optMessageType, [dhcpNak]), (optServerIdentifier, ip_bytes (to4 x))]"
  using length_ip_bytes_to4 [of x] by (simp add: opt_ok_def dhcp_consts)

lemma read_opts_message_type: "read_opts (reply_options cfg ty) Map.empty optMessageType = Some [ty]"
  by (simp add: reply_options_def dhcp_consts)

lemma reply_fields:
  assumes "length (dc_DNS (ds_cfg s)) < 64"
  shows "frame_options (buildReply s p sess ty) optMessageType = Some [ty]"
    "frame_yiaddr (buildReply s p sess ty) = copy_n 4 (ip_bytes (to4 (to4 (s_SubscriberIP sess))))"
    "frame_dst (buildReply s p sess ty) = copy_n 6 (dp_ClientMAC p)"
  using built_frame [OF buildReply_def reply_options_ok [OF assms]]
  by (simp_all add: read_opts_message_type)

lemma nak_fields:
  "frame_options (buildNAK s p) optMessageType = Some [dhcpNak]"
  "frame_yiaddr (buildNAK s p) = [0, 0, 0, 0]"
  using built_frame [OF buildNAK_def nak_options_ok]
  by (simp_all add: dhcp_consts IPv4zero_def copy_n_def ip_bytes_def)

lemma to4_to4 [simp]: "to4 (to4 x) = to4 x"
  by (cases "to4 x") (simp_all add: to4_idem, simp add: to4_def)

section \<open>Who gets a reply\<close>

lemma dhcp_authorized:
  assumes "dhcp_authorizedSession cfg m mac = (Some sess, True)" "dc_RequireAuthorizedSession cfg"
  shows "LookupByMACAddr (Some mac) m = Some sess" "s_State sess = Active" "s_SubscriberIP sess \<noteq> None"
  using assms by (auto simp: dhcp_authorizedSession_def split: option.splits)

lemma unauthorized_cases:
  "(case auth of (Some sess, True) \<Rightarrow> A sess | _ \<Rightarrow> B) = (if snd auth \<and> fst auth \<noteq> None then A (the (fst auth)) else B)"
  by (auto split: option.splits prod.splits bool.splits)

lemma discover_reply:
  "fst (handle_discover clock p auth s r) = Some f \<longleftrightarrow>
     (\<exists>sess. auth = (Some sess, True) \<and> f = buildReply s p sess dhcpOffer)"
  unfolding handle_discover_def unauthorized_cases by (auto simp: split_beta Let_def prod_eq_iff)

lemma request_reply:
  assumes "fst (handle_request clock p auth s r) = Some f"
  shows "f = buildNAK s p \<or>
     (\<exists>sess. auth = (Some sess, True) \<and> f = buildReply s p sess dhcpAck
        \<and> (case firstIP [dp_RequestedIP p, dp_ClientIP p] of None \<Rightarrow> True
           | Some a \<Rightarrow> ip_equal (Some a) (s_SubscriberIP sess)))"
  using assms unfolding handle_request_def unauthorized_cases
  by (auto simp: split_beta Let_def prod_eq_iff split: if_splits option.splits)

lemma LookupByMACAddr_sound:
  assumes "legal_calls ops" "LookupByMACAddr (Some mac) (after ops) = Some sess"
  shows "Get (s_ID sess) (after ops) = Some sess" "macMatches (s_MACAddress sess) (mac_string mac)"
  using LookupByMAC_sound [OF after_inv [OF assms(1)], of "mac_string mac" sess] assms(2)
  by (simp_all add: LookupByMACAddr_def)

lemma parsed_client_mac: "parseDHCPFrame frame = Some p \<Longrightarrow> length (dp_ClientMAC p) = 6"
  by (auto simp: parseDHCPFrame_def slice_def Let_def split: if_splits)

lemma parsed_client_ip: "parseDHCPFrame frame = Some p \<Longrightarrow> dp_ClientIP p \<noteq> None"
  by (auto simp: parseDHCPFrame_def Let_def split: if_splits)

lemma HandleFrame_reply:
  assumes "fst (dhcp_HandleFrame clock m frame s r) = Some f"
  obtains p where "parseDHCPFrame frame = Some p" "f = buildNAK s p"
  | p sess ty where "parseDHCPFrame frame = Some p" "f = buildReply s p sess ty" "ty = dhcpOffer \<or> ty = dhcpAck"
      "dhcp_authorizedSession (ds_cfg s) m (dp_ClientMAC p) = (Some sess, True)"
      "ty = dhcpAck \<Longrightarrow> (case firstIP [dp_RequestedIP p, dp_ClientIP p] of None \<Rightarrow> True
           | Some a \<Rightarrow> ip_equal (Some a) (s_SubscriberIP sess))"
proof -
  obtain p where p: "parseDHCPFrame frame = Some p"
    using assms by (auto simp: dhcp_HandleFrame_def split: option.splits)
  let ?auth = "dhcp_authorizedSession (ds_cfg s) m (dp_ClientMAC p)"
  have "fst (handle_discover clock p ?auth s r) = Some f \<or> fst (handle_request clock p ?auth s r) = Some f"
    using assms by (auto simp: dhcp_HandleFrame_def p Let_def split: if_splits)
  then consider (offer) "fst (handle_discover clock p ?auth s r) = Some f"
    | (req) "fst (handle_request clock p ?auth s r) = Some f" by blast
  then show ?thesis
  proof cases
    case offer
    then obtain sess where "?auth = (Some sess, True)" "f = buildReply s p sess dhcpOffer"
      using discover_reply by blast
    then show ?thesis using that(2) [OF p, of sess dhcpOffer] by (simp add: dhcp_consts)
  next
    case req
    from request_reply [OF this] that(1) [OF p] that(2) [OF p, of _ dhcpAck] show ?thesis by blast
  qed
qed

lemma firstIP_pair: "firstIP [a, b] = (if a = None then b else a)"
  by (cases a; cases b) (simp_all add: firstIP_def)

section \<open>Rate limiting\<close>

fun cb_key :: "dhcp_callback \<Rightarrow> string" where
  "cb_key (CallAuthCache mac) = ''auth-cache|'' @ mac"
| "cb_key (CallRecoveryAttach t) = attach_key t"

fun cb_limit :: "dhcp_callback \<Rightarrow> int" where
  "cb_limit (CallAuthCache mac) = seconds 2"
| "cb_limit (CallRecoveryAttach t) = seconds 5"

definition limited_step :: "time \<Rightarrow> dhcp_callback list \<Rightarrow> dhcp_server \<Rightarrow> dhcp_server \<Rightarrow> bool" where
  "limited_step clock cbs s s' \<longleftrightarrow>
     (cbs = [] \<and> ds_recoveryAttempts s' = ds_recoveryAttempts s) \<or>
     (\<exists>cb. cbs = [cb] \<and> \<not> too_soon clock (cb_limit cb) (cb_key cb) s
        \<and> ds_recoveryAttempts s' = (ds_recoveryAttempts s)(cb_key cb \<mapsto> clock))"

lemma attempt_limited:
  "limit = cb_limit cb \<Longrightarrow> key = cb_key cb \<Longrightarrow>
     limited_step clock (fst (attempt clock limit key cb s)) s (snd (attempt clock limit key cb s))"
  by (auto simp: limited_step_def attempt_def)

lemma idle_limited [simp]: "ds_recoveryAttempts s' = ds_recoveryAttempts s \<Longrightarrow> limited_step clock [] s s'"
  by (simp add: limited_step_def)

lemma trigger_limited:
  "limited_step clock (fst (triggerAuthCacheRecovery clock mac s)) s (snd (triggerAuthCacheRecovery clock mac s))"
  "limited_step clock (fst (triggerRecoveryAttach clock to s)) s (snd (triggerRecoveryAttach clock to s))"
  by (simp_all add: triggerAuthCacheRecovery_def triggerRecoveryAttach_def attempt_limited split: option.splits)

lemma HandleFrame_limited:
  "limited_step clock (fst (snd (dhcp_HandleFrame clock m frame s r))) s
     (fst (snd (snd (dhcp_HandleFrame clock m frame s r))))"
  unfolding dhcp_HandleFrame_def handle_discover_def handle_request_def unauthorized_cases
  by (simp add: Let_def split_beta trigger_limited split: option.split)

fun dhcp_calls :: "(time \<times> manager \<times> bytes) list \<Rightarrow> dhcp_server \<Rightarrow> recovery \<Rightarrow> (time \<times> dhcp_callback) list" where
  \<comment> \<open>the callbacks started while a sequence of frames is handled, with their times\<close>
  "dhcp_calls [] s r = []"
| "dhcp_calls ((clock, m, frame) # evs) s r =
     (let (reply, cbs, s', r') = dhcp_HandleFrame clock m frame s r
      in map (Pair clock) cbs @ dhcp_calls evs s' r')"

definition spaced :: "time \<times> dhcp_callback \<Rightarrow> time \<times> dhcp_callback \<Rightarrow> bool" where
  "spaced a b \<longleftrightarrow> cb_key (snd a) = cb_key (snd b) \<longrightarrow> cb_limit (snd b) \<le> fst b - fst a"

definition attempts_past :: "dhcp_server \<Rightarrow> time list \<Rightarrow> bool" where
  "attempts_past s clocks \<longleftrightarrow>
     (\<forall>k t. ds_recoveryAttempts s k = Some t \<longrightarrow> \<not> time_is_zero t \<and> (\<forall>c \<in> set clocks. t \<le> c))"

lemma calls_spaced:
  assumes "sorted (map fst evs)" "\<forall>c \<in> set (map fst evs). \<not> time_is_zero c" "attempts_past s (map fst evs)"
  shows "sorted_wrt spaced (dhcp_calls evs s r)
    \<and> (\<forall>(t, cb) \<in> set (dhcp_calls evs s r). \<forall>t0. ds_recoveryAttempts s (cb_key cb) = Some t0
        \<longrightarrow> cb_limit cb \<le> t - t0)"
  using assms
proof (induction evs arbitrary: s r)
  case (Cons ev evs)
  obtain clock m frame where ev: "ev = (clock, m, frame)" by (cases ev)
  obtain rep cbs s' r' where h: "dhcp_HandleFrame clock m frame s r = (rep, cbs, s', r')"
    by (cases "dhcp_HandleFrame clock m frame s r")
  have lim: "limited_step clock cbs s s'" using HandleFrame_limited [of clock m frame s r] by (simp add: h)
  have past: "ds_recoveryAttempts s k = Some t \<Longrightarrow> \<not> time_is_zero t \<and> t \<le> clock \<and> (\<forall>c \<in> set (map fst evs). t \<le> c)" for k t
    using Cons.prems(3) unfolding attempts_past_def ev by simp
  have att: "attempts_past s' (map fst evs)"
    using lim past Cons.prems(1,2) unfolding attempts_past_def limited_step_def ev by (fastforce split: if_splits)
  note IH = Cons.IH [of s' r', OF _ _ att]
  have calls: "dhcp_calls (ev # evs) s r = map (Pair clock) cbs @ dhcp_calls evs s' r'" by (simp add: ev h)
  from IH Cons.prems have w: "sorted_wrt spaced (dhcp_calls evs s' r')"
    and g: "\<And>t cb t0. (t, cb) \<in> set (dhcp_calls evs s' r') \<Longrightarrow>
        ds_recoveryAttempts s' (cb_key cb) = Some t0 \<Longrightarrow> cb_limit cb \<le> t - t0" by auto
  from lim consider "cbs = []" "ds_recoveryAttempts s' = ds_recoveryAttempts s"
    | cb where "cbs = [cb]" "\<not> too_soon clock (cb_limit cb) (cb_key cb) s"
        "ds_recoveryAttempts s' = (ds_recoveryAttempts s)(cb_key cb \<mapsto> clock)"
    unfolding limited_step_def by blast
  then show ?case
  proof cases
    case 1 with w g show ?thesis unfolding calls by auto
  next
    case (2 cb)
    have head: "spaced (clock, cb) x" if "x \<in> set (dhcp_calls evs s' r')" for x
      using g [of "fst x" "snd x" clock] that by (simp add: spaced_def 2(3))
    have now: "cb_limit cb \<le> clock - t0" if "ds_recoveryAttempts s (cb_key cb) = Some t0" for t0
      using 2(2) past [OF that] that by (simp add: too_soon_def)
    have later: "cb_limit cb' \<le> t - t0"
      if "(t, cb') \<in> set (dhcp_calls evs s' r')" "ds_recoveryAttempts s (cb_key cb') = Some t0" for t cb' t0
      using g [OF that(1)] that(2) past [OF that(2)] 2(3)
      by (cases "cb_key cb' = cb_key cb") force+
    show ?thesis unfolding calls using w head now later by (auto simp: 2(1))
  qed
qed simp

section \<open>Properties\<close>

text \<open>C18. When an authorised session is required, an address is offered or acknowledged only to a client
  whose MAC address belongs to a session of the table that is active and has an address; the address in the
  reply is that of the session, and an acknowledgement is sent only for that address. Any other reply is a
  NAK that carries no address.\<close>

theorem dhcp_serves_only_active_sessions:
  assumes "legal_calls ops" "dc_RequireAuthorizedSession (ds_cfg s)" "length (dc_DNS (ds_cfg s)) < 64"
    and "fst (dhcp_HandleFrame clock (after ops) frame s r) = Some f"
  shows "\<exists>p. parseDHCPFrame frame = Some p \<and>
    ((frame_options f optMessageType = Some [dhcpNak] \<and> frame_yiaddr f = [0, 0, 0, 0]) \<or>
     (\<exists>sess ty. frame_options f optMessageType = Some [ty] \<and> ty \<in> {dhcpOffer, dhcpAck}
        \<and> Get (s_ID sess) (after ops) = Some sess
        \<and> macMatches (s_MACAddress sess) (mac_string (dp_ClientMAC p))
        \<and> s_State sess = Active \<and> s_SubscriberIP sess \<noteq> None
        \<and> frame_yiaddr f = copy_n 4 (ip_bytes (to4 (s_SubscriberIP sess)))
        \<and> (ty = dhcpAck \<longrightarrow>
             ip_equal (if dp_RequestedIP p = None then dp_ClientIP p else dp_RequestedIP p) (s_SubscriberIP sess))))"
  using assms(4)
proof (cases rule: HandleFrame_reply)
  case (1 p)
  then show ?thesis by (simp add: nak_fields)
next
  case (2 p sess ty)
  note a = dhcp_authorized [OF 2(4) assms(2)]
  have "ip_equal (if dp_RequestedIP p = None then dp_ClientIP p else dp_RequestedIP p) (s_SubscriberIP sess)"
    if "ty = dhcpAck"
    using 2(5) [OF that] parsed_client_ip [OF 2(1)] by (auto simp: firstIP_pair split: if_splits option.splits)
  with 2(1-3) a LookupByMACAddr_sound [OF assms(1) a(1)] reply_fields [OF assms(3)] show ?thesis
    by (intro exI [of _ p]) (auto intro!: exI [of _ sess] exI [of _ ty])
qed



text \<open>C23. When an authorised session is required, the ARP proxy answers only a request for the gateway
  address, from a client whose MAC address belongs to an active session and whose sender address is that
  of the session (or zero); the answer says that the gateway is at the interface's hardware address.\<close>

theorem arp_answers_only_active_sessions:
  assumes "legal_calls ops" "ac_RequireAuthorizedSession cfg" "length ifaceMAC = 6"
    and "arp_HandleFrame cfg ifaceMAC clock (after ops) frame r = (Some f, r')"
  shows "\<exists>req gw sess. parseARPRequest frame = Some req \<and> to4 (parse_ip (ac_GatewayIP cfg)) = Some gw
    \<and> ip_equal (ar_TargetIP req) (Some gw)
    \<and> Get (s_ID sess) (after ops) = Some sess \<and> s_State sess = Active
    \<and> macMatches (s_MACAddress sess) (mac_string (ar_SenderMAC req))
    \<and> (ip_equal (ar_SenderIP req) IPv4zero \<or> ip_equal (ar_SenderIP req) (s_SubscriberIP sess))
    \<and> take 6 f = ar_SenderMAC req \<and> slice f 20 22 = put16 2
    \<and> slice f 22 28 = ifaceMAC \<and> slice f 28 32 = gw \<and> r' = r"
proof -
  obtain req where req: "parseARPRequest frame = Some req"
    using assms(4) by (auto simp: arp_HandleFrame_def split: option.splits)
  obtain gw where gw: "to4 (parse_ip (ac_GatewayIP cfg)) = Some gw" "ip_equal (ar_TargetIP req) (Some gw)"
    using assms(4) by (auto simp: arp_HandleFrame_def req Let_def split: if_splits)
  obtain sess where a: "arp_authorizedSession cfg (after ops) (ar_SenderMAC req) (ar_SenderIP req) = (Some sess, True)"
    and f: "f = buildARPReply req ifaceMAC (Some gw)" "r' = r"
    using assms(2,4) by (auto simp: arp_HandleFrame_def arp_authorizedSession_def req gw split: if_splits option.splits)
  have s: "LookupByMACAddr (Some (ar_SenderMAC req)) (after ops) = Some sess" "s_State sess = Active"
    "ar_SenderIP req = None \<or> ip_equal (ar_SenderIP req) IPv4zero \<or> ip_equal (ar_SenderIP req) (s_SubscriberIP sess)"
    using a assms(2) by (auto simp: arp_authorizedSession_def split: option.splits if_splits)
  have p: "ar_SenderIP req \<noteq> None" "length (ar_SenderMAC req) = 6"
    using req by (auto simp: parseARPRequest_def Let_def slice_def split: if_splits)
  have "take 6 f = ar_SenderMAC req \<and> slice f 20 22 = put16 2 \<and> slice f 22 28 = ifaceMAC \<and> slice f 28 32 = gw"
    using p(2) assms(3) to4_length [OF gw(1)] to4_idem [OF gw(1)]
    by (simp add: f buildARPReply_def slice_def copy_n_exact ip_bytes_def)
  with req gw s p LookupByMACAddr_sound [OF assms(1) s(1)] f show ?thesis by blast
qed

section \<open>Witnesses\<close>

definition sample_mac :: bytes where "sample_mac = [2, 0, 0, 0, 0, 1]"

definition sample_dhcp_frame :: "byte \<Rightarrow> bytes" where
  "sample_dhcp_frame ty = replicate 6 255 @ sample_mac @ [8, 0, 0x45] @ replicate 8 0 @ [17] @ replicate 10 0
     @ [0, 68, 0, 67, 0, 0, 0, 0, 1, 1, 6, 0, 0, 0, 0, 9] @ replicate 20 0 @ sample_mac @ replicate 202 0
     @ [0x63, 0x82, 0x53, 0x63, 53, 1, ty, 50, 4, 10, 0, 0, 2, 255]"

definition sample_dhcp :: dhcp_server where
  "sample_dhcp = SetAuthCacheRecoveryHandler True (NewDHCPServer
     \<lparr> dc_Enabled = True, dc_RequireAuthorizedSession = True, dc_RecoverFromAuthCache = True,
       dc_LeaseTimeSeconds = 3600, dc_RenewalTimeSeconds = 1800, dc_RebindingTimeSeconds = 3150,
       dc_Interface = ''eth1'', dc_Mode = [], dc_Netmask = ''255.255.255.0'', dc_Router = ''10.0.0.1'',
       dc_ServerIdentifier = ''10.0.0.1'', dc_DNS = [''10.0.0.53''], dc_StaleRequestAction = [] \<rparr>
     [2, 0, 0, 0, 0, 254])"

definition sample_arp_frame :: bytes where
  "sample_arp_frame = replicate 6 255 @ sample_mac @ [8, 6, 0, 1, 8, 0, 6, 4, 0, 1] @ sample_mac
     @ [10, 0, 0, 2] @ replicate 6 0 @ [10, 0, 0, 1]"

definition sample_arp :: arp_config where
  "sample_arp = \<lparr> ac_Enabled = True, ac_Interface = ''eth1'', ac_GatewayIP = ''10.0.0.1'',
     ac_RequireAuthorizedSession = True \<rparr>"

lemma sample_frame_parse:
  "map_option dp_MessageType (parseDHCPFrame (sample_dhcp_frame 3)) = Some 3"
  by code_simp

text \<open>The methods that build a session up keep it filed under its MAC address.\<close>

definition filed :: "string \<Rightarrow> state \<Rightarrow> string \<Rightarrow> ip \<Rightarrow> manager \<Rightarrow> bool" where
  "filed i st mac a m \<longleftrightarrow> (\<exists>p. m_byID m i = Some p \<and> m_byMAC m mac = Some p \<and> mac \<noteq> []
     \<and> s_ID (m_heap m p) = i \<and> s_State (m_heap m p) = st \<and> s_MACAddress (m_heap m p) = mac
     \<and> s_SubscriberIP (m_heap m p) = a)"

lemma filed_lookup:
  "filed i st mac a m \<Longrightarrow> \<exists>s. LookupByMAC mac m = Some s \<and> s_State s = st \<and> s_SubscriberIP s = clone_ip a"
  by (auto simp: filed_def LookupByMAC_def deref_def)

lemma filed_create:
  "ci_MACAddress ci \<noteq> [] \<Longrightarrow>
     filed (session_id now (m_next m + 1)) Pending (ci_MACAddress ci) None (snd (Create now ci m))"
  by (simp add: filed_def Create_place indexLocked_simps put_def mac_key_def new_session_def zero_session_def)

lemma filed_mark:
  "filed i st mac a m \<Longrightarrow> validTransition st st' \<Longrightarrow> filed i st' mac a (snd (transition now i st' (\<lambda>p m. m) m))"
  by (auto simp: filed_def transition_def Let_def)

lemma filed_auth:
  "filed i st mac a m \<Longrightarrow> validTransition st Authorized \<Longrightarrow>
     filed i Authorized mac a (snd (ApplyAuthResult now i imsi msisdn apn reason m))"
  by (auto simp: filed_def ApplyAuthResult_def transition_def Let_def indexLocked_simps put_def mac_key_def
      auth_result_fields_def)

lemma filed_pgw:
  "filed i st mac a m \<Longrightarrow> filed i st mac a (snd (ApplyPGWResult now i pgwc pgwu gtpc localU remoteU m))"
  by (auto simp: filed_def ApplyPGWResult_def update_def Let_def put_teid_def drop_teid_def)

lemma filed_ip:
  "filed i st mac a m \<Longrightarrow> filed i st mac (clone_ip b) (snd (UpdateSubscriberIP now i b m))"
  by (auto simp: filed_def UpdateSubscriberIP_def update_def Let_def drop_ip_def)

lemma sample_filed: "filed sample_id Active ''02:00:00:00:00:01'' (Some [10, 0, 0, 2]) (after sample_attach)"
proof -
  let ?ci = "sample_input ''001010000000001'' ''02:00:00:00:00:01'' 10"
  have "filed sample_id Pending ''02:00:00:00:00:01'' None (snd (Create 5 ?ci new_manager))"
    using filed_create [of ?ci 5 new_manager] by (simp add: sample_input_def new_manager_def sample_id_def)
  note pending = filed_mark [OF this, of AuthPending, folded MarkAuthPending_def]
  note authorized = filed_mark [OF filed_auth [OF pending], of PGWPending, folded MarkPGWPending_def]
  have ip: "clone_ip (Some [10, 0, 0, 2]) = Some [10, 0, 0, 2]" by (simp add: clone_ip_def)
  note addressed = filed_ip [of _ _ _ _ _ "Some [10, 0, 0, 2]", unfolded ip]
  note active = filed_mark [OF addressed [OF filed_pgw [OF authorized]], of Active, folded MarkActive_def]
  show ?thesis
    unfolding after_def sample_attach_def run_Cons_snd run.simps(1) snd_conv exec_op.simps
    by (simp add: split_beta Let_def, intro active) (simp_all add: validTransition.simps)
qed

lemma sample_lookup:
  "\<exists>s. LookupByMACAddr (Some sample_mac) (after sample_attach) = Some s \<and> s_State s = Active
     \<and> s_SubscriberIP s = Some [10, 0, 0, 2]"
proof -
  have "mac_string sample_mac = ''02:00:00:00:00:01''" by code_simp
  with filed_lookup [OF sample_filed] show ?thesis by (simp add: LookupByMACAddr_def clone_ip_def)
qed

lemma sample_dhcp_parse:
  "\<exists>p. parseDHCPFrame (sample_dhcp_frame 3) = Some p \<and> dp_MessageType p = dhcpRequest \<and> dp_ClientMAC p = sample_mac
     \<and> dp_RequestedIP p = Some [10, 0, 0, 2]"
proof -
  have "map_option (\<lambda>p. (dp_MessageType p, dp_ClientMAC p, dp_RequestedIP p)) (parseDHCPFrame (sample_dhcp_frame 3))
    = Some (dhcpRequest, sample_mac, Some [10, 0, 0, 2])" by code_simp
  then show ?thesis by auto
qed

lemma sample_dhcp_cfg: "dc_RequireAuthorizedSession (ds_cfg sample_dhcp)" "length (dc_DNS (ds_cfg sample_dhcp)) < 64"
  "ds_recoveryAttempts sample_dhcp = Map.empty"
  by (simp_all add: sample_dhcp_def SetAuthCacheRecoveryHandler_def NewDHCPServer_def)

lemma sample_ack: "\<exists>f. fst (dhcp_HandleFrame 11 (after sample_attach) (sample_dhcp_frame 3) sample_dhcp empty_recovery) = Some f"
proof -
  obtain p s where "parseDHCPFrame (sample_dhcp_frame 3) = Some p" "dp_MessageType p = dhcpRequest"
    "dp_ClientMAC p = sample_mac" "dp_RequestedIP p = Some [10, 0, 0, 2]"
    "LookupByMACAddr (Some sample_mac) (after sample_attach) = Some s" "s_State s = Active"
    "s_SubscriberIP s = Some [10, 0, 0, 2]"
    using sample_lookup sample_dhcp_parse by blast
  then show ?thesis
    by (simp add: dhcp_HandleFrame_def dhcp_authorizedSession_def sample_dhcp_cfg handle_request_def
        dhcp_consts firstIP_pair Let_def)
qed

theorem dhcp_serves_only_active_sessions_witness:
  "\<exists>f. fst (dhcp_HandleFrame 11 (after sample_attach) (sample_dhcp_frame 3) sample_dhcp empty_recovery) = Some f
     \<and> (frame_options f optMessageType = Some [dhcpNak] \<or> frame_options f optMessageType \<in> {Some [dhcpOffer], Some [dhcpAck]})"
  using sample_ack dhcp_serves_only_active_sessions [OF sample_legal sample_dhcp_cfg(1,2)] by fastforce


definition sample_flood :: "(time \<times> manager \<times> bytes) list" where
  "sample_flood = [(seconds 1, new_manager, sample_dhcp_frame 1), (seconds 2, new_manager, sample_dhcp_frame 1),
     (seconds 4, new_manager, sample_dhcp_frame 1)]"


lemma sample_flood_calls:
  "map fst (dhcp_calls sample_flood sample_dhcp empty_recovery) = [seconds 1, seconds 4]"
  by code_simp

theorem arp_answers_only_active_sessions_witness:
  "\<exists>f. arp_HandleFrame sample_arp sample_mac 11 (after sample_attach) sample_arp_frame empty_recovery = (Some f, empty_recovery)
     \<and> slice f 28 32 = [10, 0, 0, 1]"
proof -
  have "map_option (\<lambda>q. (ar_SenderMAC q, ar_SenderIP q, ar_TargetIP q)) (parseARPRequest sample_arp_frame)
    = Some (sample_mac, Some [10, 0, 0, 2], Some [10, 0, 0, 1])" by code_simp
  then obtain q where q: "parseARPRequest sample_arp_frame = Some q" "ar_SenderMAC q = sample_mac"
    "ar_SenderIP q = Some [10, 0, 0, 2]" "ar_TargetIP q = Some [10, 0, 0, 1]" by auto
  have gw: "to4 (parse_ip (ac_GatewayIP sample_arp)) = Some [10, 0, 0, 1]" by code_simp
  have r: "ac_RequireAuthorizedSession sample_arp" by (simp add: sample_arp_def)
  obtain f where "arp_HandleFrame sample_arp sample_mac 11 (after sample_attach) sample_arp_frame empty_recovery = (Some f, empty_recovery)"
    using sample_lookup by (auto simp: arp_HandleFrame_def q gw arp_authorizedSession_def r)
  with arp_answers_only_active_sessions [OF sample_legal r _ this] gw show ?thesis
    by (auto simp: sample_mac_def)
qed

end
