(* ===== verification/Routing.thy ===== *)
theory Routing
  imports AccessSide
begin

text \<open>
  The subscriber routes of package routing (\<open>internal/routing/routing.go\<close>): \<open>Install\<close> and \<open>Remove\<close>
  on a netlink handle, which is a parameter. The state is whether the handle is open.
  \<open>Start\<close> is in \<open>Runtime\<close>.
\<close>

record route =
  ro_LinkIndex :: int
  ro_Dst :: ip  \<comment> \<open>with a 32-bit mask\<close>

record route_netlink =
  rn_NewHandle :: "nl_error option"
  rn_LinkByName :: "string \<Rightarrow> nl_error + int"
  rn_RouteReplace :: "route \<Rightarrow> nl_error option"
  rn_RouteDel :: "route \<Rightarrow> nl_error option"

datatype route_err = RouteSessionRequired | RouteIPRequired | RouteInterfaceRequired
  | RouteHandle nl_error | RouteLink string nl_error | RouteChange nl_error

datatype route_call = RouteReplace route | RouteDel route

definition accessRoute :: "int \<Rightarrow> ip \<Rightarrow> route" where
  "accessRoute ix a = \<lparr> ro_LinkIndex = ix, ro_Dst = to4 a \<rparr>"

definition rt_Install :: "bool \<Rightarrow> route_netlink \<Rightarrow> session option \<Rightarrow> bool
    \<Rightarrow> (route_err option \<times> route_call list) \<times> bool" where
  \<comment> \<open>\<open>installRoutes\<close> is the configuration, the last argument whether the handle is open\<close>
  "rt_Install installRoutes nl so opened = (case so of None \<Rightarrow> ((Some RouteSessionRequired, []), opened)
     | Some sess \<Rightarrow>
        if s_SubscriberIP sess = None then ((Some RouteIPRequired, []), opened)
        else if \<not> installRoutes then ((None, []), opened)
        else if s_AccessInterface sess = [] then ((Some RouteInterfaceRequired, []), opened)
        else (case (if opened then None else rn_NewHandle nl) of
            Some e \<Rightarrow> ((Some (RouteHandle e), []), opened)
          | None \<Rightarrow> (case rn_LinkByName nl (s_AccessInterface sess) of
              Inl e \<Rightarrow> ((Some (RouteLink (s_AccessInterface sess) e), []), True)
            | Inr ix \<Rightarrow> let r = accessRoute ix (s_SubscriberIP sess)
                in ((map_option RouteChange (rn_RouteReplace nl r), [RouteReplace r]), True))))"

definition rt_Remove :: "bool \<Rightarrow> route_netlink \<Rightarrow> session option \<Rightarrow> bool \<Rightarrow> route_err option \<times> route_call list" where
  "rt_Remove installRoutes nl so opened = (case so of None \<Rightarrow> (Some RouteSessionRequired, [])
     | Some sess \<Rightarrow>
        if s_SubscriberIP sess = None then (Some RouteIPRequired, [])
        else if \<not> installRoutes then (None, [])
        else if s_AccessInterface sess = [] then (Some RouteInterfaceRequired, [])
        else if \<not> opened then (None, [])
        else (case rn_LinkByName nl (s_AccessInterface sess) of
            Inl e \<Rightarrow> (Some (RouteLink (s_AccessInterface sess) e), [])
          | Inr ix \<Rightarrow> let r = accessRoute ix (s_SubscriberIP sess) in
              (case rn_RouteDel nl r of
                 Some e \<Rightarrow> (if isNotFound e then None else Some (RouteChange e), [RouteDel r])
               | None \<Rightarrow> (None, [RouteDel r]))))"

end
