(* ===== verification/LifeBase.thy ===== *)
theory LifeBase
  imports Routing SessionSpec AuthCache GtpV2 "HOL-Library.State_Monad"
begin

text \<open>
  The state and the surroundings of the lifecycle service (\<open>internal/lifecycle/service.go\<close>). The
  service drives the session table, the authentication cache and the recovery tombstones, which
  are part of its state, and calls other parts through Go interfaces: the AAA provider, the
  address pool, the PGW client, the user plane, the access side and the dynamic authorizer. Each
  call through an interface is recorded as an event, and what it returns is a function of the
  events so far and the arguments (the record \<open>env\<close>), so a theorem for all environments covers
  every behaviour those parts can show. One handler runs at a time; \<open>time.Now()\<close> is one value per
  handler, and waiting for the subscriber lock is an interface call that succeeds or fails.
\<close>

section \<open>Requests and results\<close>

record auth_result =
  au_Allowed :: bool
  au_IMSI :: string
  au_MSISDN :: string
  au_APN :: string
  au_SubscriberID :: string
  au_Reason :: string
  au_ResultCode :: u32

record auth_request =
  aa_IMSI :: string
  aa_MSISDN :: string
  aa_MACAddress :: string
  aa_Username :: string
  aa_Realm :: string
  aa_APN :: string
  aa_Ki :: string
  aa_OPc :: string

record attach_request =
  rq_IMSI :: string
  rq_MSISDN :: string
  rq_MACAddress :: string
  rq_Username :: string
  rq_EAPIdentity :: string
  rq_Realm :: string
  rq_APN :: string
  rq_CallingStationID :: string
  rq_CalledStationID :: string
  rq_NASIP :: string
  rq_NASIdentifier :: string
  rq_AcctSessionID :: string
  rq_RadiusState :: string
  rq_RadiusClass :: bytes
  rq_ConnectInfo :: string
  rq_FramedMTU :: u32
  rq_Ki :: string
  rq_OPc :: string

definition no_request :: attach_request where
  "no_request = \<lparr> rq_IMSI = [], rq_MSISDN = [], rq_MACAddress = [], rq_Username = [], rq_EAPIdentity = [],
     rq_Realm = [], rq_APN = [], rq_CallingStationID = [], rq_CalledStationID = [], rq_NASIP = [],
     rq_NASIdentifier = [], rq_AcctSessionID = [], rq_RadiusState = [], rq_RadiusClass = [],
     rq_ConnectInfo = [], rq_FramedMTU = 0, rq_Ki = [], rq_OPc = [] \<rparr>"

record attach_response =
  rs_SessionID :: string
  rs_State :: Session.state
  rs_IMSI :: string
  rs_SubscriberIP :: string
  rs_APN :: string
  rs_Reason :: string

record detach_request =
  dq_SessionID :: string
  dq_IMSI :: string
  dq_MACAddress :: string

record eap_request =
  eq_SessionID :: string
  eq_IMSI :: string
  eq_MSISDN :: string
  eq_MACAddress :: string
  eq_Username :: string
  eq_EAPIdentity :: string
  eq_Realm :: string
  eq_APN :: string
  eq_CallingStationID :: string
  eq_CalledStationID :: string
  eq_NASIP :: string
  eq_NASIdentifier :: string
  eq_AcctSessionID :: string
  eq_RadiusClass :: bytes
  eq_ConnectInfo :: string
  eq_FramedMTU :: u32
  eq_EAPPayload :: bytes

datatype eap_state = EAPStateChallenge | EAPStateSuccess | EAPStateFailure

record eap_result =
  er_SessionID :: string
  er_State :: eap_state
  er_Allowed :: bool
  er_IMSI :: string
  er_MSISDN :: string
  er_APN :: string
  er_SubscriberID :: string
  er_Reason :: string
  er_ResultCode :: u32
  er_EAPPayload :: bytes
  er_MSK :: bytes

record eap_response =
  ep_SessionID :: string
  ep_State :: eap_state
  ep_IMSI :: string
  ep_SubscriberIP :: string
  ep_APN :: string
  ep_Reason :: string
  ep_EAPPayload :: bytes
  ep_MSK :: bytes

datatype accounting_status = AccountingStart | AccountingStop | AccountingInterimUpdate
  | AccountingOn | AccountingOff | AccountingOther string

record accounting_request =
  aq_StatusType :: accounting_status
  aq_UserName :: string
  aq_IMSI :: string
  aq_MACAddress :: string
  aq_CallingStationID :: string
  aq_CalledStationID :: string
  aq_NASIP :: string
  aq_NASIdentifier :: string
  aq_AcctSessionID :: string
  aq_AcctMultiSessionID :: string
  aq_InputOctets :: u64
  aq_OutputOctets :: u64
  aq_InputPackets :: u64
  aq_OutputPackets :: u64
  aq_TerminateCause :: string
  aq_FramedIPAddress :: ip
  aq_Class :: bytes
  aq_EventTimestamp :: time
  aq_ConnectInfo :: string

record pgw_result =
  pr_SubscriberIP :: ip
  pr_GatewayIP :: ip
  pr_PGWControlIP :: ip
  pr_PGWUserIP :: ip
  pr_GTPCTEID :: u32
  pr_LocalGTPUTEID :: u32
  pr_RemoteGTPUTEID :: u32

section \<open>Errors\<close>

datatype svc_err =
    SessErr sess_err
  | Rejected
  | LiveSessionExists
  | MissingPAA
  | Invalid string               \<comment> \<open>a failed post-activation check\<close>
  | DetachNeedsKey
  | SessionNotFound
  | TombstoneRequired
  | TombstoneIncomplete
  | LockTimeout string
  | DeadlineExceeded
  | GTPErr gtp_error
  | RouteErr route_err
  | Other string                 \<comment> \<open>any other error of an interface, with its text\<close>
  | Wrapped string svc_err
  | Joined "svc_err list"
  | NilUserPlane                 \<comment> \<open>a panic: a method is called on a nil interface\<close>
  | NilAddressPool               \<comment> \<open>likewise\<close>

fun gtp_causes :: "svc_err \<Rightarrow> gtp_error list" where
  \<comment> \<open>the \<open>GTPError\<close> values in the tree of an error, in the order \<open>errors.As\<close> meets them\<close>
  "gtp_causes (GTPErr e) = [e]"
| "gtp_causes (Wrapped t e) = gtp_causes e"
| "gtp_causes (Joined es) = concat (map gtp_causes es)"
| "gtp_causes _ = []"

fun deadline_in :: "svc_err \<Rightarrow> bool" where
  \<comment> \<open>\<open>errors.Is(err, context.DeadlineExceeded)\<close>\<close>
  "deadline_in DeadlineExceeded = True"
| "deadline_in (Wrapped t e) = deadline_in e"
| "deadline_in (Joined es) = list_ex deadline_in es"
| "deadline_in _ = False"

definition pgw_IsContextNotFound :: "svc_err \<Rightarrow> bool" where
  "pgw_IsContextNotFound e = IsContextNotFound (case gtp_causes e of [] \<Rightarrow> None | g # _ \<Rightarrow> Some g)"

definition nonFatalPGWDeleteError :: "svc_err \<Rightarrow> bool" where
  "nonFatalPGWDeleteError e \<longleftrightarrow> pgw_IsContextNotFound e \<or> deadline_in e"

definition errors_Join :: "svc_err list \<Rightarrow> svc_err option" where
  "errors_Join es = (if es = [] then None else Some (Joined es))"

section \<open>Configuration, events and environment\<close>

record svc_config =
  cf_AccessInterface :: string
  cf_DefaultAPN :: string
  cf_DefaultRealm :: string
  cf_GTPAPN :: string
  cf_AuthCacheEnabled :: bool
  cf_DefaultTTLSeconds :: int
  cf_MaxTTLSeconds :: int
  cf_SessionTimeoutSeconds :: int
  cf_ClearSessionOnStop :: bool
  cf_ClearAuthCacheOnStop :: bool
  cf_StartWithoutSessionAction :: string
  cf_StartWithoutAuthAction :: string
  cf_RecoveryEnabled :: bool
  cf_ReasonGTPUError :: bool
  cf_RecoveryWindowSeconds :: int
  cf_AllowSameMACReattach :: bool
  cf_DisconnectEnabled :: bool
  cf_DisconnectRequestType :: string
  cf_WaitForAccountingStop :: bool
  cf_FallbackToTombstone :: bool
  cf_StartRecoveryEnabled :: bool
  cf_CooldownSeconds :: int
  cf_MaxAttemptsPerMinute :: int
  cf_DuplicateAttachPolicy :: string
  cf_PostValidationEnabled :: bool
  cf_FailAction :: string
  cf_InstallRoutes :: bool

datatype event =
    EvLock string
  | EvAuthenticate auth_request
  | EvExchangeEAP eap_request
  | EvAllocate string
  | EvRelease string
  | EvPGWCreate session
  | EvPGWDelete session
  | EvRouteInstall session
  | EvRouteRemove session
  | EvUserAdd session
  | EvUserRemove session
  | EvAccessAdd session
  | EvAccessRemove session
  | EvDisconnect tombstone
  | EvWaitStop string            \<comment> \<open>\<open>go s.waitForAccountingStopTimeout(...)\<close>\<close>

record env =
  w_cfg :: svc_config
  w_now :: time
  w_order :: "string \<Rightarrow> event list \<Rightarrow> manager \<Rightarrow> string list"
    \<comment> \<open>the order in which a loop (named by its method) visits the table\<close>
  w_rec_order :: "event list \<Rightarrow> recovery \<Rightarrow> string list \<times> string list"
    \<comment> \<open>the orders in which \<open>UpdateRecovery\<close> visits the tombstones by MAC address and by IMSI\<close>
  w_lock :: "event list \<Rightarrow> string \<Rightarrow> svc_err option"
  w_ctx :: "event list \<Rightarrow> svc_err option"
  w_aaa :: "event list \<Rightarrow> auth_request \<Rightarrow> (auth_result option \<times> svc_err) + auth_result"
    \<comment> \<open>\<open>Inl\<close>: an error, possibly with a result\<close>
  w_eap :: "event list \<Rightarrow> eap_request \<Rightarrow> (eap_result option \<times> svc_err) + eap_result"
  w_ipam :: bool
  w_alloc :: "event list \<Rightarrow> string \<Rightarrow> svc_err + ip"
  w_release :: "event list \<Rightarrow> string \<Rightarrow> svc_err option"
  w_gtp :: bool                  \<comment> \<open>\<open>s.pgw.Type() == pgw.ModeGTP\<close>\<close>
  w_create :: "event list \<Rightarrow> session \<Rightarrow> svc_err + pgw_result option"
  w_delete :: "event list \<Rightarrow> session \<Rightarrow> svc_err option"
  w_netlink :: "event list \<Rightarrow> route_netlink"
  w_user :: bool
  w_user_add :: "event list \<Rightarrow> session \<Rightarrow> svc_err option"
  w_user_remove :: "event list \<Rightarrow> session \<Rightarrow> svc_err option"
  w_access :: bool
  w_access_add :: "event list \<Rightarrow> session \<Rightarrow> svc_err option"
  w_access_remove :: "event list \<Rightarrow> session \<Rightarrow> svc_err option"
  w_dynauth :: bool
  w_disconnect :: "event list \<Rightarrow> tombstone \<Rightarrow> svc_err option"
  w_text :: "svc_err \<Rightarrow> string"   \<comment> \<open>\<open>err.Error()\<close>\<close>

section \<open>The state of the service\<close>

record recovery_progress =
  rp_state :: string
  rp_lastAt :: time
  rp_attempts :: "time list"

record counters =
  n_duplicateAttachEvents :: u64
  n_duplicateAttachReusedExisting :: u64
  n_duplicateAttachReplacedExisting :: u64
  n_duplicateAttachSuppressedCreate :: u64
  n_controlledReplacement :: u64
  n_overlapPrevented :: u64
  n_createSessionBlockedExistingActive :: u64

record svc =
  sv_mgr :: manager
  sv_auth :: auth_cache
  sv_rec :: recovery
  sv_routeHandle :: bool
  sv_recoveryByKey :: "string \<rightharpoonup> recovery_progress"
  sv_counters :: counters
  sv_events :: "event list"

definition svc_new :: svc where
  "svc_new = \<lparr> sv_mgr = new_manager, sv_auth = empty_cache, sv_rec = empty_recovery, sv_routeHandle = False,
     sv_recoveryByKey = Map.empty,
     sv_counters = \<lparr> n_duplicateAttachEvents = 0, n_duplicateAttachReusedExisting = 0,
       n_duplicateAttachReplacedExisting = 0, n_duplicateAttachSuppressedCreate = 0,
       n_controlledReplacement = 0, n_overlapPrevented = 0, n_createSessionBlockedExistingActive = 0 \<rparr>,
     sv_events = [] \<rparr>"

type_synonym 'a act = "(svc, 'a) State_Monad.state"

abbreviation ret :: "'a \<Rightarrow> 'a act" where "ret \<equiv> State_Monad.return"

definition on_mgr :: "(manager \<Rightarrow> 'r \<times> manager) \<Rightarrow> 'r act" where
  "on_mgr f = State (\<lambda>s. let (r, m) = f (sv_mgr s) in (r, s\<lparr> sv_mgr := m \<rparr>))"

definition ask_mgr :: "(manager \<Rightarrow> 'r) \<Rightarrow> 'r act" where
  "ask_mgr f = State (\<lambda>s. (f (sv_mgr s), s))"

definition walk_mgr :: "env \<Rightarrow> string \<Rightarrow> (string list \<Rightarrow> manager \<Rightarrow> 'r) \<Rightarrow> 'r act" where
  \<comment> \<open>a query that ranges over the table\<close>
  "walk_mgr w name f = State (\<lambda>s. (f (w_order w name (sv_events s) (sv_mgr s)) (sv_mgr s), s))"

definition on_auth :: "(auth_cache \<Rightarrow> 'r \<times> auth_cache) \<Rightarrow> 'r act" where
  "on_auth f = State (\<lambda>s. let (r, c) = f (sv_auth s) in (r, s\<lparr> sv_auth := c \<rparr>))"

definition on_rec :: "(recovery \<Rightarrow> 'r \<times> recovery) \<Rightarrow> 'r act" where
  "on_rec f = State (\<lambda>s. let (r, c) = f (sv_rec s) in (r, s\<lparr> sv_rec := c \<rparr>))"

definition count :: "(counters \<Rightarrow> counters) \<Rightarrow> unit act" where
  "count f = State (\<lambda>s. ((), s\<lparr> sv_counters := f (sv_counters s) \<rparr>))"

definition call :: "event \<Rightarrow> (event list \<Rightarrow> 'r) \<Rightarrow> 'r act" where
  \<comment> \<open>a call through an interface\<close>
  "call e f = State (\<lambda>s. (f (sv_events s), s\<lparr> sv_events := sv_events s @ [e] \<rparr>))"

definition check_ctx :: "env \<Rightarrow> svc_err option act" where
  "check_ctx w = State (\<lambda>s. (w_ctx w (sv_events s), s))"

end
