(* ===== verification/LifeAttach.thy ===== *)
theory LifeAttach
  imports LifeBase
begin

text \<open>
  Attaching and detaching a subscriber (\<open>internal/lifecycle/service.go\<close>): the handling of an
  existing session, the activation of an authorised session with its roll-backs, and the
  detachment, in the order of the code. A pair of an optional response and an optional error
  is what the Go functions return; \<open>Inl\<close> of such a pair is an early return.
\<close>

type_synonym attach_out = "attach_response option \<times> svc_err option"

section \<open>Helpers\<close>

definition life_normalizeMAC :: "string \<Rightarrow> string" where
  "life_normalizeMAC mac = (case parse_mac mac of
     Some hw \<Rightarrow> to_lower (mac_string hw) | None \<Rightarrow> to_lower (trim_space mac))"

definition isLivePGWOwner :: "Session.state \<Rightarrow> bool" where
  "isLivePGWOwner st \<longleftrightarrow> st \<in> {Pending, AuthPending, Authorized, IPAllocated, PGWPending, Active,
     Recovering, Terminating}"

definition shutdownShouldDetach :: "Session.state \<Rightarrow> bool" where
  "shutdownShouldDetach st \<longleftrightarrow> st \<in> {IPAllocated, PGWPending, Active}"

definition accountingStopShouldDetach :: "Session.state \<Rightarrow> bool" where
  "accountingStopShouldDetach st \<longleftrightarrow> st \<in> {Pending, AuthPending, Authorized, IPAllocated, PGWPending,
     Active, Recovering}"

definition responseFromSession :: "session \<Rightarrow> attach_response" where
  "responseFromSession s = \<lparr> rs_SessionID = s_ID s, rs_State = s_State s, rs_IMSI = s_IMSI s,
     rs_SubscriberIP = ip_string_or_empty (s_SubscriberIP s), rs_APN = s_APN s, rs_Reason = s_Reason s \<rparr>"

definition subscriberLockKey :: "string \<Rightarrow> string \<Rightarrow> string \<Rightarrow> string" where
  "subscriberLockKey imsi mac apn =
     (let apn' = to_lower (trim_space apn); imsi' = trim_space imsi in
      if imsi' \<noteq> [] then imsi' @ ''||'' @ apn' else ''|'' @ life_normalizeMAC mac @ ''|'' @ apn')"

definition subscriberSame :: "session \<Rightarrow> session \<Rightarrow> bool" where
  "subscriberSame a b =
     (if s_IMSI a \<noteq> [] \<and> s_IMSI b \<noteq> [] \<and> s_IMSI a \<noteq> s_IMSI b then False
      else if s_MACAddress a \<noteq> [] \<and> s_MACAddress b \<noteq> []
              \<and> life_normalizeMAC (s_MACAddress a) \<noteq> life_normalizeMAC (s_MACAddress b) then False
      else if s_APN a \<noteq> [] \<and> s_APN b \<noteq> [] \<and> \<not> equal_fold (s_APN a) (s_APN b) then False
      else (s_IMSI a \<noteq> [] \<and> s_IMSI a = s_IMSI b)
        \<or> (s_MACAddress a \<noteq> [] \<and> life_normalizeMAC (s_MACAddress a) = life_normalizeMAC (s_MACAddress b)))"

definition withDefaults :: "svc_config \<Rightarrow> attach_request \<Rightarrow> attach_request" where
  "withDefaults cfg req = req\<lparr>
     rq_APN := (if rq_APN req = [] then cf_DefaultAPN cfg else rq_APN req),
     rq_Realm := (if rq_Realm req = [] then cf_DefaultRealm cfg else rq_Realm req),
     rq_CallingStationID := (if rq_CallingStationID req = [] then rq_MACAddress req else rq_CallingStationID req),
     rq_EAPIdentity := (if rq_EAPIdentity req = [] then rq_Username req else rq_EAPIdentity req) \<rparr>"

definition radiusSessionTTL :: "svc_config \<Rightarrow> int" where
  "radiusSessionTTL cfg = seconds (cf_SessionTimeoutSeconds cfg)"

definition lockSubscriber :: "env \<Rightarrow> string \<Rightarrow> string \<Rightarrow> string \<Rightarrow> svc_err option act" where
  "lockSubscriber w imsi mac apn =
     (let key = subscriberLockKey imsi mac apn in call (EvLock key) (\<lambda>h. w_lock w h key))"

definition releaseIP :: "env \<Rightarrow> string \<Rightarrow> (bool \<times> svc_err option) act" where
  "releaseIP w i = (if \<not> w_ipam w then ret (False, None)
     else do { e \<leftarrow> call (EvRelease i) (\<lambda>h. w_release w h i); ret (True, e) })"

definition pgw_create where
  "pgw_create w s = call (EvPGWCreate s) (\<lambda>h. w_create w h s)"

definition pgw_delete where
  "pgw_delete w s = call (EvPGWDelete s) (\<lambda>h. w_delete w h s)"

definition user_add where
  "user_add w s = call (EvUserAdd s) (\<lambda>h. w_user_add w h s)"

definition user_remove where
  "user_remove w s = call (EvUserRemove s) (\<lambda>h. w_user_remove w h s)"

definition access_add where
  "access_add w s = call (EvAccessAdd s) (\<lambda>h. w_access_add w h s)"

definition access_remove where
  "access_remove w s = call (EvAccessRemove s) (\<lambda>h. w_access_remove w h s)"

definition route_install :: "env \<Rightarrow> session \<Rightarrow> svc_err option act" where
  "route_install w s = State (\<lambda>v.
     let ((e, calls), opened) = rt_Install (cf_InstallRoutes (w_cfg w)) (w_netlink w (sv_events v)) (Some s) (sv_routeHandle v)
     in (map_option RouteErr e, v\<lparr> sv_routeHandle := opened, sv_events := sv_events v @ [EvRouteInstall s] \<rparr>))"

definition route_remove :: "env \<Rightarrow> session \<Rightarrow> svc_err option act" where
  "route_remove w s = State (\<lambda>v.
     (map_option RouteErr (fst (rt_Remove (cf_InstallRoutes (w_cfg w)) (w_netlink w (sv_events v)) (Some s) (sv_routeHandle v))),
      v\<lparr> sv_events := sv_events v @ [EvRouteRemove s] \<rparr>))"

section \<open>Detaching\<close>

definition detachSessionLocked :: "env \<Rightarrow> session \<Rightarrow> attach_out act" where
  "detachSessionLocked w sess = do {
     r \<leftarrow> on_mgr (MarkTerminating (w_now w) (s_ID sess));
     (case r of Inl e \<Rightarrow> ret (None, Some (SessErr e))
      | Inr t \<Rightarrow> do {
          ed \<leftarrow> pgw_delete w t;
          er \<leftarrow> route_remove w t;
          eu \<leftarrow> (if w_user w then user_remove w t else ret None);
          ea \<leftarrow> (if w_access w then access_remove w t else ret None);
          rel \<leftarrow> releaseIP w (s_ID t);
          terminated \<leftarrow> on_mgr (Delete (w_now w) (s_ID t));
          ret (map_option responseFromSession terminated,
               errors_Join (List.map_filter (\<lambda>e. e)
                 [case ed of None \<Rightarrow> None | Some e \<Rightarrow> if nonFatalPGWDeleteError e then None else Some e,
                  er, eu, ea, snd rel]))
        })
   }"

definition findDetachSession :: "detach_request \<Rightarrow> (svc_err + session) act" where
  "findDetachSession req =
     (if dq_SessionID req = [] \<and> dq_IMSI req = [] \<and> dq_MACAddress req = [] then ret (Inl DetachNeedsKey)
      else ask_mgr (\<lambda>m.
        let a = (if dq_SessionID req \<noteq> [] then Get (dq_SessionID req) m else None);
            b = (if a = None \<and> dq_IMSI req \<noteq> [] then LookupByIMSI (dq_IMSI req) m else a);
            c = (if b = None \<and> dq_MACAddress req \<noteq> [] then LookupByMAC (dq_MACAddress req) m else b)
        in case c of None \<Rightarrow> Inl SessionNotFound | Some s \<Rightarrow> Inr s))"

definition Detach :: "env \<Rightarrow> detach_request \<Rightarrow> attach_out act" where
  "Detach w req = do {
     f \<leftarrow> findDetachSession req;
     (case f of Inl e \<Rightarrow> ret (None, Some e)
      | Inr sess \<Rightarrow> do {
          l \<leftarrow> lockSubscriber w (s_IMSI sess) (s_MACAddress sess) (s_APN sess);
          (case l of Some e \<Rightarrow> ret (None, Some e) | None \<Rightarrow> detachSessionLocked w sess)
        })
   }"

section \<open>An existing session\<close>

definition findAttachExisting :: "env \<Rightarrow> string \<Rightarrow> string \<Rightarrow> string \<Rightarrow> session option act" where
  "findAttachExisting w imsi mac apn = do {
     r \<leftarrow> walk_mgr w ''findBySubscriber'' (FindAnyBySubscriber imsi mac apn);
     ret (case r of None \<Rightarrow> None
       | Some s \<Rightarrow> if s_State s \<noteq> Failed \<and> s_State s \<noteq> Terminated then Some s else None)
   }"

definition shouldReplaceExisting :: "svc_config \<Rightarrow> session \<Rightarrow> attach_request \<Rightarrow> bool" where
  "shouldReplaceExisting cfg existing req \<longleftrightarrow>
     cf_DuplicateAttachPolicy cfg = ''replace_existing''
     \<or> s_State existing \<noteq> Active \<or> s_SubscriberIP existing = None
     \<or> 0 < s_GTPUErrorCount existing \<or> s_State existing = Recovering \<or> s_State existing = Failed
     \<or> (rq_APN req \<noteq> [] \<and> s_APN existing \<noteq> [] \<and> \<not> equal_fold (rq_APN req) (s_APN existing))"

definition detachExistingBeforeAttach :: "env \<Rightarrow> session \<Rightarrow> svc_err option act" where
  "detachExistingBeforeAttach w existing = do {
     r \<leftarrow> detachSessionLocked w existing;
     ret (case snd r of None \<Rightarrow> None
       | Some e \<Rightarrow> if pgw_IsContextNotFound e then None
                  else Some (Wrapped ''detach existing session before attach'' e))
   }"

definition reused_counts :: "counters \<Rightarrow> counters" where
  "reused_counts c = c\<lparr> n_duplicateAttachReusedExisting := n_duplicateAttachReusedExisting c + 1,
     n_duplicateAttachSuppressedCreate := n_duplicateAttachSuppressedCreate c + 1,
     n_overlapPrevented := n_overlapPrevented c + 1,
     n_createSessionBlockedExistingActive := n_createSessionBlockedExistingActive c + 1 \<rparr>"

definition replaced_counts :: "counters \<Rightarrow> counters" where
  "replaced_counts c = c\<lparr> n_duplicateAttachReplacedExisting := n_duplicateAttachReplacedExisting c + 1,
     n_controlledReplacement := n_controlledReplacement c + 1 \<rparr>"

definition blocked_counts :: "counters \<Rightarrow> counters" where
  "blocked_counts c = c\<lparr> n_createSessionBlockedExistingActive := n_createSessionBlockedExistingActive c + 1,
     n_overlapPrevented := n_overlapPrevented c + 1 \<rparr>"

definition handleExistingBeforeAttach ::
  "env \<Rightarrow> session option \<Rightarrow> attach_request \<Rightarrow> (attach_out + unit) act" where
  \<comment> \<open>\<open>Inr ()\<close>: proceed; \<open>Inl\<close>: what the caller returns\<close>
  "handleExistingBeforeAttach w eo req = (case eo of None \<Rightarrow> ret (Inr ())
     | Some existing \<Rightarrow>
        if \<not> isLivePGWOwner (s_State existing) then ret (Inr ())
        else do {
          count (\<lambda>c. c\<lparr> n_duplicateAttachEvents := n_duplicateAttachEvents c + 1 \<rparr>);
          (if \<not> shouldReplaceExisting (w_cfg w) existing req then do {
             count reused_counts;
             ret (Inl (Some (responseFromSession existing), None))
           } else do {
             count replaced_counts;
             e \<leftarrow> detachExistingBeforeAttach w existing;
             ret (case e of Some e \<Rightarrow> Inl (None, Some e) | None \<Rightarrow> Inr ())
           })
        })"

definition findLiveSessionDifferentFrom :: "env \<Rightarrow> session \<Rightarrow> session option act" where
  "findLiveSessionDifferentFrom w sess = do {
     cs \<leftarrow> walk_mgr w ''FindByIMSIAPN'' (FindByIMSIAPN (s_IMSI sess) (s_APN sess));
     ds \<leftarrow> (if s_MACAddress sess \<noteq> [] then walk_mgr w ''FindByMAC'' (FindByMAC (s_MACAddress sess)) else ret []);
     ret (find (\<lambda>c. s_ID c \<noteq> s_ID sess \<and> isLivePGWOwner (s_State c) \<and> subscriberSame c sess) (cs @ ds))
   }"

section \<open>Activating an authorised session\<close>

definition fail_session :: "env \<Rightarrow> string \<Rightarrow> svc_err \<Rightarrow> attach_out act" where
  \<comment> \<open>\<open>failed, markErr := s.sessions.MarkFailed(id, err.Error()) ...\<close>\<close>
  "fail_session w i e = do {
     r \<leftarrow> on_mgr (MarkFailed (w_now w) i (w_text w e));
     ret (case r of Inl me \<Rightarrow> (None, Some (Joined [e, SessErr me]))
       | Inr failed \<Rightarrow> (Some (responseFromSession failed), Some e))
   }"

definition allocate_address :: "env \<Rightarrow> session \<Rightarrow> (attach_out + session) act" where
  "allocate_address w authorized =
     (if w_gtp w then ret (Inr authorized)
      else if \<not> w_ipam w then ret (Inl (None, Some NilAddressPool))
      else do {
        r \<leftarrow> call (EvAllocate (s_ID authorized)) (\<lambda>h. w_alloc w h (s_ID authorized));
        (case r of
           Inl e \<Rightarrow> do { out \<leftarrow> fail_session w (s_ID authorized) e; ret (Inl out) }
         | Inr a \<Rightarrow> do {
             s \<leftarrow> on_mgr (SetSubscriberIP (w_now w) (s_ID authorized) a);
             (case s of
                Inl e \<Rightarrow> do { _ \<leftarrow> releaseIP w (s_ID authorized); ret (Inl (None, Some (SessErr e))) }
              | Inr allocated \<Rightarrow> ret (Inr allocated))
           })
      })"

definition request_pgw :: "env \<Rightarrow> session \<Rightarrow> (attach_out + session \<times> pgw_result option) act" where
  \<comment> \<open>from \<open>MarkPGWPending\<close> to the answer of \<open>CreateSession\<close>\<close>
  "request_pgw w allocated = do {
     r \<leftarrow> on_mgr (MarkPGWPending (w_now w) (s_ID allocated));
     (case r of
        Inl e \<Rightarrow> do { _ \<leftarrow> releaseIP w (s_ID allocated); ret (Inl (None, Some (SessErr e))) }
      | Inr pending \<Rightarrow> do {
          existing \<leftarrow> findLiveSessionDifferentFrom w pending;
          (if existing \<noteq> None then do {
             count blocked_counts;
             _ \<leftarrow> releaseIP w (s_ID pending);
             out \<leftarrow> fail_session w (s_ID pending) LiveSessionExists;
             ret (Inl out)
           } else do {
             p \<leftarrow> pgw_create w pending;
             (case p of
                Inl e \<Rightarrow> do {
                  _ \<leftarrow> releaseIP w (s_ID pending);
                  out \<leftarrow> fail_session w (s_ID pending) e;
                  ret (Inl out)
                }
              | Inr res \<Rightarrow> ret (Inr (pending, res)))
           })
        })
   }"

definition take_paa :: "env \<Rightarrow> session \<Rightarrow> pgw_result \<Rightarrow> (attach_out + session) act" where
  "take_paa w pending res =
     (if pr_SubscriberIP res \<noteq> None
         \<and> (s_SubscriberIP pending = None \<or> \<not> ip_equal (pr_SubscriberIP res) (s_SubscriberIP pending))
      then do {
        _ \<leftarrow> (if s_SubscriberIP pending \<noteq> None then releaseIP w (s_ID pending) else ret (False, None));
        r \<leftarrow> on_mgr (UpdateSubscriberIP (w_now w) (s_ID pending) (pr_SubscriberIP res));
        ret (case r of Inl e \<Rightarrow> Inl (None, Some (SessErr e)) | Inr s \<Rightarrow> Inr s)
      } else ret (Inr pending))"

definition take_teids :: "env \<Rightarrow> session \<Rightarrow> pgw_result \<Rightarrow> (attach_out + session) act" where
  "take_teids w s res =
     (if pr_PGWControlIP res \<noteq> None \<or> pr_PGWUserIP res \<noteq> None \<or> pr_GTPCTEID res \<noteq> 0
         \<or> pr_LocalGTPUTEID res \<noteq> 0 \<or> pr_RemoteGTPUTEID res \<noteq> 0
      then do {
        r \<leftarrow> on_mgr (ApplyPGWResult (w_now w) (s_ID s) (pr_PGWControlIP res) (pr_PGWUserIP res)
               (pr_GTPCTEID res) (pr_LocalGTPUTEID res) (pr_RemoteGTPUTEID res));
        ret (case r of Inl e \<Rightarrow> Inl (None, Some (SessErr e)) | Inr s' \<Rightarrow> Inr s')
      } else ret (Inr s))"

definition take_pgw_result :: "env \<Rightarrow> session \<Rightarrow> pgw_result option \<Rightarrow> (attach_out + session) act" where
  "take_pgw_result w pending ro = (case ro of None \<Rightarrow> ret (Inr pending)
     | Some res \<Rightarrow> do {
         a \<leftarrow> take_paa w pending res;
         (case a of Inl out \<Rightarrow> ret (Inl out) | Inr s \<Rightarrow> take_teids w s res)
       })"

definition undo_pgw :: "env \<Rightarrow> session \<Rightarrow> svc_err \<Rightarrow> attach_out act" where
  \<comment> \<open>the tail the roll-backs share: delete at the PGW, release the address, mark failed\<close>
  "undo_pgw w s e = do {
     _ \<leftarrow> pgw_delete w s;
     _ \<leftarrow> releaseIP w (s_ID s);
     fail_session w (s_ID s) e
   }"

definition bind_datapath :: "env \<Rightarrow> session \<Rightarrow> (attach_out + unit) act" where
  \<comment> \<open>the address check, \<open>routing.Install\<close> and \<open>user.AddSession\<close>\<close>
  "bind_datapath w routable =
     (if s_SubscriberIP routable = None then do {
        out \<leftarrow> undo_pgw w routable MissingPAA; ret (Inl out)
      } else do {
        er \<leftarrow> route_install w routable;
        (case er of
           Some e \<Rightarrow> do { out \<leftarrow> undo_pgw w routable e; ret (Inl out) }
         | None \<Rightarrow>
            if \<not> w_user w then ret (Inr ())
            else do {
              eu \<leftarrow> user_add w routable;
              (case eu of None \<Rightarrow> ret (Inr ())
               | Some e \<Rightarrow> do {
                   _ \<leftarrow> route_remove w routable;
                   out \<leftarrow> undo_pgw w routable e;
                   ret (Inl out)
                 })
            })
      })"

definition bind_access :: "env \<Rightarrow> session \<Rightarrow> (attach_out + unit) act" where
  "bind_access w active =
     (if \<not> w_access w then ret (Inr ())
      else do {
        ea \<leftarrow> access_add w active;
        (case ea of None \<Rightarrow> ret (Inr ())
         | Some e \<Rightarrow>
            if \<not> w_user w then ret (Inl (None, Some NilUserPlane))
            else do {
              _ \<leftarrow> user_remove w active;
              _ \<leftarrow> route_remove w active;
              out \<leftarrow> undo_pgw w active e;
              ret (Inl out)
            })
      })"

definition validatePostActivation :: "env \<Rightarrow> session \<Rightarrow> svc_err option act" where
  "validatePostActivation w s =
     (if \<not> cf_PostValidationEnabled (w_cfg w) then ret None
      else do {
        c \<leftarrow> check_ctx w;
        ret (if c \<noteq> None then c
          else if s_SubscriberIP s = None then Some (Invalid ''subscriber_ip_missing'')
          else if s_GTPCTEID s = 0 then Some (Invalid ''gtpc_teid_missing'')
          else if s_LocalGTPUTEID s = 0 then Some (Invalid ''local_gtpu_teid_missing'')
          else if s_RemoteGTPUTEID s = 0 then Some (Invalid ''remote_gtpu_teid_missing'')
          else if \<not> s_Authorized s then Some (Invalid ''access_authorization_missing'')
          else None)
      })"

definition finish_active :: "env \<Rightarrow> session \<Rightarrow> attach_out act" where
  "finish_active w active = do {
     ev \<leftarrow> validatePostActivation w active;
     (case ev of
        Some e \<Rightarrow>
          if cf_FailAction (w_cfg w) = ''trigger_recovery'' \<or> cf_FailAction (w_cfg w) = ''reject_access''
          then do {
            _ \<leftarrow> detachSessionLocked w active;
            ret (Some (responseFromSession active), Some e)
          } else ret (Some (responseFromSession active), None)
      | None \<Rightarrow> ret (Some (responseFromSession active), None))
   }"

definition activate_bound :: "env \<Rightarrow> session \<Rightarrow> attach_out act" where
  "activate_bound w routable = do {
     b \<leftarrow> bind_datapath w routable;
     (case b of Inl out \<Rightarrow> ret out
      | Inr _ \<Rightarrow> do {
          r \<leftarrow> on_mgr (MarkActive (w_now w) (s_ID routable));
          (case r of Inl e \<Rightarrow> ret (None, Some (SessErr e))
           | Inr active \<Rightarrow> do {
               a \<leftarrow> bind_access w active;
               (case a of Inl out \<Rightarrow> ret out | Inr _ \<Rightarrow> finish_active w active)
             })
        })
   }"

definition activateAuthorizedSession :: "env \<Rightarrow> session \<Rightarrow> auth_result \<Rightarrow> attach_out act" where
  "activateAuthorizedSession w sess auth = do {
     r \<leftarrow> on_mgr (ApplyAuthResult (w_now w) (s_ID sess) (au_IMSI auth) (au_MSISDN auth) (au_APN auth) (au_Reason auth));
     (case r of Inl e \<Rightarrow> ret (None, Some (SessErr e))
      | Inr authorized \<Rightarrow> do {
          al \<leftarrow> allocate_address w authorized;
          (case al of Inl out \<Rightarrow> ret out
           | Inr allocated \<Rightarrow> do {
               p \<leftarrow> request_pgw w allocated;
               (case p of Inl out \<Rightarrow> ret out
                | Inr (pending, res) \<Rightarrow> do {
                    t \<leftarrow> take_pgw_result w pending res;
                    (case t of Inl out \<Rightarrow> ret out | Inr routable \<Rightarrow> activate_bound w routable)
                  })
             })
        })
   }"

end
