(* ===== verification/LifeOps.thy ===== *)
theory LifeOps
  imports LifeAttach
begin

text \<open>
  The handlers of the lifecycle service (\<open>internal/lifecycle/service.go\<close>): attach with and without
  an authentication result, the EAP exchange, accounting, recovery, and the events that other
  parts report (GTP-U errors, deletions by the PGW, disconnects by the AAA server, shutdown).
\<close>

section \<open>Recovery and the authentication cache\<close>

definition update_recovery :: "env \<Rightarrow> string \<Rightarrow> (tombstone \<Rightarrow> tombstone) \<Rightarrow> tombstone option act" where
  "update_recovery w old fn = State (\<lambda>v.
     let (ordM, ordI) = w_rec_order w (sv_events v) (sv_rec v);
         (r, c) = UpdateRecovery (w_now w) ordM ordI old fn (sv_rec v)
     in (r, v\<lparr> sv_rec := c \<rparr>))"

definition logRecoveryAttachIfPresent :: "env \<Rightarrow> attach_request \<Rightarrow> tombstone option act" where
  "logRecoveryAttachIfPresent w req =
     (if \<not> cf_RecoveryEnabled (w_cfg w) \<or> \<not> cf_AllowSameMACReattach (w_cfg w) then ret None
      else on_rec (FindRecovery (w_now w) (rq_IMSI req) (rq_MACAddress req)))"

definition completeRecovery :: "env \<Rightarrow> session option \<Rightarrow> attach_response option \<Rightarrow> tombstone option \<Rightarrow> unit act" where
  "completeRecovery w created resp old = (case (resp, old) of
     (Some r, Some _) \<Rightarrow> do {
       a \<leftarrow> ask_mgr (Get (rs_SessionID r));
       b \<leftarrow> (case (a, created) of (None, Some c) \<Rightarrow> ask_mgr (Get (s_ID c)) | _ \<Rightarrow> ret a);
       (case b of None \<Rightarrow> ret ()
        | Some active \<Rightarrow> do { _ \<leftarrow> on_rec (CompleteRecoveryFor (w_now w) (Some active)); ret () })
     }
   | _ \<Rightarrow> ret ())"

fun first_station :: "string \<Rightarrow> string \<Rightarrow> (string \<times> string) option" where
  "first_station seps value = (case seps of [] \<Rightarrow> None
     | c # rest \<Rightarrow> (case split2 c value of None \<Rightarrow> first_station rest value
        | Some (a, b) \<Rightarrow> (case parse_mac a of Some hw \<Rightarrow> Some (to_lower (mac_string hw), trim_space b)
            | None \<Rightarrow> first_station rest value)))"

definition splitCalledStation :: "string \<Rightarrow> string \<times> string" where
  "splitCalledStation value =
     (let v = trim_space value in
      if v = [] then ([], [])
      else case first_station [CHR '':'', CHR '' ''] v of None \<Rightarrow> ([], []) | Some p \<Rightarrow> p)"

definition accept_ttl :: "svc_config \<Rightarrow> int" where
  "accept_ttl cfg =
     (let a = (if 0 < cf_SessionTimeoutSeconds cfg then cf_SessionTimeoutSeconds cfg else cf_DefaultTTLSeconds cfg);
          b = (if 0 < cf_MaxTTLSeconds cfg \<and> cf_MaxTTLSeconds cfg < a then cf_MaxTTLSeconds cfg else a)
      in if b \<le> 0 then 3600 else b)"

definition updateAuthCacheFromAccessAccept :: "env \<Rightarrow> string \<Rightarrow> attach_request \<Rightarrow> unit act" where
  "updateAuthCacheFromAccessAccept w sid req =
     (let cfg = w_cfg w; now = w_now w; imsi = trim_space (rq_IMSI req); mac = life_normalizeMAC (rq_MACAddress req) in
      if \<not> cf_AuthCacheEnabled cfg \<or> imsi = [] \<or> mac = [] then ret ()
      else let ttl = accept_ttl cfg; (bssid, ssid) = splitCalledStation (rq_CalledStationID req) in do {
        _ \<leftarrow> on_auth (UpsertAuthCache now (zero_auth\<lparr>
          a_MACAddress := mac, a_IMSI := imsi, a_UserName := rq_Username req, a_APN := rq_APN req,
          a_MSISDN := rq_MSISDN req, a_NASIP := rq_NASIP req, a_NASIdentifier := rq_NASIdentifier req,
          a_CalledStationID := rq_CalledStationID req,
          a_CallingStationID := coalesce [rq_CallingStationID req, mac], a_SSID := ssid, a_BSSID := bssid,
          a_AcctSessionID := rq_AcctSessionID req, a_SessionTimeoutSeconds := ttl, a_AuthStartTime := now,
          a_AuthExpiresAt := now + seconds ttl, a_LastSeenTime := now, a_LastAccessAcceptSessionID := sid \<rparr>));
        ret ()
      })"

section \<open>Attach\<close>

definition discardPreAuthSession :: "env \<Rightarrow> session \<Rightarrow> unit act" where
  "discardPreAuthSession w sess = do {
     r \<leftarrow> on_mgr (MarkTerminating (w_now w) (s_ID sess));
     (case r of Inl e \<Rightarrow> ret ()
      | Inr t \<Rightarrow> do { _ \<leftarrow> on_mgr (Delete (w_now w) (s_ID t)); ret () })
   }"

definition create_input_of :: "svc_config \<Rightarrow> attach_request \<Rightarrow> string \<Rightarrow> string \<Rightarrow> string \<Rightarrow> create_input" where
  "create_input_of cfg req imsi msisdn apn = \<lparr> ci_IMSI = imsi, ci_MSISDN = msisdn,
     ci_MACAddress = rq_MACAddress req, ci_APN = apn, ci_Realm = rq_Realm req, ci_Username = rq_Username req,
     ci_EAPIdentity = rq_EAPIdentity req, ci_CallingStationID = rq_CallingStationID req,
     ci_CalledStationID = rq_CalledStationID req, ci_NASIP = rq_NASIP req,
     ci_NASIdentifier = rq_NASIdentifier req, ci_AcctSessionID = rq_AcctSessionID req,
     ci_RadiusState = rq_RadiusState req, ci_RadiusClass = rq_RadiusClass req,
     ci_ConnectInfo = rq_ConnectInfo req, ci_FramedMTU = rq_FramedMTU req, ci_AccessType = ''ethernet'',
     ci_AccessInterface = cf_AccessInterface cfg, ci_GatewayIP = None, ci_TTL = radiusSessionTTL cfg \<rparr>"

definition finish_attach :: "env \<Rightarrow> attach_request \<Rightarrow> auth_result \<Rightarrow> session \<Rightarrow> tombstone option \<Rightarrow> attach_out act" where
  \<comment> \<open>the common end of \<open>Attach\<close> and \<open>AttachAuthorized\<close>\<close>
  "finish_attach w req auth sess recovery = do {
     out \<leftarrow> activateAuthorizedSession w sess auth;
     (if snd out = None \<and> recovery \<noteq> None then completeRecovery w (Some sess) (fst out) recovery else ret ());
     (case out of (Some resp, None) \<Rightarrow>
        updateAuthCacheFromAccessAccept w (rs_SessionID resp)
          (req\<lparr> rq_IMSI := coalesce [au_IMSI auth, rq_IMSI req], rq_MSISDN := coalesce [au_MSISDN auth, rq_MSISDN req],
                rq_APN := coalesce [au_APN auth, rq_APN req] \<rparr>)
      | _ \<Rightarrow> ret ());
     ret out
   }"

definition resolve_existing ::
  "env \<Rightarrow> attach_request \<Rightarrow> string \<Rightarrow> string \<Rightarrow> tombstone option \<Rightarrow> session option \<Rightarrow> (attach_out + unit) act" where
  \<comment> \<open>\<open>if existing := s.findAttachExisting(...); existing != nil { ... }\<close>; the last argument is the session to
    discard when the existing one is kept\<close>
  "resolve_existing w req imsi apn recovery own = do {
     existing \<leftarrow> findAttachExisting w imsi (rq_MACAddress req) apn;
     h \<leftarrow> handleExistingBeforeAttach w existing req;
     (case h of Inr _ \<Rightarrow> ret (Inr ())
      | Inl (resp, Some e) \<Rightarrow> ret (Inl (None, Some e))
      | Inl (resp, None) \<Rightarrow> do {
          (case own of None \<Rightarrow> ret () | Some s \<Rightarrow> discardPreAuthSession w s);
          (if recovery \<noteq> None then completeRecovery w existing resp recovery else ret ());
          ret (Inl (resp, None))
        })
   }"

definition AttachAuthorized :: "env \<Rightarrow> attach_request \<Rightarrow> auth_result option \<Rightarrow> attach_out act" where
  "AttachAuthorized w req0 ao =
     (let req = withDefaults (w_cfg w) req0;
          auth = (case ao of Some a \<Rightarrow> a
            | None \<Rightarrow> \<lparr> au_Allowed = True, au_IMSI = rq_IMSI req, au_MSISDN = rq_MSISDN req, au_APN = rq_APN req,
                       au_SubscriberID = [], au_Reason = ''authorized'', au_ResultCode = 0 \<rparr>);
          imsi = coalesce [au_IMSI auth, rq_IMSI req]; apn = coalesce [au_APN auth, rq_APN req]
      in if \<not> au_Allowed auth then ret (None, Some Rejected)
      else do {
        l \<leftarrow> lockSubscriber w imsi (rq_MACAddress req) apn;
        (case l of Some e \<Rightarrow> ret (None, Some e)
         | None \<Rightarrow> do {
             recovery \<leftarrow> logRecoveryAttachIfPresent w req;
             x \<leftarrow> resolve_existing w req imsi apn recovery None;
             (case x of Inl out \<Rightarrow> ret out
              | Inr _ \<Rightarrow> do {
                  sess \<leftarrow> on_mgr (Create (w_now w)
                    (create_input_of (w_cfg w) req imsi (coalesce [au_MSISDN auth, rq_MSISDN req]) apn));
                  p \<leftarrow> on_mgr (MarkAuthPending (w_now w) (s_ID sess));
                  (case p of Inl e \<Rightarrow> ret (None, Some (SessErr e))
                   | Inr _ \<Rightarrow> finish_attach w req auth sess recovery)
                })
           })
      })"

definition relock :: "env \<Rightarrow> attach_request \<Rightarrow> auth_result \<Rightarrow> session \<Rightarrow> tombstone option \<Rightarrow> (attach_out + unit) act" where
  \<comment> \<open>\<open>Attach\<close> takes the lock of the authenticated identity when it differs, and looks again\<close>
  "relock w req auth sess recovery =
     (let imsi = coalesce [au_IMSI auth, rq_IMSI req]; apn = coalesce [au_APN auth, rq_APN req] in
      if subscriberLockKey imsi (rq_MACAddress req) apn = subscriberLockKey (rq_IMSI req) (rq_MACAddress req) (rq_APN req)
      then ret (Inr ())
      else do {
        l \<leftarrow> lockSubscriber w imsi (rq_MACAddress req) apn;
        (case l of Some e \<Rightarrow> ret (Inl (None, Some e))
         | None \<Rightarrow> resolve_existing w req imsi apn recovery (Some sess))
      })"

definition auth_request_of :: "attach_request \<Rightarrow> auth_request" where
  "auth_request_of req = \<lparr> aa_IMSI = rq_IMSI req, aa_MSISDN = rq_MSISDN req, aa_MACAddress = rq_MACAddress req,
     aa_Username = rq_Username req, aa_Realm = rq_Realm req, aa_APN = rq_APN req, aa_Ki = rq_Ki req,
     aa_OPc = rq_OPc req \<rparr>"

definition Attach :: "env \<Rightarrow> attach_request \<Rightarrow> attach_out act" where
  "Attach w req0 =
     (let req = withDefaults (w_cfg w) req0 in do {
        l \<leftarrow> lockSubscriber w (rq_IMSI req) (rq_MACAddress req) (rq_APN req);
        (case l of Some e \<Rightarrow> ret (None, Some e)
         | None \<Rightarrow> do {
             recovery \<leftarrow> logRecoveryAttachIfPresent w req;
             x \<leftarrow> resolve_existing w req (rq_IMSI req) (rq_APN req) recovery None;
             (case x of Inl out \<Rightarrow> ret out
              | Inr _ \<Rightarrow> do {
                  sess \<leftarrow> on_mgr (Create (w_now w)
                    (create_input_of (w_cfg w) req (rq_IMSI req) (rq_MSISDN req) (rq_APN req)));
                  p \<leftarrow> on_mgr (MarkAuthPending (w_now w) (s_ID sess));
                  (case p of Inl e \<Rightarrow> ret (None, Some (SessErr e))
                   | Inr _ \<Rightarrow> do {
                       a \<leftarrow> call (EvAuthenticate (auth_request_of req)) (\<lambda>h. w_aaa w h (auth_request_of req));
                       (case a of
                          Inl (au, e) \<Rightarrow> do {
                            r \<leftarrow> on_mgr (MarkFailed (w_now w) (s_ID sess)
                              (case au of Some x \<Rightarrow> if au_Reason x \<noteq> [] then au_Reason x else w_text w e
                                | None \<Rightarrow> w_text w e));
                            ret (case r of Inl me \<Rightarrow> (None, Some (Joined [e, SessErr me]))
                              | Inr failed \<Rightarrow> (Some (responseFromSession failed), Some e))
                          }
                        | Inr auth \<Rightarrow> do {
                            k \<leftarrow> relock w req auth sess recovery;
                            (case k of Inl out \<Rightarrow> ret out | Inr _ \<Rightarrow> finish_attach w req auth sess recovery)
                          })
                     })
                })
           })
      })"

end
