(* ===== verification/LifeEvents.thy ===== *)
theory LifeEvents
  imports LifeOps
begin

text \<open>
  The remaining handlers of the lifecycle service: the EAP exchange, RADIUS accounting, the
  recovery paths, and the deletions other parts of the network ask for. \<open>exec_call\<close> collects all
  entry points of the service.
\<close>

section \<open>The EAP exchange\<close>

definition eapWithDefaults :: "svc_config \<Rightarrow> eap_request \<Rightarrow> eap_request" where
  "eapWithDefaults cfg req = req\<lparr>
     eq_APN := (if eq_APN req = [] then cf_DefaultAPN cfg else eq_APN req),
     eq_Realm := (if eq_Realm req = [] then cf_DefaultRealm cfg else eq_Realm req),
     eq_CallingStationID := (if eq_CallingStationID req = [] then eq_MACAddress req else eq_CallingStationID req),
     eq_EAPIdentity := (if eq_EAPIdentity req = [] then eq_Username req else eq_EAPIdentity req) \<rparr>"

definition eap_reply :: "eap_result \<Rightarrow> eap_state \<Rightarrow> string \<Rightarrow> eap_response" where
  "eap_reply res st reason = \<lparr> ep_SessionID = er_SessionID res, ep_State = st, ep_IMSI = er_IMSI res,
     ep_SubscriberIP = [], ep_APN = er_APN res, ep_Reason = reason, ep_EAPPayload = er_EAPPayload res,
     ep_MSK = er_MSK res \<rparr>"

definition attach_of_eap :: "eap_request \<Rightarrow> eap_result \<Rightarrow> attach_request" where
  "attach_of_eap req res = no_request\<lparr> rq_IMSI := coalesce [er_IMSI res, eq_IMSI req],
     rq_MSISDN := coalesce [er_MSISDN res, eq_MSISDN req], rq_MACAddress := eq_MACAddress req,
     rq_Username := eq_Username req, rq_EAPIdentity := eq_EAPIdentity req, rq_Realm := eq_Realm req,
     rq_APN := coalesce [er_APN res, eq_APN req], rq_CallingStationID := eq_CallingStationID req,
     rq_CalledStationID := eq_CalledStationID req, rq_NASIP := eq_NASIP req,
     rq_NASIdentifier := eq_NASIdentifier req, rq_AcctSessionID := eq_AcctSessionID req,
     rq_RadiusState := eq_SessionID req, rq_RadiusClass := eq_RadiusClass req,
     rq_ConnectInfo := eq_ConnectInfo req, rq_FramedMTU := eq_FramedMTU req \<rparr>"

definition auth_of_eap :: "eap_request \<Rightarrow> eap_result \<Rightarrow> auth_result" where
  "auth_of_eap req res = \<lparr> au_Allowed = True, au_IMSI = coalesce [er_IMSI res, eq_IMSI req],
     au_MSISDN = coalesce [er_MSISDN res, eq_MSISDN req], au_APN = coalesce [er_APN res, eq_APN req],
     au_SubscriberID = er_SubscriberID res, au_Reason = er_Reason res, au_ResultCode = er_ResultCode res \<rparr>"

definition ExchangeEAP :: "env \<Rightarrow> eap_request \<Rightarrow> (eap_response option \<times> svc_err option) act" where
  "ExchangeEAP w req0 =
     (let req = eapWithDefaults (w_cfg w) req0 in do {
        a \<leftarrow> call (EvExchangeEAP req) (\<lambda>h. w_eap w h req);
        (case a of
           Inl (None, e) \<Rightarrow> ret (None, Some e)
         | Inl (Some res, e) \<Rightarrow>
             ret (Some (eap_reply res (er_State res) (er_Reason res)),
                  if er_State res = EAPStateChallenge then None else Some e)
         | Inr res \<Rightarrow>
             if er_State res = EAPStateChallenge then ret (Some (eap_reply res EAPStateChallenge (er_Reason res)), None)
             else if er_State res \<noteq> EAPStateSuccess \<or> \<not> er_Allowed res
             then ret (Some (eap_reply res EAPStateFailure (coalesce [er_Reason res, ''eap rejected''])), Some Rejected)
             else do {
               out \<leftarrow> AttachAuthorized w (attach_of_eap req res) (Some (auth_of_eap req res));
               ret (case out of
                   (_, Some e) \<Rightarrow> (None, Some e)
                 | (Some r, None) \<Rightarrow> (Some \<lparr> ep_SessionID = coalesce [rs_SessionID r, er_SessionID res],
                     ep_State = EAPStateSuccess, ep_IMSI = rs_IMSI r, ep_SubscriberIP = rs_SubscriberIP r,
                     ep_APN = rs_APN r, ep_Reason = rs_Reason r, ep_EAPPayload = er_EAPPayload res,
                     ep_MSK = er_MSK res \<rparr>, None)
                 | (None, None) \<Rightarrow> (None, None))
             })
      })"

section \<open>Recovering from the authentication cache\<close>

definition authCacheRecoveryKey :: "auth_entry \<Rightarrow> string" where
  "authCacheRecoveryKey e = life_normalizeMAC (a_MACAddress e) @ ''|'' @ a_IMSI e @ ''|'' @ to_lower (a_APN e)"

definition has_suffix :: "string \<Rightarrow> string \<Rightarrow> bool" where
  "has_suffix s suf \<longleftrightarrow> length suf \<le> length s \<and> drop (length s - length suf) s = suf"

definition begin_progress :: "svc_config \<Rightarrow> time \<Rightarrow> string \<Rightarrow> recovery_progress \<Rightarrow> bool \<times> recovery_progress" where
  \<comment> \<open>the decision of \<open>beginAuthCacheRecovery\<close> on the record of one subscriber\<close>
  "begin_progress cfg now st rec =
     (if has_suffix (rp_state rec) ''_pending'' then (False, rec)
      else if \<not> time_is_zero (rp_lastAt rec) \<and> now - rp_lastAt rec < seconds (cf_CooldownSeconds cfg) then (False, rec)
      else let recent = filter (\<lambda>at. now - seconds 60 < at) (rp_attempts rec) in
        if cf_MaxAttemptsPerMinute cfg \<le> int (length recent) then (False, rec\<lparr> rp_attempts := recent \<rparr>)
        else (True, \<lparr> rp_state = st @ ''_pending'', rp_lastAt = now, rp_attempts = recent @ [now] \<rparr>))"

definition beginAuthCacheRecovery :: "env \<Rightarrow> auth_entry \<Rightarrow> string \<Rightarrow> bool act" where
  "beginAuthCacheRecovery w entry st =
     (if \<not> cf_StartRecoveryEnabled (w_cfg w) then ret False
      else State (\<lambda>v.
        let key = authCacheRecoveryKey entry;
            rec = (case sv_recoveryByKey v key of Some r \<Rightarrow> r
              | None \<Rightarrow> \<lparr> rp_state = [], rp_lastAt = zero_time, rp_attempts = [] \<rparr>);
            (go, rec') = begin_progress (w_cfg w) (w_now w) st rec
        in (go, v\<lparr> sv_recoveryByKey := (sv_recoveryByKey v)(key \<mapsto> rec') \<rparr>)))"

definition finishAuthCacheRecovery :: "env \<Rightarrow> auth_entry \<Rightarrow> unit act" where
  "finishAuthCacheRecovery w entry = State (\<lambda>v.
     ((), case sv_recoveryByKey v (authCacheRecoveryKey entry) of None \<Rightarrow> v
        | Some r \<Rightarrow> v\<lparr> sv_recoveryByKey := (sv_recoveryByKey v)(authCacheRecoveryKey entry \<mapsto>
             r\<lparr> rp_state := ''cooldown'', rp_lastAt := w_now w \<rparr>) \<rparr>))"

definition acct_update_of :: "accounting_request \<Rightarrow> bool \<Rightarrow> string \<Rightarrow> acct_update" where
  "acct_update_of req active cause = \<lparr> u_AcctSessionID = aq_AcctSessionID req,
     u_AcctMultiSessionID = aq_AcctMultiSessionID req, u_Active = active, u_AtRisk = False,
     u_LastSeen = aq_EventTimestamp req, u_InputOctets = aq_InputOctets req,
     u_OutputOctets = aq_OutputOctets req, u_InputPackets = aq_InputPackets req,
     u_OutputPackets = aq_OutputPackets req, u_TerminateCause = cause \<rparr>"

definition recoverFromAuthCache :: "env \<Rightarrow> auth_entry \<Rightarrow> accounting_request \<Rightarrow> string \<Rightarrow> attach_out act" where
  "recoverFromAuthCache w entry req reason = do {
     go \<leftarrow> beginAuthCacheRecovery w entry reason;
     (if \<not> go then ret (None, None)
      else do {
        out \<leftarrow> AttachAuthorized w
          (no_request\<lparr> rq_IMSI := a_IMSI entry, rq_MSISDN := a_MSISDN entry, rq_MACAddress := a_MACAddress entry,
             rq_Username := coalesce [aq_UserName req, a_UserName entry], rq_APN := a_APN entry,
             rq_CallingStationID := coalesce [aq_CallingStationID req, a_CallingStationID entry, a_MACAddress entry],
             rq_CalledStationID := coalesce [aq_CalledStationID req, a_CalledStationID entry],
             rq_NASIP := coalesce [aq_NASIP req, a_NASIP entry],
             rq_NASIdentifier := coalesce [aq_NASIdentifier req, a_NASIdentifier entry],
             rq_AcctSessionID := coalesce [aq_AcctSessionID req, a_AcctSessionID entry],
             rq_ConnectInfo := aq_ConnectInfo req \<rparr>)
          (Some \<lparr> au_Allowed = True, au_IMSI = a_IMSI entry, au_MSISDN = a_MSISDN entry, au_APN = a_APN entry,
             au_SubscriberID = [], au_Reason = reason, au_ResultCode = 0 \<rparr>);
        (case out of (Some resp, None) \<Rightarrow>
           if aq_AcctSessionID req \<noteq> [] then do {
             _ \<leftarrow> on_mgr (ApplyAccounting (w_now w) (rs_SessionID resp) (acct_update_of req True []));
             ret ()
           } else ret ()
         | _ \<Rightarrow> ret ());
        finishAuthCacheRecovery w entry;
        ret out
      })
   }"

section \<open>Accounting\<close>

definition opt :: "('a \<Rightarrow> string) \<Rightarrow> 'a option \<Rightarrow> string" where
  \<comment> \<open>\<open>sessionIMSI\<close>, \<open>sessionMAC\<close>, ..., \<open>authEntryUserName\<close>: a field, or the empty string for nil\<close>
  "opt f x = (case x of None \<Rightarrow> [] | Some y \<Rightarrow> f y)"

definition findAccountingSession :: "env \<Rightarrow> accounting_request \<Rightarrow> session option act" where
  "findAccountingSession w req = do {
     a \<leftarrow> (if aq_Class req \<noteq> [] then ask_mgr (LookupByClass (aq_Class req)) else ret None);
     b \<leftarrow> (if a = None \<and> aq_AcctSessionID req \<noteq> []
       then walk_mgr w ''LookupByAcctSession'' (LookupByAcctSession (aq_AcctSessionID req) (aq_NASIP req) (aq_NASIdentifier req))
       else ret a);
     c \<leftarrow> (if b = None \<and> aq_MACAddress req \<noteq> [] then do {
         cs \<leftarrow> walk_mgr w ''FindByMAC'' (FindByMAC (aq_MACAddress req));
         ret (find (\<lambda>s. \<not> (aq_NASIP req \<noteq> [] \<and> s_NASIP s \<noteq> [] \<and> s_NASIP s \<noteq> aq_NASIP req)) cs)
       } else ret b);
     d \<leftarrow> (if c = None \<and> aq_IMSI req \<noteq> [] then ask_mgr (LookupByIMSI (aq_IMSI req)) else ret c);
     (if d = None \<and> aq_FramedIPAddress req \<noteq> None then ask_mgr (LookupByIP (aq_FramedIPAddress req)) else ret d)
   }"

definition accounting_keys :: "env \<Rightarrow> accounting_request \<Rightarrow> session option \<Rightarrow> (string \<times> string \<times> string) act" where
  \<comment> \<open>the IMSI, MAC address and APN an accounting request is filed under\<close>
  "accounting_keys w req so =
     (let imsi = coalesce [aq_IMSI req, opt s_IMSI so]; mac = coalesce [aq_MACAddress req, opt s_MACAddress so];
          apn = coalesce [opt s_APN so, cf_DefaultAPN (w_cfg w), cf_GTPAPN (w_cfg w)]
      in if (imsi = [] \<or> mac = []) \<and> aq_AcctSessionID req \<noteq> [] then do {
           e \<leftarrow> on_auth (LookupValidAuthCacheByAcct (w_now w) (aq_AcctSessionID req) (aq_NASIP req)
                  (aq_NASIdentifier req) (w_now w));
           ret (case e of None \<Rightarrow> (imsi, mac, apn) | Some x \<Rightarrow> (a_IMSI x, a_MACAddress x, a_APN x))
         } else ret (imsi, mac, apn))"

definition timeout_from :: "svc_config \<Rightarrow> int \<Rightarrow> int" where
  "timeout_from cfg t0 =
     (let t1 = (if t0 \<le> 0 then cf_DefaultTTLSeconds cfg else t0);
          t2 = (if t1 \<le> 0 then cf_SessionTimeoutSeconds cfg else t1);
          t3 = (if t2 \<le> 0 then 3600 else t2)
      in if 0 < cf_MaxTTLSeconds cfg \<and> cf_MaxTTLSeconds cfg < t3 then cf_MaxTTLSeconds cfg else t3)"

definition auth_update_of ::
  "svc_config \<Rightarrow> time \<Rightarrow> accounting_request \<Rightarrow> session option \<Rightarrow> auth_entry option \<Rightarrow> string \<times> string \<times> string
     \<Rightarrow> bool \<Rightarrow> auth_update" where
  "auth_update_of cfg now req so eo keys stopped =
     (let (imsi, mac, apn) = keys;
          timeout0 = (case eo of Some e \<Rightarrow> a_SessionTimeoutSeconds e
            | None \<Rightarrow> (case so of None \<Rightarrow> 0
                | Some s \<Rightarrow> if \<not> time_is_zero (s_ExpiresAt s) \<and> s_CreatedAt s < s_ExpiresAt s
                            then (s_ExpiresAt s - s_CreatedAt s) div 1000000000 else 0));
          start0 = (case eo of Some e \<Rightarrow> a_AuthStartTime e
            | None \<Rightarrow> (case so of None \<Rightarrow> zero_time | Some s \<Rightarrow> s_CreatedAt s));
          expires0 = (case eo of Some e \<Rightarrow> a_AuthExpiresAt e
            | None \<Rightarrow> (case so of None \<Rightarrow> zero_time | Some s \<Rightarrow> s_ExpiresAt s));
          start = (if time_is_zero start0 then now else start0);
          timeout = timeout_from cfg timeout0
      in zero_auth\<lparr> a_MACAddress := mac, a_IMSI := imsi,
           a_UserName := coalesce [aq_UserName req, opt a_UserName eo, opt s_Username so], a_APN := apn,
           a_MSISDN := opt s_MSISDN so, a_NASIP := coalesce [aq_NASIP req, opt s_NASIP so],
           a_NASIdentifier := coalesce [aq_NASIdentifier req, opt s_NASIdentifier so],
           a_CalledStationID := coalesce [aq_CalledStationID req, opt s_CalledStationID so],
           a_CallingStationID := coalesce [aq_CallingStationID req, opt s_CallingStationID so, mac],
           a_AcctSessionID := coalesce [aq_AcctSessionID req, opt a_AcctSessionID eo],
           a_LastSeenTime := aq_EventTimestamp req, a_SessionTimeoutSeconds := timeout,
           a_AuthStartTime := start,
           a_AuthExpiresAt := (if time_is_zero expires0 then start + seconds timeout else expires0),
           a_LastAccessAcceptSessionID := opt a_LastAccessAcceptSessionID eo,
           a_LastAccountingStopAt := (if stopped then aq_EventTimestamp req else zero_time),
           a_LastAccountingStopCause := (if stopped then aq_TerminateCause req else []) \<rparr>)"

definition updateAuthCacheFromAccounting ::
  "env \<Rightarrow> accounting_request \<Rightarrow> session option \<Rightarrow> bool \<Rightarrow> auth_entry option act" where
  "updateAuthCacheFromAccounting w req so stopped =
     (if \<not> cf_AuthCacheEnabled (w_cfg w) then ret None
      else do {
        keys \<leftarrow> accounting_keys w req so;
        (case keys of (imsi, mac, apn) \<Rightarrow>
           if imsi = [] \<or> mac = [] then ret None
           else do {
             eo \<leftarrow> on_auth (LookupValidAuthCache (w_now w) mac imsi apn (w_now w));
             (if eo = None \<and> so = None then ret None
              else on_auth (UpsertAuthCache (w_now w) (auth_update_of (w_cfg w) (w_now w) req so eo keys stopped)))
           })
      })"

definition disconnectAccountingClient :: "env \<Rightarrow> accounting_request \<Rightarrow> unit act" where
  "disconnectAccountingClient w req =
     (if \<not> w_dynauth w then ret ()
      else let t = \<lparr> t_MAC = (if aq_MACAddress req \<noteq> [] then parse_mac (aq_MACAddress req) else None),
             t_IMSI = aq_IMSI req, t_APN = coalesce [cf_DefaultAPN (w_cfg w), cf_GTPAPN (w_cfg w)],
             t_OldSubscriberIP = None, t_OldSessionID = [], t_OldRemoteTEID = 0, t_OldLocalTEID = 0,
             t_OriginalUsername = aq_UserName req, t_EAPIdentity = [], t_RadiusState = [],
             t_NASIP = aq_NASIP req, t_NASIdentifier = aq_NASIdentifier req,
             t_AcctSessionID = aq_AcctSessionID req, t_CallingStationID = aq_CallingStationID req,
             t_CalledStationID = aq_CalledStationID req, t_Class = aq_Class req, t_ConnectInfo = [],
             t_FramedMTU = 0, t_Reason = ''Accounting-Start without valid auth cache'',
             t_State = RecoveryRequired, t_CreatedAt = w_now w, t_ExpiresAt = zero_time,
             t_LastAction = [], t_LastError = [] \<rparr>
           in do { _ \<leftarrow> call (EvDisconnect t) (\<lambda>h. w_disconnect w h t); ret () })"

definition handleAccountingStartWithoutSession :: "env \<Rightarrow> accounting_request \<Rightarrow> svc_err option act" where
  "handleAccountingStartWithoutSession w req =
     (let action = coalesce [cf_StartWithoutSessionAction (w_cfg w), ''recover_if_auth_valid''];
          apn = coalesce [cf_DefaultAPN (w_cfg w), cf_GTPAPN (w_cfg w)];
          noAuth = (if action = ''disconnect'' then ''disconnect''
            else coalesce [cf_StartWithoutAuthAction (w_cfg w), ''disconnect''])
      in do {
        e0 \<leftarrow> on_auth (LookupValidAuthCache (w_now w) (aq_MACAddress req) (aq_IMSI req) apn (w_now w));
        e \<leftarrow> (if e0 = None \<and> aq_AcctSessionID req \<noteq> []
          then on_auth (LookupValidAuthCacheByAcct (w_now w) (aq_AcctSessionID req) (aq_NASIP req)
                 (aq_NASIdentifier req) (w_now w))
          else ret e0);
        (case e of
           Some entry \<Rightarrow>
             if action = ''recover_if_auth_valid'' then do {
               out \<leftarrow> recoverFromAuthCache w entry req ''accounting_start_recovery'';
               ret (snd out)
             } else do {
               (if noAuth = ''disconnect'' then disconnectAccountingClient w req else ret ()); ret None
             }
         | None \<Rightarrow> do {
             (if noAuth = ''disconnect'' then disconnectAccountingClient w req else ret ()); ret None
           })
      })"

definition stop_received :: "tombstone \<Rightarrow> tombstone" where
  "stop_received t = (if t_State t = RecoveryWaitingAccountingStop
     then t\<lparr> t_State := RecoveryWaitingReauth, t_LastAction := ''accounting_stop_received'' \<rparr> else t)"

definition accounting_stop :: "env \<Rightarrow> accounting_request \<Rightarrow> session option \<Rightarrow> svc_err option act" where
  "accounting_stop w req so = (case so of
     None \<Rightarrow> do {
       e \<leftarrow> updateAuthCacheFromAccounting w req None True;
       (case e of
          Some entry \<Rightarrow> if cf_ClearAuthCacheOnStop (w_cfg w) then do {
              _ \<leftarrow> on_auth (DeleteAuthCache (a_MACAddress entry) (a_IMSI entry) (a_APN entry)); ret None
            } else ret None
        | None \<Rightarrow> ret None)
     }
   | Some sess \<Rightarrow> do {
       _ \<leftarrow> on_mgr (ApplyAccounting (w_now w) (s_ID sess) (acct_update_of req False (aq_TerminateCause req)));
       _ \<leftarrow> updateAuthCacheFromAccounting w req (Some sess) True;
       _ \<leftarrow> update_recovery w (s_ID sess) stop_received;
       (if \<not> cf_ClearSessionOnStop (w_cfg w) \<or> \<not> accountingStopShouldDetach (s_State sess) then ret None
        else do {
          l \<leftarrow> lockSubscriber w (s_IMSI sess) (s_MACAddress sess) (s_APN sess);
          (case l of Some e \<Rightarrow> ret (Some e)
           | None \<Rightarrow> do {
               latest \<leftarrow> ask_mgr (Get (s_ID sess));
               (case latest of None \<Rightarrow> ret None
                | Some s \<Rightarrow>
                   if \<not> accountingStopShouldDetach (s_State s) then ret None
                   else do {
                     out \<leftarrow> detachSessionLocked w s;
                     (if cf_ClearAuthCacheOnStop (w_cfg w) then do {
                        _ \<leftarrow> on_auth (DeleteAuthCache (s_MACAddress s) (s_IMSI s) (s_APN s)); ret ()
                      } else ret ());
                     ret (snd out)
                   })
             })
        })
     })"

definition HandleAccounting :: "env \<Rightarrow> accounting_request \<Rightarrow> svc_err option act" where
  "HandleAccounting w req0 =
     (let req = req0\<lparr> aq_EventTimestamp := (if time_is_zero (aq_EventTimestamp req0) then w_now w else aq_EventTimestamp req0) \<rparr>
      in do {
        so \<leftarrow> findAccountingSession w req;
        (case aq_StatusType req of
           AccountingStart \<Rightarrow> (case so of
               Some sess \<Rightarrow> do {
                 _ \<leftarrow> on_mgr (ApplyAccounting (w_now w) (s_ID sess) (acct_update_of req True []));
                 _ \<leftarrow> updateAuthCacheFromAccounting w req so False;
                 ret None
               }
             | None \<Rightarrow> handleAccountingStartWithoutSession w req)
         | AccountingInterimUpdate \<Rightarrow> (case so of
               Some sess \<Rightarrow> do {
                 _ \<leftarrow> on_mgr (ApplyAccounting (w_now w) (s_ID sess) (acct_update_of req True []));
                 ret None
               }
             | None \<Rightarrow> ret None)
         | AccountingStop \<Rightarrow> accounting_stop w req so
         | _ \<Rightarrow> ret None)
      })"

section \<open>Dynamic authorization and recovery\<close>

definition recoveryTombstoneTTL :: "svc_config \<Rightarrow> time \<Rightarrow> session \<Rightarrow> int" where
  "recoveryTombstoneTTL cfg now s =
     (let ttl = seconds (cf_RecoveryWindowSeconds cfg) in
      if \<not> time_is_zero (s_ExpiresAt s) \<and> ttl < s_ExpiresAt s - now then s_ExpiresAt s - now else ttl)"

definition setRecoveryFallback :: "env \<Rightarrow> tombstone \<Rightarrow> string \<Rightarrow> string \<Rightarrow> unit act" where
  "setRecoveryFallback w t action lastError = do {
     _ \<leftarrow> update_recovery w (t_OldSessionID t) (\<lambda>x. x\<lparr>
       t_State := (if cf_FallbackToTombstone (w_cfg w) then RecoveryFallback else RecoveryExpired),
       t_LastAction := action, t_LastError := lastError \<rparr>);
     ret ()
   }"

definition disconnecting :: "svc_config \<Rightarrow> tombstone \<Rightarrow> tombstone" where
  "disconnecting cfg t = t\<lparr> t_State := RecoveryDisconnecting, t_LastAction := cf_DisconnectRequestType cfg,
     t_CallingStationID := (case t_MAC t of Some hw \<Rightarrow> if t_CallingStationID t = [] then mac_string hw else t_CallingStationID t
       | None \<Rightarrow> t_CallingStationID t),
     t_Class := (if t_Class t = [] \<and> t_OldSessionID t \<noteq> [] then bytes_of (t_OldSessionID t) else t_Class t) \<rparr>"

definition attemptDynamicAuthorization :: "env \<Rightarrow> tombstone \<Rightarrow> unit act" where
  "attemptDynamicAuthorization w t0 =
     (if \<not> cf_DisconnectEnabled (w_cfg w) \<or> \<not> w_dynauth w
      then setRecoveryFallback w t0 ''dynamic_authorization_disabled'' []
      else do {
        u \<leftarrow> update_recovery w (t_OldSessionID t0) (disconnecting (w_cfg w));
        (let t = (case u of Some x \<Rightarrow> x | None \<Rightarrow> t0) in do {
          e \<leftarrow> call (EvDisconnect t) (\<lambda>h. w_disconnect w h t);
          (case e of
             Some err \<Rightarrow> setRecoveryFallback w t ''dynamic_authorization_failed'' (w_text w err)
           | None \<Rightarrow> do {
               _ \<leftarrow> update_recovery w (t_OldSessionID t) (\<lambda>x. x\<lparr>
                 t_State := (if cf_WaitForAccountingStop (w_cfg w) then RecoveryWaitingAccountingStop else RecoveryWaitingReauth),
                 t_LastAction := (if cf_WaitForAccountingStop (w_cfg w) then ''waiting_accounting_stop''
                   else ''dynamic_authorization_accepted''),
                 t_LastError := [] \<rparr>);
               (if cf_WaitForAccountingStop (w_cfg w) then call (EvWaitStop (t_OldSessionID t)) (\<lambda>_. ()) else ret ())
             })
        })
      })"

definition waitForAccountingStopTimeout :: "env \<Rightarrow> string \<Rightarrow> unit act" where
  \<comment> \<open>what happens when the wait is over\<close>
  "waitForAccountingStopTimeout w old = do {
     _ \<leftarrow> update_recovery w old (\<lambda>t. if t_State t = RecoveryWaitingAccountingStop
       then t\<lparr> t_State := RecoveryFallback, t_LastAction := ''accounting_stop_timeout'' \<rparr> else t);
     ret ()
   }"

definition begin_recovery :: "env \<Rightarrow> session \<Rightarrow> string \<Rightarrow> unit act" where
  \<comment> \<open>\<open>AddRecoveryTombstone\<close>, then \<open>attemptDynamicAuthorization\<close> when it was added\<close>
  "begin_recovery w sess reason = do {
     t \<leftarrow> on_rec (AddRecoveryTombstone (w_now w) (Some sess) reason (recoveryTombstoneTTL (w_cfg w) (w_now w) sess));
     (case t of None \<Rightarrow> ret () | Some x \<Rightarrow> attemptDynamicAuthorization w x)
   }"

section \<open>Events from the network\<close>

definition mark_recovering :: "env \<Rightarrow> session \<Rightarrow> string \<Rightarrow> session act" where
  "mark_recovering w sess reason = do {
     r \<leftarrow> on_mgr (MarkRecovering (w_now w) (s_ID sess) reason);
     ret (case r of Inl _ \<Rightarrow> sess | Inr s \<Rightarrow> s)
   }"

definition end_recovering :: "env \<Rightarrow> session \<Rightarrow> string \<Rightarrow> bool \<Rightarrow> attach_out act" where
  \<comment> \<open>mark the session recovering, leave a tombstone when recovery is on, and detach it\<close>
  "end_recovering w sess reason tomb = do {
     s' \<leftarrow> mark_recovering w sess reason;
     (if tomb then begin_recovery w s' reason else ret ());
     detachSessionLocked w s'
   }"

definition gtpu_error_session :: "env \<Rightarrow> u32 \<Rightarrow> session \<Rightarrow> svc_err option act" where
  \<comment> \<open>\<open>HandleGTPUErrorIndication\<close> from \<open>RecordGTPUError\<close> on\<close>
  "gtpu_error_session w teid s0 = do {
     u \<leftarrow> on_mgr (RecordGTPUError (w_now w) (s_ID s0) teid (w_now w));
     (let sess = (case u of Inl _ \<Rightarrow> s0 | Inr s \<Rightarrow> s) in
      if s_State sess \<noteq> Active then ret None
      else do {
        l \<leftarrow> lockSubscriber w (s_IMSI sess) (s_MACAddress sess) (s_APN sess);
        (case l of Some e \<Rightarrow> ret (Some e)
         | None \<Rightarrow> do {
             latest \<leftarrow> ask_mgr (Get (s_ID sess));
             (case latest of None \<Rightarrow> ret None
              | Some s \<Rightarrow>
                 if s_State s \<noteq> Active then ret None
                 else do {
                   out \<leftarrow> end_recovering w s (''GTP-U Error Indication for TEID 0x'' @ hex32 teid)
                     (cf_RecoveryEnabled (w_cfg w) \<and> cf_ReasonGTPUError (w_cfg w));
                   ret (case snd out of None \<Rightarrow> None
                     | Some e \<Rightarrow> if pgw_IsContextNotFound e then None else Some e)
                 })
           })
      })
   }"

definition HandleGTPUErrorIndication :: "env \<Rightarrow> u32 \<Rightarrow> svc_err option act" where
  "HandleGTPUErrorIndication w teid =
     (if teid = 0 then ret None
      else do {
        so \<leftarrow> walk_mgr w ''LookupByRemoteGTPUTEID'' (LookupByRemoteGTPUTEID teid);
        (case so of None \<Rightarrow> ret None | Some s0 \<Rightarrow> gtpu_error_session w teid s0)
      })"

definition HandlePGWInitiatedDelete :: "env \<Rightarrow> u32 \<Rightarrow> unit act" where
  "HandlePGWInitiatedDelete w teid = do {
     so \<leftarrow> ask_mgr (LookupByTEID teid);
     (case so of None \<Rightarrow> ret ()
      | Some sess \<Rightarrow>
         if s_State sess \<noteq> Active then ret ()
         else do {
           _ \<leftarrow> end_recovering w sess ''PGW-initiated bearer/session deletion'' (cf_RecoveryEnabled (w_cfg w));
           ret ()
         })
   }"

definition HandleAAAInitiatedDisconnect :: "env \<Rightarrow> string \<Rightarrow> string \<Rightarrow> svc_err option act" where
  "HandleAAAInitiatedDisconnect w imsi sid = do {
     so \<leftarrow> ask_mgr (\<lambda>m. let a = (if sid \<noteq> [] then Get sid m else None)
       in if a = None \<and> imsi \<noteq> [] then LookupByIMSI imsi m else a);
     (case so of None \<Rightarrow> ret None
      | Some sess \<Rightarrow> do {
          (if cf_RecoveryEnabled (w_cfg w) then begin_recovery w sess ''AAA-initiated session disconnect'' else ret ());
          out \<leftarrow> detachSessionLocked w sess;
          ret (snd out)
        })
   }"

definition request_of_entry :: "time \<Rightarrow> auth_entry \<Rightarrow> accounting_request" where
  "request_of_entry now e = \<lparr> aq_StatusType = AccountingStart, aq_UserName = a_UserName e, aq_IMSI = a_IMSI e,
     aq_MACAddress = a_MACAddress e, aq_CallingStationID = a_CallingStationID e,
     aq_CalledStationID = a_CalledStationID e, aq_NASIP = a_NASIP e, aq_NASIdentifier = a_NASIdentifier e,
     aq_AcctSessionID = a_AcctSessionID e, aq_AcctMultiSessionID = [], aq_InputOctets = 0, aq_OutputOctets = 0,
     aq_InputPackets = 0, aq_OutputPackets = 0, aq_TerminateCause = [], aq_FramedIPAddress = None, aq_Class = [],
     aq_EventTimestamp = now, aq_ConnectInfo = [] \<rparr>"

definition HandleDHCPAuthCacheRecovery :: "env \<Rightarrow> string \<Rightarrow> unit act" where
  "HandleDHCPAuthCacheRecovery w mac = do {
     e \<leftarrow> on_auth (LookupValidAuthCache (w_now w) mac [] (coalesce [cf_DefaultAPN (w_cfg w), cf_GTPAPN (w_cfg w)]) (w_now w));
     (case e of None \<Rightarrow> ret ()
      | Some entry \<Rightarrow> do {
          _ \<leftarrow> recoverFromAuthCache w entry (request_of_entry (w_now w) entry) ''dhcp_auth_cache_recovery'';
          ret ()
        })
   }"

definition RecoverFromTombstone :: "env \<Rightarrow> tombstone option \<Rightarrow> attach_out act" where
  "RecoverFromTombstone w to = (case to of None \<Rightarrow> ret (None, Some TombstoneRequired)
     | Some t \<Rightarrow> (case t_MAC t of None \<Rightarrow> ret (None, Some TombstoneIncomplete)
        | Some hw \<Rightarrow>
           if t_IMSI t = [] then ret (None, Some TombstoneIncomplete)
           else AttachAuthorized w
             (no_request\<lparr> rq_IMSI := t_IMSI t, rq_MACAddress := mac_string hw, rq_Username := t_OriginalUsername t,
                rq_EAPIdentity := t_EAPIdentity t, rq_APN := t_APN t, rq_CallingStationID := t_CallingStationID t,
                rq_CalledStationID := t_CalledStationID t, rq_NASIP := t_NASIP t,
                rq_NASIdentifier := t_NASIdentifier t, rq_AcctSessionID := t_AcctSessionID t,
                rq_RadiusState := t_RadiusState t, rq_RadiusClass := t_Class t, rq_ConnectInfo := t_ConnectInfo t,
                rq_FramedMTU := t_FramedMTU t \<rparr>)
             (Some \<lparr> au_Allowed = True, au_IMSI = t_IMSI t, au_MSISDN = [], au_APN = t_APN t, au_SubscriberID = [],
                au_Reason = ''radius_session_recovery'', au_ResultCode = 0 \<rparr>)))"

fun detach_all :: "env \<Rightarrow> session list \<Rightarrow> svc_err list act" where
  "detach_all w [] = ret []"
| "detach_all w (s # ss) =
     (if \<not> shutdownShouldDetach (s_State s) then detach_all w ss
      else do {
        out \<leftarrow> Detach w \<lparr> dq_SessionID = s_ID s, dq_IMSI = [], dq_MACAddress = [] \<rparr>;
        es \<leftarrow> detach_all w ss;
        ret (case snd out of None \<Rightarrow> es | Some e \<Rightarrow> Wrapped (''detach session '' @ s_ID s) e # es)
      })"

definition Shutdown :: "env \<Rightarrow> svc_err option act" where
  "Shutdown w = do {
     ss \<leftarrow> walk_mgr w ''List'' List_sessions;
     es \<leftarrow> detach_all w ss;
     ret (errors_Join es)
   }"

section \<open>All entry points\<close>

datatype svc_call =
    CallAttach attach_request
  | CallAttachAuthorized attach_request "auth_result option"
  | CallEAP eap_request
  | CallDetach detach_request
  | CallAccounting accounting_request
  | CallGTPUError u32
  | CallPGWDelete u32
  | CallAAADisconnect string string
  | CallDHCPRecovery string
  | CallTombstone "tombstone option"
  | CallStopTimeout string
  | CallShutdown

definition drop_result :: "'a act \<Rightarrow> unit act" where
  "drop_result m = do { _ \<leftarrow> m; ret () }"

fun exec_call :: "env \<Rightarrow> svc_call \<Rightarrow> unit act" where
  "exec_call w (CallAttach r) = drop_result (Attach w r)"
| "exec_call w (CallAttachAuthorized r a) = drop_result (AttachAuthorized w r a)"
| "exec_call w (CallEAP r) = drop_result (ExchangeEAP w r)"
| "exec_call w (CallDetach r) = drop_result (Detach w r)"
| "exec_call w (CallAccounting r) = drop_result (HandleAccounting w r)"
| "exec_call w (CallGTPUError t) = drop_result (HandleGTPUErrorIndication w t)"
| "exec_call w (CallPGWDelete t) = HandlePGWInitiatedDelete w t"
| "exec_call w (CallAAADisconnect i s) = drop_result (HandleAAAInitiatedDisconnect w i s)"
| "exec_call w (CallDHCPRecovery mac) = HandleDHCPAuthCacheRecovery w mac"
| "exec_call w (CallTombstone t) = drop_result (RecoverFromTombstone w t)"
| "exec_call w (CallStopTimeout s) = waitForAccountingStopTimeout w s"
| "exec_call w CallShutdown = drop_result (Shutdown w)"

end
