(* ===== verification/LifeInv.thy ===== *)
theory LifeInv
  imports LifeEvents SessionProps
begin

text \<open>
  Reasoning about the handlers. \<open>triple w P m Q\<close> is a Hoare triple for an action whose assertions
  speak about the session table and the set of sessions the PGW holds; its rules follow the shape of
  the code, so a handler is treated by one backward pass over its body. The invariant of the service
  says that the session table was reached by legal calls, that no two active sessions belong to the
  same subscriber, and that the PGW holds exactly the active sessions.
\<close>

section \<open>What the PGW holds\<close>

fun leak_rev :: "env \<Rightarrow> event list \<Rightarrow> string set" where
  "leak_rev w [] = {}"
| "leak_rev w (e # past) = (case e of
     EvPGWCreate s \<Rightarrow> (case w_create w (rev past) s of Inl _ \<Rightarrow> leak_rev w past
       | Inr _ \<Rightarrow> insert (s_ID s) (leak_rev w past))
   | EvPGWDelete s \<Rightarrow> leak_rev w past - {s_ID s}
   | _ \<Rightarrow> leak_rev w past)"

definition pgw_held :: "env \<Rightarrow> event list \<Rightarrow> string set" where
  \<comment> \<open>the sessions the PGW has accepted and was not asked to delete since\<close>
  "pgw_held w h = leak_rev w (rev h)"

lemma pgw_held_snoc:
  "pgw_held w (h @ [e]) = (case e of
     EvPGWCreate s \<Rightarrow> (case w_create w h s of Inl _ \<Rightarrow> pgw_held w h | Inr _ \<Rightarrow> insert (s_ID s) (pgw_held w h))
   | EvPGWDelete s \<Rightarrow> pgw_held w h - {s_ID s}
   | _ \<Rightarrow> pgw_held w h)"
  by (cases e) (simp_all add: pgw_held_def split: sum.split)

section \<open>Triples\<close>

type_synonym assertion = "manager \<Rightarrow> string set \<Rightarrow> bool"

abbreviation held :: "env \<Rightarrow> svc \<Rightarrow> string set" where
  "held w s \<equiv> pgw_held w (sv_events s)"

definition triple :: "env \<Rightarrow> assertion \<Rightarrow> 'a act \<Rightarrow> ('a \<Rightarrow> assertion) \<Rightarrow> bool" where
  "triple w P m Q \<longleftrightarrow> (\<forall>s. P (sv_mgr s) (held w s) \<longrightarrow>
     (let (a, s') = run_state m s in Q a (sv_mgr s') (held w s')))"

lemma tripleI:
  "(\<And>s. P (sv_mgr s) (held w s) \<Longrightarrow> Q (fst (run_state m s)) (sv_mgr (snd (run_state m s))) (held w (snd (run_state m s))))
     \<Longrightarrow> triple w P m Q"
  by (simp add: triple_def split_beta)

lemma tripleD:
  "triple w P m Q \<Longrightarrow> P (sv_mgr s) (held w s) \<Longrightarrow>
     Q (fst (run_state m s)) (sv_mgr (snd (run_state m s))) (held w (snd (run_state m s)))"
  by (auto simp: triple_def split_beta)

lemma triple_ret: "(\<And>m H. P m H \<Longrightarrow> Q a m H) \<Longrightarrow> triple w P (ret a) Q"
  by (simp add: triple_def)

lemma triple_bind:
  "triple w P m R \<Longrightarrow> (\<And>a. triple w (R a) (f a) Q) \<Longrightarrow> triple w P (State_Monad.bind m f) Q"
  by (simp add: triple_def split_beta)

lemma triple_pre: "triple w P m Q \<Longrightarrow> (\<And>m H. P' m H \<Longrightarrow> P m H) \<Longrightarrow> triple w P' m Q"
  by (auto simp: triple_def)

lemma triple_post: "triple w P m Q \<Longrightarrow> (\<And>a m H. Q a m H \<Longrightarrow> Q' a m H) \<Longrightarrow> triple w P m Q'"
  by (auto simp: triple_def split_beta)

lemma triple_pure: "(\<And>m H. P m H \<Longrightarrow> R) \<Longrightarrow> (R \<Longrightarrow> triple w P m Q) \<Longrightarrow> triple w P m Q"
  by (auto simp: triple_def)

lemma triple_when: "(R \<Longrightarrow> triple w P m Q) \<Longrightarrow> triple w (\<lambda>m H. R \<and> P m H) m Q"
  by (auto simp: triple_def)

lemma triple_ex: "(\<And>x. triple w (P x) m Q) \<Longrightarrow> triple w (\<lambda>m H. \<exists>x. P x m H) m Q"
  by (fastforce simp: triple_def)

lemma triple_ex_eq:
  "(\<And>x. p = f x \<Longrightarrow> triple w (P x) m Q) \<Longrightarrow> triple w (\<lambda>m H. \<exists>x. p = f x \<and> P x m H) m Q"
  by (fastforce simp: triple_def)

lemma triple_if: "(b \<Longrightarrow> triple w P m Q) \<Longrightarrow> (\<not> b \<Longrightarrow> triple w P n Q) \<Longrightarrow> triple w P (if b then m else n) Q"
  by simp

lemma triple_option:
  "(x = None \<Longrightarrow> triple w P m Q) \<Longrightarrow> (\<And>y. x = Some y \<Longrightarrow> triple w P (f y) Q)
     \<Longrightarrow> triple w P (case x of None \<Rightarrow> m | Some y \<Rightarrow> f y) Q"
  by (cases x) simp_all

lemma triple_sum:
  "(\<And>y. x = Inl y \<Longrightarrow> triple w P (f y) Q) \<Longrightarrow> (\<And>y. x = Inr y \<Longrightarrow> triple w P (g y) Q)
     \<Longrightarrow> triple w P (case x of Inl y \<Rightarrow> f y | Inr y \<Rightarrow> g y) Q"
  by (cases x) simp_all

lemma triple_prod: "(\<And>a b. x = (a, b) \<Longrightarrow> triple w P (f a b) Q) \<Longrightarrow> triple w P (case x of (a, b) \<Rightarrow> f a b) Q"
  by (cases x) simp

lemma triple_Let: "(\<And>x. x = e \<Longrightarrow> triple w P (f x) Q) \<Longrightarrow> triple w P (let x = e in f x) Q"
  by (simp add: Let_def)

lemma triple_bind_sum:
  "triple w P m R \<Longrightarrow> (\<And>y. triple w (R (Inl y)) (f y) Q) \<Longrightarrow> (\<And>y. triple w (R (Inr y)) (g y) Q)
     \<Longrightarrow> triple w P (do { x \<leftarrow> m; case x of Inl y \<Rightarrow> f y | Inr y \<Rightarrow> g y }) Q"
  by (rule triple_bind) (auto split: sum.split)

lemmas triple_shape = triple_if triple_option triple_sum triple_prod triple_Let

lemma triple_mgr: "(\<And>m H. P m H \<Longrightarrow> Q (fst (f m)) (snd (f m)) H) \<Longrightarrow> triple w P (on_mgr f) Q"
  by (rule tripleI) (simp add: on_mgr_def split_beta)

lemma triple_delete: "(\<And>m H. P m H \<Longrightarrow> Q m (H - {s_ID x})) \<Longrightarrow> triple w P (pgw_delete w' x) (\<lambda>_. Q)"
  by (rule tripleI) (simp add: pgw_delete_def call_def pgw_held_snoc)

lemma triple_create:
  "(\<And>m H e. P m H \<Longrightarrow> Q (Inl e) m H) \<Longrightarrow> (\<And>m H r. P m H \<Longrightarrow> Q (Inr r) m (insert (s_ID x) H))
     \<Longrightarrow> triple w P (pgw_create w x) Q"
  by (rule tripleI) (simp add: pgw_create_def call_def pgw_held_snoc split: sum.split)

text \<open>Actions that touch neither the table nor the PGW, and actions that keep an assertion.\<close>

definition steady :: "env \<Rightarrow> 'a act \<Rightarrow> bool" where
  "steady w m \<longleftrightarrow> (\<forall>s. sv_mgr (snd (run_state m s)) = sv_mgr s \<and> held w (snd (run_state m s)) = held w s)"

lemma triple_steady: "steady w m \<Longrightarrow> (\<And>a m H. P m H \<Longrightarrow> Q a m H) \<Longrightarrow> triple w P m Q"
  by (rule tripleI) (simp add: steady_def)

definition keeping :: "env \<Rightarrow> assertion \<Rightarrow> 'a act \<Rightarrow> bool" where
  "keeping w P m \<longleftrightarrow> triple w P m (\<lambda>_. P)"

lemma keeping_steady: "steady w m \<Longrightarrow> keeping w P m"
  by (simp add: keeping_def triple_steady)

lemma triple_keeping: "keeping w P m \<Longrightarrow> triple w P m (\<lambda>_. P)"
  by (simp add: keeping_def)

lemma keeping_ret: "keeping w P (ret a)"
  by (simp add: keeping_def triple_ret)

lemma keeping_bind: "keeping w P m \<Longrightarrow> (\<And>a. keeping w P (f a)) \<Longrightarrow> keeping w P (State_Monad.bind m f)"
  unfolding keeping_def by (rule triple_bind)

lemma keeping_if: "(b \<Longrightarrow> keeping w P m) \<Longrightarrow> (\<not> b \<Longrightarrow> keeping w P n) \<Longrightarrow> keeping w P (if b then m else n)"
  by simp

lemma keeping_option:
  "keeping w P m \<Longrightarrow> (\<And>y. keeping w P (f y)) \<Longrightarrow> keeping w P (case x of None \<Rightarrow> m | Some y \<Rightarrow> f y)"
  by (cases x) simp_all

lemma keeping_sum:
  "(\<And>y. keeping w P (f y)) \<Longrightarrow> (\<And>y. keeping w P (g y)) \<Longrightarrow> keeping w P (case x of Inl y \<Rightarrow> f y | Inr y \<Rightarrow> g y)"
  by (cases x) simp_all

lemma keeping_prod: "(\<And>a b. keeping w P (f a b)) \<Longrightarrow> keeping w P (case x of (a, b) \<Rightarrow> f a b)"
  by (cases x) simp

lemma keeping_Let: "(\<And>x. keeping w P (f x)) \<Longrightarrow> keeping w P (let x = e in f x)"
  by (simp add: Let_def)

lemmas keeping_shape = keeping_ret keeping_bind keeping_if keeping_option keeping_sum keeping_prod keeping_Let

lemma steadyI: "(\<And>P. keeping w P m) \<Longrightarrow> steady w m"
  unfolding steady_def
proof (intro allI)
  fix s assume k: "\<And>P. keeping w P m"
  from tripleD [OF triple_keeping [OF k [of "\<lambda>x y. x = sv_mgr s \<and> y = held w s"]]]
  show "sv_mgr (snd (run_state m s)) = sv_mgr s \<and> held w (snd (run_state m s)) = held w s" by simp
qed

named_theorems keeps_rules \<open>assertions are kept by the calls of the service\<close>

lemma steady_calls:
  "steady w (ask_mgr f)" "steady w (walk_mgr w' name g)" "steady w (on_auth h)" "steady w (on_rec k)"
  "steady w (count c)" "steady w (check_ctx w')" "steady w (call (EvLock key) a1)"
  "steady w (call (EvAuthenticate r) a2)" "steady w (call (EvExchangeEAP q) a3)" "steady w (call (EvAllocate i) a4)"
  "steady w (call (EvRelease i) a5)" "steady w (call (EvUserAdd x) a7)" "steady w (call (EvUserRemove x) a8)"
  "steady w (call (EvAccessAdd x) a9)" "steady w (call (EvAccessRemove x) b1)" "steady w (call (EvDisconnect t) b2)"
  "steady w (call (EvWaitStop i) b3)" "steady w (route_install w' x)" "steady w (route_remove w' x)"
  "steady w (update_recovery w' old fn)" "steady w (beginAuthCacheRecovery w' entry st)"
  by (simp_all add: steady_def ask_mgr_def walk_mgr_def on_auth_def on_rec_def count_def check_ctx_def call_def
      pgw_held_snoc split_beta route_install_def route_remove_def update_recovery_def beginAuthCacheRecovery_def Let_def)

lemma steady_finish: "steady w (finishAuthCacheRecovery w' entry)"
  unfolding steady_def
proof
  fix s show "sv_mgr (snd (run_state (finishAuthCacheRecovery w' entry) s)) = sv_mgr s
      \<and> held w (snd (run_state (finishAuthCacheRecovery w' entry) s)) = held w s"
    by (cases "sv_recoveryByKey s (authCacheRecoveryKey entry)") (simp_all add: finishAuthCacheRecovery_def)
qed

lemmas keeping_calls [keeps_rules] = steady_calls [THEN keeping_steady] steady_finish [THEN keeping_steady]

lemma keeping_helpers [keeps_rules]:
  "keeping w P (lockSubscriber w' imsi mac apn)" "keeping w P (releaseIP w' i)" "keeping w P (user_add w' x)"
  "keeping w P (user_remove w' x)" "keeping w P (access_add w' x)" "keeping w P (access_remove w' x)"
  "keeping w P (findDetachSession dr)" "keeping w P (findAttachExisting w' imsi mac apn)"
  "keeping w P (findLiveSessionDifferentFrom w' x)" "keeping w P (validatePostActivation w' x)"
  unfolding lockSubscriber_def releaseIP_def user_add_def user_remove_def access_add_def access_remove_def
    findDetachSession_def findAttachExisting_def findLiveSessionDifferentFrom_def validatePostActivation_def
  by (intro keeping_shape keeps_rules)+

lemma keeping_recovery [keeps_rules]:
  "keeping w P (completeRecovery w' so ro to)" "keeping w P (updateAuthCacheFromAccessAccept w' i req)"
  "keeping w P (logRecoveryAttachIfPresent w' req)" "keeping w P (setRecoveryFallback w' t action err)"
  "keeping w P (waitForAccountingStopTimeout w' old)"
  unfolding completeRecovery_def updateAuthCacheFromAccessAccept_def logRecoveryAttachIfPresent_def
    setRecoveryFallback_def waitForAccountingStopTimeout_def
  by (intro keeping_shape keeps_rules)+

lemma keeping_accounting [keeps_rules]:
  "keeping w P (findAccountingSession w' aq)" "keeping w P (accounting_keys w' aq so)"
  "keeping w P (disconnectAccountingClient w' aq)"
  unfolding findAccountingSession_def accounting_keys_def disconnectAccountingClient_def
  by (intro keeping_shape keeps_rules)+

lemma keeping_cache [keeps_rules]: "keeping w P (updateAuthCacheFromAccounting w' aq so st)"
  unfolding updateAuthCacheFromAccounting_def by (intro keeping_shape keeps_rules)

lemma keeping_dynauth [keeps_rules]: "keeping w P (attemptDynamicAuthorization w' t)"
  unfolding attemptDynamicAuthorization_def by (intro keeping_shape keeps_rules)

lemma keeping_begin [keeps_rules]: "keeping w P (begin_recovery w' x reason)"
  unfolding begin_recovery_def by (intro keeping_shape keeps_rules)

section \<open>The invariant\<close>

definition clash :: "session \<Rightarrow> session \<Rightarrow> bool" where
  \<comment> \<open>two sessions of one subscriber, as far as the code compares them before it activates one\<close>
  "clash a b \<longleftrightarrow> subscriberSame a b \<and> subscriberSame b a
     \<and> (s_IMSI a = s_IMSI b \<and> sameAPN (s_APN a) (s_APN b) \<or> macMatches (s_MACAddress a) (s_MACAddress b))"

definition unique_active :: "table \<Rightarrow> bool" where
  "unique_active T \<longleftrightarrow> (\<forall>i j a b. T i = Some a \<longrightarrow> T j = Some b \<longrightarrow> i \<noteq> j \<longrightarrow>
     s_State a = Active \<longrightarrow> s_State b = Active \<longrightarrow> \<not> clash a b)"

definition active_ids :: "table \<Rightarrow> string set" where
  "active_ids T = {i. \<exists>a. T i = Some a \<and> s_State a = Active}"

definition inv_at :: "nat \<Rightarrow> manager \<Rightarrow> bool" where
  \<comment> \<open>\<open>n\<close> bounds the number of sessions created so far\<close>
  "inv_at n m \<longleftrightarrow> (\<exists>ops. legal_calls ops \<and> m = after ops) \<and> unat (m_next m) \<le> n \<and> unique_active (table_of m)"

definition good_at :: "nat \<Rightarrow> string set \<Rightarrow> assertion" where
  \<comment> \<open>outside the sessions being worked on (\<open>L\<close>), the PGW holds exactly the active sessions\<close>
  "good_at n L m H \<longleftrightarrow> inv_at n m \<and> (\<forall>i. i \<notin> L \<longrightarrow> (i \<in> H \<longleftrightarrow> i \<in> active_ids (table_of m)))"

lemma inv_at_mgr: "inv_at n m \<Longrightarrow> mgr_inv m"
  by (auto simp: inv_at_def after_inv)

lemma good_at_mgr: "good_at n L m H \<Longrightarrow> mgr_inv m"
  by (auto simp: good_at_def inv_at_mgr)

lemma good_at_mono: "good_at n L m H \<Longrightarrow> n \<le> k \<Longrightarrow> L \<subseteq> K \<Longrightarrow> good_at k K m H"
  by (auto simp: good_at_def inv_at_def)

lemma good_at_close:
  "good_at n (insert i L) m H \<Longrightarrow> (i \<in> H \<longleftrightarrow> i \<in> active_ids (table_of m)) \<Longrightarrow> good_at n L m H"
  by (auto simp: good_at_def)

lemma clash_sym: "clash a b = clash b a"
  by (auto simp: clash_def sameAPN_def equal_fold_sym macMatches_def)

subsection \<open>One call on the table\<close>

definition quiet :: "table \<Rightarrow> table \<Rightarrow> bool" where
  \<comment> \<open>no session becomes active, and the active ones keep their subscriber\<close>
  "quiet T T' \<longleftrightarrow> (\<forall>i b. T' i = Some b \<longrightarrow> s_State b = Active \<longrightarrow>
     (\<exists>a. T i = Some a \<and> s_State a = Active \<and> s_IMSI a = s_IMSI b \<and> s_MACAddress a = s_MACAddress b
        \<and> s_APN a = s_APN b))"

lemma clash_cong:
  "s_IMSI a = s_IMSI a' \<Longrightarrow> s_MACAddress a = s_MACAddress a' \<Longrightarrow> s_APN a = s_APN a' \<Longrightarrow>
   s_IMSI b = s_IMSI b' \<Longrightarrow> s_MACAddress b = s_MACAddress b' \<Longrightarrow> s_APN b = s_APN b' \<Longrightarrow> clash a b = clash a' b'"
  by (simp add: clash_def subscriberSame_def)

lemma quiet_refl [simp]: "quiet T T"
  by (auto simp: quiet_def)

lemma quiet_unique: "quiet T T' \<Longrightarrow> unique_active T \<Longrightarrow> unique_active T'"
  unfolding unique_active_def
proof (intro allI impI)
  fix i j a b
  assume q: "quiet T T'" and T': "T' i = Some a" "T' j = Some b" "i \<noteq> j" "s_State a = Active" "s_State b = Active"
    and u: "\<forall>i j a b. T i = Some a \<longrightarrow> T j = Some b \<longrightarrow> i \<noteq> j \<longrightarrow> s_State a = Active \<longrightarrow> s_State b = Active \<longrightarrow> \<not> clash a b"
  note old = quiet_def [THEN iffD1, OF q, rule_format]
  obtain a0 where a0: "T i = Some a0" "s_State a0 = Active" "s_IMSI a0 = s_IMSI a" "s_MACAddress a0 = s_MACAddress a"
    "s_APN a0 = s_APN a" using old [OF T'(1,4)] by blast
  obtain b0 where b0: "T j = Some b0" "s_State b0 = Active" "s_IMSI b0 = s_IMSI b" "s_MACAddress b0 = s_MACAddress b"
    "s_APN b0 = s_APN b" using old [OF T'(2,5)] by blast
  have "\<not> clash a0 b0" using u a0(1,2) b0(1,2) T'(3) by blast
  then show "\<not> clash a b" using clash_cong [OF a0(3-5) b0(3-5)] by simp
qed

lemma quiet_update:
  "(\<And>s. s_State (f s) = s_State s \<and> s_IMSI (f s) = s_IMSI s \<and> s_MACAddress (f s) = s_MACAddress s \<and> s_APN (f s) = s_APN s)
     \<Longrightarrow> quiet T (snd (spec_update now i f T))"
  by (auto simp: quiet_def spec_update_def Let_def split: option.splits if_splits)

lemma quiet_transition: "nxt \<noteq> Active \<Longrightarrow> quiet T (snd (spec_transition now i nxt f T))"
  by (auto simp: quiet_def spec_transition_def Let_def split: option.splits if_splits)

lemma quiet_remove: "quiet T (T(i := None))"
  by (auto simp: quiet_def)

lemma quiet_delete: "quiet T (snd (spec_delete now i T))"
  by (auto simp: spec_delete_def quiet_remove split: option.splits)

lemma quiet_expire: "quiet T (snd (spec_expire now ord T))"
  by (auto simp: quiet_def spec_expire_def split: option.splits if_splits)

lemma quiet_create: "quiet T (T(i \<mapsto> new_session now n ci))"
  by (auto simp: quiet_def new_session_def split: if_splits)

fun activates :: "sess_op \<Rightarrow> bool" where
  "activates (OpActive now i) = True"
| "activates _ = False"

lemma quiet_spec:
  assumes "\<not> activates op"
  shows "quiet T (snd (snd (spec_op op (n, T))))"
  using assms by (cases op) (simp_all add: Let_def quiet_update quiet_transition quiet_delete quiet_expire
      quiet_create gtpu_error_fields_def acct_fields_def)

lemma op_table:
  assumes "mgr_inv m" "op_ok op m"
  shows "spec_op op (m_next m, table_of m)
    = (fst (exec_op op m), (m_next (snd (exec_op op m)), table_of (snd (exec_op op m))))"
  using op_simulates [OF assms] by (simp add: abs_mgr_def)

lemma legal_step:
  "legal_calls ops \<Longrightarrow> op_ok op (after ops) \<Longrightarrow> \<exists>ops'. legal_calls ops' \<and> snd (exec_op op (after ops)) = after ops'"
  by (rule exI [of _ "ops @ [op]"]) simp

definition creates :: "sess_op \<Rightarrow> nat" where
  "creates op = (case op of OpCreate _ _ \<Rightarrow> 1 | _ \<Rightarrow> 0)"

lemma next_spec:
  assumes "op_ok op m" "m_next m = k"
  shows "unat (fst (snd (spec_op op (k, T)))) = unat k + creates op"
  using assms by (cases op) (simp_all add: creates_def Let_def split_beta unat_inc_u64)

lemma inv_at_exec:
  assumes "inv_at n m" "op_ok op m" "\<not> activates op"
  shows "inv_at (n + creates op) (snd (exec_op op m))"
proof -
  note t = op_table [OF inv_at_mgr [OF assms(1)] assms(2)]
  have "unique_active (table_of (snd (exec_op op m)))"
    using quiet_spec [OF assms(3), of "table_of m" "m_next m"] assms(1)
    by (auto simp: t inv_at_def intro: quiet_unique)
  moreover have "unat (m_next (snd (exec_op op m))) = unat (m_next m) + creates op"
    using next_spec [OF assms(2) refl, of "table_of m"] by (simp add: t)
  ultimately show ?thesis using assms legal_step by (auto simp: inv_at_def)
qed

subsection \<open>The sessions that are active\<close>

fun calm :: "sess_op \<Rightarrow> bool" where
  \<comment> \<open>a call that cannot make a session active or inactive\<close>
  "calm (OpActive now i) = False"
| "calm (OpCreate now ci) = False"
| "calm (OpRecovering now i r) = False"
| "calm (OpTerminating now i) = False"
| "calm (OpFailed now i r) = False"
| "calm (OpExpire now ord) = False"
| "calm _ = True"

lemma active_update:
  "(\<And>s. s_State (f s) = s_State s) \<Longrightarrow> active_ids (snd (spec_update now i f T)) = active_ids T"
  by (auto simp: active_ids_def spec_update_def Let_def split: option.splits if_splits)

lemma active_transition:
  "nxt \<noteq> Active \<Longrightarrow> \<not> validTransition Active nxt \<Longrightarrow> active_ids (snd (spec_transition now i nxt f T)) = active_ids T"
  by (auto simp: active_ids_def spec_transition_def Let_def split: option.splits if_splits)

lemma active_delete: "active_ids (snd (spec_delete now i T)) = active_ids T"
  by (auto simp: active_ids_def spec_delete_def split: option.splits if_splits)

lemma active_leave:
  "nxt \<noteq> Active \<Longrightarrow> active_ids (snd (spec_transition now i nxt f T)) - {i} = active_ids T - {i}"
  by (auto simp: active_ids_def spec_transition_def Let_def split: option.splits if_splits)

lemma calm_spec: "calm op \<Longrightarrow> active_ids (snd (snd (spec_op op (n, T)))) = active_ids T"
  by (cases op) (simp_all add: active_update active_transition active_delete validTransition.simps
      gtpu_error_fields_def acct_fields_def)

lemma calm_not: "calm op \<Longrightarrow> \<not> activates op" "calm op \<Longrightarrow> creates op = 0"
  by (cases op; simp add: creates_def)+

lemma good_at_calm:
  assumes "good_at n L m H" "op_ok op m" "calm op"
  shows "good_at n L (snd (exec_op op m)) H"
proof -
  have "active_ids (table_of (snd (exec_op op m))) = active_ids (table_of m)"
    using calm_spec [OF assms(3), of "m_next m" "table_of m"]
    by (simp add: op_table [OF good_at_mgr [OF assms(1)] assms(2)])
  with assms calm_not [OF assms(3)] inv_at_exec [of n m op] show ?thesis by (simp add: good_at_def)
qed

section \<open>The methods of the table\<close>

lemma reply_result: "map_prod RResult (Pair n) x = (fst (map_prod RResult g y), (k, t)) \<Longrightarrow> x = (fst y, t)"
  by (cases x; cases y) simp

lemma method_table:
  assumes "mgr_inv m"
  shows "spec_transition now i PGWPending (\<lambda>s. s) (table_of m)
      = (fst (MarkPGWPending now i m), table_of (snd (MarkPGWPending now i m)))"
    "spec_transition now i Active (\<lambda>s. s) (table_of m) = (fst (MarkActive now i m), table_of (snd (MarkActive now i m)))"
    "spec_transition now i AuthPending (\<lambda>s. s) (table_of m)
      = (fst (MarkAuthPending now i m), table_of (snd (MarkAuthPending now i m)))"
    "spec_transition now i Terminating (\<lambda>s. s) (table_of m)
      = (fst (MarkTerminating now i m), table_of (snd (MarkTerminating now i m)))"
    "spec_transition now i Recovering (s_Reason_update (\<lambda>_. reason)) (table_of m)
      = (fst (MarkRecovering now i reason m), table_of (snd (MarkRecovering now i reason m)))"
    "spec_transition now i Failed (s_Reason_update (\<lambda>_. reason)) (table_of m)
      = (fst (MarkFailed now i reason m), table_of (snd (MarkFailed now i reason m)))"
    "spec_transition now i Authorized (auth_result_fields imsi msisdn apn reason) (table_of m)
      = (fst (ApplyAuthResult now i imsi msisdn apn reason m), table_of (snd (ApplyAuthResult now i imsi msisdn apn reason m)))"
    "clone_ip a \<noteq> None \<Longrightarrow> spec_transition now i IPAllocated (s_SubscriberIP_update (\<lambda>_. clone_ip a)) (table_of m)
      = (fst (SetSubscriberIP now i a m), table_of (snd (SetSubscriberIP now i a m)))"
    "spec_update now i (s_SubscriberIP_update (\<lambda>_. clone_ip a)) (table_of m)
      = (fst (UpdateSubscriberIP now i a m), table_of (snd (UpdateSubscriberIP now i a m)))"
    "spec_update now i (\<lambda>s. s\<lparr> s_PGWControlIP := clone_ip pc, s_PGWUserIP := clone_ip pu, s_GTPCTEID := c,
        s_LocalGTPUTEID := l, s_RemoteGTPUTEID := r \<rparr>) (table_of m)
      = (fst (ApplyPGWResult now i pc pu c l r m), table_of (snd (ApplyPGWResult now i pc pu c l r m)))"
  using op_table [OF assms, of "OpPGWPending now i"] op_table [OF assms, of "OpActive now i"]
    op_table [OF assms, of "OpAuthPending now i"] op_table [OF assms, of "OpTerminating now i"]
    op_table [OF assms, of "OpRecovering now i reason"] op_table [OF assms, of "OpFailed now i reason"]
    op_table [OF assms, of "OpAuthResult now i imsi msisdn apn reason"] op_table [OF assms, of "OpSetIP now i a"]
    op_table [OF assms, of "OpUpdateIP now i a"] op_table [OF assms, of "OpPGWResult now i pc pu c l r"]
  by (simp_all add: reply_result)

lemma Delete_table: "mgr_inv m \<Longrightarrow> table_of (snd (Delete now i m)) = snd (spec_delete now i (table_of m))"
  by (simp add: Delete_refines)

lemma table_ID: "mgr_inv m \<Longrightarrow> table_of m i = Some a \<Longrightarrow> s_ID a = i"
  using ids_okD(2) [OF mgr_invD(1)] by (auto simp: table_of_def)

lemma Get_table: "Get i m = map_option clone (table_of m i)"
  by (simp add: Get_def deref_def table_of_def option.map_comp o_def)

lemma mem_spec_all:
  "x \<in> set (spec_all P ord T) \<longleftrightarrow> (\<exists>i \<in> set ord. \<exists>a. T i = Some a \<and> P a \<and> x = clone a)"
  by (force simp: spec_all_def map_filter_def split: option.splits if_splits)

lemma keeping_calm:
  assumes "\<And>m. snd (f m) = snd (exec_op op m)" "\<And>m. op_ok op m" "calm op"
  shows "keeping w (good_at n L) (on_mgr f)"
  unfolding keeping_def using good_at_calm [OF _ assms(2,3)] by (intro triple_mgr) (simp add: assms(1))

lemma keeping_mgr [keeps_rules]:
  "keeping w (good_at n L) (on_mgr (MarkAuthPending now i))"
  "keeping w (good_at n L) (on_mgr (ApplyAuthResult now i imsi msisdn apn reason))"
  "keeping w (good_at n L) (on_mgr (UpdateSubscriberIP now i a))"
  "keeping w (good_at n L) (on_mgr (MarkPGWPending now i))"
  "keeping w (good_at n L) (on_mgr (ApplyPGWResult now i pc pu c l r))"
  "keeping w (good_at n L) (on_mgr (RecordGTPUError now i teid at))"
  "keeping w (good_at n L) (on_mgr (ApplyAccounting now i u))"
  "keeping w (good_at n L) (on_mgr (Delete now i))"
proof -
  note K = keeping_calm
  show "keeping w (good_at n L) (on_mgr (MarkAuthPending now i))" by (rule K [of _ "OpAuthPending now i"]) simp_all
  show "keeping w (good_at n L) (on_mgr (ApplyAuthResult now i imsi msisdn apn reason))"
    by (rule K [of _ "OpAuthResult now i imsi msisdn apn reason"]) simp_all
  show "keeping w (good_at n L) (on_mgr (UpdateSubscriberIP now i a))" by (rule K [of _ "OpUpdateIP now i a"]) simp_all
  show "keeping w (good_at n L) (on_mgr (MarkPGWPending now i))" by (rule K [of _ "OpPGWPending now i"]) simp_all
  show "keeping w (good_at n L) (on_mgr (ApplyPGWResult now i pc pu c l r))" by (rule K [of _ "OpPGWResult now i pc pu c l r"]) simp_all
  show "keeping w (good_at n L) (on_mgr (RecordGTPUError now i teid at))" by (rule K [of _ "OpGTPUError now i teid at"]) simp_all
  show "keeping w (good_at n L) (on_mgr (ApplyAccounting now i u))" by (rule K [of _ "OpAccounting now i u"]) simp_all
  show "keeping w (good_at n L) (on_mgr (Delete now i))" by (rule K [of _ "OpDelete now i"]) simp_all
qed

end
