(* ===== verification/LifeActivate.thy ===== *)
theory LifeActivate
  imports LifeInv
begin

text \<open>
  Triples of the operations that activate and detach sessions. In between, one session is being
  worked on and the PGW may or may not hold it; at the end of every branch, each roll-back
  included, the PGW holds exactly the active sessions again.
\<close>

section \<open>Leaving the active state\<close>

definition leaving :: "string \<Rightarrow> sess_op \<Rightarrow> bool" where
  "leaving i op \<longleftrightarrow> (case op of OpRecovering _ j _ \<Rightarrow> j = i | OpTerminating _ j \<Rightarrow> j = i | OpFailed _ j _ \<Rightarrow> j = i | _ \<Rightarrow> False)"

lemma leaving_facts: "leaving i op \<Longrightarrow> op_ok op m \<and> \<not> activates op \<and> creates op = 0"
  by (cases op) (simp_all add: leaving_def creates_def)

lemma leaving_spec:
  "leaving i op \<Longrightarrow> active_ids (snd (snd (spec_op op (n, T)))) - {i} = active_ids T - {i}"
  by (cases op) (simp_all add: leaving_def active_leave)

lemma good_at_leaving:
  assumes "good_at n L m H" "leaving i op"
  shows "good_at n (insert i L) (snd (exec_op op m)) H"
proof -
  note o = leaving_facts [OF assms(2)]
  have "active_ids (table_of (snd (exec_op op m))) - {i} = active_ids (table_of m) - {i}"
    using leaving_spec [OF assms(2), of "m_next m" "table_of m"]
    by (simp add: op_table [OF good_at_mgr [OF assms(1)] conjunct1 [OF o]])
  with assms o inv_at_exec [of n m op] show ?thesis by (auto simp: good_at_def)
qed

lemma leaving_methods:
  assumes "good_at n L m H"
  shows "good_at n (insert i L) (snd (MarkTerminating now i m)) H" "good_at n (insert i L) (snd (MarkFailed now i reason m)) H"
    "good_at n (insert i L) (snd (MarkRecovering now i reason m)) H"
  using good_at_leaving [OF assms, of i "OpTerminating now i"] good_at_leaving [OF assms, of i "OpFailed now i reason"]
    good_at_leaving [OF assms, of i "OpRecovering now i reason"] by (simp_all add: leaving_def)

lemma spec_transition_cases:
  assumes "spec_transition now i nxt f T = (r, T')"
  obtains (missing) "r = Inl (NotFound i)" "T' = T" "T i = None"
  | (refused) s where "r = Inl (InvalidTransition (s_State s) nxt)" "T' = T" "T i = Some s" "\<not> validTransition (s_State s) nxt"
  | (moved) s where "T i = Some s" "validTransition (s_State s) nxt" "T' i = Some ((f s)\<lparr> s_State := nxt, s_UpdatedAt := now \<rparr>)"
      "r = Inr (clone ((f s)\<lparr> s_State := nxt, s_UpdatedAt := now \<rparr>))" "T' = T(i \<mapsto> (f s)\<lparr> s_State := nxt, s_UpdatedAt := now \<rparr>)"
  using assms by (auto simp: spec_transition_def Let_def split: option.splits if_splits)

lemma state_of_table: "state_of m i = Some st \<longleftrightarrow> (\<exists>a. table_of m i = Some a \<and> s_State a = st)"
  by (auto simp: state_of_def)

lemma active_state: "i \<in> active_ids (table_of m) \<longleftrightarrow> state_of m i = Some Active"
  by (auto simp: state_of_def active_ids_def)

lemma good_at_drop:
  "good_at n (insert i L) m H \<Longrightarrow> i \<notin> active_ids (table_of m) \<Longrightarrow> good_at n L m (H - {i})"
  unfolding good_at_def by (metis Diff_iff insert_iff empty_iff)

lemma good_at_same:
  "good_at n L m H \<Longrightarrow> good_at n K m' H \<Longrightarrow> table_of m' = table_of m \<Longrightarrow> good_at n L m' H"
  by (simp add: good_at_def)

definition parting :: "nat \<Rightarrow> string set \<Rightarrow> string \<Rightarrow> assertion" where
  \<comment> \<open>a session that is about to be detached: untouched, or already marked\<close>
  "parting n L i m H \<longleftrightarrow> good_at n L m H
     \<or> good_at n (insert i L) m H \<and> (state_of m i = Some Active \<or> state_of m i = Some Recovering)"

lemma terminating_spec:
  assumes "parting n L i m H"
  shows "case fst (MarkTerminating now i m) of Inl _ \<Rightarrow> good_at n L (snd (MarkTerminating now i m)) H
    | Inr t \<Rightarrow> s_ID t = i \<and> good_at n (insert i L) (snd (MarkTerminating now i m)) H
        \<and> i \<notin> active_ids (table_of (snd (MarkTerminating now i m)))"
proof -
  let ?m = "snd (MarkTerminating now i m)"
  from assms have g: "good_at n (insert i L) m H" by (auto simp: parting_def intro: good_at_mono)
  have g': "good_at n (insert i L) ?m H" using leaving_methods(1) [OF g, of i now] by simp
  from method_table(4) [OF good_at_mgr [OF g], of now i] show ?thesis
  proof (cases rule: spec_transition_cases)
    case missing
    from missing(3) have "good_at n L m H" using assms by (auto simp: parting_def state_of_def)
    with missing good_at_same [OF _ g'] show ?thesis by simp
  next
    case (refused s)
    from refused(3,4) have "good_at n L m H" using assms by (auto simp: parting_def state_of_def validTransition.simps)
    with refused good_at_same [OF _ g'] show ?thesis by simp
  next
    case (moved s)
    with g' table_ID [OF good_at_mgr [OF g'] moved(3)] show ?thesis by (simp add: active_ids_def)
  qed
qed

lemma terminating_triple:
  "triple w (parting n L i) (on_mgr (MarkTerminating now i)) (\<lambda>r m H. case r of Inl _ \<Rightarrow> good_at n L m H
    | Inr t \<Rightarrow> s_ID t = i \<and> good_at n (insert i L) m H \<and> i \<notin> active_ids (table_of m))"
  using terminating_spec by (intro triple_mgr)

lemma triple_delete_keeping:
  assumes "\<And>m H. P m H \<Longrightarrow> good_at n L m (H - {s_ID x})" "\<And>a. keeping w (good_at n L) (f a)"
  shows "triple w P (do { a \<leftarrow> pgw_delete w' x; f a }) (\<lambda>_. good_at n L)"
  by (rule triple_bind [OF triple_delete triple_keeping [OF assms(2)]]) (rule assms(1))

lemma detach_triple:
  "triple w (parting n L (s_ID x)) (detachSessionLocked w' x) (\<lambda>_. good_at n L)"
  unfolding detachSessionLocked_def
proof (rule triple_bind [OF terminating_triple], rule triple_sum, goal_cases)
  case (1 r e)
  then show ?case by (auto intro: triple_ret)
next
  case (2 r t)
  then show ?case
    by (intro triple_delete_keeping keeping_shape keeps_rules) (auto simp: good_at_drop)
qed

lemma keeping_detach [keeps_rules]: "keeping w (good_at n L) (detachSessionLocked w' x)"
  unfolding keeping_def by (rule triple_pre [OF detach_triple]) (simp add: parting_def)

lemma keeping_existing [keeps_rules]:
  "keeping w (good_at n L) (detachExistingBeforeAttach w' x)" "keeping w (good_at n L) (Detach w' dr)"
  unfolding detachExistingBeforeAttach_def Detach_def by (intro keeping_shape keeps_rules)+

lemma keeping_handle [keeps_rules]:
  "keeping w (good_at n L) (handleExistingBeforeAttach w' eo req)" "keeping w (good_at n L) (accounting_stop w' aq so)"
  unfolding handleExistingBeforeAttach_def accounting_stop_def by (intro keeping_shape keeps_rules)+

lemma keeping_shutdown [keeps_rules]: "keeping w (good_at n L) (Shutdown w')"
proof -
  have "keeping w (good_at n L) (detach_all w' xs)" for xs
  proof (induction xs)
    case (Cons x xs)
    then show ?case unfolding detach_all.simps by (intro keeping_shape keeps_rules)
  qed (simp add: keeping_ret)
  then show ?thesis unfolding Shutdown_def by (intro keeping_shape keeps_rules)
qed

section \<open>The deletions the network asks for\<close>

lemma recovering_triple:
  "triple w (good_at n L) (mark_recovering w' x reason) (\<lambda>y. parting n L (s_ID y))"
  unfolding mark_recovering_def
proof (rule triple_bind [OF triple_mgr triple_ret])
  fix m H assume g: "good_at n L m H"
  let ?r = "MarkRecovering (w_now w') (s_ID x) reason m"
  have g': "good_at n (insert (s_ID x) L) (snd ?r) H" by (rule leaving_methods(3) [OF g])
  from method_table(5) [OF good_at_mgr [OF g], of "w_now w'" "s_ID x" reason]
  show "parting n L (s_ID (case fst ?r of Inl _ \<Rightarrow> x | Inr s \<Rightarrow> s)) (snd ?r) H"
  proof (cases rule: spec_transition_cases)
    case (moved s)
    from moved(4) table_ID [OF good_at_mgr [OF g'] moved(3)] have "s_ID (case fst ?r of Inl _ \<Rightarrow> x | Inr s \<Rightarrow> s) = s_ID x"
      by simp
    with g' moved(3) show ?thesis by (simp add: parting_def state_of_def)
  next
    case missing
    with good_at_same [OF g g'] show ?thesis by (simp add: parting_def)
  next
    case (refused s)
    with good_at_same [OF g g'] show ?thesis by (simp add: parting_def)
  qed
qed assumption

lemma keeping_end_recovering [keeps_rules]: "keeping w (good_at n L) (end_recovering w' x reason tomb)"
  unfolding keeping_def end_recovering_def
  by (rule triple_bind [OF recovering_triple triple_bind [OF triple_keeping detach_triple]])
    (intro keeping_shape keeps_rules)

lemma keeping_network [keeps_rules]:
  "keeping w (good_at n L) (gtpu_error_session w' teid x)" "keeping w (good_at n L) (HandlePGWInitiatedDelete w' teid)"
  "keeping w (good_at n L) (HandleAAAInitiatedDisconnect w' imsi sid)"
  unfolding gtpu_error_session_def HandlePGWInitiatedDelete_def HandleAAAInitiatedDisconnect_def
  by (intro keeping_shape keeps_rules)+

lemma keeping_gtpu [keeps_rules]: "keeping w (good_at n L) (HandleGTPUErrorIndication w' teid)"
  unfolding HandleGTPUErrorIndication_def by (intro keeping_shape keeps_rules)

section \<open>Roll-backs\<close>

lemma failed_inactive: "good_at n L m H \<Longrightarrow> i \<notin> active_ids (table_of (snd (MarkFailed now i reason m)))"
proof -
  assume g: "good_at n L m H"
  from method_table(6) [OF good_at_mgr [OF g], of now i reason] show ?thesis
    by (cases rule: spec_transition_cases) (auto simp: active_ids_def validTransition.simps)
qed

lemma fail_triple:
  "triple w (\<lambda>m H. good_at n (insert i L) m H \<and> i \<notin> H) (fail_session w' i e)
     (\<lambda>out m H. good_at n L m H \<and> snd out \<noteq> None)"
  unfolding fail_session_def
proof (rule triple_bind [OF triple_mgr triple_ret])
  fix m H assume a: "good_at n (insert i L) m H \<and> i \<notin> H"
  show "good_at n L (snd (MarkFailed (w_now w') i (w_text w' e) m)) H"
    using a leaving_methods(2) [of n "insert i L" m H i] failed_inactive [of n "insert i L" m H i]
    by (intro good_at_close [of n i L]) simp_all
qed (auto split: sum.splits)

definition quiesced :: "nat \<Rightarrow> string \<Rightarrow> assertion" where
  \<comment> \<open>the session is not active, so the PGW does not hold it\<close>
  "quiesced n i m H \<longleftrightarrow> good_at n {} m H \<and> state_of m i \<noteq> Some Active"

lemma quiesced_not_held: "quiesced n i m H \<Longrightarrow> good_at n (insert i {}) m H \<and> i \<notin> H"
  by (simp add: quiesced_def good_at_def active_state)

lemma fail_quiesced:
  "triple w (quiesced n i) (fail_session w' i e) (\<lambda>out m H. good_at n {} m H \<and> snd out \<noteq> None)"
  by (rule triple_pre [OF fail_triple]) (rule quiesced_not_held)

lemma undo_triple:
  "triple w (good_at n {s_ID x}) (undo_pgw w' x e) (\<lambda>out m H. good_at n {} m H \<and> snd out \<noteq> None)"
  unfolding undo_pgw_def
proof (rule triple_bind [OF triple_delete triple_bind [OF triple_keeping fail_triple]])
  fix m H assume "good_at n {s_ID x} m H"
  then show "good_at n (insert (s_ID x) {}) m (H - {s_ID x}) \<and> s_ID x \<notin> H - {s_ID x}" by (simp add: good_at_def)
qed (rule keeps_rules)

section \<open>Activation\<close>

definition env_ok :: "env \<Rightarrow> bool" where
  \<comment> \<open>a loop over the table visits every session, the address pool does not hand out a nil address, and
    the access side is not configured without a user plane\<close>
  "env_ok w \<longleftrightarrow> (\<forall>name h m. mgr_inv m \<longrightarrow> dom (m_byID m) \<subseteq> set (w_order w name h m))
     \<and> (\<forall>h i a. w_alloc w h i = Inr a \<longrightarrow> clone_ip a \<noteq> None) \<and> (w_access w \<longrightarrow> w_user w)"

definition alone :: "session \<Rightarrow> table \<Rightarrow> bool" where
  "alone a T \<longleftrightarrow> (\<forall>j b. T j = Some b \<longrightarrow> j \<noteq> s_ID a \<longrightarrow> s_State b = Active \<longrightarrow> \<not> clash a b)"

lemma same_clone: "subscriberSame (clone a) (clone b) = subscriberSame a b"
  by (simp add: subscriberSame_def)

lemma live_listed:
  assumes "env_ok w" "mgr_inv m" "table_of m j = Some b" "clash (clone a) b"
  shows "clone b \<in> set (FindByIMSIAPN (s_IMSI a) (s_APN a) (w_order w nm h m) m)
     \<or> s_MACAddress a \<noteq> [] \<and> clone b \<in> set (FindByMAC (s_MACAddress a) (w_order w nm' h' m) m)"
proof -
  have j: "j \<in> set (w_order w x y m)" for x y
    using assms(1-3) by (force simp: env_ok_def table_of_def)
  from assms(4) have "s_IMSI b = s_IMSI a \<and> sameAPN (s_APN b) (s_APN a)
      \<or> s_MACAddress a \<noteq> [] \<and> macMatches (s_MACAddress b) (s_MACAddress a)"
    by (auto simp: clash_def sameAPN_def equal_fold_sym macMatches_def)
  with j assms(3) show ?thesis
    by (auto simp: FindByIMSIAPN_def FindByMAC_def walk_refines mem_spec_all)
qed

lemma find_live_result:
  assumes "env_ok w" "mgr_inv (sv_mgr s)" "fst (run_state (findLiveSessionDifferentFrom w (clone a)) s) = None"
  shows "alone a (table_of (sv_mgr s))"
  unfolding alone_def
proof (intro allI impI notI)
  fix j b assume b: "table_of (sv_mgr s) j = Some b" "j \<noteq> s_ID a" "s_State b = Active" and c: "clash a b"
  let ?o = "\<lambda>name. w_order w name (sv_events s) (sv_mgr s)"
  have c': "clash (clone a) b" using c clash_cong [of a "clone a" b b] by simp
  have none: "\<forall>x \<in> set (FindByIMSIAPN (s_IMSI a) (s_APN a) (?o ''FindByIMSIAPN'') (sv_mgr s))
      \<union> (if s_MACAddress a \<noteq> [] then set (FindByMAC (s_MACAddress a) (?o ''FindByMAC'') (sv_mgr s)) else {}).
      \<not> (s_ID x \<noteq> s_ID a \<and> isLivePGWOwner (s_State x) \<and> subscriberSame x (clone a))"
    using assms(3) by (auto simp: findLiveSessionDifferentFrom_def walk_mgr_def find_None_iff split: if_splits)
  have live: "s_ID (clone b) \<noteq> s_ID a \<and> isLivePGWOwner (s_State (clone b)) \<and> subscriberSame (clone b) (clone a)"
    using b table_ID [OF assms(2) b(1)] clash_def [THEN iffD1, OF c] by (simp add: isLivePGWOwner_def same_clone)
  have listed: "clone b \<in> set (FindByIMSIAPN (s_IMSI a) (s_APN a) (?o ''FindByIMSIAPN'') (sv_mgr s))
      \<union> (if s_MACAddress a \<noteq> [] then set (FindByMAC (s_MACAddress a) (?o ''FindByMAC'') (sv_mgr s)) else {})"
    using live_listed [OF assms(1,2) b(1) c', of "''FindByIMSIAPN''" "sv_events s" "''FindByMAC''" "sv_events s"]
    by (cases "s_MACAddress a = []") simp_all
  from bspec [OF none listed] live show False by simp
qed

lemma find_live_triple:
  assumes "env_ok w" "\<And>m H. P m H \<Longrightarrow> mgr_inv m"
  shows "triple w P (findLiveSessionDifferentFrom w (clone a)) (\<lambda>r m H. P m H \<and> (r = None \<longrightarrow> alone a (table_of m)))"
proof (rule tripleI)
  fix s assume "P (sv_mgr s) (held w s)"
  moreover have "snd (run_state (findLiveSessionDifferentFrom w (clone a)) s) = s"
    by (simp add: findLiveSessionDifferentFrom_def walk_mgr_def)
  ultimately show "P (sv_mgr (snd (run_state (findLiveSessionDifferentFrom w (clone a)) s)))
      (held w (snd (run_state (findLiveSessionDifferentFrom w (clone a)) s)))
    \<and> (fst (run_state (findLiveSessionDifferentFrom w (clone a)) s) = None \<longrightarrow>
       alone a (table_of (sv_mgr (snd (run_state (findLiveSessionDifferentFrom w (clone a)) s)))))"
    using find_live_result [OF assms(1)] assms(2) by auto
qed

definition ready :: "nat \<Rightarrow> session \<Rightarrow> assertion" where
  \<comment> \<open>the PGW has accepted the session, which is pending and has no active rival\<close>
  "ready n p m H \<longleftrightarrow> good_at n {s_ID p} m H \<and> s_ID p \<in> H \<and> (\<exists>a. p = clone a \<and> table_of m (s_ID a) = Some a
     \<and> s_State a = PGWPending \<and> alone a (table_of m))"

abbreviation refused :: "nat \<Rightarrow> attach_out \<Rightarrow> assertion" where
  "refused n out m H \<equiv> good_at n {} m H \<and> snd out \<noteq> None"

lemma pending_spec:
  assumes "good_at n L m H"
  shows "case fst (MarkPGWPending now i m) of Inl _ \<Rightarrow> True
    | Inr p \<Rightarrow> (\<exists>a. p = clone a \<and> s_ID a = i \<and> table_of (snd (MarkPGWPending now i m)) i = Some a \<and> s_State a = PGWPending)"
proof -
  let ?m = "snd (MarkPGWPending now i m)"
  have g': "mgr_inv ?m"
    using good_at_calm [OF assms, of "OpPGWPending now i"] by (simp add: good_at_mgr)
  from method_table(1) [OF good_at_mgr [OF assms], of now i] show ?thesis
    by (cases rule: spec_transition_cases) (use table_ID [OF g', of i] in auto)
qed

lemma request_triple:
  assumes "env_ok w"
  shows "triple w (good_at n {}) (request_pgw w x) (\<lambda>r m H. case r of Inl out \<Rightarrow> refused n out m H
     | Inr (p, res) \<Rightarrow> ready n p m H)"
proof -
  let ?pend = "\<lambda>a m H. good_at n {} m H \<and> table_of m (s_ID a) = Some a \<and> s_State a = PGWPending"
  have q: "?pend a m H \<Longrightarrow> quiesced n (s_ID a) m H" for a m H by (simp add: quiesced_def state_of_def)
  have mark: "triple w (good_at n {}) (on_mgr (MarkPGWPending (w_now w) (s_ID x)))
      (\<lambda>r m H. case r of Inl _ \<Rightarrow> good_at n {} m H | Inr p \<Rightarrow> \<exists>a. p = clone a \<and> ?pend a m H)"
    using pending_spec [of n "{}"] good_at_calm [of n "{}" _ _ "OpPGWPending (w_now w) (s_ID x)"]
    by (intro triple_mgr) (fastforce split: sum.splits)
  have live: "triple w (?pend a) (findLiveSessionDifferentFrom w (clone a))
      (\<lambda>r m H. ?pend a m H \<and> (r = None \<longrightarrow> alone a (table_of m)))" for a
    by (rule find_live_triple [OF assms]) (auto intro: good_at_mgr)
  have fail: "triple w (?pend a) (do { _ \<leftarrow> releaseIP w (s_ID a); out \<leftarrow> fail_session w (s_ID a) e; ret (Inl out) })
      (\<lambda>r m H. case r of Inl out \<Rightarrow> refused n out m H | Inr (p, res) \<Rightarrow> ready n p m H)" for a e
    by (rule triple_bind [OF triple_keeping triple_bind [OF triple_pre [OF fail_quiesced q] triple_ret]])
      (auto intro: keeps_rules)
  show ?thesis unfolding request_pgw_def
  proof (rule triple_bind [OF mark], rule triple_sum, goal_cases)
    case (1 r e)
    then show ?case by (auto intro!: triple_bind [OF triple_keeping triple_ret] keeps_rules)
  next
    case (2 r p)
    have create: "triple w (\<lambda>m H. ?pend a m H \<and> alone a (table_of m)) (pgw_create w (clone a))
      (\<lambda>r m H. case r of Inl _ \<Rightarrow> ?pend a m H | Inr _ \<Rightarrow> ready n (clone a) m H)" for a
      by (rule triple_create) (auto simp: ready_def good_at_def)
    show ?case unfolding 2 sum.case
      apply (rule triple_ex_eq, hypsubst)
      apply (simp only: clone_fields)
      apply (rule triple_bind [OF live triple_if])
       apply (rule triple_bind [OF triple_keeping triple_pre [OF fail]], rule keeps_rules, simp)
      apply (rule triple_bind [OF triple_pre [OF create] triple_sum])
        apply simp
       apply (simp add: fail)
      apply (rule triple_ret, simp)
      done
  qed
qed

lemma alone_cong:
  assumes "alone a T" "s_ID b = s_ID a" "s_IMSI b = s_IMSI a" "s_MACAddress b = s_MACAddress a" "s_APN b = s_APN a"
  shows "alone b (T(s_ID a \<mapsto> b))"
  using assms(1) clash_cong [OF assms(3-5) refl refl refl] by (simp add: alone_def assms(2))

lemma ready_update:
  assumes "\<And>s. s_ID (f s) = s_ID s \<and> s_State (f s) = s_State s \<and> s_IMSI (f s) = s_IMSI s
      \<and> s_MACAddress (f s) = s_MACAddress s \<and> s_APN (f s) = s_APN s"
    and "ready n p m H" "good_at n {s_ID p} m' H" "spec_update now (s_ID p) f (table_of m) = (r, table_of m')"
  shows "\<exists>q. r = Inr q \<and> ready n q m' H"
proof -
  from assms(2) obtain a where a: "p = clone a" "table_of m (s_ID a) = Some a" "s_State a = PGWPending"
    "alone a (table_of m)" and H: "s_ID p \<in> H" by (auto simp: ready_def)
  let ?b = "(f a)\<lparr> s_UpdatedAt := now \<rparr>"
  from assms(4) have r: "r = Inr (clone ?b)" "table_of m' = (table_of m)(s_ID a \<mapsto> ?b)"
    by (simp_all add: spec_update_def Let_def a(1,2))
  have "ready n (clone ?b) m' H"
    unfolding ready_def using a H assms(3) alone_cong [OF a(4), of ?b] by (auto simp: r(2) assms(1))
  then show ?thesis using r(1) by simp
qed

lemma take_paa_triple:
  "triple w (ready n p) (take_paa w' p res) (\<lambda>r m H. \<exists>q. r = Inr q \<and> ready n q m H)"
proof -
  have upd: "triple w (ready n p) (on_mgr (UpdateSubscriberIP now (s_ID p) a)) (\<lambda>r m H. \<exists>q. r = Inr q \<and> ready n q m H)" for now a
  proof (rule triple_mgr)
    fix m H assume r: "ready n p m H"
    then have g: "good_at n {s_ID p} m H" by (simp add: ready_def)
    show "\<exists>q. fst (UpdateSubscriberIP now (s_ID p) a m) = Inr q \<and> ready n q (snd (UpdateSubscriberIP now (s_ID p) a m)) H"
      using good_at_calm [OF g, of "OpUpdateIP now (s_ID p) a"] method_table(9) [OF good_at_mgr [OF g], of now "s_ID p" a]
      by (intro ready_update [OF _ r]) simp_all
  qed
  have rel: "triple w (ready n p) (if b then releaseIP w' i else ret (False, None)) (\<lambda>_. ready n p)" for b i
    by (rule triple_keeping) (intro keeping_shape keeps_rules)
  show ?thesis unfolding take_paa_def
    by (rule triple_if, rule triple_bind [OF rel triple_bind [OF upd triple_ret]])
      (auto intro: triple_ret split: sum.splits)
qed

lemma take_teids_triple:
  "triple w (ready n p) (take_teids w' p res) (\<lambda>r m H. \<exists>q. r = Inr q \<and> ready n q m H)"
proof -
  have upd: "triple w (ready n p) (on_mgr (ApplyPGWResult now (s_ID p) pc pu c l t))
      (\<lambda>r m H. \<exists>q. r = Inr q \<and> ready n q m H)" for now pc pu c l t
  proof (rule triple_mgr)
    fix m H assume r: "ready n p m H"
    then have g: "good_at n {s_ID p} m H" by (simp add: ready_def)
    show "\<exists>q. fst (ApplyPGWResult now (s_ID p) pc pu c l t m) = Inr q \<and> ready n q (snd (ApplyPGWResult now (s_ID p) pc pu c l t m)) H"
      using good_at_calm [OF g, of "OpPGWResult now (s_ID p) pc pu c l t"]
        method_table(10) [OF good_at_mgr [OF g], where now = now and i = "s_ID p" and pc = pc and pu = pu and c = c and l = l and r = t]
      by (intro ready_update [OF _ r]) simp_all
  qed
  show ?thesis unfolding take_teids_def
    by (rule triple_if, rule triple_bind [OF upd triple_ret]) (auto intro: triple_ret split: sum.splits)
qed

lemma take_triple:
  "triple w (ready n p) (take_pgw_result w' p ro) (\<lambda>r m H. \<exists>q. r = Inr q \<and> ready n q m H)"
  unfolding take_pgw_result_def
proof (rule triple_option)
  fix res
  show "triple w (ready n p) (do { a \<leftarrow> take_paa w' p res; case a of Inl out \<Rightarrow> ret (Inl out) | Inr s \<Rightarrow> take_teids w' s res })
      (\<lambda>r m H. \<exists>q. r = Inr q \<and> ready n q m H)"
    by (rule triple_bind [OF take_paa_triple], rule triple_ex_eq) (simp add: take_teids_triple)
qed (auto intro: triple_ret)

section \<open>Binding the data path\<close>

lemma undo_ready:
  "triple w (good_at n {s_ID x}) (do { out \<leftarrow> undo_pgw w' x e; ret (Inl out) })
     (\<lambda>r m H. case r of Inl out \<Rightarrow> refused n out m H | Inr y \<Rightarrow> Q y m H)"
  by (rule triple_bind [OF undo_triple triple_ret]) simp

lemma ready_good: "ready n p m H \<Longrightarrow> good_at n {s_ID p} m H"
  by (simp add: ready_def)

lemma datapath_triple:
  "triple w (ready n p) (bind_datapath w' p) (\<lambda>r m H. case r of Inl out \<Rightarrow> refused n out m H
     | Inr _ \<Rightarrow> ready n p m H \<and> s_SubscriberIP p \<noteq> None)"
proof -
  note undo = triple_pre [OF undo_ready ready_good]
  have removed: "triple w (ready n p) (do { _ \<leftarrow> route_remove w' p; out \<leftarrow> undo_pgw w' p e; ret (Inl out) })
      (\<lambda>r m H. case r of Inl out \<Rightarrow> refused n out m H | Inr _ \<Rightarrow> ready n p m H \<and> s_SubscriberIP p \<noteq> None)" for e
    by (rule triple_bind [OF triple_keeping undo]) (rule keeps_rules)
  show ?thesis unfolding bind_datapath_def
    by (intro triple_if triple_bind [OF triple_keeping triple_option] keeps_rules undo removed triple_ret) simp_all
qed

end
