(* ===== verification/LifeRun.thy ===== *)
theory LifeRun
  imports LifeActivate
begin

text \<open>
  The triples of the handlers of the lifecycle service, and what they say of any sequence of calls.
\<close>

section \<open>An activated session\<close>

definition served :: "attach_response \<Rightarrow> manager \<Rightarrow> bool" where
  \<comment> \<open>the response reports a session of the table that is active and has an address\<close>
  "served r m \<longleftrightarrow> (\<exists>a. table_of m (rs_SessionID r) = Some a \<and> s_State a = Active \<and> clone_ip (s_SubscriberIP a) \<noteq> None
     \<and> r = responseFromSession (clone a))"

lemma served_cong: "table_of m' (rs_SessionID r) = table_of m (rs_SessionID r) \<Longrightarrow> served r m' = served r m"
  by (simp only: served_def)

definition outcome :: "nat \<Rightarrow> attach_out \<Rightarrow> assertion" where
  \<comment> \<open>an attach failed, or its session is served\<close>
  "outcome n out m H \<longleftrightarrow> good_at n {} m H \<and> (snd out = None \<longrightarrow> (\<exists>r. fst out = Some r \<and> served r m))"

definition serving :: "nat \<Rightarrow> session \<Rightarrow> assertion" where
  "serving n q m H \<longleftrightarrow> good_at n {} m H \<and> s_SubscriberIP q \<noteq> None
     \<and> (\<exists>a. q = clone a \<and> table_of m (s_ID a) = Some a \<and> s_State a = Active)"

lemma refused_outcome: "refused n out m H \<Longrightarrow> outcome n out m H"
  by (auto simp: outcome_def)

lemma outcome_mono: "outcome n out m H \<Longrightarrow> n \<le> k \<Longrightarrow> outcome k out m H"
  by (auto simp: outcome_def intro: good_at_mono)

lemma serving_outcome: "serving n q m H \<Longrightarrow> outcome n (Some (responseFromSession q), None) m H"
  by (auto simp: serving_def outcome_def served_def responseFromSession_def)

lemma unique_active_insert:
  assumes "unique_active T" "alone a T" "s_ID b = s_ID a" "s_IMSI b = s_IMSI a" "s_MACAddress b = s_MACAddress a" "s_APN b = s_APN a"
  shows "unique_active (T(s_ID a \<mapsto> b))"
proof -
  have c: "clash b x = clash a x" for x using clash_cong [OF assms(4-6) refl refl refl] .
  show ?thesis using assms(1,2) unfolding unique_active_def alone_def
    by (auto simp: c clash_sym [of _ b])
qed

lemma active_triple:
  "triple w (\<lambda>m H. ready n p m H \<and> s_SubscriberIP p \<noteq> None) (on_mgr (MarkActive now (s_ID p)))
     (\<lambda>r m H. \<exists>q. r = Inr q \<and> serving n q m H)"
proof (rule triple_mgr)
  fix m H assume "ready n p m H \<and> s_SubscriberIP p \<noteq> None"
  then obtain a where g: "good_at n {s_ID p} m H" and H: "s_ID a \<in> H" and a: "p = clone a" "table_of m (s_ID a) = Some a"
    "s_State a = PGWPending" "alone a (table_of m)" "clone_ip (s_SubscriberIP a) \<noteq> None" by (auto simp: ready_def)
  let ?m = "snd (MarkActive now (s_ID p) m)" and ?b = "a\<lparr> s_State := Active, s_UpdatedAt := now \<rparr>"
  have v: "validTransition PGWPending Active" by (simp add: validTransition.simps)
  from method_table(2) [OF good_at_mgr [OF g], of now "s_ID p"] v
  have r: "fst (MarkActive now (s_ID p) m) = Inr (clone ?b)" "table_of ?m = (table_of m)(s_ID a \<mapsto> ?b)"
    by (simp_all add: spec_transition_def a(1-3) Let_def)
  have n: "m_next ?m = m_next m"
    using op_table [OF good_at_mgr [OF g], of "OpActive now (s_ID p)"] by (simp add: prod_eq_iff)
  have "unique_active (table_of ?m)"
    using g unique_active_insert [OF _ a(4), of ?b] by (simp add: r(2) good_at_def inv_at_def)
  moreover have "\<exists>ops. legal_calls ops \<and> ?m = after ops"
    using g legal_step [of _ "OpActive now (s_ID p)"] by (auto simp: good_at_def inv_at_def)
  moreover have "\<forall>i. (i \<in> H) = (i \<in> active_ids (table_of ?m))"
    using g H unfolding r(2) good_at_def active_ids_def by (auto simp: a(1))
  ultimately have "good_at n {} ?m H" using g by (simp add: good_at_def inv_at_def n)
  then show "\<exists>q. fst (MarkActive now (s_ID p) m) = Inr q \<and> serving n q ?m H"
    using a(5) by (auto simp: r serving_def)
qed

lemma detach_serving: "triple w (serving n q) (detachSessionLocked w' q) (\<lambda>_. good_at n {})"
  by (rule triple_pre [OF detach_triple]) (simp add: parting_def serving_def)

lemma bind_access_triple:
  assumes "env_ok w"
  shows "triple w (serving n q) (bind_access w q) (\<lambda>r m H. case r of Inl out \<Rightarrow> refused n out m H | Inr _ \<Rightarrow> serving n q m H)"
proof -
  have user: "w_access w \<Longrightarrow> w_user w" using assms by (simp add: env_ok_def)
  have undo: "triple w (serving n q) (do { _ \<leftarrow> user_remove w q; _ \<leftarrow> route_remove w q; out \<leftarrow> undo_pgw w q e; ret (Inl out) })
      (\<lambda>r m H. case r of Inl out \<Rightarrow> refused n out m H | Inr _ \<Rightarrow> serving n q m H)" for e
    by (rule triple_bind [OF triple_keeping triple_bind [OF triple_keeping triple_pre [OF undo_ready]]])
      (auto intro: keeps_rules good_at_mono simp: serving_def)
  show ?thesis unfolding bind_access_def using user
    by (intro triple_if triple_bind [OF triple_keeping triple_option] keeps_rules undo triple_ret) simp_all
qed

lemma finish_active_triple: "triple w (serving n q) (finish_active w' q) (outcome n)"
  unfolding finish_active_def
  by (intro triple_bind [OF triple_keeping triple_option] triple_if triple_bind [OF detach_serving] triple_ret keeps_rules)
    (auto intro: serving_outcome refused_outcome)

lemma activate_bound_triple:
  assumes "env_ok w"
  shows "triple w (ready n p) (activate_bound w p) (outcome n)"
proof -
  have access: "triple w (serving n q) (do { a \<leftarrow> bind_access w q; case a of Inl out \<Rightarrow> ret out | Inr _ \<Rightarrow> finish_active w q }) (outcome n)" for q
    by (rule triple_bind [OF bind_access_triple [OF assms] triple_sum])
      (auto intro: triple_ret refused_outcome finish_active_triple)
  have active: "triple w (\<lambda>m H. ready n p m H \<and> s_SubscriberIP p \<noteq> None) (do {
      r \<leftarrow> on_mgr (MarkActive (w_now w) (s_ID p));
      case r of Inl e \<Rightarrow> ret (None, Some (SessErr e))
      | Inr q \<Rightarrow> do { a \<leftarrow> bind_access w q; case a of Inl out \<Rightarrow> ret out | Inr _ \<Rightarrow> finish_active w q } }) (outcome n)"
    by (rule triple_bind [OF active_triple], rule triple_ex_eq) (simp add: access)
  show ?thesis unfolding activate_bound_def
    by (rule triple_bind_sum [OF datapath_triple]; simp only: sum.case)
      (rule triple_ret, erule refused_outcome, rule active)
qed

lemma allocate_triple:
  assumes "env_ok w"
  shows "triple w (quiesced n (s_ID a)) (allocate_address w a)
    (\<lambda>r m H. case r of Inl out \<Rightarrow> refused n out m H | Inr _ \<Rightarrow> good_at n {} m H)"
proof -
  have alloc: "clone_ip i \<noteq> None" if "w_alloc w h x = Inr i" for h x i using assms that by (auto simp: env_ok_def)
  have call: "triple w (quiesced n (s_ID a)) (call (EvAllocate (s_ID a)) (\<lambda>h. w_alloc w h (s_ID a)))
      (\<lambda>r m H. quiesced n (s_ID a) m H \<and> (\<forall>i. r = Inr i \<longrightarrow> clone_ip i \<noteq> None))"
    by (rule tripleI) (auto simp: call_def pgw_held_snoc dest: alloc)
  have fail: "triple w (\<lambda>m H. quiesced n (s_ID a) m H \<and> R) (do { out \<leftarrow> fail_session w (s_ID a) e; ret (Inl out) })
      (\<lambda>r m H. case r of Inl out \<Rightarrow> refused n out m H | Inr _ \<Rightarrow> good_at n {} m H)" for e R
    by (rule triple_bind [OF triple_pre [OF fail_quiesced] triple_ret]) simp_all
  have set: "triple w (\<lambda>m H. quiesced n (s_ID a) m H \<and> clone_ip i \<noteq> None) (on_mgr (SetSubscriberIP now (s_ID a) i))
      (\<lambda>_. good_at n {})" for now i
    using good_at_calm [of n "{}" _ _ "OpSetIP now (s_ID a) i"]
    by (intro triple_mgr) (simp add: quiesced_def)
  have release: "triple w (good_at n {}) (do { _ \<leftarrow> releaseIP w (s_ID a); ret (Inl (None, Some e)) })
      (\<lambda>r m H. case r of Inl out \<Rightarrow> refused n out m H | Inr _ \<Rightarrow> good_at n {} m H)" for e
    by (rule triple_bind [OF triple_keeping triple_ret]) (auto intro: keeps_rules)
  show ?thesis unfolding allocate_address_def
    apply (intro triple_if)
      apply (rule triple_ret, simp add: quiesced_def)
     apply (rule triple_ret, simp add: quiesced_def)
    apply (rule triple_bind_sum [OF call])
     apply (rule triple_pre [OF fail], simp)
    apply (rule triple_bind_sum [OF triple_pre [OF set]])
      apply simp
     apply (rule release)
    apply (rule triple_ret, simp)
    done
qed

lemma authorized_triple:
  "triple w (good_at n {}) (on_mgr (ApplyAuthResult now i imsi msisdn apn reason))
     (\<lambda>r m H. case r of Inl _ \<Rightarrow> good_at n {} m H | Inr a \<Rightarrow> quiesced n (s_ID a) m H)"
proof (rule triple_mgr)
  fix m H assume g: "good_at n {} m H"
  let ?r = "ApplyAuthResult now i imsi msisdn apn reason m"
  have g': "good_at n {} (snd ?r) H" using good_at_calm [OF g, of "OpAuthResult now i imsi msisdn apn reason"] by simp
  from method_table(7) [OF good_at_mgr [OF g], of now i imsi msisdn apn reason]
  show "case fst ?r of Inl _ \<Rightarrow> good_at n {} (snd ?r) H | Inr a \<Rightarrow> quiesced n (s_ID a) (snd ?r) H"
  proof (cases rule: spec_transition_cases)
    case (moved s)
    with g' table_ID [OF good_at_mgr [OF g'] moved(3)] show ?thesis by (simp add: quiesced_def state_of_def)
  qed (use g' in simp_all)
qed

lemma activate_triple:
  assumes "env_ok w"
  shows "triple w (good_at n {}) (activateAuthorizedSession w x auth) (outcome n)"
proof -
  have take: "triple w (ready n p) (do { t \<leftarrow> take_pgw_result w p res; case t of Inl out \<Rightarrow> ret out | Inr q \<Rightarrow> activate_bound w q })
      (outcome n)" for p res
    by (rule triple_bind [OF take_triple], rule triple_ex_eq) (simp add: activate_bound_triple [OF assms])
  have request: "triple w (good_at n {}) (do { p \<leftarrow> request_pgw w y; case p of Inl out \<Rightarrow> ret out | Inr (pending, res) \<Rightarrow>
      do { t \<leftarrow> take_pgw_result w pending res; case t of Inl out \<Rightarrow> ret out | Inr q \<Rightarrow> activate_bound w q } }) (outcome n)" for y
    by (rule triple_bind_sum [OF request_triple [OF assms]])
      (auto intro: triple_ret refused_outcome take simp del: not_None_eq)
  show ?thesis unfolding activateAuthorizedSession_def
    apply (rule triple_bind_sum [OF authorized_triple])
     apply (rule triple_ret, simp add: outcome_def)
    apply (rule triple_bind_sum [OF triple_pre [OF allocate_triple [OF assms]]])
      apply simp
     apply (rule triple_ret, simp add: refused_outcome del: not_None_eq)
    apply (simp add: request)
    done
qed

section \<open>Attach\<close>

lemma create_triple:
  assumes "Suc n < 2 ^ 64"
  shows "triple w (good_at n {}) (on_mgr (Create now ci)) (\<lambda>x m H. quiesced (Suc n) (s_ID x) m H)"
proof (rule triple_mgr)
  fix m H assume g: "good_at n {} m H"
  have le: "unat (m_next m) \<le> n" using g by (simp add: good_at_def inv_at_def)
  have ok: "m_next m \<noteq> -1"
  proof
    assume "m_next m = -1"
    then have "unat (m_next m) = 2 ^ 64 - 1" by (simp add: unsigned_minus_1_eq_mask mask_eq_exp_minus_1)
    with le assms show False by simp
  qed
  let ?m = "snd (Create now ci m)" and ?i = "session_id now (m_next m + 1)"
  have T: "table_of ?m = (table_of m)(?i \<mapsto> new_session now (m_next m + 1) ci)"
    using good_at_mgr [OF g] by (rule Create_refines)
  have fresh: "table_of m ?i = None"
    using fresh_id [OF mgr_invD(1) [OF good_at_mgr [OF g]] ok] by (simp add: table_of_def)
  have "active_ids (table_of ?m) = active_ids (table_of m)"
    using fresh by (auto simp: T active_ids_def new_session_def)
  moreover have "inv_at (Suc n) ?m"
    using inv_at_exec [of n m "OpCreate now ci"] g ok by (simp add: good_at_def creates_def split_beta)
  moreover have "s_ID (fst (Create now ci m)) = ?i" by (simp add: Create_place new_session_def)
  ultimately show "quiesced (Suc n) (s_ID (fst (Create now ci m))) ?m H"
    using g by (simp add: quiesced_def good_at_def state_of_def T new_session_def)
qed

definition distinct_from :: "string option \<Rightarrow> manager \<Rightarrow> bool" where
  \<comment> \<open>the session of the request itself, when there is one, is not active\<close>
  "distinct_from own m \<longleftrightarrow> (case own of None \<Rightarrow> True | Some i \<Rightarrow> state_of m i \<noteq> Some Active)"

lemma reuse_served:
  assumes "s \<in> set (spec_all P ord (table_of m))" "\<not> shouldReplaceExisting cfg s req" "mgr_inv m"
  shows "served (responseFromSession s) m"
proof -
  from assms(1) obtain i a where "table_of m i = Some a" "s = clone a" by (auto simp: mem_spec_all)
  with assms(2) table_ID [OF assms(3), of i a] show ?thesis
    by (auto simp: served_def shouldReplaceExisting_def responseFromSession_def)
qed

lemma spec_first_mem: "spec_first P ord T = Some s \<Longrightarrow> s \<in> set (spec_all P ord T)"
  by (auto simp: spec_first_def split: list.splits)

lemma find_existing_triple:
  "triple w P (findAttachExisting w' imsi mac apn)
     (\<lambda>r m H. P m H \<and> (\<forall>s. r = Some s \<longrightarrow> (\<exists>Q ord. s \<in> set (spec_all Q ord (table_of m)))))"
proof (rule tripleI)
  fix s assume P: "P (sv_mgr s) (held w s)"
  have frame: "snd (run_state (findAttachExisting w' imsi mac apn) s) = s"
    by (simp add: findAttachExisting_def walk_mgr_def)
  have "\<exists>Q ord. x \<in> set (spec_all Q ord (table_of (sv_mgr s)))"
    if "fst (run_state (findAttachExisting w' imsi mac apn) s) = Some x" for x
  proof -
    from that obtain Q ord where "spec_first Q ord (table_of (sv_mgr s)) = Some x"
      by (auto simp: findAttachExisting_def walk_mgr_def FindAnyBySubscriber_def findBySubscriber_def
          walk_first_refines split: option.splits if_splits)
    then show ?thesis by (blast intro: spec_first_mem)
  qed
  with P show "P (sv_mgr (snd (run_state (findAttachExisting w' imsi mac apn) s)))
      (held w (snd (run_state (findAttachExisting w' imsi mac apn) s)))
    \<and> (\<forall>x. fst (run_state (findAttachExisting w' imsi mac apn) s) = Some x \<longrightarrow>
        (\<exists>Q ord. x \<in> set (spec_all Q ord (table_of (sv_mgr (snd (run_state (findAttachExisting w' imsi mac apn) s)))))))"
    by (simp add: frame)
qed

lemma handle_existing_triple:
  assumes "\<And>m H. P m H \<Longrightarrow> good_at n {} m H"
  shows "triple w (\<lambda>m H. P m H \<and> (\<forall>s. eo = Some s \<longrightarrow> (\<exists>Q ord. s \<in> set (spec_all Q ord (table_of m)))))
     (handleExistingBeforeAttach w' eo req)
     (\<lambda>h m H. case h of Inr _ \<Rightarrow> good_at n {} m H
        | Inl out \<Rightarrow> good_at n {} m H \<and> (snd out = None \<longrightarrow> (\<exists>r. fst out = Some r \<and> served r m \<and> P m H)))"
proof -
  have reuse: "triple w (\<lambda>m H. P m H \<and> (\<exists>Q ord. s \<in> set (spec_all Q ord (table_of m))))
      (do { _ \<leftarrow> count reused_counts; ret (Inl (Some (responseFromSession s), None)) })
     (\<lambda>h m H. case h of Inr _ \<Rightarrow> good_at n {} m H
        | Inl out \<Rightarrow> good_at n {} m H \<and> (snd out = None \<longrightarrow> (\<exists>r. fst out = Some r \<and> served r m \<and> P m H)))"
    if "\<not> shouldReplaceExisting (w_cfg w') s req" for s
    by (rule triple_bind [OF triple_keeping triple_ret])
      (auto intro: keeps_rules reuse_served [OF _ that] good_at_mgr assms)
  have replace: "triple w (\<lambda>m H. P m H \<and> (\<exists>Q ord. s \<in> set (spec_all Q ord (table_of m))))
      (do { _ \<leftarrow> count replaced_counts; e \<leftarrow> detachExistingBeforeAttach w' s;
            ret (case e of Some e \<Rightarrow> Inl (None, Some e) | None \<Rightarrow> Inr ()) })
     (\<lambda>h m H. case h of Inr _ \<Rightarrow> good_at n {} m H
        | Inl out \<Rightarrow> good_at n {} m H \<and> (snd out = None \<longrightarrow> (\<exists>r. fst out = Some r \<and> served r m \<and> P m H)))" for s
    by (rule triple_bind [OF triple_keeping triple_bind [OF triple_pre [OF triple_keeping [OF keeping_existing(1)]] triple_ret]])
      (auto intro: keeps_rules assms split: option.splits)
  show ?thesis unfolding handleExistingBeforeAttach_def
    apply (intro triple_option triple_if)
      apply (rule triple_ret, simp add: assms)
     apply (rule triple_ret, simp add: assms)
    apply (rule triple_bind [OF triple_keeping triple_if])
      apply (rule keeps_rules)
     apply (rule triple_pre [OF reuse], assumption, simp)
    apply (rule triple_pre [OF replace], simp)
    done
qed

lemma discard_triple:
  "triple w (\<lambda>m H. quiesced n (s_ID x) m H \<and> served r m) (discardPreAuthSession w' x) (\<lambda>_ m H. good_at n {} m H \<and> served r m)"
proof -
  let ?I = "\<lambda>m H. good_at n {} m H \<and> served r m \<and> rs_SessionID r \<noteq> s_ID x"
  have mark: "triple w (\<lambda>m H. quiesced n (s_ID x) m H \<and> served r m) (on_mgr (MarkTerminating now (s_ID x)))
      (\<lambda>t m H. ?I m H \<and> (\<forall>y. t = Inr y \<longrightarrow> s_ID y = s_ID x))" for now
  proof (rule triple_mgr)
    fix m H assume a: "quiesced n (s_ID x) m H \<and> served r m"
    let ?r = "MarkTerminating now (s_ID x) m"
    have ne: "rs_SessionID r \<noteq> s_ID x" using a by (auto simp: quiesced_def served_def state_of_def)
    have p: "parting n {} (s_ID x) m H" "s_ID x \<notin> H" "good_at n {} m H"
      using a quiesced_not_held [of n "s_ID x" m H] by (simp_all add: parting_def quiesced_def)
    have g: "good_at n {} (snd ?r) H"
      using terminating_spec [OF p(1), of now] p(2) by (auto split: sum.splits intro: good_at_close)
    from method_table(4) [OF good_at_mgr [OF p(3)], of now "s_ID x"]
    have "table_of (snd ?r) (rs_SessionID r) = table_of m (rs_SessionID r) \<and> (\<forall>y. fst ?r = Inr y \<longrightarrow> s_ID y = s_ID x)"
    proof (cases rule: spec_transition_cases)
      case (moved s)
      with ne table_ID [OF good_at_mgr [OF g] moved(3)] show ?thesis by simp
    qed simp_all
    with a g ne served_cong [of "snd ?r" r m] show "?I (snd ?r) H \<and> (\<forall>y. fst ?r = Inr y \<longrightarrow> s_ID y = s_ID x)"
      by blast
  qed
  have del: "triple w (\<lambda>m H. ?I m H \<and> i = s_ID x) (on_mgr (Delete now i)) (\<lambda>_ m H. good_at n {} m H \<and> served r m)" for now i
  proof (rule triple_mgr)
    fix m H assume a: "?I m H \<and> i = s_ID x"
    have "good_at n {} (snd (Delete now i m)) H" using good_at_calm [of n "{}" m H "OpDelete now i"] a by simp
    moreover have "table_of (snd (Delete now i m)) (rs_SessionID r) = table_of m (rs_SessionID r)"
      using a good_at_mgr [of n "{}" m H] by (simp add: Delete_table spec_delete_def split: option.split)
    ultimately show "good_at n {} (snd (Delete now i m)) H \<and> served r (snd (Delete now i m))"
      using a served_cong [of "snd (Delete now i m)" r m] by blast
  qed
  show ?thesis unfolding discardPreAuthSession_def
    by (rule triple_bind_sum [OF mark]; (rule triple_ret | rule triple_bind [OF triple_pre [OF del] triple_ret])) auto
qed

lemma resolve_triple:
  "triple w (\<lambda>m H. good_at n {} m H \<and> distinct_from (map_option s_ID own) m) (resolve_existing w' req imsi apn rec own)
     (\<lambda>x m H. case x of Inr _ \<Rightarrow> good_at n {} m H | Inl out \<Rightarrow> outcome n out m H)"
proof -
  let ?P = "\<lambda>m H. good_at n {} m H \<and> distinct_from (map_option s_ID own) m"
  have own: "triple w (\<lambda>m H. served r m \<and> ?P m H) (case own of None \<Rightarrow> ret () | Some s \<Rightarrow> discardPreAuthSession w' s)
      (\<lambda>_ m H. good_at n {} m H \<and> served r m)" for r
    by (rule triple_option, rule triple_ret, simp, rule triple_pre [OF discard_triple])
      (simp add: distinct_from_def quiesced_def)
  have keep: "triple w (\<lambda>m H. good_at n {} m H \<and> served r m) (do {
        _ \<leftarrow> (if rec \<noteq> None then completeRecovery w' e (Some r) rec else ret ()); ret (Inl (Some r, None)) })
      (\<lambda>x m H. case x of Inr _ \<Rightarrow> good_at n {} m H | Inl out \<Rightarrow> outcome n out m H)" for e r
    by (rule triple_bind [OF triple_keeping triple_ret], intro keeping_shape keeps_rules) (simp add: outcome_def)
  show ?thesis unfolding resolve_existing_def
  proof (rule triple_bind [OF find_existing_triple triple_bind_sum [OF handle_existing_triple [where n = n]]], goal_cases)
    case (2 existing out)
    show ?case
    proof (cases "\<exists>r. out = (Some r, None)")
      case True
      then obtain r where o: "out = (Some r, None)" by blast
      show ?thesis unfolding o prod.case option.case sum.case
        by (rule triple_pre [OF triple_bind [OF own keep]]) simp
    next
      case False
      then show ?thesis by (cases out; cases "snd out") (auto intro: triple_ret simp: outcome_def triple_def)
    qed
  qed (auto intro: triple_ret)
qed

lemma resolve_then:
  assumes "triple w (good_at n {}) f (outcome (Suc n))"
  shows "triple w (good_at n {}) (do { x \<leftarrow> resolve_existing w' req imsi apn rec None;
      (case x of Inl out \<Rightarrow> ret out | Inr _ \<Rightarrow> f) }) (outcome (Suc n))"
  by (rule triple_bind_sum [OF triple_pre [OF resolve_triple]])
    (simp add: distinct_from_def, simp_all only: sum.case, rule triple_ret, erule outcome_mono, simp, rule assms)

lemma finish_attach_triple:
  assumes "env_ok w"
  shows "triple w (good_at n {}) (finish_attach w req auth x rec) (outcome n)"
proof -
  have "triple w (outcome n out) (do {
      _ \<leftarrow> (if snd out = None \<and> rec \<noteq> None then completeRecovery w (Some x) (fst out) rec else ret ());
      _ \<leftarrow> (case out of (Some resp, None) \<Rightarrow> updateAuthCacheFromAccessAccept w (rs_SessionID resp) (f resp) | _ \<Rightarrow> ret ());
      ret out }) (outcome n)" for out f
    by (rule triple_bind [OF triple_keeping triple_bind [OF triple_keeping triple_ret]]; (intro keeping_shape keeps_rules)?)
  then show ?thesis unfolding finish_attach_def by (rule triple_bind [OF activate_triple [OF assms]])
qed

lemma auth_pending_triple:
  "triple w (quiesced n i) (on_mgr (MarkAuthPending now i)) (\<lambda>_. quiesced n i)"
proof (rule triple_mgr)
  fix m H assume q: "quiesced n i m H"
  have "good_at n {} (snd (MarkAuthPending now i m)) H"
    using good_at_calm [of n "{}" m H "OpAuthPending now i"] q by (simp add: quiesced_def)
  with q show "quiesced n i (snd (MarkAuthPending now i m)) H"
    by (auto simp: quiesced_def good_at_def active_state [symmetric])
qed

lemma attach_authorized_triple:
  assumes "env_ok w" "Suc n < 2 ^ 64"
  shows "triple w (good_at n {}) (AttachAuthorized w req ao) (outcome (Suc n))"
proof -
  have fresh: "triple w (good_at n {}) (do {
      x \<leftarrow> on_mgr (Create (w_now w) ci);
      p \<leftarrow> on_mgr (MarkAuthPending (w_now w) (s_ID x));
      (case p of Inl e \<Rightarrow> ret (None, Some (SessErr e)) | Inr _ \<Rightarrow> finish_attach w rq auth x rec) }) (outcome (Suc n))" for ci rq auth rec
    by (rule triple_bind [OF create_triple [OF assms(2)] triple_bind_sum [OF auth_pending_triple]])
      (auto intro: triple_ret triple_pre [OF finish_attach_triple [OF assms(1)]] simp: quiesced_def outcome_def)
  have out: "good_at n {} m H \<Longrightarrow> outcome (Suc n) (None, Some e) m H" for m H e
    by (auto simp: outcome_def intro: good_at_mono)
  show ?thesis unfolding AttachAuthorized_def
    by (intro triple_Let triple_if triple_bind [OF triple_keeping triple_option] triple_bind [OF triple_keeping resolve_then [OF fresh]]
        triple_ret out keeps_rules)
qed

lemma failed_triple:
  "triple w (quiesced n i) (on_mgr (MarkFailed now i reason)) (\<lambda>_. good_at n {})"
proof (rule triple_mgr)
  fix m H assume "quiesced n i m H"
  then have "good_at n (insert i {}) m H" "i \<notin> H" using quiesced_not_held [of n i m H] by simp_all
  then show "good_at n {} (snd (MarkFailed now i reason m)) H"
    using leaving_methods(2) [of n "{i}" m H i now reason] failed_inactive [of n "{i}" m H i now reason]
    by (intro good_at_close [of n i "{}"]) simp_all
qed

lemma quiesced_good: "quiesced n i m H \<Longrightarrow> good_at n {} m H"
  by (simp add: quiesced_def)

lemma relock_triple:
  "triple w (quiesced n (s_ID x)) (relock w' req auth x rec)
     (\<lambda>r m H. case r of Inl out \<Rightarrow> outcome n out m H | Inr _ \<Rightarrow> good_at n {} m H)"
  unfolding relock_def
  by (intro triple_Let triple_if triple_bind [OF triple_keeping triple_option] triple_pre [OF resolve_triple] triple_ret keeps_rules)
    (auto simp: quiesced_def outcome_def distinct_from_def)

lemma attach_triple:
  assumes "env_ok w" "Suc n < 2 ^ 64"
  shows "triple w (good_at n {}) (Attach w req) (outcome (Suc n))"
proof -
  have aaa_error: "triple w (quiesced (Suc n) i) (do { r \<leftarrow> on_mgr (MarkFailed (w_now w) i reason);
      ret (case r of Inl me \<Rightarrow> (None, Some (Joined [e, SessErr me])) | Inr failed \<Rightarrow> (Some (responseFromSession failed), Some e)) })
      (outcome (Suc n))" for i reason e
    by (rule triple_bind [OF failed_triple triple_ret]) (auto simp: outcome_def split: sum.splits)
  have lock: "triple w (quiesced (Suc n) (s_ID x)) (do { k \<leftarrow> relock w rq auth x rec;
      (case k of Inl out \<Rightarrow> ret out | Inr _ \<Rightarrow> finish_attach w rq auth x rec) }) (outcome (Suc n))" for x rq auth rec
    by (rule triple_bind_sum [OF relock_triple]; simp only: sum.case)
      (rule triple_ret, assumption, rule finish_attach_triple [OF assms(1)])
  have out: "good_at n {} m H \<Longrightarrow> outcome (Suc n) (None, Some e) m H"
      "quiesced (Suc n) i m H \<Longrightarrow> outcome (Suc n) (None, Some e) m H" for m H e i
    by (auto simp: outcome_def quiesced_def intro: good_at_mono)
  have fresh: "triple w (good_at n {}) (do {
      x \<leftarrow> on_mgr (Create (w_now w) ci);
      p \<leftarrow> on_mgr (MarkAuthPending (w_now w) (s_ID x));
      (case p of Inl e \<Rightarrow> ret (None, Some (SessErr e)) | Inr _ \<Rightarrow> do {
         a \<leftarrow> call (EvAuthenticate ar) g;
         (case a of Inl (au, e) \<Rightarrow> do { r \<leftarrow> on_mgr (MarkFailed (w_now w) (s_ID x) (fr au e));
              ret (case r of Inl me \<Rightarrow> (None, Some (Joined [e, SessErr me])) | Inr failed \<Rightarrow> (Some (responseFromSession failed), Some e)) }
          | Inr auth \<Rightarrow> do { k \<leftarrow> relock w rq auth x rec;
              (case k of Inl out \<Rightarrow> ret out | Inr _ \<Rightarrow> finish_attach w rq auth x rec) }) }) }) (outcome (Suc n))"
    for ci ar g fr rq rec
    by (intro triple_bind [OF create_triple [OF assms(2)]] triple_bind_sum [OF auth_pending_triple] triple_prod
        triple_bind_sum [OF triple_keeping] aaa_error lock triple_ret out(2) keeps_rules)
  show ?thesis unfolding Attach_def
    by (intro triple_Let triple_bind [OF triple_keeping triple_option] triple_bind [OF triple_keeping resolve_then [OF fresh]]
        triple_ret out(1) keeps_rules)
qed

section \<open>The handlers that attach\<close>

lemma table_key: "mgr_inv m \<Longrightarrow> table_of m i = Some a \<Longrightarrow> i \<noteq> []"
  using ids_okD(4) [OF mgr_invD(1)] by (fastforce simp: table_of_def session_id_def)

definition eap_outcome :: "nat \<Rightarrow> eap_response option \<times> svc_err option \<Rightarrow> assertion" where
  \<comment> \<open>without an error the exchange reports a challenge, or success for a served session\<close>
  "eap_outcome n out m H \<longleftrightarrow> good_at n {} m H \<and> (snd out = None \<longrightarrow> (\<exists>r. fst out = Some r \<and>
     (ep_State r = EAPStateChallenge \<or> ep_State r = EAPStateSuccess \<and>
     (\<exists>a. table_of m (ep_SessionID r) = Some a \<and> s_State a = Active \<and> clone_ip (s_SubscriberIP a) \<noteq> None
        \<and> ep_SubscriberIP r = ip_string_or_empty (clone_ip (s_SubscriberIP a)) \<and> ep_IMSI r = s_IMSI a))))"

lemma eap_triple:
  assumes "env_ok w" "Suc n < 2 ^ 64"
  shows "triple w (good_at n {}) (ExchangeEAP w req) (eap_outcome (Suc n))"
proof -
  have other: "good_at n {} m H \<Longrightarrow> snd out \<noteq> None \<or> (\<exists>r. fst out = Some r \<and> ep_State r = EAPStateChallenge) \<Longrightarrow> eap_outcome (Suc n) out m H" for out m H
    by (auto simp: eap_outcome_def intro: good_at_mono)
  have final: "eap_outcome (Suc n) (case out of (_, Some e) \<Rightarrow> (None, Some e)
      | (Some r, None) \<Rightarrow> (Some \<lparr> ep_SessionID = coalesce [rs_SessionID r, er_SessionID res],
           ep_State = EAPStateSuccess, ep_IMSI = rs_IMSI r, ep_SubscriberIP = rs_SubscriberIP r, ep_APN = rs_APN r,
           ep_Reason = rs_Reason r, ep_EAPPayload = er_EAPPayload res, ep_MSK = er_MSK res \<rparr>, None)
      | (None, None) \<Rightarrow> (None, None)) m H" if "outcome (Suc n) out m H" for out res m H
  proof (cases "\<exists>r. out = (Some r, None)")
    case True
    then obtain r where out: "out = (Some r, None)" by blast
    from that out obtain a where g: "good_at (Suc n) {} m H" and a: "table_of m (rs_SessionID r) = Some a" "s_State a = Active"
      "clone_ip (s_SubscriberIP a) \<noteq> None" "r = responseFromSession (clone a)" by (auto simp: outcome_def served_def)
    have "rs_IMSI r = s_IMSI a" "rs_SubscriberIP r = ip_string_or_empty (clone_ip (s_SubscriberIP a))"
      unfolding a(4) by (simp_all add: responseFromSession_def)
    with out g a(1-3) table_key [OF good_at_mgr [OF g] a(1)] show ?thesis by (simp add: eap_outcome_def)
  qed (use that in \<open>auto simp: outcome_def eap_outcome_def split: prod.splits option.splits\<close>)
  have attach: "triple w (good_at n {}) (do { out \<leftarrow> AttachAuthorized w rq ao; ret (case out of (_, Some e) \<Rightarrow> (None, Some e)
      | (Some r, None) \<Rightarrow> (Some \<lparr> ep_SessionID = coalesce [rs_SessionID r, er_SessionID res],
           ep_State = EAPStateSuccess, ep_IMSI = rs_IMSI r, ep_SubscriberIP = rs_SubscriberIP r, ep_APN = rs_APN r,
           ep_Reason = rs_Reason r, ep_EAPPayload = er_EAPPayload res, ep_MSK = er_MSK res \<rparr>, None)
      | (None, None) \<Rightarrow> (None, None)) }) (eap_outcome (Suc n))" for rq ao res
    by (rule triple_bind [OF attach_authorized_triple [OF assms]], rule triple_ret, erule final)
  show ?thesis unfolding ExchangeEAP_def
    by (intro triple_Let triple_bind_sum [OF triple_keeping] triple_prod triple_option triple_if
        attach triple_ret other keeps_rules)
      (auto simp: eap_reply_def)
qed

lemma attach_good:
  assumes "env_ok w" "Suc n < 2 ^ 64"
  shows "triple w (good_at n {}) (AttachAuthorized w req ao) (\<lambda>_. good_at (Suc n) {})"
  by (rule triple_post [OF attach_authorized_triple [OF assms]]) (simp add: outcome_def)

lemma recover_triple:
  assumes "env_ok w" "Suc n < 2 ^ 64"
  shows "triple w (good_at n {}) (recoverFromAuthCache w entry aq reason) (\<lambda>_. good_at (Suc n) {})"
  unfolding recoverFromAuthCache_def
proof (rule triple_bind [OF triple_keeping triple_if], goal_cases)
  case (3 go)
  show ?case by (rule triple_bind [OF attach_good [OF assms] triple_keeping]) (intro keeping_shape keeps_rules)
qed (rule keeps_rules, rule triple_ret, auto intro: good_at_mono)

text \<open>A handler that may create one session.\<close>

definition once :: "env \<Rightarrow> nat \<Rightarrow> 'a act \<Rightarrow> bool" where
  "once w n m \<longleftrightarrow> triple w (good_at n {}) m (\<lambda>_. good_at (Suc n) {})"

lemma once_keeping: "keeping w (good_at n {}) m \<Longrightarrow> once w n m"
  unfolding once_def by (rule triple_post [OF triple_keeping]) (auto intro: good_at_mono)

lemma once_after: "keeping w (good_at n {}) m \<Longrightarrow> (\<And>a. once w n (f a)) \<Longrightarrow> once w n (State_Monad.bind m f)"
  unfolding once_def by (rule triple_bind [OF triple_keeping])

lemma once_before: "once w n m \<Longrightarrow> (\<And>a. keeping w (good_at (Suc n) {}) (f a)) \<Longrightarrow> once w n (State_Monad.bind m f)"
  unfolding once_def by (rule triple_bind [OF _ triple_keeping])

lemma once_if: "once w n m \<Longrightarrow> once w n k \<Longrightarrow> once w n (if b then m else k)"
  by simp

lemma once_option: "once w n m \<Longrightarrow> (\<And>y. once w n (f y)) \<Longrightarrow> once w n (case x of None \<Rightarrow> m | Some y \<Rightarrow> f y)"
  by (cases x) simp_all

lemma once_accounting:
  assumes "env_ok w" "Suc n < 2 ^ 64"
  shows "once w n (HandleAccounting w aq)"
proof -
  have recover: "once w n (do { out \<leftarrow> recoverFromAuthCache w entry x reason; ret (snd out) })" for entry x reason
    using recover_triple [OF assms] by (intro once_before keeping_ret) (simp add: once_def)
  have quiet: "once w n (do { _ \<leftarrow> (if b then disconnectAccountingClient w x else ret ()); ret None })" for b x
    by (intro once_keeping keeping_shape keeps_rules)
  have start: "once w n (handleAccountingStartWithoutSession w x)" for x
    unfolding handleAccountingStartWithoutSession_def Let_def
    by (rule once_after, rule keeps_rules, rule once_after, intro keeping_shape keeps_rules)
      (intro once_option once_if recover quiet)
  have stop: "once w n (accounting_stop w x so)" for x so by (intro once_keeping keeps_rules)
  have none: "once w n (ret a)" for a :: "svc_err option" by (intro once_keeping keeping_ret)
  have applied: "once w n (do { _ \<leftarrow> on_mgr (ApplyAccounting now i u); ret None })"
      "once w n (do { _ \<leftarrow> on_mgr (ApplyAccounting now i u); _ \<leftarrow> updateAuthCacheFromAccounting w x so b; ret None })" for now i u x so b
    by (intro once_keeping keeping_shape keeps_rules)+
  show ?thesis unfolding HandleAccounting_def Let_def
  proof (rule once_after, rule keeps_rules)
    fix so
    show "once w n (case aq_StatusType x of AccountingStart \<Rightarrow> (case so of None \<Rightarrow> handleAccountingStartWithoutSession w x
        | Some sess \<Rightarrow> do { _ \<leftarrow> on_mgr (ApplyAccounting (w_now w) (s_ID sess) (acct_update_of x True []));
             _ \<leftarrow> updateAuthCacheFromAccounting w x so False; ret None })
      | AccountingStop \<Rightarrow> accounting_stop w x so
      | AccountingInterimUpdate \<Rightarrow> (case so of None \<Rightarrow> ret None
         | Some sess \<Rightarrow> do { _ \<leftarrow> on_mgr (ApplyAccounting (w_now w) (s_ID sess) (acct_update_of x True [])); ret None })
      | _ \<Rightarrow> ret None)" for x
      by (cases "aq_StatusType x"; cases so) (simp_all add: start stop none applied)
  qed
qed

lemma once_drop: "once w n m \<Longrightarrow> once w n (drop_result m)"
  unfolding drop_result_def by (intro once_before keeping_ret)

lemma once_call:
  assumes "env_ok w" "Suc n < 2 ^ 64"
  shows "once w n (exec_call w c)"
proof -
  have authorized: "once w n (AttachAuthorized w rq ao)" for rq ao
    using attach_good [OF assms] by (simp add: once_def)
  have attach: "once w n (Attach w r)" for r
    unfolding once_def by (rule triple_post [OF attach_triple [OF assms]]) (simp add: outcome_def)
  have eap: "once w n (ExchangeEAP w r)" for r
    unfolding once_def by (rule triple_post [OF eap_triple [OF assms]]) (simp add: eap_outcome_def)
  have "once w n (do { _ \<leftarrow> recoverFromAuthCache w e x r; ret () })" for e x r
    using recover_triple [OF assms] by (intro once_before keeping_ret) (simp add: once_def)
  then have dhcp: "once w n (HandleDHCPAuthCacheRecovery w mac)" for mac
    unfolding HandleDHCPAuthCacheRecovery_def
    by (rule once_after [OF keeping_calls(3) once_option [OF once_keeping [OF keeping_ret]]])
  have tombstone: "once w n (RecoverFromTombstone w t)" for t
    unfolding RecoverFromTombstone_def by (intro once_option once_if authorized once_keeping keeping_ret)
  show ?thesis
    by (cases c) (simp_all add: once_drop once_accounting [OF assms] authorized attach eap dhcp tombstone once_keeping keeps_rules)
qed

section \<open>Sequences of calls\<close>

fun run_calls :: "env \<Rightarrow> svc_call list \<Rightarrow> svc \<Rightarrow> svc" where
  "run_calls w [] s = s"
| "run_calls w (c # cs) s = run_calls w cs (snd (run_state (exec_call w c) s))"

lemma run_calls_append: "run_calls w (cs @ ds) s = run_calls w ds (run_calls w cs s)"
  by (induction cs arbitrary: s) simp_all

lemma run_calls_good:
  assumes "env_ok w" "length cs < 2 ^ 64"
  shows "good_at (length cs) {} (sv_mgr (run_calls w cs svc_new)) (held w (run_calls w cs svc_new))"
  using assms(2)
proof (induction cs rule: rev_induct)
  case Nil
  have "table_of new_manager = Map.empty" by (simp add: table_of_def new_manager_def fun_eq_iff)
  moreover have "legal_calls []" by (simp add: legal_calls_def)
  ultimately show ?case
    by (auto simp: good_at_def inv_at_def svc_new_def pgw_held_def unique_active_def active_ids_def new_manager_def
        intro!: exI [of _ "[]"])
next
  case (snoc c cs)
  then show ?case
    using tripleD [OF once_call [unfolded once_def, OF assms(1), of "length cs" c]]
    by (simp add: run_calls_append)
qed

end
