(* ===== verification/LifeLive.thy ===== *)
theory LifeLive
  imports LifeRun
begin

text \<open>
  Attaching succeeds. When the parts the service calls cooperate and no session of the subscriber
  is in the table, an attach returns a response, adds one active session, and leaves every other
  session as it was.
\<close>

definition full_result :: "pgw_result \<Rightarrow> bool" where
  "full_result res \<longleftrightarrow> clone_ip (pr_SubscriberIP res) \<noteq> None \<and> pr_GTPCTEID res \<noteq> 0 \<and> pr_LocalGTPUTEID res \<noteq> 0
     \<and> pr_RemoteGTPUTEID res \<noteq> 0"

definition tunnelled :: "session \<Rightarrow> bool" where
  "tunnelled x \<longleftrightarrow> s_SubscriberIP x \<noteq> None \<and> s_GTPCTEID x \<noteq> 0 \<and> s_LocalGTPUTEID x \<noteq> 0 \<and> s_RemoteGTPUTEID x \<noteq> 0"

definition cooperative :: "env \<Rightarrow> bool" where
  \<comment> \<open>no call through an interface fails, and the PGW assigns an address and tunnel endpoints\<close>
  "cooperative w \<longleftrightarrow> w_gtp w \<and> (\<forall>h k. w_lock w h k = None) \<and> (\<forall>h. w_ctx w h = None)
     \<and> (\<forall>h s. \<exists>res. w_create w h s = Inr (Some res) \<and> full_result res)
     \<and> cf_AccessInterface (w_cfg w) \<noteq> [] \<and> (\<forall>h. rn_NewHandle (w_netlink w h) = None)
     \<and> (\<forall>h n. \<exists>ix. rn_LinkByName (w_netlink w h) n = Inr ix)
     \<and> (\<forall>h r. rn_RouteReplace (w_netlink w h) r = None)
     \<and> (\<forall>h s. w_user_add w h s = None) \<and> (\<forall>h s. w_access_add w h s = None)"

definition strangers :: "string \<Rightarrow> table \<Rightarrow> bool" where
  \<comment> \<open>every session of the table belongs to another IMSI\<close>
  "strangers imsi T \<longleftrightarrow> imsi \<noteq> [] \<and> (\<forall>i a. T i = Some a \<longrightarrow> s_IMSI a \<noteq> [] \<and> s_IMSI a \<noteq> imsi)"

definition slot :: "string \<Rightarrow> table \<Rightarrow> string \<Rightarrow> Session.state \<Rightarrow> string \<Rightarrow> session \<Rightarrow> assertion" where
  \<comment> \<open>the table is \<open>T\<close> and one more session on the interface \<open>F\<close>, \<open>x\<close> as the code holds it\<close>
  "slot F T i st imsi x m H \<longleftrightarrow> mgr_inv m \<and> T i = None \<and> (\<exists>a. x = clone a \<and> table_of m = T(i \<mapsto> a) \<and> s_ID a = i
     \<and> s_State a = st \<and> s_IMSI a = imsi \<and> s_AccessInterface a = F
     \<and> (st \<in> {Authorized, PGWPending, Active} \<longrightarrow> s_Authorized a))"

lemma slot_ID: "slot F T i st imsi x m H \<Longrightarrow> s_ID x = i \<and> s_IMSI x = imsi"
  by (auto simp: slot_def)

lemma slot_transition:
  assumes "slot F T i st imsi x m H" "mgr_inv m'" "spec_transition now i nxt f (table_of m) = (r, table_of m')" "validTransition st nxt"
    and "\<And>a. s_ID (f a) = s_ID a \<and> s_AccessInterface (f a) = s_AccessInterface a" "\<And>a. s_IMSI a = imsi \<Longrightarrow> s_IMSI (f a) = imsi'"
    and "\<And>a. st \<in> {Authorized, PGWPending, Active} \<longrightarrow> s_Authorized a \<Longrightarrow> nxt \<in> {Authorized, PGWPending, Active} \<Longrightarrow> s_Authorized (f a)"
  shows "\<exists>y. r = Inr y \<and> slot F T i nxt imsi' y m' H \<and> (\<exists>a. x = clone a \<and> y = clone ((f a)\<lparr> s_State := nxt, s_UpdatedAt := now \<rparr>))"
proof -
  from assms(1) obtain a where a: "T i = None" "x = clone a" "table_of m = T(i \<mapsto> a)" "s_ID a = i" "s_State a = st" "s_IMSI a = imsi"
    "s_AccessInterface a = F" "st \<in> {Authorized, PGWPending, Active} \<longrightarrow> s_Authorized a"
    by (auto simp: slot_def)
  let ?b = "(f a)\<lparr> s_State := nxt, s_UpdatedAt := now \<rparr>"
  have "r = Inr (clone ?b)" "table_of m' = T(i \<mapsto> ?b)"
    using assms(3,4) by (simp_all add: spec_transition_def a(3,5) Let_def)
  moreover have "slot F T i nxt imsi' (clone ?b) m' H" unfolding slot_def
    using assms(2,5) assms(6) [OF a(6)] assms(7) [OF a(8)] a(1,4,7) calculation(2) by (intro conjI exI [of _ ?b]) simp_all
  ultimately show ?thesis using a(2) by blast
qed

lemma slot_update:
  assumes "slot F T i st imsi x m H" "mgr_inv m'" "spec_update now i f (table_of m) = (r, table_of m')"
    and "\<And>a. s_ID (f a) = s_ID a \<and> s_IMSI (f a) = s_IMSI a \<and> s_State (f a) = s_State a
      \<and> s_AccessInterface (f a) = s_AccessInterface a \<and> s_Authorized (f a) = s_Authorized a"
  shows "\<exists>y. r = Inr y \<and> slot F T i st imsi y m' H \<and> (\<exists>a. x = clone a \<and> y = clone ((f a)\<lparr> s_UpdatedAt := now \<rparr>))"
proof -
  from assms(1) obtain a where a: "T i = None" "x = clone a" "table_of m = T(i \<mapsto> a)" "s_ID a = i" "s_State a = st" "s_IMSI a = imsi"
    "s_AccessInterface a = F" "st \<in> {Authorized, PGWPending, Active} \<longrightarrow> s_Authorized a"
    by (auto simp: slot_def)
  let ?b = "(f a)\<lparr> s_UpdatedAt := now \<rparr>"
  have "r = Inr (clone ?b)" "table_of m' = T(i \<mapsto> ?b)"
    using assms(3) by (simp_all add: spec_update_def a(3) Let_def)
  moreover have "slot F T i st imsi (clone ?b) m' H" unfolding slot_def
    using assms(2,4) a(1,4-8) calculation(2) by (intro conjI exI [of _ ?b]) simp_all
  ultimately show ?thesis using a(2) by blast
qed

lemma slot_mark:
  "triple w (slot F T i Pending imsi x) (on_mgr (MarkAuthPending now i)) (\<lambda>r m H. \<exists>y. r = Inr y \<and> slot F T i AuthPending imsi y m H)"
  "triple w (slot F T i Authorized imsi x) (on_mgr (MarkPGWPending now i)) (\<lambda>r m H. \<exists>y. r = Inr y \<and> slot F T i PGWPending imsi y m H)"
proof (rule_tac [!] triple_mgr)
  fix m H assume s: "slot F T i Pending imsi x m H"
  then have m: "mgr_inv m" by (simp add: slot_def)
  show "\<exists>y. fst (MarkAuthPending now i m) = Inr y \<and> slot F T i AuthPending imsi y (snd (MarkAuthPending now i m)) H"
    using op_inv [OF m, of "OpAuthPending now i"]
      slot_transition [OF s _ method_table(3) [OF m, of now i], where imsi' = imsi]
    by (auto simp: validTransition.simps)
next
  fix m H assume s: "slot F T i Authorized imsi x m H"
  then have m: "mgr_inv m" by (simp add: slot_def)
  show "\<exists>y. fst (MarkPGWPending now i m) = Inr y \<and> slot F T i PGWPending imsi y (snd (MarkPGWPending now i m)) H"
    using op_inv [OF m, of "OpPGWPending now i"]
      slot_transition [OF s _ method_table(1) [OF m, of now i], where imsi' = imsi]
    by (auto simp: validTransition.simps)
qed

lemma slot_active:
  assumes "tunnelled x"
  shows "triple w (slot F T i PGWPending imsi x) (on_mgr (MarkActive now i))
     (\<lambda>r m H. \<exists>y. r = Inr y \<and> tunnelled y \<and> slot F T i Active imsi y m H)"
proof (rule triple_mgr)
  fix m H assume s: "slot F T i PGWPending imsi x m H"
  then have m: "mgr_inv m" by (simp add: slot_def)
  show "\<exists>y. fst (MarkActive now i m) = Inr y \<and> tunnelled y \<and> slot F T i Active imsi y (snd (MarkActive now i m)) H"
    using op_inv [OF m, of "OpActive now i"] assms
      slot_transition [OF s _ method_table(2) [OF m, of now i], where imsi' = imsi]
    by (auto simp: validTransition.simps tunnelled_def)
qed

lemma slot_auth_result:
  "triple w (slot F T i AuthPending imsi x) (on_mgr (ApplyAuthResult now i imsi' msisdn apn reason))
     (\<lambda>r m H. \<exists>y. r = Inr y \<and> slot F T i Authorized (coalesce [imsi', imsi]) y m H)"
proof (rule triple_mgr)
  fix m H assume s: "slot F T i AuthPending imsi x m H"
  then have m: "mgr_inv m" by (simp add: slot_def)
  show "\<exists>y. fst (ApplyAuthResult now i imsi' msisdn apn reason m) = Inr y
      \<and> slot F T i Authorized (coalesce [imsi', imsi]) y (snd (ApplyAuthResult now i imsi' msisdn apn reason m)) H"
    using op_inv [OF m, of "OpAuthResult now i imsi' msisdn apn reason"]
      slot_transition [OF s _ method_table(7) [OF m, of now i imsi' msisdn apn reason], where imsi' = "coalesce [imsi', imsi]"]
    by (auto simp: validTransition.simps auth_result_fields_def)
qed

lemma slot_create:
  assumes "s_IMSI (new_session now 0 ci) = imsi" "s_AccessInterface (new_session now 0 ci) = F"
  shows "triple w (\<lambda>m H. mgr_inv m \<and> m_next m \<noteq> -1 \<and> table_of m = T) (on_mgr (Create now ci))
     (\<lambda>x m H. \<exists>i. slot F T i Pending imsi x m H)"
proof (rule triple_mgr, elim conjE)
  fix m H assume m: "mgr_inv m" "m_next m \<noteq> -1" "table_of m = T"
  let ?i = "session_id now (m_next m + 1)" and ?s = "new_session now (m_next m + 1) ci"
  have "T ?i = None" using fresh_id [OF mgr_invD(1) [OF m(1)] m(2)] m(3) by (auto simp: table_of_def)
  then have "slot F T ?i Pending imsi (clone ?s) (snd (Create now ci m)) H"
    using Create_inv [OF m(1,2)] Create_refines [OF m(1)] m(3) assms by (auto simp: slot_def new_session_def)
  then show "\<exists>i. slot F T i Pending imsi (fst (Create now ci m)) (snd (Create now ci m)) H" by (auto simp: Create_place)
qed

section \<open>Nobody is in the way\<close>

lemma slot_others:
  assumes "strangers imsi T" "slot F T i st imsi x m H" "c \<in> set (spec_all P ord (table_of m))" "s_ID c \<noteq> i"
  shows "\<not> subscriberSame c x"
proof -
  from assms(2) obtain a where a: "table_of m = T(i \<mapsto> a)" "s_ID a = i" and x: "s_IMSI x = imsi" by (auto simp: slot_def)
  from assms(3) obtain j b where "table_of m j = Some b" "c = clone b" by (auto simp: mem_spec_all)
  with a assms(4) have "T j = Some b" by (auto split: if_splits)
  with assms(1) \<open>c = clone b\<close> x show ?thesis by (auto simp: strangers_def subscriberSame_def)
qed

lemma find_live_none:
  assumes "strangers imsi T"
  shows "triple w (slot F T i st imsi x) (findLiveSessionDifferentFrom w' x) (\<lambda>r m H. r = None \<and> slot F T i st imsi x m H)"
proof (rule tripleI)
  fix s assume p: "slot F T i st imsi x (sv_mgr s) (held w s)"
  let ?r = "run_state (findLiveSessionDifferentFrom w' x) s"
  have "snd ?r = s" by (simp add: findLiveSessionDifferentFrom_def walk_mgr_def)
  moreover have "\<not> (s_ID c \<noteq> s_ID x \<and> isLivePGWOwner (s_State c) \<and> subscriberSame c x)"
    if "c \<in> set (spec_all P ord (table_of (sv_mgr s)))" for c P ord
    using slot_others [OF assms p that] slot_ID [OF p] by auto
  then have "fst ?r = None"
    by (auto simp: findLiveSessionDifferentFrom_def walk_mgr_def FindByIMSIAPN_def FindByMAC_def walk_refines find_None_iff)
  ultimately show "fst ?r = None \<and> slot F T i st imsi x (sv_mgr (snd ?r)) (held w (snd ?r))" using p by simp
qed

lemma find_existing_none:
  assumes "strangers imsi T"
  shows "triple w (\<lambda>m H. P m H \<and> table_of m = T) (findAttachExisting w' imsi mac apn) (\<lambda>r m H. r = None \<and> P m H \<and> table_of m = T)"
proof (rule tripleI)
  fix s assume p: "P (sv_mgr s) (held w s) \<and> table_of (sv_mgr s) = T"
  let ?r = "run_state (findAttachExisting w' imsi mac apn) s"
  have "spec_first (\<lambda>s. \<not> (False \<and> s_State s \<noteq> Active) \<and> subscriberMatches s imsi mac apn) ord T = None" for ord
  proof (rule ccontr)
    assume "spec_first (\<lambda>s. \<not> (False \<and> s_State s \<noteq> Active) \<and> subscriberMatches s imsi mac apn) ord T \<noteq> None"
    then obtain j a where "T j = Some a" "subscriberMatches a imsi mac apn"
      by (auto simp: mem_spec_all dest!: spec_first_mem)
    with assms show False by (auto simp: strangers_def subscriberMatches_def split: if_splits)
  qed
  then show "fst ?r = None \<and> P (sv_mgr (snd ?r)) (held w (snd ?r)) \<and> table_of (sv_mgr (snd ?r)) = T" using p
    by (simp add: findAttachExisting_def walk_mgr_def FindAnyBySubscriber_def findBySubscriber_def walk_first_refines)
qed

section \<open>Success\<close>

lemma slot_H: "slot F T i st imsi x m H \<Longrightarrow> slot F T i st imsi x m H'"
  by (simp add: slot_def)

lemma triple_slot:
  "(s_ID x = i \<Longrightarrow> triple w (slot F T i st imsi x) m Q) \<Longrightarrow> triple w (slot F T i st imsi x) m Q"
  by (rule triple_pure [of _ "s_ID x = i"]) (simp_all add: slot_ID)

lemma create_succeeds:
  assumes "cooperative w"
  shows "triple w (slot F T i st imsi x) (pgw_create w y)
     (\<lambda>r m H. \<exists>res. r = Inr (Some res) \<and> full_result res \<and> slot F T i st imsi x m H)"
proof (rule tripleI)
  fix s assume "slot F T i st imsi x (sv_mgr s) (held w s)"
  moreover from assms obtain res where "w_create w (sv_events s) y = Inr (Some res)" "full_result res"
    unfolding cooperative_def by blast
  ultimately show "\<exists>res. fst (run_state (pgw_create w y) s) = Inr (Some res) \<and> full_result res
      \<and> slot F T i st imsi x (sv_mgr (snd (run_state (pgw_create w y) s))) (held w (snd (run_state (pgw_create w y) s)))"
    by (auto simp: pgw_create_def call_def intro: slot_H)
qed

lemma request_succeeds:
  assumes "cooperative w" "strangers imsi T"
  shows "triple w (slot F T i Authorized imsi x) (request_pgw w x)
     (\<lambda>r m H. \<exists>p. r = Inr p \<and> (\<exists>res. snd p = Some res \<and> full_result res) \<and> slot F T i PGWPending imsi (fst p) m H)"
proof (rule triple_slot)
  assume i: "s_ID x = i"
  show ?thesis unfolding request_pgw_def i
    apply (rule triple_bind [OF slot_mark(2)], rule triple_ex_eq, simp only: sum.case)
    apply (rule triple_bind [OF find_live_none [OF assms(2)]], rule triple_when, simp only: simp_thms if_False)
    apply (rule triple_bind [OF create_succeeds [OF assms(1)]], rule triple_ex_eq, simp only: sum.case)
    apply (rule triple_ret, simp)
    done
qed

lemma paa_succeeds:
  assumes "full_result res"
  shows "triple w (slot F T i PGWPending imsi x) (take_paa w' x res)
     (\<lambda>r m H. \<exists>y. r = Inr y \<and> s_SubscriberIP y \<noteq> None \<and> slot F T i PGWPending imsi y m H)"
proof (rule triple_slot)
  assume i: "s_ID x = i"
  have upd: "triple w (slot F T i PGWPending imsi x) (on_mgr (UpdateSubscriberIP now i a))
      (\<lambda>r m H. \<exists>y. r = Inr y \<and> s_SubscriberIP y = clone_ip (clone_ip a) \<and> slot F T i PGWPending imsi y m H)" for now a
  proof (rule triple_mgr)
    fix m H assume s: "slot F T i PGWPending imsi x m H"
    then have m: "mgr_inv m" by (simp add: slot_def)
    show "\<exists>y. fst (UpdateSubscriberIP now i a m) = Inr y \<and> s_SubscriberIP y = clone_ip (clone_ip a)
        \<and> slot F T i PGWPending imsi y (snd (UpdateSubscriberIP now i a m)) H"
      using op_inv [OF m, of "OpUpdateIP now i a"] slot_update [OF s _ method_table(9) [OF m, of now i a]] by auto
  qed
  have ne: "clone_ip (clone_ip (pr_SubscriberIP res)) \<noteq> None" "pr_SubscriberIP res \<noteq> None"
    using assms by (auto simp: full_result_def clone_ip_def split: option.splits if_splits)
  have rel: "triple w P (if b then releaseIP w' j else ret (False, None)) (\<lambda>_. P)" for b j P
    by (rule triple_keeping) (intro keeping_shape keeps_rules)
  show ?thesis unfolding take_paa_def i
    by (rule triple_if, rule triple_bind [OF rel triple_bind [OF upd triple_ret]])
      (use ne in \<open>auto intro!: triple_ret\<close>)
qed

lemma teids_succeed:
  assumes "s_SubscriberIP x \<noteq> None" "full_result res"
  shows "triple w (slot F T i PGWPending imsi x) (take_teids w' x res)
     (\<lambda>r m H. \<exists>y. r = Inr y \<and> tunnelled y \<and> slot F T i PGWPending imsi y m H)"
proof (rule triple_slot)
  assume i: "s_ID x = i"
  have upd: "triple w (slot F T i PGWPending imsi x) (on_mgr (ApplyPGWResult now i pc pu c l t))
      (\<lambda>r m H. \<exists>y. r = Inr y \<and> tunnelled y \<and> slot F T i PGWPending imsi y m H)"
    if "c \<noteq> 0" "l \<noteq> 0" "t \<noteq> 0" for now pc pu c l t
  proof (rule triple_mgr)
    fix m H assume s: "slot F T i PGWPending imsi x m H"
    then have m: "mgr_inv m" by (simp add: slot_def)
    show "\<exists>y. fst (ApplyPGWResult now i pc pu c l t m) = Inr y \<and> tunnelled y
        \<and> slot F T i PGWPending imsi y (snd (ApplyPGWResult now i pc pu c l t m)) H"
      using op_inv [OF m, of "OpPGWResult now i pc pu c l t"] assms(1) that
        slot_update [OF s _ method_table(10) [OF m, where now = now and i = i and pc = pc and pu = pu and c = c and l = l and r = t]]
      by (auto simp: tunnelled_def)
  qed
  have nz: "pr_GTPCTEID res \<noteq> 0" "pr_LocalGTPUTEID res \<noteq> 0" "pr_RemoteGTPUTEID res \<noteq> 0"
    using assms(2) by (simp_all add: full_result_def)
  show ?thesis unfolding take_teids_def i
    by (rule triple_if, rule triple_bind [OF upd [OF nz] triple_ret]) (use nz in \<open>auto intro!: triple_ret\<close>)
qed

lemma take_succeeds:
  assumes "full_result res"
  shows "triple w (slot F T i PGWPending imsi x) (take_pgw_result w' x (Some res))
     (\<lambda>r m H. \<exists>y. r = Inr y \<and> tunnelled y \<and> slot F T i PGWPending imsi y m H)"
  unfolding take_pgw_result_def option.case
  by (rule triple_bind [OF paa_succeeds [OF assms]], rule triple_ex_eq, simp only: sum.case, rule triple_when,
      rule teids_succeed [OF _ assms])

lemma slot_interface: "slot F T i st imsi x m H \<Longrightarrow> s_AccessInterface x = F"
  by (auto simp: slot_def clone_def)

lemma cooperative_calls:
  assumes "cooperative w" "tunnelled x"
  shows "triple w (slot (cf_AccessInterface (w_cfg w)) T i st imsi x) (route_install w x)
      (\<lambda>r m H. r = None \<and> slot (cf_AccessInterface (w_cfg w)) T i st imsi x m H)"
    "triple w P (user_add w y) (\<lambda>r m H. r = None \<and> P m H)" "triple w P (access_add w y) (\<lambda>r m H. r = None \<and> P m H)"
proof -
  show "triple w P (user_add w y) (\<lambda>r m H. r = None \<and> P m H)" "triple w P (access_add w y) (\<lambda>r m H. r = None \<and> P m H)"
    using assms by (auto intro!: tripleI simp: cooperative_def user_add_def access_add_def call_def pgw_held_snoc)
  show "triple w (slot (cf_AccessInterface (w_cfg w)) T i st imsi x) (route_install w x)
      (\<lambda>r m H. r = None \<and> slot (cf_AccessInterface (w_cfg w)) T i st imsi x m H)"
  proof (rule tripleI)
    fix s assume sl: "slot (cf_AccessInterface (w_cfg w)) T i st imsi x (sv_mgr s) (held w s)"
    obtain ix where ix: "rn_LinkByName (w_netlink w (sv_events s)) (s_AccessInterface x) = Inr ix"
      using assms(1) unfolding cooperative_def by blast
    have c: "s_AccessInterface x \<noteq> []" "rn_NewHandle (w_netlink w (sv_events s)) = None"
      "\<And>r. rn_RouteReplace (w_netlink w (sv_events s)) r = None"
      using assms(1) slot_interface [OF sl] by (auto simp: cooperative_def)
    have "s_SubscriberIP x \<noteq> None" using assms(2) by (simp add: tunnelled_def)
    with ix c sl show "fst (run_state (route_install w x) s) = None \<and> slot (cf_AccessInterface (w_cfg w)) T i st imsi x
        (sv_mgr (snd (run_state (route_install w x) s))) (held w (snd (run_state (route_install w x) s)))"
      by (auto simp: route_install_def rt_Install_def Let_def split_beta intro: slot_H)
  qed
qed

lemma datapath_succeeds:
  assumes "cooperative w" "tunnelled x"
  shows "triple w (slot (cf_AccessInterface (w_cfg w)) T i st imsi x) (bind_datapath w x)
      (\<lambda>r m H. r = Inr () \<and> slot (cf_AccessInterface (w_cfg w)) T i st imsi x m H)"
proof -
  note calls = cooperative_calls [OF assms]
  show ?thesis unfolding bind_datapath_def using assms(2)
    by (auto simp: tunnelled_def intro!: triple_ret triple_bind [OF calls(1)] triple_when triple_bind [OF calls(2)])
qed

definition attached :: "string \<Rightarrow> table \<Rightarrow> string \<Rightarrow> attach_out \<Rightarrow> assertion" where
  "attached F T imsi out m H \<longleftrightarrow> (\<exists>i x. slot F T i Active imsi x m H \<and> out = (Some (responseFromSession x), None))"

lemma attachedI: "slot F T i Active imsi x m H \<Longrightarrow> attached F T imsi (Some (responseFromSession x), None) m H"
  unfolding attached_def by blast

lemma slot_authorized: "slot F T i Active imsi x m H \<Longrightarrow> s_Authorized x"
  by (auto simp: slot_def)

lemma finish_succeeds:
  assumes "cooperative w" "tunnelled y"
  shows "triple w (slot F T i Active imsi y) (finish_active w y) (attached F T imsi)"
proof (rule tripleI)
  fix s assume sl: "slot F T i Active imsi y (sv_mgr s) (held w s)"
  have "run_state (validatePostActivation w y) s = (None, s)"
    using assms slot_authorized [OF sl] by (auto simp: validatePostActivation_def check_ctx_def cooperative_def tunnelled_def)
  with sl show "attached F T imsi (fst (run_state (finish_active w y) s)) (sv_mgr (snd (run_state (finish_active w y) s)))
      (held w (snd (run_state (finish_active w y) s)))"
    by (simp add: finish_active_def attachedI)
qed

lemma activate_bound_succeeds:
  assumes "cooperative w" "tunnelled x" "F = cf_AccessInterface (w_cfg w)"
  shows "triple w (slot F T i PGWPending imsi x) (activate_bound w x) (attached F T imsi)"
proof (rule triple_slot)
  assume i: "s_ID x = i"
  have access: "triple w (slot F T i Active imsi y) (bind_access w y) (\<lambda>r m H. r = Inr () \<and> slot F T i Active imsi y m H)" for y
    unfolding bind_access_def by (auto intro!: triple_ret triple_bind [OF cooperative_calls(3) [OF assms(1,2)]] triple_when)
  show ?thesis unfolding activate_bound_def i
    apply (rule triple_bind [OF datapath_succeeds [OF assms(1,2), folded assms(3)]], rule triple_when, simp only: sum.case)
    apply (rule triple_bind [OF slot_active [OF assms(2)]], rule triple_ex_eq, rule triple_when, simp only: sum.case)
    apply (rule triple_bind [OF access], rule triple_when, simp only: sum.case)
    apply (rule finish_succeeds [OF assms(1)], assumption)
    done
qed

lemma activate_succeeds:
  assumes "cooperative w" "strangers imsi' T" "imsi' = coalesce [au_IMSI auth, imsi]" "s_ID y = i" "F = cf_AccessInterface (w_cfg w)"
  shows "triple w (slot F T i AuthPending imsi x) (activateAuthorizedSession w y auth) (attached F T imsi')"
proof -
  have gtp: "w_gtp w" using assms(1) by (simp add: cooperative_def)
  have rest: "triple w (slot F T i Authorized imsi' z) (do { p \<leftarrow> request_pgw w z; (case p of Inl out \<Rightarrow> ret out
      | Inr (pending, res) \<Rightarrow> do { t \<leftarrow> take_pgw_result w pending res; (case t of Inl out \<Rightarrow> ret out | Inr q \<Rightarrow> activate_bound w q) }) })
      (attached F T imsi')" for z
    apply (rule triple_bind [OF request_succeeds [OF assms(1,2)]], rule triple_ex_eq, simp only: sum.case split_beta)
    apply (rule triple_when, elim exE conjE, simp only:)
    apply (rule triple_bind [OF take_succeeds], assumption, rule triple_ex_eq, simp only: sum.case, rule triple_when)
    apply (rule activate_bound_succeeds [OF assms(1) _ assms(5)], assumption)
    done
  show ?thesis unfolding activateAuthorizedSession_def assms(4)
    by (rule triple_bind [OF slot_auth_result], rule triple_ex_eq)
      (simp only: sum.case allocate_address_def gtp if_True bind_left_identity, fold assms(3), rule rest)
qed

lemma finish_attach_succeeds:
  assumes "cooperative w" "strangers imsi' T" "imsi' = coalesce [au_IMSI auth, imsi]" "s_ID y = i" "F = cf_AccessInterface (w_cfg w)"
  shows "triple w (slot F T i AuthPending imsi x) (finish_attach w req auth y rec) (attached F T imsi')"
proof -
  have "triple w (attached F T imsi' out) (do {
      _ \<leftarrow> (if snd out = None \<and> rec \<noteq> None then completeRecovery w (Some y) (fst out) rec else ret ());
      _ \<leftarrow> (case out of (Some resp, None) \<Rightarrow> updateAuthCacheFromAccessAccept w (rs_SessionID resp) (f resp) | _ \<Rightarrow> ret ());
      ret out }) (attached F T imsi')" for out f
    by (rule triple_bind [OF triple_keeping triple_bind [OF triple_keeping triple_ret]]; (intro keeping_shape keeps_rules)?)
  then show ?thesis unfolding finish_attach_def by (rule triple_bind [OF activate_succeeds [OF assms]])
qed

lemma resolve_succeeds:
  assumes "strangers imsi T"
  shows "triple w (\<lambda>m H. P m H \<and> table_of m = T) (resolve_existing w' req imsi apn rec None)
     (\<lambda>r m H. r = Inr () \<and> P m H \<and> table_of m = T)"
  unfolding resolve_existing_def
  by (rule triple_bind [OF find_existing_none [OF assms]], rule triple_when)
    (simp add: handleExistingBeforeAttach_def triple_ret)

lemma attach_authorized_succeeds:
  assumes "cooperative w" "strangers imsi T" "imsi = coalesce [au_IMSI auth, rq_IMSI req]" "au_Allowed auth"
  shows "triple w (\<lambda>m H. (mgr_inv m \<and> m_next m \<noteq> -1) \<and> table_of m = T) (AttachAuthorized w req (Some auth))
    (attached (cf_AccessInterface (w_cfg w)) T imsi)"
proof -
  define F where F: "F = cf_AccessInterface (w_cfg w)"
  let ?P = "\<lambda>m H. (mgr_inv m \<and> m_next m \<noteq> -1) \<and> table_of m = T"
  let ?rq = "withDefaults (w_cfg w) req"
  have lock: "triple w P (lockSubscriber w a b c) (\<lambda>r m H. r = None \<and> P m H)" for P a b c
    using assms(1) by (auto intro!: tripleI simp: lockSubscriber_def call_def pgw_held_snoc cooperative_def)
  have imsi: "coalesce [au_IMSI auth, rq_IMSI ?rq] = imsi" "imsi = coalesce [au_IMSI auth, imsi]"
    by (simp_all add: assms(3) withDefaults_def)
  have finish: "triple w (slot F T i AuthPending imsi z) (finish_attach w ?rq auth x rec) (attached F T imsi)" if "s_ID x = i" for i z x rec
    by (rule finish_attach_succeeds [OF assms(1,2) imsi(2) that F])
  have fresh: "triple w ?P (do {
      x \<leftarrow> on_mgr (Create (w_now w) (create_input_of (w_cfg w) ?rq imsi ms apn));
      p \<leftarrow> on_mgr (MarkAuthPending (w_now w) (s_ID x));
      (case p of Inl e \<Rightarrow> ret (None, Some (SessErr e)) | Inr _ \<Rightarrow> finish_attach w ?rq auth x rec) }) (attached F T imsi)" for ms apn rec
    apply (rule triple_bind [OF triple_pre [OF slot_create [where F = F]]])
       apply (simp add: new_session_def create_input_of_def)
      apply (simp add: new_session_def create_input_of_def F)
     apply simp
    apply (rule triple_ex, rule triple_slot, simp only:)
    apply (rule triple_bind [OF slot_mark(1)], rule triple_ex_eq, simp only: sum.case)
    apply (rule finish, simp)
    done
  show ?thesis unfolding AttachAuthorized_def Let_def option.case imsi(1) F [symmetric]
    apply (simp only: assms(4) simp_thms if_False)
    apply (rule triple_bind [OF lock], rule triple_when, simp only: option.case)
    apply (rule triple_bind [OF triple_keeping], rule keeps_rules)
    apply (rule triple_bind [OF resolve_succeeds [OF assms(2)]], rule triple_when, simp only: sum.case)
    apply (rule fresh)
    done
qed

lemma eap_succeeds:
  assumes "cooperative w" "legal_calls ops" "sv_mgr s = after ops" "m_next (sv_mgr s) \<noteq> -1"
    and "w_eap w (sv_events s) (eapWithDefaults (w_cfg w) req) = Inr res" "er_State res = EAPStateSuccess" "er_Allowed res"
    and "strangers imsi (table_of (sv_mgr s))" "imsi = coalesce [er_IMSI res, eq_IMSI req]"
  shows "\<exists>r s' i a. run_state (ExchangeEAP w req) s = ((Some r, None), s') \<and> ep_State r = EAPStateSuccess
    \<and> table_of (sv_mgr s) i = None \<and> table_of (sv_mgr s') = (table_of (sv_mgr s))(i \<mapsto> a)
    \<and> s_State a = Active \<and> s_IMSI a = imsi"
proof -
  let ?req = "eapWithDefaults (w_cfg w) req"
  define s1 where "s1 = s\<lparr> sv_events := sv_events s @ [EvExchangeEAP ?req] \<rparr>"
  define rq where "rq = attach_of_eap ?req res"
  define au where "au = auth_of_eap ?req res"
  have m: "mgr_inv (sv_mgr s)" using after_inv [OF assms(2)] assms(3) by simp
  have im: "imsi = coalesce [au_IMSI au, rq_IMSI rq]" "au_Allowed au"
    by (simp_all add: assms(9) au_def rq_def auth_of_eap_def attach_of_eap_def eapWithDefaults_def)
  have "attached (cf_AccessInterface (w_cfg w)) (table_of (sv_mgr s)) imsi (fst (run_state (AttachAuthorized w rq (Some au)) s1))
      (sv_mgr (snd (run_state (AttachAuthorized w rq (Some au)) s1))) (held w (snd (run_state (AttachAuthorized w rq (Some au)) s1)))"
    using tripleD [OF attach_authorized_succeeds [OF assms(1,8) im], of s1] m assms(4) by (simp add: s1_def)
  then obtain i x where sl: "slot (cf_AccessInterface (w_cfg w)) (table_of (sv_mgr s)) i Active imsi x (sv_mgr (snd (run_state (AttachAuthorized w rq (Some au)) s1)))
        (held w (snd (run_state (AttachAuthorized w rq (Some au)) s1)))"
    and out: "fst (run_state (AttachAuthorized w rq (Some au)) s1) = (Some (responseFromSession x), None)"
    unfolding attached_def by blast
  have "\<exists>r. run_state (ExchangeEAP w req) s = ((Some r, None), snd (run_state (AttachAuthorized w rq (Some au)) s1))
      \<and> ep_State r = EAPStateSuccess"
    using assms(5-7) out unfolding s1_def rq_def au_def by (simp add: ExchangeEAP_def Let_def call_def split_beta)
  then show ?thesis using sl unfolding slot_def by blast
qed

end
