(* ===== verification/LifeProps.thy ===== *)
theory LifeProps
  imports LifeLive
begin

text \<open>
  What the lifecycle service promises: over any sequence of handler calls, in any environment, the
  PGW holds exactly the active sessions and no subscriber has two of them; an EAP success is
  reported for a session in service only; a detachment releases everything whatever fails on the
  way; a GTP-U error indication ends the session; and recovery attempts are limited in number.
\<close>

section \<open>Detaching\<close>

lemma detach_gone:
  "triple w (\<lambda>m H. mgr_inv m \<and> (state_of m (s_ID x) = Some Active \<or> state_of m (s_ID x) = Some Recovering))
     (detachSessionLocked w' x) (\<lambda>_ m H. table_of m (s_ID x) = None)"
proof -
  have mark: "triple w (\<lambda>m H. mgr_inv m \<and> (state_of m i = Some Active \<or> state_of m i = Some Recovering))
      (on_mgr (MarkTerminating now i))
      (\<lambda>r m H. \<exists>t. r = Inr t \<and> mgr_inv m \<and> s_ID t = i \<and> state_of m i = Some Terminating)" for now i
  proof (rule triple_mgr, elim conjE)
    fix m H assume m: "mgr_inv m" and st: "state_of m i = Some Active \<or> state_of m i = Some Recovering"
    have m': "mgr_inv (snd (MarkTerminating now i m))" using op_inv [OF m, of "OpTerminating now i"] by simp
    from method_table(4) [OF m, of now i]
    show "\<exists>t. fst (MarkTerminating now i m) = Inr t \<and> mgr_inv (snd (MarkTerminating now i m)) \<and> s_ID t = i
        \<and> state_of (snd (MarkTerminating now i m)) i = Some Terminating"
    proof (cases rule: spec_transition_cases)
      case (moved s)
      with m' table_ID [OF m' moved(3)] show ?thesis by (simp add: state_of_def)
    qed (use st in \<open>auto simp: state_of_def validTransition.simps\<close>)
  qed
  have del: "triple w (\<lambda>m H. mgr_inv m \<and> s_ID t = i \<and> state_of m i = Some Terminating) (on_mgr (Delete now (s_ID t)))
      (\<lambda>_ m H. table_of m i = None)" for now t i
  proof (rule triple_mgr, elim conjE)
    fix m H assume "mgr_inv m" "s_ID t = i" "state_of m i = Some Terminating"
    then show "table_of (snd (Delete now (s_ID t) m)) i = None"
      by (auto simp: Delete_table spec_delete_def state_of_def)
  qed
  show ?thesis unfolding detachSessionLocked_def
    apply (rule triple_bind [OF mark], rule triple_ex_eq, simp only: sum.case)
    apply (rule triple_bind [OF triple_delete [where Q = "\<lambda>m H. mgr_inv m \<and> s_ID t = s_ID x \<and> state_of m (s_ID x) = Some Terminating" for t]], assumption)
    apply (rule triple_bind [OF triple_keeping], rule keeps_rules)
    apply (rule triple_bind [OF triple_keeping], intro keeping_shape keeps_rules)
    apply (rule triple_bind [OF triple_keeping], intro keeping_shape keeps_rules)
    apply (rule triple_bind [OF triple_keeping], intro keeping_shape keeps_rules)
    apply (rule triple_bind [OF del triple_ret], assumption)
    done
qed

lemma triple_ask: "triple w P (ask_mgr f) (\<lambda>r m H. P m H \<and> r = f m)"
  by (rule tripleI) (simp add: ask_mgr_def)

lemma terminating_result:
  assumes "mgr_inv m" "table_of m i = Some a" "validTransition (s_State a) Terminating"
  shows "fst (MarkTerminating now i m) = Inr (clone (a\<lparr> s_State := Terminating, s_UpdatedAt := now \<rparr>))"
    "table_of (snd (MarkTerminating now i m)) = (table_of m)(i \<mapsto> a\<lparr> s_State := Terminating, s_UpdatedAt := now \<rparr>)"
  using method_table(4) [OF assms(1), of now i] assms(2,3) by (simp_all add: spec_transition_def Let_def)

lemma detach_table:
  assumes "mgr_inv m" "table_of m i = Some a" "validTransition (s_State a) Terminating"
  shows "table_of (snd (Delete now' i (snd (MarkTerminating now i m)))) = (table_of m)(i := None)"
proof -
  have "mgr_inv (snd (MarkTerminating now i m))" using op_inv [OF assms(1), of "OpTerminating now i"] by simp
  then show ?thesis by (simp add: Delete_table terminating_result(2) [OF assms] spec_delete_def)
qed

section \<open>The user plane reports an error\<close>

lemma gtpu_error_keeps:
  "triple w (\<lambda>m H. mgr_inv m \<and> state_of m i = Some Active) (on_mgr (RecordGTPUError now i teid at))
     (\<lambda>r m H. \<exists>y. r = Inr y \<and> (s_ID y = i \<and> s_State y = Active) \<and> mgr_inv m \<and> state_of m i = Some Active)"
proof (rule triple_mgr, elim conjE)
  fix m H assume m: "mgr_inv m" and "state_of m i = Some Active"
  then obtain a where a: "table_of m i = Some a" "s_State a = Active" by (auto simp: state_of_table)
  let ?r = "RecordGTPUError now i teid at m"
  have m': "mgr_inv (snd ?r)" using op_inv [OF m, of "OpGTPUError now i teid at"] by simp
  have "(fst ?r, table_of (snd ?r)) = spec_update now i (gtpu_error_fields teid at) (table_of m)"
    using op_table [OF m, of "OpGTPUError now i teid at"] by (simp add: reply_result [symmetric])
  with a m' table_ID [OF m a(1)]
  show "\<exists>y. fst ?r = Inr y \<and> (s_ID y = i \<and> s_State y = Active) \<and> mgr_inv (snd ?r) \<and> state_of (snd ?r) i = Some Active"
    by (auto simp: spec_update_def Let_def state_of_def gtpu_error_fields_def)
qed

lemma mark_recovering_keeps:
  "triple w (\<lambda>m H. mgr_inv m \<and> state_of m (s_ID x) = Some Active) (mark_recovering w' x reason)
     (\<lambda>y m H. s_ID y = s_ID x \<and> mgr_inv m \<and> state_of m (s_ID x) = Some Recovering)"
  unfolding mark_recovering_def
proof (rule triple_bind [OF triple_mgr triple_ret], elim conjE)
  fix m H assume m: "mgr_inv m" and st: "state_of m (s_ID x) = Some Active"
  let ?r = "MarkRecovering (w_now w') (s_ID x) reason m"
  have m': "mgr_inv (snd ?r)" using op_inv [OF m, of "OpRecovering (w_now w') (s_ID x) reason"] by simp
  from method_table(5) [OF m, of "w_now w'" "s_ID x" reason]
  show "s_ID (case fst ?r of Inl _ \<Rightarrow> x | Inr s \<Rightarrow> s) = s_ID x \<and> mgr_inv (snd ?r)
      \<and> state_of (snd ?r) (s_ID x) = Some Recovering"
  proof (cases rule: spec_transition_cases)
    case (moved s)
    with m' table_ID [OF m' moved(3)] show ?thesis by (simp add: state_of_def)
  qed (use st in \<open>auto simp: state_of_def validTransition.simps\<close>)
qed assumption

lemma end_recovering_gone:
  "triple w (\<lambda>m H. mgr_inv m \<and> state_of m (s_ID x) = Some Active) (end_recovering w' x reason tomb)
     (\<lambda>_ m H. table_of m (s_ID x) = None)"
proof -
  have "triple w (\<lambda>m H. s_ID y = s_ID x \<and> mgr_inv m \<and> state_of m (s_ID x) = Some Recovering) (detachSessionLocked w' y)
      (\<lambda>_ m H. table_of m (s_ID x) = None)" for y
    by (rule triple_when, rule triple_pre [OF triple_post [OF detach_gone]]) auto
  then show ?thesis unfolding end_recovering_def
    by (intro triple_bind [OF mark_recovering_keeps] triple_bind [OF triple_keeping]) (intro keeping_shape keeps_rules)
qed

lemma gtpu_session_gone:
  assumes "\<And>h k. w_lock w h k = None"
  shows "triple w (\<lambda>m H. mgr_inv m \<and> state_of m (s_ID x) = Some Active) (gtpu_error_session w teid x)
    (\<lambda>_ m H. table_of m (s_ID x) = None)"
proof -
  let ?P = "\<lambda>m H. mgr_inv m \<and> state_of m (s_ID x) = Some Active"
  have lock: "triple w P (lockSubscriber w imsi mac apn) (\<lambda>r m H. r = None \<and> P m H)" for P imsi mac apn
    by (rule tripleI) (simp add: lockSubscriber_def call_def pgw_held_snoc assms)
  have get: "triple w ?P (ask_mgr (Get (s_ID x))) (\<lambda>r m H. \<exists>y. r = Some y \<and> (s_ID y = s_ID x \<and> s_State y = Active) \<and> ?P m H)"
    by (rule triple_post [OF triple_ask]) (auto simp: Get_table state_of_def table_ID)
  have finish: "triple w (\<lambda>m H. (s_ID y = s_ID x \<and> s_State y = Active) \<and> ?P m H)
     (if s_State y \<noteq> Active then ret None else do { out \<leftarrow> end_recovering w y reason tomb; ret (g out) })
     (\<lambda>_ m H. table_of m (s_ID x) = None)" for y reason tomb and g :: "attach_out \<Rightarrow> svc_err option"
    by (rule triple_when, simp, rule triple_bind [OF triple_pre [OF triple_post [OF end_recovering_gone]] triple_ret]) auto
  have rest: "triple w ?P (do { l \<leftarrow> lockSubscriber w imsi mac apn; (case l of Some e \<Rightarrow> ret (Some e)
      | None \<Rightarrow> do { latest \<leftarrow> ask_mgr (Get (s_ID x)); (case latest of None \<Rightarrow> ret None | Some s \<Rightarrow>
          if s_State s \<noteq> Active then ret None else do { out \<leftarrow> end_recovering w s reason tomb; ret (g out) }) }) })
     (\<lambda>_ m H. table_of m (s_ID x) = None)" for imsi mac apn reason tomb and g :: "attach_out \<Rightarrow> svc_err option"
    by (rule triple_bind [OF lock], rule triple_when, simp only: option.case)
      (rule triple_bind [OF get], rule triple_ex_eq, simp only: option.case, rule finish)
  show ?thesis unfolding gtpu_error_session_def
    by (rule triple_bind [OF gtpu_error_keeps], rule triple_ex_eq, rule triple_when)
      (simp add: rest [simplified] Let_def)
qed

section \<open>Recovery attempts\<close>

datatype progress_event = RBegin time string | RFinish time

definition no_progress :: recovery_progress where
  "no_progress = \<lparr> rp_state = [], rp_lastAt = zero_time, rp_attempts = [] \<rparr>"

definition finish_progress :: "time \<Rightarrow> recovery_progress \<Rightarrow> recovery_progress" where
  "finish_progress now r = r\<lparr> rp_state := ''cooldown'', rp_lastAt := now \<rparr>"

fun progress_step :: "svc_config \<Rightarrow> progress_event \<Rightarrow> time list \<times> recovery_progress \<Rightarrow> time list \<times> recovery_progress" where
  \<comment> \<open>the times of the attempts let through so far, and the record of the subscriber\<close>
  "progress_step cfg (RBegin now st) (acc, r) =
     (let (go, r') = begin_progress cfg now st r in (if go then acc @ [now] else acc, r'))"
| "progress_step cfg (RFinish now) (acc, r) = (acc, finish_progress now r)"

fun event_time :: "progress_event \<Rightarrow> time" where
  "event_time (RBegin now st) = now"
| "event_time (RFinish now) = now"

definition within_minute :: "time \<Rightarrow> time list \<Rightarrow> time list" where
  "within_minute t ts = filter (\<lambda>x. t - seconds 60 < x \<and> x \<le> t) ts"

definition progress_inv :: "svc_config \<Rightarrow> time \<Rightarrow> time list \<times> recovery_progress \<Rightarrow> bool" where
  \<comment> \<open>at time \<open>u\<close>: the record lists the attempts after some moment more than a minute ago\<close>
  "progress_inv cfg u ar \<longleftrightarrow> (\<forall>x \<in> set (fst ar). x \<le> u)
     \<and> (\<exists>c \<le> u - seconds 60. rp_attempts (snd ar) = filter (\<lambda>x. c < x) (fst ar))
     \<and> (\<forall>t. int (length (within_minute t (fst ar))) \<le> max 0 (cf_MaxAttemptsPerMinute cfg))"

lemma filter_later: "(c::int) \<le> d \<Longrightarrow> filter (\<lambda>x. d < x) (filter (\<lambda>x. c < x) xs) = filter (\<lambda>x. d < x) xs"
  by (auto simp: filter_filter intro: filter_cong)

lemma progress_accept:
  assumes "progress_inv cfg u (acc, r)" "u \<le> now" "int (length (filter (\<lambda>x. now - seconds 60 < x) acc)) < cf_MaxAttemptsPerMinute cfg"
  shows "int (length (within_minute t (acc @ [now]))) \<le> max 0 (cf_MaxAttemptsPerMinute cfg)"
proof (cases "now \<le> t")
  case True
  have "length (within_minute t acc) \<le> length (filter (\<lambda>x. now - seconds 60 < x) acc)"
    unfolding within_minute_def by (induction acc) (use True in auto)
  with assms(3) show ?thesis by (simp add: within_minute_def)
next
  case False
  with assms(1) show ?thesis by (simp add: progress_inv_def within_minute_def)
qed

lemma progress_inv_step:
  assumes "progress_inv cfg u ar" "u \<le> event_time e"
  shows "progress_inv cfg (event_time e) (progress_step cfg e ar)"
proof -
  obtain acc r where ar: "ar = (acc, r)" by (cases ar)
  from assms(1) obtain c where c: "c \<le> u - seconds 60" "rp_attempts r = filter (\<lambda>x. c < x) acc"
    and le: "\<forall>x \<in> set acc. x \<le> u" and n: "\<forall>t. int (length (within_minute t acc)) \<le> max 0 (cf_MaxAttemptsPerMinute cfg)"
    by (auto simp: progress_inv_def ar)
  show ?thesis
  proof (cases e)
    case (RFinish now)
    with assms(2) c le n show ?thesis by (auto simp: progress_inv_def ar finish_progress_def intro!: exI [of _ c])
  next
    case (RBegin now st)
    have recent: "filter (\<lambda>at. now - seconds 60 < at) (rp_attempts r) = filter (\<lambda>x. now - seconds 60 < x) acc"
      unfolding c(2) by (rule filter_later) (use c(1) assms(2) RBegin in simp)
    have same: "progress_inv cfg now (acc, r)"
      using c le n assms(2) RBegin by (auto simp: progress_inv_def intro!: exI [of _ c])
    have pruned: "progress_inv cfg now (acc, r\<lparr> rp_attempts := filter (\<lambda>x. now - seconds 60 < x) acc \<rparr>)"
      using le n assms(2) RBegin by (auto simp: progress_inv_def intro!: exI [of _ "now - seconds 60"])
    have new: "progress_inv cfg now (acc @ [now], \<lparr> rp_state = st @ ''_pending'', rp_lastAt = now,
        rp_attempts = filter (\<lambda>x. now - seconds 60 < x) acc @ [now] \<rparr>)"
      if "int (length (filter (\<lambda>x. now - seconds 60 < x) acc)) < cf_MaxAttemptsPerMinute cfg"
      using le assms(2) RBegin progress_accept [OF assms(1) [unfolded ar] _ that]
      by (auto simp: progress_inv_def seconds_def intro!: exI [of _ "now - seconds 60"])
    show ?thesis using same pruned new
      by (simp add: RBegin ar begin_progress_def Let_def recent)
  qed
qed

lemma progress_run:
  assumes "sorted (map event_time es)" "\<forall>e \<in> set es. u \<le> event_time e" "progress_inv cfg u ar"
  shows "\<exists>v. progress_inv cfg v (fold (progress_step cfg) es ar)"
  using assms
proof (induction es arbitrary: u ar)
  case (Cons e es)
  have "progress_inv cfg (event_time e) (progress_step cfg e ar)"
    using Cons.prems by (intro progress_inv_step) auto
  moreover have "sorted (map event_time es)" "\<forall>e' \<in> set es. event_time e \<le> event_time e'" using Cons.prems(1) by auto
  ultimately show ?case using Cons.IH [of "event_time e" "progress_step cfg e ar"] by simp
qed auto

section \<open>A sample environment\<close>

definition demo_config :: svc_config where
  "demo_config = \<lparr> cf_AccessInterface = ''eth1'', cf_DefaultAPN = ''internet'', cf_DefaultRealm = ''r'',
     cf_GTPAPN = ''internet'', cf_AuthCacheEnabled = False, cf_DefaultTTLSeconds = 3600, cf_MaxTTLSeconds = 0,
     cf_SessionTimeoutSeconds = 3600, cf_ClearSessionOnStop = True, cf_ClearAuthCacheOnStop = False,
     cf_StartWithoutSessionAction = [], cf_StartWithoutAuthAction = [], cf_RecoveryEnabled = False,
     cf_ReasonGTPUError = False, cf_RecoveryWindowSeconds = 60, cf_AllowSameMACReattach = False,
     cf_DisconnectEnabled = False, cf_DisconnectRequestType = [], cf_WaitForAccountingStop = False,
     cf_FallbackToTombstone = False, cf_StartRecoveryEnabled = False, cf_CooldownSeconds = 0,
     cf_MaxAttemptsPerMinute = 3, cf_DuplicateAttachPolicy = ''reuse_existing'', cf_PostValidationEnabled = True,
     cf_FailAction = ''trigger_recovery'', cf_InstallRoutes = True \<rparr>"

definition demo_eap_result :: eap_result where
  "demo_eap_result = \<lparr> er_SessionID = ''d1'', er_State = EAPStateSuccess, er_Allowed = True, er_IMSI = [], er_MSISDN = [],
     er_APN = [], er_SubscriberID = [], er_Reason = [], er_ResultCode = 2001, er_EAPPayload = [], er_MSK = [] \<rparr>"

definition demo_pgw_result :: pgw_result where
  "demo_pgw_result = \<lparr> pr_SubscriberIP = Some [10, 0, 0, 5], pr_GatewayIP = None, pr_PGWControlIP = None, pr_PGWUserIP = None,
     pr_GTPCTEID = 7, pr_LocalGTPUTEID = 8, pr_RemoteGTPUTEID = 9 \<rparr>"

definition demo_env :: env where
  \<comment> \<open>a PGW that accepts everything, no address pool, no user plane and no access side\<close>
  "demo_env = \<lparr> w_cfg = demo_config, w_now = 0,
     w_order = (\<lambda>_ _ m. map (\<lambda>p. s_ID (m_heap m p)) [0..<m_alloc m]), w_rec_order = (\<lambda>_ _. ([], [])),
     w_lock = (\<lambda>_ _. None), w_ctx = (\<lambda>_. None), w_aaa = (\<lambda>_ _. Inl (None, Other [])),
     w_eap = (\<lambda>_ _. Inr demo_eap_result), w_ipam = False, w_alloc = (\<lambda>_ _. Inl (Other [])), w_release = (\<lambda>_ _. None),
     w_gtp = True, w_create = (\<lambda>_ _. Inr (Some demo_pgw_result)), w_delete = (\<lambda>_ _. None),
     w_netlink = (\<lambda>_. \<lparr> rn_NewHandle = None, rn_LinkByName = (\<lambda>_. Inr 0), rn_RouteReplace = (\<lambda>_. None), rn_RouteDel = (\<lambda>_. None) \<rparr>), w_user = False, w_user_add = (\<lambda>_ _. None), w_user_remove = (\<lambda>_ _. None),
     w_access = False, w_access_add = (\<lambda>_ _. None), w_access_remove = (\<lambda>_ _. None), w_dynauth = False,
     w_disconnect = (\<lambda>_ _. None), w_text = (\<lambda>_. []) \<rparr>"

definition demo_eap :: "string \<Rightarrow> eap_request" where
  "demo_eap imsi = \<lparr> eq_SessionID = ''d1'', eq_IMSI = imsi, eq_MSISDN = [], eq_MACAddress = ''02:00:00:00:00:01'',
     eq_Username = [], eq_EAPIdentity = [], eq_Realm = [], eq_APN = [], eq_CallingStationID = [],
     eq_CalledStationID = [], eq_NASIP = [], eq_NASIdentifier = [], eq_AcctSessionID = [], eq_RadiusClass = [],
     eq_ConnectInfo = [], eq_FramedMTU = 0, eq_EAPPayload = [] \<rparr>"

lemma demo_env_ok: "env_ok demo_env"
proof -
  have "i \<in> (\<lambda>p. s_ID (m_heap m p)) ` {0..<m_alloc m}" if "mgr_inv m" "m_byID m i = Some p" for m i p
    using ids_okD(1,2) [OF mgr_invD(1) [OF that(1)] that(2)] by force
  then show ?thesis by (auto simp: env_ok_def demo_env_def)
qed

lemma demo_cooperative: "cooperative demo_env"
  by (simp add: cooperative_def full_result_def demo_env_def demo_config_def demo_pgw_result_def clone_ip_def)

lemma demo_answers:
  "w_eap demo_env h q = Inr demo_eap_result" "er_State demo_eap_result = EAPStateSuccess" "er_Allowed demo_eap_result"
  "imsi = coalesce [er_IMSI demo_eap_result, eq_IMSI (demo_eap imsi)]"
  by (simp_all add: demo_env_def demo_eap_result_def demo_eap_def)

lemma demo_eap_step:
  assumes "length cs < 1000" "strangers imsi (table_of (sv_mgr (run_calls demo_env cs svc_new)))"
  shows "\<exists>r i a. fst (run_state (ExchangeEAP demo_env (demo_eap imsi)) (run_calls demo_env cs svc_new)) = (Some r, None)
    \<and> ep_State r = EAPStateSuccess \<and> s_State a = Active \<and> s_IMSI a = imsi
    \<and> table_of (sv_mgr (run_calls demo_env cs svc_new)) i = None
    \<and> table_of (sv_mgr (run_calls demo_env (cs @ [CallEAP (demo_eap imsi)]) svc_new))
        = (table_of (sv_mgr (run_calls demo_env cs svc_new)))(i \<mapsto> a)"
proof -
  let ?s = "run_calls demo_env cs svc_new"
  from run_calls_good [OF demo_env_ok, of cs] assms(1) obtain ops where ops: "legal_calls ops" "sv_mgr ?s = after ops"
    and n: "unat (m_next (sv_mgr ?s)) \<le> length cs" by (auto simp: good_at_def inv_at_def)
  have "m_next (sv_mgr ?s) \<noteq> -1"
  proof
    assume "m_next (sv_mgr ?s) = -1"
    then have "unat (m_next (sv_mgr ?s)) = 2 ^ 64 - 1" by (simp add: unsigned_minus_1_eq_mask mask_eq_exp_minus_1)
    with n assms(1) show False by simp
  qed
  from eap_succeeds [OF demo_cooperative ops this demo_answers(1-3) assms(2) demo_answers(4)]
  obtain r s' i a where "run_state (ExchangeEAP demo_env (demo_eap imsi)) ?s = ((Some r, None), s')" "ep_State r = EAPStateSuccess"
    "table_of (sv_mgr ?s) i = None" "table_of (sv_mgr s') = (table_of (sv_mgr ?s))(i \<mapsto> a)" "s_State a = Active" "s_IMSI a = imsi"
    by blast
  then show ?thesis by (auto simp: run_calls_append drop_result_def)
qed

section \<open>Properties\<close>



text \<open>When the EAP exchange reports success, which is when the access point gets an Access-Accept,
  the session it names is in the table, active, accepted by the PGW, and has the address the
  response carries.\<close>

theorem eap_success_in_service:
  assumes "env_ok w" "Suc (length cs) < 2 ^ 64" "run_state (ExchangeEAP w req) (run_calls w cs svc_new) = ((Some r, None), s)"
    and "ep_State r = EAPStateSuccess"
  shows "\<exists>a. table_of (sv_mgr s) (ep_SessionID r) = Some a \<and> s_State a = Active
    \<and> ep_SessionID r \<in> pgw_held w (sv_events s) \<and> clone_ip (s_SubscriberIP a) \<noteq> None
    \<and> ep_SubscriberIP r = ip_string_or_empty (clone_ip (s_SubscriberIP a)) \<and> ep_IMSI r = s_IMSI a"
proof -
  have "length cs < 2 ^ 64" using assms(2) by simp
  from tripleD [OF eap_triple [OF assms(1,2)] run_calls_good [OF assms(1) this], of req]
  have e: "eap_outcome (Suc (length cs)) (Some r, None) (sv_mgr s) (held w s)" by (simp add: assms(3))
  then obtain a where "table_of (sv_mgr s) (ep_SessionID r) = Some a" "s_State a = Active" "clone_ip (s_SubscriberIP a) \<noteq> None"
    "ep_SubscriberIP r = ip_string_or_empty (clone_ip (s_SubscriberIP a))" "ep_IMSI r = s_IMSI a"
    using assms(4) by (auto simp: eap_outcome_def)
  moreover from this e have "ep_SessionID r \<in> held w s" by (simp add: eap_outcome_def good_at_def active_ids_def)
  ultimately show ?thesis by blast
qed

text \<open>The EAP exchange succeeds when the parts it calls cooperate and no session of another kind is in
  the way: if the AAA server accepts the subscriber, no interface call fails and every session of the
  table belongs to another IMSI, the exchange reports success, adds exactly one session to the table,
  active and with the IMSI, and leaves the other sessions as they were.\<close>

theorem eap_attach_succeeds:
  assumes "cooperative w" "legal_calls ops" "sv_mgr s = after ops" "m_next (sv_mgr s) \<noteq> -1"
    and "w_eap w (sv_events s) (eapWithDefaults (w_cfg w) req) = Inr res" "er_State res = EAPStateSuccess" "er_Allowed res"
    and "strangers imsi (table_of (sv_mgr s))" "imsi = coalesce [er_IMSI res, eq_IMSI req]"
  shows "\<exists>r s' i a. run_state (ExchangeEAP w req) s = ((Some r, None), s') \<and> ep_State r = EAPStateSuccess
    \<and> table_of (sv_mgr s) i = None \<and> table_of (sv_mgr s') = (table_of (sv_mgr s))(i \<mapsto> a)
    \<and> s_State a = Active \<and> s_IMSI a = imsi"
  by (rule eap_succeeds [OF assms])

text \<open>C6. Detaching a session that may be terminated asks the PGW to delete it, removes its routes,
  its user-plane and access bindings and its address, in this order and whatever these calls return,
  and removes exactly this session from the table.\<close>

theorem detach_releases_all:
  assumes "legal_calls ops" "sv_mgr s = after ops" "table_of (sv_mgr s) i = Some a" "validTransition (s_State a) Terminating"
    and "t = clone (a\<lparr> s_State := Terminating, s_UpdatedAt := w_now w \<rparr>)"
    and "run_state (detachSessionLocked w (clone a)) s = (out, s')"
  shows "sv_events s' = sv_events s @ [EvPGWDelete t, EvRouteRemove t] @ (if w_user w then [EvUserRemove t] else [])
      @ (if w_access w then [EvAccessRemove t] else []) @ (if w_ipam w then [EvRelease i] else [])
    \<and> table_of (sv_mgr s') = (table_of (sv_mgr s))(i := None)"
proof -
  have m: "mgr_inv (sv_mgr s)" using after_inv [OF assms(1)] assms(2) by simp
  have i: "s_ID a = i" by (rule table_ID [OF m assms(3)])
  note r = terminating_result [OF m assms(3,4), of "w_now w"] detach_table [OF m assms(3,4), of "w_now w" "w_now w"]
  have "s' = snd (run_state (detachSessionLocked w (clone a)) s)" using assms(6) by simp
  then show ?thesis using r
    by (simp add: detachSessionLocked_def on_mgr_def split_beta i assms(5) pgw_delete_def call_def route_remove_def
        user_remove_def access_remove_def releaseIP_def)
qed


text \<open>Recovery attempts for one subscriber are limited: whatever the attempts and completions,
  as long as the clock does not run backwards, no minute sees more attempts let through than
  \<open>max_attempts_per_minute\<close>.\<close>

theorem recovery_rate_limit:
  assumes "sorted (map event_time es)"
  shows "int (length (within_minute t (fst (fold (progress_step cfg) es ([], no_progress)))))
    \<le> max 0 (cf_MaxAttemptsPerMinute cfg)"
proof (cases es)
  case (Cons e rest)
  have "progress_inv cfg (event_time e) ([], no_progress)"
    by (auto simp: progress_inv_def no_progress_def within_minute_def)
  moreover have "\<forall>e' \<in> set es. event_time e \<le> event_time e'" using assms Cons by auto
  ultimately show ?thesis using progress_run [OF assms] by (force simp: progress_inv_def)
qed (simp add: within_minute_def)

section \<open>Witnesses\<close>

abbreviation demo_runs :: "string list \<Rightarrow> svc" where
  "demo_runs imsis \<equiv> run_calls demo_env (map (\<lambda>i. CallEAP (demo_eap i)) imsis) svc_new"

lemma demo_start: "table_of (sv_mgr (demo_runs [])) = Map.empty"
  by (simp add: svc_new_def table_of_def new_manager_def fun_eq_iff)

lemma demo_first:
  "\<exists>r i a. fst (run_state (ExchangeEAP demo_env (demo_eap ''1'')) (demo_runs [])) = (Some r, None)
     \<and> ep_State r = EAPStateSuccess \<and> s_State a = Active \<and> s_IMSI a = ''1''
     \<and> table_of (sv_mgr (demo_runs [''1''])) = [i \<mapsto> a]"
  using demo_eap_step [of "[]" "''1''"] demo_start by (auto simp: strangers_def)

lemma demo_second:
  "\<exists>i j a b. i \<noteq> j \<and> s_State a = Active \<and> s_IMSI a = ''1'' \<and> s_State b = Active \<and> s_IMSI b = ''2''
     \<and> table_of (sv_mgr (demo_runs [''1'', ''2''])) = [i \<mapsto> a, j \<mapsto> b]"
proof -
  from demo_first obtain i a where a: "s_State a = Active" "s_IMSI a = ''1''" "table_of (sv_mgr (demo_runs [''1''])) = [i \<mapsto> a]"
    by blast
  then have "strangers ''2'' (table_of (sv_mgr (demo_runs [''1''])))" by (simp add: strangers_def)
  with demo_eap_step [of "[CallEAP (demo_eap ''1'')]" "''2''"] obtain j b where
    "table_of (sv_mgr (demo_runs [''1''])) j = None" "s_State b = Active" "s_IMSI b = ''2''"
    "table_of (sv_mgr (demo_runs [''1'', ''2''])) = (table_of (sv_mgr (demo_runs [''1''])))(j \<mapsto> b)" by auto
  with a show ?thesis by (metis fun_upd_same option.distinct(1))
qed



theorem eap_success_in_service_witness:
  "\<exists>r s a. run_state (ExchangeEAP demo_env (demo_eap ''1'')) (demo_runs []) = ((Some r, None), s)
     \<and> table_of (sv_mgr s) (ep_SessionID r) = Some a \<and> s_State a = Active \<and> ep_SessionID r \<in> pgw_held demo_env (sv_events s)"
proof -
  from demo_first obtain r where r: "fst (run_state (ExchangeEAP demo_env (demo_eap ''1'')) (demo_runs [])) = (Some r, None)"
    "ep_State r = EAPStateSuccess" by blast
  let ?s = "snd (run_state (ExchangeEAP demo_env (demo_eap ''1'')) (demo_runs []))"
  have run: "run_state (ExchangeEAP demo_env (demo_eap ''1'')) (run_calls demo_env [] svc_new) = ((Some r, None), ?s)"
    using r(1) by (simp add: prod_eq_iff)
  from eap_success_in_service [OF demo_env_ok _ run r(2)] run show ?thesis by auto
qed

theorem eap_attach_succeeds_witness:
  "\<exists>r s i a. run_state (ExchangeEAP demo_env (demo_eap ''1'')) svc_new = ((Some r, None), s)
     \<and> table_of (sv_mgr s) = [i \<mapsto> a] \<and> s_State a = Active \<and> s_IMSI a = ''1''"
proof -
  have "strangers ''1'' (table_of (sv_mgr svc_new))" using demo_start by (simp add: strangers_def)
  moreover have "legal_calls []" "sv_mgr svc_new = after []" "m_next (sv_mgr svc_new) \<noteq> -1"
    by (simp_all add: legal_calls_def svc_new_def new_manager_def)
  ultimately show ?thesis
    using eap_attach_succeeds [OF demo_cooperative _ _ _ demo_answers(1-3) _ demo_answers(4), of "[]" svc_new "''1''"] demo_start
    by auto
qed

definition demo_state :: svc where
  "demo_state = svc_new\<lparr> sv_mgr := after sample_attach \<rparr>"

lemma demo_session:
  "\<exists>a. table_of (sv_mgr demo_state) = [sample_id \<mapsto> a] \<and> s_State a = Active \<and> s_RemoteGTPUTEID a = 9"
proof -
  have t: "table_of (sv_mgr demo_state) = table_of (after sample_attach)" by (simp add: demo_state_def)
  show ?thesis unfolding t after_table [OF sample_legal]
    by (simp add: sample_attach_def spec_transition_def spec_update_def sample_id_def [symmetric]
        validTransition.simps auth_result_fields_def Let_def) (rule exI, rule conjI, rule refl, simp)
qed

theorem detach_releases_all_witness:
  "\<exists>a t. table_of (sv_mgr demo_state) sample_id = Some a
     \<and> sv_events (snd (run_state (detachSessionLocked demo_env (clone a)) demo_state)) = [EvPGWDelete t, EvRouteRemove t]
     \<and> table_of (sv_mgr (snd (run_state (detachSessionLocked demo_env (clone a)) demo_state))) = Map.empty"
proof -
  obtain a where a: "table_of (sv_mgr demo_state) = [sample_id \<mapsto> a]" "s_State a = Active" using demo_session by blast
  let ?r = "run_state (detachSessionLocked demo_env (clone a)) demo_state"
  have "validTransition (s_State a) Terminating" "sv_mgr demo_state = after sample_attach" "sv_events demo_state = []"
    "\<not> w_user demo_env" "\<not> w_access demo_env" "\<not> w_ipam demo_env"
    by (simp_all add: a(2) validTransition.simps demo_state_def svc_new_def demo_env_def)
  with detach_releases_all [OF sample_legal, of demo_state sample_id a _ demo_env "fst ?r" "snd ?r"] a show ?thesis by auto
qed


theorem recovery_rate_limit_witness:
  "int (length (within_minute 200 (fst (fold (progress_step demo_config)
      [RBegin 100 ''a'', RFinish 110, RBegin 120 ''a'', RFinish 130, RBegin 140 ''a''] ([], no_progress))))) \<le> 3"
  using recovery_rate_limit [of "[RBegin 100 ''a'', RFinish 110, RBegin 120 ''a'', RFinish 130, RBegin 140 ''a'']" 200 demo_config]
  by (simp only: list.map event_time.simps sorted_simps list.set ball_simps) (simp add: demo_config_def del: fold_simps)

end
