(* ===== verification/Config.thy ===== *)
theory Config
  imports AccessSide GtpIE LifeBase
begin

text \<open>
  The configuration (\<open>internal/config/config.go\<close>): its records, the defaults, the validation and
  \<open>Load\<close>. The YAML decoder is third-party code: what it yields for a file is a parameter. Every
  Go \<open>int\<close> is only compared, so it is an \<open>int\<close> here; warnings also go to standard error, which is
  left out.
\<close>

section \<open>Records\<close>

definition STaVendorID :: u32 where "STaVendorID = 10415"
definition STaAuthApplicationID :: u32 where "STaAuthApplicationID = 16777250"
definition MinGTPEchoIntervalSeconds :: int where "MinGTPEchoIntervalSeconds = 60"

record twag_config =
  tc_Name :: string
  tc_Realm :: string

record logging_config =
  lc_Level :: string
  lc_File :: string

record access_config =
  xc_Interface :: string
  xc_GatewayIP :: string
  xc_Netmask :: string
  xc_DNS :: "string list"
  xc_DHCP :: dhcp_config
  xc_ARPProxy :: arp_config
  xc_Forwarding :: forwarding_config

record radius_auth_cache_config =
  rac_Enabled :: bool
  rac_DefaultTTLSeconds :: int
  rac_MaxTTLSeconds :: int

record radius_access_accept_config =
  raa_SessionTimeoutSeconds :: int
  raa_TerminationAction :: string
  raa_IdleTimeoutSeconds :: int

record radius_accounting_config =
  rad_Enabled :: bool
  rad_ListenAddr :: string
  rad_Secret :: string
  rad_ClearSessionOnStop :: bool
  rad_ClearAuthCacheOnStop :: bool
  rad_InterimUpdateLiveness :: bool
  rad_AccountingOffAction :: string
  rad_StartWithoutSessionAction :: string
  rad_StartWithoutAuthAction :: string

record dynamic_authorization_config =
  dac_DefaultPort :: int
  dac_Secret :: string
  dac_PreferDiscoveredNAS :: bool

record radius_config =
  rc_Enabled :: bool
  rc_ListenAddr :: string
  rc_Secret :: string
  rc_VLANID :: int
  rc_AllowedSourceSubnets :: "string list"
  rc_AuthCache :: radius_auth_cache_config
  rc_AccessAccept :: radius_access_accept_config
  rc_Accounting :: radius_accounting_config
  rc_DynamicAuthorization :: dynamic_authorization_config

record sta_config =
  st_OriginHost :: string
  st_OriginRealm :: string
  st_DestinationRealm :: string
  st_DestinationHost :: string
  st_PeerAddr :: string
  st_VendorID :: u32
  st_AuthApplicationID :: u32

record subscriber_config =
  su_DefaultAPN :: string
  su_DefaultRealm :: string

record ipam_config =
  im_Pool :: string
  im_Gateway :: string
  im_DNS :: "string list"

record gtp_echo_config =
  ec_Enabled :: bool
  ec_IntervalSeconds :: int
  ec_TimeoutSeconds :: int
  ec_MaxFailures :: int
  ec_StartupProbe :: bool

record gtp_user_echo_config =
  ue_Enabled :: bool
  ue_Mode :: string
  ue_IntervalSeconds :: int
  ue_TimeoutSeconds :: int
  ue_MaxFailures :: int
  ue_StartupProbe :: bool
  ue_RequireKernelSupport :: bool

record gtp_config =
  gc_LocalGTPCIP :: string
  gc_LocalGTPUIP :: string
  gc_RemotePGWGTPCIP :: string
  gc_RemotePGWGTPUIP :: string
  gc_APN :: string
  gc_ChargingCharacteristics :: string
  gc_KernelInterface :: string
  gc_Echo :: gtp_echo_config
  gc_ControlEcho :: gtp_echo_config
  gc_UserEcho :: gtp_user_echo_config
  gc_legacyEchoSet :: bool
  gc_controlEchoSet :: bool
  gc_userEchoSet :: bool

record accounting_start_recovery_config =
  as_Enabled :: bool
  as_CooldownSeconds :: int
  as_MaxAttemptsPerMinute :: int

record radius_disconnect_config =
  rd_Enabled :: bool
  rd_NASPort :: int
  rd_Secret :: string
  rd_TimeoutSeconds :: int
  rd_Retries :: int
  rd_RequestType :: string
  rd_WaitForAccountingStop :: bool
  rd_AccountingStopTimeoutSeconds :: int
  rd_FallbackToRecoveryTombstone :: bool

record recovery_config =
  vc_Enabled :: bool
  vc_ReasonGTPUError :: bool
  vc_RecoveryWindowSeconds :: int
  vc_StaleClientGraceSeconds :: int
  vc_CleanupOnDuplicateAttach :: bool
  vc_AllowSameMACReattach :: bool
  vc_RejectOldDHCPIP :: bool
  vc_DHCPStaleRequestAction :: string
  vc_RadiusDisconnect :: radius_disconnect_config
  vc_AccountingStartRecovery :: accounting_start_recovery_config

record post_activation_config =
  pa_Enabled :: bool
  pa_FailAction :: string
  pa_FirstPacketTimeoutSeconds :: int

record lifecycle_config =
  ly_DuplicateAttachPolicy :: string
  ly_DuplicateAttachCleanupTimeoutSeconds :: int
  ly_SuppressDuplicateCreateSession :: bool
  ly_PerSubscriberLockTimeoutSeconds :: int
  ly_PostActivationValidation :: post_activation_config

record routing_config =
  ro_EnableIPForwarding :: bool
  ro_DisableRPFilter :: bool
  ro_PolicyRouting :: bool
  ro_PolicyTable :: int
  ro_PolicyPriority :: int
  ro_InstallRoutes :: bool

record config =
  c_TWAG :: twag_config
  c_Logging :: logging_config
  c_Access :: access_config
  c_Radius :: radius_config
  c_STa :: sta_config              \<comment> \<open>\<open>AAA.STa\<close>\<close>
  c_Subscriber :: subscriber_config
  c_GTP :: gtp_config
  c_Recovery :: recovery_config
  c_Lifecycle :: lifecycle_config
  c_Routing :: routing_config
  c_IPAM :: ipam_config
  c_Warnings :: "string list"

section \<open>\<open>Default\<close>\<close>

definition default_access :: access_config where
  "default_access = \<lparr> xc_Interface = [], xc_GatewayIP = [], xc_Netmask = ''255.255.255.0'', xc_DNS = [],
     xc_DHCP = \<lparr> dc_Enabled = False, dc_RequireAuthorizedSession = True, dc_RecoverFromAuthCache = True,
       dc_LeaseTimeSeconds = 600, dc_RenewalTimeSeconds = 300, dc_RebindingTimeSeconds = 525,
       dc_Interface = [], dc_Mode = ''proxy'', dc_Netmask = [], dc_Router = [], dc_ServerIdentifier = [],
       dc_DNS = [], dc_StaleRequestAction = [] \<rparr>,
     xc_ARPProxy = \<lparr> ac_Enabled = False, ac_Interface = [], ac_GatewayIP = [],
       ac_RequireAuthorizedSession = True \<rparr>,
     xc_Forwarding = \<lparr> fc_Enabled = False, fc_Interface = [], fc_RequireAuthorizedSession = True,
       fc_VirtualGatewayIP = [] \<rparr> \<rparr>"

definition default_radius :: radius_config where
  "default_radius = \<lparr> rc_Enabled = True, rc_ListenAddr = [], rc_Secret = [], rc_VLANID = 0,
     rc_AllowedSourceSubnets = [],
     rc_AuthCache = \<lparr> rac_Enabled = True, rac_DefaultTTLSeconds = 3600, rac_MaxTTLSeconds = 86400 \<rparr>,
     rc_AccessAccept = \<lparr> raa_SessionTimeoutSeconds = 3600, raa_TerminationAction = ''radius_request'',
       raa_IdleTimeoutSeconds = 0 \<rparr>,
     rc_Accounting = \<lparr> rad_Enabled = False, rad_ListenAddr = ''0.0.0.0:1813'', rad_Secret = [],
       rad_ClearSessionOnStop = True, rad_ClearAuthCacheOnStop = False, rad_InterimUpdateLiveness = True,
       rad_AccountingOffAction = ''mark_at_risk'', rad_StartWithoutSessionAction = ''recover_if_auth_valid'',
       rad_StartWithoutAuthAction = ''disconnect'' \<rparr>,
     rc_DynamicAuthorization = \<lparr> dac_DefaultPort = 3799, dac_Secret = [], dac_PreferDiscoveredNAS = True \<rparr> \<rparr>"

definition no_echo :: gtp_echo_config where
  "no_echo = \<lparr> ec_Enabled = False, ec_IntervalSeconds = 0, ec_TimeoutSeconds = 0, ec_MaxFailures = 0,
     ec_StartupProbe = False \<rparr>"

definition default_gtp :: gtp_config where
  "default_gtp = \<lparr> gc_LocalGTPCIP = [], gc_LocalGTPUIP = [], gc_RemotePGWGTPCIP = [], gc_RemotePGWGTPUIP = [],
     gc_APN = [], gc_ChargingCharacteristics = ''0800'', gc_KernelInterface = ''gtp0'', gc_Echo = no_echo,
     gc_ControlEcho = \<lparr> ec_Enabled = True, ec_IntervalSeconds = MinGTPEchoIntervalSeconds,
       ec_TimeoutSeconds = 5, ec_MaxFailures = 3, ec_StartupProbe = True \<rparr>,
     gc_UserEcho = \<lparr> ue_Enabled = False, ue_Mode = ''kernel_netlink'',
       ue_IntervalSeconds = MinGTPEchoIntervalSeconds, ue_TimeoutSeconds = 5, ue_MaxFailures = 3,
       ue_StartupProbe = False, ue_RequireKernelSupport = False \<rparr>,
     gc_legacyEchoSet = False, gc_controlEchoSet = False, gc_userEchoSet = False \<rparr>"

definition default_recovery :: recovery_config where
  "default_recovery = \<lparr> vc_Enabled = True, vc_ReasonGTPUError = True, vc_RecoveryWindowSeconds = 60,
     vc_StaleClientGraceSeconds = 10, vc_CleanupOnDuplicateAttach = True, vc_AllowSameMACReattach = True,
     vc_RejectOldDHCPIP = True, vc_DHCPStaleRequestAction = ''nak'',
     vc_RadiusDisconnect = \<lparr> rd_Enabled = False, rd_NASPort = 3799, rd_Secret = [], rd_TimeoutSeconds = 3,
       rd_Retries = 2, rd_RequestType = ''disconnect'', rd_WaitForAccountingStop = False,
       rd_AccountingStopTimeoutSeconds = 10, rd_FallbackToRecoveryTombstone = True \<rparr>,
     vc_AccountingStartRecovery = \<lparr> as_Enabled = True, as_CooldownSeconds = 10,
       as_MaxAttemptsPerMinute = 3 \<rparr> \<rparr>"

definition default_lifecycle :: lifecycle_config where
  "default_lifecycle = \<lparr> ly_DuplicateAttachPolicy = ''reuse_existing'',
     ly_DuplicateAttachCleanupTimeoutSeconds = 5, ly_SuppressDuplicateCreateSession = True,
     ly_PerSubscriberLockTimeoutSeconds = 10,
     ly_PostActivationValidation = \<lparr> pa_Enabled = True, pa_FailAction = ''trigger_recovery'',
       pa_FirstPacketTimeoutSeconds = 0 \<rparr> \<rparr>"

definition Default :: config where
  "Default = \<lparr> c_TWAG = \<lparr> tc_Name = [], tc_Realm = [] \<rparr>,
     c_Logging = \<lparr> lc_Level = ''info'', lc_File = ''/var/log/vectorcore/twag/twag.log'' \<rparr>,
     c_Access = default_access, c_Radius = default_radius,
     c_STa = \<lparr> st_OriginHost = [], st_OriginRealm = [], st_DestinationRealm = [], st_DestinationHost = [],
       st_PeerAddr = [], st_VendorID = STaVendorID, st_AuthApplicationID = STaAuthApplicationID \<rparr>,
     c_Subscriber = \<lparr> su_DefaultAPN = [], su_DefaultRealm = [] \<rparr>, c_GTP = default_gtp,
     c_Recovery = default_recovery, c_Lifecycle = default_lifecycle,
     c_Routing = \<lparr> ro_EnableIPForwarding = False, ro_DisableRPFilter = False, ro_PolicyRouting = False,
       ro_PolicyTable = 0, ro_PolicyPriority = 0, ro_InstallRoutes = True \<rparr>,
     c_IPAM = \<lparr> im_Pool = [], im_Gateway = [], im_DNS = [] \<rparr>, c_Warnings = [] \<rparr>"

section \<open>\<open>ApplyDefaults\<close>\<close>

definition or_str :: "string \<Rightarrow> string \<Rightarrow> string" where
  \<comment> \<open>\<open>if x == "" { x = d }\<close>\<close>
  "or_str x d = (if x = [] then d else x)"

definition or_int :: "int \<Rightarrow> int \<Rightarrow> int" where
  "or_int x d = (if x = 0 then d else x)"

definition or_u32 :: "u32 \<Rightarrow> u32 \<Rightarrow> u32" where
  "or_u32 x d = (if x = 0 then d else x)"

definition warnGTPEchoIntervalClamped :: "string \<Rightarrow> int \<Rightarrow> string" where
  "warnGTPEchoIntervalClamped path configured = path @ ''.interval_seconds configured below ''
     @ dec_int MinGTPEchoIntervalSeconds @ '' seconds; clamping configured value '' @ dec_int configured
     @ '' to '' @ dec_int MinGTPEchoIntervalSeconds @ '' to avoid sending GTP Echo too frequently''"

definition clamp_interval :: "int \<Rightarrow> int" where
  "clamp_interval i = (if i = 0 then MinGTPEchoIntervalSeconds
     else if 0 < i \<and> i < MinGTPEchoIntervalSeconds then MinGTPEchoIntervalSeconds else i)"

definition clamp_warnings :: "string \<Rightarrow> int \<Rightarrow> string list" where
  "clamp_warnings path i = (if 0 < i \<and> i < MinGTPEchoIntervalSeconds
     then [warnGTPEchoIntervalClamped path i] else [])"

definition normalizeGTPEchoConfig ::
  "gtp_echo_config \<Rightarrow> string \<Rightarrow> string list \<Rightarrow> gtp_echo_config \<times> string list" where
  "normalizeGTPEchoConfig cfg path warnings =
     (cfg\<lparr> ec_IntervalSeconds := clamp_interval (ec_IntervalSeconds cfg),
        ec_TimeoutSeconds := or_int (ec_TimeoutSeconds cfg) 5,
        ec_MaxFailures := or_int (ec_MaxFailures cfg) 3 \<rparr>,
      warnings @ clamp_warnings path (ec_IntervalSeconds cfg))"

definition normalizeGTPUserEchoConfig ::
  "gtp_user_echo_config \<Rightarrow> string \<Rightarrow> string list \<Rightarrow> gtp_user_echo_config \<times> string list" where
  "normalizeGTPUserEchoConfig cfg path warnings =
     (cfg\<lparr> ue_Mode := or_str (ue_Mode cfg) ''kernel_netlink'',
        ue_IntervalSeconds := clamp_interval (ue_IntervalSeconds cfg),
        ue_TimeoutSeconds := or_int (ue_TimeoutSeconds cfg) 5,
        ue_MaxFailures := or_int (ue_MaxFailures cfg) 3 \<rparr>,
      warnings @ clamp_warnings path (ue_IntervalSeconds cfg))"

definition defaults_logging :: "logging_config \<Rightarrow> logging_config" where
  "defaults_logging l = l\<lparr> lc_Level := or_str (lc_Level l) ''info'',
     lc_File := or_str (lc_File l) ''/var/log/vectorcore/twag/twag.log'' \<rparr>"

definition defaults_dhcp :: "access_config \<Rightarrow> string \<Rightarrow> dhcp_config \<Rightarrow> dhcp_config" where
  "defaults_dhcp a stale d = d\<lparr> dc_Mode := or_str (dc_Mode d) ''proxy'', dc_RecoverFromAuthCache := True,
     dc_Interface := xc_Interface a, dc_Netmask := xc_Netmask a, dc_Router := xc_GatewayIP a,
     dc_ServerIdentifier := xc_GatewayIP a, dc_DNS := xc_DNS a, dc_StaleRequestAction := stale,
     dc_LeaseTimeSeconds := or_u32 (dc_LeaseTimeSeconds d) 600,
     dc_RenewalTimeSeconds := or_u32 (dc_RenewalTimeSeconds d) 300,
     dc_RebindingTimeSeconds := or_u32 (dc_RebindingTimeSeconds d) 525 \<rparr>"

definition defaults_access :: "string \<Rightarrow> access_config \<Rightarrow> access_config" where
  "defaults_access stale a0 = (let a = a0\<lparr> xc_Netmask := or_str (xc_Netmask a0) ''255.255.255.0'' \<rparr> in
     a\<lparr> xc_DHCP := defaults_dhcp a stale (xc_DHCP a),
        xc_ARPProxy := (xc_ARPProxy a)\<lparr> ac_Interface := xc_Interface a, ac_GatewayIP := xc_GatewayIP a \<rparr>,
        xc_Forwarding := (xc_Forwarding a)\<lparr> fc_Interface := xc_Interface a,
          fc_VirtualGatewayIP := xc_GatewayIP a \<rparr> \<rparr>)"

definition defaults_auth_cache :: "int \<Rightarrow> radius_auth_cache_config \<Rightarrow> radius_auth_cache_config" where
  "defaults_auth_cache sessionTimeout a =
     (let ttl = or_int (or_int (rac_DefaultTTLSeconds a) sessionTimeout) 3600;
          maxTTL = or_int (rac_MaxTTLSeconds a) 86400
      in a\<lparr> rac_Enabled := True, rac_MaxTTLSeconds := maxTTL,
            rac_DefaultTTLSeconds := (if maxTTL < ttl then maxTTL else ttl) \<rparr>)"

definition defaults_accounting :: "string \<Rightarrow> radius_accounting_config \<Rightarrow> radius_accounting_config" where
  "defaults_accounting secret a = a\<lparr> rad_ListenAddr := or_str (rad_ListenAddr a) ''0.0.0.0:1813'',
     rad_Secret := or_str (rad_Secret a) secret, rad_ClearSessionOnStop := True,
     rad_InterimUpdateLiveness := True,
     rad_AccountingOffAction := or_str (rad_AccountingOffAction a) ''mark_at_risk'',
     rad_StartWithoutSessionAction := or_str (rad_StartWithoutSessionAction a) ''recover_if_auth_valid'',
     rad_StartWithoutAuthAction := or_str (rad_StartWithoutAuthAction a) ''disconnect'' \<rparr>"

definition defaults_radius :: "radius_config \<Rightarrow> radius_config" where
  "defaults_radius r =
     (let acc = (rc_AccessAccept r)\<lparr>
          raa_SessionTimeoutSeconds := or_int (raa_SessionTimeoutSeconds (rc_AccessAccept r)) 3600,
          raa_TerminationAction := or_str (raa_TerminationAction (rc_AccessAccept r)) ''radius_request'' \<rparr>;
          dyn = rc_DynamicAuthorization r
      in r\<lparr> rc_ListenAddr := or_str (rc_ListenAddr r) ''0.0.0.0:1812'', rc_VLANID := or_int (rc_VLANID r) 10,
            rc_AccessAccept := acc,
            rc_AuthCache := defaults_auth_cache (raa_SessionTimeoutSeconds acc) (rc_AuthCache r),
            rc_Accounting := defaults_accounting (rc_Secret r) (rc_Accounting r),
            rc_DynamicAuthorization := dyn\<lparr> dac_DefaultPort := or_int (dac_DefaultPort dyn) 3799,
              dac_Secret := or_str (dac_Secret dyn) (rc_Secret r), dac_PreferDiscoveredNAS := True \<rparr> \<rparr>)"

definition radius_warnings :: "radius_config \<Rightarrow> string list" where
  "radius_warnings r = (if rc_AllowedSourceSubnets r = []
     then [''RADIUS allowed_source_subnets is empty; accepting RADIUS from any source''] else [])"

definition defaults_gtp :: "string list \<Rightarrow> gtp_config \<Rightarrow> gtp_config \<times> string list" where
  "defaults_gtp warnings g =
     (let legacy = gc_legacyEchoSet g \<and> \<not> gc_controlEchoSet g;
          (ctl, w1) = normalizeGTPEchoConfig (if legacy then gc_Echo g else gc_ControlEcho g)
            (if legacy then ''gtp.echo'' else ''gtp.control_echo'') warnings;
          (usr, w2) = normalizeGTPUserEchoConfig (gc_UserEcho g) ''gtp.user_echo'' w1;
          w3 = (if ue_Enabled usr \<and> ue_IntervalSeconds usr \<le> ue_TimeoutSeconds usr
                then w2 @ [''gtp.user_echo.timeout_seconds should be less than interval_seconds''] else w2)
      in (g\<lparr> gc_ChargingCharacteristics := or_str (gc_ChargingCharacteristics g) ''0800'',
             gc_KernelInterface := or_str (gc_KernelInterface g) ''gtp0'',
             gc_ControlEcho := ctl, gc_Echo := ctl, gc_UserEcho := usr \<rparr>, w3))"

definition stale_request_action :: "recovery_config \<Rightarrow> string" where
  "stale_request_action r = (if vc_RejectOldDHCPIP r then ''nak'' else or_str (vc_DHCPStaleRequestAction r) ''nak'')"

definition defaults_recovery :: "bool \<Rightarrow> recovery_config \<Rightarrow> recovery_config" where
  \<comment> \<open>\<open>acct\<close>: accounting is enabled\<close>
  "defaults_recovery acct r =
     (let d = vc_RadiusDisconnect r; s = vc_AccountingStartRecovery r in
      r\<lparr> vc_RecoveryWindowSeconds := or_int (vc_RecoveryWindowSeconds r) 60,
         vc_StaleClientGraceSeconds := or_int (vc_StaleClientGraceSeconds r) 10,
         vc_DHCPStaleRequestAction := stale_request_action r,
         vc_RadiusDisconnect := d\<lparr> rd_NASPort := or_int (rd_NASPort d) 3799,
           rd_TimeoutSeconds := or_int (rd_TimeoutSeconds d) 3, rd_Retries := or_int (rd_Retries d) 2,
           rd_RequestType := or_str (rd_RequestType d) ''disconnect'',
           rd_WaitForAccountingStop := acct \<or> rd_WaitForAccountingStop d,
           rd_AccountingStopTimeoutSeconds := or_int (rd_AccountingStopTimeoutSeconds d) 10,
           rd_FallbackToRecoveryTombstone := True \<rparr>,
         vc_AccountingStartRecovery := s\<lparr> as_Enabled := True,
           as_CooldownSeconds := or_int (as_CooldownSeconds s) 10,
           as_MaxAttemptsPerMinute := or_int (as_MaxAttemptsPerMinute s) 3 \<rparr> \<rparr>)"

definition defaults_lifecycle :: "lifecycle_config \<Rightarrow> lifecycle_config" where
  "defaults_lifecycle l = (let p = ly_PostActivationValidation l in
     l\<lparr> ly_DuplicateAttachPolicy := or_str (ly_DuplicateAttachPolicy l) ''reuse_existing'',
        ly_DuplicateAttachCleanupTimeoutSeconds := or_int (ly_DuplicateAttachCleanupTimeoutSeconds l) 5,
        ly_PerSubscriberLockTimeoutSeconds := or_int (ly_PerSubscriberLockTimeoutSeconds l) 10,
        ly_PostActivationValidation := p\<lparr> pa_Enabled := True,
          pa_FailAction := or_str (pa_FailAction p) ''trigger_recovery'' \<rparr> \<rparr>)"

definition defaults_routing :: "routing_config \<Rightarrow> routing_config" where
  "defaults_routing r0 = (let r = r0\<lparr> ro_InstallRoutes := True \<rparr> in
     if ro_PolicyRouting r
     then r\<lparr> ro_PolicyTable := or_int (ro_PolicyTable r) 200,
             ro_PolicyPriority := or_int (ro_PolicyPriority r) 10000 \<rparr>
     else r)"

definition ApplyDefaults :: "config \<Rightarrow> config" where
  "ApplyDefaults c =
     (let radius = defaults_radius (c_Radius c);
          recovery = defaults_recovery (rad_Enabled (rc_Accounting radius)) (c_Recovery c);
          (gtp, warnings) = defaults_gtp (radius_warnings radius) (c_GTP c)
      in c\<lparr> c_Logging := defaults_logging (c_Logging c),
            c_Access := defaults_access (vc_DHCPStaleRequestAction recovery) (c_Access c),
            c_Radius := radius, c_GTP := gtp, c_Recovery := recovery,
            c_Lifecycle := defaults_lifecycle (c_Lifecycle c),
            c_Routing := defaults_routing (c_Routing c),
            c_STa := (c_STa c)\<lparr> st_VendorID := STaVendorID, st_AuthApplicationID := STaAuthApplicationID \<rparr>,
            c_Warnings := warnings \<rparr>)"

section \<open>\<open>Validate\<close>\<close>

definition addr_error :: "string \<Rightarrow> string \<Rightarrow> string" where
  \<comment> \<open>the text of a \<open>net.AddrError\<close>\<close>
  "addr_error addr why = (if addr \<noteq> [] then ''address '' @ addr @ '': '' else []) @ why"

definition quoted :: "char \<Rightarrow> string" where
  "quoted c = [CHR 0x27, c, CHR 0x27]"

definition last_colon :: "string \<Rightarrow> nat option" where
  "last_colon s = (let t = takeWhile (\<lambda>c. c \<noteq> CHR '':'') (rev s) in
     if length t = length s then None else Some (length s - length t - 1))"

definition SplitHostPort :: "string \<Rightarrow> string + (string \<times> string)" where
  \<comment> \<open>\<open>net.SplitHostPort\<close>; \<open>Inl\<close> is the text of the error\<close>
  "SplitHostPort hp = (let missingPort = ''missing port in address'';
       tooManyColons = ''too many colons in address'' in
     case last_colon hp of None \<Rightarrow> Inl (addr_error hp missingPort)
     | Some i \<Rightarrow>
        let bracket = (hd hp = CHR ''['');
            e = length (takeWhile (\<lambda>c. c \<noteq> CHR '']'') hp);
            host = (if bracket then take (e - 1) (tl hp) else take i hp);
            j = (if bracket then 1 else 0); k = (if bracket then e + 1 else 0)
        in if bracket \<and> e = length hp then Inl (addr_error hp (''missing '' @ quoted (CHR '']'') @ '' in address''))
           else if bracket \<and> e + 1 = length hp then Inl (addr_error hp missingPort)
           else if bracket \<and> e + 1 \<noteq> i then
             Inl (addr_error hp (if hp ! (e + 1) = CHR '':'' then tooManyColons else missingPort))
           else if \<not> bracket \<and> CHR '':'' \<in> set host then Inl (addr_error hp tooManyColons)
           else if CHR ''['' \<in> set (drop j hp) then Inl (addr_error hp (''unexpected '' @ quoted (CHR ''['') @ '' in address''))
           else if CHR '']'' \<in> set (drop k hp) then Inl (addr_error hp (''unexpected '' @ quoted (CHR '']'') @ '' in address''))
           else Inr (host, drop (i + 1) hp))"

definition req :: "bool \<Rightarrow> string \<Rightarrow> string list" where
  \<comment> \<open>\<open>if !b { errs = append(errs, message) }\<close>\<close>
  "req b message = (if b then [] else [message])"

definition req_all :: "('a \<Rightarrow> bool) \<Rightarrow> (nat \<Rightarrow> string) \<Rightarrow> 'a list \<Rightarrow> string list" where
  \<comment> \<open>the loop over an indexed list\<close>
  "req_all ok message xs = concat (map (\<lambda>(i, x). req (ok x) (message i)) (enumerate 0 xs))"

definition validTwoOctetHex :: "string \<Rightarrow> bool" where
  \<comment> \<open>a string of hexadecimal digits has as many runes as bytes\<close>
  "validTwoOctetHex s \<longleftrightarrow> length s = 4 \<and> list_all (\<lambda>r. (48 \<le> code_of r \<and> code_of r \<le> 57)
     \<or> (97 \<le> code_of r \<and> code_of r \<le> 102) \<or> (65 \<le> code_of r \<and> code_of r \<le> 70)) s"

definition validateSTa :: "sta_config \<Rightarrow> string list" where
  "validateSTa s = req (st_OriginHost s \<noteq> []) ''aaa.sta.origin_host is required when aaa.mode is sta''
     @ req (st_OriginRealm s \<noteq> []) ''aaa.sta.origin_realm is required when aaa.mode is sta''
     @ req (st_DestinationRealm s \<noteq> []) ''aaa.sta.destination_realm is required when aaa.mode is sta''
     @ (if st_PeerAddr s = [] then [''aaa.sta.peer_addr is required when aaa.mode is sta'']
        else case SplitHostPort (st_PeerAddr s) of Inl e \<Rightarrow> [''aaa.sta.peer_addr is invalid: '' @ e]
          | Inr _ \<Rightarrow> [])"

definition validateRequiredIP :: "string \<Rightarrow> string \<Rightarrow> string list" where
  "validateRequiredIP name value = (if value = [] then [name @ '' is required when pgw.mode is gtp'']
     else if parse_ip value = None then [name @ '' is invalid''] else [])"

definition validateRequiredPlainIP :: "string \<Rightarrow> string \<Rightarrow> string list" where
  "validateRequiredPlainIP name value = (if value = [] then [name @ '' is required'']
     else if parse_ip value = None then [name @ '' is invalid''] else [])"

definition validate_access :: "access_config \<Rightarrow> string list" where
  "validate_access a = req (xc_Interface a \<noteq> []) ''access.interface is required''
     @ validateRequiredPlainIP ''access.gateway_ip'' (xc_GatewayIP a)
     @ validateRequiredPlainIP ''access.netmask'' (xc_Netmask a)
     @ req_all (\<lambda>dns. parse_ip dns \<noteq> None) (\<lambda>i. ''access.dns['' @ dec i @ ''] is invalid'') (xc_DNS a)
     @ (if dc_Enabled (xc_DHCP a) then
          req (dc_Interface (xc_DHCP a) \<noteq> []) ''access.dhcp interface defaulting failed''
          @ req (dc_Mode (xc_DHCP a) = ''proxy'') ''access.dhcp.mode must be proxy'' else [])
     @ (if ac_Enabled (xc_ARPProxy a) then
          req (ac_Interface (xc_ARPProxy a) \<noteq> []) ''access.arp_proxy interface defaulting failed'' else [])
     @ (if fc_Enabled (xc_Forwarding a) then
          req (fc_Interface (xc_Forwarding a) \<noteq> []) ''access.forwarding interface defaulting failed'' else [])"

definition validate_radius :: "radius_config \<Rightarrow> string list" where
  "validate_radius r = (let a = rc_AccessAccept r; n = rc_Accounting r; d = rc_DynamicAuthorization r in
     (if rc_Enabled r then
        req (rc_Secret r \<noteq> []) ''radius.secret is required when radius.enabled is true''
        @ req (rc_ListenAddr r \<noteq> []) ''radius.listen_addr is required when radius.enabled is true'' else [])
     @ req (1 \<le> rc_VLANID r \<and> rc_VLANID r \<le> 4094) ''radius.vlan_id must be between 1 and 4094''
     @ req (0 < raa_SessionTimeoutSeconds a)
         ''radius.access_accept.session_timeout_seconds must be greater than 0''
     @ req (raa_TerminationAction a \<in> {''radius_request'', ''default''})
         ''radius.access_accept.termination_action must be radius_request or default''
     @ req (0 \<le> raa_IdleTimeoutSeconds a)
         ''radius.access_accept.idle_timeout_seconds must be greater than or equal to 0''
     @ req_all (\<lambda>cidr. parse_cidr cidr \<noteq> None)
         (\<lambda>i. ''radius.allowed_source_subnets['' @ dec i @ ''] must be a valid CIDR'') (rc_AllowedSourceSubnets r)
     @ (if rad_Enabled n then
          req (rad_ListenAddr n \<noteq> []) ''radius.accounting.listen_addr is required when accounting.enabled is true''
          @ req (rad_Secret n \<noteq> []) ''radius.accounting.secret is required when accounting.enabled is true''
        else [])
     @ req (rad_AccountingOffAction n \<in> {''mark_at_risk'', ''clear_sessions'', ''ignore''})
         ''radius.accounting.accounting_off_action must be mark_at_risk, clear_sessions, or ignore''
     @ req (rad_StartWithoutSessionAction n \<in> {''recover_if_auth_valid'', ''disconnect'', ''ignore''})
         ''radius.accounting.start_without_session_action must be recover_if_auth_valid, disconnect, or ignore''
     @ req (rad_StartWithoutAuthAction n \<in> {''disconnect'', ''ignore'', ''log_only''})
         ''radius.accounting.start_without_auth_action must be disconnect, ignore, or log_only''
     @ req (0 \<le> dac_DefaultPort d \<and> dac_DefaultPort d \<le> 65535)
         ''radius.dynamic_authorization.default_port must be between 0 and 65535'')"

definition validate_gtp :: "gtp_config \<Rightarrow> string list" where
  "validate_gtp g = (let e = gc_ControlEcho g; u = gc_UserEcho g in
     validateRequiredIP ''gtp.local_gtpc_ip'' (gc_LocalGTPCIP g)
     @ validateRequiredIP ''gtp.local_gtpu_ip'' (gc_LocalGTPUIP g)
     @ validateRequiredIP ''gtp.remote_pgw_gtpc_ip'' (gc_RemotePGWGTPCIP g)
     @ validateRequiredIP ''gtp.remote_pgw_gtpu_ip'' (gc_RemotePGWGTPUIP g)
     @ req (validTwoOctetHex (gc_ChargingCharacteristics g))
         ''gtp.charging_characteristics must be exactly 4 hex characters''
     @ req (gc_KernelInterface g \<noteq> []) ''gtp.kernel_interface is required''
     @ req (0 < ec_IntervalSeconds e) ''gtp.control_echo.interval_seconds must be greater than 0''
     @ req (0 < ec_TimeoutSeconds e) ''gtp.control_echo.timeout_seconds must be greater than 0''
     @ req (0 < ec_MaxFailures e) ''gtp.control_echo.max_failures must be greater than 0''
     @ (if ue_Enabled u then
          req (ue_Mode u = ''kernel_netlink'') ''gtp.user_echo.mode must be kernel_netlink''
          @ req (0 < ue_IntervalSeconds u) ''gtp.user_echo.interval_seconds must be greater than 0''
          @ req (0 < ue_TimeoutSeconds u) ''gtp.user_echo.timeout_seconds must be greater than 0''
          @ req (0 < ue_MaxFailures u) ''gtp.user_echo.max_failures must be greater than 0''
        else []))"

definition validate_recovery :: "recovery_config \<Rightarrow> string list" where
  "validate_recovery r = (let d = vc_RadiusDisconnect r; s = vc_AccountingStartRecovery r in
     req (0 < vc_RecoveryWindowSeconds r) ''session_recovery.recovery_window_seconds must be greater than 0''
     @ req (0 < vc_StaleClientGraceSeconds r)
         ''session_recovery.stale_client_grace_seconds must be greater than 0''
     @ req (vc_DHCPStaleRequestAction r \<in> {''ignore'', ''nak''})
         ''session_recovery.dhcp_stale_request_action must be ignore or nak''
     @ (if rd_Enabled d then
          req (rd_Secret d \<noteq> []) ''session_recovery.radius_disconnect.secret is required when enabled'' else [])
     @ req (0 < rd_NASPort d \<and> rd_NASPort d \<le> 65535)
         ''session_recovery.radius_disconnect.nas_port must be between 1 and 65535''
     @ req (0 < rd_AccountingStopTimeoutSeconds d)
         ''session_recovery.radius_disconnect.accounting_stop_timeout_seconds must be greater than 0''
     @ req (0 < rd_TimeoutSeconds d) ''session_recovery.radius_disconnect.timeout_seconds must be greater than 0''
     @ req (0 \<le> rd_Retries d) ''session_recovery.radius_disconnect.retries must be greater than or equal to 0''
     @ req (rd_RequestType d \<in> {''disconnect'', ''coa''})
         ''session_recovery.radius_disconnect.request_type must be disconnect or coa''
     @ req (0 < as_CooldownSeconds s)
         ''session_recovery.accounting_start_recovery.cooldown_seconds must be greater than 0''
     @ req (0 < as_MaxAttemptsPerMinute s)
         ''session_recovery.accounting_start_recovery.max_attempts_per_minute must be greater than 0'')"

definition validate_lifecycle :: "lifecycle_config \<Rightarrow> string list" where
  "validate_lifecycle l = (let p = ly_PostActivationValidation l in
     req (ly_DuplicateAttachPolicy l \<in> {''reuse_existing'', ''replace_existing''})
       ''session_lifecycle.duplicate_attach_policy must be reuse_existing or replace_existing''
     @ req (0 < ly_DuplicateAttachCleanupTimeoutSeconds l)
         ''session_lifecycle.duplicate_attach_cleanup_timeout_seconds must be greater than 0''
     @ req (0 < ly_PerSubscriberLockTimeoutSeconds l)
         ''session_lifecycle.per_subscriber_lock_timeout_seconds must be greater than 0''
     @ req (pa_FailAction p \<in> {''trigger_recovery'', ''reject_access'', ''log_only''})
         ''session_lifecycle.post_activation_validation.fail_action must be trigger_recovery, reject_access, or log_only''
     @ req (0 \<le> pa_FirstPacketTimeoutSeconds p)
         ''session_lifecycle.post_activation_validation.first_packet_timeout_seconds must be greater than or equal to 0'')"

definition validate_routing :: "routing_config \<Rightarrow> string list" where
  "validate_routing r = (if ro_PolicyRouting r then
       req (0 < ro_PolicyTable r) ''routing.policy_table must be greater than 0 when routing.policy_routing is true''
       @ req (0 < ro_PolicyPriority r)
           ''routing.policy_priority must be greater than 0 when routing.policy_routing is true''
     else [])"

definition Validate :: "config \<Rightarrow> string option" where
  \<comment> \<open>\<open>None\<close>: no error\<close>
  "Validate c = (let errs =
       req (tc_Name (c_TWAG c) \<noteq> []) ''twag.name is required''
       @ req (tc_Realm (c_TWAG c) \<noteq> []) ''twag.realm is required''
       @ req (lc_Level (c_Logging c) \<in> {''debug'', ''info'', ''warn'', ''warning'', ''error''})
           ''logging.level must be one of debug, info, warn, error''
       @ validate_access (c_Access c) @ validate_radius (c_Radius c) @ validateSTa (c_STa c)
       @ validate_gtp (c_GTP c) @ validate_recovery (c_Recovery c)
       @ validate_lifecycle (c_Lifecycle c) @ validate_routing (c_Routing c)
     in if errs = [] then None else Some (''config validation failed: '' @ join ''; '' errs))"

section \<open>\<open>Load\<close>\<close>

fun echo_keys :: "string list \<Rightarrow> gtp_config \<Rightarrow> gtp_config" where
  \<comment> \<open>the loop of \<open>UnmarshalYAML\<close> over the values of \<open>value.Content\<close>, keys at even places\<close>
  "echo_keys (k # v # content) g = echo_keys content
     (if k = ''echo'' then g\<lparr> gc_legacyEchoSet := True \<rparr>
      else if k = ''control_echo'' then g\<lparr> gc_controlEchoSet := True \<rparr>
      else if k = ''user_echo'' then g\<lparr> gc_userEchoSet := True \<rparr> else g)"
| "echo_keys _ g = g"

definition UnmarshalYAML :: "string + gtp_config \<Rightarrow> string list \<Rightarrow> gtp_config \<Rightarrow> string option \<times> gtp_config" where
  \<comment> \<open>\<open>decoded\<close>: what the library makes of the node, starting from \<open>g\<close>\<close>
  "UnmarshalYAML decoded content g = (case decoded of Inl e \<Rightarrow> (Some e, g)
     | Inr d \<Rightarrow> (None, echo_keys content d))"

definition Load :: "string + bytes \<Rightarrow> (bytes \<Rightarrow> config \<Rightarrow> string + config) \<Rightarrow> string + config" where
  \<comment> \<open>\<open>file\<close>: what \<open>os.ReadFile\<close> returns; \<open>decode\<close>: the YAML decoder with \<open>KnownFields\<close>\<close>
  "Load file decode = (case file of Inl e \<Rightarrow> Inl (''read config: '' @ e)
     | Inr b \<Rightarrow> (case decode b Default of Inl e \<Rightarrow> Inl (''parse config: '' @ e)
        | Inr cfg \<Rightarrow> let c = ApplyDefaults cfg in
           case Validate c of Some e \<Rightarrow> Inl e | None \<Rightarrow> Inr c))"

definition service_config :: "config \<Rightarrow> svc_config" where
  \<comment> \<open>what the lifecycle service reads of the configuration it is created with\<close>
  "service_config c = (let d = vc_RadiusDisconnect (c_Recovery c); n = rc_Accounting (c_Radius c);
       s = vc_AccountingStartRecovery (c_Recovery c); l = c_Lifecycle c in
     \<lparr> cf_AccessInterface = xc_Interface (c_Access c), cf_DefaultAPN = su_DefaultAPN (c_Subscriber c),
       cf_DefaultRealm = su_DefaultRealm (c_Subscriber c), cf_GTPAPN = gc_APN (c_GTP c),
       cf_AuthCacheEnabled = rac_Enabled (rc_AuthCache (c_Radius c)),
       cf_DefaultTTLSeconds = rac_DefaultTTLSeconds (rc_AuthCache (c_Radius c)),
       cf_MaxTTLSeconds = rac_MaxTTLSeconds (rc_AuthCache (c_Radius c)),
       cf_SessionTimeoutSeconds = raa_SessionTimeoutSeconds (rc_AccessAccept (c_Radius c)),
       cf_ClearSessionOnStop = rad_ClearSessionOnStop n, cf_ClearAuthCacheOnStop = rad_ClearAuthCacheOnStop n,
       cf_StartWithoutSessionAction = rad_StartWithoutSessionAction n,
       cf_StartWithoutAuthAction = rad_StartWithoutAuthAction n,
       cf_RecoveryEnabled = vc_Enabled (c_Recovery c), cf_ReasonGTPUError = vc_ReasonGTPUError (c_Recovery c),
       cf_RecoveryWindowSeconds = vc_RecoveryWindowSeconds (c_Recovery c),
       cf_AllowSameMACReattach = vc_AllowSameMACReattach (c_Recovery c),
       cf_DisconnectEnabled = rd_Enabled d, cf_DisconnectRequestType = rd_RequestType d,
       cf_WaitForAccountingStop = rd_WaitForAccountingStop d,
       cf_FallbackToTombstone = rd_FallbackToRecoveryTombstone d,
       cf_StartRecoveryEnabled = as_Enabled s, cf_CooldownSeconds = as_CooldownSeconds s,
       cf_MaxAttemptsPerMinute = as_MaxAttemptsPerMinute s,
       cf_DuplicateAttachPolicy = ly_DuplicateAttachPolicy l,
       cf_PostValidationEnabled = pa_Enabled (ly_PostActivationValidation l),
       cf_FailAction = pa_FailAction (ly_PostActivationValidation l),
       cf_InstallRoutes = ro_InstallRoutes (c_Routing c) \<rparr>)"

end
