(* ===== verification/GtpClient.thy ===== *)
theory GtpClient
  imports Config GtpU
begin

text \<open>
  The GTPv2-C client (\<open>internal/gtp/gtp.go\<close>; \<open>internal/pgw/gtp.go\<close> passes its calls on unchanged).
  A call that waits for a response is split where the code blocks: \<open>begin_call\<close> runs up to the
  \<open>select\<close> of \<open>doTransaction\<close>, \<open>end_call\<close> from there. The transaction objects are kept in a store
  that both the pending table and the waiting call point into, and each channel of capacity one is
  an optional value. In between any other step may happen (\<open>gtpc_step\<close>): other calls, packets,
  closing. What \<open>WriteToUDP\<close> reports, the context and the clock are arguments of a step.
\<close>

section \<open>State\<close>

datatype peer_health = PeerHealthUnknown | PeerHealthHealthy | PeerHealthUnhealthy

datatype ctx_err = CtxCanceled | CtxDeadlineExceeded

datatype gtpc_err =
    ContextErr ctx_err
  | SessionIsRequired
  | NoControlTEID
  | ClientClosed
  | DuplicateSequence u32
  | CodecErr gtp_codec_err
  | SendFailed
  | ResponseTypeMismatch string u32 byte byte
  | TransactionTimeout string u32
  | TransactionCanceled string u32 ctx_err
  | UnexpectedType string byte
  | GTPRejected gtp_error
  | ConfigInvalid string
  | BindFailed

record gtpc_transaction =
  tx_sequence :: u32
  tx_requestType :: byte
  tx_expectedType :: byte
  tx_responseCh :: "gtpv2_message option"
  tx_errCh :: "gtpc_err option"
  tx_description :: string

record gtpc_client =
  gl_cfg :: gtp_config
  gl_echoCfg :: gtp_echo_config
  gl_remote :: udp_addr
  gl_seq :: u32
  gl_nextTEID :: u32
  gl_txs :: "gtpc_transaction list"   \<comment> \<open>the store: every transaction object made so far\<close>
  gl_pending :: "u32 \<rightharpoonup> nat"
  gl_closed :: bool                   \<comment> \<open>\<open>closeCh\<close> is closed\<close>
  gl_peerHealth :: peer_health
  gl_consecutiveEchoFailures :: int
  gl_lastEchoSuccess :: time
  gl_lastEchoFailure :: time
  gl_lastEchoLatency :: int
  gl_echoWatchdogStarted :: bool
  gl_networkDeleteHandler :: bool     \<comment> \<open>a handler is set\<close>

record peer_health_status =
  ph_Health :: peer_health
  ph_ConsecutiveFailures :: int
  ph_LastSuccess :: time
  ph_LastFailure :: time
  ph_LastLatency :: int

datatype gtpc_output =
    Packet bytes udp_addr
  | CallDeleteHandler u32

definition gtpControlPort :: nat where "gtpControlPort = 2123"

definition normalizeEchoConfig :: "gtp_echo_config \<Rightarrow> gtp_echo_config" where
  "normalizeEchoConfig cfg = cfg\<lparr>
     ec_IntervalSeconds := (if ec_IntervalSeconds cfg = 0 then MinGTPEchoIntervalSeconds
       else if 0 < ec_IntervalSeconds cfg \<and> ec_IntervalSeconds cfg < MinGTPEchoIntervalSeconds
         then MinGTPEchoIntervalSeconds else ec_IntervalSeconds cfg),
     ec_TimeoutSeconds := (if ec_TimeoutSeconds cfg = 0 then 5 else ec_TimeoutSeconds cfg),
     ec_MaxFailures := (if ec_MaxFailures cfg = 0 then 3 else ec_MaxFailures cfg) \<rparr>"

definition chargingCharacteristicsValue :: "string \<Rightarrow> u16 option" where
  "chargingCharacteristicsValue value = (if value = [] then Some defaultChargingCharacteristics
     else parseChargingCharacteristicsHex value)"

definition NewGTP :: "gtp_config \<Rightarrow> gtp_echo_config \<Rightarrow> bool \<Rightarrow> (byte \<times> byte \<times> byte \<times> byte) option \<Rightarrow> u32
    \<Rightarrow> gtpc_err + gtpc_client" where
  \<comment> \<open>\<open>bound\<close>: \<open>ListenUDP\<close> succeeded; \<open>rnd\<close>: what \<open>rand.Read\<close> gave; \<open>nano\<close>: \<open>uint32(time.Now().UnixNano())\<close>\<close>
  "NewGTP cfg echoCfg bound rnd nano =
     (if parse_ip (gc_LocalGTPCIP cfg) = None then Inl (ConfigInvalid ''pgw.local_gtpc_ip'')
      else if parse_ip (gc_RemotePGWGTPCIP cfg) = None then Inl (ConfigInvalid ''pgw.remote_pgw_gtpc_ip'')
      else if chargingCharacteristicsValue (gc_ChargingCharacteristics cfg) = None
        then Inl (ConfigInvalid ''pgw.charging_characteristics'')
      else if \<not> bound then Inl BindFailed
      else Inr \<lparr> gl_cfg = cfg, gl_echoCfg = normalizeEchoConfig echoCfg,
        gl_remote = (parse_ip (gc_RemotePGWGTPCIP cfg), gtpControlPort),
        gl_seq = randomInitialGTPv2Sequence rnd, gl_nextTEID = nano, gl_txs = [], gl_pending = Map.empty,
        gl_closed = False, gl_peerHealth = PeerHealthUnknown, gl_consecutiveEchoFailures = 0,
        gl_lastEchoSuccess = 0, gl_lastEchoFailure = 0, gl_lastEchoLatency = 0,
        gl_echoWatchdogStarted = False, gl_networkDeleteHandler = False \<rparr>)"

definition SetNetworkDeleteHandler :: "bool \<Rightarrow> gtpc_client \<Rightarrow> gtpc_client" where
  "SetNetworkDeleteHandler h c = c\<lparr> gl_networkDeleteHandler := h \<rparr>"

section \<open>Echo bookkeeping\<close>

definition PeerHealth :: "gtpc_client \<Rightarrow> peer_health_status" where
  "PeerHealth c = \<lparr> ph_Health = gl_peerHealth c, ph_ConsecutiveFailures = gl_consecutiveEchoFailures c,
     ph_LastSuccess = gl_lastEchoSuccess c, ph_LastFailure = gl_lastEchoFailure c,
     ph_LastLatency = gl_lastEchoLatency c \<rparr>"

definition recordEchoSuccess :: "time \<Rightarrow> int \<Rightarrow> gtpc_client \<Rightarrow> (peer_health \<times> bool) \<times> gtpc_client" where
  "recordEchoSuccess now latency c = ((gl_peerHealth c, gl_peerHealth c = PeerHealthUnhealthy),
     c\<lparr> gl_peerHealth := PeerHealthHealthy, gl_consecutiveEchoFailures := 0, gl_lastEchoSuccess := now,
        gl_lastEchoLatency := latency \<rparr>)"

definition recordEchoFailure :: "time \<Rightarrow> gtpc_client \<Rightarrow> (int \<times> bool) \<times> gtpc_client" where
  "recordEchoFailure now c0 =
     (let c = c0\<lparr> gl_consecutiveEchoFailures := gl_consecutiveEchoFailures c0 + 1, gl_lastEchoFailure := now \<rparr>;
          n = gl_consecutiveEchoFailures c
      in if ec_MaxFailures (gl_echoCfg c) \<le> n \<and> gl_peerHealth c \<noteq> PeerHealthUnhealthy
         then ((n, True), c\<lparr> gl_peerHealth := PeerHealthUnhealthy \<rparr>) else ((n, False), c))"

definition StartEchoWatchdog :: "gtpc_client \<Rightarrow> bool \<times> gtpc_client" where
  \<comment> \<open>the flag says whether \<open>runEchoWatchdog\<close> is started\<close>
  "StartEchoWatchdog c = (if ec_Enabled (gl_echoCfg c) \<and> \<not> gl_echoWatchdogStarted c
     then (True, c\<lparr> gl_echoWatchdogStarted := True \<rparr>) else (False, c))"

definition watchdog_stops :: "gtpc_client \<Rightarrow> gtpc_client" where
  \<comment> \<open>the deferred function of \<open>runEchoWatchdog\<close>\<close>
  "watchdog_stops c = c\<lparr> gl_echoWatchdogStarted := False \<rparr>"

section \<open>Transactions\<close>

definition nextTEIDValue :: "gtpc_client \<Rightarrow> u32 \<times> gtpc_client" where
  "nextTEIDValue c = (let teid = gl_nextTEID c + 1; teid' = (if teid = 0 then teid + 1 else teid)
     in (teid', c\<lparr> gl_nextTEID := teid' \<rparr>))"

definition nextSequence :: "gtpc_client \<Rightarrow> u32 \<times> gtpc_client" where
  "nextSequence c = (let s = next_sequence (gl_seq c) in (s, c\<lparr> gl_seq := s \<rparr>))"

definition registerTransaction :: "gtpc_transaction \<Rightarrow> gtpc_client \<Rightarrow> gtpc_err + (nat \<times> gtpc_client)" where
  "registerTransaction tx c =
     (if gl_closed c then Inl ClientClosed
      else if gl_pending c (tx_sequence tx) \<noteq> None then Inl (DuplicateSequence (tx_sequence tx))
      else Inr (length (gl_txs c), c\<lparr> gl_txs := gl_txs c @ [tx],
        gl_pending := (gl_pending c)(tx_sequence tx \<mapsto> length (gl_txs c)) \<rparr>))"

definition unregisterTransaction :: "u32 \<Rightarrow> gtpc_client \<Rightarrow> gtpc_client" where
  "unregisterTransaction sequence c = c\<lparr> gl_pending := (gl_pending c)(sequence := None) \<rparr>"

definition put_err :: "gtpc_err \<Rightarrow> gtpc_transaction \<Rightarrow> gtpc_transaction" where
  \<comment> \<open>\<open>select { case tx.errCh <- err: default: }\<close>\<close>
  "put_err e tx = (if tx_errCh tx = None then tx\<lparr> tx_errCh := Some e \<rparr> else tx)"

definition put_response :: "gtpv2_message \<Rightarrow> gtpc_transaction \<Rightarrow> gtpc_transaction" where
  "put_response m tx = (if tx_responseCh tx = None then tx\<lparr> tx_responseCh := Some m \<rparr> else tx)"

definition on_tx :: "nat \<Rightarrow> (gtpc_transaction \<Rightarrow> gtpc_transaction) \<Rightarrow> gtpc_client \<Rightarrow> gtpc_client" where
  "on_tx a f c = c\<lparr> gl_txs := (gl_txs c)[a := f (gl_txs c ! a)] \<rparr>"

definition failPending_one :: "gtpc_err \<Rightarrow> gtpc_client \<Rightarrow> u32 \<Rightarrow> gtpc_client" where
  "failPending_one e c sequence = (case gl_pending c sequence of None \<Rightarrow> c
     | Some a \<Rightarrow> unregisterTransaction sequence (on_tx a (put_err e) c))"

definition failPending :: "gtpc_err \<Rightarrow> u32 list \<Rightarrow> gtpc_client \<Rightarrow> gtpc_client" where
  \<comment> \<open>\<open>ord\<close>: the order in which the loop visits the map\<close>
  "failPending e ord c = foldl (failPending_one e) c ord"

definition close_flag :: "gtpc_client \<Rightarrow> gtpc_client" where
  \<comment> \<open>\<open>close(c.closeCh)\<close>\<close>
  "close_flag c = c\<lparr> gl_closed := True \<rparr>"

definition transactionContextError :: "ctx_err \<Rightarrow> gtpc_transaction \<Rightarrow> gtpc_err" where
  "transactionContextError e tx = (if e = CtxDeadlineExceeded
     then TransactionTimeout (tx_description tx) (tx_sequence tx)
     else TransactionCanceled (tx_description tx) (tx_sequence tx) e)"

definition doTransaction_send :: "ctx_err option \<Rightarrow> bool \<Rightarrow> gtpv2_message \<Rightarrow> byte \<Rightarrow> string \<Rightarrow> gtpc_client
    \<Rightarrow> (gtpc_err + nat) \<times> gtpc_output list \<times> gtpc_client" where
  \<comment> \<open>up to the \<open>select\<close>; \<open>sent\<close>: \<open>WriteToUDP\<close> succeeds\<close>
  "doTransaction_send ctx sent req0 expectedType description c0 = (case ctx of Some e \<Rightarrow> (Inl (ContextErr e), [], c0)
     | None \<Rightarrow>
        let (s, c1) = nextSequence c0; req = req0\<lparr> g_Sequence := s \<rparr>;
            tx = \<lparr> tx_sequence = s, tx_requestType = g_Type req, tx_expectedType = expectedType,
                   tx_responseCh = None, tx_errCh = None, tx_description = description \<rparr>
        in case registerTransaction tx c1 of Inl e \<Rightarrow> (Inl e, [], c1)
           | Inr (a, c2) \<Rightarrow>
              (case gtp_encode req of Inl e \<Rightarrow> (Inl (CodecErr e), [], unregisterTransaction s c2)
               | Inr encoded \<Rightarrow>
                  if \<not> sent then (Inl SendFailed, [], unregisterTransaction s c2)
                  else (Inr a, [Packet encoded (gl_remote c2)], c2)))"

datatype wake = WakeResponse | WakeError | WakeContext ctx_err

definition doTransaction_wait :: "wake \<Rightarrow> nat \<Rightarrow> gtpc_client \<Rightarrow> ((gtpc_err + gtpv2_message) \<times> gtpc_client) option" where
  \<comment> \<open>the case of the \<open>select\<close> that is taken; \<open>None\<close> when it is not ready\<close>
  "doTransaction_wait w a c = (let tx = gl_txs c ! a; c' = unregisterTransaction (tx_sequence tx) c in
     case w of
       WakeResponse \<Rightarrow> map_option (\<lambda>m. (Inr m, on_tx a (\<lambda>t. t\<lparr> tx_responseCh := None \<rparr>) c')) (tx_responseCh tx)
     | WakeError \<Rightarrow> map_option (\<lambda>e. (Inl e, on_tx a (\<lambda>t. t\<lparr> tx_errCh := None \<rparr>) c')) (tx_errCh tx)
     | WakeContext e \<Rightarrow> Some (Inl (transactionContextError e tx), c'))"

section \<open>Packets from the PGW\<close>

definition handleInboundEchoRequest :: "bool \<Rightarrow> gtpv2_message \<Rightarrow> udp_addr \<Rightarrow> gtpc_output list" where
  "handleInboundEchoRequest sent m peer =
     (case gtp_encode \<lparr> g_Type = gtpv2EchoResponse, g_TEID = 0, g_HasTEID = False, g_Sequence = g_Sequence m,
        g_Payload = encode_ie (recoveryIE 0) \<rparr> of Inl e \<Rightarrow> []
      | Inr encoded \<Rightarrow> if sent then [Packet encoded peer] else [])"

definition handleInboundDeleteSessionRequest ::
  "bool \<Rightarrow> gtpv2_message \<Rightarrow> udp_addr \<Rightarrow> gtpc_client \<Rightarrow> gtpc_output list" where
  "handleInboundDeleteSessionRequest sent m peer c =
     (case gtp_encode \<lparr> g_Type = gtpv2DeleteSessionResp, g_TEID = g_TEID m, g_HasTEID = True,
        g_Sequence = g_Sequence m, g_Payload = encode_ie (mk_ie ieCause 0 [causeRequestAccepted, 0]) \<rparr> of
        Inl e \<Rightarrow> []
      | Inr encoded \<Rightarrow>
         if \<not> sent then []
         else Packet encoded peer # (if gl_networkDeleteHandler c then [CallDeleteHandler (g_TEID m)] else []))"

definition lookupTransaction :: "u32 \<Rightarrow> gtpc_client \<Rightarrow> nat option" where
  \<comment> \<open>the other results are only logged\<close>
  "lookupTransaction sequence c = gl_pending c sequence"

definition handleIncomingGTPv2 :: "bool \<Rightarrow> bytes \<Rightarrow> udp_addr \<Rightarrow> gtpc_client \<Rightarrow> gtpc_output list \<times> gtpc_client" where
  "handleIncomingGTPv2 sent packet peer c =
     (if \<not> ip_equal (fst peer) (fst (gl_remote c)) \<or> snd peer \<noteq> snd (gl_remote c) then ([], c)
      else case decodeGTPv2Message packet of Inl e \<Rightarrow> ([], c)
      | Inr m \<Rightarrow>
         if g_Type m = gtpv2EchoRequest then (handleInboundEchoRequest sent m peer, c)
         else if g_Type m = gtpv2DeleteSessionReq then (handleInboundDeleteSessionRequest sent m peer c, c)
         else (case lookupTransaction (g_Sequence m) c of None \<Rightarrow> ([], c)
           | Some a \<Rightarrow> let tx = gl_txs c ! a in
               if g_Type m \<noteq> tx_expectedType tx
               then ([], on_tx a (put_err (ResponseTypeMismatch (tx_description tx) (g_Sequence m) (g_Type m)
                 (tx_expectedType tx))) c)
               else ([], on_tx a (put_response m) c)))"

end
