(* ===== verification/GtpCalls.thy ===== *)
theory GtpCalls
  imports GtpClient
begin

text \<open>
  The calls of the GTPv2-C client (\<open>internal/gtp/gtp.go\<close>): Create Session, Delete Session and the
  three echo callers, each as the part before and the part after the wait of \<open>doTransaction\<close>, and
  the step relation in which calls, packets and closing interleave.
\<close>

section \<open>Create Session\<close>

definition create_bearer :: "gtp_config \<Rightarrow> u32 \<Rightarrow> gtpv2_ie list" where
  \<comment> \<open>the bearer context\<close>
  "create_bearer cfg localGTPU =
     [uint8IE ieEBI 5,
      fteidIE 6 ifaceS2aTWANGTPU localGTPU (parse_ip (gc_LocalGTPUIP cfg)),
      bearerQoSIE 9]"

definition create_ies :: "gtp_config \<Rightarrow> session \<Rightarrow> u32 \<Rightarrow> u32 \<Rightarrow> gtpv2_ie list" where
  "create_ies cfg sess localGTPC localGTPU =
     (let apn = coalesce [gc_APN cfg, s_APN sess];
          chargingChars = (case chargingCharacteristicsValue (gc_ChargingCharacteristics cfg) of
            None \<Rightarrow> defaultChargingCharacteristics | Some v \<Rightarrow> v)
      in [bcdIE ieIMSI (s_IMSI sess), recoveryIE 0, apnIE apn]
         @ (case servingNetworkIE (s_Realm sess) of None \<Rightarrow> [] | Some ie \<Rightarrow> [ie])
         @ [uint8IE ieRATType ratTypeWLAN,
            fteidIE 0 ifaceS2aTWANGTPC localGTPC (parse_ip (gc_LocalGTPCIP cfg)),
            uint8IE ieSelectionMode 0,
            uint8IE iePDNType pdnTypeIPv4,
            paaIE IPv4zero,
            uint8IE ieAPNRestriction 0,
            ambrIE 0 0,
            chargingCharacteristicsIE 0 chargingChars,
            mk_ie ieBearerContext 0 (encodeIEs (create_bearer cfg localGTPU))]
         @ (if s_MSISDN sess \<noteq> [] then [bcdIE ieMSISDN (s_MSISDN sess)] else []))"

definition createSessionPayload :: "gtp_config \<Rightarrow> session \<Rightarrow> u32 \<Rightarrow> u32 \<Rightarrow> bytes" where
  "createSessionPayload cfg sess localGTPC localGTPU = encodeIEs (create_ies cfg sess localGTPC localGTPU)"

fun ftEID_of_interface :: "gtpv2_ie list \<Rightarrow> byte \<Rightarrow> (byte \<times> u32 \<times> ip) option" where
  \<comment> \<open>the first loop of \<open>findFTEIDByInterface\<close>\<close>
  "ftEID_of_interface [] wantIface = None"
| "ftEID_of_interface (ie # ies) wantIface =
     (if ie_Type ie \<noteq> ieFTEID then ftEID_of_interface ies wantIface
      else case parseFTEID ie of None \<Rightarrow> ftEID_of_interface ies wantIface
        | Some (iface, teid, a) \<Rightarrow>
            if iface = wantIface then Some (iface, teid, a) else ftEID_of_interface ies wantIface)"

fun ftEID_of_instance :: "gtpv2_ie list \<Rightarrow> byte list \<Rightarrow> (byte \<times> u32 \<times> ip) option" where
  \<comment> \<open>the second loop, over the fallback instances\<close>
  "ftEID_of_instance ies [] = None"
| "ftEID_of_instance ies (inst # insts) = (case findIE ies ieFTEID inst of
     None \<Rightarrow> ftEID_of_instance ies insts
   | Some ie \<Rightarrow> (case parseFTEID ie of None \<Rightarrow> ftEID_of_instance ies insts | Some r \<Rightarrow> Some r))"

definition findFTEIDByInterface :: "gtpv2_ie list \<Rightarrow> byte \<Rightarrow> byte list \<Rightarrow> (byte \<times> u32 \<times> ip) option" where
  "findFTEIDByInterface ies wantIface fallbackInstances =
     (case ftEID_of_interface ies wantIface of Some r \<Rightarrow> Some r
      | None \<Rightarrow> ftEID_of_instance ies fallbackInstances)"

definition take_bearer :: "pgw_result \<Rightarrow> gtpv2_ie \<Rightarrow> pgw_result" where
  \<comment> \<open>one turn of the loop over the bearer contexts\<close>
  "take_bearer result ie =
     (if ie_Type ie \<noteq> ieBearerContext then result
      else case decodeIEs (ie_Payload ie) of Inl e \<Rightarrow> result
      | Inr children \<Rightarrow> (case findFTEIDByInterface children ifaceS2aPGWGTPU [5, 2] of None \<Rightarrow> result
          | Some (iface, teid, a) \<Rightarrow> result\<lparr> pr_RemoteGTPUTEID := teid,
              pr_PGWUserIP := (if a \<noteq> None then a else pr_PGWUserIP result) \<rparr>))"

definition offending_message :: "cause_info \<Rightarrow> string" where
  "offending_message c = ''offending_ie_type='' @ dec (unat (ca_OffendingIEType c)) @ '' offending_ie_instance=''
     @ dec (unat (ca_OffendingIEInstance c)) @ '' offending_ie_length='' @ dec (unat (ca_OffendingIELength c))"

definition parseCreateSessionResponse :: "gtp_config \<Rightarrow> gtpv2_message \<Rightarrow> u32 \<Rightarrow> gtpc_err + pgw_result" where
  "parseCreateSessionResponse cfg resp localGTPU = (case decodeIEs (g_Payload resp) of Inl e \<Rightarrow> Inl (CodecErr e)
     | Inr ies \<Rightarrow> let cause = parseCauseInfo ies in
         if ca_Cause cause \<noteq> causeRequestAccepted
         then Inl (GTPRejected \<lparr> ge_Operation = ''GTP-C Create Session'', ge_Cause = ca_Cause cause,
           ge_Message = (if ca_OffendingIEType cause \<noteq> 0 then offending_message cause else []) \<rparr>)
         else let r0 = \<lparr> pr_SubscriberIP = parsePAA ies, pr_GatewayIP = None,
                  pr_PGWControlIP = parse_ip (gc_RemotePGWGTPCIP cfg),
                  pr_PGWUserIP = parse_ip (gc_RemotePGWGTPUIP cfg),
                  pr_GTPCTEID = 0, pr_LocalGTPUTEID = localGTPU, pr_RemoteGTPUTEID = 0 \<rparr>;
                r1 = (case findFTEIDByInterface ies ifaceS2aPGWGTPC [1, 0] of None \<Rightarrow> r0
                  | Some (iface, teid, a) \<Rightarrow> r0\<lparr> pr_GTPCTEID := teid,
                      pr_PGWControlIP := (if a \<noteq> None then a else pr_PGWControlIP r0) \<rparr>)
            in Inr (foldl take_bearer r1 ies))"

section \<open>Calls\<close>

datatype gtpc_op =
    OpCreateSession "session option"
  | OpDeleteSession "session option"
  | OpProbe
  | OpEcho
  | OpEchoProbe  \<comment> \<open>a tick of \<open>runEchoWatchdog\<close>\<close>

datatype frame =
    CreateFrame u32  \<comment> \<open>the local GTP-U TEID\<close>
  | DeleteFrame
  | EchoFrame gtpc_op time

datatype gtpc_result =
    CreateResult "gtpc_err + pgw_result"
  | DeleteResult "gtpc_err option"
  | EchoResult "gtpc_err option"

type_synonym begin_result = "(gtpc_err + nat \<times> frame) \<times> gtpc_output list \<times> gtpc_client"

definition waiting :: "frame \<Rightarrow> (gtpc_err + nat) \<times> gtpc_output list \<times> gtpc_client \<Rightarrow> begin_result" where
  "waiting fr r = (case fst r of Inl e \<Rightarrow> (Inl e, snd r) | Inr a \<Rightarrow> (Inr (a, fr), snd r))"

definition CreateSession_begin :: "ctx_err option \<Rightarrow> ctx_err option \<Rightarrow> bool \<Rightarrow> session option \<Rightarrow> gtpc_client \<Rightarrow> begin_result" where
  \<comment> \<open>\<open>ctx\<close> and \<open>ctx'\<close>: what \<open>ctx.Err()\<close> gives here and in \<open>doTransaction\<close>\<close>
  "CreateSession_begin ctx ctx' sent so c = (case ctx of Some e \<Rightarrow> (Inl (ContextErr e), [], c)
     | None \<Rightarrow> (case so of None \<Rightarrow> (Inl SessionIsRequired, [], c)
        | Some sess \<Rightarrow>
            let (localGTPC, c1) = nextTEIDValue c; (localGTPU, c2) = nextTEIDValue c1;
                msg = \<lparr> g_Type = gtpv2CreateSessionReq, g_TEID = 0, g_HasTEID = True, g_Sequence = 0,
                  g_Payload = createSessionPayload (gl_cfg c) sess localGTPC localGTPU \<rparr>
            in waiting (CreateFrame localGTPU)
                 (doTransaction_send ctx' sent msg gtpv2CreateSessionResp ''Create Session'' c2)))"

definition CreateSession_end :: "gtp_config \<Rightarrow> u32 \<Rightarrow> gtpc_err + gtpv2_message \<Rightarrow> gtpc_err + pgw_result" where
  "CreateSession_end cfg localGTPU r = (case r of Inl e \<Rightarrow> Inl e
     | Inr resp \<Rightarrow> if g_Type resp \<noteq> gtpv2CreateSessionResp
         then Inl (UnexpectedType ''Create Session Response'' (g_Type resp))
         else parseCreateSessionResponse cfg resp localGTPU)"

definition DeleteSession_begin :: "ctx_err option \<Rightarrow> ctx_err option \<Rightarrow> bool \<Rightarrow> session option \<Rightarrow> gtpc_client \<Rightarrow> begin_result" where
  "DeleteSession_begin ctx ctx' sent so c = (case ctx of Some e \<Rightarrow> (Inl (ContextErr e), [], c)
     | None \<Rightarrow> (case so of None \<Rightarrow> (Inl SessionIsRequired, [], c)
        | Some sess \<Rightarrow>
            if s_GTPCTEID sess = 0 then (Inl NoControlTEID, [], c)
            else waiting DeleteFrame (doTransaction_send ctx' sent
              \<lparr> g_Type = gtpv2DeleteSessionReq, g_TEID = s_GTPCTEID sess, g_HasTEID = True, g_Sequence = 0,
                g_Payload = encode_ie (uint8IE ieEBI 5) \<rparr> gtpv2DeleteSessionResp ''Delete Session'' c)))"

definition DeleteSession_end :: "gtpc_err + gtpv2_message \<Rightarrow> gtpc_err option" where
  "DeleteSession_end r = (case r of Inl e \<Rightarrow> Some e
     | Inr resp \<Rightarrow> if g_Type resp \<noteq> gtpv2DeleteSessionResp
         then Some (UnexpectedType ''Delete Session Response'' (g_Type resp))
         else (case decodeIEs (g_Payload resp) of Inl e \<Rightarrow> Some (CodecErr e)
           | Inr ies \<Rightarrow> if parseCause ies \<noteq> causeRequestAccepted
               then Some (GTPRejected \<lparr> ge_Operation = ''GTP-C Delete Session'', ge_Cause = parseCause ies, ge_Message = [] \<rparr>)
               else None))"

definition echo_begin :: "ctx_err option \<Rightarrow> bool \<Rightarrow> gtpc_op \<Rightarrow> time \<Rightarrow> gtpc_client \<Rightarrow> begin_result" where
  "echo_begin ctx sent op now c = waiting (EchoFrame op now) (doTransaction_send ctx sent
     \<lparr> g_Type = gtpv2EchoRequest, g_TEID = 0, g_HasTEID = False, g_Sequence = 0,
       g_Payload = encode_ie (recoveryIE 0) \<rparr> gtpv2EchoResponse ''Echo'' c)"

definition echo_end :: "gtpc_err + gtpv2_message \<Rightarrow> gtpc_err + u32" where
  "echo_end r = (case r of Inl e \<Rightarrow> Inl e
     | Inr resp \<Rightarrow> if g_Type resp \<noteq> gtpv2EchoResponse then Inl (UnexpectedType ''Echo Response'' (g_Type resp))
         else Inr (g_Sequence resp))"

definition echo_record :: "gtpc_op \<Rightarrow> time \<Rightarrow> time \<Rightarrow> gtpc_err + u32 \<Rightarrow> gtpc_client \<Rightarrow> gtpc_result \<times> gtpc_client" where
  \<comment> \<open>what \<open>Probe\<close>, \<open>Echo\<close> and \<open>runEchoProbe\<close> do with the outcome of \<open>echo\<close>: \<open>Echo\<close> does not count failures\<close>
  "echo_record op start now r c = (case r of
     Inl e \<Rightarrow> (EchoResult (Some e), if op = OpEcho then c else snd (recordEchoFailure now c))
   | Inr s \<Rightarrow> (EchoResult None, snd (recordEchoSuccess now (now - start) c)))"

definition begin_call :: "gtpc_op \<Rightarrow> ctx_err option \<Rightarrow> ctx_err option \<Rightarrow> bool \<Rightarrow> time \<Rightarrow> gtpc_client \<Rightarrow> begin_result" where
  "begin_call op ctx ctx' sent now c = (case op of
     OpCreateSession so \<Rightarrow> CreateSession_begin ctx ctx' sent so c
   | OpDeleteSession so \<Rightarrow> DeleteSession_begin ctx ctx' sent so c
   | _ \<Rightarrow> echo_begin ctx' sent op now c)"

definition refuse_call :: "gtpc_op \<Rightarrow> time \<Rightarrow> gtpc_err \<Rightarrow> gtpc_client \<Rightarrow> gtpc_result \<times> gtpc_client" where
  \<comment> \<open>an error before the wait\<close>
  "refuse_call op now e c = (case op of
     OpCreateSession _ \<Rightarrow> (CreateResult (Inl e), c)
   | OpDeleteSession _ \<Rightarrow> (DeleteResult (Some e), c)
   | _ \<Rightarrow> echo_record op now now (Inl e) c)"

definition end_call :: "frame \<Rightarrow> time \<Rightarrow> gtpc_err + gtpv2_message \<Rightarrow> gtpc_client \<Rightarrow> gtpc_result \<times> gtpc_client" where
  "end_call fr now r c = (case fr of
     CreateFrame localGTPU \<Rightarrow> (CreateResult (CreateSession_end (gl_cfg c) localGTPU r), c)
   | DeleteFrame \<Rightarrow> (DeleteResult (DeleteSession_end r), c)
   | EchoFrame op start \<Rightarrow> echo_record op start now (echo_end r) c)"

section \<open>Interleaving\<close>

datatype gtpc_event =
    Began nat gtpc_transaction
  | Refused gtpc_result
  | Received bytes udp_addr
  | Emitted gtpc_output
  | Ended nat "gtpc_err + gtpv2_message" gtpc_result

record gtpc_world =
  gw_client :: gtpc_client
  gw_calls :: "nat \<rightharpoonup> frame"  \<comment> \<open>the calls that wait, by their transaction\<close>
  gw_trace :: "gtpc_event list"

definition new_world :: "gtpc_client \<Rightarrow> gtpc_world" where
  "new_world c = \<lparr> gw_client = c, gw_calls = Map.empty, gw_trace = [] \<rparr>"

definition world_begin :: "gtpc_op \<Rightarrow> ctx_err option \<Rightarrow> ctx_err option \<Rightarrow> bool \<Rightarrow> time \<Rightarrow> gtpc_world \<Rightarrow> gtpc_world" where
  "world_begin op ctx ctx' sent now w = (case begin_call op ctx ctx' sent now (gw_client w) of
     (Inl e, outs, c) \<Rightarrow> let (res, c') = refuse_call op now e c
       in w\<lparr> gw_client := c', gw_trace := gw_trace w @ [Refused res] \<rparr>
   | (Inr (a, fr), outs, c) \<Rightarrow> w\<lparr> gw_client := c, gw_calls := (gw_calls w)(a \<mapsto> fr),
       gw_trace := gw_trace w @ Began a (gl_txs c ! a) # map Emitted outs \<rparr>)"

definition world_end :: "nat \<Rightarrow> wake \<Rightarrow> time \<Rightarrow> gtpc_world \<Rightarrow> gtpc_world option" where
  "world_end a wk now w = (case gw_calls w a of None \<Rightarrow> None
     | Some fr \<Rightarrow> (case doTransaction_wait wk a (gw_client w) of None \<Rightarrow> None
        | Some (r, c) \<Rightarrow> let (res, c') = end_call fr now r c
            in Some (w\<lparr> gw_client := c', gw_calls := (gw_calls w)(a := None),
                 gw_trace := gw_trace w @ [Ended a r res] \<rparr>)))"

definition world_packet :: "bool \<Rightarrow> bytes \<Rightarrow> udp_addr \<Rightarrow> gtpc_world \<Rightarrow> gtpc_world" where
  "world_packet sent packet peer w = (let (outs, c) = handleIncomingGTPv2 sent packet peer (gw_client w)
     in w\<lparr> gw_client := c, gw_trace := gw_trace w @ Received packet peer # map Emitted outs \<rparr>)"

definition world_close :: "gtpc_world \<Rightarrow> gtpc_world" where
  "world_close w = w\<lparr> gw_client := close_flag (gw_client w) \<rparr>"

definition world_fail :: "u32 list \<Rightarrow> gtpc_world \<Rightarrow> gtpc_world" where
  "world_fail ord w = w\<lparr> gw_client := failPending ClientClosed ord (gw_client w) \<rparr>"

inductive gtpc_step :: "gtpc_world \<Rightarrow> gtpc_world \<Rightarrow> bool" where
  begin_step: "gtpc_step w (world_begin op ctx ctx' sent now w)"
| packet_step: "gtpc_step w (world_packet sent packet peer w)"
| end_step: "world_end a wk now w = Some w' \<Longrightarrow> gtpc_step w w'"
| close_step: "gtpc_step w (world_close w)"  \<comment> \<open>\<open>Close\<close>, first half\<close>
| fail_step: "gl_closed (gw_client w) \<Longrightarrow> set ord = dom (gl_pending (gw_client w)) \<Longrightarrow> gtpc_step w (world_fail ord w)"
| watchdog_step: "gtpc_step w (w\<lparr> gw_client := snd (StartEchoWatchdog (gw_client w)) \<rparr>)"
| watchdog_stop_step: "gtpc_step w (w\<lparr> gw_client := watchdog_stops (gw_client w) \<rparr>)"
| handler_step: "gtpc_step w (w\<lparr> gw_client := SetNetworkDeleteHandler h (gw_client w) \<rparr>)"

inductive gtpc_reachable :: "gtpc_client \<Rightarrow> gtpc_world \<Rightarrow> bool" for c0 where
  initially: "gtpc_reachable c0 (new_world c0)"
| later: "gtpc_reachable c0 w \<Longrightarrow> gtpc_step w w' \<Longrightarrow> gtpc_reachable c0 w'"

end
