(* ===== verification/GtpCallInv.thy ===== *)
theory GtpCallInv
  imports GtpCalls
begin

text \<open>
  The invariant of the GTPv2-C client under any interleaving of calls, packets and closing: the
  pending table holds exactly the calls that wait, each under its own sequence number, and a
  channel holds a response only when a packet of the PGW answered that very transaction.
\<close>

section \<open>What the history says of a transaction\<close>

definition from_peer :: "udp_addr \<Rightarrow> udp_addr \<Rightarrow> bool" where
  "from_peer remote peer \<longleftrightarrow> ip_equal (fst peer) (fst remote) \<and> snd peer = snd remote"

definition begun :: "gtpc_event list \<Rightarrow> nat \<Rightarrow> gtpc_transaction \<Rightarrow> bool" where
  "begun tr a tx \<longleftrightarrow> (\<exists>t tx0 t'. tr = t @ Began a tx0 # t' \<and> tx_sequence tx0 = tx_sequence tx
     \<and> tx_expectedType tx0 = tx_expectedType tx)"

definition answered :: "udp_addr \<Rightarrow> gtpc_event list \<Rightarrow> nat \<Rightarrow> gtpv2_message \<Rightarrow> bool" where
  "answered remote tr a m \<longleftrightarrow> (\<exists>t tx u packet peer v. tr = t @ Began a tx # u @ Received packet peer # v
     \<and> from_peer remote peer \<and> decodeGTPv2Message packet = Inr m
     \<and> g_Sequence m = tx_sequence tx \<and> g_Type m = tx_expectedType tx)"

lemma begun_append: "begun tr a tx \<Longrightarrow> begun (tr @ es) a tx"
  unfolding begun_def by fastforce

lemma begun_here: "begun (tr @ Began a tx # es) a tx"
  unfolding begun_def by blast

lemma begun_same: "tx_sequence tx = tx_sequence tx' \<Longrightarrow> tx_expectedType tx = tx_expectedType tx' \<Longrightarrow> begun tr a tx = begun tr a tx'"
  by (simp add: begun_def)

lemma answered_append: "answered R tr a m \<Longrightarrow> answered R (tr @ es) a m"
  unfolding answered_def by fastforce

lemma answered_now:
  assumes "begun tr a tx" "from_peer R peer" "decodeGTPv2Message packet = Inr m"
    and "g_Sequence m = tx_sequence tx" "g_Type m = tx_expectedType tx"
  shows "answered R (tr @ Received packet peer # es) a m"
proof -
  from assms(1) obtain t tx0 u where "tr = t @ Began a tx0 # u" "tx_sequence tx0 = tx_sequence tx"
      "tx_expectedType tx0 = tx_expectedType tx" by (auto simp: begun_def)
  then show ?thesis unfolding answered_def using assms(2-5)
    by (intro exI [of _ t] exI [of _ tx0] exI [of _ u] exI [of _ packet] exI [of _ peer] exI [of _ es]) simp
qed

section \<open>The client\<close>

definition client_inv :: "udp_addr \<Rightarrow> nat set \<Rightarrow> gtpc_event list \<Rightarrow> gtpc_client \<Rightarrow> bool" where
  \<comment> \<open>\<open>C\<close>: the transactions of the calls that wait\<close>
  "client_inv R C tr c \<longleftrightarrow> gl_remote c = R
     \<and> (\<forall>s a. gl_pending c s = Some a \<longrightarrow> a \<in> C \<and> tx_sequence (gl_txs c ! a) = s)
     \<and> (\<forall>a \<in> C. a < length (gl_txs c) \<and> begun tr a (gl_txs c ! a)
          \<and> (gl_pending c (tx_sequence (gl_txs c ! a)) = Some a
             \<or> gl_closed c \<and> tx_errCh (gl_txs c ! a) \<noteq> None))
     \<and> inj_on (\<lambda>a. tx_sequence (gl_txs c ! a)) C
     \<and> (\<forall>a < length (gl_txs c). \<forall>m. tx_responseCh (gl_txs c ! a) = Some m \<longrightarrow> answered R tr a m)"

lemma client_invD:
  assumes "client_inv R C tr c"
  shows "gl_remote c = R" "gl_pending c s = Some a \<Longrightarrow> a \<in> C \<and> tx_sequence (gl_txs c ! a) = s"
    "a \<in> C \<Longrightarrow> a < length (gl_txs c) \<and> begun tr a (gl_txs c ! a)
       \<and> (gl_pending c (tx_sequence (gl_txs c ! a)) = Some a \<or> gl_closed c \<and> tx_errCh (gl_txs c ! a) \<noteq> None)"
    "a < length (gl_txs c) \<Longrightarrow> tx_responseCh (gl_txs c ! a) = Some m \<Longrightarrow> answered R tr a m"
    "inj_on (\<lambda>a. tx_sequence (gl_txs c ! a)) C"
  using assms by (auto simp: client_inv_def)

lemma client_invI:
  assumes "gl_remote c = R" "\<And>s a. gl_pending c s = Some a \<Longrightarrow> a \<in> C \<and> tx_sequence (gl_txs c ! a) = s"
    and "\<And>a. a \<in> C \<Longrightarrow> a < length (gl_txs c) \<and> begun tr a (gl_txs c ! a)
       \<and> (gl_pending c (tx_sequence (gl_txs c ! a)) = Some a \<or> gl_closed c \<and> tx_errCh (gl_txs c ! a) \<noteq> None)"
    and "inj_on (\<lambda>a. tx_sequence (gl_txs c ! a)) C"
    and "\<And>a m. a < length (gl_txs c) \<Longrightarrow> tx_responseCh (gl_txs c ! a) = Some m \<Longrightarrow> answered R tr a m"
  shows "client_inv R C tr c"
  using assms by (auto simp: client_inv_def)

lemma client_inv_other:
  assumes "client_inv R C tr c" "gl_remote c' = gl_remote c" "gl_pending c' = gl_pending c" "gl_txs c' = gl_txs c"
    and "gl_closed c \<longrightarrow> gl_closed c'"
  shows "client_inv R C (tr @ es) c'"
  using assms begun_append answered_append by (auto simp: client_inv_def)

lemmas client_inv_trace = client_inv_other [OF _ refl refl refl impI]

lemma client_inv_fields:
  assumes "client_inv R C tr c" "gl_remote c' = gl_remote c" "gl_pending c' = gl_pending c" "gl_txs c' = gl_txs c"
    and "gl_closed c \<longrightarrow> gl_closed c'"
  shows "client_inv R C tr c'"
  using client_inv_other [OF assms, of "[]"] by simp

lemma nth_on_tx: "gl_txs (on_tx a f c) ! b = (if b = a \<and> a < length (gl_txs c) then f (gl_txs c ! a) else gl_txs c ! b)"
  by (cases "a < length (gl_txs c)") (auto simp: on_tx_def nth_list_update list_update_beyond)

lemma on_tx_simps [simp]: "gl_pending (on_tx a f c) = gl_pending c" "gl_closed (on_tx a f c) = gl_closed c"
  "gl_remote (on_tx a f c) = gl_remote c" "length (gl_txs (on_tx a f c)) = length (gl_txs c)"
  by (simp_all add: on_tx_def)

lemma unregister_simps [simp]: "gl_pending (unregisterTransaction s c) = (gl_pending c)(s := None)"
  "gl_closed (unregisterTransaction s c) = gl_closed c" "gl_remote (unregisterTransaction s c) = gl_remote c"
  "gl_txs (unregisterTransaction s c) = gl_txs c"
  by (simp_all add: unregisterTransaction_def)

lemma client_inv_on_tx:
  assumes "client_inv R C tr c" "\<And>t. tx_sequence (f t) = tx_sequence t \<and> tx_expectedType (f t) = tx_expectedType t"
    and "a \<in> C \<Longrightarrow> tx_errCh (gl_txs c ! a) \<noteq> None \<Longrightarrow> tx_errCh (f (gl_txs c ! a)) \<noteq> None"
    and "\<And>m. tx_responseCh (f (gl_txs c ! a)) = Some m \<Longrightarrow> tx_responseCh (gl_txs c ! a) \<noteq> Some m \<Longrightarrow> answered R tr a m"
  shows "client_inv R C tr (on_tx a f c)"
proof (rule client_invI)
  note i = client_invD [OF assms(1)]
  have b: "begun tr a (f t) = begun tr a t" for t using assms(2) by (intro begun_same) auto
  show "gl_remote (on_tx a f c) = R" using i(1) by simp
  show "x \<in> C \<and> tx_sequence (gl_txs (on_tx a f c) ! x) = s" if "gl_pending (on_tx a f c) s = Some x" for s x
    using i(2) [of s x] that by (auto simp: nth_on_tx assms(2))
  show "x < length (gl_txs (on_tx a f c)) \<and> begun tr x (gl_txs (on_tx a f c) ! x)
      \<and> (gl_pending (on_tx a f c) (tx_sequence (gl_txs (on_tx a f c) ! x)) = Some x
        \<or> gl_closed (on_tx a f c) \<and> tx_errCh (gl_txs (on_tx a f c) ! x) \<noteq> None)" if "x \<in> C" for x
    using i(3) [OF that] that assms(3) by (cases "x = a") (auto simp: nth_on_tx b assms(2))
  have "(\<lambda>x. tx_sequence (gl_txs (on_tx a f c) ! x)) = (\<lambda>x. tx_sequence (gl_txs c ! x))"
    by (auto simp: nth_on_tx assms(2))
  then show "inj_on (\<lambda>x. tx_sequence (gl_txs (on_tx a f c) ! x)) C" using i(5) by simp
  show "answered R tr x m" if "x < length (gl_txs (on_tx a f c))" "tx_responseCh (gl_txs (on_tx a f c) ! x) = Some m" for x m
    using i(4) [of x m] assms(4) [of m] that by (cases "x = a") (auto simp: nth_on_tx)
qed

lemma client_inv_unregister:
  assumes "client_inv R C tr c" "a \<in> C" "s = tx_sequence (gl_txs c ! a)" "gl_pending c s \<in> {None, Some a}"
  shows "client_inv R (C - {a}) tr (unregisterTransaction s c)"
proof (rule client_invI)
  note i = client_invD [OF assms(1)]
  show "gl_remote (unregisterTransaction s c) = R" using i(1) by simp
  show "x \<in> C - {a} \<and> tx_sequence (gl_txs (unregisterTransaction s c) ! x) = t"
    if "gl_pending (unregisterTransaction s c) t = Some x" for t x
    using i(2) [of t x] that assms(3) by (auto split: if_splits)
  show "x < length (gl_txs (unregisterTransaction s c)) \<and> begun tr x (gl_txs (unregisterTransaction s c) ! x)
      \<and> (gl_pending (unregisterTransaction s c) (tx_sequence (gl_txs (unregisterTransaction s c) ! x)) = Some x
        \<or> gl_closed (unregisterTransaction s c) \<and> tx_errCh (gl_txs (unregisterTransaction s c) ! x) \<noteq> None)"
    if "x \<in> C - {a}" for x
    using i(3) [of x] that assms(4) by auto
  show "inj_on (\<lambda>x. tx_sequence (gl_txs (unregisterTransaction s c) ! x)) (C - {a})"
    using i(5) by (simp add: inj_on_diff)
qed (use client_invD(4) [OF assms(1)] in simp)

lemma client_inv_begin:
  assumes "client_inv R C tr c" "registerTransaction tx c = Inr (a, c')" "tx_responseCh tx = None"
  shows "client_inv R (insert a C) (tr @ Began a tx # es) c'" "a \<notin> C" "gl_txs c' ! a = tx" "gl_remote c' = R"
proof -
  from assms(2) have a: "a = length (gl_txs c)" "\<not> gl_closed c" "gl_pending c (tx_sequence tx) = None"
    and c': "c' = c\<lparr> gl_txs := gl_txs c @ [tx], gl_pending := (gl_pending c)(tx_sequence tx \<mapsto> a) \<rparr>"
    by (auto simp: registerTransaction_def split: if_splits)
  show "a \<notin> C" using client_invD(3) [OF assms(1), of a] a(1) by auto
  show "gl_txs c' ! a = tx" by (simp add: c' a(1))
  show "gl_remote c' = R" using client_invD(1) [OF assms(1)] by (simp add: c')
  have old: "b \<in> C \<Longrightarrow> b < length (gl_txs c) \<and> begun tr b (gl_txs c ! b) \<and> gl_pending c (tx_sequence (gl_txs c ! b)) = Some b" for b
    using client_invD(3) [OF assms(1), of b] a(2) by auto
  have distinct: "b \<in> C \<Longrightarrow> tx_sequence (gl_txs c ! b) \<noteq> tx_sequence tx" for b
    using old [of b] a(3) by auto
  have nth: "gl_txs c' ! x = gl_txs c ! x" if "x \<in> C" for x
    using old [OF that] by (simp add: c' nth_append)
  have "inj_on (\<lambda>x. tx_sequence (gl_txs c' ! x)) C"
    using client_invD(5) [OF assms(1)] by (rule inj_on_cong [THEN iffD1, rotated]) (simp add: nth)
  moreover have "tx_sequence (gl_txs c' ! a) \<notin> (\<lambda>x. tx_sequence (gl_txs c' ! x)) ` C"
    using distinct \<open>gl_txs c' ! a = tx\<close> nth by fastforce
  ultimately have inj: "inj_on (\<lambda>x. tx_sequence (gl_txs c' ! x)) (insert a C)"
    using \<open>a \<notin> C\<close> by (simp add: inj_on_insert)
  show "client_inv R (insert a C) (tr @ Began a tx # es) c'"
  proof (rule client_invI)
    show "gl_remote c' = R" by fact
    show "x \<in> insert a C \<and> tx_sequence (gl_txs c' ! x) = s" if "gl_pending c' s = Some x" for s x
      using that client_invD(2) [OF assms(1), of s x] old [of x] a(1) by (auto simp: c' nth_append split: if_splits)
    show "x < length (gl_txs c') \<and> begun (tr @ Began a tx # es) x (gl_txs c' ! x)
        \<and> (gl_pending c' (tx_sequence (gl_txs c' ! x)) = Some x \<or> gl_closed c' \<and> tx_errCh (gl_txs c' ! x) \<noteq> None)"
      if "x \<in> insert a C" for x
    proof (cases "x = a")
      case True
      have "length (gl_txs c') = Suc a" "gl_pending c' (tx_sequence tx) = Some a" by (simp_all add: c' a(1))
      with True \<open>gl_txs c' ! a = tx\<close> begun_here show ?thesis by simp
    next
      case False
      with that old [of x] distinct [of x] have x: "x < length (gl_txs c)" "begun tr x (gl_txs c ! x)"
        "gl_pending c (tx_sequence (gl_txs c ! x)) = Some x" "tx_sequence (gl_txs c ! x) \<noteq> tx_sequence tx" by auto
      then have "gl_txs c' ! x = gl_txs c ! x" "x < length (gl_txs c')"
        "gl_pending c' (tx_sequence (gl_txs c ! x)) = Some x" by (simp_all add: c' nth_append)
      with begun_append [OF x(2)] show ?thesis by simp
    qed
    show "answered R (tr @ Began a tx # es) x m" if "x < length (gl_txs c')" "tx_responseCh (gl_txs c' ! x) = Some m" for x m
      using that client_invD(4) [OF assms(1), of x m] assms(3) a(1)
      by (auto simp: c' nth_append less_Suc_eq intro: answered_append)
  qed (rule inj)
qed

lemma client_inv_drop:
  assumes "client_inv R C tr c" "registerTransaction tx c = Inr (a, c')" "tx_responseCh tx = None"
  shows "client_inv R C tr (unregisterTransaction (tx_sequence tx) c')"
proof -
  from assms(2) have a: "a = length (gl_txs c)" "gl_pending c (tx_sequence tx) = None"
    and c': "c' = c\<lparr> gl_txs := gl_txs c @ [tx], gl_pending := (gl_pending c)(tx_sequence tx \<mapsto> a) \<rparr>"
    by (auto simp: registerTransaction_def split: if_splits)
  have p: "(gl_pending c)(tx_sequence tx := None) = gl_pending c" using a(2) by auto
  note i = client_invD [OF assms(1)]
  have nth: "(gl_txs c @ [tx]) ! x = gl_txs c ! x" if "x \<in> C" for x using i(3) [OF that] by (simp add: nth_append)
  have "inj_on (\<lambda>x. tx_sequence ((gl_txs c @ [tx]) ! x)) C"
    using i(5) by (rule inj_on_cong [THEN iffD1, rotated]) (simp add: nth)
  with i nth assms(3) a(1) p show ?thesis
    by (intro client_invI) (auto simp: c' nth_append less_Suc_eq split: if_splits)
qed

lemma doTransaction_send_inv:
  assumes "client_inv R C tr c" "doTransaction_send ctx sent msg expected desc c = (r, outs, c')"
  shows "case r of Inl e \<Rightarrow> client_inv R C tr c'
    | Inr a \<Rightarrow> client_inv R (insert a C) (tr @ Began a (gl_txs c' ! a) # map Emitted outs) c'"
proof -
  define s where "s = next_sequence (gl_seq c)"
  define c1 where "c1 = c\<lparr> gl_seq := s \<rparr>"
  define rq where "rq = msg\<lparr> g_Sequence := s \<rparr>"
  define tx where "tx = \<lparr> tx_sequence = s, tx_requestType = g_Type rq, tx_expectedType = expected,
    tx_responseCh = None, tx_errCh = None, tx_description = desc \<rparr>"
  have c1: "client_inv R C tr c1" by (rule client_inv_fields [OF assms(1)]) (simp_all add: c1_def)
  have d: "doTransaction_send ctx sent msg expected desc c = (case ctx of Some e \<Rightarrow> (Inl (ContextErr e), [], c)
     | None \<Rightarrow> (case registerTransaction tx c1 of Inl e \<Rightarrow> (Inl e, [], c1)
         | Inr (a, c2) \<Rightarrow> (case gtp_encode rq of Inl e \<Rightarrow> (Inl (CodecErr e), [], unregisterTransaction s c2)
            | Inr encoded \<Rightarrow> if \<not> sent then (Inl SendFailed, [], unregisterTransaction s c2)
                else (Inr a, [Packet encoded (gl_remote c2)], c2))))"
    unfolding doTransaction_send_def nextSequence_def Let_def prod.case s_def c1_def rq_def tx_def by (rule refl)
  have n: "tx_responseCh tx = None" and seq: "tx_sequence tx = s" by (simp_all add: tx_def)
  show ?thesis
  proof (cases "ctx = None")
    case False
    with d assms show ?thesis by auto
  next
    case True
    show ?thesis
    proof (cases "registerTransaction tx c1")
      case (Inl e)
      with d True assms(2) c1 show ?thesis by auto
    next
      case (Inr p)
      obtain a c2 where p: "p = (a, c2)" by fastforce
      note reg = Inr [unfolded p]
      note added = client_inv_begin [OF c1 reg n] and drop = client_inv_drop [OF c1 reg n, unfolded seq]
      from assms(2) have "(r, outs, c') = (case gtp_encode rq of Inl e \<Rightarrow> (Inl (CodecErr e), [], unregisterTransaction s c2)
          | Inr encoded \<Rightarrow> if \<not> sent then (Inl SendFailed, [], unregisterTransaction s c2)
              else (Inr a, [Packet encoded (gl_remote c2)], c2))" unfolding True d [unfolded True option.case reg sum.case prod.case] by (rule sym)
      then show ?thesis using added drop by (auto split: sum.splits if_splits)
    qed
  qed
qed

lemma doTransaction_wait_inv:
  assumes "client_inv R C tr c" "a \<in> C" "doTransaction_wait w a c = Some (r, c')"
  shows "client_inv R (C - {a}) tr c'" "r = Inr m \<Longrightarrow> answered R tr a m"
proof -
  note i = client_invD [OF assms(1)]
  let ?c = "unregisterTransaction (tx_sequence (gl_txs c ! a)) c"
  have "gl_pending c (tx_sequence (gl_txs c ! a)) \<in> {None, Some a}"
  proof (cases "gl_pending c (tx_sequence (gl_txs c ! a))")
    case (Some b)
    then show ?thesis using i(2) [OF Some] inj_onD [OF i(5), of b a] assms(2) by simp
  qed simp
  then have u: "client_inv R (C - {a}) tr ?c" by (rule client_inv_unregister [OF assms(1,2) refl])
  show "client_inv R (C - {a}) tr c'"
    using assms(3) u by (auto simp: doTransaction_wait_def Let_def split: wake.splits intro!: client_inv_on_tx)
  show "answered R tr a m" if "r = Inr m"
    using assms(3) that i(3) [OF assms(2)] i(4) [of a m]
    by (auto simp: doTransaction_wait_def Let_def split: wake.splits)
qed

lemma put_simps [simp]: "tx_responseCh (put_err e t) = tx_responseCh t" "tx_sequence (put_err e t) = tx_sequence t"
  "tx_expectedType (put_err e t) = tx_expectedType t" "tx_errCh (put_err e t) \<noteq> None"
  "tx_sequence (put_response m t) = tx_sequence t" "tx_expectedType (put_response m t) = tx_expectedType t"
  "tx_errCh (put_response m t) = tx_errCh t"
  by (simp_all add: put_err_def put_response_def)

lemma client_inv_put_err: "client_inv R C tr c \<Longrightarrow> client_inv R C tr (on_tx a (put_err e) c)"
  by (rule client_inv_on_tx) (simp_all del: not_None_eq)

lemma handleIncoming_inv:
  assumes "client_inv R C tr c" "handleIncomingGTPv2 sent packet peer c = (outs, c')"
  shows "client_inv R C (tr @ Received packet peer # map Emitted outs) c'"
proof -
  note i = client_invD [OF assms(1)]
  let ?tr = "tr @ Received packet peer # map Emitted outs"
  have same: "client_inv R C ?tr c" by (rule client_inv_other [OF assms(1)]) simp_all
  show ?thesis
  proof (cases "c' = c")
    case True
    with same show ?thesis by simp
  next
    case False
    with assms(2) obtain m a where peer: "from_peer R peer" and m: "decodeGTPv2Message packet = Inr m"
      and a: "gl_pending c (g_Sequence m) = Some a"
      and c': "c' = on_tx a (put_err (ResponseTypeMismatch (tx_description (gl_txs c ! a)) (g_Sequence m) (g_Type m)
          (tx_expectedType (gl_txs c ! a)))) c
        \<or> g_Type m = tx_expectedType (gl_txs c ! a) \<and> c' = on_tx a (put_response m) c"
      using i(1) by (auto simp: handleIncomingGTPv2_def from_peer_def lookupTransaction_def Let_def
          split: if_splits sum.splits option.splits)
    from i(2) [OF a] i(3) have b: "begun tr a (gl_txs c ! a)" "g_Sequence m = tx_sequence (gl_txs c ! a)" by auto
    from c' show ?thesis
    proof (elim disjE conjE)
      assume "c' = on_tx a (put_err (ResponseTypeMismatch (tx_description (gl_txs c ! a)) (g_Sequence m) (g_Type m)
          (tx_expectedType (gl_txs c ! a)))) c"
      then show ?thesis using same by (simp add: client_inv_put_err)
    next
      assume t: "g_Type m = tx_expectedType (gl_txs c ! a)" and c': "c' = on_tx a (put_response m) c"
      have "answered R ?tr a m" by (rule answered_now [OF b(1) peer m b(2) t])
      then show ?thesis unfolding c' using same
        by (auto simp: put_response_def intro!: client_inv_on_tx split: if_splits)
    qed
  qed
qed

lemma client_inv_forget:
  assumes "client_inv R C tr c" "a \<in> C" "gl_closed c" "tx_errCh (gl_txs c ! a) \<noteq> None"
  shows "client_inv R C tr (unregisterTransaction (tx_sequence (gl_txs c ! a)) c)"
proof (rule client_invI)
  note i = client_invD [OF assms(1)]
  let ?c = "unregisterTransaction (tx_sequence (gl_txs c ! a)) c"
  show "x < length (gl_txs ?c) \<and> begun tr x (gl_txs ?c ! x)
      \<and> (gl_pending ?c (tx_sequence (gl_txs ?c ! x)) = Some x \<or> gl_closed ?c \<and> tx_errCh (gl_txs ?c ! x) \<noteq> None)"
    if x: "x \<in> C" for x
  proof (cases "x = a")
    case False
    then have "tx_sequence (gl_txs c ! x) \<noteq> tx_sequence (gl_txs c ! a)" using inj_onD [OF i(5) _ x assms(2)] by blast
    with i(3) [OF x] show ?thesis by simp
  qed (use i(3) [OF x] assms(3,4) in simp)
  show "x \<in> C \<and> tx_sequence (gl_txs ?c ! x) = t" if "gl_pending ?c t = Some x" for t x
    using i(2) [of t x] that by (simp split: if_splits)
qed (use client_invD [OF assms(1)] in simp_all)

lemma failPending_one_inv:
  assumes "client_inv R C tr c" "gl_closed c"
  shows "client_inv R C tr (failPending_one e c s)"
proof (cases "gl_pending c s")
  case (Some a)
  let ?c = "on_tx a (put_err e) c"
  have c: "client_inv R C tr ?c" by (rule client_inv_put_err [OF assms(1)])
  note i = client_invD [OF c]
  have a: "a \<in> C" "tx_sequence (gl_txs ?c ! a) = s" "a < length (gl_txs c)"
    using Some i(2) [of s a] client_invD(3) [OF assms(1), of a] client_invD(2) [OF assms(1) Some] by auto
  have "tx_errCh (gl_txs ?c ! a) \<noteq> None" using a(3) by (simp add: nth_on_tx del: not_None_eq)
  then have "client_inv R C tr (unregisterTransaction s ?c)"
    using client_inv_forget [OF c a(1)] assms(2) a(2) by simp
  then show ?thesis by (simp add: failPending_one_def Some)
qed (simp add: failPending_one_def assms(1))

lemma failPending_one_simps [simp]: "gl_closed (failPending_one e c s) = gl_closed c"
  "gl_pending (failPending_one e c s) = (gl_pending c)(s := None)"
  by (auto simp: failPending_one_def split: option.split)

lemma failPending_inv:
  "client_inv R C tr c \<Longrightarrow> gl_closed c \<Longrightarrow> client_inv R C tr (failPending e ord c)"
  by (induction ord arbitrary: c) (simp_all add: failPending_def failPending_one_inv)

lemma failPending_simps [simp]: "gl_closed (failPending e ord c) = gl_closed c"
  "gl_pending (failPending e ord c) s = (if s \<in> set ord then None else gl_pending c s)"
  by (induction ord arbitrary: c) (auto simp: failPending_def)

section \<open>Every interleaving\<close>

definition ended_ok :: "udp_addr \<Rightarrow> gtpc_event list \<Rightarrow> bool" where
  "ended_ok R tr \<longleftrightarrow> (\<forall>t a m res t'. tr = t @ Ended a (Inr m) res # t' \<longrightarrow> answered R t a m)"

lemma split_history: "tr @ es = t @ x # t' \<Longrightarrow> x \<notin> set es \<Longrightarrow> \<exists>u. tr = t @ x # u"
  by (force simp: append_eq_append_conv2 append_eq_Cons_conv)

lemma split_history_last: "tr @ [y] = t @ x # t' \<Longrightarrow> (tr = t \<and> x = y) \<or> (\<exists>u. tr = t @ x # u)"
  by (cases t' rule: rev_cases) auto

lemma ended_ok_append:
  assumes "ended_ok R tr" "\<And>a r res. Ended a r res \<notin> set es" shows "ended_ok R (tr @ es)"
  using assms split_history [of tr es] unfolding ended_ok_def by blast

lemma ended_ok_end:
  assumes "ended_ok R tr" "\<And>m. r = Inr m \<Longrightarrow> answered R tr a m" shows "ended_ok R (tr @ [Ended a r res])"
  using assms unfolding ended_ok_def by (blast dest: split_history_last)

definition world_inv :: "udp_addr \<Rightarrow> gtpc_world \<Rightarrow> bool" where
  "world_inv R w \<longleftrightarrow> client_inv R (dom (gw_calls w)) (gw_trace w) (gw_client w) \<and> ended_ok R (gw_trace w)"

definition keeps :: "gtpc_client \<Rightarrow> gtpc_client \<Rightarrow> bool" where
  \<comment> \<open>the transactions are as they were\<close>
  "keeps c c' \<longleftrightarrow> gl_remote c' = gl_remote c \<and> gl_pending c' = gl_pending c \<and> gl_txs c' = gl_txs c
     \<and> gl_closed c' = gl_closed c"

lemma keeps_inv: "keeps c c' \<Longrightarrow> client_inv R C tr c \<Longrightarrow> client_inv R C (tr @ es) c'"
  by (rule client_inv_other) (auto simp: keeps_def)

lemma keeps_teid: "keeps c (snd (nextTEIDValue c))"
  by (simp add: keeps_def nextTEIDValue_def Let_def)

lemma keeps_trans: "keeps a b \<Longrightarrow> keeps b c \<Longrightarrow> keeps a c"
  by (simp add: keeps_def)

lemma begin_shape:
  obtains (refused) e where "begin_call op ctx ctx' sent now c = (Inl e, [], c)"
  | (sending) c1 fr msg expected desc where
      "begin_call op ctx ctx' sent now c = waiting fr (doTransaction_send ctx' sent msg expected desc c1)" "keeps c c1"
proof (cases op)
  case (OpCreateSession so)
  have t: "keeps c (snd (nextTEIDValue (snd (nextTEIDValue c))))" by (rule keeps_trans [OF keeps_teid keeps_teid])
  show ?thesis
  proof (cases "ctx = None \<and> so \<noteq> None")
    case True
    then obtain sess where "ctx = None" "so = Some sess" by blast
    with OpCreateSession show ?thesis
      by (intro sending [OF _ t]) (simp add: begin_call_def CreateSession_begin_def split_beta Let_def)
  next
    case False
    with OpCreateSession show ?thesis
      by (cases ctx; cases so) (auto simp: begin_call_def CreateSession_begin_def intro: refused)
  qed
next
  case (OpDeleteSession so)
  show ?thesis
  proof (cases "ctx = None \<and> so \<noteq> None \<and> s_GTPCTEID (the so) \<noteq> 0")
    case True
    then obtain sess where "ctx = None" "so = Some sess" "s_GTPCTEID sess \<noteq> 0" by auto
    with OpDeleteSession show ?thesis
      by (intro sending [of _ _ _ _ c]) (simp_all add: begin_call_def DeleteSession_begin_def keeps_def)
  next
    case False
    with OpDeleteSession show ?thesis
      by (cases ctx; cases so) (auto simp: begin_call_def DeleteSession_begin_def intro: refused)
  qed
qed (rule sending [of _ _ _ _ c], simp add: begin_call_def echo_begin_def, simp add: keeps_def)+

lemma record_keeps: "echo_record op start now r c = (res, c') \<Longrightarrow> keeps c c'"
  by (auto simp: keeps_def echo_record_def recordEchoFailure_def recordEchoSuccess_def Let_def split: sum.splits if_splits)

lemma refuse_keeps: "refuse_call op now e c = (res, c') \<Longrightarrow> keeps c c'"
  by (cases op) (auto simp: refuse_call_def keeps_def dest!: record_keeps)

lemma end_keeps: "end_call fr now r c = (res, c') \<Longrightarrow> keeps c c'"
  by (cases fr) (auto simp: end_call_def keeps_def dest!: record_keeps)

lemma begin_inv:
  assumes "world_inv R w" shows "world_inv R (world_begin op ctx ctx' sent now w)"
proof -
  let ?c = "gw_client w" and ?C = "dom (gw_calls w)" and ?tr = "gw_trace w"
  obtain r outs c where b: "begin_call op ctx ctx' sent now ?c = (r, outs, c)" by (metis prod_cases3)
  have inv: "client_inv R ?C ?tr ?c" and ended: "ended_ok R ?tr" using assms by (simp_all add: world_inv_def)
  have sent: "case r of Inl e \<Rightarrow> client_inv R ?C ?tr c
      | Inr (a, fr) \<Rightarrow> client_inv R (insert a ?C) (?tr @ Began a (gl_txs c ! a) # map Emitted outs) c"
  proof (cases rule: begin_shape [of op ctx ctx' sent now ?c])
    case (refused e)
    with b inv show ?thesis by auto
  next
    case (sending c1 fr msg expected desc)
    note w = sending(1)
    have c1: "client_inv R ?C ?tr c1" using keeps_inv [OF sending(2) inv, of "[]"] by simp
    obtain r' outs' c' where d: "doTransaction_send ctx' sent msg expected desc c1 = (r', outs', c')" by (metis prod_cases3)
    with w b have "outs' = outs" "c' = c" and r: "r = (case r' of Inl e \<Rightarrow> Inl e | Inr a \<Rightarrow> Inr (a, fr))"
      by (auto simp: waiting_def split: sum.splits)
    note d = d [unfolded this(1,2)]
    from doTransaction_send_inv [OF c1 d] r show ?thesis by (auto split: sum.splits)
  qed
  show ?thesis
  proof (cases r)
    case (Inl e)
    obtain res c' where rc: "refuse_call op now e c = (res, c')" by fastforce
    have "client_inv R ?C (?tr @ [Refused res]) c'"
      using sent Inl by (intro keeps_inv [OF refuse_keeps [OF rc]]) simp
    with ended show ?thesis by (simp add: world_inv_def world_begin_def b Inl rc ended_ok_append)
  next
    case (Inr p)
    obtain a fr where p: "p = (a, fr)" by fastforce
    have "ended_ok R (?tr @ Began a (gl_txs c ! a) # map Emitted outs)" by (rule ended_ok_append [OF ended]) auto
    with sent show ?thesis by (simp add: world_inv_def world_begin_def b Inr p)
  qed
qed

lemma end_inv:
  assumes "world_inv R w" "world_end a wk now w = Some w'" shows "world_inv R w'"
proof -
  from assms(2) obtain fr r c res c' where fr: "gw_calls w a = Some fr"
    and d: "doTransaction_wait wk a (gw_client w) = Some (r, c)" and e: "end_call fr now r c = (res, c')"
    and w': "w' = w\<lparr> gw_client := c', gw_calls := (gw_calls w)(a := None), gw_trace := gw_trace w @ [Ended a r res] \<rparr>"
    by (auto simp: world_end_def split: option.splits prod.splits)
  have inv: "client_inv R (dom (gw_calls w)) (gw_trace w) (gw_client w)" and ended: "ended_ok R (gw_trace w)"
    using assms(1) by (simp_all add: world_inv_def)
  have a: "a \<in> dom (gw_calls w)" using fr by blast
  note i = doTransaction_wait_inv [OF inv a d]
  have "client_inv R (dom (gw_calls w) - {a}) (gw_trace w @ [Ended a r res]) c'"
    by (rule keeps_inv [OF end_keeps [OF e] i(1)])
  moreover have "ended_ok R (gw_trace w @ [Ended a r res])" by (rule ended_ok_end [OF ended i(2)])
  ultimately show ?thesis by (simp add: world_inv_def w')
qed

lemma step_inv:
  assumes "gtpc_step w w'" "world_inv R w" shows "world_inv R w'"
  using assms
proof cases
  case (packet_step sent packet peer)
  obtain outs c where h: "handleIncomingGTPv2 sent packet peer (gw_client w) = (outs, c)" by fastforce
  have "ended_ok R (gw_trace w @ Received packet peer # map Emitted outs)"
    using assms(2) by (intro ended_ok_append) (auto simp: world_inv_def)
  then show ?thesis using assms(2) handleIncoming_inv [OF _ h] by (simp add: packet_step world_packet_def h world_inv_def)
next
  case (fail_step ord)
  then show ?thesis using assms(2) by (simp add: world_fail_def world_inv_def failPending_inv)
next
  case begin_step
  then show ?thesis using assms(2) by (simp add: begin_inv)
next
  case end_step
  with assms(2) show ?thesis by (simp add: end_inv)
qed (use assms(2) in \<open>auto simp: world_inv_def world_close_def close_flag_def StartEchoWatchdog_def
    watchdog_stops_def SetNetworkDeleteHandler_def intro: client_inv_fields\<close>)

lemma reachable_inv:
  assumes "gtpc_reachable c0 w" "gl_txs c0 = []" "gl_pending c0 = Map.empty"
  shows "world_inv (gl_remote c0) w"
  using assms(1)
proof induction
  case initially
  show ?case using assms(2,3) by (simp add: world_inv_def new_world_def client_inv_def ended_ok_def)
qed (rule step_inv)

end
