(* ===== verification/ConfigProps.thy ===== *)
theory ConfigProps
  imports Config
begin

text \<open>
  What the configuration guarantees to the components that run on it: a configuration that \<open>Load\<close>
  returns is well-formed, and applying the defaults once is enough.
\<close>

section \<open>Filling in defaults\<close>

lemma or_str_idem [simp]: "or_str (or_str x d) d = or_str x d"
  by (simp add: or_str_def)

lemma or_int_idem [simp]: "or_int (or_int x d) d = or_int x d"
  by (simp add: or_int_def)

lemma or_u32_idem [simp]: "or_u32 (or_u32 x d) d = or_u32 x d"
  by (simp add: or_u32_def)

lemma clamp_interval_idem [simp]: "clamp_interval (clamp_interval i) = clamp_interval i"
  by (simp add: clamp_interval_def MinGTPEchoIntervalSeconds_def)

lemma clamp_interval_least: "0 < clamp_interval i \<Longrightarrow> MinGTPEchoIntervalSeconds \<le> clamp_interval i"
  by (simp add: clamp_interval_def split: if_splits)

lemma clamped_no_warning [simp]: "clamp_warnings path (clamp_interval i) = []"
  by (simp add: clamp_warnings_def clamp_interval_def MinGTPEchoIntervalSeconds_def)

lemma defaults_logging_idem: "defaults_logging (defaults_logging l) = defaults_logging l"
  by (simp add: defaults_logging_def)

lemma defaults_access_idem: "defaults_access t (defaults_access t' a) = defaults_access t a"
  by (simp add: defaults_access_def defaults_dhcp_def Let_def)

lemma defaults_auth_cache_idem:
  assumes "t \<noteq> 0" shows "defaults_auth_cache t (defaults_auth_cache t a) = defaults_auth_cache t a"
  using assms by (auto simp: defaults_auth_cache_def or_int_def Let_def)

lemma defaults_radius_idem: "defaults_radius (defaults_radius r) = defaults_radius r"
  by (simp add: defaults_radius_def defaults_accounting_def defaults_auth_cache_idem or_int_def Let_def)

lemma defaults_recovery_idem: "defaults_recovery acct (defaults_recovery acct r) = defaults_recovery acct r"
  by (auto simp: defaults_recovery_def stale_request_action_def Let_def or_str_def)

lemma defaults_lifecycle_idem: "defaults_lifecycle (defaults_lifecycle l) = defaults_lifecycle l"
  by (simp add: defaults_lifecycle_def Let_def)

lemma defaults_routing_idem: "defaults_routing (defaults_routing r) = defaults_routing r"
  by (simp add: defaults_routing_def Let_def)

lemma defaults_gtp_idem: "fst (defaults_gtp v (fst (defaults_gtp w g))) = fst (defaults_gtp w g)"
  by (simp add: defaults_gtp_def normalizeGTPEchoConfig_def normalizeGTPUserEchoConfig_def Let_def)

lemma defaults_gtp_warnings:
  "set (snd (defaults_gtp v (fst (defaults_gtp v g)))) \<subseteq> set (snd (defaults_gtp v g))"
  by (auto simp: defaults_gtp_def normalizeGTPEchoConfig_def normalizeGTPUserEchoConfig_def Let_def)

lemma radius_warnings_idem [simp]: "radius_warnings (defaults_radius r) = radius_warnings r"
  by (simp add: radius_warnings_def defaults_radius_def Let_def)

lemma accounting_enabled_kept [simp]: "rad_Enabled (rc_Accounting (defaults_radius r)) = rad_Enabled (rc_Accounting r)"
  by (simp add: defaults_radius_def defaults_accounting_def Let_def)

lemma ApplyDefaults_fields:
  "c_TWAG (ApplyDefaults c) = c_TWAG c" "c_Logging (ApplyDefaults c) = defaults_logging (c_Logging c)"
  "c_Access (ApplyDefaults c) = defaults_access
     (vc_DHCPStaleRequestAction (defaults_recovery (rad_Enabled (rc_Accounting (c_Radius c))) (c_Recovery c))) (c_Access c)"
  "c_Radius (ApplyDefaults c) = defaults_radius (c_Radius c)"
  "c_STa (ApplyDefaults c) = (c_STa c)\<lparr> st_VendorID := STaVendorID, st_AuthApplicationID := STaAuthApplicationID \<rparr>"
  "c_Subscriber (ApplyDefaults c) = c_Subscriber c"
  "c_GTP (ApplyDefaults c) = fst (defaults_gtp (radius_warnings (c_Radius c)) (c_GTP c))"
  "c_Recovery (ApplyDefaults c) = defaults_recovery (rad_Enabled (rc_Accounting (c_Radius c))) (c_Recovery c)"
  "c_Lifecycle (ApplyDefaults c) = defaults_lifecycle (c_Lifecycle c)"
  "c_Routing (ApplyDefaults c) = defaults_routing (c_Routing c)" "c_IPAM (ApplyDefaults c) = c_IPAM c"
  "c_Warnings (ApplyDefaults c) = snd (defaults_gtp (radius_warnings (c_Radius c)) (c_GTP c))"
  by (simp_all add: ApplyDefaults_def Let_def split_beta)

lemmas defaults_idem = defaults_logging_idem defaults_access_idem defaults_radius_idem defaults_recovery_idem
  defaults_lifecycle_idem defaults_routing_idem

lemma ApplyDefaults_twice:
  "ApplyDefaults (ApplyDefaults c) = (ApplyDefaults c)\<lparr> c_Warnings := c_Warnings (ApplyDefaults (ApplyDefaults c)) \<rparr>"
  by (rule config.equality) (simp_all add: ApplyDefaults_fields defaults_idem defaults_gtp_idem)

section \<open>What validation leaves\<close>

lemma req_Nil [simp]: "req b e = [] \<longleftrightarrow> b"
  by (simp add: req_def)

lemma req_all_Nil [simp]: "req_all ok e xs = [] \<longleftrightarrow> list_all ok xs"
  by (auto simp: req_all_def list_all_length enumerate_eq_zip set_zip)

lemma required_ip_Nil [simp]: "validateRequiredIP n v = [] \<longleftrightarrow> v \<noteq> [] \<and> parse_ip v \<noteq> None"
  by (simp add: validateRequiredIP_def)

lemma required_plain_ip_Nil [simp]: "validateRequiredPlainIP n v = [] \<longleftrightarrow> v \<noteq> [] \<and> parse_ip v \<noteq> None"
  by (simp add: validateRequiredPlainIP_def)

lemma hex_two_octets: "validTwoOctetHex s \<longleftrightarrow> parseChargingCharacteristicsHex s \<noteq> None"
proof -
  have "(48 \<le> code_of r \<and> code_of r \<le> 57) \<or> (97 \<le> code_of r \<and> code_of r \<le> 102) \<or> (65 \<le> code_of r \<and> code_of r \<le> 70)
      \<longleftrightarrow> hex_val r \<noteq> None" for r by (auto simp: hex_val_def Let_def)
  then show ?thesis by (simp add: validTwoOctetHex_def parseChargingCharacteristicsHex_def)
qed

definition echo_ok :: "gtp_echo_config \<Rightarrow> bool" where
  "echo_ok e \<longleftrightarrow> MinGTPEchoIntervalSeconds \<le> ec_IntervalSeconds e \<and> 0 < ec_TimeoutSeconds e \<and> 0 < ec_MaxFailures e"

definition user_echo_ok :: "gtp_user_echo_config \<Rightarrow> bool" where
  "user_echo_ok e \<longleftrightarrow> ue_Enabled e \<longrightarrow> ue_Mode e = ''kernel_netlink''
     \<and> MinGTPEchoIntervalSeconds \<le> ue_IntervalSeconds e \<and> 0 < ue_TimeoutSeconds e \<and> 0 < ue_MaxFailures e"

definition gtp_config_ok :: "gtp_config \<Rightarrow> bool" where
  "gtp_config_ok g \<longleftrightarrow> parse_ip (gc_LocalGTPCIP g) \<noteq> None \<and> parse_ip (gc_LocalGTPUIP g) \<noteq> None
     \<and> parse_ip (gc_RemotePGWGTPCIP g) \<noteq> None \<and> parse_ip (gc_RemotePGWGTPUIP g) \<noteq> None
     \<and> parseChargingCharacteristicsHex (gc_ChargingCharacteristics g) \<noteq> None
     \<and> gc_KernelInterface g \<noteq> [] \<and> echo_ok (gc_ControlEcho g) \<and> user_echo_ok (gc_UserEcho g)"

definition access_config_ok :: "access_config \<Rightarrow> bool" where
  \<comment> \<open>the three access components work on the same interface and gateway\<close>
  "access_config_ok a \<longleftrightarrow> xc_Interface a \<noteq> [] \<and> parse_ip (xc_GatewayIP a) \<noteq> None \<and> parse_ip (xc_Netmask a) \<noteq> None
     \<and> list_all (\<lambda>d. parse_ip d \<noteq> None) (dc_DNS (xc_DHCP a))
     \<and> dc_Interface (xc_DHCP a) = xc_Interface a \<and> ac_Interface (xc_ARPProxy a) = xc_Interface a
     \<and> fc_Interface (xc_Forwarding a) = xc_Interface a
     \<and> dc_Router (xc_DHCP a) = xc_GatewayIP a \<and> dc_ServerIdentifier (xc_DHCP a) = xc_GatewayIP a
     \<and> dc_Netmask (xc_DHCP a) = xc_Netmask a
     \<and> ac_GatewayIP (xc_ARPProxy a) = xc_GatewayIP a \<and> fc_VirtualGatewayIP (xc_Forwarding a) = xc_GatewayIP a
     \<and> dc_LeaseTimeSeconds (xc_DHCP a) \<noteq> 0 \<and> dc_StaleRequestAction (xc_DHCP a) \<in> {''ignore'', ''nak''}"

definition service_config_ok :: "svc_config \<Rightarrow> bool" where
  \<comment> \<open>what the lifecycle service relies on\<close>
  "service_config_ok f \<longleftrightarrow> cf_AccessInterface f \<noteq> [] \<and> cf_InstallRoutes f \<and> cf_AuthCacheEnabled f
     \<and> cf_PostValidationEnabled f \<and> cf_ClearSessionOnStop f \<and> cf_FallbackToTombstone f
     \<and> cf_StartRecoveryEnabled f \<and> cf_DefaultTTLSeconds f \<le> cf_MaxTTLSeconds f
     \<and> 0 < cf_SessionTimeoutSeconds f \<and> 0 < cf_RecoveryWindowSeconds f \<and> 0 < cf_CooldownSeconds f
     \<and> 0 < cf_MaxAttemptsPerMinute f
     \<and> cf_DuplicateAttachPolicy f \<in> {''reuse_existing'', ''replace_existing''}
     \<and> cf_FailAction f \<in> {''trigger_recovery'', ''reject_access'', ''log_only''}
     \<and> cf_DisconnectRequestType f \<in> {''disconnect'', ''coa''}
     \<and> cf_StartWithoutSessionAction f \<in> {''recover_if_auth_valid'', ''disconnect'', ''ignore''}
     \<and> cf_StartWithoutAuthAction f \<in> {''disconnect'', ''ignore'', ''log_only''}"

lemma gtp_defaults_ok:
  assumes "validate_gtp (fst (defaults_gtp w g)) = []" shows "gtp_config_ok (fst (defaults_gtp w g))"
  using assms clamp_interval_least
  by (auto simp: validate_gtp_def gtp_config_ok_def echo_ok_def user_echo_ok_def Let_def hex_two_octets
      defaults_gtp_def normalizeGTPEchoConfig_def normalizeGTPUserEchoConfig_def split: if_splits)

lemma access_defaults_ok:
  assumes "validate_access (defaults_access t a) = []" "t \<in> {''ignore'', ''nak''}"
  shows "access_config_ok (defaults_access t a)"
  using assms by (auto simp: validate_access_def access_config_ok_def defaults_access_def defaults_dhcp_def
      or_u32_def Let_def split: if_splits)

lemma validated_sections:
  assumes "Validate c = None"
  shows "validate_access (c_Access c) = []" "validate_radius (c_Radius c) = []" "validateSTa (c_STa c) = []"
    "validate_gtp (c_GTP c) = []" "validate_recovery (c_Recovery c) = []" "validate_lifecycle (c_Lifecycle c) = []"
    "validate_routing (c_Routing c) = []"
  using assms by (simp_all add: Validate_def Let_def split: if_splits)

lemma validated_stale_action: "validate_recovery r = [] \<Longrightarrow> vc_DHCPStaleRequestAction r \<in> {''ignore'', ''nak''}"
  by (simp add: validate_recovery_def Let_def)

lemma auth_cache_ttl: "rac_DefaultTTLSeconds (defaults_auth_cache t a) \<le> rac_MaxTTLSeconds (defaults_auth_cache t a)"
  by (simp add: defaults_auth_cache_def Let_def)

lemma service_defaults_ok:
  assumes "Validate (ApplyDefaults c) = None" shows "service_config_ok (service_config (ApplyDefaults c))"
proof -
  note v = validated_sections [OF assms]
  define d where "d = ApplyDefaults c"
  have radius: "c_Radius d = defaults_radius (c_Radius c)"
    and recovery: "c_Recovery d = defaults_recovery (rad_Enabled (rc_Accounting (c_Radius c))) (c_Recovery c)"
    and rest: "c_Lifecycle d = defaults_lifecycle (c_Lifecycle c)" "c_Routing d = defaults_routing (c_Routing c)"
    by (simp_all add: d_def ApplyDefaults_fields)
  have fixed: "rac_Enabled (rc_AuthCache (c_Radius d))" "rad_ClearSessionOnStop (rc_Accounting (c_Radius d))"
    "rac_DefaultTTLSeconds (rc_AuthCache (c_Radius d)) \<le> rac_MaxTTLSeconds (rc_AuthCache (c_Radius d))"
    "rd_FallbackToRecoveryTombstone (vc_RadiusDisconnect (c_Recovery d))"
    "as_Enabled (vc_AccountingStartRecovery (c_Recovery d))" "pa_Enabled (ly_PostActivationValidation (c_Lifecycle d))"
    "ro_InstallRoutes (c_Routing d)"
    unfolding radius recovery rest
    by (simp_all add: Let_def defaults_radius_def defaults_accounting_def auth_cache_ttl defaults_auth_cache_def
        defaults_recovery_def defaults_lifecycle_def defaults_routing_def)
  have checked: "xc_Interface (c_Access d) \<noteq> []" "validate_radius (c_Radius d) = []" "validate_recovery (c_Recovery d) = []"
    "validate_lifecycle (c_Lifecycle d) = []"
    using v by (simp_all add: d_def validate_access_def)
  show ?thesis unfolding d_def [symmetric] service_config_ok_def service_config_def Let_def
    using fixed checked by (simp add: validate_radius_def validate_recovery_def validate_lifecycle_def Let_def)
qed

lemma load_valid: "Load contents decode = Inr c \<Longrightarrow> \<exists>cfg. c = ApplyDefaults cfg \<and> Validate c = None"
  by (auto simp: Load_def Let_def split: sum.splits option.splits)

lemma load_gtp_ok: "Load contents decode = Inr c \<Longrightarrow> gtp_config_ok (c_GTP c)"
  by (drule load_valid, elim exE conjE, drule validated_sections(4)) (simp add: ApplyDefaults_fields gtp_defaults_ok)

section \<open>Properties\<close>

text \<open>The defaults settle in one step: applying \<open>ApplyDefaults\<close> to its own result changes no
  setting, and every warning of the second run was one of the first.\<close>

theorem defaults_settle:
  "\<exists>ws. set ws \<subseteq> set (c_Warnings (ApplyDefaults c))
     \<and> ApplyDefaults (ApplyDefaults c) = (ApplyDefaults c)\<lparr> c_Warnings := ws \<rparr>"
proof -
  have "set (c_Warnings (ApplyDefaults (ApplyDefaults c))) \<subseteq> set (c_Warnings (ApplyDefaults c))"
    using defaults_gtp_warnings by (simp add: ApplyDefaults_fields)
  with ApplyDefaults_twice show ?thesis by blast
qed

text \<open>C19. A configuration that \<open>Load\<close> returns is well-formed, whatever the YAML decoder yields: its
  GTP addresses and charging characteristics parse, echo intervals are at least a minute, the
  access components share one interface and gateway, and the settings the lifecycle service reads
  are in the ranges it relies on.\<close>

theorem load_well_formed:
  assumes "Load contents decode = Inr c"
  shows "gtp_config_ok (c_GTP c) \<and> access_config_ok (c_Access c) \<and> service_config_ok (service_config c)
    \<and> 1 \<le> rc_VLANID (c_Radius c) \<and> rc_VLANID (c_Radius c) \<le> 4094
    \<and> list_all (\<lambda>n. parse_cidr n \<noteq> None) (rc_AllowedSourceSubnets (c_Radius c))
    \<and> (\<exists>host port. SplitHostPort (st_PeerAddr (c_STa c)) = Inr (host, port))"
proof -
  from assms obtain cfg where c: "c = ApplyDefaults cfg" and v: "Validate c = None"
    using load_valid by blast
  note s = validated_sections [OF v]
  have "gtp_config_ok (c_GTP c)" using assms by (rule load_gtp_ok)
  moreover have "access_config_ok (c_Access c)"
    using s(1) validated_stale_action [OF s(5)] unfolding c ApplyDefaults_fields by (rule access_defaults_ok)
  moreover have "service_config_ok (service_config c)"
    using v by (simp add: c service_defaults_ok)
  moreover have "\<exists>host port. SplitHostPort (st_PeerAddr (c_STa c)) = Inr (host, port)"
    using s(3) by (auto simp: validateSTa_def split: sum.splits if_splits)
  ultimately show ?thesis using s(2) by (simp add: validate_radius_def Let_def)
qed

section \<open>A configuration file\<close>

definition demo_file :: config where
  \<comment> \<open>what the decoder makes of a minimal file\<close>
  "demo_file = Default\<lparr> c_TWAG := \<lparr> tc_Name = ''twag'', tc_Realm = ''r'' \<rparr>,
     c_Access := default_access\<lparr> xc_Interface := ''eth1'', xc_GatewayIP := ''10.0.0.1'' \<rparr>,
     c_Radius := default_radius\<lparr> rc_Secret := ''s'' \<rparr>,
     c_STa := (c_STa Default)\<lparr> st_OriginHost := ''t'', st_OriginRealm := ''r'', st_DestinationRealm := ''r'',
       st_PeerAddr := ''10.0.0.9:3868'' \<rparr>,
     c_GTP := default_gtp\<lparr> gc_LocalGTPCIP := ''10.0.0.2'', gc_LocalGTPUIP := ''10.0.0.2'',
       gc_RemotePGWGTPCIP := ''10.0.0.3'', gc_RemotePGWGTPUIP := ''10.0.0.3'' \<rparr> \<rparr>"

lemma demo_file_valid: "Validate (ApplyDefaults demo_file) = None"
  by code_simp

theorem load_well_formed_witness:
  "gtp_config_ok (c_GTP (ApplyDefaults demo_file)) \<and> service_config_ok (service_config (ApplyDefaults demo_file))
     \<and> (\<exists>host port. SplitHostPort ''10.0.0.9:3868'' = Inr (host, port))"
proof -
  have l: "Load (Inr []) (\<lambda>_ _. Inr demo_file) = Inr (ApplyDefaults demo_file)"
    by (simp add: Load_def Let_def demo_file_valid)
  have p: "st_PeerAddr (c_STa (ApplyDefaults demo_file)) = ''10.0.0.9:3868''"
    by (simp add: ApplyDefaults_fields) (simp add: demo_file_def)
  show ?thesis using load_well_formed [OF l] unfolding p by blast
qed

end
