(* ===== verification/GtpCallProps.thy ===== *)
theory GtpCallProps
  imports GtpCallInv ConfigProps LifeLive
begin

text \<open>
  What the GTPv2-C client guarantees to its callers: a response belongs to the request, no call is
  lost or left hanging, the Create Session exchange carries over what the two sides say, and the
  client accepts every configuration that \<open>Load\<close> lets through.
\<close>

section \<open>Create Session on the wire\<close>

lemma findIE_hit [simp]: "findIE (ie # ies) typ inst = (if ie_Type ie = typ \<and> ie_Instance ie = inst then Some ie else findIE ies typ inst)"
  by (simp add: findIE_def)

lemma findIE_Nil [simp]: "findIE [] typ inst = None"
  by (simp add: findIE_def)

lemma findIE_append: "findIE (xs @ ys) typ inst = (case findIE xs typ inst of None \<Rightarrow> findIE ys typ inst | Some ie \<Rightarrow> Some ie)"
  by (induction xs) auto

lemmas ie_types = ieIMSI_def ieCause_def ieRecovery_def ieAPN_def ieAMBR_def ieEBI_def ieMSISDN_def iePAA_def
  ieBearerQoS_def ieRATType_def ieServingNetwork_def ieFTEID_def ieBearerContext_def ieChargingChars_def
  iePDNType_def ieAPNRestriction_def ieSelectionMode_def

lemma ie_shapes [simp]:
  "ie_Type (uint8IE t v) = t" "ie_Instance (uint8IE t v) = 0" "ie_Payload (uint8IE t v) = [v]"
  "ie_Type (bcdIE t s) = t" "ie_Instance (bcdIE t s) = 0" "ie_Payload (bcdIE t s) = encodeTBCD s"
  "ie_Type (recoveryIE v) = ieRecovery" "ie_Instance (recoveryIE v) = 0" "ie_Payload (recoveryIE v) = [v]"
  "ie_Type (apnIE s) = ieAPN" "ie_Instance (apnIE s) = 0" "ie_Payload (apnIE s) = apn_labels s"
  "ie_Type (fteidIE i f teid a) = ieFTEID" "ie_Instance (fteidIE i f teid a) = i"
  "ie_Type (paaIE a) = iePAA" "ie_Instance (paaIE a) = 0"
  "ie_Type (ambrIE u d) = ieAMBR" "ie_Instance (ambrIE u d) = 0" "length (ie_Payload (ambrIE u d)) = 8"
  "ie_Type (chargingCharacteristicsIE i cc) = ieChargingChars" "ie_Instance (chargingCharacteristicsIE i cc) = i"
  "length (ie_Payload (chargingCharacteristicsIE i cc)) = 2"
  "ie_Type (bearerQoSIE q) = ieBearerQoS" "ie_Instance (bearerQoSIE q) = 0" "length (ie_Payload (bearerQoSIE q)) = 22"
  by (simp_all add: uint8IE_def bcdIE_def recoveryIE_def apnIE_def fteidIE_def paaIE_def ambrIE_def
      chargingCharacteristicsIE_def bearerQoSIE_def)

lemma fteid_length: "length (ie_Payload (fteidIE i f t a)) \<le> 9"
  by (auto simp: fteidIE_def dest: to4_length split: option.split)

lemma paa_length: "length (ie_Payload (paaIE a)) \<le> 5"
  by (auto simp: paaIE_def dest: to4_length split: option.split)

lemma serving_network_ok: "servingNetworkIE realm = Some ie \<Longrightarrow> ie_ok ie \<and> ie_Type ie = ieServingNetwork"
  by (auto simp: servingNetworkIE_def encodePLMN_def ie_ok_def Let_def split: option.splits)

lemma ie_ok_shape [simp]:
  "ie_ok (uint8IE t v)" "ie_ok (recoveryIE v)" "ie_ok (ambrIE u d)" "ie_ok (chargingCharacteristicsIE 0 cc)"
  "ie_ok (bearerQoSIE q)" "ie_ok (paaIE a)"
  using paa_length [of a] by (simp_all add: ie_ok_def)

lemma fteid_ok: "i AND 0x0f = i \<Longrightarrow> ie_ok (fteidIE i f t a)"
  using fteid_length [of i f t a] by (simp add: ie_ok_def)

lemma encodeIEs_length: "length (encodeIEs ies) = sum_list (map (\<lambda>ie. 4 + length (ie_Payload ie)) ies)"
  by (induction ies) (simp_all add: encodeIEs_def)

lemma bearer_ok: "list_all ie_ok (create_bearer cfg lu)" "length (encodeIEs (create_bearer cfg lu)) < 65536"
  using fteid_length [of 6 ifaceS2aTWANGTPU lu "parse_ip (gc_LocalGTPUIP cfg)"]
  by (simp_all add: create_bearer_def fteid_ok encodeIEs_length)

definition create_fits :: "gtp_config \<Rightarrow> session \<Rightarrow> bool" where
  \<comment> \<open>the strings of the request fit their elements\<close>
  "create_fits cfg sess \<longleftrightarrow> length (encodeTBCD (s_IMSI sess)) < 65536 \<and> length (encodeTBCD (s_MSISDN sess)) < 65536
     \<and> length (apn_labels (coalesce [gc_APN cfg, s_APN sess])) < 65536"

lemma create_ies_ok: "create_fits cfg sess \<Longrightarrow> list_all ie_ok (create_ies cfg sess lc lu)"
  using bearer_ok(2) [of cfg lu]
  by (auto simp: create_ies_def create_fits_def Let_def fteid_ok serving_network_ok ie_ok_def [of "bcdIE _ _"]
      ie_ok_def [of "apnIE _"] ie_ok_def [of "mk_ie _ _ _"] split: option.split)

lemma decode_create:
  assumes "create_fits cfg sess"
  shows "decodeIEs (createSessionPayload cfg sess lc lu) = Inr (create_ies cfg sess lc lu)"
    "decodeIEs (encodeIEs (create_bearer cfg lu)) = Inr (create_bearer cfg lu)"
  using gtp_ies.decode_encode [OF create_ies_ok [OF assms]] gtp_ies.decode_encode [OF bearer_ok(1)]
  by (simp_all add: createSessionPayload_def encodeIEs_def)

lemma find_create:
  "findIE (create_ies cfg sess lc lu) ieIMSI 0 = Some (bcdIE ieIMSI (s_IMSI sess))"
  "findIE (create_ies cfg sess lc lu) ieAPN 0 = Some (apnIE (coalesce [gc_APN cfg, s_APN sess]))"
  "findIE (create_ies cfg sess lc lu) ieFTEID 0 = Some (fteidIE 0 ifaceS2aTWANGTPC lc (parse_ip (gc_LocalGTPCIP cfg)))"
  "findIE (create_ies cfg sess lc lu) ieBearerContext 0 = Some (mk_ie ieBearerContext 0 (encodeIEs (create_bearer cfg lu)))"
  "findIE (create_bearer cfg lu) ieFTEID 6 = Some (fteidIE 6 ifaceS2aTWANGTPU lu (parse_ip (gc_LocalGTPUIP cfg)))"
  using serving_network_ok [of "s_Realm sess"]
  by (auto simp: create_ies_def create_bearer_def Let_def findIE_append ie_types split: option.split)

definition accepted_payload :: "u32 \<Rightarrow> ip \<Rightarrow> ip \<Rightarrow> u32 \<Rightarrow> ip \<Rightarrow> bytes" where
  \<comment> \<open>an accepting response: cause, control F-TEID, address, and a bearer context with its cause and F-TEID\<close>
  "accepted_payload tc pc a tu pu = encodeIEs [mk_ie ieCause 0 [causeRequestAccepted, 0], fteidIE 1 ifaceS2aPGWGTPC tc pc,
     paaIE a, mk_ie ieBearerContext 0 (encodeIEs [uint8IE ieEBI 5, mk_ie ieCause 0 [causeRequestAccepted, 0],
       fteidIE 5 ifaceS2aPGWGTPU tu pu])]"

lemma decode_accepted:
  "decodeIEs (accepted_payload tc pc a tu pu) = Inr [mk_ie ieCause 0 [causeRequestAccepted, 0], fteidIE 1 ifaceS2aPGWGTPC tc pc,
     paaIE a, mk_ie ieBearerContext 0 (encodeIEs [uint8IE ieEBI 5, mk_ie ieCause 0 [causeRequestAccepted, 0],
       fteidIE 5 ifaceS2aPGWGTPU tu pu])]"
  "decodeIEs (encodeIEs [uint8IE ieEBI 5, mk_ie ieCause 0 [causeRequestAccepted, 0], fteidIE 5 ifaceS2aPGWGTPU tu pu])
     = Inr [uint8IE ieEBI 5, mk_ie ieCause 0 [causeRequestAccepted, 0], fteidIE 5 ifaceS2aPGWGTPU tu pu]"
proof -
  have l: "length (encodeIEs [uint8IE ieEBI 5, mk_ie ieCause 0 [causeRequestAccepted, 0], fteidIE 5 ifaceS2aPGWGTPU tu pu]) < 65536"
    using fteid_length [of 5 ifaceS2aPGWGTPU tu pu] by (simp add: encodeIEs_length)
  show "decodeIEs (accepted_payload tc pc a tu pu) = Inr [mk_ie ieCause 0 [causeRequestAccepted, 0], fteidIE 1 ifaceS2aPGWGTPC tc pc,
     paaIE a, mk_ie ieBearerContext 0 (encodeIEs [uint8IE ieEBI 5, mk_ie ieCause 0 [causeRequestAccepted, 0],
       fteidIE 5 ifaceS2aPGWGTPU tu pu])]"
    unfolding accepted_payload_def encodeIEs_def
    by (rule gtp_ies.decode_encode) (use l in \<open>simp add: fteid_ok ie_ok_def [of "mk_ie _ _ _"] encodeIEs_def\<close>)
  show "decodeIEs (encodeIEs [uint8IE ieEBI 5, mk_ie ieCause 0 [causeRequestAccepted, 0], fteidIE 5 ifaceS2aPGWGTPU tu pu])
     = Inr [uint8IE ieEBI 5, mk_ie ieCause 0 [causeRequestAccepted, 0], fteidIE 5 ifaceS2aPGWGTPU tu pu]"
    unfolding encodeIEs_def by (rule gtp_ies.decode_encode) (simp add: fteid_ok ie_ok_def [of "mk_ie _ _ _"])
qed

lemma accepted_result:
  assumes "to4 pc = Some [c1, c2, c3, c4]" "to4 a = Some [a1, a2, a3, a4]" "to4 pu = Some [u1, u2, u3, u4]"
    and "g_Type resp = gtpv2CreateSessionResp" "g_Payload resp = accepted_payload tc pc a tu pu"
  shows "CreateSession_end cfg lu (Inr resp) = Inr \<lparr> pr_SubscriberIP = net_IPv4 a1 a2 a3 a4, pr_GatewayIP = None,
     pr_PGWControlIP = net_IPv4 c1 c2 c3 c4, pr_PGWUserIP = net_IPv4 u1 u2 u3 u4, pr_GTPCTEID = tc,
     pr_LocalGTPUTEID = lu, pr_RemoteGTPUTEID = tu \<rparr>"
proof -
  have f: "parseFTEID (fteidIE 1 ifaceS2aPGWGTPC tc pc) = Some (ifaceS2aPGWGTPC, tc, net_IPv4 c1 c2 c3 c4)"
    "parseFTEID (fteidIE 5 ifaceS2aPGWGTPU tu pu) = Some (ifaceS2aPGWGTPU, tu, net_IPv4 u1 u2 u3 u4)"
    by (rule parseFTEID_fteidIE [OF _ assms(1)], simp add: ifaceS2aPGWGTPC_def,
        rule parseFTEID_fteidIE [OF _ assms(3)], simp add: ifaceS2aPGWGTPU_def)
  have paa: "parsePAA ([mk_ie ieCause 0 [causeRequestAccepted, 0], fteidIE 1 ifaceS2aPGWGTPC tc pc] @ paaIE a # rest)
      = net_IPv4 a1 a2 a3 a4" for rest
    by (rule parsePAA_paaIE [OF assms(2)]) (simp add: ie_types)
  let ?b = "mk_ie ieBearerContext 0 (encodeIEs [uint8IE ieEBI 5, mk_ie ieCause 0 [causeRequestAccepted, 0], fteidIE 5 ifaceS2aPGWGTPU tu pu])"
  have fu: "findFTEIDByInterface [uint8IE ieEBI 5, mk_ie ieCause 0 [causeRequestAccepted, 0], fteidIE 5 ifaceS2aPGWGTPU tu pu]
      ifaceS2aPGWGTPU [5, 2] = Some (ifaceS2aPGWGTPU, tu, net_IPv4 u1 u2 u3 u4)"
    by (simp add: findFTEIDByInterface_def f ie_types)
  have bearer: "take_bearer r ?b = r\<lparr> pr_RemoteGTPUTEID := tu, pr_PGWUserIP := net_IPv4 u1 u2 u3 u4 \<rparr>" for r
    unfolding take_bearer_def by (simp add: decode_accepted(2) fu) (simp add: net_IPv4_def)
  have other: "take_bearer r ie = r" if "ie_Type ie \<noteq> ieBearerContext" for r ie using that by (simp add: take_bearer_def)
  have loop: "foldl take_bearer r [mk_ie ieCause 0 [causeRequestAccepted, 0], fteidIE 1 ifaceS2aPGWGTPC tc pc, paaIE a, ?b]
      = r\<lparr> pr_RemoteGTPUTEID := tu, pr_PGWUserIP := net_IPv4 u1 u2 u3 u4 \<rparr>" for r
    by (simp add: bearer) (simp add: other ie_types)
  have fc: "findFTEIDByInterface [mk_ie ieCause 0 [causeRequestAccepted, 0], fteidIE 1 ifaceS2aPGWGTPC tc pc, paaIE a, ?b]
      ifaceS2aPGWGTPC [1, 0] = Some (ifaceS2aPGWGTPC, tc, net_IPv4 c1 c2 c3 c4)"
    by (simp add: findFTEIDByInterface_def f ie_types)
  have cause: "parseCauseInfo [mk_ie ieCause 0 [causeRequestAccepted, 0], fteidIE 1 ifaceS2aPGWGTPC tc pc, paaIE a, ?b]
      = no_cause\<lparr> ca_Cause := causeRequestAccepted \<rparr>" by (simp add: parseCauseInfo_def)
  show ?thesis unfolding CreateSession_end_def parseCreateSessionResponse_def sum.case assms(4,5) decode_accepted(1) Let_def loop fc cause
    using paa by (simp add: no_cause_def) (simp add: net_IPv4_def)
qed

section \<open>A sample exchange\<close>

definition demo_gtp :: gtp_config where
  "demo_gtp = default_gtp\<lparr> gc_LocalGTPCIP := ''10.0.0.2'', gc_LocalGTPUIP := ''10.0.0.2'',
     gc_RemotePGWGTPCIP := ''10.0.0.3'', gc_RemotePGWGTPUIP := ''10.0.0.3'' \<rparr>"

definition demo_pgw :: udp_addr where
  "demo_pgw = (net_IPv4 10 0 0 3, 2123)"

definition demo_client :: gtpc_client where
  "demo_client = \<lparr> gl_cfg = demo_gtp, gl_echoCfg = normalizeEchoConfig (gc_ControlEcho demo_gtp), gl_remote = demo_pgw,
     gl_seq = 1, gl_nextTEID = 7, gl_txs = [], gl_pending = Map.empty, gl_closed = False,
     gl_peerHealth = PeerHealthUnknown, gl_consecutiveEchoFailures = 0, gl_lastEchoSuccess = 0,
     gl_lastEchoFailure = 0, gl_lastEchoLatency = 0, gl_echoWatchdogStarted = False,
     gl_networkDeleteHandler = False \<rparr>"

definition demo_question :: gtpv2_message where
  "demo_question = \<lparr> g_Type = gtpv2EchoRequest, g_TEID = 0, g_HasTEID = False, g_Sequence = 2, g_Payload = encode_ie (recoveryIE 0) \<rparr>"

definition demo_message :: gtpv2_message where
  \<comment> \<open>the answer to the first request\<close>
  "demo_message = \<lparr> g_Type = 2, g_TEID = 0, g_HasTEID = False, g_Sequence = 2, g_Payload = [3, 0, 1, 0, 0] \<rparr>"

definition on_wire :: "gtpv2_message \<Rightarrow> bytes" where
  "on_wire m = (case gtp_encode m of Inr b \<Rightarrow> b | Inl _ \<Rightarrow> [])"

definition demo_tx :: gtpc_transaction where
  "demo_tx = \<lparr> tx_sequence = 2, tx_requestType = 1, tx_expectedType = 2, tx_responseCh = None, tx_errCh = None,
     tx_description = ''Echo'' \<rparr>"

lemma demo_addresses: "parse_ip ''10.0.0.2'' = net_IPv4 10 0 0 2" "parse_ip ''10.0.0.3'' = net_IPv4 10 0 0 3"
  by code_simp+

lemma demo_new: "NewGTP demo_gtp (gc_ControlEcho demo_gtp) True None 7 = Inr demo_client"
proof -
  have "parse_ip (gc_LocalGTPCIP demo_gtp) = net_IPv4 10 0 0 2" "parse_ip (gc_RemotePGWGTPCIP demo_gtp) = net_IPv4 10 0 0 3"
    "gc_ChargingCharacteristics demo_gtp = ''0800''"
    by (simp_all add: demo_gtp_def default_gtp_def demo_addresses)
  moreover have "chargingCharacteristicsValue ''0800'' \<noteq> None" by code_simp
  ultimately show ?thesis
    by (simp add: NewGTP_def demo_client_def demo_pgw_def net_IPv4_def gtpControlPort_def randomInitialGTPv2Sequence_def
        minGTPv2Sequence_def)
qed

lemma demo_wire: "next_sequence 1 = 2" "decodeGTPv2Message (on_wire demo_message) = Inr demo_message"
  "gtp_encode demo_question = Inr (on_wire demo_question)"
proof -
  show "next_sequence 1 = 2" by (simp add: next_sequence_def gtp_consts Let_def)
  have ok: "gtp_ok demo_message" "gtp_ok demo_question"
    by (simp_all add: gtp_ok_def demo_message_def demo_question_def recoveryIE_def uint8IE_def)
  from gtp_encode_total [OF ok(1)] show "decodeGTPv2Message (on_wire demo_message) = Inr demo_message"
    by (auto simp: on_wire_def intro: gtp_decode_encode [OF ok(1)])
  from gtp_encode_total [OF ok(2)] show "gtp_encode demo_question = Inr (on_wire demo_question)"
    by (auto simp: on_wire_def)
qed

definition demo_asked :: gtpc_world where
  "demo_asked = world_packet True (on_wire demo_message) demo_pgw (world_begin OpProbe None None True 0 (new_world demo_client))"

lemma demo_began:
  "world_begin OpProbe None None True 0 (new_world demo_client)
     = \<lparr> gw_client = demo_client\<lparr> gl_seq := 2, gl_txs := [demo_tx], gl_pending := [2 \<mapsto> 0] \<rparr>,
         gw_calls = [0 \<mapsto> EchoFrame OpProbe 0], gw_trace = [Began 0 demo_tx, Emitted (Packet (on_wire demo_question) demo_pgw)] \<rparr>"
  by (simp add: world_begin_def new_world_def begin_call_def echo_begin_def waiting_def doTransaction_send_def nextSequence_def
      demo_client_def demo_wire(1) demo_wire(3) [unfolded demo_question_def] registerTransaction_def Let_def demo_tx_def
      gtpv2EchoResponse_def demo_question_def)
    (simp add: gtpv2EchoRequest_def)

lemma demo_heard:
  "demo_asked = \<lparr> gw_client = demo_client\<lparr> gl_seq := 2, gl_txs := [demo_tx\<lparr> tx_responseCh := Some demo_message \<rparr>], gl_pending := [2 \<mapsto> 0] \<rparr>,
         gw_calls = [0 \<mapsto> EchoFrame OpProbe 0],
         gw_trace = [Began 0 demo_tx, Emitted (Packet (on_wire demo_question) demo_pgw), Received (on_wire demo_message) demo_pgw] \<rparr>"
proof -
  have f: "g_Type demo_message = 2" "g_Sequence demo_message = 2" by (simp_all add: demo_message_def)
  show ?thesis unfolding demo_asked_def demo_began world_packet_def
    by (simp add: handleIncomingGTPv2_def demo_client_def demo_wire(2) lookupTransaction_def f
      demo_tx_def on_tx_def put_response_def gtpv2EchoRequest_def gtpv2DeleteSessionReq_def)
qed

lemma demo_ended:
  "world_end 0 WakeResponse 1 demo_asked = Some \<lparr> gw_client = (gw_client demo_asked)\<lparr> gl_txs := [demo_tx],
       gl_pending := Map.empty, gl_peerHealth := PeerHealthHealthy, gl_lastEchoSuccess := 1, gl_lastEchoLatency := 1 \<rparr>,
     gw_calls = Map.empty, gw_trace = gw_trace demo_asked @ [Ended 0 (Inr demo_message) (EchoResult None)] \<rparr>"
  by (simp add: world_end_def demo_heard doTransaction_wait_def end_call_def echo_end_def echo_record_def recordEchoSuccess_def
      demo_client_def demo_message_def demo_tx_def on_tx_def unregisterTransaction_def gtpv2EchoResponse_def Let_def)

lemma demo_reachable: "gtpc_reachable demo_client demo_asked" "gtpc_reachable demo_client (the (world_end 0 WakeResponse 1 demo_asked))"
proof -
  show "gtpc_reachable demo_client demo_asked" unfolding demo_asked_def
    by (rule later [OF later [OF initially begin_step] packet_step])
  from later [OF this end_step [OF demo_ended]]
  show "gtpc_reachable demo_client (the (world_end 0 WakeResponse 1 demo_asked))" by (simp add: demo_ended)
qed

section \<open>Properties\<close>

lemma new_client: "NewGTP cfg e b rnd nano = Inr c0 \<Longrightarrow> gl_txs c0 = [] \<and> gl_pending c0 = Map.empty \<and> \<not> gl_closed c0"
  by (auto simp: NewGTP_def split: if_splits)

text \<open>C8. A response belongs to its request: in every interleaving of calls, packets and closing,
  when a call returns a message, a packet that decodes to it came from the configured PGW address
  and port after the call began, with the sequence number of the call's own request and the
  message type the call expects.\<close>

theorem response_answers_request:
  assumes "NewGTP cfg e b rnd nano = Inr c0" "gtpc_reachable c0 w"
    and "gw_trace w = h @ Ended a (Inr m) res # h'"
  shows "\<exists>t tx u packet peer v. h = t @ Began a tx # u @ Received packet peer # v
    \<and> ip_equal (fst peer) (fst (gl_remote c0)) \<and> snd peer = snd (gl_remote c0)
    \<and> decodeGTPv2Message packet = Inr m \<and> g_Sequence m = tx_sequence tx \<and> g_Type m = tx_expectedType tx"
proof -
  have "world_inv (gl_remote c0) w" using reachable_inv [OF assms(2)] new_client [OF assms(1)] by blast
  with assms(3) have "answered (gl_remote c0) h a m" unfolding world_inv_def ended_ok_def by blast
  then show ?thesis unfolding answered_def from_peer_def by blast
qed

text \<open>C11. No call is lost: in every interleaving the pending table points only to calls that wait,
  each under its own sequence number, and until \<open>Close\<close> it holds all of them; two waiting calls
  never share a number. After \<open>Close\<close> has gone through the table, every call that still waits can
  return with an error, without a packet or a timeout, in whatever order the table was walked.\<close>

theorem calls_tracked_until_closed:
  assumes "NewGTP cfg e b rnd nano = Inr c0" "gtpc_reachable c0 w"
  shows "(\<forall>s a. gl_pending (gw_client w) s = Some a \<longrightarrow> a \<in> dom (gw_calls w) \<and> tx_sequence (gl_txs (gw_client w) ! a) = s)
    \<and> (\<not> gl_closed (gw_client w) \<longrightarrow> (\<forall>a \<in> dom (gw_calls w). gl_pending (gw_client w) (tx_sequence (gl_txs (gw_client w) ! a)) = Some a))
    \<and> inj_on (\<lambda>a. tx_sequence (gl_txs (gw_client w) ! a)) (dom (gw_calls w))
    \<and> (gl_closed (gw_client w) \<longrightarrow> (\<forall>ord now. set ord = dom (gl_pending (gw_client w)) \<longrightarrow>
        (\<forall>a \<in> dom (gw_calls w). \<exists>w'. world_end a WakeError now (world_fail ord w) = Some w' \<and> a \<notin> dom (gw_calls w'))))"
proof -
  have inv: "world_inv (gl_remote c0) w" using reachable_inv [OF assms(2)] new_client [OF assms(1)] by blast
  note i = client_invD [OF inv [unfolded world_inv_def, THEN conjunct1]]
  have "\<exists>w'. world_end a WakeError now (world_fail ord w) = Some w' \<and> a \<notin> dom (gw_calls w')"
    if c: "gl_closed (gw_client w)" and ord: "set ord = dom (gl_pending (gw_client w))" and a: "a \<in> dom (gw_calls w)" for ord now a
  proof -
    let ?w = "world_fail ord w"
    have "world_inv (gl_remote c0) ?w" by (rule step_inv [OF fail_step [OF c ord] inv])
    moreover have "a \<in> dom (gw_calls ?w)" using a by (simp add: world_fail_def)
    moreover have "gl_pending (gw_client ?w) s = None" for s using ord by (auto simp: world_fail_def)
    ultimately have "tx_errCh (gl_txs (gw_client ?w) ! a) \<noteq> None"
      using client_invD(3) [of "gl_remote c0" "dom (gw_calls ?w)" "gw_trace ?w" "gw_client ?w" a] by (auto simp: world_inv_def)
    then show ?thesis using a by (auto simp: world_end_def doTransaction_wait_def Let_def world_fail_def split_beta)
  qed
  with i show ?thesis by blast
qed


text \<open>C31. The two packages normalise alike: the echo settings that \<open>NewGTP\<close> computes are those
  \<open>ApplyDefaults\<close> computes, and the charging characteristics that \<open>Validate\<close> accepts are those the
  client can parse. So the client starts on every configuration that \<open>Load\<close> returns, when the socket
  can be bound, and runs with exactly the echo settings of that configuration.\<close>

theorem client_accepts_loaded:
  "normalizeEchoConfig ec = fst (normalizeGTPEchoConfig ec path ws)
   \<and> (s \<noteq> [] \<longrightarrow> chargingCharacteristicsValue s \<noteq> None \<longleftrightarrow> validTwoOctetHex s)
   \<and> (Load contents decode = Inr c \<longrightarrow> (\<exists>cl. NewGTP (c_GTP c) (gc_ControlEcho (c_GTP c)) True rnd nano = Inr cl
        \<and> gl_echoCfg cl = gc_ControlEcho (c_GTP c) \<and> gl_cfg cl = c_GTP c))"
proof (intro conjI impI)
  show "normalizeEchoConfig ec = fst (normalizeGTPEchoConfig ec path ws)"
    by (simp add: normalizeEchoConfig_def normalizeGTPEchoConfig_def clamp_interval_def or_int_def)
  show "chargingCharacteristicsValue s \<noteq> None \<longleftrightarrow> validTwoOctetHex s" if "s \<noteq> []"
    using that by (simp add: chargingCharacteristicsValue_def hex_two_octets)
  assume "Load contents decode = Inr c"
  then have "gtp_config_ok (c_GTP c)" by (rule load_gtp_ok)
  then show "\<exists>cl. NewGTP (c_GTP c) (gc_ControlEcho (c_GTP c)) True rnd nano = Inr cl
      \<and> gl_echoCfg cl = gc_ControlEcho (c_GTP c) \<and> gl_cfg cl = c_GTP c"
    by (auto simp: gtp_config_ok_def NewGTP_def chargingCharacteristicsValue_def normalizeEchoConfig_def echo_ok_def
        MinGTPEchoIntervalSeconds_def)
qed

section \<open>Witnesses\<close>

theorem response_answers_request_witness:
  "\<exists>t tx u packet peer v. gw_trace demo_asked = t @ Began 0 tx # u @ Received packet peer # v
     \<and> decodeGTPv2Message packet = Inr demo_message \<and> tx_sequence tx = 2"
proof -
  have "gw_trace (the (world_end 0 WakeResponse 1 demo_asked)) = gw_trace demo_asked @ Ended 0 (Inr demo_message) (EchoResult None) # []"
    by (simp add: demo_ended)
  from response_answers_request [OF demo_new demo_reachable(2) this]
  have "\<exists>t tx u packet peer v. gw_trace demo_asked = t @ Began 0 tx # u @ Received packet peer # v
     \<and> decodeGTPv2Message packet = Inr demo_message \<and> g_Sequence demo_message = tx_sequence tx" by blast
  moreover have "g_Sequence demo_message = 2" by (simp add: demo_message_def)
  ultimately show ?thesis by metis
qed

theorem calls_tracked_until_closed_witness:
  "gl_pending (gw_client demo_asked) 2 = Some 0 \<and> dom (gw_calls demo_asked) = {0}
   \<and> (\<exists>w'. world_end 0 WakeError 1 (world_fail [2] (world_close demo_asked)) = Some w' \<and> 0 \<notin> dom (gw_calls w'))"
proof -
  have p: "gl_pending (gw_client demo_asked) = [2 \<mapsto> 0]" "gw_calls demo_asked = [0 \<mapsto> EchoFrame OpProbe 0]"
    by (simp_all add: demo_heard)
  have r: "gtpc_reachable demo_client (world_close demo_asked)" by (rule later [OF demo_reachable(1) close_step])
  have "gl_closed (gw_client (world_close demo_asked))" "set [2] = dom (gl_pending (gw_client (world_close demo_asked)))"
    "0 \<in> dom (gw_calls (world_close demo_asked))" by (simp_all add: world_close_def close_flag_def p)
  with calls_tracked_until_closed [OF demo_new r] p show ?thesis by (auto simp del: set_simps)
qed


theorem client_accepts_loaded_witness:
  "\<exists>cl. NewGTP (c_GTP (ApplyDefaults demo_file)) (gc_ControlEcho (c_GTP (ApplyDefaults demo_file))) True None 7 = Inr cl
     \<and> chargingCharacteristicsValue ''08zz'' = None"
proof -
  have "Load (Inr []) (\<lambda>_ _. Inr demo_file) = Inr (ApplyDefaults demo_file)" by (simp add: Load_def Let_def demo_file_valid)
  moreover have "\<not> validTwoOctetHex ''08zz''" by code_simp
  ultimately show ?thesis
    using client_accepts_loaded [where s = "''08zz''" and contents = "Inr []" and decode = "\<lambda>_ _. Inr demo_file"
        and c = "ApplyDefaults demo_file" and rnd = None and nano = 7
        and ec = no_echo and path = "[]" and ws = "[]"] by auto
qed

end
