(* ===== verification/Crypto.thy ===== *)
theory Crypto
  imports Prelude
begin

text \<open>
  What the gateway uses of Go's packages crypto/aes, crypto/sha1, crypto/md5 and crypto/hmac: the
  AES-128 block cipher (FIPS 197), the hash functions SHA-1 (FIPS 180-4) and MD5 (RFC 1321), and
  HMAC (RFC 2104). A block of AES is the list of its 16 bytes, column after column.
\<close>

unbundle bit_operations_syntax

section \<open>Byte strings\<close>

definition xor_bytes :: "bytes \<Rightarrow> bytes \<Rightarrow> bytes" where
  "xor_bytes a b = map2 (XOR) a b"

lemma length_xor_bytes [simp]: "length (xor_bytes a b) = min (length a) (length b)"
  by (simp add: xor_bytes_def)

lemma nth_xor_bytes [simp]:
  "i < length a \<Longrightarrow> i < length b \<Longrightarrow> xor_bytes a b ! i = a ! i XOR b ! i"
  by (simp add: xor_bytes_def)

lemma xor_bytes_Nil [simp]: "xor_bytes [] b = []" "xor_bytes a [] = []"
  by (simp_all add: xor_bytes_def)

lemma xor_bytes_Cons [simp]: "xor_bytes (x # a) (y # b) = (x XOR y) # xor_bytes a b"
  by (simp add: xor_bytes_def)

lemma xor_bytes_cancel: "length a = length b \<Longrightarrow> xor_bytes (xor_bytes a b) b = a"
  by (induction a b rule: list_induct2) (simp_all add: xor.assoc)

lemma xor_bytes_comm: "xor_bytes a b = xor_bytes b a"
  unfolding xor_bytes_def by (induction a arbitrary: b; case_tac b) (auto simp: xor.commute)

section \<open>AES\<close>

definition xtime :: "byte \<Rightarrow> byte" where
  "xtime a = (if bit a 7 then push_bit 1 a XOR 0x1b else push_bit 1 a)"

primrec gf_mul :: "nat \<Rightarrow> byte \<Rightarrow> byte \<Rightarrow> byte" where
  \<comment> \<open>the product in GF(2^8), with the low bits of \<open>b\<close>\<close>
  "gf_mul 0 a b = 0"
| "gf_mul (Suc n) a b = (if bit b 0 then a else 0) XOR gf_mul n (xtime a) (drop_bit 1 b)"

definition gf_inv :: "byte \<Rightarrow> byte" where
  \<comment> \<open>\<open>a ^ 254\<close>\<close>
  "gf_inv a =
     (let m = gf_mul 8; a2 = m a a; a4 = m a2 a2; a8 = m a4 a4; a16 = m a8 a8; a32 = m a16 a16;
          a64 = m a32 a32; a128 = m a64 a64
      in m a128 (m a64 (m a32 (m a16 (m a8 (m a4 a2))))))"

definition rotl8 :: "nat \<Rightarrow> byte \<Rightarrow> byte" where
  "rotl8 n b = push_bit n b OR drop_bit (8 - n) b"

definition aes_sbox :: "byte \<Rightarrow> byte" where
  "aes_sbox a =
     (let b = gf_inv a in b XOR rotl8 1 b XOR rotl8 2 b XOR rotl8 3 b XOR rotl8 4 b XOR 0x63)"

definition shift_rows :: "bytes \<Rightarrow> bytes" where
  "shift_rows s = map (\<lambda>i. s ! ((i + 4 * (i mod 4)) mod 16)) [0..<16]"

fun mix_columns :: "bytes \<Rightarrow> bytes" where
  "mix_columns (a # b # c # d # s) =
     (let m = gf_mul 8 in
      [m 2 a XOR m 3 b XOR c XOR d, a XOR m 2 b XOR m 3 c XOR d,
       a XOR b XOR m 2 c XOR m 3 d, m 3 a XOR b XOR c XOR m 2 d] @ mix_columns s)"
| "mix_columns _ = []"

definition next_round_key :: "byte \<Rightarrow> bytes \<Rightarrow> bytes" where
  "next_round_key rcon k =
     (let t = [aes_sbox (k ! 13) XOR rcon, aes_sbox (k ! 14), aes_sbox (k ! 15), aes_sbox (k ! 12)];
          w0 = xor_bytes (slice k 0 4) t; w1 = xor_bytes (slice k 4 8) w0;
          w2 = xor_bytes (slice k 8 12) w1; w3 = xor_bytes (slice k 12 16) w2
      in w0 @ w1 @ w2 @ w3)"

primrec aes_rounds :: "nat \<Rightarrow> byte \<Rightarrow> bytes \<Rightarrow> bytes \<Rightarrow> bytes" where
  \<comment> \<open>the rounds that are left; the last one does not mix the columns\<close>
  "aes_rounds 0 rcon k s = s"
| "aes_rounds (Suc n) rcon k s =
     (let k' = next_round_key rcon k; t = shift_rows (map aes_sbox s)
      in aes_rounds n (xtime rcon) k' (xor_bytes (if n = 0 then t else mix_columns t) k'))"

definition aes128 :: "bytes \<Rightarrow> bytes \<Rightarrow> bytes" where
  \<comment> \<open>\<open>aes.NewCipher(key)\<close>, which accepts every 16-byte key, and \<open>Encrypt\<close>\<close>
  "aes128 key s = aes_rounds 10 1 key (xor_bytes s key)"

lemma length_mix_columns: "length s = 16 \<Longrightarrow> length (mix_columns s) = 16"
  by (auto simp: Let_def length_Suc_conv eval_nat_numeral)

lemma length_next_round_key: "length k = 16 \<Longrightarrow> length (next_round_key rcon k) = 16"
  by (simp add: next_round_key_def Let_def slice_def)

lemma length_aes_rounds:
  "length k = 16 \<Longrightarrow> length s = 16 \<Longrightarrow> length (aes_rounds n rcon k s) = 16"
  by (induction n arbitrary: rcon k s)
    (simp_all add: Let_def length_next_round_key length_mix_columns shift_rows_def)

lemma length_aes128 [simp]: "length key = 16 \<Longrightarrow> length s = 16 \<Longrightarrow> length (aes128 key s) = 16"
  by (simp add: aes128_def length_aes_rounds)

section \<open>SHA-1\<close>

definition rotl32 :: "nat \<Rightarrow> u32 \<Rightarrow> u32" where
  "rotl32 n x = push_bit n x OR drop_bit (32 - n) x"

definition ch :: "u32 \<Rightarrow> u32 \<Rightarrow> u32 \<Rightarrow> u32" where "ch x y z = (x AND y) XOR (NOT x AND z)"
definition parity :: "u32 \<Rightarrow> u32 \<Rightarrow> u32 \<Rightarrow> u32" where "parity x y z = x XOR y XOR z"
definition maj :: "u32 \<Rightarrow> u32 \<Rightarrow> u32 \<Rightarrow> u32" where "maj x y z = (x AND y) XOR (x AND z) XOR (y AND z)"

definition sha_f :: "nat \<Rightarrow> u32 \<Rightarrow> u32 \<Rightarrow> u32 \<Rightarrow> u32" where
  "sha_f t = (if t < 20 then ch else if t < 40 then parity else if t < 60 then maj else parity)"

definition sha_k :: "nat \<Rightarrow> u32" where
  "sha_k t = (if t < 20 then 0x5A827999 else if t < 40 then 0x6ED9EBA1
              else if t < 60 then 0x8F1BBCDC else 0xCA62C1D6)"

type_synonym sha_state = "u32 \<times> u32 \<times> u32 \<times> u32 \<times> u32"

definition sha_init :: sha_state where
  "sha_init = (0x67452301, 0xEFCDAB89, 0x98BADCFE, 0x10325476, 0xC3D2E1F0)"

definition sha_next :: "u32 list \<Rightarrow> u32" where
  "sha_next ws =
     (let t = length ws in rotl32 1 (ws ! (t - 3) XOR ws ! (t - 8) XOR ws ! (t - 14) XOR ws ! (t - 16)))"

primrec sha_extend :: "nat \<Rightarrow> u32 list \<Rightarrow> u32 list" where
  \<comment> \<open>the message schedule, \<open>n\<close> words further\<close>
  "sha_extend 0 ws = ws"
| "sha_extend (Suc n) ws = sha_extend n (ws @ [sha_next ws])"

definition block_words :: "bytes \<Rightarrow> u32 list" where
  "block_words b = map (\<lambda>i. be32 (b ! (i * 4)) (b ! (i * 4 + 1)) (b ! (i * 4 + 2)) (b ! (i * 4 + 3))) [0..<16]"

definition sha_round :: "nat \<Rightarrow> u32 \<Rightarrow> sha_state \<Rightarrow> sha_state" where
  "sha_round t w = (\<lambda>(a, b, c, d, e). (rotl32 5 a + sha_f t b c d + e + sha_k t + w, a, rotl32 30 b, c, d))"

definition sha_compress :: "bytes \<Rightarrow> sha_state \<Rightarrow> sha_state" where
  "sha_compress block h =
     (let ws = sha_extend 64 (block_words block);
          (a, b, c, d, e) = fold (\<lambda>t. sha_round t (ws ! t)) [0..<80] h; (h0, h1, h2, h3, h4) = h
      in (h0 + a, h1 + b, h2 + c, h3 + d, h4 + e))"

definition sha_digest :: "sha_state \<Rightarrow> bytes" where
  "sha_digest = (\<lambda>(a, b, c, d, e). put32 a @ put32 b @ put32 c @ put32 d @ put32 e)"

definition chunks64 :: "bytes \<Rightarrow> bytes list" where
  "chunks64 bs = map (\<lambda>i. slice bs (64 * i) (64 * i + 64)) [0..<length bs div 64]"

definition put64 :: "u64 \<Rightarrow> bytes" where
  "put64 v = put32 (ucast (drop_bit 32 v)) @ put32 (ucast v)"

definition hash_zeros :: "nat \<Rightarrow> nat" where
  \<comment> \<open>the zero bytes between the byte 0x80 and the length of an \<open>n\<close>-byte message\<close>
  "hash_zeros n = (if n mod 64 < 56 then 55 - n mod 64 else 119 - n mod 64)"

definition sha1 :: "bytes \<Rightarrow> bytes" where
  "sha1 m = sha_digest (fold sha_compress
     (chunks64 (m @ [0x80] @ replicate (hash_zeros (length m)) 0 @ put64 (8 * word_of_nat (length m))))
     sha_init)"

lemma length_sha_digest [simp]: "length (sha_digest h) = 20"
  by (simp add: sha_digest_def split: prod.splits)

lemma length_sha1 [simp]: "length (sha1 m) = 20"
  by (simp add: sha1_def)

section \<open>MD5\<close>

definition le32 :: "byte \<Rightarrow> byte \<Rightarrow> byte \<Rightarrow> byte \<Rightarrow> u32" where
  "le32 a b c d = be32 d c b a"

definition put_le32 :: "u32 \<Rightarrow> bytes" where
  "put_le32 v = rev (put32 v)"

definition md5_t :: "u32 list" where
  \<comment> \<open>the integer part of \<open>2^32 * |sin (i + 1)|\<close>\<close>
  "md5_t = [0xd76aa478, 0xe8c7b756, 0x242070db, 0xc1bdceee, 0xf57c0faf, 0x4787c62a, 0xa8304613, 0xfd469501,
    0x698098d8, 0x8b44f7af, 0xffff5bb1, 0x895cd7be, 0x6b901122, 0xfd987193, 0xa679438e, 0x49b40821,
    0xf61e2562, 0xc040b340, 0x265e5a51, 0xe9b6c7aa, 0xd62f105d, 0x02441453, 0xd8a1e681, 0xe7d3fbc8,
    0x21e1cde6, 0xc33707d6, 0xf4d50d87, 0x455a14ed, 0xa9e3e905, 0xfcefa3f8, 0x676f02d9, 0x8d2a4c8a,
    0xfffa3942, 0x8771f681, 0x6d9d6122, 0xfde5380c, 0xa4beea44, 0x4bdecfa9, 0xf6bb4b60, 0xbebfbc70,
    0x289b7ec6, 0xeaa127fa, 0xd4ef3085, 0x04881d05, 0xd9d4d039, 0xe6db99e5, 0x1fa27cf8, 0xc4ac5665,
    0xf4292244, 0x432aff97, 0xab9423a7, 0xfc93a039, 0x655b59c3, 0x8f0ccc92, 0xffeff47d, 0x85845dd1,
    0x6fa87e4f, 0xfe2ce6e0, 0xa3014314, 0x4e0811a1, 0xf7537e82, 0xbd3af235, 0x2ad7d2bb, 0xeb86d391]"

definition md5_shifts :: "nat list" where
  "md5_shifts = concat (map (\<lambda>r. concat (replicate 4 r))
     [[7, 12, 17, 22], [5, 9, 14, 20], [4, 11, 16, 23], [6, 10, 15, 21]])"

definition md5_mix :: "nat \<Rightarrow> u32 \<Rightarrow> u32 \<Rightarrow> u32 \<Rightarrow> u32" where
  "md5_mix t x y z = (if t < 16 then (x AND y) OR (NOT x AND z) else if t < 32 then (x AND z) OR (y AND NOT z)
     else if t < 48 then x XOR y XOR z else y XOR (x OR NOT z))"

definition md5_index :: "nat \<Rightarrow> nat" where
  "md5_index t = (if t < 16 then t else if t < 32 then (5 * t + 1) mod 16
     else if t < 48 then (3 * t + 5) mod 16 else (7 * t) mod 16)"

type_synonym md5_state = "u32 \<times> u32 \<times> u32 \<times> u32"

definition md5_step :: "u32 list \<Rightarrow> nat \<Rightarrow> md5_state \<Rightarrow> md5_state" where
  "md5_step ws t = (\<lambda>(a, b, c, d).
     (d, b + rotl32 (md5_shifts ! t) (a + md5_mix t b c d + md5_t ! t + ws ! md5_index t), b, c))"

definition md5_compress :: "bytes \<Rightarrow> md5_state \<Rightarrow> md5_state" where
  "md5_compress block h =
     (let ws = map (\<lambda>i. le32 (block ! (4 * i)) (block ! (4 * i + 1)) (block ! (4 * i + 2)) (block ! (4 * i + 3))) [0..<16];
          (a, b, c, d) = fold (md5_step ws) [0..<64] h; (h0, h1, h2, h3) = h
      in (h0 + a, h1 + b, h2 + c, h3 + d))"

definition md5 :: "bytes \<Rightarrow> bytes" where
  "md5 m =
     (let bits = 8 * word_of_nat (length m) :: u64;
          (a, b, c, d) = fold md5_compress
            (chunks64 (m @ [0x80] @ replicate (hash_zeros (length m)) 0 @ put_le32 (ucast bits) @ put_le32 (ucast (drop_bit 32 bits))))
            (0x67452301, 0xefcdab89, 0x98badcfe, 0x10325476)
      in put_le32 a @ put_le32 b @ put_le32 c @ put_le32 d)"

lemma length_md5 [simp]: "length (md5 m) = 16"
  by (simp add: md5_def Let_def put_le32_def split: prod.splits)

section \<open>HMAC\<close>

definition hmac :: "(bytes \<Rightarrow> bytes) \<Rightarrow> bytes \<Rightarrow> bytes \<Rightarrow> bytes" where
  \<comment> \<open>\<open>hmac.New(h, key)\<close>, \<open>Write(m)\<close> and \<open>Sum(nil)\<close>; both hash functions work on 64-byte blocks\<close>
  "hmac h key m =
     (let k = (if 64 < length key then h key else key); k0 = k @ replicate (64 - length k) 0
      in h (map (\<lambda>b. b XOR 0x5c) k0 @ h (map (\<lambda>b. b XOR 0x36) k0 @ m)))"

lemma length_hmac_sha1 [simp]: "length (hmac sha1 key m) = 20"
  by (simp add: hmac_def Let_def)

lemma length_hmac_md5 [simp]: "length (hmac md5 key m) = 16"
  by (simp add: hmac_def Let_def)

end
