(* ===== verification/EapAka.thy ===== *)
theory EapAka
  imports DiamMsg Crypto
begin

text \<open>
  The EAP-AKA peer of the Diameter client (\<open>internal/diameter/eap_aka.go\<close>): it parses the AAA
  server's challenge, runs the Milenage functions with the subscriber's keys, checks that the
  network knows the keys too, and builds the response. An array \<open>[16]byte\<close> is a list of 16 bytes.
  Index and slice expressions of the code are within their bounds wherever the length is checked
  before; \<open>sha1DSS\<close> slices blocks of 64 bytes without a check, and its value is \<open>None\<close> where the
  code panics.
\<close>

unbundle bit_operations_syntax

definition eapCodeRequest :: byte where "eapCodeRequest = 1"
definition eapCodeResponse :: byte where "eapCodeResponse = 2"
definition eapTypeAKA :: byte where "eapTypeAKA = 23"
definition eapAKASubtypeChallenge :: byte where "eapAKASubtypeChallenge = 1"
definition eapAKAAttrRAND :: byte where "eapAKAAttrRAND = 1"
definition eapAKAAttrAUTN :: byte where "eapAKAAttrAUTN = 2"
definition eapAKAAttrRES :: byte where "eapAKAAttrRES = 3"
definition eapAKAAttrMAC :: byte where "eapAKAAttrMAC = 11"

lemmas eap_aka_consts = eapCodeRequest_def eapCodeResponse_def eapTypeAKA_def
  eapAKASubtypeChallenge_def eapAKAAttrRAND_def eapAKAAttrAUTN_def eapAKAAttrRES_def eapAKAAttrMAC_def

record aka_challenge =
  ac_Identifier :: byte
  ac_RAND :: bytes
  ac_AUTN :: bytes

record aka_keys =
  ak_RES :: bytes
  ak_CK :: bytes
  ak_IK :: bytes

datatype aka_err =
    ChallengeTooShort
  | NotAChallenge
  | ChallengeLength
  | TruncatedAttribute
  | AttributeLength
  | RANDTooShort
  | AUTNTooShort
  | MissingRAND
  | MissingAUTN
  | DecodeHex string
  | KeySize string
  | AUTNMACFailed
  | PRFPanics

section \<open>Challenge and response\<close>

definition aka_attr_step :: "bytes \<Rightarrow> aka_challenge \<Rightarrow> aka_err + (aka_challenge \<times> bytes)" where
  \<comment> \<open>one turn of the loop of \<open>parseAKAChallenge\<close>\<close>
  "aka_attr_step attrs out =
     (if length attrs < 4 then Inl TruncatedAttribute
      else let attrType = attrs ! 0; attrLen = unat (attrs ! 1) * 4
           in if attrLen < 4 \<or> length attrs < attrLen then Inl AttributeLength
              else let value = slice attrs 4 attrLen; rest = drop attrLen attrs
                   in if attrType = eapAKAAttrRAND
                      then if length value < 16 then Inl RANDTooShort
                           else Inr (out\<lparr> ac_RAND := take 16 value \<rparr>, rest)
                      else if attrType = eapAKAAttrAUTN
                      then if length value < 16 then Inl AUTNTooShort
                           else Inr (out\<lparr> ac_AUTN := take 16 value \<rparr>, rest)
                      else Inr (out, rest))"

lemma aka_attr_step_shrinks:
  "aka_attr_step attrs out = Inr (out', rest) \<Longrightarrow> length rest < length attrs"
  by (auto simp: aka_attr_step_def Let_def split: if_splits)

function aka_attrs :: "bytes \<Rightarrow> aka_challenge \<Rightarrow> aka_err + aka_challenge" where
  "aka_attrs attrs out =
     (if attrs = [] then Inr out
      else case aka_attr_step attrs out of Inl e \<Rightarrow> Inl e | Inr (out', rest) \<Rightarrow> aka_attrs rest out')"
  by pat_completeness auto

termination
  by (relation "measure (\<lambda>(attrs, out). length attrs)") (auto dest: aka_attr_step_shrinks)

declare aka_attrs.simps [simp del]

definition zero16 :: bytes where
  "zero16 = replicate 16 0"

definition parseAKAChallenge :: "bytes \<Rightarrow> aka_err + aka_challenge" where
  "parseAKAChallenge payload =
     (if length payload < 8 then Inl ChallengeTooShort
      else if payload ! 0 \<noteq> eapCodeRequest \<or> payload ! 4 \<noteq> eapTypeAKA \<or> payload ! 5 \<noteq> eapAKASubtypeChallenge
      then Inl NotAChallenge
      else let len = unat (be16 (payload ! 2) (payload ! 3))
           in if len < 8 \<or> length payload < len then Inl ChallengeLength
              else case aka_attrs (slice payload 8 len)
                     \<lparr> ac_Identifier = payload ! 1, ac_RAND = zero16, ac_AUTN = zero16 \<rparr> of
                     Inl e \<Rightarrow> Inl e
                   | Inr out \<Rightarrow> if ac_RAND out = zero16 then Inl MissingRAND
                       else if ac_AUTN out = zero16 then Inl MissingAUTN else Inr out)"

definition eapAKAAttrRESValue :: "bytes \<Rightarrow> bytes" where
  \<comment> \<open>\<open>copy(out[4:], res)\<close> into a zeroed buffer that holds it\<close>
  "eapAKAAttrRESValue res =
     (let valueLen = 2 + length res; paddedValueLen = pad4 valueLen; attrLen = 4 + paddedValueLen
      in [eapAKAAttrRES, word_of_nat (attrLen div 4)] @ put16 (word_of_nat (length res * 8))
         @ res @ replicate (attrLen - 4 - length res) 0)"

definition eapAKAChallengeResponse :: "byte \<Rightarrow> bytes \<Rightarrow> bytes \<Rightarrow> bytes" where
  "eapAKAChallengeResponse identifier res kAut =
     (let resAttr = eapAKAAttrRESValue res;
          macAttr = [eapAKAAttrMAC, 5, 0, 0] @ replicate 16 0;
          len = 8 + length resAttr + length macAttr;
          out = [eapCodeResponse, identifier] @ put16 (word_of_nat len)
            @ [eapTypeAKA, eapAKASubtypeChallenge, 0, 0] @ resAttr @ macAttr
      in take (length out - 16) out @ take 16 (hmac sha1 kAut out))"

definition etf_atom :: "string \<Rightarrow> bytes" where
  "etf_atom name = [119, word_of_nat (length name)] @ bytes_of name"

definition osmoAAAAuthCompletePayload :: "byte \<Rightarrow> bytes" where
  "osmoAAAAuthCompletePayload identifier =
     [131, 116, 0, 0, 0, 2] @ etf_atom ''sta_auth_complete'' @ etf_atom ''true''
     @ etf_atom ''eap_identifier'' @ [97, identifier]"

section \<open>Milenage\<close>

definition xor16 :: "bytes \<Rightarrow> bytes \<Rightarrow> bytes" where
  "xor16 a b = map (\<lambda>i. a ! i XOR b ! i) [0..<16]"

definition rotateLeft128 :: "bytes \<Rightarrow> nat \<Rightarrow> bytes" where
  "rotateLeft128 b n = (if n = 0 then b else map (\<lambda>i. b ! ((i + n) mod 16)) [0..<16])"

definition milenageC :: "nat \<Rightarrow> bytes" where
  "milenageC index = (let c = zero16 in if 1 < index then c[15 := push_bit (index - 2) 1] else c)"

definition aesEncryptBlock :: "bytes \<Rightarrow> bytes \<Rightarrow> bytes" where
  \<comment> \<open>\<open>aes.NewCipher\<close> fails for keys of another size only\<close>
  "aesEncryptBlock key plaintext = aes128 key plaintext"

definition milenageFN :: "bytes \<Rightarrow> bytes \<Rightarrow> bytes \<Rightarrow> bytes \<Rightarrow> nat \<Rightarrow> bytes" where
  "milenageFN ki opc temp c rotateBytes =
     xor16 (aesEncryptBlock ki (xor16 (rotateLeft128 (xor16 temp opc) rotateBytes) c)) opc"

definition milenageF2345 :: "bytes \<Rightarrow> bytes \<Rightarrow> bytes \<Rightarrow> bytes \<times> bytes \<times> bytes \<times> bytes" where
  \<comment> \<open>\<open>res\<close>, \<open>ck\<close>, \<open>ik\<close>, \<open>ak\<close>\<close>
  "milenageF2345 ki opc temp =
     (let out2 = milenageFN ki opc temp (milenageC 2) 0
      in (slice out2 8 16, milenageFN ki opc temp (milenageC 3) 4,
          milenageFN ki opc temp (milenageC 4) 8, slice out2 0 6))"

definition milenageF1 :: "bytes \<Rightarrow> bytes \<Rightarrow> bytes \<Rightarrow> bytes \<Rightarrow> bytes \<Rightarrow> bytes" where
  "milenageF1 ki opc temp sqn amf =
     (let in1 = sqn @ amf @ sqn @ amf;
          out = aesEncryptBlock ki (xor16 temp (rotateLeft128 (xor16 in1 opc) 8))
      in slice (xor16 out opc) 0 8)"

fun hex_decode :: "string \<Rightarrow> bytes option" where
  \<comment> \<open>\<open>hex.DecodeString\<close>\<close>
  "hex_decode [] = Some []"
| "hex_decode [_] = None"
| "hex_decode (a # b # s) = (case (hex_val a, hex_val b, hex_decode s) of
     (Some x, Some y, Some bs) \<Rightarrow> Some (word_of_nat (16 * x + y) # bs) | _ \<Rightarrow> None)"

definition decode16Hex :: "string \<Rightarrow> string \<Rightarrow> aka_err + bytes" where
  "decode16Hex value name =
     (case hex_decode value of None \<Rightarrow> Inl (DecodeHex name)
      | Some raw \<Rightarrow> if length raw \<noteq> 16 then Inl (KeySize name) else Inr raw)"

definition milenageAKA :: "string \<Rightarrow> string \<Rightarrow> bytes \<Rightarrow> bytes \<Rightarrow> aka_err + aka_keys" where
  "milenageAKA kiHex opcHex rand autn =
     (case decode16Hex kiHex ''Ki'' of Inl e \<Rightarrow> Inl e
      | Inr ki \<Rightarrow>
     (case decode16Hex opcHex ''OPc'' of Inl e \<Rightarrow> Inl e
      | Inr opc \<Rightarrow>
        (let temp = aesEncryptBlock ki (xor16 rand opc);
             (xres, ck, ik, ak) = milenageF2345 ki opc temp;
             sqn = map (\<lambda>i. autn ! i XOR ak ! i) [0..<6];
             amf = [autn ! 6, autn ! 7];
             macA = milenageF1 ki opc temp sqn amf
         in if macA \<noteq> slice autn 8 16 then Inl AUTNMACFailed
            else Inr \<lparr> ak_RES = xres, ak_CK = ck, ak_IK = ik \<rparr>)))"

section \<open>Session keys\<close>

definition bitsRotateLeft32 :: "u32 \<Rightarrow> nat \<Rightarrow> u32" where
  "bitsRotateLeft32 x k = push_bit k x OR drop_bit (32 - k) x"

definition dss_w :: "bytes \<Rightarrow> u32 list" where
  \<comment> \<open>the array \<open>w\<close> after both loops\<close>
  "dss_w block =
     (let w0 = map (\<lambda>i. be32 (block ! (i * 4)) (block ! (i * 4 + 1)) (block ! (i * 4 + 2)) (block ! (i * 4 + 3))) [0..<16]
            @ replicate 64 0
      in fold (\<lambda>i w. w[i := bitsRotateLeft32 (w ! (i - 3) XOR w ! (i - 8) XOR w ! (i - 14) XOR w ! (i - 16)) 1])
           [16..<80] w0)"

definition dss_round :: "u32 list \<Rightarrow> nat \<Rightarrow> sha_state \<Rightarrow> sha_state" where
  "dss_round w i = (\<lambda>(a, b, c, d, e).
     let (f, k) = (if i < 20 then ((b AND c) OR (NOT b AND d), 0x5A827999)
                   else if i < 40 then (b XOR c XOR d, 0x6ED9EBA1)
                   else if i < 60 then ((b AND c) OR (b AND d) OR (c AND d), 0x8F1BBCDC)
                   else (b XOR c XOR d, 0xCA62C1D6))
     in (bitsRotateLeft32 a 5 + f + e + k + w ! i, a, bitsRotateLeft32 b 30, c, d))"

definition dss_block :: "bytes \<Rightarrow> sha_state \<Rightarrow> sha_state" where
  "dss_block block h =
     (let (a, b, c, d, e) = fold (dss_round (dss_w block)) [0..<80] h; (h0, h1, h2, h3, h4) = h
      in (h0 + a, h1 + b, h2 + c, h3 + d, h4 + e))"

function dss_blocks :: "bytes \<Rightarrow> sha_state \<Rightarrow> sha_state option" where
  "dss_blocks padded h =
     (if padded = [] then Some h else if length padded < 64 then None
      else dss_blocks (drop 64 padded) (dss_block (take 64 padded) h))"
  by pat_completeness auto

termination
  by (relation "measure (\<lambda>(p, h). length p)") auto

declare dss_blocks.simps [simp del]

definition sha1DSS :: "bytes \<Rightarrow> bytes option" where
  "sha1DSS data =
     map_option (\<lambda>(h0, h1, h2, h3, h4). put32 h0 @ put32 h1 @ put32 h2 @ put32 h3 @ put32 h4)
       (dss_blocks (data @ replicate 44 0) (0x67452301, 0xEFCDAB89, 0x98BADCFE, 0x10325476, 0xC3D2E1F0))"

definition be_nat :: "bytes \<Rightarrow> nat" where
  \<comment> \<open>\<open>SetBytes\<close> of package math/big\<close>
  "be_nat bs = foldl (\<lambda>a b. 256 * a + unat b) 0 bs"

fun nat_be :: "nat \<Rightarrow> bytes" where
  \<comment> \<open>\<open>Bytes\<close> of package math/big: no leading zero bytes\<close>
  "nat_be n = (if n = 0 then [] else nat_be (n div 256) @ [word_of_nat (n mod 256)])"

declare nat_be.simps [simp del]

definition eapAKANextXVAL :: "bytes \<Rightarrow> bytes \<Rightarrow> nat \<Rightarrow> bytes" where
  "eapAKANextXVAL xval w modulus =
     (let out = nat_be ((be_nat xval + be_nat w + 1) mod modulus)
      in if 20 \<le> length out then drop (length out - 20) out else replicate (20 - length out) 0 @ out)"

lemma length_sha1DSS: "sha1DSS data = Some w \<Longrightarrow> length w = 20"
  by (auto simp: sha1DSS_def)

function prf_loop :: "bytes \<Rightarrow> bytes \<Rightarrow> nat \<Rightarrow> bytes option" where
  \<comment> \<open>the loop of \<open>eapAKAPRF\<close>\<close>
  "prf_loop result xval len =
     (if length result < len then
        (case sha1DSS xval of None \<Rightarrow> None
         | Some w0 \<Rightarrow>
           (let x1 = eapAKANextXVAL xval w0 (2 ^ 160) in
            case sha1DSS x1 of None \<Rightarrow> None
            | Some w1 \<Rightarrow> prf_loop (result @ w0 @ w1) (eapAKANextXVAL x1 w1 (2 ^ 160)) len))
      else Some result)"
  by pat_completeness auto

termination
  by (relation "measure (\<lambda>(r, x, n). n - length r)") (auto dest!: length_sha1DSS)

declare prf_loop.simps [simp del]

definition eapAKAPRF :: "bytes \<Rightarrow> nat \<Rightarrow> bytes option" where
  "eapAKAPRF mk len = map_option (take len) (prf_loop [] mk len)"

definition deriveEAPAKAKeys :: "bytes \<Rightarrow> bytes \<Rightarrow> bytes \<Rightarrow> (bytes \<times> bytes) option" where
  \<comment> \<open>\<open>kEncr\<close> and \<open>kAut\<close>\<close>
  "deriveEAPAKAKeys identity ik ck =
     map_option (\<lambda>keymat. (take 16 keymat, slice keymat 16 32))
       (eapAKAPRF (sha1 (identity @ ik @ ck)) 160)"

definition buildEAPAKAChallengeResponse ::
    "string \<Rightarrow> bytes \<Rightarrow> string \<Rightarrow> string \<Rightarrow> aka_err + bytes" where
  "buildEAPAKAChallengeResponse identity challengePayload kiHex opcHex =
     (case parseAKAChallenge challengePayload of Inl e \<Rightarrow> Inl e
      | Inr challenge \<Rightarrow>
     (case milenageAKA kiHex opcHex (ac_RAND challenge) (ac_AUTN challenge) of Inl e \<Rightarrow> Inl e
      | Inr keys \<Rightarrow>
     (case deriveEAPAKAKeys (bytes_of identity) (ak_IK keys) (ak_CK keys) of None \<Rightarrow> Inl PRFPanics
      | Some (_, kAut) \<Rightarrow> Inr (eapAKAChallengeResponse (ac_Identifier challenge) (ak_RES keys) kAut))))"

end
