(* ===== verification/EapAkaSpec.thy ===== *)
theory EapAkaSpec
  imports EapAka
begin

text \<open>
  EAP-AKA as its specifications have it, and the proof that the code implements them: the Milenage
  functions of 3GPP TS 35.206 and the AUTN of TS 33.102, the pseudo-random function of FIPS 186-2
  (change notice 1), and the attributes of RFC 4187.
\<close>

unbundle bit_operations_syntax

section \<open>Milenage (TS 35.206)\<close>

definition rot :: "nat \<Rightarrow> bytes \<Rightarrow> bytes" where
  \<comment> \<open>cyclic rotation by \<open>r\<close> bytes\<close>
  "rot r x = drop r x @ take r x"

definition mil_temp :: "bytes \<Rightarrow> bytes \<Rightarrow> bytes \<Rightarrow> bytes" where
  "mil_temp k opc rand = aes128 k (xor_bytes rand opc)"

definition mil_out :: "bytes \<Rightarrow> bytes \<Rightarrow> bytes \<Rightarrow> nat \<Rightarrow> byte \<Rightarrow> bytes" where
  \<comment> \<open>OUT2, OUT3 and OUT4: rotation by \<open>r\<close> bytes, constant \<open>c\<close> in the last byte\<close>
  "mil_out k opc rand r c =
     xor_bytes (aes128 k (xor_bytes (rot r (xor_bytes (mil_temp k opc rand) opc)) (replicate 15 0 @ [c]))) opc"

definition mil_f1 :: "bytes \<Rightarrow> bytes \<Rightarrow> bytes \<Rightarrow> bytes \<Rightarrow> bytes \<Rightarrow> bytes" where
  "mil_f1 k opc rand sqn amf =
     take 8 (xor_bytes (aes128 k (xor_bytes (mil_temp k opc rand)
       (rot 8 (xor_bytes (sqn @ amf @ sqn @ amf) opc)))) opc)"

definition mil_f2 where "mil_f2 k opc rand = drop 8 (mil_out k opc rand 0 1)"
definition mil_f3 where "mil_f3 k opc rand = mil_out k opc rand 4 2"
definition mil_f4 where "mil_f4 k opc rand = mil_out k opc rand 8 4"
definition mil_f5 where "mil_f5 k opc rand = take 6 (mil_out k opc rand 0 1)"

definition network_autn :: "bytes \<Rightarrow> bytes \<Rightarrow> bytes \<Rightarrow> bytes \<Rightarrow> bytes \<Rightarrow> bytes" where
  \<comment> \<open>TS 33.102: the sequence number under AK, the AMF and the MAC of the network\<close>
  "network_autn k opc rand sqn amf = xor_bytes sqn (mil_f5 k opc rand) @ amf @ mil_f1 k opc rand sqn amf"

definition authentic :: "bytes \<Rightarrow> bytes \<Rightarrow> bytes \<Rightarrow> bytes \<Rightarrow> bool" where
  \<comment> \<open>the AUTN was made by someone who holds the keys; its sequence number and AMF are those that
    its first eight bytes stand for\<close>
  "authentic k opc rand autn \<longleftrightarrow>
     (\<exists>sqn amf. length sqn = 6 \<and> length amf = 2 \<and> autn = network_autn k opc rand sqn amf)"

definition mil_keys :: "bytes \<Rightarrow> bytes \<Rightarrow> bytes \<Rightarrow> aka_keys" where
  "mil_keys k opc rand =
     \<lparr> ak_RES = mil_f2 k opc rand, ak_CK = mil_f3 k opc rand, ak_IK = mil_f4 k opc rand \<rparr>"

lemma xor16_xor_bytes: "length a = 16 \<Longrightarrow> length b = 16 \<Longrightarrow> xor16 a b = xor_bytes a b"
  by (rule nth_equalityI) (simp_all add: xor16_def)

lemma rotateLeft128_rot:
  assumes "length b = 16" "n < 16" shows "rotateLeft128 b n = rot n b"
proof (cases "n = 0")
  case False
  have "b ! ((i + n) mod 16) = (drop n b @ take n b) ! i" if "i < 16" for i
  proof (cases "i + n < 16")
    case False
    hence "(i + n) mod 16 = i + n - 16" "\<not> i < 16 - n" "i - (16 - n) = i + n - 16"
      using assms(2) that by (simp_all add: mod_if)
    with assms that show ?thesis by (simp add: nth_append)
  next
    case True
    hence "i < 16 - n" by simp
    with True assms show ?thesis by (simp add: nth_append add.commute)
  qed
  with False assms show ?thesis
    by (auto simp: rotateLeft128_def rot_def intro!: nth_equalityI)
qed (simp add: rotateLeft128_def rot_def)

lemma length_rot [simp]: "length (rot n b) = length b"
  by (simp add: rot_def)

lemma length_mil_temp [simp]:
  "length k = 16 \<Longrightarrow> length opc = 16 \<Longrightarrow> length rand = 16 \<Longrightarrow> length (mil_temp k opc rand) = 16"
  by (simp add: mil_temp_def)

lemma length_mil_out [simp]:
  "length k = 16 \<Longrightarrow> length opc = 16 \<Longrightarrow> length rand = 16 \<Longrightarrow> length (mil_out k opc rand r c) = 16"
  by (simp add: mil_out_def)

lemma length_mil_f1 [simp]:
  "length k = 16 \<Longrightarrow> length opc = 16 \<Longrightarrow> length rand = 16 \<Longrightarrow> length sqn = 6 \<Longrightarrow> length amf = 2 \<Longrightarrow>
   length (mil_f1 k opc rand sqn amf) = 8"
  by (simp add: mil_f1_def)

lemma milenageC_list:
  "milenageC 2 = replicate 15 0 @ [1]" "milenageC 3 = replicate 15 0 @ [2]"
  "milenageC 4 = replicate 15 0 @ [4]"
  by (simp_all add: milenageC_def zero16_def numeral_eq_Suc)

lemma milenageFN_spec:
  assumes "length k = 16" "length opc = 16" "length rand = 16" "r < 16"
  shows "milenageFN k opc (mil_temp k opc rand) (replicate 15 0 @ [c]) r = mil_out k opc rand r c"
  using assms
  by (simp add: milenageFN_def mil_out_def aesEncryptBlock_def xor16_xor_bytes rotateLeft128_rot)

lemma milenageF2345_spec:
  assumes "length k = 16" "length opc = 16" "length rand = 16"
  shows "milenageF2345 k opc (mil_temp k opc rand)
    = (mil_f2 k opc rand, mil_f3 k opc rand, mil_f4 k opc rand, mil_f5 k opc rand)"
  using assms
  by (simp add: milenageF2345_def milenageC_list milenageFN_spec mil_f2_def mil_f3_def mil_f4_def
      mil_f5_def slice_def Let_def)

lemma milenageF1_spec:
  assumes "length k = 16" "length opc = 16" "length rand = 16" "length sqn = 6" "length amf = 2"
  shows "milenageF1 k opc (mil_temp k opc rand) sqn amf = mil_f1 k opc rand sqn amf"
  using assms
  by (simp add: milenageF1_def mil_f1_def aesEncryptBlock_def xor16_xor_bytes rotateLeft128_rot slice_def)

lemma split_autn:
  assumes "length autn = 16"
  shows "autn = slice autn 0 6 @ [autn ! 6, autn ! 7] @ slice autn 8 16"
  using assms by (auto simp: slice_def length_Suc_conv eval_nat_numeral)

lemma sqn_under_ak:
  assumes "length autn = 16" "length ak = 6"
  shows "map (\<lambda>i. autn ! i XOR ak ! i) [0..<6] = xor_bytes (slice autn 0 6) ak"
  using assms by (auto intro!: nth_equalityI simp: slice_def)

lemma authentic_iff:
  assumes "length k = 16" "length opc = 16" "length rand = 16" "length autn = 16"
  shows "authentic k opc rand autn \<longleftrightarrow>
    mil_f1 k opc rand (xor_bytes (slice autn 0 6) (mil_f5 k opc rand)) [autn ! 6, autn ! 7] = slice autn 8 16"
    (is "_ \<longleftrightarrow> ?mac = _")
proof
  have ak: "length (mil_f5 k opc rand) = 6" using assms by (simp add: mil_f5_def)
  {
    assume "?mac = slice autn 8 16"
    moreover have "length (slice autn 0 6) = 6" using assms by (simp add: slice_def)
    ultimately have "autn = network_autn k opc rand (xor_bytes (slice autn 0 6) (mil_f5 k opc rand)) [autn ! 6, autn ! 7]"
      using split_autn [OF assms(4)] ak by (simp add: network_autn_def xor_bytes_cancel)
    thus "authentic k opc rand autn"
      unfolding authentic_def using ak assms
      by (intro exI [of _ "xor_bytes (slice autn 0 6) (mil_f5 k opc rand)"]
          exI [of _ "[autn ! 6, autn ! 7]"]) (simp add: slice_def)
  }
  assume "authentic k opc rand autn"
  then obtain sqn amf where l: "length sqn = 6" "length amf = 2"
    and a: "autn = network_autn k opc rand sqn amf" by (auto simp: authentic_def)
  have "slice autn 0 6 = xor_bytes sqn (mil_f5 k opc rand)" "[autn ! 6, autn ! 7] = amf"
    "slice autn 8 16 = mil_f1 k opc rand sqn amf"
    using l ak assms
    by (auto simp: a network_autn_def slice_def nth_append length_Suc_conv eval_nat_numeral)
  with l ak show "?mac = slice autn 8 16" by (simp add: xor_bytes_cancel)
qed

lemma milenageAKA_spec:
  assumes "hex_decode kiHex = Some k" "hex_decode opcHex = Some opc"
    and l: "length k = 16" "length opc = 16" "length rand = 16" "length autn = 16"
  shows "milenageAKA kiHex opcHex rand autn =
    (if authentic k opc rand autn then Inr (mil_keys k opc rand) else Inl AUTNMACFailed)"
proof -
  have "length (mil_f5 k opc rand) = 6" using l by (simp add: mil_f5_def)
  moreover have "aesEncryptBlock k (xor16 rand opc) = mil_temp k opc rand"
    using l by (simp add: aesEncryptBlock_def mil_temp_def xor16_xor_bytes)
  ultimately show ?thesis
    using assms
    by (simp add: milenageAKA_def decode16Hex_def milenageF2345_spec sqn_under_ak milenageF1_spec
        authentic_iff mil_keys_def slice_def)
qed

section \<open>The pseudo-random function (FIPS 186-2)\<close>

lemma maj_or: "maj x y z = (x AND y) OR (x AND z) OR (y AND z)"
  unfolding maj_def by (rule bit_eqI) (auto simp: bit_simps)

lemma ch_or: "ch x y z = (x AND y) OR (NOT x AND z)"
  unfolding ch_def by (rule bit_eqI) (auto simp: bit_simps)

lemma dss_round_sha: "dss_round w = (\<lambda>i. sha_round i (w ! i))"
  by (intro ext) (simp add: dss_round_def sha_round_def bitsRotateLeft32_def rotl32_def sha_f_def
      sha_k_def ch_or maj_or parity_def split: prod.split)

lemma sha_extend_snoc: "sha_extend (Suc n) ws = sha_extend n ws @ [sha_next (sha_extend n ws)]"
proof (induction n arbitrary: ws)
  case (Suc n)
  have "sha_extend (Suc (Suc n)) ws = sha_extend (Suc n) (ws @ [sha_next ws])"
    by (rule sha_extend.simps)
  with Suc.IH [of "ws @ [sha_next ws]"] show ?case by simp
qed simp

lemma length_sha_extend [simp]: "length (sha_extend n ws) = length ws + n"
  by (induction n arbitrary: ws) simp_all

lemma length_block_words [simp]: "length (block_words b) = 16"
  by (simp add: block_words_def)

definition dss_next :: "nat \<Rightarrow> u32 list \<Rightarrow> u32 list" where
  "dss_next i w = w[i := bitsRotateLeft32 (w ! (i - 3) XOR w ! (i - 8) XOR w ! (i - 14) XOR w ! (i - 16)) 1]"

lemma dss_next_sha:
  "length us = n + 16 \<Longrightarrow> dss_next (n + 16) (us @ 0 # r) = us @ sha_next us # r"
  by (simp add: dss_next_def sha_next_def nth_append list_update_append bitsRotateLeft32_def rotl32_def)

lemma dss_w_prefix:
  "n \<le> 64 \<Longrightarrow> fold dss_next [16..<n + 16] (block_words b @ replicate 64 0)
    = sha_extend n (block_words b) @ replicate (64 - n) 0"
proof (induction n)
  case (Suc n)
  have r: "replicate (64 - n) (0 :: u32) = 0 # replicate (64 - Suc n) 0"
    using Suc.prems by (simp add: Suc_diff_Suc flip: replicate_Suc)
  have "[16..<Suc n + 16] = [16..<n + 16] @ [n + 16]" by (simp only: add_Suc upt_Suc) simp
  hence "fold dss_next [16..<Suc n + 16] (block_words b @ replicate 64 0)
    = dss_next (n + 16) (sha_extend n (block_words b) @ 0 # replicate (64 - Suc n) 0)"
    using Suc by (simp add: r del: upt_Suc add_Suc)
  also have "\<dots> = sha_extend (Suc n) (block_words b) @ replicate (64 - Suc n) 0"
    by (simp only: sha_extend_snoc) (subst dss_next_sha, simp_all)
  finally show ?case .
qed simp

lemma dss_w_sha: "dss_w b = sha_extend 64 (block_words b)"
proof -
  have "dss_w b = fold dss_next [16..<64 + 16] (block_words b @ replicate 64 0)"
    unfolding dss_w_def Let_def block_words_def dss_next_def [abs_def]
    by (rule arg_cong2 [where f = "fold _"]) (simp_all del: upt_rec_numeral upt_conv_Cons)
  thus ?thesis by (simp only: dss_w_prefix order_refl diff_self_eq_0 replicate_0 append_Nil2)
qed

lemma dss_block_sha: "dss_block = sha_compress"
  by (intro ext) (simp add: dss_block_def sha_compress_def dss_w_sha dss_round_sha del: upt_rec_numeral)

definition fips_g :: "bytes \<Rightarrow> bytes" where
  \<comment> \<open>\<open>G(t, c)\<close>: one compression of \<open>c\<close>, filled up with zeros, from the initial state of SHA-1\<close>
  "fips_g c = sha_digest (sha_compress (c @ replicate 44 0) sha_init)"

lemma sha1DSS_fips: "length c = 20 \<Longrightarrow> sha1DSS c = Some (fips_g c)"
  by (simp add: sha1DSS_def dss_blocks.simps [of "c @ _"] dss_blocks.simps [of "[]"] dss_block_sha
      fips_g_def sha_digest_def sha_init_def)

primrec put_be :: "nat \<Rightarrow> nat \<Rightarrow> bytes" where
  \<comment> \<open>the number \<open>n\<close> in \<open>k\<close> bytes\<close>
  "put_be 0 n = []"
| "put_be (Suc k) n = put_be k (n div 256) @ [word_of_nat (n mod 256)]"

lemma length_put_be [simp]: "length (put_be k n) = k"
  by (induction k arbitrary: n) simp_all

lemma be_nat_snoc [simp]: "be_nat (xs @ [b]) = 256 * be_nat xs + unat b"
  by (simp add: be_nat_def)

lemma be_nat_Nil [simp]: "be_nat [] = 0"
  by (simp add: be_nat_def)

lemma put_be_be_nat: "put_be (length xs) (be_nat xs) = xs"
  by (induction xs rule: rev_induct) (simp_all add: word_unat_eq_iff)

lemma put_be_nat_be: "length (nat_be n) \<le> k \<Longrightarrow> replicate (k - length (nat_be n)) 0 @ nat_be n = put_be k n"
proof (induction k arbitrary: n)
  case (Suc k)
  show ?case
  proof (cases "n = 0")
    case True
    have "put_be k 0 = replicate k 0" for k by (induction k) (simp_all flip: replicate_append_same)
    with True show ?thesis by (simp add: nat_be.simps flip: replicate_append_same)
  next
    case False
    hence "nat_be n = nat_be (n div 256) @ [word_of_nat (n mod 256)]" by (simp add: nat_be.simps [of n])
    with Suc.IH [of "n div 256"] Suc.prems show ?thesis by simp
  qed
qed (simp add: nat_be.simps)

lemma length_nat_be: "n < 256 ^ k \<Longrightarrow> length (nat_be n) \<le> k"
proof (induction k arbitrary: n)
  case (Suc k)
  have "n div 256 < 256 ^ k" using Suc.prems by (simp add: less_mult_imp_div_less mult.commute)
  with Suc.IH [of "n div 256"] show ?case by (simp add: nat_be.simps [of n])
qed (simp add: nat_be.simps)

lemma eapAKANextXVAL_fips:
  "eapAKANextXVAL x w (2 ^ 160) = put_be 20 ((1 + be_nat x + be_nat w) mod 2 ^ 160)"
proof -
  let ?n = "(1 + be_nat x + be_nat w) mod 2 ^ 160"
  have "?n < 256 ^ 20" by (rule less_le_trans [of _ "2 ^ 160"]) simp_all
  hence "length (nat_be ?n) \<le> 20" by (rule length_nat_be)
  thus ?thesis
    using put_be_nat_be [of ?n 20]
    by (cases "length (nat_be ?n) = 20") (auto simp: eapAKANextXVAL_def Let_def ac_simps)
qed

primrec fips_xkey :: "bytes \<Rightarrow> nat \<Rightarrow> nat" where
  "fips_xkey mk 0 = be_nat mk"
| "fips_xkey mk (Suc j) = (1 + fips_xkey mk j + be_nat (fips_g (put_be 20 (fips_xkey mk j)))) mod 2 ^ 160"

definition fips_w :: "bytes \<Rightarrow> nat \<Rightarrow> bytes" where
  "fips_w mk j = fips_g (put_be 20 (fips_xkey mk j))"

definition fips_prf :: "bytes \<Rightarrow> bytes" where
  \<comment> \<open>160 bytes of key material\<close>
  "fips_prf mk = concat (map (fips_w mk) [0..<8])"

lemma length_fips_w [simp]: "length (fips_w mk j) = 20"
  by (simp add: fips_w_def fips_g_def)

lemma be_nat_less: "be_nat xs < 256 ^ length xs"
proof (induction xs rule: rev_induct)
  case (snoc b xs)
  have "256 * be_nat xs + unat b < 256 * 256 ^ length xs" using snoc unat_byte_less [of b] by linarith
  thus ?case by simp
qed simp

lemma be_nat_put_be: "n < 256 ^ k \<Longrightarrow> be_nat (put_be k n) = n"
  by (induction k arbitrary: n) (simp_all add: less_mult_imp_div_less mult.commute)

lemma fips_xkey_less: "length mk = 20 \<Longrightarrow> fips_xkey mk j < 256 ^ 20"
  using be_nat_less [of mk] by (cases j) (auto intro: less_le_trans [of _ "2 ^ 160"])

lemma fips_step:
  assumes "length mk = 20"
  shows "sha1DSS (put_be 20 (fips_xkey mk j)) = Some (fips_w mk j)"
    and "eapAKANextXVAL (put_be 20 (fips_xkey mk j)) (fips_w mk j) (2 ^ 160) = put_be 20 (fips_xkey mk (Suc j))"
  by (simp add: sha1DSS_fips fips_w_def)
    (simp only: eapAKANextXVAL_fips be_nat_put_be [OF fips_xkey_less [OF assms]] fips_w_def fips_xkey.simps)

lemma prf_loop_fips:
  assumes "length mk = 20"
  shows "prf_loop r (put_be 20 (fips_xkey mk j)) len =
    (if length r < len
     then prf_loop (r @ fips_w mk j @ fips_w mk (Suc j)) (put_be 20 (fips_xkey mk (Suc (Suc j)))) len
     else Some r)"
  by (subst prf_loop.simps) (simp only: fips_step [OF assms] option.case Let_def append_assoc)

lemma prf_loop_fips_step:
  assumes "length mk = 20" "40 * n < len"
  shows "prf_loop (concat (map (fips_w mk) [0..<2 * n])) (put_be 20 (fips_xkey mk (2 * n))) len
    = prf_loop (concat (map (fips_w mk) [0..<2 * Suc n])) (put_be 20 (fips_xkey mk (2 * Suc n))) len"
proof -
  have "length (concat (map (fips_w mk) [0..<2 * n])) = 40 * n"
    by (simp add: length_concat o_def sum_list_triv)
  with assms show ?thesis by (subst prf_loop_fips) (simp_all add: upt_rec [of 0] del: fips_xkey.simps)
qed

lemma prf_loop_fips_steps:
  "length mk = 20 \<Longrightarrow> 40 * n < len + 40 \<Longrightarrow> prf_loop [] mk len
    = prf_loop (concat (map (fips_w mk) [0..<2 * n])) (put_be 20 (fips_xkey mk (2 * n))) len"
proof (induction n)
  case 0
  thus ?case using put_be_be_nat [of mk] by simp
next
  case (Suc n)
  hence "prf_loop [] mk len
    = prf_loop (concat (map (fips_w mk) [0..<2 * n])) (put_be 20 (fips_xkey mk (2 * n))) len" by simp
  with prf_loop_fips_step [of mk n len] Suc.prems show ?case by simp
qed

lemma length_fips_prf [simp]: "length (fips_prf mk) = 160"
  by (simp add: fips_prf_def length_concat o_def sum_list_triv)

lemma eapAKAPRF_fips:
  assumes "length mk = 20" shows "eapAKAPRF mk 160 = Some (fips_prf mk)"
proof -
  have n: "(2 :: nat) * 4 = 8" by simp
  have "prf_loop [] mk 160 = prf_loop (fips_prf mk) (put_be 20 (fips_xkey mk 8)) 160"
    using prf_loop_fips_steps [OF assms, of 4 160] unfolding n fips_prf_def by simp
  also have "\<dots> = Some (fips_prf mk)" by (subst prf_loop.simps) simp
  finally show ?thesis by (simp add: eapAKAPRF_def)
qed

definition network_k_aut :: "bytes \<Rightarrow> aka_keys \<Rightarrow> bytes" where
  \<comment> \<open>RFC 4187, 7: bytes 16 to 31 of the key material are \<open>K_aut\<close>\<close>
  "network_k_aut identity keys = slice (fips_prf (sha1 (identity @ ak_IK keys @ ak_CK keys))) 16 32"

lemma deriveEAPAKAKeys_fips:
  "\<exists>kEncr. deriveEAPAKAKeys identity (ak_IK keys) (ak_CK keys) = Some (kEncr, network_k_aut identity keys)"
  by (simp add: deriveEAPAKAKeys_def eapAKAPRF_fips network_k_aut_def)

end
