(* ===== verification/EapAkaProps.thy ===== *)
theory EapAkaProps
  imports EapAkaSpec
begin

text \<open>
  The EAP-AKA exchange of the peer with a network that follows the specifications: which
  challenges it answers, and that the network accepts the answer. Attributes are read by the
  network as RFC 4187 has them, type, length in words and value.
\<close>

unbundle bit_operations_syntax

section \<open>Attributes\<close>

definition attr_ok :: "byte \<times> bytes \<Rightarrow> bool" where
  "attr_ok a \<longleftrightarrow> (2 + length (snd a)) mod 4 = 0 \<and> length (snd a) < 1022"

definition encode_attr :: "byte \<times> bytes \<Rightarrow> bytes" where
  "encode_attr a = [fst a, word_of_nat ((2 + length (snd a)) div 4)] @ snd a"

definition read_attr :: "bytes \<Rightarrow> aka_err + ((byte \<times> bytes) \<times> bytes)" where
  "read_attr bs =
     (if length bs < 4 then Inl TruncatedAttribute
      else let len = unat (bs ! 1) * 4
           in if len < 4 \<or> length bs < len then Inl AttributeLength
              else Inr ((bs ! 0, slice bs 2 len), drop len bs))"

lemma read_attr_shrinks: "read_attr bs = Inr (a, rest) \<Longrightarrow> length rest < length bs"
  by (auto simp: read_attr_def Let_def split: if_splits)

function read_attrs :: "bytes \<Rightarrow> aka_err + (byte \<times> bytes) list" where
  "read_attrs bs =
     (if bs = [] then Inr []
      else case read_attr bs of Inl e \<Rightarrow> Inl e
        | Inr (a, rest) \<Rightarrow> (case read_attrs rest of Inl e \<Rightarrow> Inl e | Inr as \<Rightarrow> Inr (a # as)))"
  by pat_completeness auto

termination
  by (relation "measure length") (auto dest: read_attr_shrinks)

declare read_attrs.simps [simp del]

lemma attr_len:
  assumes "attr_ok a" shows "unat (word_of_nat ((2 + length (snd a)) div 4) :: byte) * 4 = 2 + length (snd a)"
proof -
  have "(2 + length (snd a)) div 4 < 256" using assms by (auto simp: attr_ok_def)
  moreover have "4 * ((2 + length (snd a)) div 4) = 2 + length (snd a)"
    using assms by (auto simp: attr_ok_def)
  ultimately show ?thesis by (simp only: unat_of_nat_byte)
qed

lemma attr_value_ge: "attr_ok a \<Longrightarrow> 2 \<le> length (snd a)"
  by (cases "length (snd a)"; cases "length (snd a) - 1"; simp add: attr_ok_def)

lemma read_attr_encode: "attr_ok a \<Longrightarrow> read_attr (encode_attr a @ rest) = Inr (a, rest)"
  using attr_len [of a] attr_value_ge [of a]
  by (cases a) (simp add: read_attr_def encode_attr_def slice_def)

lemma read_attr_ok: "read_attr bs = Inr (a, rest) \<Longrightarrow> attr_ok a"
proof -
  have "(2 + (n * 4 - 2)) mod 4 = 0" if "0 < n" for n :: nat using that by presburger
  thus "read_attr bs = Inr (a, rest) \<Longrightarrow> attr_ok a"
    using unat_byte_less [of "bs ! 1"]
    by (auto simp: read_attr_def attr_ok_def slice_def Let_def simp del: unat_byte_less split: if_splits)
qed

interpretation aka_stream: closed_item_stream encode_attr read_attr read_attrs attr_ok
proof unfold_locales
  show "encode_attr a \<noteq> []" if "attr_ok a" for a by (simp add: encode_attr_def)
  show "read_attrs [] = Inr []" by (simp add: read_attrs.simps)
qed (simp_all add: read_attr_encode read_attr_shrinks read_attr_ok read_attrs.simps)

definition take_attr :: "byte \<times> bytes \<Rightarrow> aka_challenge \<Rightarrow> aka_challenge" where
  "take_attr a out = (if fst a = 1 then out\<lparr> ac_RAND := slice (snd a) 2 18 \<rparr>
                      else if fst a = 2 then out\<lparr> ac_AUTN := slice (snd a) 2 18 \<rparr> else out)"

definition attr_long :: "byte \<times> bytes \<Rightarrow> bool" where
  "attr_long a \<longleftrightarrow> (fst a \<in> {1, 2} \<longrightarrow> 18 \<le> length (snd a))"

lemma encode_attr_not_Nil [simp]: "encode_attr a \<noteq> []"
  by (simp add: encode_attr_def)

lemma aka_attr_step_encode:
  assumes "attr_ok a" "attr_long a"
  shows "aka_attr_step (encode_attr a @ rest) out = Inr (take_attr a out, rest)"
proof -
  define bs where "bs = encode_attr a @ rest"
  have n: "unat (bs ! 1) * 4 = 2 + length (snd a)" and v: "2 \<le> length (snd a)"
    using attr_len [OF assms(1)] attr_value_ge [OF assms(1)] by (simp_all add: bs_def encode_attr_def)
  have bs: "bs ! 0 = fst a" "length bs = 2 + length (snd a) + length rest"
      "drop (2 + length (snd a)) bs = rest" by (simp_all add: bs_def encode_attr_def)
  obtain x y w where "snd a = x # y # w"
    using v by (cases "snd a"; cases "tl (snd a)") auto
  hence "drop 4 bs = drop 2 (snd a) @ rest" by (simp add: bs_def encode_attr_def)
  hence sl: "slice bs 4 (2 + length (snd a)) = drop 2 (snd a)" by (simp add: slice_def)
  have "take 16 (drop 2 (snd a)) = slice (snd a) 2 18" by (simp add: slice_def)
  with n v bs sl assms(2) have "aka_attr_step bs out = Inr (take_attr a out, rest)"
    by (auto simp: aka_attr_step_def Let_def take_attr_def eap_aka_consts attr_long_def)
  thus ?thesis by (simp add: bs_def)
qed

lemma aka_attrs_encode:
  "list_all attr_ok as \<Longrightarrow> list_all attr_long as \<Longrightarrow>
   aka_attrs (concat (map encode_attr as)) out = Inr (fold take_attr as out)"
  by (induction as arbitrary: out)
    (simp_all add: aka_attrs.simps [of "[]"] aka_attrs.simps [of "encode_attr _ @ _"] aka_attr_step_encode)

primrec values_of :: "byte \<Rightarrow> (byte \<times> bytes) list \<Rightarrow> bytes list" where
  \<comment> \<open>the values of the attributes of type \<open>t\<close>\<close>
  "values_of t [] = []"
| "values_of t (a # as) = (if fst a = t then [snd a] else []) @ values_of t as"

lemma take_attr_fields [simp]:
  "ac_RAND (take_attr a out) = (if fst a = 1 then slice (snd a) 2 18 else ac_RAND out)"
  "ac_AUTN (take_attr a out) = (if fst a = 2 then slice (snd a) 2 18 else ac_AUTN out)"
  "ac_Identifier (take_attr a out) = ac_Identifier out"
  by (simp_all add: take_attr_def)

lemma take_attr_others:
  "values_of 1 as = [] \<Longrightarrow> ac_RAND (fold take_attr as out) = ac_RAND out"
  "values_of 2 as = [] \<Longrightarrow> ac_AUTN (fold take_attr as out) = ac_AUTN out"
  "ac_Identifier (fold take_attr as out) = ac_Identifier out"
  by (induction as arbitrary: out) (auto split: if_splits)

lemma take_attr_one:
  "values_of 1 as = [r] \<Longrightarrow> ac_RAND (fold take_attr as out) = slice r 2 18"
  "values_of 2 as = [u] \<Longrightarrow> ac_AUTN (fold take_attr as out) = slice u 2 18"
  by (induction as arbitrary: out) (auto simp: take_attr_others split: if_splits)

section \<open>What the network sends and accepts\<close>

definition aka_packet :: "byte \<Rightarrow> byte \<Rightarrow> (byte \<times> bytes) list \<Rightarrow> bytes" where
  \<comment> \<open>an EAP packet of method AKA, subtype Challenge\<close>
  "aka_packet code identifier as =
     (let body = concat (map encode_attr as)
      in [code, identifier] @ put16 (word_of_nat (8 + length body)) @ [23, 1, 0, 0] @ body)"

definition network_accepts :: "bytes \<Rightarrow> bytes \<Rightarrow> byte \<Rightarrow> bytes \<Rightarrow> bool" where
  \<comment> \<open>RFC 4187, 9.4 and 10.8: a response to the request of that identifier whose length field is
    right, whose AT_RES is XRES, and whose last attribute is an AT_MAC, made with \<open>K_aut\<close> over the
    packet with the MAC set to zero\<close>
  "network_accepts kAut xres identifier resp \<longleftrightarrow>
     8 \<le> length resp \<and> take 2 resp = [2, identifier]
     \<and> unat (be16 (resp ! 2) (resp ! 3)) = length resp \<and> resp ! 4 = 23 \<and> resp ! 5 = 1
     \<and> (case read_attrs (drop 8 resp) of Inl _ \<Rightarrow> False
        | Inr as \<Rightarrow> as \<noteq> []
          \<and> (case values_of 3 as of [v] \<Rightarrow> unat (be16 (v ! 0) (v ! 1)) = 8 * length xres
               \<and> 2 + length xres \<le> length v \<and> slice v 2 (2 + length xres) = xres | _ \<Rightarrow> False)
          \<and> fst (last as) = 11 \<and> length (snd (last as)) = 18
          \<and> drop 2 (snd (last as))
              = take 16 (hmac sha1 kAut (take (length resp - 16) resp @ replicate 16 0)))"

lemma parse_aka_packet:
  assumes "list_all attr_ok as" "list_all attr_long as" "length (concat (map encode_attr as)) < 65528"
    and "values_of 1 as = [[0, 0] @ rand]" "values_of 2 as = [[0, 0] @ autn]"
    and "length rand = 16" "length autn = 16" "rand \<noteq> zero16" "autn \<noteq> zero16"
  shows "parseAKAChallenge (aka_packet 1 i as) = Inr \<lparr> ac_Identifier = i, ac_RAND = rand, ac_AUTN = autn \<rparr>"
proof -
  let ?body = "concat (map encode_attr as)"
  let ?start = "\<lparr> ac_Identifier = i, ac_RAND = zero16, ac_AUTN = zero16 \<rparr>"
  have "fold take_attr as ?start = \<lparr> ac_Identifier = i, ac_RAND = rand, ac_AUTN = autn \<rparr>"
    using take_attr_one [of as] take_attr_others(3) [of as] assms(4-7)
    by (intro aka_challenge.equality) (simp_all add: slice_def)
  hence "aka_attrs ?body ?start = Inr \<lparr> ac_Identifier = i, ac_RAND = rand, ac_AUTN = autn \<rparr>"
    using aka_attrs_encode [OF assms(1,2)] by simp
  moreover have "unat (be16 (hi8 (word_of_nat (8 + length ?body))) (lo8 (word_of_nat (8 + length ?body)))) = 8 + length ?body"
    using assms(3) by (simp only: be16_put16) (simp only: unat_of_nat_u16)
  ultimately show ?thesis
    using assms(8,9)
    by (simp add: parseAKAChallenge_def aka_packet_def Let_def put16_def eap_aka_consts slice_def
        del: length_concat of_nat_add)
qed

definition res_attr :: "bytes \<Rightarrow> byte \<times> bytes" where
  "res_attr res = (3, [0, 64] @ res @ replicate 4 0)"

definition mac_attr :: "bytes \<Rightarrow> byte \<times> bytes" where
  "mac_attr mac = (11, [0, 0] @ mac)"

lemma response_packet:
  assumes "length res = 8"
  shows "eapAKAChallengeResponse i res kAut = aka_packet 2 i [res_attr res, mac_attr
    (take 16 (hmac sha1 kAut (aka_packet 2 i [res_attr res, mac_attr (replicate 16 0)])))]"
  using assms
  by (simp add: eapAKAChallengeResponse_def eapAKAAttrRESValue_def aka_packet_def encode_attr_def
      res_attr_def mac_attr_def Let_def pad4_def eap_aka_consts put16_def hi8_def lo8_def)

lemma network_accepts_response:
  assumes "length res = 8"
  shows "network_accepts kAut res i (eapAKAChallengeResponse i res kAut)"
proof -
  let ?zeros = "aka_packet 2 i [res_attr res, mac_attr (replicate 16 0)]"
  define mac where "mac = take 16 (hmac sha1 kAut ?zeros)"
  let ?as = "[res_attr res, mac_attr mac]"
  have l: "length mac = 16" by (simp add: mac_def)
  have "list_all attr_ok ?as" using assms l by (simp add: attr_ok_def res_attr_def mac_attr_def)
  hence rd: "read_attrs (concat (map encode_attr ?as)) = Inr ?as" by (rule aka_stream.decode_encode)
  have el: "length (concat (map encode_attr ?as)) = 36"
    using assms l by (simp add: encode_attr_def res_attr_def mac_attr_def)
  have z: "take (length (aka_packet 2 i ?as) - 16) (aka_packet 2 i ?as) @ replicate 16 0 = ?zeros"
    using assms l by (simp add: aka_packet_def encode_attr_def res_attr_def mac_attr_def Let_def put16_def)
  have h: "aka_packet 2 i ?as = [2, i, 0, 44, 23, 1, 0, 0] @ concat (map encode_attr ?as)"
    using el by (simp add: aka_packet_def Let_def put16_def hi8_def lo8_def del: length_concat)
  have "network_accepts kAut res i (aka_packet 2 i ?as)"
    unfolding network_accepts_def z unfolding h using rd el l assms
    by (simp add: be16_def res_attr_def mac_attr_def slice_def mac_def)
  thus ?thesis by (simp add: response_packet [OF assms] mac_def)
qed

section \<open>The exchange\<close>

text \<open>C9. The EAP-AKA peer answers a network's challenge exactly when its AUTN was made with the
  subscriber's own keys, and then the network accepts the answer: it carries XRES and is signed
  with the network's \<open>K_aut\<close>. The attributes may come in any order and with others among them.\<close>

theorem aka_exchange:
  assumes "hex_decode kiHex = Some k" "hex_decode opcHex = Some opc" "length k = 16" "length opc = 16"
    and "list_all attr_ok as" "list_all attr_long as" "length (concat (map encode_attr as)) < 65528"
    and "values_of 1 as = [[0, 0] @ rand]" "values_of 2 as = [[0, 0] @ autn]"
    and "length rand = 16" "length autn = 16" "rand \<noteq> zero16" "autn \<noteq> zero16"
  shows "case buildEAPAKAChallengeResponse identity (aka_packet 1 i as) kiHex opcHex of
      Inr resp \<Rightarrow> authentic k opc rand autn
        \<and> network_accepts (network_k_aut (bytes_of identity) (mil_keys k opc rand)) (mil_f2 k opc rand) i resp
    | Inl e \<Rightarrow> e = AUTNMACFailed \<and> \<not> authentic k opc rand autn"
proof -
  note parse = parse_aka_packet [OF assms(5-13), of i]
  note keys = milenageAKA_spec [OF assms(1-4,10,11)]
  obtain kEncr where "deriveEAPAKAKeys (bytes_of identity) (ak_IK (mil_keys k opc rand)) (ak_CK (mil_keys k opc rand))
      = Some (kEncr, network_k_aut (bytes_of identity) (mil_keys k opc rand))"
    using deriveEAPAKAKeys_fips by blast
  moreover have "length (mil_f2 k opc rand) = 8" using assms by (simp add: mil_f2_def)
  moreover have "ak_RES (mil_keys k opc rand) = mil_f2 k opc rand" by (simp add: mil_keys_def)
  ultimately show ?thesis
    by (simp add: buildEAPAKAChallengeResponse_def parse keys network_accepts_response)
qed

definition demo_autn :: bytes where
  "demo_autn = network_autn zero16 zero16 (replicate 16 1) [0, 0, 0, 0, 0, 32] [128, 0]"

lemma demo_autn_facts:
  "length demo_autn = 16" "demo_autn \<noteq> zero16" "authentic zero16 zero16 (replicate 16 1) demo_autn"
proof -
  have l: "length (mil_f5 zero16 zero16 (replicate 16 1)) = 6" by (simp add: mil_f5_def zero16_def)
  thus "length demo_autn = 16" by (simp add: demo_autn_def network_autn_def zero16_def)
  have "demo_autn ! 6 = 128" using l by (simp add: demo_autn_def network_autn_def nth_append)
  moreover have "zero16 ! 6 = 0" by (simp add: zero16_def)
  ultimately show "demo_autn \<noteq> zero16" by auto
  show "authentic zero16 zero16 (replicate 16 1) demo_autn"
    unfolding authentic_def demo_autn_def
    by (rule exI [of _ "[0, 0, 0, 0, 0, 32]"], rule exI [of _ "[128, 0]"]) simp
qed

lemma aka_exchange_witness:
  "\<exists>resp. buildEAPAKAChallengeResponse ''0310150123456789@wlan''
       (aka_packet 1 7 [(1, [0, 0] @ replicate 16 1), (2, [0, 0] @ demo_autn), (11, replicate 18 0)])
       (replicate 32 CHR ''0'') (replicate 32 CHR ''0'') = Inr resp
     \<and> network_accepts (network_k_aut (bytes_of ''0310150123456789@wlan'') (mil_keys zero16 zero16 (replicate 16 1)))
         (mil_f2 zero16 zero16 (replicate 16 1)) 7 resp"
proof -
  have "hex_decode (replicate 32 CHR ''0'') = Some zero16" by code_simp
  from aka_exchange [OF this this, of "[(1, [0, 0] @ replicate 16 1), (2, [0, 0] @ demo_autn), (11, replicate 18 0)]"
      "replicate 16 1" demo_autn "''0310150123456789@wlan''" 7] demo_autn_facts
  show ?thesis by (simp add: zero16_def attr_ok_def attr_long_def encode_attr_def split: sum.splits)
qed

end
