(* ===== verification/StaMsg.thy ===== *)
theory StaMsg
  imports EapAka Config
begin

text \<open>
  The messages of the Diameter STa client (\<open>internal/diameter/sta_client.go\<close>): the requests and
  answers it builds, how it reads an EAP payload and what it makes of the AAA server's answer.
  Everything here is a function of its arguments; the client's state is in the next theory.
\<close>

unbundle bit_operations_syntax

definition avpHostIPAddress :: u32 where "avpHostIPAddress = 257"
definition avpSupportedVendorID :: u32 where "avpSupportedVendorID = 265"
definition avpFirmwareRevision :: u32 where "avpFirmwareRevision = 267"
definition avpProductName :: u32 where "avpProductName = 269"
definition avpOriginStateID :: u32 where "avpOriginStateID = 278"
definition avpFailedAVP :: u32 where "avpFailedAVP = 279"
definition avpInbandSecurityID :: u32 where "avpInbandSecurityID = 299"
definition inbandNoSec :: u32 where "inbandNoSec = 0"
definition firmwareRevOne :: u32 where "firmwareRevOne = 1"

section \<open>Requests and results\<close>

record sta_auth_request =
  ta_IMSI :: string
  ta_MSISDN :: string
  ta_Username :: string
  ta_Realm :: string
  ta_APN :: string
  ta_Ki :: string
  ta_OPc :: string

record sta_auth_result =
  tr_ResultCode :: u32
  tr_Allowed :: bool
  tr_IMSI :: string
  tr_MSISDN :: string
  tr_APN :: string
  tr_Reason :: string

datatype sta_eap_state = STaEAPStateChallenge | STaEAPStateSuccess | STaEAPStateFailure

record sta_eap_request =
  te_SessionID :: string
  te_IMSI :: string
  te_MSISDN :: string
  te_Username :: string
  te_Realm :: string
  te_APN :: string
  te_EAPPayload :: bytes

record sta_eap_result =
  ts_SessionID :: string
  ts_ResultCode :: u32
  ts_State :: sta_eap_state
  ts_Allowed :: bool
  ts_IMSI :: string
  ts_MSISDN :: string
  ts_APN :: string
  ts_Reason :: string
  ts_EAPPayload :: bytes
  ts_MSK :: bytes

datatype sta_err =
    AuthNeedsIdentity
  | ExchangeNeedsIdentity
  | ExchangeNeedsPayload
  | EAPIdentityRequired
  | EAPIdentityTooLong
  | AKAError aka_err
  | PeerNotOpen
  | OpenTimedOut
  | ContextDone string
  | WriteError string
  | StaClientStopped
  | DialError string
  | ReadError diam_err
  | StreamEOF
  | BeforeCEA diam_err
  | ExpectedCEA u32 bool
  | CEAResultCode u32

section \<open>EAP payloads\<close>

definition eapResponseIdentity :: "byte \<Rightarrow> string \<Rightarrow> sta_err + bytes" where
  "eapResponseIdentity identifier identity =
     (if identity = [] then Inl EAPIdentityRequired
      else let len = 5 + length identity
           in if 0xffff < len then Inl EAPIdentityTooLong
              else Inr ([2, identifier] @ put16 (word_of_nat len) @ [1] @ bytes_of identity))"

datatype eap_packet_state = EapUnknown | EapRequest | EapSuccess | EapFailure | EapInvalid

record eap_parsed =
  ew_State :: eap_packet_state
  ew_Identifier :: byte
  ew_Description :: string

definition eapAKASubtype :: "byte \<Rightarrow> string" where
  "eapAKASubtype subtype =
     (if subtype = 1 then ''challenge'' else if subtype = 2 then ''authentication rejection''
      else if subtype = 4 then ''synchronization failure'' else if subtype = 5 then ''identity''
      else if subtype = 12 then ''client error'' else ''subtype '' @ dec (unat subtype))"

definition eapRequestDescription :: "bytes \<Rightarrow> string" where
  "eapRequestDescription data = (case data of
     [] \<Rightarrow> ''request''
   | t # rest \<Rightarrow>
       if t = 1 then ''identity request''
       else if t = 23 then (case rest of s # _ \<Rightarrow> ''eap-aka '' @ eapAKASubtype s | [] \<Rightarrow> ''eap-aka request'')
       else if t = 50 then (case rest of s # _ \<Rightarrow> ''eap-aka-prime '' @ eapAKASubtype s | [] \<Rightarrow> ''eap-aka-prime request'')
       else ''request type '' @ dec (unat t))"

definition parseEAPResult :: "bytes \<Rightarrow> eap_parsed" where
  "parseEAPResult payload =
     (if length payload < 4 then \<lparr> ew_State = EapInvalid, ew_Identifier = 0, ew_Description = ''short header'' \<rparr>
      else let code = payload ! 0; identifier = payload ! 1; len = unat (be16 (payload ! 2) (payload ! 3));
               result = (\<lambda>st d. \<lparr> ew_State = st, ew_Identifier = identifier, ew_Description = d \<rparr>)
           in if len < 4 \<or> length payload < len then result EapInvalid ''invalid length''
              else if code = 1 then
                (if len < 5 then result EapInvalid ''request missing type''
                 else result EapRequest (eapRequestDescription (slice payload 4 len)))
              else if code = 3 then result EapSuccess ''success''
              else if code = 4 then result EapFailure ''failure''
              else result EapUnknown (''code '' @ dec (unat code)))"

definition resultReason :: "u32 \<Rightarrow> string" where
  "resultReason code =
     (if code = 2001 then ''diameter success'' else if code = 2002 then ''diameter limited success''
      else if code = 5001 then ''user unknown'' else if code = 0 then ''missing result code''
      else ''diameter result code '' @ dec (unat code))"

section \<open>The answer of the AAA server\<close>

definition answer_code :: "message \<Rightarrow> u32" where
  \<comment> \<open>the Result-Code, else the Experimental-Result-Code, else 0\<close>
  "answer_code answer = (case avpUint32 (d_AVPs answer) avpResultCode 0 of Some c \<Rightarrow> c
     | None \<Rightarrow> (case experimentalResultCode (d_AVPs answer) of Some c \<Rightarrow> c | None \<Rightarrow> 0))"

definition authResult :: "sta_auth_request \<Rightarrow> message \<Rightarrow> sta_auth_result" where
  "authResult r answer =
     (let resultCode = answer_code answer;
          ok = (resultCode = 2001 \<or> resultCode = 2002);
          (allowed, reason) = (case findAVP (d_AVPs answer) avpEAPPayload 0 of
            None \<Rightarrow> (ok, resultReason resultCode)
          | Some p \<Rightarrow> let e = parseEAPResult (v_Data p) in (case ew_State e of
              EapSuccess \<Rightarrow> (ok, ''eap success'')
            | EapFailure \<Rightarrow> (False, ''eap failure'')
            | EapRequest \<Rightarrow> (False, ''eap authentication incomplete: '' @ ew_Description e)
            | EapInvalid \<Rightarrow> (False, ''invalid eap payload: '' @ ew_Description e)
            | EapUnknown \<Rightarrow> (False, ''unsupported eap payload: '' @ ew_Description e)))
      in \<lparr> tr_ResultCode = resultCode, tr_Allowed = allowed, tr_IMSI = ta_IMSI r, tr_MSISDN = ta_MSISDN r,
           tr_APN = ta_APN r, tr_Reason = reason \<rparr>)"

definition eapExchangeResult :: "sta_eap_request \<Rightarrow> string \<Rightarrow> message \<Rightarrow> sta_eap_result" where
  "eapExchangeResult r sessionID answer =
     (let resultCode = answer_code answer;
          ok = (resultCode = 2001 \<or> resultCode = 2002);
          (state, allowed, reason, responsePayload) = (case findAVP (d_AVPs answer) avpEAPPayload 0 of
            Some p \<Rightarrow> let e = parseEAPResult (v_Data p) in (case ew_State e of
                EapRequest \<Rightarrow> (STaEAPStateChallenge, False, ew_Description e, v_Data p)
              | EapSuccess \<Rightarrow> (STaEAPStateSuccess, ok, ''eap success'', v_Data p)
              | EapFailure \<Rightarrow> (STaEAPStateFailure, False, ''eap failure'', v_Data p)
              | EapInvalid \<Rightarrow> (STaEAPStateFailure, False, ''invalid eap payload: '' @ ew_Description e, v_Data p)
              | EapUnknown \<Rightarrow> (STaEAPStateFailure, False, ''unsupported eap payload: '' @ ew_Description e, v_Data p))
          | None \<Rightarrow> if ok then (STaEAPStateSuccess, True, resultReason resultCode, [])
                     else (STaEAPStateFailure, False, resultReason resultCode, []));
          msk = (if state = STaEAPStateSuccess \<and> allowed then
                   (case findAVP (d_AVPs answer) avpEAPMasterSessionKey 0 of None \<Rightarrow> []
                    | Some key \<Rightarrow> if length (v_Data key) = 64 then v_Data key else [])
                 else [])
      in \<lparr> ts_SessionID = sessionID, ts_ResultCode = resultCode, ts_State = state, ts_Allowed = allowed,
           ts_IMSI = te_IMSI r, ts_MSISDN = te_MSISDN r, ts_APN = te_APN r, ts_Reason = reason,
           ts_EAPPayload = responsePayload, ts_MSK = msk \<rparr>)"

definition nextEAPResponse :: "sta_auth_request \<Rightarrow> string \<Rightarrow> message \<Rightarrow> sta_err + bytes option" where
  \<comment> \<open>\<open>Inr None\<close> is \<open>ok == false\<close>\<close>
  "nextEAPResponse r identity answer =
     (case findAVP (d_AVPs answer) avpEAPPayload 0 of None \<Rightarrow> Inr None
      | Some p \<Rightarrow> let e = parseEAPResult (v_Data p) in
          if ew_State e \<noteq> EapRequest then Inr None
          else if ew_Description e = ''eap-aka-prime challenge'' then Inr None
          else if ew_Description e \<noteq> ''eap-aka challenge'' then Inr None
          else if ta_Ki r = [] \<or> ta_OPc r = [] then Inr None
          else (case buildEAPAKAChallengeResponse identity (v_Data p) (ta_Ki r) (ta_OPc r) of
                  Inl e \<Rightarrow> Inl (AKAError e) | Inr next \<Rightarrow> Inr (Some next)))"

section \<open>Requests of the gateway\<close>

definition der_avps :: "sta_config \<Rightarrow> string \<Rightarrow> string \<Rightarrow> string \<Rightarrow> bytes \<Rightarrow> avp list" where
  \<comment> \<open>the AVPs of \<open>newDER\<close>\<close>
  "der_avps cfg sessionID userName apn eapPayload =
     [utf8AVP avpSessionID 0 sessionID,
      uint32AVP avpAuthApplicationID 0 (st_AuthApplicationID cfg),
      utf8AVP avpOriginHost 0 (st_OriginHost cfg),
      utf8AVP avpOriginRealm 0 (st_OriginRealm cfg),
      utf8AVP avpDestinationRealm 0 (st_DestinationRealm cfg),
      uint32AVP avpAuthRequestType 0 3,
      \<lparr> v_Code = avpEAPPayload, v_VendorID = 0, v_Flags = flagMandatory, v_Data = eapPayload \<rparr>]
     @ (if st_DestinationHost cfg \<noteq> [] then [utf8AVP avpDestinationHost 0 (st_DestinationHost cfg)] else [])
     @ [utf8AVP avpUserName 0 userName]
     @ (if apn \<noteq> [] then [utf8AVP avpServiceSelection 0 apn] else [])"

definition cer_avps :: "sta_config \<Rightarrow> u32 \<Rightarrow> byte \<times> byte \<times> byte \<times> byte \<Rightarrow> avp list" where
  \<comment> \<open>the AVPs of the Capabilities-Exchange-Request; \<open>now\<close> is \<open>uint32(time.Now().Unix())\<close>\<close>
  "cer_avps cfg now localIP = (case localIP of (a, b, c, d) \<Rightarrow>
     [utf8AVP avpOriginHost 0 (st_OriginHost cfg),
      utf8AVP avpOriginRealm 0 (st_OriginRealm cfg),
      uint32AVP avpOriginStateID 0 now,
      addressAVP avpHostIPAddress a b c d,
      uint32AVP avpVendorID 0 0,
      utf8AVPFlags avpProductName 0 0 ''VectorCore TWAG'',
      uint32AVPFlags avpFirmwareRevision 0 0 firmwareRevOne,
      uint32AVP avpInbandSecurityID 0 inbandNoSec,
      uint32AVP avpAuthApplicationID 0 (st_AuthApplicationID cfg),
      uint32AVP avpSupportedVendorID 0 vendor3GPP,
      groupedAVP avpVendorSpecificApplicationID 0
        [uint32AVP avpVendorID 0 (st_VendorID cfg),
         uint32AVP avpAuthApplicationID 0 (st_AuthApplicationID cfg)]])"

definition dwr_avps :: "sta_config \<Rightarrow> avp list" where
  \<comment> \<open>the AVPs of the Device-Watchdog-Request\<close>
  "dwr_avps cfg = [utf8AVP avpOriginHost 0 (st_OriginHost cfg), utf8AVP avpOriginRealm 0 (st_OriginRealm cfg)]"

definition check_cea :: "diam_err + message \<Rightarrow> sta_err option" where
  \<comment> \<open>the end of \<open>handshake\<close>\<close>
  "check_cea r = (case r of Inl e \<Rightarrow> Some (BeforeCEA e)
     | Inr cea \<Rightarrow> if d_CommandCode cea \<noteq> commandCER \<or> isRequest cea then Some (ExpectedCEA (d_CommandCode cea) (isRequest cea))
         else let rc = (case avpUint32 (d_AVPs cea) avpResultCode 0 of None \<Rightarrow> 0 | Some v \<Rightarrow> v)
              in if rc \<noteq> 2001 \<and> rc \<noteq> 2002 then Some (CEAResultCode rc) else None)"

section \<open>Answers of the gateway\<close>

record sta_disconnect_event =
  de_Command :: string
  de_SessionID :: string
  de_UserName :: string
  de_IMSI :: string
  de_AppID :: u32

definition newAnswer :: "message \<Rightarrow> avp list \<Rightarrow> message" where
  "newAnswer r avps = \<lparr> d_Flags = d_Flags r AND NOT flagRequest, d_CommandCode = d_CommandCode r,
     d_AppID = d_AppID r, d_HopByHop = d_HopByHop r, d_EndToEnd = d_EndToEnd r, d_AVPs = avps \<rparr>"

definition looksLikeDiameterIMSI :: "string \<Rightarrow> bool" where
  "looksLikeDiameterIMSI s \<longleftrightarrow> \<not> (length s < 5 \<or> 15 < length s) \<and> all_digits s"

definition imsiFromDiameterUserName :: "string \<Rightarrow> string" where
  "imsiFromDiameterUserName username =
     (let local = trim_space (before (CHR ''@'') username)
      in if 1 < length local \<and> (hd local = CHR ''0'' \<or> hd local = CHR ''6'') \<and> looksLikeDiameterIMSI (tl local)
         then tl local
         else if looksLikeDiameterIMSI local then local else [])"

definition origin_result :: "sta_config \<Rightarrow> u32 \<Rightarrow> avp list" where
  \<comment> \<open>the three AVPs every answer starts from\<close>
  "origin_result cfg code = [utf8AVP avpOriginHost 0 (st_OriginHost cfg),
     utf8AVP avpOriginRealm 0 (st_OriginRealm cfg), uint32AVP avpResultCode 0 code]"

definition answerDisconnectRequest ::
    "sta_config \<Rightarrow> message \<Rightarrow> string \<Rightarrow> message \<times> sta_disconnect_event option" where
  \<comment> \<open>the answer, and the event for the handler once the answer is written\<close>
  "answerDisconnectRequest cfg r command =
     (let sessionID = avpString (d_AVPs r) avpSessionID 0;
          userName = avpString (d_AVPs r) avpUserName 0;
          imsi = imsiFromDiameterUserName userName;
          resultCode = (if sessionID = [] then 5005 else 2001);
          respAVPs = (if sessionID \<noteq> [] then [utf8AVP avpSessionID 0 sessionID] else [])
            @ origin_result cfg resultCode
            @ (if userName \<noteq> [] then [utf8AVP avpUserName 0 userName] else [])
      in (newAnswer r respAVPs,
          if resultCode \<noteq> 2001 then None
          else Some \<lparr> de_Command = command, de_SessionID = sessionID, de_UserName = userName, de_IMSI = imsi,
                 de_AppID = d_AppID r \<rparr>))"

definition answerMalformedDER :: "sta_config \<Rightarrow> message \<Rightarrow> message option" where
  \<comment> \<open>a DER that carries an EAP payload gets no answer\<close>
  "answerMalformedDER cfg r = (case findAVP (d_AVPs r) avpEAPPayload 0 of Some _ \<Rightarrow> None
     | None \<Rightarrow> Some (newAnswer r (origin_result cfg 5005 @ [groupedAVP avpFailedAVP 0
         [\<lparr> v_Code = avpEAPPayload, v_VendorID = 0, v_Flags = flagMandatory, v_Data = [] \<rparr>]])))"

definition handleRequest :: "sta_config \<Rightarrow> message \<Rightarrow> message option \<times> sta_disconnect_event option" where
  "handleRequest cfg r =
     (if d_CommandCode r = commandDWR then (Some (newAnswer r (origin_result cfg 2001)), None)
      else if d_CommandCode r = commandDER then
        (if d_AppID r = st_AuthApplicationID cfg then (answerMalformedDER cfg r, None) else (None, None))
      else if d_CommandCode r = commandASR then map_prod Some id (answerDisconnectRequest cfg r ''ASR'')
      else if d_CommandCode r = commandSTR then map_prod Some id (answerDisconnectRequest cfg r ''STR'')
      else (None, None))"

end
