(* ===== verification/StaClient.thy ===== *)
theory StaClient
  imports StaMsg
begin

text \<open>
  The Diameter STa client (\<open>internal/diameter/sta_client.go\<close>): its state, the calls split at the
  points where they wait, the turns of the connection's goroutines, and the step relation in which
  they interleave. A channel of \<open>sendRequestOnConn\<close> is a number and \<open>cl_chans\<close> is what it holds
  (its capacity is one); a connection is a number too, \<open>cl_closed\<close> has those closed on this side,
  on which a write fails. The bytes of the peer arrive in pieces; a message is read when it is
  complete. A critical section under \<open>mu\<close> is one step, and so is a turn of the read loop.
\<close>

section \<open>State\<close>

record sta_status =
  ss_PeerAddr :: string
  ss_State :: string
  ss_LastError :: "sta_err option"
  ss_ResultCode :: u32
  ss_CERComplete :: bool
  ss_LastWatchdog :: "time option"
  ss_WatchdogFailures :: u64
  ss_ReconnectAttempts :: u64

record sta_client =
  cl_cfg :: sta_config
  cl_started :: bool  \<comment> \<open>\<open>cancel != nil\<close>\<close>
  cl_done :: bool  \<comment> \<open>\<open>ctx\<close> is cancelled\<close>
  cl_conn :: "nat option"
  cl_status :: sta_status
  cl_pending :: "u32 \<rightharpoonup> nat"
  cl_chans :: "nat \<rightharpoonup> sta_err + message"
  cl_closed :: "nat set"
  cl_nextHop :: u32
  cl_nextEnd :: u32
  cl_handler :: bool  \<comment> \<open>\<open>disconnectHandler != nil\<close>\<close>

definition NewSTaClient :: "sta_config \<Rightarrow> time \<Rightarrow> sta_client" where
  \<comment> \<open>\<open>now\<close> is the clock in nanoseconds\<close>
  "NewSTaClient cfg now = \<lparr> cl_cfg = cfg, cl_started = False, cl_done = False, cl_conn = None,
     cl_status = \<lparr> ss_PeerAddr = st_PeerAddr cfg, ss_State = ''initialized'', ss_LastError = None,
       ss_ResultCode = 0, ss_CERComplete = False, ss_LastWatchdog = None, ss_WatchdogFailures = 0,
       ss_ReconnectAttempts = 0 \<rparr>,
     cl_pending = Map.empty, cl_chans = Map.empty, cl_closed = {},
     cl_nextHop = word_of_int now, cl_nextEnd = word_of_int (now div 1000000000), cl_handler = False \<rparr>"

definition on_status :: "(sta_status \<Rightarrow> sta_status) \<Rightarrow> sta_client \<Rightarrow> sta_client" where
  "on_status f c = c\<lparr> cl_status := f (cl_status c) \<rparr>"

definition setStatus :: "string \<Rightarrow> sta_err option \<Rightarrow> bool \<Rightarrow> sta_client \<Rightarrow> sta_client" where
  "setStatus st e complete = on_status (\<lambda>s. s\<lparr> ss_State := st, ss_LastError := e, ss_CERComplete := complete \<rparr>)"

definition set_result_code :: "u32 \<Rightarrow> sta_client \<Rightarrow> sta_client" where
  "set_result_code code = on_status (\<lambda>s. s\<lparr> ss_ResultCode := code \<rparr>)"

definition SetDisconnectHandler :: "bool \<Rightarrow> sta_client \<Rightarrow> sta_client" where
  "SetDisconnectHandler h c = c\<lparr> cl_handler := h \<rparr>"

definition waitOpen :: "sta_err option \<Rightarrow> sta_client \<Rightarrow> sta_err option" where
  \<comment> \<open>\<open>selected\<close>: how the \<open>select\<close> ends, if the peer is not open yet\<close>
  "waitOpen selected c =
     (if ss_State (cl_status c) = ''open'' \<and> cl_conn c \<noteq> None then None else selected)"

definition newRequest :: "u32 \<Rightarrow> u32 \<Rightarrow> bool \<Rightarrow> avp list \<Rightarrow> sta_client \<Rightarrow> message \<times> sta_client" where
  "newRequest command appID proxiable avps c =
     (let hop = cl_nextHop c + 1; end = cl_nextEnd c + 1
      in (\<lparr> d_Flags = (if proxiable then or flagRequest flagProxiable else flagRequest),
            d_CommandCode = command, d_AppID = appID, d_HopByHop = hop, d_EndToEnd = end, d_AVPs = avps \<rparr>,
          c\<lparr> cl_nextHop := hop, cl_nextEnd := end \<rparr>))"

definition newDER :: "string \<Rightarrow> string \<Rightarrow> string \<Rightarrow> bytes \<Rightarrow> sta_client \<Rightarrow> message \<times> sta_client" where
  "newDER sessionID userName apn eapPayload c =
     newRequest commandDER (st_AuthApplicationID (cl_cfg c)) True
       (der_avps (cl_cfg c) sessionID userName apn eapPayload) c"

definition deliver :: "nat \<Rightarrow> sta_err + message \<Rightarrow> sta_client \<Rightarrow> sta_client" where
  \<comment> \<open>\<open>ch <- r\<close>\<close>
  "deliver a r c = c\<lparr> cl_chans := (cl_chans c)(a \<mapsto> r) \<rparr>"

definition failPendingLocked :: "sta_err \<Rightarrow> sta_client \<Rightarrow> sta_client" where
  "failPendingLocked e c = c\<lparr> cl_pending := Map.empty,
     cl_chans := (\<lambda>a. if a \<in> ran (cl_pending c) then Some (Inl e) else cl_chans c a) \<rparr>"

section \<open>Calls\<close>

datatype sta_frame =
    AuthFrame sta_auth_request string string nat nat
      \<comment> \<open>request, session ID, user name, \<open>i\<close> and \<open>akaResponsesSent\<close>\<close>
  | EAPFrame sta_eap_request string
  | WatchdogFrame nat  \<comment> \<open>its connection\<close>

datatype sta_outcome =
    AuthOutcome "sta_err + sta_auth_result"
  | EAPOutcome "sta_err + sta_eap_result"
  | WatchdogOutcome "sta_err + message"

datatype sta_next = SendNext message sta_frame | Finish sta_outcome

definition session_id_at :: "sta_config \<Rightarrow> time \<Rightarrow> string" where
  "session_id_at cfg now = st_OriginHost cfg @ '';'' @ dec_int now"

definition Authenticate_begin ::
    "sta_auth_request \<Rightarrow> time \<Rightarrow> sta_err option \<Rightarrow> sta_client \<Rightarrow> sta_next \<times> sta_client" where
  "Authenticate_begin r now selected c =
     (if ta_IMSI r = [] \<and> ta_Username r = [] then (Finish (AuthOutcome (Inl AuthNeedsIdentity)), c)
      else case waitOpen selected c of Some e \<Rightarrow> (Finish (AuthOutcome (Inl e)), c)
      | None \<Rightarrow>
          let sessionID = session_id_at (cl_cfg c) now;
              userName = (if ta_IMSI r = [] then ta_Username r else ta_IMSI r)
          in (case eapResponseIdentity 1 userName of Inl e \<Rightarrow> (Finish (AuthOutcome (Inl e)), c)
              | Inr eapPayload \<Rightarrow>
                  let (msg, c') = newDER sessionID userName (ta_APN r) eapPayload c
                  in (SendNext msg (AuthFrame r sessionID userName 0 0), c')))"

definition Authenticate_answer ::
    "sta_auth_request \<Rightarrow> string \<Rightarrow> string \<Rightarrow> nat \<Rightarrow> nat \<Rightarrow> message \<Rightarrow> sta_client \<Rightarrow> sta_next \<times> sta_client" where
  \<comment> \<open>what follows an answer: the next turn of the loop, or \<open>authResult\<close>\<close>
  "Authenticate_answer r sessionID userName i akaResponsesSent answer c =
     (let result = (Finish (AuthOutcome (Inr (authResult r answer))), set_result_code (answer_code answer) c)
      in if 4 \<le> i then result
         else case nextEAPResponse r userName answer of
           Inl e \<Rightarrow> (Finish (AuthOutcome (Inl e)), c)
         | Inr None \<Rightarrow> result
         | Inr (Some p) \<Rightarrow>
             let nextPayload = (if 0 < akaResponsesSent
                   then osmoAAAAuthCompletePayload (ew_Identifier (parseEAPResult p)) else p);
                 (msg, c') = newDER sessionID userName (ta_APN r) nextPayload c
             in (SendNext msg (AuthFrame r sessionID userName (i + 1) (akaResponsesSent + 1)), c'))"

definition ExchangeEAP_begin ::
    "sta_eap_request \<Rightarrow> time \<Rightarrow> sta_err option \<Rightarrow> sta_client \<Rightarrow> sta_next \<times> sta_client" where
  "ExchangeEAP_begin r now selected c =
     (if te_IMSI r = [] \<and> te_Username r = [] then (Finish (EAPOutcome (Inl ExchangeNeedsIdentity)), c)
      else if te_EAPPayload r = [] then (Finish (EAPOutcome (Inl ExchangeNeedsPayload)), c)
      else case waitOpen selected c of Some e \<Rightarrow> (Finish (EAPOutcome (Inl e)), c)
      | None \<Rightarrow>
          let sessionID = (if te_SessionID r = [] then session_id_at (cl_cfg c) now else te_SessionID r);
              userName = (if te_IMSI r = [] then te_Username r else te_IMSI r);
              (msg, c') = newDER sessionID userName (te_APN r) (te_EAPPayload r) c
          in (SendNext msg (EAPFrame r sessionID), c'))"

definition Watchdog_begin :: "nat \<Rightarrow> sta_client \<Rightarrow> sta_next \<times> sta_client" where
  \<comment> \<open>a tick of \<open>watchdogLoop\<close>\<close>
  "Watchdog_begin conn c =
     (let (msg, c') = newRequest commandDWR 0 False (dwr_avps (cl_cfg c)) c in (SendNext msg (WatchdogFrame conn), c'))"

definition close_conn :: "nat \<Rightarrow> sta_client \<Rightarrow> sta_client" where
  "close_conn k c = c\<lparr> cl_closed := insert k (cl_closed c) \<rparr>"

definition fail_call :: "sta_frame \<Rightarrow> sta_err \<Rightarrow> sta_client \<Rightarrow> sta_outcome \<times> sta_client" where
  \<comment> \<open>\<open>sendRequest\<close> returns an error\<close>
  "fail_call fr e c = (case fr of
     AuthFrame _ _ _ _ _ \<Rightarrow> (AuthOutcome (Inl e), c)
   | EAPFrame _ _ \<Rightarrow> (EAPOutcome (Inl e), c)
   | WatchdogFrame k \<Rightarrow> (WatchdogOutcome (Inl e),
       close_conn k (on_status (\<lambda>s. s\<lparr> ss_WatchdogFailures := ss_WatchdogFailures s + 1 \<rparr>) c)))"

definition answer_call :: "sta_frame \<Rightarrow> message \<Rightarrow> time \<Rightarrow> sta_client \<Rightarrow> sta_next \<times> sta_client" where
  "answer_call fr answer now c = (case fr of
     AuthFrame r sessionID userName i n \<Rightarrow> Authenticate_answer r sessionID userName i n answer c
   | EAPFrame r sessionID \<Rightarrow>
       (Finish (EAPOutcome (Inr (eapExchangeResult r sessionID answer))), set_result_code (answer_code answer) c)
   | WatchdogFrame k \<Rightarrow> (Finish (WatchdogOutcome (Inr answer)),
       on_status (\<lambda>s. s\<lparr> ss_LastWatchdog := Some now \<rparr>) c))"

section \<open>The world\<close>

datatype conn_phase =
    NotRunning
  | Idle int  \<comment> \<open>at the head of \<open>connectLoop\<close>, the backoff in seconds\<close>
  | Dialing int
  | Serving nat  \<comment> \<open>in the \<open>select\<close> under an open connection\<close>
  | Ended

datatype call_stage =
    Prepared
  | Chosen nat  \<comment> \<open>\<open>sendRequest\<close> has read \<open>c.conn\<close>\<close>
  | InTable nat  \<comment> \<open>the channel is in \<open>pending\<close>\<close>
  | Sent nat

record sta_call =
  ca_frame :: sta_frame
  ca_request :: message
  ca_stage :: call_stage

datatype sta_event =
    Registered nat message
  | Written nat message  \<comment> \<open>connection and message\<close>
  | ReadMessage nat message
  | Returned nat "sta_err + message"
  | Completed sta_outcome
  | Disconnected sta_disconnect_event  \<comment> \<open>the handler is started\<close>

record sta_world =
  sw_client :: sta_client
  sw_phase :: conn_phase
  sw_in :: bytes  \<comment> \<open>bytes of the peer not read yet\<close>
  sw_calls :: "nat \<rightharpoonup> sta_call"  \<comment> \<open>the calls under way, by their channel\<close>
  sw_next :: nat  \<comment> \<open>channels and connections made so far\<close>
  sw_requests :: nat  \<comment> \<open>requests made so far\<close>
  sw_trace :: "sta_event list"

definition sta_world0 :: "sta_client \<Rightarrow> sta_world" where
  "sta_world0 c = \<lparr> sw_client = c, sw_phase = NotRunning, sw_in = [], sw_calls = Map.empty,
     sw_next = 0, sw_requests = 0, sw_trace = [] \<rparr>"

definition upd :: "(sta_client \<Rightarrow> sta_client) \<Rightarrow> sta_world \<Rightarrow> sta_world" where
  "upd f w = w\<lparr> sw_client := f (sw_client w) \<rparr>"

definition emit :: "sta_event \<Rightarrow> sta_world \<Rightarrow> sta_world" where
  "emit e w = w\<lparr> sw_trace := sw_trace w @ [e] \<rparr>"

definition finish_failed :: "sta_frame \<Rightarrow> sta_err \<Rightarrow> sta_world \<Rightarrow> sta_world" where
  "finish_failed fr e w =
     (let (out, c) = fail_call fr e (sw_client w) in emit (Completed out) (w\<lparr> sw_client := c \<rparr>))"

definition proceed :: "sta_next \<times> sta_client \<Rightarrow> sta_world \<Rightarrow> sta_world" where
  \<comment> \<open>the call makes its request, or ends. The watchdog knows its connection\<close>
  "proceed r w = (let w' = w\<lparr> sw_client := snd r \<rparr> in case fst r of
     Finish out \<Rightarrow> emit (Completed out) w'
   | SendNext msg fr \<Rightarrow>
       w'\<lparr> sw_calls := (sw_calls w)(sw_next w \<mapsto> \<lparr> ca_frame = fr, ca_request = msg,
             ca_stage = (case fr of WatchdogFrame k \<Rightarrow> Chosen k | _ \<Rightarrow> Prepared) \<rparr>),
           sw_next := sw_next w + 1, sw_requests := sw_requests w + 1 \<rparr>)"

definition unregister :: "u32 \<Rightarrow> sta_client \<Rightarrow> sta_client" where
  "unregister hop c = c\<lparr> cl_pending := (cl_pending c)(hop := None) \<rparr>"

definition drop_call :: "nat \<Rightarrow> sta_world \<Rightarrow> sta_world" where
  "drop_call a w = w\<lparr> sw_calls := (sw_calls w)(a := None) \<rparr>"

definition choose_call :: "nat \<Rightarrow> sta_call \<Rightarrow> sta_world \<Rightarrow> sta_world" where
  \<comment> \<open>\<open>sendRequest\<close>\<close>
  "choose_call a cc w = (case cl_conn (sw_client w) of
     None \<Rightarrow> finish_failed (ca_frame cc) PeerNotOpen (drop_call a w)
   | Some k \<Rightarrow> w\<lparr> sw_calls := (sw_calls w)(a \<mapsto> cc\<lparr> ca_stage := Chosen k \<rparr>) \<rparr>)"

definition register_call :: "nat \<Rightarrow> sta_call \<Rightarrow> nat \<Rightarrow> sta_world \<Rightarrow> sta_world" where
  \<comment> \<open>the first critical section of \<open>sendRequestOnConn\<close>\<close>
  "register_call a cc k w = emit (Registered a (ca_request cc))
     (upd (\<lambda>c. c\<lparr> cl_pending := (cl_pending c)(d_HopByHop (ca_request cc) \<mapsto> a) \<rparr>)
       (w\<lparr> sw_calls := (sw_calls w)(a \<mapsto> cc\<lparr> ca_stage := InTable k \<rparr>) \<rparr>))"

definition write_call :: "nat \<Rightarrow> sta_call \<Rightarrow> nat \<Rightarrow> sta_err option \<Rightarrow> sta_world \<Rightarrow> sta_world" where
  \<comment> \<open>\<open>conn.Write\<close> and what follows its error\<close>
  "write_call a cc k failed w = (case failed of
     None \<Rightarrow> emit (Written k (ca_request cc)) (w\<lparr> sw_calls := (sw_calls w)(a \<mapsto> cc\<lparr> ca_stage := Sent k \<rparr>) \<rparr>)
   | Some e \<Rightarrow> finish_failed (ca_frame cc) e (drop_call a (upd (unregister (d_HopByHop (ca_request cc))) w)))"

definition return_call :: "nat \<Rightarrow> sta_call \<Rightarrow> sta_err + message \<Rightarrow> time \<Rightarrow> sta_world \<Rightarrow> sta_world" where
  \<comment> \<open>\<open>resp := <-ch\<close>\<close>
  "return_call a cc r now w =
     (let w' = emit (Returned a r) (drop_call a w) in case r of
        Inl e \<Rightarrow> finish_failed (ca_frame cc) e w'
      | Inr answer \<Rightarrow> proceed (answer_call (ca_frame cc) answer now (sw_client w)) w')"

definition cancel_call :: "nat \<Rightarrow> sta_call \<Rightarrow> sta_err \<Rightarrow> sta_world \<Rightarrow> sta_world" where
  \<comment> \<open>\<open>ctx.Done()\<close>\<close>
  "cancel_call a cc e w =
     finish_failed (ca_frame cc) e (drop_call a (upd (unregister (d_HopByHop (ca_request cc))) w))"

definition take_answer :: "message \<Rightarrow> sta_client \<Rightarrow> sta_client" where
  \<comment> \<open>the read loop on an answer\<close>
  "take_answer msg c = (case cl_pending c (d_HopByHop msg) of None \<Rightarrow> c
     | Some a \<Rightarrow> deliver a (Inr msg) (unregister (d_HopByHop msg) c))"

definition take_request :: "nat \<Rightarrow> message \<Rightarrow> bool \<Rightarrow> sta_world \<Rightarrow> sta_world" where
  \<comment> \<open>the read loop on a request; \<open>ok\<close> tells whether the write of the answer succeeds. Only the
    disconnect requests look at that before they start the handler\<close>
  "take_request k msg ok w =
     (let (answer, event) = handleRequest (cl_cfg (sw_client w)) msg;
          w' = (case answer of Some m \<Rightarrow> if ok then emit (Written k m) w else w | None \<Rightarrow> w)
      in case event of
           Some ev \<Rightarrow> if ok \<and> cl_handler (sw_client w) then emit (Disconnected ev) w' else w'
         | None \<Rightarrow> w')"

definition readLoop_turn :: "nat \<Rightarrow> message \<Rightarrow> bool \<Rightarrow> sta_world \<Rightarrow> sta_world" where
  "readLoop_turn k msg ok w =
     (let w' = emit (ReadMessage k msg) w
      in if isRequest msg then take_request k msg ok w' else upd (take_answer msg) w')"

definition Start_call :: "sta_world \<Rightarrow> sta_world" where
  \<comment> \<open>what \<open>Start\<close> does before it waits\<close>
  "Start_call w =
     (if cl_started (sw_client w) then w
      else upd (on_status (\<lambda>s. s\<lparr> ss_State := ''starting'' \<rparr>) \<circ> (\<lambda>c. c\<lparr> cl_started := True \<rparr>))
             (w\<lparr> sw_phase := Idle 1 \<rparr>))"

definition Stop :: "sta_client \<Rightarrow> sta_client" where
  "Stop c =
     (let c1 = (if cl_started c then c\<lparr> cl_done := True \<rparr> else c);
          c2 = (case cl_conn c1 of Some k \<Rightarrow> close_conn k c1 | None \<Rightarrow> c1)
      in failPendingLocked StaClientStopped (on_status (\<lambda>s. s\<lparr> ss_State := ''stopped'' \<rparr>) c2))"

definition minDuration :: "int \<Rightarrow> int \<Rightarrow> int" where
  "minDuration a b = (if a < b then a else b)"

definition begin_dial :: "sta_client \<Rightarrow> sta_client" where
  \<comment> \<open>\<open>connectLoop\<close> up to \<open>DialContext\<close>\<close>
  "begin_dial c = on_status (\<lambda>s. s\<lparr> ss_ReconnectAttempts := ss_ReconnectAttempts s + 1 \<rparr>)
     (setStatus ''connecting'' None False c)"

definition handshake :: "time \<Rightarrow> byte \<times> byte \<times> byte \<times> byte \<Rightarrow> sta_err option \<Rightarrow> diam_err + message \<Rightarrow> sta_client
    \<Rightarrow> (sta_err option \<times> message) \<times> sta_client" where
  \<comment> \<open>\<open>written\<close>: the error of the write, \<open>cea\<close>: what is read then\<close>
  "handshake now localIP written cea c =
     (let (cer, c') = newRequest commandCER 0 False (cer_avps (cl_cfg c) (word_of_int (now div 1000000000)) localIP) c
      in ((case written of Some e \<Rightarrow> Some e | None \<Rightarrow> check_cea cea, cer), c'))"

definition conn_opened :: "nat \<Rightarrow> sta_client \<Rightarrow> sta_client" where
  "conn_opened k c = on_status (\<lambda>s. s\<lparr> ss_State := ''open'', ss_LastError := None, ss_CERComplete := True \<rparr>)
     (c\<lparr> cl_conn := Some k \<rparr>)"

definition connected :: "time \<Rightarrow> byte \<times> byte \<times> byte \<times> byte \<Rightarrow> sta_err option \<Rightarrow> bytes \<Rightarrow> sta_world \<Rightarrow> sta_world" where
  \<comment> \<open>\<open>connectLoop\<close> from the established connection on, whose first bytes are \<open>bs\<close>\<close>
  "connected now localIP written bs w =
     (let k = sw_next w; cea = decodeMessage bs;
          ((err, cer), c) = handshake now localIP written (map_sum id fst cea) (sw_client w);
          w0 = w\<lparr> sw_client := c, sw_next := k + 1, sw_requests := sw_requests w + 1 \<rparr>;
          w1 = (case written of None \<Rightarrow> emit (Written k cer) w0 | Some _ \<Rightarrow> w0)
      in case err of
           Some e \<Rightarrow> upd (setStatus ''disconnected'' (Some e) False \<circ> close_conn k) (w1\<lparr> sw_phase := Idle 1 \<rparr>)
         | None \<Rightarrow> upd (conn_opened k)
             (w1\<lparr> sw_phase := Serving k, sw_in := (case cea of Inr (_, rest) \<Rightarrow> rest | Inl _ \<Rightarrow> []) \<rparr>))"

definition conn_lost :: "nat \<Rightarrow> sta_err \<Rightarrow> sta_client \<Rightarrow> sta_client" where
  \<comment> \<open>\<open>connectLoop\<close> after \<open>errCh\<close>\<close>
  "conn_lost k e c =
     (let c1 = close_conn k c; c2 = (if cl_conn c1 = Some k then c1\<lparr> cl_conn := None \<rparr> else c1)
      in failPendingLocked e (setStatus ''disconnected'' (Some e) False c2))"

inductive sta_step :: "sta_world \<Rightarrow> sta_world \<Rightarrow> bool" where
  start: "sta_step w (Start_call w)"
| stop: "sta_step w (upd Stop w)"
| parent_cancelled: "cl_started (sw_client w) \<Longrightarrow> sta_step w (upd (\<lambda>c. c\<lparr> cl_done := True \<rparr>) w)"
| set_handler: "sta_step w (upd (SetDisconnectHandler h) w)"
| authenticate: "sta_step w (proceed (Authenticate_begin r now selected (sw_client w)) w)"
| exchange_eap: "sta_step w (proceed (ExchangeEAP_begin q now selected (sw_client w)) w)"
| watchdog: "sw_phase w = Serving k \<Longrightarrow> sta_step w (proceed (Watchdog_begin k (sw_client w)) w)"
| choose_conn: "sw_calls w a = Some cc \<Longrightarrow> ca_stage cc = Prepared \<Longrightarrow> sta_step w (choose_call a cc w)"
| register: "sw_calls w a = Some cc \<Longrightarrow> ca_stage cc = Chosen k \<Longrightarrow> sta_step w (register_call a cc k w)"
| write_request: "sw_calls w a = Some cc \<Longrightarrow> ca_stage cc = InTable k \<Longrightarrow>
    (failed = None \<longrightarrow> k \<notin> cl_closed (sw_client w)) \<Longrightarrow> sta_step w (write_call a cc k failed w)"
| answered: "sw_calls w a = Some cc \<Longrightarrow> ca_stage cc = Sent k \<Longrightarrow> cl_chans (sw_client w) a = Some r \<Longrightarrow>
    sta_step w (return_call a cc r now w)"
| cancelled: "sw_calls w a = Some cc \<Longrightarrow> ca_stage cc = Sent k \<Longrightarrow> sta_step w (cancel_call a cc (ContextDone why) w)"
| dial: "sw_phase w = Idle b \<Longrightarrow> \<not> cl_done (sw_client w) \<Longrightarrow>
    sta_step w (upd begin_dial (w\<lparr> sw_phase := Dialing b \<rparr>))"
| dial_failed: "sw_phase w = Dialing b \<Longrightarrow>
    sta_step w (upd (setStatus ''disconnected'' (Some (DialError why)) False)
      (w\<lparr> sw_phase := Idle (minDuration (b * 2) 30) \<rparr>))"
| dialed: "sw_phase w = Dialing b \<Longrightarrow> sta_step w (connected now localIP written bs w)"
| bytes_arrive: "sw_phase w = Serving k \<Longrightarrow> sta_step w (w\<lparr> sw_in := sw_in w @ bs \<rparr>)"
| read_message: "sw_phase w = Serving k \<Longrightarrow> decodeMessage (sw_in w) = Inr (msg, rest) \<Longrightarrow>
    sta_step w (readLoop_turn k msg ok (w\<lparr> sw_in := rest \<rparr>))"
| lost: "sw_phase w = Serving k \<Longrightarrow>
    k \<in> cl_closed (sw_client w) \<or> (\<exists>err. decodeMessage (sw_in w) = Inl err) \<Longrightarrow> sta_step w (upd (conn_lost k e) (w\<lparr> sw_phase := Idle 1, sw_in := [] \<rparr>))"
| loop_ends: "sw_phase w = Idle b \<Longrightarrow> cl_done (sw_client w) \<Longrightarrow> sta_step w (w\<lparr> sw_phase := Ended \<rparr>)"
| serving_ends: "sw_phase w = Serving k \<Longrightarrow> cl_done (sw_client w) \<Longrightarrow>
    sta_step w (upd (close_conn k) (w\<lparr> sw_phase := Ended \<rparr>))"

inductive sta_reachable :: "sta_client \<Rightarrow> sta_world \<Rightarrow> bool" for c0 where
  init: "sta_reachable c0 (sta_world0 c0)"
| step: "sta_reachable c0 w \<Longrightarrow> sta_step w w' \<Longrightarrow> sta_reachable c0 w'"

end
