(* ===== verification/StaInv.thy ===== *)
theory StaInv
  imports StaClient
begin

text \<open>
  The invariants of the STa client under any interleaving: the pending table and the channels agree
  with the calls under way; a call's connection is the one being served or a closed one; as long as
  the hop-by-hop counter has not gone round, no call loses its entry; and every answer in a channel
  was read from the peer after the request was registered.
\<close>

section \<open>What the operations leave alone\<close>

lemmas sta_client_ops = on_status_def setStatus_def set_result_code_def SetDisconnectHandler_def
  deliver_def failPendingLocked_def close_conn_def unregister_def take_answer_def Stop_def begin_dial_def
  conn_opened_def conn_lost_def newRequest_def newDER_def Watchdog_begin_def

lemmas sta_world_ops = upd_def emit_def drop_call_def

lemma emit_fields [simp]:
  "sw_client (emit e w) = sw_client w" "sw_phase (emit e w) = sw_phase w" "sw_calls (emit e w) = sw_calls w"
  "sw_next (emit e w) = sw_next w" "sw_requests (emit e w) = sw_requests w" "sw_in (emit e w) = sw_in w"
  "sw_trace (emit e w) = sw_trace w @ [e]"
  by (simp_all add: emit_def)

lemma drop_call_fields [simp]:
  "sw_client (drop_call a w) = sw_client w" "sw_phase (drop_call a w) = sw_phase w"
  "sw_calls (drop_call a w) = (sw_calls w)(a := None)" "sw_next (drop_call a w) = sw_next w"
  "sw_requests (drop_call a w) = sw_requests w" "sw_trace (drop_call a w) = sw_trace w"
  by (simp_all add: drop_call_def)

lemma upd_fields [simp]:
  "sw_client (upd f w) = f (sw_client w)" "sw_phase (upd f w) = sw_phase w" "sw_calls (upd f w) = sw_calls w"
  "sw_next (upd f w) = sw_next w" "sw_requests (upd f w) = sw_requests w" "sw_trace (upd f w) = sw_trace w"
  by (simp_all add: upd_def)

text \<open>A client step that only touches the status, the counters, the handler or the set of closed connections.\<close>

definition quiet_client :: "sta_client \<Rightarrow> sta_client \<Rightarrow> bool" where
  "quiet_client c c' \<longleftrightarrow> cl_cfg c' = cl_cfg c \<and> cl_conn c' = cl_conn c \<and> cl_pending c' = cl_pending c
     \<and> cl_chans c' = cl_chans c \<and> cl_closed c \<subseteq> cl_closed c' \<and> (cl_done c \<longrightarrow> cl_done c')
     \<and> (cl_started c \<longrightarrow> cl_started c')"

lemma quiet_client_refl [simp]: "quiet_client c c"
  by (simp add: quiet_client_def)

lemma quiet_ops [simp]:
  "quiet_client c (on_status f c)" "quiet_client c (setStatus st e b c)" "quiet_client c (set_result_code n c)"
  "quiet_client c (SetDisconnectHandler h c)" "quiet_client c (close_conn k c)" "quiet_client c (begin_dial c)"
  "quiet_client c (snd (newRequest command app p avps c))" "quiet_client c (snd (newDER sid u apn pl c))"
  "quiet_client c (snd (fail_call fr er c))"
  by (auto simp: quiet_client_def sta_client_ops fail_call_def Let_def split: sta_frame.split)

definition hop_next :: "sta_next \<Rightarrow> sta_client \<Rightarrow> sta_client \<Rightarrow> bool" where
  \<comment> \<open>a request takes the next hop-by-hop identifier\<close>
  "hop_next n c c' \<longleftrightarrow> (case n of Finish _ \<Rightarrow> cl_nextHop c' = cl_nextHop c
     | SendNext msg _ \<Rightarrow> cl_nextHop c' = cl_nextHop c + 1 \<and> d_HopByHop msg = cl_nextHop c + 1)"

definition next_ok :: "sta_next \<Rightarrow> sta_config \<Rightarrow> bool" where
  \<comment> \<open>an EAP exchange sends the DER of its own request, and its result is not made here\<close>
  "next_ok n cfg \<longleftrightarrow> (case n of SendNext msg (EAPFrame q sid) \<Rightarrow>
        d_CommandCode msg = commandDER
        \<and> d_AVPs msg = der_avps cfg sid (if te_IMSI q = [] then te_Username q else te_IMSI q) (te_APN q) (te_EAPPayload q)
     | Finish (EAPOutcome (Inr res)) \<Rightarrow> False | _ \<Rightarrow> True)"

definition fits :: "sta_client \<Rightarrow> sta_next \<times> sta_client \<Rightarrow> bool" where
  "fits c r \<longleftrightarrow> quiet_client c (snd r) \<and> hop_next (fst r) c (snd r)"

lemma fitsD: "fits c r \<Longrightarrow> quiet_client c (snd r)"
  by (simp add: fits_def)

lemma fits_newDER: "newDER sid u apn pl c = (msg, c') \<Longrightarrow> fits c (SendNext msg fr, c')"
  by (auto simp: fits_def sta_client_ops quiet_client_def hop_next_def Let_def)

lemma fits_finish [simp]: "fits c (Finish out, c)" "fits c (Finish out, set_result_code n c)"
  "fits c (Finish out, on_status f c)"
  by (simp_all add: fits_def hop_next_def) (simp_all add: sta_client_ops)

lemma fits_Watchdog: "fits c (Watchdog_begin k c)"
  by (simp add: fits_def sta_client_ops quiet_client_def hop_next_def Let_def)

lemma fits_Authenticate: "fits c (Authenticate_begin r now selected c)"
  by (simp add: Authenticate_begin_def Let_def fits_newDER split: option.split sum.split prod.split)

lemma fits_Exchange: "fits c (ExchangeEAP_begin q now selected c)"
  by (simp add: ExchangeEAP_begin_def Let_def fits_newDER split: option.split prod.split)

lemma fits_answer: "fits c (answer_call fr answer now c)"
  by (simp add: answer_call_def Authenticate_answer_def Let_def fits_newDER
      split: sta_frame.split option.split sum.split prod.split)

lemma next_ok_Watchdog: "next_ok (fst (Watchdog_begin k c)) (cl_cfg c)"
  by (simp add: next_ok_def Watchdog_begin_def newRequest_def Let_def)

lemma next_ok_Authenticate: "next_ok (fst (Authenticate_begin r now selected c)) (cl_cfg c)"
  by (simp add: next_ok_def Authenticate_begin_def Let_def split: option.split sum.split prod.split)

lemma next_ok_Exchange: "next_ok (fst (ExchangeEAP_begin q now selected c)) (cl_cfg c)"
  by (simp add: next_ok_def ExchangeEAP_begin_def newDER_def newRequest_def Let_def split: option.split)

lemma next_ok_answer:
  "next_ok (fst (answer_call fr answer now c)) (cl_cfg c)
    \<or> (\<exists>q sid. fr = EAPFrame q sid \<and> fst (answer_call fr answer now c) = Finish (EAPOutcome (Inr (eapExchangeResult q sid answer))))"
  by (cases fr) (simp_all add: next_ok_def answer_call_def Authenticate_answer_def Let_def
      split: option.split sum.split prod.split)

section \<open>Calls, channels and connections\<close>

abbreviation hop_of :: "sta_call \<Rightarrow> u32" where
  "hop_of cc \<equiv> d_HopByHop (ca_request cc)"

fun tabled :: "call_stage \<Rightarrow> bool" where
  "tabled (InTable _) = True"
| "tabled (Sent _) = True"
| "tabled _ = False"

fun on_conn :: "call_stage \<Rightarrow> nat \<Rightarrow> bool" where
  "on_conn Prepared k = False"
| "on_conn (Chosen k') k = (k = k')"
| "on_conn (InTable k') k = (k = k')"
| "on_conn (Sent k') k = (k = k')"

definition conn_ok :: "sta_world \<Rightarrow> nat \<Rightarrow> bool" where
  "conn_ok w k \<longleftrightarrow> k \<in> cl_closed (sw_client w) \<or> sw_phase w = Serving k"

definition calls_inv :: "sta_world \<Rightarrow> bool" where
  "calls_inv w \<longleftrightarrow>
     (\<forall>a cc. sw_calls w a = Some cc \<longrightarrow> a < sw_next w \<and> (\<not> tabled (ca_stage cc) \<longrightarrow> cl_chans (sw_client w) a = None))
   \<and> (\<forall>a r. cl_chans (sw_client w) a = Some r \<longrightarrow> a < sw_next w)
   \<and> (\<forall>h a. cl_pending (sw_client w) h = Some a \<longrightarrow> cl_chans (sw_client w) a = None
        \<and> (\<exists>cc. sw_calls w a = Some cc \<and> hop_of cc = h \<and> tabled (ca_stage cc)))"

definition conns_inv :: "sta_world \<Rightarrow> bool" where
  "conns_inv w \<longleftrightarrow>
     (\<forall>a cc k. sw_calls w a = Some cc \<longrightarrow> on_conn (ca_stage cc) k \<longrightarrow> conn_ok w k)
   \<and> (\<forall>k. cl_conn (sw_client w) = Some k \<longrightarrow> conn_ok w k)
   \<and> (sw_phase w \<noteq> NotRunning \<longrightarrow> cl_started (sw_client w))"

lemma calls_invD:
  assumes "calls_inv w"
  shows "sw_calls w a = Some cc \<Longrightarrow> a < sw_next w"
    and "sw_calls w a = Some cc \<Longrightarrow> \<not> tabled (ca_stage cc) \<Longrightarrow> cl_chans (sw_client w) a = None"
    and "cl_chans (sw_client w) a = Some r \<Longrightarrow> a < sw_next w"
    and "cl_pending (sw_client w) h = Some a \<Longrightarrow> cl_chans (sw_client w) a = None"
    and "cl_pending (sw_client w) h = Some a \<Longrightarrow> \<exists>cc. sw_calls w a = Some cc \<and> hop_of cc = h \<and> tabled (ca_stage cc)"
  using assms by (simp_all add: calls_inv_def) blast?

lemma calls_inv_same:
  assumes "calls_inv w" "sw_calls w' = sw_calls w" "sw_next w \<le> sw_next w'"
    "cl_pending (sw_client w') = cl_pending (sw_client w)" "cl_chans (sw_client w') = cl_chans (sw_client w)"
  shows "calls_inv w'"
  using assms(1,3) by (simp add: calls_inv_def assms(2,4,5)) (meson order_less_le_trans)

lemma finish_failed_fields [simp]:
  "sw_calls (finish_failed fr e w) = sw_calls w" "sw_next (finish_failed fr e w) = sw_next w"
  "sw_phase (finish_failed fr e w) = sw_phase w" "sw_requests (finish_failed fr e w) = sw_requests w"
  "quiet_client (sw_client w) (sw_client (finish_failed fr e w))"
  "cl_nextHop (sw_client (finish_failed fr e w)) = cl_nextHop (sw_client w)"
  using quiet_ops(9) [of "sw_client w" fr e]
  by (simp_all add: finish_failed_def emit_def case_prod_beta)
    (simp add: fail_call_def sta_client_ops split: sta_frame.split)

lemma calls_inv_quiet:
  assumes "calls_inv w" "sw_calls w' = sw_calls w" "sw_next w \<le> sw_next w'" "quiet_client (sw_client w) (sw_client w')"
  shows "calls_inv w'"
  using assms calls_inv_same by (simp add: quiet_client_def)

lemma calls_inv_finish_failed: "calls_inv w \<Longrightarrow> calls_inv (finish_failed fr e w)"
  by (erule calls_inv_quiet) simp_all

lemma no_channel_yet: "calls_inv w \<Longrightarrow> cl_chans (sw_client w) (sw_next w) = None"
  using calls_invD(3) [of w "sw_next w"] by (cases "cl_chans (sw_client w) (sw_next w)") auto

lemma calls_inv_new:
  assumes "calls_inv w" "\<not> tabled (ca_stage cc)"
  shows "calls_inv (w\<lparr> sw_calls := (sw_calls w)(sw_next w \<mapsto> cc), sw_next := sw_next w + 1, sw_requests := n \<rparr>)"
  unfolding calls_inv_def
proof (intro conjI allI impI)
  fix h a
  assume "cl_pending (sw_client (w\<lparr> sw_calls := (sw_calls w)(sw_next w \<mapsto> cc), sw_next := sw_next w + 1, sw_requests := n \<rparr>)) h = Some a"
  hence p: "cl_pending (sw_client w) h = Some a" by simp
  then obtain c1 where "sw_calls w a = Some c1" "hop_of c1 = h" "tabled (ca_stage c1)"
    using calls_invD(5) [OF assms(1)] by blast
  moreover from this have "a \<noteq> sw_next w" using calls_invD(1) [OF assms(1)] by auto
  ultimately show "\<exists>cca. sw_calls (w\<lparr> sw_calls := (sw_calls w)(sw_next w \<mapsto> cc), sw_next := sw_next w + 1, sw_requests := n \<rparr>) a = Some cca
      \<and> hop_of cca = h \<and> tabled (ca_stage cca)" by simp
qed (use assms no_channel_yet calls_invD [OF assms(1)] in \<open>force split: if_splits\<close>)+

lemma calls_inv_proceed:
  assumes "calls_inv w" "quiet_client (sw_client w) (snd r)" shows "calls_inv (proceed r w)"
proof -
  have q: "calls_inv (w\<lparr> sw_client := snd r \<rparr>)"
    using assms by (intro calls_inv_quiet [OF assms(1)]) simp_all
  show ?thesis
  proof (cases "fst r")
    case (Finish out)
    with q show ?thesis by (intro calls_inv_quiet [OF q]) (simp_all add: proceed_def emit_def)
  next
    case (SendNext msg fr)
    show ?thesis
      using calls_inv_new [OF q, of "\<lparr> ca_frame = fr, ca_request = msg,
             ca_stage = (case fr of WatchdogFrame k \<Rightarrow> Chosen k | _ \<Rightarrow> Prepared) \<rparr>" "sw_requests w + 1"]
      by (simp add: proceed_def SendNext split: sta_frame.split)
  qed
qed

lemma calls_inv_drop:
  assumes "calls_inv w" "\<And>h. cl_pending (sw_client w) h \<noteq> Some a"
  shows "calls_inv (drop_call a w)"
  using assms unfolding calls_inv_def drop_call_def by auto

lemma calls_inv_unregister: "calls_inv w \<Longrightarrow> calls_inv (upd (unregister h) w)"
  unfolding calls_inv_def upd_def unregister_def by (auto split: if_splits)

lemma calls_inv_leave:
  assumes "calls_inv w" "sw_calls w a = Some cc"
  shows "calls_inv (drop_call a (upd (unregister (hop_of cc)) w))"
proof (rule calls_inv_drop [OF calls_inv_unregister [OF assms(1)]])
  show "cl_pending (sw_client (upd (unregister (hop_of cc)) w)) h \<noteq> Some a" for h
    using calls_invD(5) [OF assms(1), of h a] assms(2) by (auto simp: upd_def unregister_def)
qed

lemma calls_inv_stage:
  assumes inv: "calls_inv w" and cc: "sw_calls w a = Some cc" and tab: "tabled (ca_stage cc) \<Longrightarrow> tabled st"
    and w': "sw_calls w' = (sw_calls w)(a \<mapsto> cc\<lparr> ca_stage := st \<rparr>)" "sw_next w' = sw_next w"
      "cl_chans (sw_client w') = cl_chans (sw_client w)"
    and pend: "\<And>h b. cl_pending (sw_client w') h = Some b \<Longrightarrow> cl_pending (sw_client w) h = Some b
      \<or> b = a \<and> h = hop_of cc \<and> tabled st \<and> \<not> tabled (ca_stage cc)"
  shows "calls_inv w'"
  unfolding calls_inv_def
proof (intro conjI allI impI)
  fix h b
  assume "cl_pending (sw_client w') h = Some b"
  from pend [OF this] consider (old) "cl_pending (sw_client w) h = Some b"
    | (new) "b = a" "h = hop_of cc" "tabled st" "\<not> tabled (ca_stage cc)" by blast
  hence "cl_chans (sw_client w) b = None
    \<and> (\<exists>cc'. sw_calls w' b = Some cc' \<and> hop_of cc' = h \<and> tabled (ca_stage cc'))"
  proof cases
    case old
    with calls_invD(4,5) [OF inv old] cc tab show ?thesis unfolding w' by (cases "b = a") auto
  next
    case new
    with calls_invD(2) [OF inv cc] show ?thesis unfolding w' by simp
  qed
  thus "cl_chans (sw_client w') b = None" "\<exists>cc'. sw_calls w' b = Some cc' \<and> hop_of cc' = h \<and> tabled (ca_stage cc')"
    unfolding w' by simp_all
next
  fix b c1 assume "sw_calls w' b = Some c1"
  with calls_invD(1,2) [OF inv] cc tab
  show "b < sw_next w'" and "\<not> tabled (ca_stage c1) \<Longrightarrow> cl_chans (sw_client w') b = None"
    unfolding w' by (cases "tabled (ca_stage cc)"; auto split: if_splits)+
next
  fix b r assume "cl_chans (sw_client w') b = Some r"
  with calls_invD(3) [OF inv] show "b < sw_next w'" unfolding w' by simp
qed

lemma calls_inv_settle:
  assumes inv: "calls_inv w" and w': "sw_calls w' = sw_calls w" "sw_next w' = sw_next w"
    and pend: "\<And>h a. cl_pending (sw_client w') h = Some a \<Longrightarrow> cl_pending (sw_client w) h = Some a"
    and chans: "\<And>a. cl_chans (sw_client w') a = cl_chans (sw_client w) a
      \<or> (\<exists>h. cl_pending (sw_client w) h = Some a) \<and> (\<forall>h. cl_pending (sw_client w') h \<noteq> Some a)"
  shows "calls_inv w'"
  unfolding calls_inv_def
proof (intro conjI allI impI)
  fix h a assume "cl_pending (sw_client w') h = Some a"
  moreover from pend [OF this] have "cl_chans (sw_client w) a = None"
      "\<exists>cc. sw_calls w a = Some cc \<and> hop_of cc = h \<and> tabled (ca_stage cc)"
    using calls_invD(4,5) [OF inv] by blast+
  ultimately show "cl_chans (sw_client w') a = None"
      "\<exists>cc. sw_calls w' a = Some cc \<and> hop_of cc = h \<and> tabled (ca_stage cc)"
    using chans [of a] unfolding w' by auto
next
  fix a cc assume cc: "sw_calls w' a = Some cc"
  with calls_invD(1) [OF inv] show "a < sw_next w'" unfolding w' by simp
  assume nt: "\<not> tabled (ca_stage cc)"
  have "cl_pending (sw_client w) h \<noteq> Some a" for h
    using calls_invD(5) [OF inv, of h a] cc nt unfolding w' by auto
  with chans [of a] calls_invD(2) [OF inv _ nt] cc
  show "cl_chans (sw_client w') a = None" unfolding w' by auto
next
  fix a r assume "cl_chans (sw_client w') a = Some r"
  hence "cl_chans (sw_client w) a = Some r \<or> (\<exists>h. cl_pending (sw_client w) h = Some a)"
    using chans [of a] by auto
  thus "a < sw_next w'" using calls_invD(1,3,5) [OF inv] unfolding w' by blast
qed

lemma calls_inv_choose:
  assumes "calls_inv w" "sw_calls w a = Some cc" "ca_stage cc = Prepared"
  shows "calls_inv (choose_call a cc w)"
proof (cases "cl_conn (sw_client w)")
  case None
  have "cl_pending (sw_client w) h \<noteq> Some a" for h
    using calls_invD(5) [OF assms(1), of h a] assms by auto
  with None show ?thesis
    by (simp add: choose_call_def calls_inv_finish_failed calls_inv_drop [OF assms(1)])
next
  case (Some k)
  with assms(3) show ?thesis
    by (intro calls_inv_stage [OF assms(1,2), of "Chosen k"]) (simp_all add: choose_call_def)
qed

lemma calls_inv_register:
  assumes "calls_inv w" "sw_calls w a = Some cc" "ca_stage cc = Chosen k"
  shows "calls_inv (register_call a cc k w)"
  using assms(3)
  by (intro calls_inv_stage [OF assms(1,2), of "InTable k"])
    (auto simp add: register_call_def sta_world_ops split: if_splits)

lemma calls_inv_write:
  assumes "calls_inv w" "sw_calls w a = Some cc" "ca_stage cc = InTable k"
  shows "calls_inv (write_call a cc k failed w)"
proof (cases failed)
  case None
  thus ?thesis
    by (intro calls_inv_stage [OF assms(1,2), of "Sent k"]) (simp_all add: write_call_def sta_world_ops)
next
  case (Some e)
  with assms show ?thesis by (simp add: write_call_def calls_inv_finish_failed calls_inv_leave)
qed

lemma calls_inv_return:
  assumes "calls_inv w" "sw_calls w a = Some cc" "cl_chans (sw_client w) a = Some r"
  shows "calls_inv (return_call a cc r now w)"
proof -
  have "cl_pending (sw_client w) h \<noteq> Some a" for h using calls_invD(4) [OF assms(1), of h a] assms(3) by auto
  hence "calls_inv (drop_call a w)" by (rule calls_inv_drop [OF assms(1)])
  hence d: "calls_inv (emit (Returned a r) (drop_call a w))"
    by (rule calls_inv_quiet) (simp_all add: emit_def)
  have c: "sw_client (emit (Returned a r) (drop_call a w)) = sw_client w" by (simp add: sta_world_ops)
  show ?thesis
  proof (cases r)
    case (Inl e)
    with d show ?thesis by (simp add: return_call_def calls_inv_finish_failed)
  next
    case (Inr m)
    have "quiet_client (sw_client (emit (Returned a r) (drop_call a w))) (snd (answer_call (ca_frame cc) m now (sw_client w)))"
      unfolding c by (rule fitsD [OF fits_answer])
    from calls_inv_proceed [OF d this] show ?thesis by (simp add: return_call_def Inr)
  qed
qed

lemma take_request_fields [simp]:
  "sw_calls (take_request k msg ok w) = sw_calls w" "sw_next (take_request k msg ok w) = sw_next w"
  "sw_client (take_request k msg ok w) = sw_client w" "sw_phase (take_request k msg ok w) = sw_phase w"
  "sw_requests (take_request k msg ok w) = sw_requests w"
  by (auto simp: take_request_def emit_def Let_def split: prod.split option.split)

lemma calls_inv_read:
  assumes "calls_inv w" shows "calls_inv (readLoop_turn k msg ok w)"
proof (cases "isRequest msg")
  case True
  thus ?thesis by (intro calls_inv_quiet [OF assms]) (simp_all add: readLoop_turn_def emit_def)
next
  case False
  have other: "cl_pending (sw_client w) h \<noteq> Some a"
    if "cl_pending (sw_client w) (d_HopByHop msg) = Some a" "h \<noteq> d_HopByHop msg" for h a
    using calls_invD(5) [OF assms, of h a] calls_invD(5) [OF assms that(1)] that(2) by auto
  from False show ?thesis
    by (intro calls_inv_settle [OF assms])
      (auto simp: readLoop_turn_def take_answer_def deliver_def unregister_def sta_world_ops other Let_def
        split: option.splits if_splits)
qed

lemma calls_inv_fail_pending:
  assumes "calls_inv w" shows "calls_inv (upd (failPendingLocked e) w)"
  by (rule calls_inv_settle [OF assms]) (auto simp: failPendingLocked_def upd_def ran_def)

lemma calls_inv_connected:
  assumes "calls_inv w" shows "calls_inv (connected now localIP written bs w)"
  by (rule calls_inv_same [OF assms])
    (simp_all add: connected_def handshake_def sta_client_ops Let_def sta_world_ops case_prod_beta split: option.split)

lemma calls_inv_step:
  assumes "sta_step w w'" "calls_inv w" shows "calls_inv w'"
  using assms
proof (induction rule: sta_step.induct)
  case (stop w)
  let ?f = "\<lambda>c. case cl_conn c of Some k \<Rightarrow> close_conn k c | None \<Rightarrow> c"
  have "upd Stop w = upd (failPendingLocked StaClientStopped)
     (upd (on_status (\<lambda>s. s\<lparr> ss_State := ''stopped'' \<rparr>) \<circ> ?f \<circ> (\<lambda>c. if cl_started c then c\<lparr> cl_done := True \<rparr> else c)) w)"
    by (simp add: upd_def Stop_def Let_def)
  moreover have "calls_inv (upd (on_status (\<lambda>s. s\<lparr> ss_State := ''stopped'' \<rparr>) \<circ> ?f
      \<circ> (\<lambda>c. if cl_started c then c\<lparr> cl_done := True \<rparr> else c)) w)"
    by (rule calls_inv_same [OF stop]) (simp_all add: upd_def sta_client_ops split: option.split)
  ultimately show ?case by (simp add: calls_inv_fail_pending)
next
  case (lost w k e)
  let ?f = "\<lambda>c. setStatus ''disconnected'' (Some e) False
     (let c1 = close_conn k c in if cl_conn c1 = Some k then c1\<lparr> cl_conn := None \<rparr> else c1)"
  let ?w = "upd ?f (w\<lparr> sw_phase := Idle 1, sw_in := [] \<rparr>)"
  have "calls_inv ?w"
    by (rule calls_inv_same [OF lost(3)]) (simp_all add: upd_def sta_client_ops Let_def)
  hence "calls_inv (upd (failPendingLocked e) ?w)" by (rule calls_inv_fail_pending)
  moreover have "upd (conn_lost k e) (w\<lparr> sw_phase := Idle 1, sw_in := [] \<rparr>) = upd (failPendingLocked e) ?w"
    by (simp add: upd_def conn_lost_def Let_def)
  ultimately show ?case by (simp only:)
next
  case (read_message w k msg rest ok)
  have "calls_inv (w\<lparr> sw_in := rest \<rparr>)" by (rule calls_inv_quiet [OF read_message(3)]) simp_all
  thus ?case by (rule calls_inv_read)
next
  case (cancelled w a cc k why)
  thus ?case by (simp add: cancel_call_def calls_inv_finish_failed calls_inv_leave)
next
  case (start w)
  show ?case by (rule calls_inv_same [OF start]) (simp_all add: Start_call_def upd_def sta_client_ops)
qed (simp_all add: calls_inv_proceed fits_Authenticate [THEN fitsD] fits_Exchange [THEN fitsD]
    fits_Watchdog [THEN fitsD]    calls_inv_choose calls_inv_register calls_inv_write calls_inv_return calls_inv_connected,
  (erule calls_inv_same; simp add: upd_def sta_client_ops)+)

section \<open>Connections\<close>

lemma conns_invD:
  assumes "conns_inv w"
  shows "sw_calls w a = Some cc \<Longrightarrow> on_conn (ca_stage cc) k \<Longrightarrow> conn_ok w k"
    and "cl_conn (sw_client w) = Some k \<Longrightarrow> conn_ok w k"
    and "sw_phase w \<noteq> NotRunning \<Longrightarrow> cl_started (sw_client w)"
  using assms by (simp_all add: conns_inv_def)

lemma conns_inv_keep:
  assumes "conns_inv w" and ok: "\<And>k. conn_ok w k \<Longrightarrow> conn_ok w' k"
    and "\<And>a cc k. sw_calls w' a = Some cc \<Longrightarrow> on_conn (ca_stage cc) k \<Longrightarrow> conn_ok w k"
    and "\<And>k. cl_conn (sw_client w') = Some k \<Longrightarrow> conn_ok w' k"
    and "sw_phase w' \<noteq> NotRunning \<Longrightarrow> cl_started (sw_client w')"
  shows "conns_inv w'"
  using assms(3-5) ok unfolding conns_inv_def by blast

lemma conns_inv_quiet:
  assumes inv: "conns_inv w" and "sw_phase w' = sw_phase w" "quiet_client (sw_client w) (sw_client w')"
    and "\<And>a cc k. sw_calls w' a = Some cc \<Longrightarrow> on_conn (ca_stage cc) k \<Longrightarrow> conn_ok w k"
  shows "conns_inv w'"
proof (rule conns_inv_keep [OF inv _ assms(4)])
  show ok: "conn_ok w' k" if "conn_ok w k" for k using that assms(2,3) by (auto simp: conn_ok_def quiet_client_def)
  show "conn_ok w' k" if "cl_conn (sw_client w') = Some k" for k
    using that assms(3) conns_invD(2) [OF inv] by (auto simp: quiet_client_def intro: ok)
  show "cl_started (sw_client w')" if "sw_phase w' \<noteq> NotRunning"
    using that assms(2,3) conns_invD(3) [OF inv] by (auto simp: quiet_client_def)
qed

lemma conns_inv_fewer:
  assumes inv: "conns_inv w" and "sw_phase w' = sw_phase w"
    and "cl_closed (sw_client w) \<subseteq> cl_closed (sw_client w')" "cl_started (sw_client w) \<longrightarrow> cl_started (sw_client w')"
    and "\<And>k. cl_conn (sw_client w') = Some k \<Longrightarrow> cl_conn (sw_client w) = Some k"
    and "\<And>a cc. sw_calls w' a = Some cc \<Longrightarrow> sw_calls w a = Some cc"
  shows "conns_inv w'"
proof (rule conns_inv_keep [OF inv])
  show ok: "conn_ok w' k" if "conn_ok w k" for k using that assms(2,3) by (auto simp: conn_ok_def)
  show "conn_ok w' k" if "cl_conn (sw_client w') = Some k" for k
    using that assms(5) conns_invD(2) [OF inv] ok by blast
  show "cl_started (sw_client w')" if "sw_phase w' \<noteq> NotRunning"
    using that assms(2,4) conns_invD(3) [OF inv] by simp
qed (use assms(6) conns_invD(1) [OF inv] in blast)

definition new_call :: "message \<Rightarrow> sta_frame \<Rightarrow> sta_call" where
  "new_call msg fr = \<lparr> ca_frame = fr, ca_request = msg,
     ca_stage = (case fr of WatchdogFrame k \<Rightarrow> Chosen k | _ \<Rightarrow> Prepared) \<rparr>"

lemma proceed_fields [simp]:
  "sw_phase (proceed r w) = sw_phase w" "sw_client (proceed r w) = snd r"
  "sw_calls (proceed r w) = (case fst r of Finish _ \<Rightarrow> sw_calls w
     | SendNext msg fr \<Rightarrow> (sw_calls w)(sw_next w \<mapsto> new_call msg fr))"
  "sw_requests (proceed r w) = (case fst r of Finish _ \<Rightarrow> sw_requests w | SendNext msg fr \<Rightarrow> sw_requests w + 1)"
  "sw_trace (proceed r w) = sw_trace w @ (case fst r of Finish out \<Rightarrow> [Completed out] | SendNext msg fr \<Rightarrow> [])"
  by (simp_all add: proceed_def emit_def new_call_def Let_def split: sta_next.split)

lemma new_call_stage: "on_conn (ca_stage (new_call msg fr)) k \<longleftrightarrow> fr = WatchdogFrame k"
  "\<not> tabled (ca_stage (new_call msg fr))"
  by (auto simp: new_call_def split: sta_frame.split)

lemma conns_inv_proceed:
  assumes inv: "conns_inv w" and q: "quiet_client (sw_client w) (snd r)"
    and wd: "\<And>msg k. fst r = SendNext msg (WatchdogFrame k) \<Longrightarrow> conn_ok w k"
  shows "conns_inv (proceed r w)"
  using q conns_invD(1) [OF inv] wd
  by (intro conns_inv_quiet [OF inv]) (auto simp: new_call_stage split: sta_next.splits if_splits)

lemma no_watchdog:
  "fst (Authenticate_begin r now selected c) \<noteq> SendNext msg (WatchdogFrame k)"
  "fst (ExchangeEAP_begin q now selected c) \<noteq> SendNext msg (WatchdogFrame k)"
  "fst (answer_call fr answer now c) \<noteq> SendNext msg (WatchdogFrame k)"
  by (simp_all add: Authenticate_begin_def ExchangeEAP_begin_def answer_call_def Authenticate_answer_def Let_def
      split: option.split sum.split prod.split sta_frame.split)

lemma finish_failed_client [simp]:
  "cl_conn (sw_client (finish_failed fr e w)) = cl_conn (sw_client w)"
  "cl_pending (sw_client (finish_failed fr e w)) = cl_pending (sw_client w)"
  "cl_chans (sw_client (finish_failed fr e w)) = cl_chans (sw_client w)"
  "cl_cfg (sw_client (finish_failed fr e w)) = cl_cfg (sw_client w)"
  "cl_done (sw_client (finish_failed fr e w)) = cl_done (sw_client w)"
  "cl_started (sw_client (finish_failed fr e w)) = cl_started (sw_client w)"
  "cl_closed (sw_client w) \<subseteq> cl_closed (sw_client (finish_failed fr e w))"
  by (auto simp: finish_failed_def emit_def fail_call_def sta_client_ops split: sta_frame.split)

lemma finish_failed_closed: "k \<in> cl_closed (sw_client w) \<Longrightarrow> k \<in> cl_closed (sw_client (finish_failed fr e w))"
  using finish_failed_client(7) by blast

lemma conns_inv_finish_failed: "conns_inv w \<Longrightarrow> conns_inv (finish_failed fr e w)"
  by (erule conns_inv_fewer) simp_all

lemma conns_inv_leave: "conns_inv w \<Longrightarrow> conns_inv (drop_call a (upd (unregister h) w))"
  by (erule conns_inv_fewer) (auto simp: sta_world_ops unregister_def split: if_splits)

lemma conns_inv_connected:
  assumes inv: "conns_inv w" and d: "sw_phase w = Dialing b"
  shows "conns_inv (connected now localIP written bs w)"
proof -
  have closed: "conn_ok w k \<Longrightarrow> k \<in> cl_closed (sw_client w)" for k using d by (simp add: conn_ok_def)
  note inv' = conns_invD [OF inv]
  show ?thesis
    using inv'(3) d
    by (intro conns_inv_keep [OF inv])
      (auto simp: connected_def handshake_def sta_client_ops Let_def sta_world_ops case_prod_beta conn_ok_def
        dest!: inv'(1,2) closed split: option.splits)
qed

lemma conns_inv_step:
  assumes "sta_step w w'" "conns_inv w" shows "conns_inv w'"
  using assms
proof (induction rule: sta_step.induct)
  case (authenticate w r now selected)
  thus ?case by (intro conns_inv_proceed) (simp_all add: fitsD [OF fits_Authenticate] no_watchdog)
next
  case (exchange_eap w q now selected)
  thus ?case by (intro conns_inv_proceed) (simp_all add: fitsD [OF fits_Exchange] no_watchdog)
next
  case (watchdog w k)
  have "fst (Watchdog_begin k (sw_client w)) = SendNext msg (WatchdogFrame j) \<Longrightarrow> j = k" for msg j
    by (simp add: Watchdog_begin_def split: prod.splits)
  with watchdog show ?case
    by (intro conns_inv_proceed) (auto simp: fitsD [OF fits_Watchdog] conn_ok_def)
next
  case (choose_conn w a cc)
  show ?case
  proof (cases "cl_conn (sw_client w)")
    case None
    have "conns_inv (drop_call a w)"
      by (rule conns_inv_fewer [OF choose_conn(3)]) (auto simp: drop_call_def split: if_splits)
    with None show ?thesis by (simp add: choose_call_def conns_inv_finish_failed)
  next
    case (Some k)
    with conns_invD [OF choose_conn(3)] show ?thesis
      by (intro conns_inv_quiet [OF choose_conn(3)]) (auto simp: choose_call_def split: if_splits)
  qed
next
  case (register w a cc k)
  note inv = conns_invD [OF register(3)]
  have "conns_inv (w\<lparr> sw_calls := (sw_calls w)(a \<mapsto> cc\<lparr> ca_stage := InTable k \<rparr>) \<rparr>)"
    using inv(1) inv(1) [of a cc k] register(1,2)
    by (intro conns_inv_quiet [OF register(3)]) (auto split: if_splits)
  thus ?case by (rule conns_inv_fewer) (simp_all add: register_call_def sta_world_ops)
next
  case (write_request w a cc k failed)
  note inv = conns_invD [OF write_request(4)]
  show ?case
  proof (cases failed)
    case None
    thus ?thesis
      using inv(1) inv(1) [of a cc k] write_request(1,2)
      by (intro conns_inv_quiet [OF write_request(4)]) (auto simp: write_call_def emit_def split: if_splits)
  next
    case (Some e)
    with write_request(4) show ?thesis by (simp add: write_call_def conns_inv_finish_failed conns_inv_leave)
  qed
next
  case (answered w a cc k r now)
  have d: "conns_inv (emit (Returned a r) (drop_call a w))"
    by (rule conns_inv_fewer [OF answered(4)]) (auto simp: sta_world_ops split: if_splits)
  show ?case
  proof (cases r)
    case (Inl e)
    with d show ?thesis by (simp add: return_call_def conns_inv_finish_failed)
  next
    case (Inr m)
    show ?thesis
      unfolding return_call_def Let_def Inr sum.case
      by (rule conns_inv_proceed [OF d [unfolded Inr]]) (simp_all add: fitsD [OF fits_answer] no_watchdog)
  qed
next
  case (cancelled w a cc k why)
  thus ?case by (simp add: cancel_call_def conns_inv_finish_failed conns_inv_leave)
next
  case (dialed w b now localIP written bs)
  thus ?case by (rule conns_inv_connected [rotated])
next
  case (read_message w k msg rest ok)
  thus ?case by (elim conns_inv_fewer)
      (auto simp: readLoop_turn_def take_answer_def sta_client_ops Let_def split: option.splits if_splits)
next
  case (lost w k e)
  thus ?case
    using conns_invD [OF lost(3)]
    by (intro conns_inv_keep [OF lost(3)])
      (auto simp: conn_ok_def upd_def sta_client_ops Let_def split: if_splits)
next
  case (serving_ends w k)
  thus ?case
    using conns_invD [OF serving_ends(3)]
    by (intro conns_inv_keep [OF serving_ends(3)]) (auto simp: conn_ok_def upd_def sta_client_ops)
next
  case (start w)
  thus ?case
    using conns_invD [OF start]
    by (intro conns_inv_keep [OF start]) (auto simp: conn_ok_def Start_call_def sta_client_ops split: if_splits)
next
  case (stop w)
  thus ?case by (elim conns_inv_fewer) (auto simp: sta_client_ops Let_def split: option.splits if_splits)
next
  case (dial w b)
  thus ?case
    using conns_invD [OF dial(3)]
    by (intro conns_inv_keep [OF dial(3)]) (auto simp: conn_ok_def upd_def sta_client_ops)
next
  case (dial_failed w b why)
  thus ?case
    using conns_invD [OF dial_failed(2)]
    by (intro conns_inv_keep [OF dial_failed(2)]) (auto simp: conn_ok_def upd_def sta_client_ops)
next
  case (loop_ends w b)
  thus ?case
    using conns_invD [OF loop_ends(3)]
    by (intro conns_inv_keep [OF loop_ends(3)]) (auto simp: conn_ok_def)
qed (elim conns_inv_fewer; simp add: upd_def sta_client_ops)+

end
