(* ===== verification/StaTrack.thy ===== *)
theory StaTrack
  imports StaInv
begin

text \<open>
  No call of the STa client is lost: as long as fewer than 2^32 requests were made, hop-by-hop
  identifiers are distinct, a call that waits for its answer has its entry in the pending table, and
  its connection is being served unless the client was cancelled.
\<close>

section \<open>Hop-by-hop identifiers\<close>

definition numbered :: "u32 \<Rightarrow> sta_world \<Rightarrow> bool" where
  "numbered h w \<longleftrightarrow> cl_nextHop (sw_client w) = h + word_of_nat (sw_requests w)
     \<and> (\<forall>a cc. sw_calls w a = Some cc \<longrightarrow> (\<exists>j \<le> sw_requests w. hop_of cc = h + word_of_nat j))"

definition distinct_hops :: "sta_world \<Rightarrow> bool" where
  "distinct_hops w \<longleftrightarrow> (\<forall>a b c1 c2. sw_calls w a = Some c1 \<longrightarrow> sw_calls w b = Some c2 \<longrightarrow> a \<noteq> b \<longrightarrow> hop_of c1 \<noteq> hop_of c2)"

lemma distinct_hopsD:
  "distinct_hops w \<Longrightarrow> sw_calls w a = Some c1 \<Longrightarrow> sw_calls w b = Some c2 \<Longrightarrow> hop_of c1 = hop_of c2 \<Longrightarrow> a = b"
  unfolding distinct_hops_def by blast

definition same_hops :: "sta_world \<Rightarrow> sta_world \<Rightarrow> bool" where
  \<comment> \<open>no new call; stages may change\<close>
  "same_hops w w' \<longleftrightarrow> (\<forall>a cc'. sw_calls w' a = Some cc' \<longrightarrow> (\<exists>cc. sw_calls w a = Some cc \<and> hop_of cc' = hop_of cc))"

lemma distinct_hops_same: "distinct_hops w \<Longrightarrow> same_hops w w' \<Longrightarrow> distinct_hops w'"
  unfolding distinct_hops_def same_hops_def by metis

lemma numbered_same:
  "numbered h w \<Longrightarrow> same_hops w w' \<Longrightarrow> sw_requests w' = sw_requests w \<Longrightarrow>
   cl_nextHop (sw_client w') = cl_nextHop (sw_client w) \<Longrightarrow> numbered h w'"
  unfolding numbered_def same_hops_def by (metis (no_types, lifting))

lemma numbered_more:
  assumes "numbered h w" "sw_calls w' = sw_calls w" "sw_requests w' = sw_requests w + 1"
    "cl_nextHop (sw_client w') = cl_nextHop (sw_client w) + 1"
  shows "numbered h w'"
  using assms unfolding numbered_def by auto (meson le_SucI)

lemma new_hop_fresh:
  assumes "numbered h w" "sw_requests w + 1 < 2 ^ 32" "sw_calls w a = Some cc"
  shows "hop_of cc \<noteq> cl_nextHop (sw_client w) + 1"
proof
  obtain j where j: "j \<le> sw_requests w" "hop_of cc = h + word_of_nat j"
    using assms(1,3) unfolding numbered_def by blast
  assume "hop_of cc = cl_nextHop (sw_client w) + 1"
  with j assms(1) have "(word_of_nat j :: u32) = word_of_nat (sw_requests w + 1)"
    by (simp add: numbered_def ac_simps)
  hence "unat (word_of_nat j :: u32) = unat (word_of_nat (sw_requests w + 1) :: u32)" by (simp only:)
  with j(1) assms(2) show False by (simp add: unsigned_of_nat take_bit_nat_eq_self del: of_nat_Suc)
qed

lemma proceed_hops:
  assumes "numbered h w" "hop_next (fst r) (sw_client w) (snd r)"
  shows "numbered h (proceed r w)"
    and "distinct_hops w \<Longrightarrow> sw_requests (proceed r w) < 2 ^ 32 \<Longrightarrow> distinct_hops (proceed r w)"
proof -
  show "numbered h (proceed r w)"
  proof (cases "fst r")
    case (Finish out)
    with assms show ?thesis by (simp add: numbered_def hop_next_def)
  next
    case (SendNext msg fr)
    with assms show ?thesis
      by (auto simp: numbered_def hop_next_def new_call_def ac_simps)
        (metis le_refl of_nat_Suc | meson le_SucI)+
  qed
  assume d: "distinct_hops w" and n: "sw_requests (proceed r w) < 2 ^ 32"
  show "distinct_hops (proceed r w)"
  proof (cases "fst r")
    case (Finish out)
    with d show ?thesis by (simp add: distinct_hops_def)
  next
    case (SendNext msg fr)
    with n have "sw_requests w + 1 < 2 ^ 32" by simp
    from new_hop_fresh [OF assms(1) this] SendNext assms(2)
    have "hop_of cc \<noteq> hop_of (new_call msg fr)" if "sw_calls w a = Some cc" for a cc
      using that by (simp add: hop_next_def new_call_def)
    with SendNext d show ?thesis unfolding distinct_hops_def by (auto split: if_splits) metis+
  qed
qed

lemma finish_failed_nextHop [simp]: "cl_nextHop (sw_client (finish_failed fr e w)) = cl_nextHop (sw_client w)"
  by (rule finish_failed_fields)

lemma same_hops_simps:
  "sw_calls w' = sw_calls w \<Longrightarrow> same_hops w w'"
  "sw_calls w' = (sw_calls w)(a := None) \<Longrightarrow> same_hops w w'"
  "sw_calls w a = Some cc \<Longrightarrow> sw_calls w' = (sw_calls w)(a \<mapsto> cc\<lparr> ca_stage := st \<rparr>) \<Longrightarrow> same_hops w w'"
  by (auto simp: same_hops_def split: if_splits)

lemma hops_return:
  assumes "numbered h w"
  shows "numbered h (return_call a cc r now w)"
    and "distinct_hops w \<Longrightarrow> sw_requests (return_call a cc r now w) < 2 ^ 32 \<Longrightarrow> distinct_hops (return_call a cc r now w)"
proof -
  let ?w = "emit (Returned a r) (drop_call a w)"
  have same: "same_hops w ?w" by (rule same_hops_simps(2)) simp
  have n: "numbered h ?w" using numbered_same [OF assms same] by simp
  show "numbered h (return_call a cc r now w)"
  proof (cases r)
    case (Inl e)
    show ?thesis
      unfolding return_call_def Let_def Inl sum.case
      by (rule numbered_same [OF n [unfolded Inl]]) (simp_all add: same_hops_simps(1))
  next
    case (Inr m)
    show ?thesis
      using fits_answer unfolding return_call_def Let_def Inr sum.case fits_def
      by (intro proceed_hops(1) [OF n [unfolded Inr]]) simp
  qed
  assume "distinct_hops w" and req: "sw_requests (return_call a cc r now w) < 2 ^ 32"
  from distinct_hops_same [OF this(1) same] have d: "distinct_hops ?w" .
  show "distinct_hops (return_call a cc r now w)"
  proof (cases r)
    case (Inl e)
    show ?thesis
      unfolding return_call_def Let_def Inl sum.case
      by (rule distinct_hops_same [OF d [unfolded Inl]]) (simp add: same_hops_simps(1))
  next
    case (Inr m)
    show ?thesis
      using fits_answer req unfolding return_call_def Let_def Inr sum.case fits_def
      by (intro proceed_hops(2) [OF n [unfolded Inr] _ d [unfolded Inr]]) simp_all
  qed
qed

lemma requests_return: "sw_requests w \<le> sw_requests (return_call a cc r now w)"
  by (cases r) (simp_all add: return_call_def Let_def split: sta_next.split)

lemma connected_fields:
  "sw_calls (connected now localIP written bs w) = sw_calls w"
  "sw_requests (connected now localIP written bs w) = sw_requests w + 1"
  "cl_nextHop (sw_client (connected now localIP written bs w)) = cl_nextHop (sw_client w) + 1"
  "cl_pending (sw_client (connected now localIP written bs w)) = cl_pending (sw_client w)"
  "cl_chans (sw_client (connected now localIP written bs w)) = cl_chans (sw_client w)"
  "cl_done (sw_client (connected now localIP written bs w)) = cl_done (sw_client w)"
  by (simp_all add: connected_def handshake_def sta_client_ops Let_def case_prod_beta split: option.split)

lemma readLoop_fields:
  "sw_calls (readLoop_turn k msg ok w) = sw_calls w" "sw_requests (readLoop_turn k msg ok w) = sw_requests w"
  "sw_phase (readLoop_turn k msg ok w) = sw_phase w"
  "cl_nextHop (sw_client (readLoop_turn k msg ok w)) = cl_nextHop (sw_client w)"
  "cl_done (sw_client (readLoop_turn k msg ok w)) = cl_done (sw_client w)"
  by (simp_all add: readLoop_turn_def take_answer_def sta_client_ops Let_def split: option.split)

lemma quiet_calls_steps:
  "same_hops w (choose_call a cc w) \<or> sw_calls w a \<noteq> Some cc"
  "same_hops w (register_call a cc k w) \<or> sw_calls w a \<noteq> Some cc"
  "same_hops w (write_call a cc k failed w) \<or> sw_calls w a \<noteq> Some cc"
  "same_hops w (cancel_call a cc e w)"
  by (auto simp: choose_call_def register_call_def write_call_def cancel_call_def same_hops_def
      split: option.split if_splits)

lemma quiet_calls_counters:
  "sw_requests (choose_call a cc w) = sw_requests w" "sw_requests (register_call a cc k w) = sw_requests w"
  "sw_requests (write_call a cc k failed w) = sw_requests w" "sw_requests (cancel_call a cc e w) = sw_requests w"
  "cl_nextHop (sw_client (choose_call a cc w)) = cl_nextHop (sw_client w)"
  "cl_nextHop (sw_client (register_call a cc k w)) = cl_nextHop (sw_client w)"
  "cl_nextHop (sw_client (write_call a cc k failed w)) = cl_nextHop (sw_client w)"
  "cl_nextHop (sw_client (cancel_call a cc e w)) = cl_nextHop (sw_client w)"
  by (simp_all add: choose_call_def register_call_def write_call_def cancel_call_def unregister_def split: option.split)

lemma hops_step:
  assumes "sta_step w w'" "numbered h w"
  shows "numbered h w' \<and> (distinct_hops w \<longrightarrow> sw_requests w' < 2 ^ 32 \<longrightarrow> distinct_hops w')
    \<and> sw_requests w \<le> sw_requests w'"
  using assms
proof (induction rule: sta_step.induct)
  case (authenticate w r now selected)
  thus ?case using fits_Authenticate [of "sw_client w" r now selected] proceed_hops [of h w]
    by (simp add: fits_def split: sta_next.split)
next
  case (exchange_eap w q now selected)
  thus ?case using fits_Exchange [of "sw_client w" q now selected] proceed_hops [of h w]
    by (simp add: fits_def split: sta_next.split)
next
  case (watchdog w k)
  thus ?case using fits_Watchdog [of "sw_client w" k] proceed_hops [of h w]
    by (simp add: fits_def split: sta_next.split)
next
  case (answered w a cc k r now)
  thus ?case using hops_return [of h w a cc r now] requests_return [of w a cc r now] by blast
next
  case (dialed w b now localIP written bs)
  thus ?case
    using numbered_more [of h w "connected now localIP written bs w"] distinct_hops_same same_hops_simps(1)
    by (simp add: connected_fields)
next
  case (choose_conn w a cc)
  thus ?case using quiet_calls_steps(1) [of w a cc] distinct_hops_same
    by (auto simp: quiet_calls_counters intro: numbered_same)
next
  case (register w a cc k)
  thus ?case using quiet_calls_steps(2) [of w a cc k] distinct_hops_same
    by (auto simp: quiet_calls_counters intro: numbered_same)
next
  case (write_request w a cc k failed)
  thus ?case using quiet_calls_steps(3) [of w a cc k failed] distinct_hops_same
    by (auto simp: quiet_calls_counters intro: numbered_same)
next
  case (cancelled w a cc k why)
  thus ?case using quiet_calls_steps(4) distinct_hops_same
    by (auto simp: quiet_calls_counters intro: numbered_same)
next
  case (read_message w k msg rest ok)
  have "same_hops w (readLoop_turn k msg ok (w\<lparr> sw_in := rest \<rparr>))"
    by (rule same_hops_simps(1)) (simp add: readLoop_fields)
  with read_message show ?case using distinct_hops_same
    by (auto simp: readLoop_fields intro: numbered_same)
next
  case (start w)
  have "same_hops w (Start_call w)" by (rule same_hops_simps(1)) (simp add: Start_call_def)
  with start show ?case using distinct_hops_same
    by (auto simp: Start_call_def sta_client_ops intro: numbered_same)
qed (auto simp: sta_client_ops Let_def same_hops_simps(1) intro: numbered_same distinct_hops_same
    split: option.split)

section \<open>Waiting calls\<close>

definition tracked :: "sta_world \<Rightarrow> bool" where
  "tracked w \<longleftrightarrow> (\<forall>a cc. sw_calls w a = Some cc \<longrightarrow> cl_chans (sw_client w) a = None \<longrightarrow>
     (tabled (ca_stage cc) \<longrightarrow> cl_pending (sw_client w) (hop_of cc) = Some a)
     \<and> (\<forall>k. ca_stage cc = Sent k \<longrightarrow> sw_phase w = Serving k \<or> cl_done (sw_client w)))"

lemma trackedD:
  assumes "tracked w" "sw_calls w a = Some cc" "cl_chans (sw_client w) a = None"
  shows "tabled (ca_stage cc) \<Longrightarrow> cl_pending (sw_client w) (hop_of cc) = Some a"
    and "ca_stage cc = Sent k \<Longrightarrow> sw_phase w = Serving k \<or> cl_done (sw_client w)"
  using assms unfolding tracked_def by blast+

lemma tracked_keep:
  assumes t: "tracked w"
    and calls: "\<And>a cc. sw_calls w' a = Some cc \<Longrightarrow> sw_calls w a = Some cc"
    and chans: "\<And>a cc. sw_calls w' a = Some cc \<Longrightarrow> cl_chans (sw_client w') a = None \<Longrightarrow> tabled (ca_stage cc) \<Longrightarrow>
      cl_chans (sw_client w) a = None
      \<and> (cl_pending (sw_client w) (hop_of cc) = Some a \<longrightarrow> cl_pending (sw_client w') (hop_of cc) = Some a)"
    and phase: "\<And>k. sw_phase w = Serving k \<Longrightarrow> sw_phase w' = Serving k \<or> cl_done (sw_client w')"
    and dn: "cl_done (sw_client w) \<Longrightarrow> cl_done (sw_client w')"
  shows "tracked w'"
  unfolding tracked_def
proof (intro allI impI conjI)
  fix a cc assume cc: "sw_calls w' a = Some cc" and n: "cl_chans (sw_client w') a = None"
  show "cl_pending (sw_client w') (hop_of cc) = Some a" if "tabled (ca_stage cc)"
    using trackedD(1) [OF t calls [OF cc]] chans [OF cc n that] that by simp
  show "sw_phase w' = Serving k \<or> cl_done (sw_client w')" if k: "ca_stage cc = Sent k" for k
    using trackedD(2) [OF t calls [OF cc] _ k] chans [OF cc n] phase dn k by auto
qed

lemma tracked_same:
  assumes "tracked w" "\<And>a cc. sw_calls w' a = Some cc \<Longrightarrow> sw_calls w a = Some cc"
    "cl_pending (sw_client w') = cl_pending (sw_client w)" "cl_chans (sw_client w') = cl_chans (sw_client w)"
    "\<And>k. sw_phase w = Serving k \<Longrightarrow> sw_phase w' = Serving k \<or> cl_done (sw_client w')"
    "cl_done (sw_client w) \<Longrightarrow> cl_done (sw_client w')"
  shows "tracked w'"
  by (rule tracked_keep [OF assms(1,2)]) (simp_all add: assms(3-6))

lemma tracked_stage:
  assumes t: "tracked w" and cc: "sw_calls w a = Some cc"
    and w': "sw_calls w' = (sw_calls w)(a \<mapsto> cc\<lparr> ca_stage := st \<rparr>)" "cl_chans (sw_client w') = cl_chans (sw_client w)"
      "sw_phase w' = sw_phase w" "cl_done (sw_client w') = cl_done (sw_client w)"
    and others: "\<And>b c1. sw_calls w b = Some c1 \<Longrightarrow> b \<noteq> a \<Longrightarrow>
      cl_pending (sw_client w') (hop_of c1) = cl_pending (sw_client w) (hop_of c1)"
    and own: "cl_chans (sw_client w) a = None \<Longrightarrow> tabled st \<Longrightarrow> cl_pending (sw_client w') (hop_of cc) = Some a"
    and sent: "\<And>k. st = Sent k \<Longrightarrow> sw_phase w = Serving k \<or> cl_done (sw_client w)"
  shows "tracked w'"
  unfolding tracked_def
proof (intro allI impI)
  fix b c1 assume b: "sw_calls w' b = Some c1" "cl_chans (sw_client w') b = None"
  show "(tabled (ca_stage c1) \<longrightarrow> cl_pending (sw_client w') (hop_of c1) = Some b)
     \<and> (\<forall>k. ca_stage c1 = Sent k \<longrightarrow> sw_phase w' = Serving k \<or> cl_done (sw_client w'))"
  proof (cases "b = a")
    case True
    with b own sent show ?thesis unfolding w' by auto
  next
    case False
    with b have "sw_calls w b = Some c1" "cl_chans (sw_client w) b = None" unfolding w' by simp_all
    with trackedD [OF t this] others [OF this(1) False] show ?thesis unfolding w' by auto
  qed
qed

lemma tracked_proceed:
  assumes "tracked w" "quiet_client (sw_client w) (snd r)" shows "tracked (proceed r w)"
proof (cases "fst r")
  case (Finish out)
  with assms show ?thesis by (intro tracked_same [OF assms(1)]) (auto simp: quiet_client_def)
next
  case (SendNext msg fr)
  have "ca_stage (new_call msg fr) \<noteq> Sent k" for k by (simp add: new_call_def split: sta_frame.split)
  with SendNext assms show ?thesis
    unfolding tracked_def by (auto simp: quiet_client_def new_call_stage)
qed

lemma tracked_finish_failed: "tracked w \<Longrightarrow> tracked (finish_failed fr e w)"
  by (erule tracked_same) simp_all

lemma tracked_leave:
  assumes "tracked w" "distinct_hops w" "sw_calls w a = Some cc"
  shows "tracked (drop_call a (upd (unregister (hop_of cc)) w))"
  using distinct_hopsD [OF assms(2) assms(3)]
  by (intro tracked_keep [OF assms(1)]) (auto simp: unregister_def split: if_splits)

lemma tracked_all_failed:
  \<comment> \<open>after \<open>failPendingLocked\<close> no call waits for an entry\<close>
  assumes "tracked w" "sw_calls w' = sw_calls w"
    and "cl_pending c1 = cl_pending (sw_client w)" "cl_chans c1 = cl_chans (sw_client w)"
    and "sw_client w' = failPendingLocked e c1"
  shows "tracked w'" and "sw_calls w' a = Some cc \<Longrightarrow> tabled (ca_stage cc) \<Longrightarrow> cl_chans (sw_client w') a \<noteq> None"
proof -
  show answered: "cl_chans (sw_client w') a \<noteq> None" if "sw_calls w' a = Some cc" "tabled (ca_stage cc)" for a cc
  proof
    assume n: "cl_chans (sw_client w') a = None"
    hence "cl_chans (sw_client w) a = None" "a \<notin> ran (cl_pending (sw_client w))"
      using assms by (auto simp: failPendingLocked_def split: if_splits)
    with trackedD(1) [OF assms(1)] that assms(2) show False by (auto simp: ran_def)
  qed
  show "tracked w'"
    unfolding tracked_def
  proof (intro allI impI)
    fix a cc assume cc: "sw_calls w' a = Some cc" and n: "cl_chans (sw_client w') a = None"
    have "\<not> tabled (ca_stage cc)"
    proof
      assume "tabled (ca_stage cc)"
      from answered [OF cc this] n show False by contradiction
    qed
    thus "(tabled (ca_stage cc) \<longrightarrow> cl_pending (sw_client w') (hop_of cc) = Some a)
        \<and> (\<forall>k. ca_stage cc = Sent k \<longrightarrow> sw_phase w' = Serving k \<or> cl_done (sw_client w'))"
      by (cases "ca_stage cc") simp_all
  qed
qed

lemma tracked_step:
  assumes "sta_step w w'" "tracked w" "distinct_hops w" "calls_inv w" "conns_inv w"
  shows "tracked w'"
  using assms
proof (induction rule: sta_step.induct)
  case (authenticate w r now selected)
  thus ?case by (intro tracked_proceed) (simp_all add: fitsD [OF fits_Authenticate])
next
  case (exchange_eap w q now selected)
  thus ?case by (intro tracked_proceed) (simp_all add: fitsD [OF fits_Exchange])
next
  case (watchdog w k)
  thus ?case by (intro tracked_proceed) (simp_all add: fitsD [OF fits_Watchdog])
next
  case (choose_conn w a cc)
  show ?case
  proof (cases "cl_conn (sw_client w)")
    case None
    have "tracked (drop_call a w)" by (rule tracked_same [OF choose_conn(3)]) (auto split: if_splits)
    with None show ?thesis by (simp add: choose_call_def tracked_finish_failed)
  next
    case (Some k)
    thus ?thesis by (intro tracked_stage [OF choose_conn(3,1), of _ "Chosen k"]) (simp_all add: choose_call_def)
  qed
next
  case (register w a cc k)
  have "hop_of c1 \<noteq> hop_of cc" if "sw_calls w b = Some c1" "b \<noteq> a" for b c1
    using distinct_hopsD [OF register(4) that(1) register(1)] that(2) by blast
  thus ?case by (intro tracked_stage [OF register(3,1), of _ "InTable k"]) (simp_all add: register_call_def)
next
  case (write_request w a cc k failed)
  show ?case
  proof (cases failed)
    case None
    hence "sw_phase w = Serving k"
      using write_request conns_invD(1) [OF write_request(7,1), of k] by (simp add: conn_ok_def)
    moreover have "cl_chans (sw_client w) a = None \<Longrightarrow> cl_pending (sw_client w) (hop_of cc) = Some a"
      using trackedD(1) [OF write_request(4,1)] write_request(2) by simp
    ultimately show ?thesis
      using None by (intro tracked_stage [OF write_request(4,1), of _ "Sent k"]) (simp_all add: write_call_def)
  next
    case (Some e)
    with write_request show ?thesis by (simp add: write_call_def tracked_finish_failed tracked_leave)
  qed
next
  case (answered w a cc k r now)
  have d: "tracked (emit (Returned a r) (drop_call a w))"
    by (rule tracked_same [OF answered(4)]) (auto split: if_splits)
  show ?case
  proof (cases r)
    case (Inl e)
    with d show ?thesis by (simp add: return_call_def tracked_finish_failed)
  next
    case (Inr m)
    show ?thesis
      unfolding return_call_def Let_def Inr sum.case
      by (rule tracked_proceed [OF d [unfolded Inr]]) (simp add: fitsD [OF fits_answer])
  qed
next
  case (cancelled w a cc k why)
  thus ?case by (simp add: cancel_call_def tracked_finish_failed tracked_leave)
next
  case (dialed w b now localIP written bs)
  thus ?case by (intro tracked_same [OF dialed(2)]) (simp_all add: connected_fields)
next
  case (read_message w k msg rest ok)
  let ?w = "readLoop_turn k msg ok (w\<lparr> sw_in := rest \<rparr>)"
  show ?case
  proof (rule tracked_keep [OF read_message(3)])
    fix a cc assume cc: "sw_calls ?w a = Some cc" and n: "cl_chans (sw_client ?w) a = None"
    show "cl_chans (sw_client w) a = None
      \<and> (cl_pending (sw_client w) (hop_of cc) = Some a \<longrightarrow> cl_pending (sw_client ?w) (hop_of cc) = Some a)"
      using n by (auto simp: readLoop_turn_def take_answer_def sta_client_ops Let_def split: if_splits option.splits)
  qed (simp_all add: readLoop_fields)
next
  case (lost w k e)
  thus ?case
    by (intro tracked_all_failed(1) [OF lost(3), of _ "setStatus ''disconnected'' (Some e) False
        (let c1 = close_conn k (sw_client w) in if cl_conn c1 = Some k then c1\<lparr> cl_conn := None \<rparr> else c1)" e])
      (simp_all add: conn_lost_def Let_def sta_client_ops)
next
  case (stop w)
  let ?d = "if cl_started (sw_client w) then (sw_client w)\<lparr> cl_done := True \<rparr> else sw_client w"
  show ?case
    by (rule tracked_all_failed(1) [OF stop(1), of _ "on_status (\<lambda>s. s\<lparr> ss_State := ''stopped'' \<rparr>)
        (case cl_conn ?d of Some k \<Rightarrow> close_conn k ?d | None \<Rightarrow> ?d)" StaClientStopped])
      (simp_all add: Stop_def Let_def on_status_def close_conn_def split: option.split)
next
  case (start w)
  thus ?case
    using conns_invD(3) [OF start(4)]
    by (intro tracked_same [OF start(1)]) (auto simp: Start_call_def sta_client_ops split: if_splits)
qed (erule tracked_same; simp add: sta_client_ops)+

lemma sta_tracked:
  assumes "sta_reachable c0 w" "cl_pending c0 = Map.empty" "cl_chans c0 = Map.empty" "cl_conn c0 = None"
  shows "calls_inv w \<and> conns_inv w \<and> numbered (cl_nextHop c0) w
    \<and> (sw_requests w < 2 ^ 32 \<longrightarrow> distinct_hops w \<and> tracked w)"
  using assms
proof (induction rule: sta_reachable.induct)
  case init
  thus ?case
    by (simp add: sta_world0_def calls_inv_def conns_inv_def numbered_def distinct_hops_def tracked_def)
next
  case (step w w')
  have "sw_requests w' < 2 ^ 32 \<Longrightarrow> sw_requests w < 2 ^ 32" using hops_step [OF step(2)] step by fastforce
  with step show ?case
    using calls_inv_step [OF step(2)] conns_inv_step [OF step(2)] hops_step [OF step(2)] tracked_step [OF step(2)]
    by blast
qed

end
