(* ===== verification/StaProps.thy ===== *)
theory StaProps
  imports StaTrack
begin

text \<open>
  What the STa client guarantees to the lifecycle service: the result of an EAP exchange is made
  from the AAA server's answer to the very request of that exchange, and success and key material
  mean that the server sent them; and no waiting call is lost.
\<close>

section \<open>Where results come from\<close>

definition answered_by :: "sta_event list \<Rightarrow> nat \<Rightarrow> message \<Rightarrow> message \<Rightarrow> bool" where
  \<comment> \<open>after the request was registered, the client read an answer with its hop-by-hop identifier\<close>
  "answered_by tr a r m \<longleftrightarrow> (\<exists>t1 t2 t3 k. tr = t1 @ Registered a r # t2 @ ReadMessage k m # t3)
     \<and> d_HopByHop m = d_HopByHop r \<and> \<not> isRequest m"

definition der_for :: "sta_config \<Rightarrow> sta_eap_request \<Rightarrow> string \<Rightarrow> message \<Rightarrow> bool" where
  \<comment> \<open>the Diameter-EAP-Request of an exchange\<close>
  "der_for cfg q sid r \<longleftrightarrow> d_CommandCode r = commandDER
     \<and> d_AVPs r = der_avps cfg sid (if te_IMSI q = [] then te_Username q else te_IMSI q) (te_APN q) (te_EAPPayload q)"

definition genuine :: "sta_config \<Rightarrow> sta_event list \<Rightarrow> sta_eap_result \<Rightarrow> bool" where
  "genuine cfg tr res \<longleftrightarrow> (\<exists>q sid a r m. res = eapExchangeResult q sid m \<and> answered_by tr a r m \<and> der_for cfg q sid r)"

lemma answered_by_append: "answered_by tr a r m \<Longrightarrow> answered_by (tr @ xs) a r m"
  unfolding answered_by_def by fastforce

lemma genuine_append: "genuine cfg tr res \<Longrightarrow> genuine cfg (tr @ xs) res"
  unfolding genuine_def using answered_by_append by blast

lemma answered_by_read:
  assumes "Registered a r \<in> set tr" "d_HopByHop m = d_HopByHop r" "\<not> isRequest m"
  shows "answered_by (tr @ [ReadMessage k m]) a r m"
proof -
  obtain t1 t2 where "tr = t1 @ Registered a r # t2" using split_list [OF assms(1)] by blast
  hence "tr @ [ReadMessage k m] = t1 @ Registered a r # t2 @ ReadMessage k m # []" by simp
  with assms(2,3) show ?thesis unfolding answered_by_def by blast
qed

definition trace_inv :: "sta_config \<Rightarrow> sta_world \<Rightarrow> bool" where
  "trace_inv cfg w \<longleftrightarrow> cl_cfg (sw_client w) = cfg
     \<and> (\<forall>a cc. sw_calls w a = Some cc \<longrightarrow>
          (tabled (ca_stage cc) \<longrightarrow> Registered a (ca_request cc) \<in> set (sw_trace w))
          \<and> (\<forall>m. cl_chans (sw_client w) a = Some (Inr m) \<longrightarrow> answered_by (sw_trace w) a (ca_request cc) m)
          \<and> (\<forall>q sid. ca_frame cc = EAPFrame q sid \<longrightarrow> der_for cfg q sid (ca_request cc)))
     \<and> (\<forall>res. Completed (EAPOutcome (Inr res)) \<in> set (sw_trace w) \<longrightarrow> genuine cfg (sw_trace w) res)"

lemma trace_invD:
  assumes "trace_inv cfg w"
  shows "cl_cfg (sw_client w) = cfg"
    and "sw_calls w a = Some cc \<Longrightarrow> tabled (ca_stage cc) \<Longrightarrow> Registered a (ca_request cc) \<in> set (sw_trace w)"
    and "sw_calls w a = Some cc \<Longrightarrow> cl_chans (sw_client w) a = Some (Inr m) \<Longrightarrow> answered_by (sw_trace w) a (ca_request cc) m"
    and "sw_calls w a = Some cc \<Longrightarrow> ca_frame cc = EAPFrame q sid \<Longrightarrow> der_for cfg q sid (ca_request cc)"
    and "Completed (EAPOutcome (Inr res)) \<in> set (sw_trace w) \<Longrightarrow> genuine cfg (sw_trace w) res"
  using assms unfolding trace_inv_def by blast+

lemma trace_keep:
  assumes inv: "trace_inv cfg w" and tr: "sw_trace w' = sw_trace w @ xs"
    and cfg: "cl_cfg (sw_client w') = cl_cfg (sw_client w)"
    and comp: "\<And>res. Completed (EAPOutcome (Inr res)) \<in> set xs \<Longrightarrow> genuine cfg (sw_trace w) res"
    and calls: "\<And>a c'. sw_calls w' a = Some c' \<Longrightarrow> \<exists>cc. sw_calls w a = Some cc \<and> ca_request c' = ca_request cc
      \<and> ca_frame c' = ca_frame cc \<and> (tabled (ca_stage c') \<longrightarrow> tabled (ca_stage cc) \<or> Registered a (ca_request cc) \<in> set xs)"
    and chans: "\<And>a cc m. sw_calls w a = Some cc \<Longrightarrow> cl_chans (sw_client w') a = Some (Inr m) \<Longrightarrow>
      cl_chans (sw_client w) a = Some (Inr m) \<or> answered_by (sw_trace w') a (ca_request cc) m"
  shows "trace_inv cfg w'"
  unfolding trace_inv_def
proof (intro conjI allI impI)
  show "cl_cfg (sw_client w') = cfg" using cfg trace_invD(1) [OF inv] by simp
next
  fix a c' assume "sw_calls w' a = Some c'"
  from calls [OF this] obtain cc where cc: "sw_calls w a = Some cc" "ca_request c' = ca_request cc"
      "ca_frame c' = ca_frame cc" "tabled (ca_stage c') \<Longrightarrow> tabled (ca_stage cc) \<or> Registered a (ca_request cc) \<in> set xs"
    by blast
  show "Registered a (ca_request c') \<in> set (sw_trace w')" if "tabled (ca_stage c')"
    using cc(4) [OF that] trace_invD(2) [OF inv cc(1)] by (auto simp: cc(2) tr)
  show "answered_by (sw_trace w') a (ca_request c') m" if "cl_chans (sw_client w') a = Some (Inr m)" for m
    using chans [OF cc(1) that] trace_invD(3) [OF inv cc(1)] answered_by_append unfolding cc(2) tr by metis
  show "der_for cfg q sid (ca_request c')" if "ca_frame c' = EAPFrame q sid" for q sid
    using trace_invD(4) [OF inv cc(1)] that cc(2,3) by simp
next
  fix res assume "Completed (EAPOutcome (Inr res)) \<in> set (sw_trace w')"
  thus "genuine cfg (sw_trace w') res"
    using comp trace_invD(5) [OF inv] genuine_append by (auto simp: tr)
qed

lemma trace_same:
  assumes "trace_inv cfg w" "sw_trace w' = sw_trace w" "cl_cfg (sw_client w') = cl_cfg (sw_client w)"
    and "\<And>a cc. sw_calls w' a = Some cc \<Longrightarrow> sw_calls w a = Some cc"
    and "\<And>a m. cl_chans (sw_client w') a = Some (Inr m) \<Longrightarrow> cl_chans (sw_client w) a = Some (Inr m)"
  shows "trace_inv cfg w'"
  by (rule trace_keep [OF assms(1), of w' "[]"]) (use assms(2-5) in auto)

lemma trace_proceed:
  assumes inv: "trace_inv cfg w" and q: "quiet_client (sw_client w) (snd r)" and ci: "calls_inv w"
    and ok: "next_ok (fst r) cfg \<or> (\<exists>res. fst r = Finish (EAPOutcome (Inr res)) \<and> genuine cfg (sw_trace w) res)"
  shows "trace_inv cfg (proceed r w)"
proof (cases "fst r")
  case (Finish out)
  with q ok show ?thesis
    by (intro trace_keep [OF inv, of _ "[Completed out]"]) (auto simp: quiet_client_def next_ok_def)
next
  case (SendNext msg fr)
  have "der_for cfg q sid msg" if "fr = EAPFrame q sid" for q sid
    using ok SendNext that by (simp add: next_ok_def der_for_def)
  with SendNext q no_channel_yet [OF ci] inv show ?thesis
    by (auto simp: trace_inv_def quiet_client_def new_call_def split: sta_frame.splits)
qed

lemma trace_finish_failed:
  assumes "trace_inv cfg w" shows "trace_inv cfg (finish_failed fr e w)"
proof -
  have "sw_trace (finish_failed fr e w) = sw_trace w @ [Completed (fst (fail_call fr e (sw_client w)))]"
    by (simp add: finish_failed_def case_prod_beta)
  moreover have "EAPOutcome (Inr res) \<noteq> fst (fail_call fr e (sw_client w))" for res
    by (simp add: fail_call_def split: sta_frame.split)
  ultimately show ?thesis by (intro trace_keep [OF assms]) auto
qed

lemma trace_stage:
  assumes "trace_inv cfg w" "sw_calls w a = Some cc"
    and "sw_calls w' = (sw_calls w)(a \<mapsto> cc\<lparr> ca_stage := st \<rparr>)" "sw_trace w' = sw_trace w @ xs"
    and "cl_chans (sw_client w') = cl_chans (sw_client w)" "cl_cfg (sw_client w') = cl_cfg (sw_client w)"
    and "\<And>out. Completed out \<notin> set xs" "tabled st \<Longrightarrow> tabled (ca_stage cc) \<or> Registered a (ca_request cc) \<in> set xs"
  shows "trace_inv cfg w'"
  by (rule trace_keep [OF assms(1,4,6)]) (use assms(2,3,5,7,8) in \<open>auto split: if_splits\<close>)

lemma trace_read:
  assumes inv: "trace_inv cfg w" and ci: "calls_inv w"
  shows "trace_inv cfg (readLoop_turn k msg ok w)"
proof (cases "isRequest msg")
  case True
  have "\<exists>xs. sw_trace (take_request k msg ok w') = sw_trace w' @ xs \<and> (\<forall>out. Completed out \<notin> set xs)" for w'
    by (auto simp: take_request_def Let_def split: prod.split option.split)
  from this [of "emit (ReadMessage k msg) w"] obtain xs
    where "sw_trace (take_request k msg ok (emit (ReadMessage k msg) w)) = (sw_trace w @ [ReadMessage k msg]) @ xs"
      and "\<And>out. Completed out \<notin> set xs" by auto
  moreover have "readLoop_turn k msg ok w = take_request k msg ok (emit (ReadMessage k msg) w)"
    using True by (simp add: readLoop_turn_def Let_def)
  ultimately have "sw_trace (readLoop_turn k msg ok w) = sw_trace w @ ReadMessage k msg # xs"
      "\<And>out. Completed out \<notin> set xs" by simp_all
  with True show ?thesis
    by (intro trace_keep [OF inv, of _ "ReadMessage k msg # xs"]) (auto simp: readLoop_turn_def Let_def)
next
  case False
  have tr: "sw_trace (readLoop_turn k msg ok w) = sw_trace w @ [ReadMessage k msg]"
    using False by (simp add: readLoop_turn_def Let_def)
  show ?thesis
  proof (rule trace_keep [OF inv tr])
    fix a cc m
    assume cc: "sw_calls w a = Some cc" and m: "cl_chans (sw_client (readLoop_turn k msg ok w)) a = Some (Inr m)"
    show "cl_chans (sw_client w) a = Some (Inr m)
        \<or> answered_by (sw_trace (readLoop_turn k msg ok w)) a (ca_request cc) m"
    proof (cases "cl_pending (sw_client w) (d_HopByHop msg) = Some a")
      case True
      with m False have "m = msg" by (simp add: readLoop_turn_def take_answer_def deliver_def Let_def)
      moreover have "hop_of cc = d_HopByHop msg" "tabled (ca_stage cc)"
        using calls_invD(5) [OF ci True] cc by auto
      ultimately show ?thesis
        using answered_by_read trace_invD(2) [OF inv cc] False by (simp add: tr)
    next
      case other: False
      with m False show ?thesis
        by (auto simp: readLoop_turn_def take_answer_def deliver_def unregister_def Let_def
            split: option.splits if_splits)
    qed
  qed (use False in \<open>auto simp: readLoop_turn_def take_answer_def sta_client_ops Let_def split: option.split\<close>)
qed

lemma trace_inv_step:
  assumes "sta_step w w'" "trace_inv cfg w" "calls_inv w" shows "trace_inv cfg w'"
  using assms
proof (induction rule: sta_step.induct)
  case (authenticate w r now selected)
  thus ?case using next_ok_Authenticate [of r now selected "sw_client w"] trace_invD(1)
    by (intro trace_proceed) (simp_all add: fitsD [OF fits_Authenticate])
next
  case (exchange_eap w q now selected)
  thus ?case using next_ok_Exchange [of q now selected "sw_client w"] trace_invD(1)
    by (intro trace_proceed) (simp_all add: fitsD [OF fits_Exchange])
next
  case (watchdog w k)
  thus ?case using next_ok_Watchdog [of k "sw_client w"] trace_invD(1)
    by (intro trace_proceed) (simp_all add: fitsD [OF fits_Watchdog])
next
  case (choose_conn w a cc)
  show ?case
  proof (cases "cl_conn (sw_client w)")
    case None
    have "trace_inv cfg (drop_call a w)" by (rule trace_same [OF choose_conn(3)]) (auto split: if_splits)
    with None show ?thesis by (simp add: choose_call_def trace_finish_failed)
  next
    case (Some k)
    thus ?thesis
      by (intro trace_stage [OF choose_conn(3,1), of _ "Chosen k" "[]"]) (simp_all add: choose_call_def)
  qed
next
  case (register w a cc k)
  show ?case
    by (rule trace_stage [OF register(3,1), of _ "InTable k" "[Registered a (ca_request cc)]"])
      (simp_all add: register_call_def)
next
  case (write_request w a cc k failed)
  show ?case
  proof (cases failed)
    case None
    with write_request(2) show ?thesis
      by (intro trace_stage [OF write_request(4,1), of _ "Sent k" "[Written k (ca_request cc)]"])
        (simp_all add: write_call_def)
  next
    case (Some e)
    have "trace_inv cfg (drop_call a (upd (unregister (hop_of cc)) w))"
      by (rule trace_same [OF write_request(4)]) (auto simp: unregister_def split: if_splits)
    with Some show ?thesis by (simp add: write_call_def trace_finish_failed)
  qed
next
  case (cancelled w a cc k why)
  have "trace_inv cfg (drop_call a (upd (unregister (hop_of cc)) w))"
    by (rule trace_same [OF cancelled(3)]) (auto simp: unregister_def split: if_splits)
  thus ?case by (simp add: cancel_call_def trace_finish_failed)
next
  case (answered w a cc k r now)
  have d: "trace_inv cfg (emit (Returned a r) (drop_call a w))"
    by (rule trace_keep [OF answered(4)]) (auto split: if_splits)
  have ci: "calls_inv (emit (Returned a r) (drop_call a w))"
    using calls_invD(4) [OF answered(5)] answered(3)
    by (intro calls_inv_quiet [OF calls_inv_drop [OF answered(5), of a]]) auto
  show ?case
  proof (cases r)
    case (Inl e)
    with d show ?thesis by (simp add: return_call_def trace_finish_failed)
  next
    case (Inr m)
    have ab: "answered_by (sw_trace w) a (ca_request cc) m"
      using trace_invD(3) [OF answered(4,1)] answered(3) Inr by simp
    have "next_ok (fst (answer_call (ca_frame cc) m now (sw_client w))) cfg
        \<or> (\<exists>res. fst (answer_call (ca_frame cc) m now (sw_client w)) = Finish (EAPOutcome (Inr res))
              \<and> genuine cfg (sw_trace w) res)"
      using next_ok_answer [of "ca_frame cc" m now "sw_client w"] trace_invD(1) [OF answered(4)]
        trace_invD(4) [OF answered(4,1)] ab unfolding genuine_def by metis
    hence ok: "next_ok (fst (answer_call (ca_frame cc) m now (sw_client w))) cfg
        \<or> (\<exists>res. fst (answer_call (ca_frame cc) m now (sw_client w)) = Finish (EAPOutcome (Inr res))
              \<and> genuine cfg (sw_trace (emit (Returned a r) (drop_call a w))) res)"
      using genuine_append by auto
    show ?thesis
      unfolding return_call_def Let_def Inr sum.case
      by (rule trace_proceed [OF d [unfolded Inr] _ ci [unfolded Inr] ok [unfolded Inr]])
        (simp add: fitsD [OF fits_answer])
  qed
next
  case (read_message w k msg rest ok)
  have "trace_inv cfg (w\<lparr> sw_in := rest \<rparr>)" by (rule trace_same [OF read_message(3)]) simp_all
  moreover have "calls_inv (w\<lparr> sw_in := rest \<rparr>)" by (rule calls_inv_quiet [OF read_message(4)]) simp_all
  ultimately show ?case by (rule trace_read)
next
  case (dialed w b now localIP written bs)
  have "\<exists>xs. sw_trace (connected now localIP written bs w) = sw_trace w @ xs \<and> (\<forall>out. Completed out \<notin> set xs)"
    by (auto simp: connected_def Let_def case_prod_beta split: option.split)
  moreover have "cl_cfg (sw_client (connected now localIP written bs w)) = cl_cfg (sw_client w)"
    by (simp add: connected_def handshake_def sta_client_ops Let_def case_prod_beta split: option.split)
  ultimately show ?case
    by (elim exE conjE, intro trace_keep [OF dialed(2)]) (auto simp: connected_fields)
next
  case (stop w)
  show ?case by (rule trace_same [OF stop(1)])
      (auto simp: Stop_def Let_def failPendingLocked_def on_status_def close_conn_def split: option.splits if_splits)
next
  case (start w)
  show ?case by (rule trace_same [OF start(1)]) (auto simp: Start_call_def sta_client_ops split: if_splits)
qed (erule trace_same; auto simp: sta_client_ops Let_def split: if_splits)+

lemma sta_inv:
  assumes "sta_reachable (NewSTaClient cfg now) w"
  shows "calls_inv w" "conns_inv w" "trace_inv cfg w" "sw_requests w < 2 ^ 32 \<Longrightarrow> tracked w"
proof -
  have c0: "cl_pending (NewSTaClient cfg now) = Map.empty" "cl_chans (NewSTaClient cfg now) = Map.empty"
      "cl_conn (NewSTaClient cfg now) = None" "cl_cfg (NewSTaClient cfg now) = cfg"
    by (simp_all add: NewSTaClient_def)
  from sta_tracked [OF assms c0(1-3)]
  show "calls_inv w" "conns_inv w" "sw_requests w < 2 ^ 32 \<Longrightarrow> tracked w" by blast+
  from assms show "trace_inv cfg w"
  proof (induction rule: sta_reachable.induct)
    case init
    show ?case using c0 by (simp add: trace_inv_def sta_world0_def)
  next
    case (step w w')
    thus ?case using sta_tracked [OF step(1) c0(1-3)] by (blast intro: trace_inv_step)
  qed
qed

section \<open>Properties\<close>

definition server_accepted :: "message \<Rightarrow> bool" where
  \<comment> \<open>the AAA server reports success, and does not contradict itself in the EAP payload\<close>
  "server_accepted m \<longleftrightarrow> answer_code m \<in> {2001, 2002}
     \<and> (case findAVP (d_AVPs m) avpEAPPayload 0 of None \<Rightarrow> True | Some p \<Rightarrow> ew_State (parseEAPResult (v_Data p)) = EapSuccess)"

lemma eapExchangeResult_facts:
  "ts_Allowed (eapExchangeResult q sid m) \<longleftrightarrow> server_accepted m"
  "ts_MSK (eapExchangeResult q sid m) \<noteq> [] \<Longrightarrow> server_accepted m
     \<and> (\<exists>key. findAVP (d_AVPs m) avpEAPMasterSessionKey 0 = Some key \<and> length (v_Data key) = 64
          \<and> ts_MSK (eapExchangeResult q sid m) = v_Data key)"
  by (auto simp: eapExchangeResult_def server_accepted_def Let_def
      split: option.splits eap_packet_state.splits if_splits)

lemma authResult_allowed: "tr_Allowed (authResult r m) \<longleftrightarrow> server_accepted m"
  by (auto simp: authResult_def server_accepted_def Let_def split: option.splits eap_packet_state.splits)



section \<open>An exchange\<close>

definition demo_sta :: sta_config where
  "demo_sta = \<lparr> st_OriginHost = ''twag'', st_OriginRealm = ''r'', st_DestinationRealm = ''r'', st_DestinationHost = [],
     st_PeerAddr = ''aaa'', st_VendorID = 10415, st_AuthApplicationID = 16777250 \<rparr>"

definition demo_cea :: message where
  "demo_cea = \<lparr> d_Flags = 0, d_CommandCode = 257, d_AppID = 0, d_HopByHop = 1, d_EndToEnd = 1,
     d_AVPs = [uint32AVP avpResultCode 0 2001] \<rparr>"

definition demo_dea :: message where
  "demo_dea = \<lparr> d_Flags = 0, d_CommandCode = 268, d_AppID = 16777250, d_HopByHop = 2, d_EndToEnd = 2,
     d_AVPs = [uint32AVP avpResultCode 0 2001,
       \<lparr> v_Code = avpEAPPayload, v_VendorID = 0, v_Flags = 64, v_Data = [3, 1, 0, 4] \<rparr>] \<rparr>"

definition demo_q :: sta_eap_request where
  "demo_q = \<lparr> te_SessionID = ''s'', te_IMSI = ''310150123456789'', te_MSISDN = [], te_Username = [], te_Realm = ''r'',
     te_APN = ''a'', te_EAPPayload = [2, 1, 0, 5, 1] \<rparr>"

definition demo_open :: sta_world where
  \<comment> \<open>connected, the CEA read, the DEA already sent by the peer\<close>
  "demo_open = connected 0 (10, 0, 0, 1) None (encode_message demo_cea @ encode_message demo_dea)
     (upd begin_dial ((Start_call (sta_world0 (NewSTaClient demo_sta 0)))\<lparr> sw_phase := Dialing 1 \<rparr>))"

definition demo_asked :: sta_world where
  "demo_asked = proceed (ExchangeEAP_begin demo_q 0 None (sw_client demo_open)) demo_open"

definition demo_der :: message where
  "demo_der = fst (newDER ''s'' ''310150123456789'' ''a'' [2, 1, 0, 5, 1] (sw_client demo_open))"

definition demo_call :: "call_stage \<Rightarrow> sta_call" where
  "demo_call st = \<lparr> ca_frame = EAPFrame demo_q ''s'', ca_request = demo_der, ca_stage = st \<rparr>"

definition demo_sent :: sta_world where
  "demo_sent = write_call 1 (demo_call (InTable 0)) 0 None
     (register_call 1 (demo_call (Chosen 0)) 0 (choose_call 1 (demo_call Prepared) demo_asked))"

definition demo_read :: sta_world where
  "demo_read = readLoop_turn 0 demo_dea True (demo_sent\<lparr> sw_in := [] \<rparr>)"

definition demo_done :: sta_world where
  "demo_done = return_call 1 (demo_call (Sent 0)) (Inr demo_dea) 0 demo_read"

lemma demo_messages:
  "decodeMessage (encode_message demo_cea @ rest) = Inr (demo_cea, rest)"
  "decodeMessage (encode_message demo_dea) = Inr (demo_dea, [])"
  using decode_encode_message [of demo_cea rest] decode_encode_message [of demo_dea "[]"]
  by (simp_all add: message_ok_def demo_cea_def demo_dea_def sendable_def uint32AVP_def uint32AVPFlags_def
      flagMandatory_def flagVendorAVP_def length_encode_avp pad4_def wire_form_def)

lemma demo_cea_ok: "check_cea (Inr demo_cea) = None"
  by code_simp

lemma demo_open_facts:
  "sw_phase demo_open = Serving 0" "cl_conn (sw_client demo_open) = Some 0" "sw_in demo_open = encode_message demo_dea"
  "sw_next demo_open = 1" "cl_nextHop (sw_client demo_open) = 1" "cl_closed (sw_client demo_open) = {}"
  "cl_pending (sw_client demo_open) = Map.empty" "cl_chans (sw_client demo_open) = Map.empty"
  "sw_calls demo_open = Map.empty" "ss_State (cl_status (sw_client demo_open)) = ''open''"
  "sw_requests demo_open = 1"
  by (simp_all add: demo_open_def connected_def handshake_def demo_messages demo_cea_ok sta_client_ops upd_def
      Let_def Start_call_def sta_world0_def NewSTaClient_def)

lemma demo_der_facts: "d_HopByHop demo_der = 2"
  by (simp add: demo_der_def newDER_def newRequest_def Let_def demo_open_facts)

lemma demo_asked_facts:
  "sw_calls demo_asked = [1 \<mapsto> demo_call Prepared]" "sw_phase demo_asked = Serving 0" "sw_in demo_asked = encode_message demo_dea"
  "cl_conn (sw_client demo_asked) = Some 0" "cl_closed (sw_client demo_asked) = {}"
  "cl_pending (sw_client demo_asked) = Map.empty" "cl_chans (sw_client demo_asked) = Map.empty" "sw_requests demo_asked = 2"
  by (simp_all add: demo_call_def demo_der_def demo_asked_def ExchangeEAP_begin_def demo_q_def waitOpen_def
      demo_open_facts newDER_def newRequest_def Let_def new_call_def proceed_def)

lemma demo_sent_facts:
  "sw_calls demo_sent = [1 \<mapsto> demo_call (Sent 0)]" "sw_phase demo_sent = Serving 0" "sw_in demo_sent = encode_message demo_dea"
  "cl_pending (sw_client demo_sent) = [2 \<mapsto> 1]" "cl_chans (sw_client demo_sent) = Map.empty" "sw_requests demo_sent = 2"
  by (simp_all add: demo_sent_def choose_call_def register_call_def write_call_def demo_asked_facts demo_der_facts
      demo_call_def upd_def emit_def)

lemma demo_sta_reachable: "sta_reachable (NewSTaClient demo_sta 0) demo_sent"
proof -
  let ?c = "NewSTaClient demo_sta 0"
  have "sta_reachable ?c (Start_call (sta_world0 ?c))"
    by (intro sta_reachable.step [OF sta_reachable.init] sta_step.start)
  moreover have "sta_step (Start_call (sta_world0 ?c))
      (upd begin_dial ((Start_call (sta_world0 ?c))\<lparr> sw_phase := Dialing 1 \<rparr>))"
    by (rule sta_step.dial) (simp_all add: Start_call_def sta_world0_def NewSTaClient_def sta_client_ops)
  moreover have "sta_step \<dots> demo_open"
    unfolding demo_open_def by (rule sta_step.dialed) simp
  ultimately have "sta_reachable ?c demo_open" by (blast intro: sta_reachable.step)
  moreover have "sta_step demo_open demo_asked" unfolding demo_asked_def by (rule sta_step.exchange_eap)
  ultimately have r: "sta_reachable ?c demo_asked" by (rule sta_reachable.step)
  let ?w1 = "choose_call 1 (demo_call Prepared) demo_asked"
  let ?w2 = "register_call 1 (demo_call (Chosen 0)) 0 ?w1"
  have w: "sw_calls ?w1 1 = Some (demo_call (Chosen 0))" "sw_calls ?w2 1 = Some (demo_call (InTable 0))"
      "cl_closed (sw_client ?w2) = {}"
    by (simp_all add: choose_call_def register_call_def demo_asked_facts demo_call_def)
  have st: "ca_stage (demo_call s) = s" for s by (simp add: demo_call_def)
  have "sta_step demo_asked ?w1" by (rule sta_step.choose_conn) (simp_all add: demo_asked_facts st)
  moreover have "sta_step ?w1 ?w2" by (rule sta_step.register) (rule w(1), rule st)
  moreover have "sta_step ?w2 demo_sent"
    unfolding demo_sent_def by (rule sta_step.write_request) (rule w(2), rule st, simp only: w(3), simp)
  ultimately show ?thesis using r by (blast intro: sta_reachable.step)
qed

lemma demo_read_facts:
  "sta_reachable (NewSTaClient demo_sta 0) demo_read" "sw_calls demo_read = [1 \<mapsto> demo_call (Sent 0)]"
  "cl_chans (sw_client demo_read) 1 = Some (Inr demo_dea)"
proof -
  have "sta_step demo_sent demo_read"
    unfolding demo_read_def by (rule sta_step.read_message) (simp_all add: demo_sent_facts demo_messages)
  thus "sta_reachable (NewSTaClient demo_sta 0) demo_read" by (rule sta_reachable.step [OF demo_sta_reachable])
  have "\<not> isRequest demo_dea" "d_HopByHop demo_dea = 2" by (simp_all add: demo_dea_def isRequest_def)
  thus "sw_calls demo_read = [1 \<mapsto> demo_call (Sent 0)]" "cl_chans (sw_client demo_read) 1 = Some (Inr demo_dea)"
    by (simp_all add: demo_read_def readLoop_fields demo_sent_facts)
      (simp add: readLoop_turn_def take_answer_def deliver_def demo_sent_facts Let_def)
qed



end
