(* ===== verification/StaProvider.thy ===== *)
theory StaProvider
  imports StaClient
begin

text \<open>
  Between the Diameter client and the lifecycle service: the AAA provider (\<open>internal/aaa/sta.go\<close> and
  the request checks of \<open>aaa.go\<close>) and the stub client of \<open>sta_client.go\<close>, which accepts everyone. The
  client the provider calls is an argument; its errors pass unchanged.
\<close>

section \<open>The provider\<close>

definition auth_Validate :: "auth_request \<Rightarrow> string option" where
  "auth_Validate r =
     (if aa_IMSI r = [] \<and> aa_Username r = [] \<and> aa_MACAddress r = []
      then Some ''auth request requires imsi, username, or mac address''
      else if aa_APN r = [] then Some ''auth request requires apn''
      else if aa_Realm r = [] then Some ''auth request requires realm'' else None)"

definition eap_Validate :: "eap_request \<Rightarrow> string option" where
  "eap_Validate r =
     (if eq_IMSI r = [] \<and> eq_Username r = [] \<and> eq_MACAddress r = []
      then Some ''eap request requires imsi, username, or mac address''
      else if eq_APN r = [] then Some ''eap request requires apn''
      else if eq_Realm r = [] then Some ''eap request requires realm''
      else if eq_EAPPayload r = [] then Some ''eap request requires eap payload'' else None)"

definition provider_Authenticate :: "(sta_auth_request \<Rightarrow> svc_err + sta_auth_result) \<Rightarrow> auth_request
    \<Rightarrow> (auth_result option \<times> svc_err) + auth_result" where
  "provider_Authenticate client r =
     (case auth_Validate r of Some e \<Rightarrow> Inl (None, Other e)
      | None \<Rightarrow> (case client \<lparr> ta_IMSI = aa_IMSI r, ta_MSISDN = aa_MSISDN r, ta_Username = aa_Username r,
            ta_Realm = aa_Realm r, ta_APN = aa_APN r, ta_Ki = aa_Ki r, ta_OPc = aa_OPc r \<rparr> of
          Inl e \<Rightarrow> Inl (None, e)
        | Inr res \<Rightarrow>
            let result = (\<lambda>allowed. \<lparr> au_Allowed = allowed,
                  au_IMSI = coalesce [tr_IMSI res, aa_IMSI r], au_MSISDN = coalesce [tr_MSISDN res, aa_MSISDN r],
                  au_APN = coalesce [tr_APN res, aa_APN r],
                  au_SubscriberID = coalesce [tr_IMSI res, aa_IMSI r, aa_Username r, aa_MACAddress r],
                  au_Reason = tr_Reason res, au_ResultCode = tr_ResultCode res \<rparr>)
            in if \<not> tr_Allowed res then Inl (Some (result False), Rejected) else Inr (result True)))"

fun EAPState_of :: "sta_eap_state \<Rightarrow> eap_state" where
  "EAPState_of STaEAPStateChallenge = EAPStateChallenge"
| "EAPState_of STaEAPStateSuccess = EAPStateSuccess"
| "EAPState_of STaEAPStateFailure = EAPStateFailure"

definition provider_ExchangeEAP :: "(sta_eap_request \<Rightarrow> svc_err + sta_eap_result) \<Rightarrow> eap_request
    \<Rightarrow> (eap_result option \<times> svc_err) + eap_result" where
  "provider_ExchangeEAP client r =
     (case eap_Validate r of Some e \<Rightarrow> Inl (None, Other e)
      | None \<Rightarrow> (case client \<lparr> te_SessionID = eq_SessionID r, te_IMSI = eq_IMSI r, te_MSISDN = eq_MSISDN r,
            te_Username = eq_Username r, te_Realm = eq_Realm r, te_APN = eq_APN r, te_EAPPayload = eq_EAPPayload r \<rparr> of
          Inl e \<Rightarrow> Inl (None, e)
        | Inr res \<Rightarrow>
            let result = \<lparr> er_SessionID = ts_SessionID res, er_State = EAPState_of (ts_State res),
                  er_Allowed = ts_Allowed res, er_IMSI = coalesce [ts_IMSI res, eq_IMSI r],
                  er_MSISDN = coalesce [ts_MSISDN res, eq_MSISDN r], er_APN = coalesce [ts_APN res, eq_APN r],
                  er_SubscriberID = coalesce [ts_IMSI res, eq_IMSI r, eq_Username r, eq_MACAddress r],
                  er_Reason = ts_Reason res, er_ResultCode = ts_ResultCode res, er_EAPPayload = ts_EAPPayload res,
                  er_MSK = ts_MSK res \<rparr>
            in if er_State result = EAPStateFailure \<or> \<not> er_Allowed result \<and> er_State result \<noteq> EAPStateChallenge
               then Inl (Some result, Rejected) else Inr result))"

section \<open>The stub client\<close>

definition new_stub :: "sta_config \<Rightarrow> sta_status" where
  "new_stub cfg = \<lparr> ss_PeerAddr = st_PeerAddr cfg, ss_State = ''initialized'', ss_LastError = None, ss_ResultCode = 0,
     ss_CERComplete = False, ss_LastWatchdog = None, ss_WatchdogFailures = 0, ss_ReconnectAttempts = 0 \<rparr>"

definition stub_Start :: "sta_status \<Rightarrow> sta_status" where
  "stub_Start s = s\<lparr> ss_State := ''stub_ready'', ss_LastError := None \<rparr>"

definition stub_Stop :: "sta_status \<Rightarrow> sta_status" where
  "stub_Stop s = s\<lparr> ss_State := ''stopped'' \<rparr>"

definition stub_Authenticate :: "sta_auth_request \<Rightarrow> sta_status \<Rightarrow> (sta_err + sta_auth_result) \<times> sta_status" where
  "stub_Authenticate r s =
     (if ta_IMSI r = [] \<and> ta_Username r = [] then (Inl AuthNeedsIdentity, s)
      else (Inr \<lparr> tr_ResultCode = 2001, tr_Allowed = True, tr_IMSI = ta_IMSI r, tr_MSISDN = ta_MSISDN r,
              tr_APN = ta_APN r, tr_Reason = ''stub accepted'' \<rparr>, s\<lparr> ss_ResultCode := 2001 \<rparr>))"

definition stub_ExchangeEAP ::
    "sta_config \<Rightarrow> time \<Rightarrow> sta_eap_request \<Rightarrow> sta_status \<Rightarrow> (sta_err + sta_eap_result) \<times> sta_status" where
  "stub_ExchangeEAP cfg now r s =
     (if te_IMSI r = [] \<and> te_Username r = [] then (Inl ExchangeNeedsIdentity, s)
      else if te_EAPPayload r = [] then (Inl ExchangeNeedsPayload, s)
      else (Inr \<lparr> ts_SessionID = (if te_SessionID r = [] then session_id_at cfg now else te_SessionID r),
              ts_ResultCode = 2001, ts_State = STaEAPStateSuccess, ts_Allowed = True, ts_IMSI = te_IMSI r,
              ts_MSISDN = te_MSISDN r, ts_APN = te_APN r, ts_Reason = ''stub accepted'', ts_EAPPayload = [],
              ts_MSK = [] \<rparr>, s\<lparr> ss_ResultCode := 2001 \<rparr>))"

section \<open>What the service may rely on\<close>

lemma provider_success:
  assumes "provider_ExchangeEAP client r = Inr res" "er_State res = EAPStateSuccess"
  shows "er_Allowed res \<and> (\<exists>q sres. client q = Inr sres \<and> ts_State sres = STaEAPStateSuccess \<and> ts_Allowed sres
    \<and> er_MSK res = ts_MSK sres \<and> er_EAPPayload res = ts_EAPPayload sres \<and> te_EAPPayload q = eq_EAPPayload r)"
proof -
  let ?q = "\<lparr> te_SessionID = eq_SessionID r, te_IMSI = eq_IMSI r, te_MSISDN = eq_MSISDN r,
     te_Username = eq_Username r, te_Realm = eq_Realm r, te_APN = eq_APN r, te_EAPPayload = eq_EAPPayload r \<rparr>"
  obtain sres where c: "client ?q = Inr sres" and r: "EAPState_of (ts_State sres) = er_State res" "ts_Allowed sres"
      "er_Allowed res" "er_MSK res = ts_MSK sres" "er_EAPPayload res = ts_EAPPayload sres"
    using assms by (auto simp: provider_ExchangeEAP_def Let_def split: option.splits sum.splits if_splits)
  have "ts_State sres = STaEAPStateSuccess" using r(1) assms(2) by (cases "ts_State sres") simp_all
  with c r show ?thesis by fastforce
qed

end
