(* ===== verification/RadiusBase.thy ===== *)
theory RadiusBase
  imports Config
begin

text \<open>
  The data of the RADIUS server and its helpers (\<open>internal/radius/server.go\<close>, \<open>ap_registry.go\<close>). The
  RADIUS library (layeh.com/radius) is third-party code: of a received packet the model has what
  the library's getters return for it, of a packet to be sent the attributes given to its setters;
  whether a setter takes a value and what bytes a packet encodes to are parameters.
\<close>

section \<open>Packets\<close>

datatype radius_code =
    AccessRequest | AccessAccept | AccessReject | AccountingRequest | AccountingResponse | AccessChallenge
  | DisconnectRequest | DisconnectACK | DisconnectNAK | CoARequest | CoAACK | CoANAK | OtherCode byte

datatype net_addr =
    UDPAddr ip string   \<comment> \<open>its address and \<open>String()\<close>\<close>
  | TCPAddr ip string
  | OtherAddr string
  | NilAddr

record radius_packet =
  \<comment> \<open>a received packet\<close>
  ri_Code :: radius_code
  ri_Identifier :: byte
  ri_Secret :: bytes
  ri_Authenticator :: bytes
  ri_UserName :: string
  ri_EAPMessage :: bytes
  ri_State :: string
  ri_CallingStationID :: string
  ri_CalledStationID :: string
  ri_NASIPAddress :: ip
  ri_NASIdentifier :: string
  ri_Class :: bytes
  ri_ConnectInfo :: string
  ri_FramedMTU :: u32
  ri_FramedIPAddress :: ip
  ri_AcctStatusType :: u32
  ri_AcctStatusName :: string   \<comment> \<open>\<open>AcctStatusType.String()\<close>\<close>
  ri_AcctSessionID :: string
  ri_AcctMultiSessionID :: string
  ri_AcctInputOctets :: u32
  ri_AcctInputGigawords :: u32
  ri_AcctOutputOctets :: u32
  ri_AcctOutputGigawords :: u32
  ri_AcctInputPackets :: u32
  ri_AcctOutputPackets :: u32
  ri_AcctTerminateCause :: string
  ri_EventTimestamp :: time

datatype radius_attr =
    EAPMessage bytes
  | StateAttr string
  | ClassAttr bytes
  | FramedIPAddress ip
  | SessionTimeout u32
  | TerminationAction u32
  | IdleTimeout u32
  | TunnelType u32
  | TunnelMediumType u32
  | TunnelPrivateGroupID string
  | VendorSpecific u32 bytes
  | MessageAuthenticator bytes
  | ReplyMessage string
  | UserName string
  | CallingStationID string
  | CalledStationID string
  | NASIPAddress ip
  | NASIdentifier string
  | AcctSessionID string

fun attr_type :: "radius_attr \<Rightarrow> nat" where
  "attr_type (UserName _) = 1"
| "attr_type (NASIPAddress _) = 4"
| "attr_type (FramedIPAddress _) = 8"
| "attr_type (ReplyMessage _) = 18"
| "attr_type (StateAttr _) = 24"
| "attr_type (ClassAttr _) = 25"
| "attr_type (VendorSpecific _ _) = 26"
| "attr_type (SessionTimeout _) = 27"
| "attr_type (IdleTimeout _) = 28"
| "attr_type (TerminationAction _) = 29"
| "attr_type (CalledStationID _) = 30"
| "attr_type (CallingStationID _) = 31"
| "attr_type (NASIdentifier _) = 32"
| "attr_type (AcctSessionID _) = 44"
| "attr_type (TunnelType _) = 64"
| "attr_type (TunnelMediumType _) = 65"
| "attr_type (EAPMessage _) = 79"
| "attr_type (MessageAuthenticator _) = 80"
| "attr_type (TunnelPrivateGroupID _) = 81"

record radius_reply =
  \<comment> \<open>a packet to be sent\<close>
  ro_Code :: radius_code
  ro_Identifier :: byte
  ro_Secret :: bytes
  ro_Authenticator :: bytes
  ro_Attributes :: "radius_attr list"

record radius_lib =
  rl_refuses :: "radius_attr \<Rightarrow> string option"  \<comment> \<open>the error of a setter, e.g. for a value too long\<close>
  rl_marshal :: "radius_reply \<Rightarrow> string + bytes"

definition Response :: "radius_packet \<Rightarrow> radius_code \<Rightarrow> radius_reply" where
  \<comment> \<open>the library's \<open>Response\<close>: same identifier, authenticator and secret\<close>
  "Response r code = \<lparr> ro_Code = code, ro_Identifier = ri_Identifier r, ro_Secret = ri_Secret r,
     ro_Authenticator = ri_Authenticator r, ro_Attributes = [] \<rparr>"

definition set_attr :: "radius_lib \<Rightarrow> radius_attr \<Rightarrow> radius_reply \<Rightarrow> string + radius_reply" where
  \<comment> \<open>a setter replaces the attributes of its type\<close>
  "set_attr lib a p = (case rl_refuses lib a of Some e \<Rightarrow> Inl e
     | None \<Rightarrow> Inr (p\<lparr> ro_Attributes := filter (\<lambda>b. attr_type b \<noteq> attr_type a) (ro_Attributes p) @ [a] \<rparr>))"

definition set_or_skip :: "radius_lib \<Rightarrow> radius_attr \<Rightarrow> radius_reply \<Rightarrow> radius_reply" where
  \<comment> \<open>\<open>_ = X_Set(p, v)\<close>\<close>
  "set_or_skip lib a p = (case set_attr lib a p of Inl _ \<Rightarrow> p | Inr p' \<Rightarrow> p')"

section \<open>Identities\<close>

definition looksLikeIMSI :: "string \<Rightarrow> bool" where
  "looksLikeIMSI s \<longleftrightarrow> \<not> (length s < 5 \<or> 15 < length s) \<and> all_digits s"

definition imsiFromNAI :: "string \<Rightarrow> string" where
  "imsiFromNAI username =
     (let local = trim_space (before (CHR ''@'') username)
      in if 1 < length local \<and> (hd local = CHR ''0'' \<or> hd local = CHR ''6'') \<and> looksLikeIMSI (tl local)
         then tl local
         else if looksLikeIMSI local then local else [])"

fun pairs_colon :: "string \<Rightarrow> string" where
  "pairs_colon (a # b # c # s) = a # b # CHR '':'' # pairs_colon (c # s)"
| "pairs_colon s = s"

definition radius_normalizeMAC :: "string \<Rightarrow> string" where
  "radius_normalizeMAC s0 =
     (let s = trim_space (to_lower s0)
      in if s = [] then []
         else let t = concat (map (\<lambda>c. if c = CHR ''-'' then '':'' else if c = CHR ''.'' then [] else [c]) s)
              in if length (filter (\<lambda>c. c = CHR '':'') t) = 5 then t
                 else if length t \<noteq> 12 then t else pairs_colon t)"

definition eapIdentity :: "bytes \<Rightarrow> string option" where
  \<comment> \<open>\<open>None\<close>: the slice \<open>payload[5:length]\<close> panics\<close>
  "eapIdentity payload =
     (if length payload < 5 then Some []
      else let code = payload ! 0; len = unat (be16 (payload ! 2) (payload ! 3))
           in if code \<noteq> 2 \<or> length payload < len \<or> payload ! 4 \<noteq> 1 then Some []
              else if len < 5 then None else Some (string_of (slice payload 5 len)))"

record eap_description =
  ed_Code :: string
  ed_Identifier :: int
  ed_Type :: int
  ed_TypeName :: string
  ed_Subtype :: int
  ed_SubtypeName :: string

definition eapCodeName :: "byte \<Rightarrow> string" where
  "eapCodeName code = (if code = 1 then ''request'' else if code = 2 then ''response''
     else if code = 3 then ''success'' else if code = 4 then ''failure'' else ''code-'' @ dec (unat code))"

definition eapTypeName :: "byte \<Rightarrow> string" where
  "eapTypeName t = (if t = 1 then ''identity'' else if t = 18 then ''sim'' else if t = 23 then ''aka''
     else if t = 50 then ''aka-prime'' else ''type-'' @ dec (unat t))"

definition eapAKASubtypeName :: "byte \<Rightarrow> string" where
  "eapAKASubtypeName s = (if s = 1 then ''challenge'' else if s = 2 then ''authentication-rejection''
     else if s = 4 then ''synchronization-failure'' else if s = 5 then ''identity''
     else if s = 12 then ''client-error'' else if s = 14 then ''notification'' else ''subtype-'' @ dec (unat s))"

definition describeEAP :: "bytes \<Rightarrow> eap_description option" where
  \<comment> \<open>\<open>None\<close>: the index \<open>payload[4]\<close> panics\<close>
  "describeEAP payload =
     (let desc = \<lparr> ed_Code = [], ed_Identifier = -1, ed_Type = -1, ed_TypeName = [], ed_Subtype = -1, ed_SubtypeName = [] \<rparr>
      in if length payload < 4 then Some desc
         else let d1 = desc\<lparr> ed_Code := eapCodeName (payload ! 0), ed_Identifier := int (unat (payload ! 1)) \<rparr>;
                  len = unat (be16 (payload ! 2) (payload ! 3))
              in if length payload < len \<or> len < 4 then Some (d1\<lparr> ed_Code := ''invalid'' \<rparr>)
                 else if payload ! 0 = 1 \<or> payload ! 0 = 2 then
                   (let d2 = (if 5 \<le> len then d1\<lparr> ed_Type := int (unat (payload ! 4)), ed_TypeName := eapTypeName (payload ! 4) \<rparr> else d1)
                    in if length payload \<le> 4 then None
                       else if (payload ! 4 = 23 \<or> payload ! 4 = 50) \<and> 6 \<le> len
                       then Some (d2\<lparr> ed_Subtype := int (unat (payload ! 5)), ed_SubtypeName := eapAKASubtypeName (payload ! 5) \<rparr>)
                       else Some d2)
                 else Some d1)"

section \<open>Sources\<close>

definition radiusSourceIP :: "net_addr \<Rightarrow> string" where
  "radiusSourceIP a =
     (let by_text = (\<lambda>s. case SplitHostPort s of Inl _ \<Rightarrow> [] | Inr (host, port) \<Rightarrow> host)
      in case a of
           UDPAddr x s \<Rightarrow> if x \<noteq> None then ip_string x else by_text s
         | TCPAddr x s \<Rightarrow> if x \<noteq> None then ip_string x else by_text s
         | OtherAddr s \<Rightarrow> by_text s
         | NilAddr \<Rightarrow> [])"

definition parseAllowedSources :: "string list \<Rightarrow> ipnet list" where
  \<comment> \<open>subnets that do not parse are left out\<close>
  "parseAllowedSources cidrs = concat (map (\<lambda>c. case parse_cidr c of None \<Rightarrow> [] | Some n \<Rightarrow> [n]) cidrs)"

definition sourceAllowed :: "ipnet list \<Rightarrow> net_addr \<Rightarrow> bool" where
  "sourceAllowed allowedSources a =
     (if allowedSources = [] then True
      else case parse_ip (radiusSourceIP a) of None \<Rightarrow> False
           | Some b \<Rightarrow> list_ex (\<lambda>n. ipnet_contains n (Some b)) allowedSources)"

section \<open>The registry of access points\<close>

record ap_observation =
  ob_SourceIP :: string
  ob_NASIP :: string
  ob_NASIdentifier :: string
  ob_CalledStationID :: string
  ob_AccountingPacket :: bool

record ap_record =
  pt_SourceIP :: string
  pt_NASIP :: string
  pt_NASIdentifier :: string
  pt_CalledStationID :: string
  pt_BSSID :: string
  pt_SSID :: string
  pt_FirstSeen :: time
  pt_LastSeen :: time
  pt_AuthRequestCount :: u64
  pt_AccountingRequestCount :: u64

type_synonym ap_registry = "string \<rightharpoonup> ap_record"

definition parseCalledStationID :: "string \<Rightarrow> string \<times> string" where
  "parseCalledStationID value0 =
     (let value = trim_space value0;
          split = (\<lambda>sep. case split2 sep value of None \<Rightarrow> None
            | Some (p, q) \<Rightarrow> (case parse_mac p of None \<Rightarrow> None | Some _ \<Rightarrow> Some (to_lower p, trim_space q)))
      in if value = [] then ([], [])
         else case split (CHR '':'') of Some r \<Rightarrow> r
              | None \<Rightarrow> (case split (CHR '' '') of Some r \<Rightarrow> r | None \<Rightarrow> ([], [])))"

definition ap_Update :: "time \<Rightarrow> ap_observation \<Rightarrow> ap_registry \<Rightarrow> ap_record \<times> ap_registry" where
  "ap_Update now obs records =
     (let k0 = coalesce [ob_SourceIP obs, ob_NASIP obs, ob_NASIdentifier obs, ob_CalledStationID obs];
          key = (if k0 = [] then ''unknown'' else k0);
          (bssid, ssid) = parseCalledStationID (ob_CalledStationID obs);
          rec0 = (case records key of Some rec \<Rightarrow> rec
            | None \<Rightarrow> \<lparr> pt_SourceIP = ob_SourceIP obs, pt_NASIP = [], pt_NASIdentifier = [], pt_CalledStationID = [],
                pt_BSSID = [], pt_SSID = [], pt_FirstSeen = now, pt_LastSeen = 0, pt_AuthRequestCount = 0,
                pt_AccountingRequestCount = 0 \<rparr>);
          rec1 = rec0\<lparr> pt_LastSeen := now,
            pt_SourceIP := coalesce [ob_SourceIP obs, pt_SourceIP rec0],
            pt_NASIP := coalesce [ob_NASIP obs, pt_NASIP rec0],
            pt_NASIdentifier := coalesce [ob_NASIdentifier obs, pt_NASIdentifier rec0],
            pt_CalledStationID := coalesce [ob_CalledStationID obs, pt_CalledStationID rec0],
            pt_BSSID := coalesce [bssid, pt_BSSID rec0],
            pt_SSID := coalesce [ssid, pt_SSID rec0] \<rparr>;
          rec2 = (if ob_AccountingPacket obs
                  then rec1\<lparr> pt_AccountingRequestCount := pt_AccountingRequestCount rec1 + 1 \<rparr>
                  else rec1\<lparr> pt_AuthRequestCount := pt_AuthRequestCount rec1 + 1 \<rparr>)
      in (rec2, records(key \<mapsto> rec2)))"

section \<open>Addresses as text\<close>

text \<open>The service reports the address of a session as text and the server parses it: an IPv4 address survives.\<close>

lemma dec_plain: "c \<in> {CHR ''.'', CHR '':'', CHR ''%''} \<Longrightarrow> c \<notin> set (dec n)"
  using dec_digits [of c n] by (auto simp: code_of_def)

lemma parse_ip_dotted: "length q = 4 \<Longrightarrow> parse_ip (dotted q) = Some (v4in6_prefix @ q)"
proof -
  assume "length q = 4"
  then obtain a b c d where q: "q = [a, b, c, d]" by (auto simp: eval_nat_numeral length_Suc_conv)
  have t: "dotted q = dec (unat a) @ CHR ''.'' # dec (unat b) @ CHR ''.'' # dec (unat c) @ CHR ''.'' # dec (unat d)"
    by (simp add: dotted_def q)
  have "parse_v4 (dotted q) = Some q" by (simp add: q)
  moreover have "dropWhile (\<lambda>c. c \<notin> {CHR ''.'', CHR '':'', CHR ''%''}) (dotted q)
      = CHR ''.'' # dec (unat b) @ CHR ''.'' # dec (unat c) @ CHR ''.'' # dec (unat d)"
    unfolding t using dec_plain by (subst dropWhile_append2) auto
  ultimately show ?thesis by (simp add: parse_ip_def parse_addr_def)
qed

lemma parse_ip_string:
  assumes "to4 x = Some q" shows "ip_string x \<noteq> []" "ip_equal (parse_ip (ip_string x)) x"
proof -
  have p: "parse_ip (ip_string x) = Some (v4in6_prefix @ q)"
    using assms by (simp add: ip_string_v4 parse_ip_dotted to4_length)
  moreover have "parse_ip [] = None" by (simp add: parse_ip_def parse_addr_def)
  ultimately show "ip_string x \<noteq> []" by fastforce
  have "length v4in6_prefix = 12" by (simp add: v4in6_prefix_def)
  with p assms to4_length [OF assms] show "ip_equal (parse_ip (ip_string x)) x"
    by (auto simp: ip_equal_def to4_def ip_bytes_def Let_def split: option.splits if_splits) (metis append_take_drop_id)
qed

end
