(* ===== verification/RadiusMppe.thy ===== *)
theory RadiusMppe
  imports RadiusBase Crypto
begin

text \<open>
  The keys of an Access-Accept (\<open>internal/radius/mppe.go\<close>): the two halves of the MSK, encrypted under
  the shared secret and the request's authenticator as RFC 2548 says, and what the access point reads
  from them. The two bytes \<open>rand.Read\<close> fills are drawn from a stream, an argument of the model; so the
  loop that looks for a second salt may run for ever, and is a partial function.
\<close>

section \<open>Salts\<close>

type_synonym salt = "byte \<times> byte"
type_synonym draws = "nat \<Rightarrow> string + byte \<times> byte"  \<comment> \<open>\<open>Inl\<close>: the error of \<open>rand.Read\<close>\<close>

abbreviation microsoftVendorID :: u32 where "microsoftVendorID \<equiv> 311"
abbreviation msMPPESendKey :: byte where "msMPPESendKey \<equiv> 16"
abbreviation msMPPERecvKey :: byte where "msMPPERecvKey \<equiv> 17"

definition newMPPESalt :: "draws \<Rightarrow> nat \<Rightarrow> string + salt" where
  "newMPPESalt draws i = (case draws i of Inl e \<Rightarrow> Inl e | Inr (a, b) \<Rightarrow> Inr (a OR 0x80, b))"

partial_function (option) other_salt :: "draws \<Rightarrow> salt \<Rightarrow> salt \<Rightarrow> nat \<Rightarrow> (string + salt) option" where
  \<comment> \<open>the loop \<open>for recvSalt == sendSalt\<close>; \<open>i\<close> is the next draw\<close>
  "other_salt draws recvSalt sendSalt i =
     (if recvSalt = sendSalt
      then (case newMPPESalt draws i of Inl e \<Rightarrow> Some (Inl e) | Inr s \<Rightarrow> other_salt draws recvSalt s (Suc i))
      else Some (Inr sendSalt))"

section \<open>Encryption\<close>

function (sequential) mppe_blocks :: "bytes \<Rightarrow> bytes \<Rightarrow> bytes \<Rightarrow> bytes" where
  \<comment> \<open>\<open>prev\<close>: what is hashed after the secret, the authenticator and the salt or the last block\<close>
  "mppe_blocks secret prev [] = []"
| "mppe_blocks secret prev plain =
     (let c = xor_bytes (take 16 plain) (md5 (secret @ prev)) in c @ mppe_blocks secret c (drop 16 plain))"
  by pat_completeness auto
termination by (relation "measure (\<lambda>(_, _, plain). length plain)") auto

definition encryptMPPEKey :: "bytes \<Rightarrow> bytes \<Rightarrow> salt \<Rightarrow> bytes \<Rightarrow> string + bytes" where
  "encryptMPPEKey secret requestAuthenticator salt key =
     (if 255 < length key then Inl ''mppe key too long''
      else if secret = [] then Inl ''empty radius secret''
      else if fst salt AND 0x80 = 0 then Inl ''mppe salt high bit is not set''
      else let plainLen = 1 + length key; paddedLen = (plainLen + 16 - 1) div 16 * 16;
               plain = word_of_nat (length key) # key @ replicate (paddedLen - plainLen) 0;
               out = [fst salt, snd salt]
           in Inr (out @ mppe_blocks secret (requestAuthenticator @ out) plain))"

definition ms_vsa :: "byte \<Rightarrow> bytes \<Rightarrow> radius_attr" where
  "ms_vsa vendorType value = VendorSpecific microsoftVendorID (vendorType # word_of_nat (2 + length value) # value)"

definition addMicrosoftVSA :: "radius_lib \<Rightarrow> byte \<Rightarrow> bytes \<Rightarrow> radius_reply \<Rightarrow> string + radius_reply" where
  "addMicrosoftVSA lib vendorType value p =
     (if 253 < length value then Inl ''microsoft vsa value too long''
      else let vsa = ms_vsa vendorType value
           in case rl_refuses lib vsa of Some e \<Rightarrow> Inl e
              | None \<Rightarrow> Inr (p\<lparr> ro_Attributes := ro_Attributes p @ [vsa] \<rparr>))"

definition addMPPEKeys :: "radius_lib \<Rightarrow> draws \<Rightarrow> radius_reply \<Rightarrow> bytes \<Rightarrow> (string + radius_reply) option" where
  \<comment> \<open>\<open>None\<close>: does not return\<close>
  "addMPPEKeys lib draws p msk =
     (if length msk \<noteq> 64 then Some (Inl (''eap msk length = '' @ dec (length msk) @ '', want 64''))
      else let recvKey = take 32 msk; sendKey = slice msk 32 64 in
        case newMPPESalt draws 0 of Inl e \<Rightarrow> Some (Inl e) | Inr recvSalt \<Rightarrow>
        (case newMPPESalt draws 1 of Inl e \<Rightarrow> Some (Inl e) | Inr firstSalt \<Rightarrow>
        (case other_salt draws recvSalt firstSalt 2 of None \<Rightarrow> None | Some (Inl e) \<Rightarrow> Some (Inl e)
         | Some (Inr sendSalt) \<Rightarrow> Some (
        case encryptMPPEKey (ro_Secret p) (ro_Authenticator p) recvSalt recvKey of Inl e \<Rightarrow> Inl e
        | Inr recvAttr \<Rightarrow>
        (case addMicrosoftVSA lib msMPPERecvKey recvAttr p of Inl e \<Rightarrow> Inl e
         | Inr p1 \<Rightarrow>
        (case encryptMPPEKey (ro_Secret p1) (ro_Authenticator p1) sendSalt sendKey of Inl e \<Rightarrow> Inl e
         | Inr sendAttr \<Rightarrow> addMicrosoftVSA lib msMPPESendKey sendAttr p1))))))"

section \<open>What the access point reads\<close>

text \<open>RFC 2548, section 2.4.2, written from the receiver's side.\<close>

function (sequential) mppe_plain :: "bytes \<Rightarrow> bytes \<Rightarrow> bytes \<Rightarrow> bytes" where
  "mppe_plain secret prev [] = []"
| "mppe_plain secret prev c = xor_bytes (take 16 c) (md5 (secret @ prev)) @ mppe_plain secret (take 16 c) (drop 16 c)"
  by pat_completeness auto
termination by (relation "measure (\<lambda>(_, _, c). length c)") auto

definition mppe_key :: "bytes \<Rightarrow> bytes \<Rightarrow> bytes \<Rightarrow> bytes option" where
  \<comment> \<open>the key in the string of an attribute: a salt, then the encryption of a length and the key\<close>
  "mppe_key secret requestAuthenticator s =
     (if length s < 18 \<or> (length s - 2) mod 16 \<noteq> 0 then None
      else let plain = mppe_plain secret (requestAuthenticator @ take 2 s) (drop 2 s); n = unat (hd plain)
           in if length (tl plain) < n then None else Some (take n (tl plain)))"

definition vendor_strings :: "byte \<Rightarrow> radius_attr list \<Rightarrow> bytes list" where
  \<comment> \<open>the values of Microsoft's attributes of a type, where their length field is right\<close>
  "vendor_strings ty as = concat (map (\<lambda>a. case a of
       VendorSpecific v (t # n # value) \<Rightarrow>
         if v = microsoftVendorID \<and> t = ty \<and> unat n = 2 + length value then [value] else []
     | _ \<Rightarrow> []) as)"

definition nas_keys :: "byte \<Rightarrow> radius_reply \<Rightarrow> bytes option list" where
  "nas_keys ty p = map (mppe_key (ro_Secret p) (ro_Authenticator p)) (vendor_strings ty (ro_Attributes p))"

section \<open>The keys arrive\<close>

declare mppe_blocks.simps(2) [simp del] mppe_plain.simps(2) [simp del]

lemma blocks16_induct [consumes 1, case_names Nil block]:
  assumes "length plain mod 16 = 0" "P []" "\<And>b r. length b = 16 \<Longrightarrow> P r \<Longrightarrow> P (b @ r)"
  shows "P (plain :: bytes)"
  using assms(1)
proof (induction "length plain" arbitrary: plain rule: less_induct)
  case less
  show ?case
  proof (cases "plain = []")
    case False
    with less(2) have n: "16 \<le> length plain" by (cases "length plain < 16") auto
    with less(2) have "length (drop 16 plain) mod 16 = 0" by (simp add: mod_if)
    with less(1) n have "P (drop 16 plain)" by simp
    with n assms(3) [of "take 16 plain" "drop 16 plain"] show ?thesis by simp
  qed (simp add: assms(2))
qed

lemma mppe_block:
  assumes "length b = 16"
  shows "mppe_blocks secret prev (b @ r) = (let c = xor_bytes b (md5 (secret @ prev)) in c @ mppe_blocks secret c r)"
    "mppe_plain secret prev (b @ r) = xor_bytes b (md5 (secret @ prev)) @ mppe_plain secret b r"
proof -
  obtain x xs where b: "b @ r = x # xs" using assms by (cases b) auto
  have t: "take 16 (x # xs) = b" "drop 16 (x # xs) = r" using assms by (simp_all flip: b)
  show "mppe_blocks secret prev (b @ r) = (let c = xor_bytes b (md5 (secret @ prev)) in c @ mppe_blocks secret c r)"
    by (subst b, subst mppe_blocks.simps(2), simp only: t)
  show "mppe_plain secret prev (b @ r) = xor_bytes b (md5 (secret @ prev)) @ mppe_plain secret b r"
    by (subst b, subst mppe_plain.simps(2), simp only: t)
qed

lemma mppe_blocks_plain:
  "length plain mod 16 = 0 \<Longrightarrow> length (mppe_blocks secret prev plain) = length plain
     \<and> mppe_plain secret prev (mppe_blocks secret prev plain) = plain"
proof (induction plain arbitrary: prev rule: blocks16_induct)
  case (block b r)
  define c where "c = xor_bytes b (md5 (secret @ prev))"
  have c: "length c = 16" "xor_bytes c (md5 (secret @ prev)) = b"
    using block(1) by (simp_all add: c_def xor_bytes_cancel)
  have "mppe_blocks secret prev (b @ r) = c @ mppe_blocks secret c r" using block(1) by (simp add: mppe_block(1) c_def Let_def)
  with block(2) [of c] c show ?case by (simp add: mppe_block(2) block(1))
qed simp

lemma padded:
  fixes k n :: nat
  assumes "n = (k + 16) div 16 * 16"
  shows "k < n" "n mod 16 = 0" "16 \<le> n"
  using assms by presburger+

text \<open>What is encrypted under a salt, the access point reads: a key of at most 255 bytes decrypts to itself.\<close>

lemma encryptMPPEKey_cases:
  assumes "encryptMPPEKey secret au salt key = Inr s"
  shows "mppe_key secret au s = Some key" "length s = 2 + (length key + 16) div 16 * 16" "take 2 s = [fst salt, snd salt]"
proof -
  define n where "n = (1 + length key + 16 - 1) div 16 * 16"
  have n_eq: "n = (length key + 16) div 16 * 16" by (simp add: n_def)
  note n = padded [OF n_eq]
  define plain where "plain = word_of_nat (length key) # key @ replicate (n - (1 + length key)) (0::byte)"
  define c where "c = mppe_blocks secret (au @ [fst salt, snd salt]) plain"
  from assms have len: "length key \<le> 255" and s: "s = [fst salt, snd salt] @ c"
    unfolding encryptMPPEKey_def Let_def c_def plain_def n_def by (simp_all split: if_splits)
  have p: "length plain = n" using n(1) by (simp add: plain_def)
  with n(2) mppe_blocks_plain [of plain secret "au @ [fst salt, snd salt]"]
  have c: "length c = n" "mppe_plain secret (au @ [fst salt, snd salt]) c = plain" by (simp_all add: c_def)
  have "unat (word_of_nat (length key) :: byte) = length key" using len by (simp add: unat_of_nat)
  then have u: "unat (hd plain) = length key" "take (length key) (tl plain) = key" "length key \<le> length (tl plain)"
    by (simp_all add: plain_def)
  show "mppe_key secret au s = Some key" using c n u by (simp add: mppe_key_def s Let_def)
  show "length s = 2 + (length key + 16) div 16 * 16" "take 2 s = [fst salt, snd salt]" using c by (simp_all add: s n_eq)
qed


section \<open>Salts\<close>

definition good_salt :: "salt \<Rightarrow> bool" where
  "good_salt s \<longleftrightarrow> fst s AND 0x80 \<noteq> 0"

lemma newMPPESalt_good: "newMPPESalt draws i = Inr s \<Longrightarrow> good_salt s"
proof -
  have "(a OR 0x80) AND 0x80 \<noteq> 0" for a :: byte
  proof
    assume "(a OR 0x80) AND 0x80 = 0"
    then have "bit ((a OR 0x80) AND 0x80) 7 = bit (0 :: byte) 7" by simp
    then show False by (simp add: bit_simps)
  qed
  then show "newMPPESalt draws i = Inr s \<Longrightarrow> good_salt s"
    by (auto simp: newMPPESalt_def good_salt_def split: sum.splits prod.splits)
qed

text \<open>The loop ends with a salt other than the first, and it ends exactly if some draw fails or differs.\<close>

lemma other_salt_sound:
  "other_salt draws r s i = Some y \<Longrightarrow> good_salt s \<longrightarrow> (\<forall>t. y = Inr t \<longrightarrow> r \<noteq> t \<and> good_salt t)"
proof (rule other_salt.raw_induct [where P = "\<lambda>draws r s i y. good_salt s \<longrightarrow> (\<forall>t. y = Inr t \<longrightarrow> r \<noteq> t \<and> good_salt t)"])
  fix loop draws r s i y
  assume IH: "\<And>draws r s i y. loop draws r s i = Some y \<Longrightarrow> good_salt s \<longrightarrow> (\<forall>t. y = Inr t \<longrightarrow> r \<noteq> t \<and> good_salt t)"
    and body: "(if r = s then case newMPPESalt draws i of Inl e \<Rightarrow> Some (Inl e) | Inr t \<Rightarrow> loop draws r t (Suc i)
      else Some (Inr s)) = Some y"
  show "good_salt s \<longrightarrow> (\<forall>t. y = Inr t \<longrightarrow> r \<noteq> t \<and> good_salt t)"
  proof (cases "r = s")
    case True
    with body consider e where "y = Inl e" | t where "newMPPESalt draws i = Inr t" "loop draws r t (Suc i) = Some y"
      by (cases "newMPPESalt draws i") auto
    then show ?thesis by cases (use IH newMPPESalt_good in blast)+
  qed (use body in auto)
qed assumption

lemma other_salt_stuck: "other_salt draws r s i = Some y \<Longrightarrow> r = s \<longrightarrow> (\<exists>j\<ge>i. newMPPESalt draws j \<noteq> Inr r)"
proof (rule other_salt.raw_induct [where P = "\<lambda>draws r s i y. r = s \<longrightarrow> (\<exists>j\<ge>i. newMPPESalt draws j \<noteq> Inr r)"])
  fix loop draws r s i y
  assume IH: "\<And>draws r s i y. loop draws r s i = Some y \<Longrightarrow> r = s \<longrightarrow> (\<exists>j\<ge>i. newMPPESalt draws j \<noteq> Inr r)"
    and body: "(if r = s then case newMPPESalt draws i of Inl e \<Rightarrow> Some (Inl e) | Inr t \<Rightarrow> loop draws r t (Suc i)
      else Some (Inr s)) = Some y"
  show "r = s \<longrightarrow> (\<exists>j\<ge>i. newMPPESalt draws j \<noteq> Inr r)"
  proof (cases "newMPPESalt draws i = Inr r")
    case True
    show ?thesis
    proof
      assume "r = s"
      with body True have "loop draws r r (Suc i) = Some y" by simp
      with IH have "\<exists>j\<ge>Suc i. newMPPESalt draws j \<noteq> Inr r" by blast
      then show "\<exists>j\<ge>i. newMPPESalt draws j \<noteq> Inr r" by (blast dest: Suc_leD)
    qed
  qed auto
qed assumption

lemma other_salt_returns: "newMPPESalt draws (i + n) \<noteq> Inr r \<Longrightarrow> \<exists>y. other_salt draws r s i = Some y"
proof (induction n arbitrary: i s)
  case 0
  have "other_salt draws r t (Suc i) = Some (Inr t)" if "r \<noteq> t" for t using that by (simp add: other_salt.simps [of draws r t])
  with 0 show ?case by (auto simp: other_salt.simps [of draws r s i] split: sum.split)
next
  case (Suc n)
  then have "\<exists>y. other_salt draws r t (Suc i) = Some y" for t by simp
  then show ?case by (auto simp: other_salt.simps [of draws r s i] split: sum.split)
qed

lemma other_salt_returns_iff:
  "(\<exists>y. other_salt draws r s i = Some y) \<longleftrightarrow> r \<noteq> s \<or> (\<exists>j\<ge>i. newMPPESalt draws j \<noteq> Inr r)"
proof
  assume "r \<noteq> s \<or> (\<exists>j\<ge>i. newMPPESalt draws j \<noteq> Inr r)"
  then show "\<exists>y. other_salt draws r s i = Some y"
  proof
    assume "\<exists>j\<ge>i. newMPPESalt draws j \<noteq> Inr r"
    then obtain j where "i \<le> j" "newMPPESalt draws (i + (j - i)) \<noteq> Inr r" by auto
    then show ?thesis by (blast intro: other_salt_returns)
  qed (simp add: other_salt.simps [of draws r s i])
qed (use other_salt_stuck in blast)

section \<open>Both attributes\<close>

lemma addMicrosoftVSA_cases:
  "addMicrosoftVSA lib ty value p = Inr p' \<Longrightarrow> length value \<le> 253
     \<and> p' = p\<lparr> ro_Attributes := ro_Attributes p @ [ms_vsa ty value] \<rparr>"
  by (auto simp: addMicrosoftVSA_def Let_def split: if_splits option.splits)

lemma vendor_strings_append [simp]: "vendor_strings ty (as @ bs) = vendor_strings ty as @ vendor_strings ty bs"
  by (simp add: vendor_strings_def)

lemma vendor_strings_one:
  "length value \<le> 253 \<Longrightarrow> vendor_strings ty [ms_vsa t value]
     = (if t = ty then [value] else [])"
proof -
  assume "length value \<le> 253"
  then have "unat (word_of_nat (2 + length value) :: byte) = 2 + length value" by (simp only: unat_of_nat) simp
  then show ?thesis by (simp add: vendor_strings_def ms_vsa_def del: of_nat_add of_nat_numeral)
qed

lemma addMPPEKeys_cases:
  assumes "addMPPEKeys lib draws p msk = Some (Inr p')"
  shows "\<exists>rs ss rv sv. p' = p\<lparr> ro_Attributes := ro_Attributes p
        @ [ms_vsa msMPPERecvKey rv,
           ms_vsa msMPPESendKey sv] \<rparr>
    \<and> length msk = 64 \<and> length rv \<le> 253 \<and> length sv \<le> 253
    \<and> rs \<noteq> ss \<and> good_salt rs \<and> good_salt ss
    \<and> encryptMPPEKey (ro_Secret p) (ro_Authenticator p) rs (take 32 msk) = Inr rv
    \<and> encryptMPPEKey (ro_Secret p) (ro_Authenticator p) ss (slice msk 32 64) = Inr sv"
proof -
  from assms have len: "length msk = 64" by (auto simp: addMPPEKeys_def split: if_splits)
  from assms len obtain rs fs ss rv sv p1 where
    d: "newMPPESalt draws 0 = Inr rs" "newMPPESalt draws 1 = Inr fs" "other_salt draws rs fs 2 = Some (Inr ss)"
    and e: "encryptMPPEKey (ro_Secret p) (ro_Authenticator p) rs (take 32 msk) = Inr rv"
      "addMicrosoftVSA lib msMPPERecvKey rv p = Inr p1"
      "encryptMPPEKey (ro_Secret p1) (ro_Authenticator p1) ss (slice msk 32 64) = Inr sv"
      "addMicrosoftVSA lib msMPPESendKey sv p1 = Inr p'"
    by (auto simp: addMPPEKeys_def Let_def split: sum.splits option.splits)
  note p1 = addMicrosoftVSA_cases [OF e(2)] and p' = addMicrosoftVSA_cases [OF e(4)]
  have "rs \<noteq> ss" "good_salt ss" "good_salt rs"
    using other_salt_sound [OF d(3)] newMPPESalt_good [OF d(1)] newMPPESalt_good [OF d(2)] by auto
  with e(1,3) p1 p' len show ?thesis by (intro exI [of _ rs] exI [of _ ss] exI [of _ rv] exI [of _ sv]) simp
qed

text \<open>The access point decrypts exactly the two halves of the MSK from the two new attributes.\<close>

lemma addMPPEKeys_sound:
  assumes "addMPPEKeys lib draws p msk = Some (Inr p')"
  shows "nas_keys msMPPERecvKey p' = nas_keys msMPPERecvKey p @ [Some (take 32 msk)]"
    "nas_keys msMPPESendKey p' = nas_keys msMPPESendKey p @ [Some (drop 32 msk)]"
proof -
  obtain rs ss rv sv where *: "p' = p\<lparr> ro_Attributes := ro_Attributes p
        @ [ms_vsa msMPPERecvKey rv]
        @ [ms_vsa msMPPESendKey sv] \<rparr>"
    "length msk = 64" "length rv \<le> 253" "length sv \<le> 253"
    "encryptMPPEKey (ro_Secret p) (ro_Authenticator p) rs (take 32 msk) = Inr rv"
    "encryptMPPEKey (ro_Secret p) (ro_Authenticator p) ss (slice msk 32 64) = Inr sv"
    using addMPPEKeys_cases [OF assms] by auto
  have "slice msk 32 64 = drop 32 msk" using *(2) by (simp add: slice_def)
  then show "nas_keys msMPPERecvKey p' = nas_keys msMPPERecvKey p @ [Some (take 32 msk)]"
    "nas_keys msMPPESendKey p' = nas_keys msMPPESendKey p @ [Some (drop 32 msk)]"
    using encryptMPPEKey_cases(1) [OF *(5)] encryptMPPEKey_cases(1) [OF *(6)]
    by (simp_all add: nas_keys_def *(1) vendor_strings_one *(3,4) del: append.simps append_Cons)
qed

text \<open>With a secret, draws that do not fail and a second draw that differs at some time, both are added.\<close>

definition draws_ok :: "draws \<Rightarrow> bool" where
  "draws_ok draws \<longleftrightarrow> (\<forall>i. \<exists>s. draws i = Inr s) \<and> (\<exists>j\<ge>1. newMPPESalt draws j \<noteq> newMPPESalt draws 0)"

lemma newMPPESalt_drawn: "draws_ok draws \<Longrightarrow> \<exists>s. newMPPESalt draws i = Inr s"
proof -
  assume "draws_ok draws"
  then have "\<exists>s. draws i = Inr s" by (simp add: draws_ok_def)
  then obtain a b where "draws i = Inr (a, b)" by auto
  then show ?thesis by (simp add: newMPPESalt_def)
qed

lemma other_salt_no_error: "other_salt draws r s i = Some y \<Longrightarrow> draws_ok draws \<longrightarrow> (\<exists>t. y = Inr t)"
proof (rule other_salt.raw_induct [where P = "\<lambda>draws r s i y. draws_ok draws \<longrightarrow> (\<exists>t. y = Inr t)"])
  fix loop draws r s i y
  assume IH: "\<And>draws r s i y. loop draws r s i = Some y \<Longrightarrow> draws_ok draws \<longrightarrow> (\<exists>t. y = Inr t)"
    and body: "(if r = s then case newMPPESalt draws i of Inl e \<Rightarrow> Some (Inl e) | Inr t \<Rightarrow> loop draws r t (Suc i)
      else Some (Inr s)) = Some y"
  show "draws_ok draws \<longrightarrow> (\<exists>t. y = Inr t)"
  proof
    assume d: "draws_ok draws"
    from newMPPESalt_drawn [OF d, of i] body have "y = Inr s \<or> (\<exists>t. loop draws r t (Suc i) = Some y)"
      by (auto split: if_splits)
    with IH d show "\<exists>t. y = Inr t" by blast
  qed
qed assumption

lemma encryptMPPEKey_total: "secret \<noteq> [] \<Longrightarrow> good_salt s \<Longrightarrow> length key \<le> 255 \<Longrightarrow> \<exists>v. encryptMPPEKey secret au s key = Inr v"
  by (simp add: encryptMPPEKey_def good_salt_def Let_def)

lemma addMicrosoftVSA_total: "\<forall>a. rl_refuses lib a = None \<Longrightarrow> length v \<le> 253 \<Longrightarrow> \<exists>p'. addMicrosoftVSA lib ty v p = Inr p' \<and> ro_Secret p' = ro_Secret p"
  by (simp add: addMicrosoftVSA_def Let_def)

lemma addMPPEKeys_total:
  assumes "draws_ok draws" "\<forall>a. rl_refuses lib a = None" "ro_Secret p \<noteq> []" "length msk = 64"
  shows "\<exists>p'. addMPPEKeys lib draws p msk = Some (Inr p')"
proof -
  obtain rs fs where d: "newMPPESalt draws 0 = Inr rs" "newMPPESalt draws 1 = Inr fs"
    using newMPPESalt_drawn [OF assms(1)] by blast
  have "\<exists>y. other_salt draws rs fs 2 = Some y"
  proof (cases "rs = fs")
    case True
    obtain j where j: "1 \<le> j" "newMPPESalt draws j \<noteq> Inr rs" using assms(1) d(1) by (auto simp: draws_ok_def)
    with d(2) True have "2 \<le> j" by (cases "j = 1") auto
    with j(2) show ?thesis unfolding other_salt_returns_iff by blast
  qed (auto simp: other_salt_returns_iff)
  then obtain ss where o: "other_salt draws rs fs 2 = Some (Inr ss)" using other_salt_no_error assms(1) by blast
  have good: "good_salt rs" "good_salt ss"
    using newMPPESalt_good [OF d(1)] newMPPESalt_good [OF d(2)] other_salt_sound [OF o] by auto
  obtain rv where rv: "encryptMPPEKey (ro_Secret p) (ro_Authenticator p) rs (take 32 msk) = Inr rv"
    using encryptMPPEKey_total [OF assms(3) good(1)] assms(4) by fastforce
  then have "length rv \<le> 253" using encryptMPPEKey_cases(2) [OF rv] assms(4) by simp
  then obtain p1 where p1: "addMicrosoftVSA lib msMPPERecvKey rv p = Inr p1" "ro_Secret p1 = ro_Secret p"
    using addMicrosoftVSA_total [OF assms(2)] by blast
  obtain sv where sv: "encryptMPPEKey (ro_Secret p1) (ro_Authenticator p1) ss (slice msk 32 64) = Inr sv"
    using encryptMPPEKey_total [of "ro_Secret p1" ss "slice msk 32 64"] assms(3,4) good(2) p1(2) by (fastforce simp: slice_def)
  then have "length sv \<le> 253" using encryptMPPEKey_cases(2) [OF sv] assms(4) by (simp add: slice_def)
  then obtain p2 where "addMicrosoftVSA lib msMPPESendKey sv p1 = Inr p2"
    using addMicrosoftVSA_total [OF assms(2)] by blast
  with d o rv p1 sv assms(4) show ?thesis by (simp add: addMPPEKeys_def Let_def)
qed

end
