(* ===== verification/Radius.thy ===== *)
theory Radius
  imports RadiusMppe LifeBase
begin

text \<open>
  The RADIUS server (\<open>internal/radius/server.go\<close>): from a packet of an access point to a request of the
  lifecycle service, and from its response to the packet sent back. The service is an argument (a
  function on its state), so the handlers are composed with the model of the service where a property
  needs it. \<open>handle\<close> runs in a goroutine of its own: a panic ends the program.
\<close>

section \<open>The server\<close>

record radius_server =
  rs_cfg :: radius_config
  rs_sub :: subscriber_config
  rs_accounting :: bool          \<comment> \<open>\<open>s.accounting != nil\<close>\<close>
  rs_allowedSources :: "ipnet list"

record radius_env =
  re_lib :: radius_lib
  re_draws :: draws
  re_now :: time
  re_text :: "svc_err \<Rightarrow> string"     \<comment> \<open>\<open>err.Error()\<close>\<close>
  re_quote :: "string \<Rightarrow> string"     \<comment> \<open>\<open>%q\<close>\<close>

datatype radius_out =
    NoReply
  | Reply radius_reply   \<comment> \<open>handed to \<open>w.Write\<close>\<close>
  | Panics
  | Hangs                \<comment> \<open>in the loop for a second salt\<close>

definition radius_New :: "radius_config \<Rightarrow> subscriber_config \<Rightarrow> bool \<Rightarrow> radius_server" where
  "radius_New cfg sub accounting = \<lparr> rs_cfg = (if rc_VLANID cfg = 0 then cfg\<lparr> rc_VLANID := 10 \<rparr> else cfg), rs_sub = sub,
     rs_accounting = accounting, rs_allowedSources = parseAllowedSources (rc_AllowedSourceSubnets cfg) \<rparr>"

section \<open>Requests\<close>

definition nas_ip :: "radius_packet \<Rightarrow> net_addr \<Rightarrow> string" where
  "nas_ip packet remoteAddr =
     (let nasIP = (if ri_NASIPAddress packet \<noteq> None \<and> to4 (ri_NASIPAddress packet) \<noteq> None
        then ip_string (ri_NASIPAddress packet) else [])
      in if nasIP = [] then radiusSourceIP remoteAddr else nasIP)"

definition eapRequest :: "subscriber_config \<Rightarrow> radius_packet \<Rightarrow> net_addr \<Rightarrow> eap_request option" where
  \<comment> \<open>\<open>None\<close>: panics\<close>
  "eapRequest sub packet remoteAddr = (case eapIdentity (ri_EAPMessage packet) of None \<Rightarrow> None
     | Some eapID \<Rightarrow>
        let username = (if ri_UserName packet = [] then eapID else ri_UserName packet) in Some
        \<lparr> eq_SessionID = ri_State packet, eq_IMSI = imsiFromNAI username, eq_MSISDN = [],
          eq_MACAddress = radius_normalizeMAC (ri_CallingStationID packet), eq_Username = username,
          eq_EAPIdentity = eapID, eq_Realm = su_DefaultRealm sub, eq_APN = su_DefaultAPN sub,
          eq_CallingStationID = ri_CallingStationID packet, eq_CalledStationID = ri_CalledStationID packet,
          eq_NASIP = nas_ip packet remoteAddr, eq_NASIdentifier = ri_NASIdentifier packet,
          eq_AcctSessionID = ri_AcctSessionID packet, eq_RadiusClass = ri_Class packet,
          eq_ConnectInfo = ri_ConnectInfo packet, eq_FramedMTU = ri_FramedMTU packet,
          eq_EAPPayload = ri_EAPMessage packet \<rparr>)"

definition accountingStatus :: "u32 \<Rightarrow> string \<Rightarrow> accounting_status" where
  "accountingStatus status name = (if status = 1 then AccountingStart else if status = 2 then AccountingStop
     else if status = 3 then AccountingInterimUpdate else if status = 7 then AccountingOn
     else if status = 8 then AccountingOff else AccountingOther name)"

definition acctCounter :: "u64 \<Rightarrow> u64 \<Rightarrow> u64" where
  "acctCounter octets gigawords = push_bit 32 gigawords OR octets"

definition accountingRequest :: "radius_packet \<Rightarrow> net_addr \<Rightarrow> accounting_request" where
  \<comment> \<open>without the fields the service only logs\<close>
  "accountingRequest packet remoteAddr =
     \<lparr> aq_StatusType = accountingStatus (ri_AcctStatusType packet) (ri_AcctStatusName packet),
       aq_UserName = ri_UserName packet, aq_IMSI = imsiFromNAI (ri_UserName packet),
       aq_MACAddress = radius_normalizeMAC (ri_CallingStationID packet),
       aq_CallingStationID = ri_CallingStationID packet, aq_CalledStationID = ri_CalledStationID packet,
       aq_NASIP = nas_ip packet remoteAddr, aq_NASIdentifier = ri_NASIdentifier packet,
       aq_AcctSessionID = ri_AcctSessionID packet, aq_AcctMultiSessionID = ri_AcctMultiSessionID packet,
       aq_InputOctets = acctCounter (ucast (ri_AcctInputOctets packet)) (ucast (ri_AcctInputGigawords packet)),
       aq_OutputOctets = acctCounter (ucast (ri_AcctOutputOctets packet)) (ucast (ri_AcctOutputGigawords packet)),
       aq_InputPackets = ucast (ri_AcctInputPackets packet), aq_OutputPackets = ucast (ri_AcctOutputPackets packet),
       aq_TerminateCause = ri_AcctTerminateCause packet,
       aq_FramedIPAddress = (if ri_FramedIPAddress packet \<noteq> None \<and> ip_equal (ri_FramedIPAddress packet) IPv4zero
         then None else ri_FramedIPAddress packet),
       aq_Class = ri_Class packet, aq_EventTimestamp = ri_EventTimestamp packet,
       aq_ConnectInfo = ri_ConnectInfo packet \<rparr>"

section \<open>Replies\<close>

definition hasMessageAuthenticator :: "radius_reply \<Rightarrow> bool" where
  "hasMessageAuthenticator packet \<longleftrightarrow>
     list_ex (\<lambda>a. case a of MessageAuthenticator m \<Rightarrow> m \<noteq> [] | _ \<Rightarrow> False) (ro_Attributes packet)"

definition setMessageAuthenticator :: "radius_lib \<Rightarrow> radius_reply \<Rightarrow> string + radius_reply" where
  "setMessageAuthenticator lib packet =
     (case set_attr lib (MessageAuthenticator (replicate 16 0)) packet of Inl e \<Rightarrow> Inl e
      | Inr p \<Rightarrow> (case rl_marshal lib p of Inl e \<Rightarrow> Inl e
        | Inr wire \<Rightarrow> set_attr lib (MessageAuthenticator (hmac md5 (ro_Secret p) wire)) p))"

definition reject :: "radius_lib \<Rightarrow> radius_packet \<Rightarrow> string \<Rightarrow> radius_out" where
  "reject lib r reason = Reply (set_or_skip lib (ReplyMessage reason) (Response r AccessReject))"

definition add_attr :: "radius_lib \<Rightarrow> string \<Rightarrow> radius_attr \<Rightarrow> string + radius_reply \<Rightarrow> string + radius_reply" where
  \<comment> \<open>a setter with its error wrapped, after steps that may have failed\<close>
  "add_attr lib what a x = (case x of Inl e \<Rightarrow> Inl e
     | Inr p \<Rightarrow> (case set_attr lib a p of Inl e \<Rightarrow> Inl (what @ '': '' @ e) | Inr p' \<Rightarrow> Inr p'))"

definition addAccessAcceptLifetime ::
  "radius_env \<Rightarrow> radius_access_accept_config \<Rightarrow> radius_reply \<Rightarrow> string + radius_reply" where
  "addAccessAcceptLifetime env cfg packet =
     (let lib = re_lib env;
          p1 = (if 0 < raa_SessionTimeoutSeconds cfg
            then add_attr lib ''set radius session timeout'' (SessionTimeout (word_of_int (raa_SessionTimeoutSeconds cfg))) (Inr packet)
            else Inr packet);
          p2 = (case p1 of Inl e \<Rightarrow> Inl e | Inr p \<Rightarrow>
            if raa_TerminationAction cfg = [] \<or> raa_TerminationAction cfg = ''radius_request''
            then add_attr lib ''set radius termination action'' (TerminationAction 1) (Inr p)
            else if raa_TerminationAction cfg = ''default''
            then add_attr lib ''set radius termination action'' (TerminationAction 0) (Inr p)
            else Inl (''unsupported radius termination action '' @ re_quote env (raa_TerminationAction cfg)))
      in if 0 < raa_IdleTimeoutSeconds cfg
         then add_attr lib ''set radius idle timeout'' (IdleTimeout (word_of_int (raa_IdleTimeoutSeconds cfg))) p2
         else p2)"

definition addVLAN :: "radius_lib \<Rightarrow> int \<Rightarrow> radius_reply \<Rightarrow> string + radius_reply" where
  "addVLAN lib vlanID packet =
     add_attr lib ''set radius tunnel private group id'' (TunnelPrivateGroupID (dec_int vlanID))
       (add_attr lib ''set radius tunnel medium type'' (TunnelMediumType 6)
         (add_attr lib ''set radius tunnel type'' (TunnelType 13) (Inr packet)))"

definition challenge_out :: "radius_env \<Rightarrow> radius_packet \<Rightarrow> eap_response \<Rightarrow> radius_out" where
  "challenge_out env r resp =
     (let lib = re_lib env; challenge = Response r AccessChallenge
      in case describeEAP (ep_EAPPayload resp) of None \<Rightarrow> Panics
         | Some _ \<Rightarrow>
           let c1 = (if ep_EAPPayload resp \<noteq> [] then set_or_skip lib (EAPMessage (ep_EAPPayload resp)) challenge else challenge);
               c2 = (if ep_SessionID resp \<noteq> [] then set_or_skip lib (StateAttr (ep_SessionID resp)) c1 else c1)
           in if ep_EAPPayload resp \<noteq> []
              then (case setMessageAuthenticator lib c2 of Inl e \<Rightarrow> reject lib r e | Inr c \<Rightarrow> Reply c)
              else Reply c2)"

definition accept_out :: "radius_env \<Rightarrow> radius_server \<Rightarrow> radius_packet \<Rightarrow> eap_response option \<Rightarrow> radius_out" where
  "accept_out env srv r resp =
     (let lib = re_lib env; accept = Response r AccessAccept;
          ip = (case resp of None \<Rightarrow> [] | Some p \<Rightarrow> ep_SubscriberIP p);
          sid = (case resp of None \<Rightarrow> [] | Some p \<Rightarrow> ep_SessionID p);
          payload = (case resp of None \<Rightarrow> [] | Some p \<Rightarrow> ep_EAPPayload p);
          msk = (case resp of None \<Rightarrow> [] | Some p \<Rightarrow> ep_MSK p);
          a1 = (if ip \<noteq> [] then set_or_skip lib (FramedIPAddress (parse_ip ip)) accept else accept);
          a2 = (if sid \<noteq> [] then set_or_skip lib (ClassAttr (bytes_of sid)) a1 else a1)
      in case addAccessAcceptLifetime env (rc_AccessAccept (rs_cfg srv)) a2 of Inl e \<Rightarrow> reject lib r e
      | Inr a3 \<Rightarrow> (case addVLAN lib (rc_VLANID (rs_cfg srv)) a3 of Inl e \<Rightarrow> reject lib r e
      | Inr a4 \<Rightarrow>
         if payload = [] then Reply a4
         else let a5 = set_or_skip lib (EAPMessage payload) a4
              in case (if length msk = 64 then addMPPEKeys lib (re_draws env) a5 msk else Some (Inr a5)) of
                   None \<Rightarrow> Hangs | Some (Inl e) \<Rightarrow> reject lib r e
                 | Some (Inr a6) \<Rightarrow> (case setMessageAuthenticator lib a6 of Inl e \<Rightarrow> reject lib r e | Inr a7 \<Rightarrow> Reply a7)))"

definition eap_answer ::
  "radius_env \<Rightarrow> radius_server \<Rightarrow> radius_packet \<Rightarrow> eap_response option \<times> svc_err option \<Rightarrow> radius_out" where
  "eap_answer env srv r out = (case out of
       (resp, Some err) \<Rightarrow> reject (re_lib env) r
          (case resp of None \<Rightarrow> re_text env err | Some p \<Rightarrow> if ep_Reason p \<noteq> [] then ep_Reason p else re_text env err)
     | (Some p, None) \<Rightarrow> if ep_State p = EAPStateChallenge then challenge_out env r p else accept_out env srv r (Some p)
     | (None, None) \<Rightarrow> accept_out env srv r None)"

section \<open>The handlers\<close>

definition observe :: "bool \<Rightarrow> net_addr \<Rightarrow> string \<Rightarrow> string \<Rightarrow> string \<Rightarrow> ap_observation" where
  "observe accounting addr nasIP nasID called = \<lparr> ob_SourceIP = radiusSourceIP addr, ob_NASIP = nasIP,
     ob_NASIdentifier = nasID, ob_CalledStationID = called, ob_AccountingPacket = accounting \<rparr>"

definition handle ::
  "radius_env \<Rightarrow> radius_server \<Rightarrow> (eap_request \<Rightarrow> 's \<Rightarrow> (eap_response option \<times> svc_err option) \<times> 's)
     \<Rightarrow> net_addr \<Rightarrow> radius_packet \<Rightarrow> ap_registry \<times> 's \<Rightarrow> radius_out \<times> ap_registry \<times> 's" where
  "handle env srv eap addr r = (\<lambda>(registry, s).
     if \<not> sourceAllowed (rs_allowedSources srv) addr then (NoReply, registry, s)
     else if ri_Code r \<noteq> AccessRequest
     then (if addr = NilAddr then Panics else Reply (Response r AccessReject), registry, s)
     else case eapRequest (rs_sub srv) r addr of None \<Rightarrow> (Panics, registry, s)
     | Some q \<Rightarrow>
        let registry' = snd (ap_Update (re_now env)
              (observe False addr (eq_NASIP q) (eq_NASIdentifier q) (eq_CalledStationID q)) registry)
        in if describeEAP (eq_EAPPayload q) = None \<or> addr = NilAddr then (Panics, registry', s)
           else if eq_EAPPayload q = [] then (reject (re_lib env) r ''missing EAP-Message'', registry', s)
           else let (out, s') = eap q s in (eap_answer env srv r out, registry', s'))"

definition handleAccounting ::
  "radius_env \<Rightarrow> radius_server \<Rightarrow> (accounting_request \<Rightarrow> 's \<Rightarrow> svc_err option \<times> 's)
     \<Rightarrow> net_addr \<Rightarrow> radius_packet \<Rightarrow> ap_registry \<times> 's \<Rightarrow> radius_out \<times> ap_registry \<times> 's" where
  "handleAccounting env srv acct addr r = (\<lambda>(registry, s).
     if \<not> sourceAllowed (rs_allowedSources srv) addr then (NoReply, registry, s)
     else if ri_Code r \<noteq> AccountingRequest then (if addr = NilAddr then Panics else NoReply, registry, s)
     else let q = accountingRequest r addr;
              registry' = snd (ap_Update (re_now env)
                (observe True addr (aq_NASIP q) (aq_NASIdentifier q) (aq_CalledStationID q)) registry);
              reply = Reply (Response r AccountingResponse)
          in if rs_accounting srv
             then let (err, s') = acct q s in (if err \<noteq> None \<and> addr = NilAddr then Panics else reply, registry', s')
             else (reply, registry', s))"

section \<open>Starting and stopping\<close>

datatype listen_event =
    Returned "string option"   \<comment> \<open>\<open>ListenAndServe\<close> returned; a shutdown is no error\<close>
  | Serves                     \<comment> \<open>it did not return within 50 ms\<close>
  | Cancelled string           \<comment> \<open>the context was cancelled\<close>

record radius_listeners =
  rl_server :: bool            \<comment> \<open>\<open>s.server != nil\<close>\<close>
  rl_accountingServer :: bool

datatype shutdown_call = ShutdownServer | ShutdownAccountingServer

definition radius_Stop :: "(shutdown_call \<Rightarrow> string option) \<Rightarrow> radius_listeners \<Rightarrow> string option \<times> shutdown_call list" where
  "radius_Stop shutdown ls =
     (let first = (if rl_server ls then shutdown ShutdownServer else None);
          log = (if rl_server ls then [ShutdownServer] else [])
      in if first \<noteq> None then (first, log)
         else if rl_accountingServer ls then (shutdown ShutdownAccountingServer, log @ [ShutdownAccountingServer])
         else (None, log))"

definition radius_Start ::
  "string option \<Rightarrow> bool \<Rightarrow> listen_event \<Rightarrow> listen_event \<Rightarrow> (shutdown_call \<Rightarrow> string option)
     \<Rightarrow> radius_server \<Rightarrow> radius_listeners \<Rightarrow> string option \<times> radius_listeners \<times> shutdown_call list" where
  \<comment> \<open>\<open>ctx_err\<close>: \<open>ctx.Err()\<close>; \<open>eap\<close>: an EAP service was given\<close>
  "radius_Start ctx_err eap auth acct shutdown srv ls =
     (let cfg = rs_cfg srv; ls1 = ls\<lparr> rl_server := True \<rparr>; ls2 = ls1\<lparr> rl_accountingServer := True \<rparr>
      in if ctx_err \<noteq> None then (ctx_err, ls, [])
         else if \<not> rc_Enabled cfg then (None, ls, [])
         else if \<not> eap then (Some ''radius eap service is required'', ls, [])
         else if rc_Secret cfg = [] then (Some ''radius secret is required'', ls, [])
         else case auth of
           Returned (Some e) \<Rightarrow> (Some (''start radius server: '' @ e), ls1, [])
         | Cancelled e \<Rightarrow> (Some e, ls1, snd (radius_Stop shutdown ls1))
         | _ \<Rightarrow>
           if \<not> rad_Enabled (rc_Accounting cfg) then (None, ls1, [])
           else if \<not> rs_accounting srv then (Some ''radius accounting service is required'', ls1, [])
           else (case acct of
               Returned (Some e) \<Rightarrow> (Some (''start radius accounting server: '' @ e), ls2, [])
             | Cancelled e \<Rightarrow> (Some e, ls2, snd (radius_Stop shutdown ls2))
             | _ \<Rightarrow> (None, ls2, [])))"

end
