(* ===== verification/RadiusCoA.thy ===== *)
theory RadiusCoA
  imports RadiusBase Session
begin

text \<open>
  The dynamic authorization client (\<open>internal/radius/dynamic_authorization.go\<close>): it asks an access
  point to disconnect, or to authorize again, the client of a lost session, some times if there is no
  answer. One exchange over UDP, with the library's retransmissions, is an argument of the model, as are
  the identifier and the authenticator the library draws for a new packet.
\<close>

section \<open>The request\<close>

definition mac_of :: "bytes option \<Rightarrow> string" where
  "mac_of m = (case m of None \<Rightarrow> [] | Some hw \<Rightarrow> mac_string hw)"

definition addDynamicAuthorizationAttributes :: "radius_lib \<Rightarrow> tombstone \<Rightarrow> string \<Rightarrow> radius_reply \<Rightarrow> radius_reply" where
  "addDynamicAuthorizationAttributes lib t nasIP p0 =
     (let p1 = (if t_OriginalUsername t \<noteq> [] then set_or_skip lib (UserName (t_OriginalUsername t)) p0
            else if t_IMSI t \<noteq> [] then set_or_skip lib (UserName (t_IMSI t)) p0 else p0);
          calling = (if t_CallingStationID t = [] then mac_of (t_MAC t) else t_CallingStationID t);
          p2 = (if calling \<noteq> [] then set_or_skip lib (CallingStationID calling) p1 else p1);
          p3 = (if t_CalledStationID t \<noteq> [] then set_or_skip lib (CalledStationID (t_CalledStationID t)) p2 else p2);
          p4 = (if parse_ip nasIP \<noteq> None then set_or_skip lib (NASIPAddress (parse_ip nasIP)) p3 else p3);
          p5 = (if t_NASIdentifier t \<noteq> [] then set_or_skip lib (NASIdentifier (t_NASIdentifier t)) p4 else p4);
          p6 = (if t_AcctSessionID t \<noteq> [] then set_or_skip lib (AcctSessionID (t_AcctSessionID t)) p5
            else if t_OldSessionID t \<noteq> [] then set_or_skip lib (AcctSessionID (t_OldSessionID t)) p5 else p5);
          p7 = (if t_Class t \<noteq> [] then set_or_skip lib (ClassAttr (t_Class t)) p6
            else if t_OldSessionID t \<noteq> [] then set_or_skip lib (ClassAttr (bytes_of (t_OldSessionID t))) p6 else p6)
      in if t_OldSubscriberIP t \<noteq> None then set_or_skip lib (FramedIPAddress (t_OldSubscriberIP t)) p7 else p7)"

record coa_kind =
  ck_code :: radius_code
  ck_ack :: radius_code
  ck_nak :: radius_code
  ck_type :: string

definition coa_kind_of :: "string \<Rightarrow> coa_kind" where
  "coa_kind_of requestType = (if requestType = ''coa''
     then \<lparr> ck_code = CoARequest, ck_ack = CoAACK, ck_nak = CoANAK, ck_type = ''coa'' \<rparr>
     else \<lparr> ck_code = DisconnectRequest, ck_ack = DisconnectACK, ck_nak = DisconnectNAK, ck_type = ''disconnect'' \<rparr>)"

section \<open>The attempts\<close>

record coa_net =
  cn_fresh :: "nat \<Rightarrow> byte \<times> bytes"   \<comment> \<open>identifier and authenticator of the packet of an attempt\<close>
  cn_exchange :: "nat \<Rightarrow> int \<Rightarrow> string \<Rightarrow> radius_reply \<Rightarrow> string + radius_code \<times> string"
    \<comment> \<open>by attempt, timeout, address and request: the error, or the code of the answer and its error cause\<close>
  cn_code_name :: "radius_code \<Rightarrow> string"
  cn_lib :: radius_lib

definition coa_packet :: "coa_net \<Rightarrow> radius_disconnect_config \<Rightarrow> tombstone \<Rightarrow> nat \<Rightarrow> radius_reply" where
  "coa_packet net cfg t i = addDynamicAuthorizationAttributes (cn_lib net) t (t_NASIP t)
     \<lparr> ro_Code = ck_code (coa_kind_of (rd_RequestType cfg)), ro_Identifier = fst (cn_fresh net i),
       ro_Secret = bytes_of (rd_Secret cfg), ro_Authenticator = snd (cn_fresh net i), ro_Attributes = [] \<rparr>"

definition coa_timeout :: "radius_disconnect_config \<Rightarrow> int" where
  "coa_timeout cfg = (if seconds (rd_TimeoutSeconds cfg) \<le> 0 then seconds 3 else seconds (rd_TimeoutSeconds cfg))"

fun coa_attempts :: "coa_net \<Rightarrow> radius_disconnect_config \<Rightarrow> tombstone \<Rightarrow> string \<Rightarrow> nat \<Rightarrow> nat \<Rightarrow> string option
    \<Rightarrow> string option \<times> radius_reply list" where
  \<comment> \<open>the loop: attempts left, number of this attempt, last error; the error and the packets sent\<close>
  "coa_attempts net cfg t addr 0 i lastErr =
     (Some (case lastErr of None \<Rightarrow> ''RADIUS dynamic authorization timed out'' | Some e \<Rightarrow> e), [])"
| "coa_attempts net cfg t addr (Suc n) i lastErr =
     (let kind = coa_kind_of (rd_RequestType cfg); packet = coa_packet net cfg t i;
          again = (\<lambda>e. let (r, ps) = coa_attempts net cfg t addr n (Suc i) (Some e) in (r, packet # ps))
      in case cn_exchange net i (coa_timeout cfg) addr packet of
           Inl e \<Rightarrow> again e
         | Inr (code, cause) \<Rightarrow>
             if code = ck_ack kind then (None, [packet])
             else if code = ck_nak kind
             then (Some (''RADIUS '' @ ck_type kind @ '' NAK received: error_cause='' @ cause), [packet])
             else again (''unexpected RADIUS dynamic authorization response code '' @ cn_code_name net code))"

definition coa_addr :: "radius_disconnect_config \<Rightarrow> tombstone \<Rightarrow> string" where
  "coa_addr cfg t = t_NASIP t @ '':'' @ dec_int (rd_NASPort cfg)"

definition DisconnectOrCoA :: "coa_net \<Rightarrow> radius_disconnect_config \<Rightarrow> tombstone option \<Rightarrow> string option \<times> radius_reply list" where
  "DisconnectOrCoA net cfg to = (case to of None \<Rightarrow> (Some ''recovery tombstone is required'', [])
     | Some t \<Rightarrow>
        if \<not> rd_Enabled cfg then (Some ''RADIUS dynamic authorization disabled'', [])
        else if parse_ip (t_NASIP t) = None
        then (Some ''RADIUS dynamic authorization destination NAS IP unavailable for session'', [])
        else coa_attempts net cfg t (coa_addr cfg t) (nat (rd_Retries cfg + 1)) 1 None)"

section \<open>What the loop does\<close>

definition acked :: "coa_net \<Rightarrow> radius_disconnect_config \<Rightarrow> tombstone \<Rightarrow> nat \<Rightarrow> bool" where
  "acked net cfg t i \<longleftrightarrow> (\<exists>cause. cn_exchange net i (coa_timeout cfg) (coa_addr cfg t) (coa_packet net cfg t i)
     = Inr (ck_ack (coa_kind_of (rd_RequestType cfg)), cause))"

definition refused_by_nas :: "coa_net \<Rightarrow> radius_disconnect_config \<Rightarrow> tombstone \<Rightarrow> nat \<Rightarrow> bool" where
  "refused_by_nas net cfg t i \<longleftrightarrow> (\<exists>cause. cn_exchange net i (coa_timeout cfg) (coa_addr cfg t) (coa_packet net cfg t i)
     = Inr (ck_nak (coa_kind_of (rd_RequestType cfg)), cause))"

lemma coa_codes_differ: "ck_ack (coa_kind_of ty) \<noteq> ck_nak (coa_kind_of ty)"
  by (simp add: coa_kind_of_def)

lemma not_both: "\<not> (acked net cfg t i \<and> refused_by_nas net cfg t i)"
  using coa_codes_differ [of "rd_RequestType cfg"] by (auto simp: acked_def refused_by_nas_def)

text \<open>The loop succeeds exactly if some attempt is acknowledged and none before it was refused; it sends
  the packets of the attempts up to the first that is answered.\<close>

lemma coa_attempts_result:
  "fst (coa_attempts net cfg t (coa_addr cfg t) n i lastErr) = None \<longleftrightarrow>
     (\<exists>k<n. acked net cfg t (i + k) \<and> (\<forall>j<k. \<not> refused_by_nas net cfg t (i + j)))"
proof (induction n arbitrary: i lastErr)
  case (Suc n)
  let ?x = "cn_exchange net i (coa_timeout cfg) (coa_addr cfg t) (coa_packet net cfg t i)"
  have less: "(\<exists>k<Suc n. P k) \<longleftrightarrow> P 0 \<or> (\<exists>k<n. P (Suc k))" "(\<forall>k<Suc m. P k) \<longleftrightarrow> P 0 \<and> (\<forall>k<m. P (Suc k))" for P m
    by (auto simp: less_Suc_eq_0_disj)
  consider (ack) "acked net cfg t i" "\<not> refused_by_nas net cfg t i" | (nak) "refused_by_nas net cfg t i" "\<not> acked net cfg t i"
    | (again) "\<not> acked net cfg t i" "\<not> refused_by_nas net cfg t i"
    using not_both by blast
  then show ?case
  proof cases
    case ack
    then show ?thesis by (auto simp: acked_def Let_def less)
  next
    case nak
    then show ?thesis using coa_codes_differ [of "rd_RequestType cfg"]
      by (auto simp: less refused_by_nas_def Let_def)
  next
    case again
    then obtain e where "fst (coa_attempts net cfg t (coa_addr cfg t) (Suc n) i lastErr)
        = fst (coa_attempts net cfg t (coa_addr cfg t) n (Suc i) (Some e))"
      by (cases ?x) (auto simp: acked_def refused_by_nas_def Let_def split_beta)
    with again Suc.IH [of "Suc i" "Some e"] show ?thesis by (simp add: less del: coa_attempts.simps)
  qed
qed simp

lemma coa_turn:
  "snd (coa_attempts net cfg t addr (Suc n) i lastErr) = [coa_packet net cfg t i]
     \<or> (\<exists>e. snd (coa_attempts net cfg t addr (Suc n) i lastErr)
          = coa_packet net cfg t i # snd (coa_attempts net cfg t addr n (Suc i) (Some e)))"
proof (cases "cn_exchange net i (coa_timeout cfg) addr (coa_packet net cfg t i)")
  case (Inr r)
  then show ?thesis by (cases r) (auto simp: Let_def split_beta)
qed (auto simp: Let_def split_beta)

lemma coa_attempts_sent:
  "\<exists>m\<le>n. snd (coa_attempts net cfg t addr n i lastErr) = map (coa_packet net cfg t) [i..<i + m]"
proof (induction n arbitrary: i lastErr)
  case (Suc n)
  let ?p = "coa_packet net cfg t i"
  consider (last) "snd (coa_attempts net cfg t addr (Suc n) i lastErr) = [?p]"
    | (more) e where "snd (coa_attempts net cfg t addr (Suc n) i lastErr) = ?p # snd (coa_attempts net cfg t addr n (Suc i) (Some e))"
    using coa_turn by blast
  then show ?case
  proof cases
    case last
    then show ?thesis by (intro exI [of _ 1]) simp
  next
    case more
    from Suc [of "Suc i" "Some e"] obtain m where "m \<le> n"
      "snd (coa_attempts net cfg t addr n (Suc i) (Some e)) = map (coa_packet net cfg t) [Suc i..<Suc i + m]" by blast
    moreover have "[i..<i + Suc m] = i # [Suc i..<Suc i + m]" by (simp add: upt_rec)
    ultimately show ?thesis using more by (intro exI [of _ "Suc m"]) (simp del: upt_Suc)
  qed
qed simp

text \<open>Nothing but attributes is added to a packet: its code, its secret and its authenticator stay.\<close>

lemma set_or_skip_kept [simp]:
  "ro_Code (set_or_skip lib a p) = ro_Code p" "ro_Secret (set_or_skip lib a p) = ro_Secret p"
  "ro_Authenticator (set_or_skip lib a p) = ro_Authenticator p" "ro_Identifier (set_or_skip lib a p) = ro_Identifier p"
  by (auto simp: set_or_skip_def set_attr_def split: option.split)

lemma set_or_skip_mem:
  "b \<in> set (ro_Attributes (set_or_skip lib a p)) \<longleftrightarrow>
     (if rl_refuses lib a = None then b = a \<or> b \<in> set (ro_Attributes p) \<and> attr_type b \<noteq> attr_type a
      else b \<in> set (ro_Attributes p))"
  by (auto simp: set_or_skip_def set_attr_def split: option.split)

text \<open>The access point can find the session: every identifier the tombstone has is in the request.\<close>

definition identifies :: "radius_lib \<Rightarrow> tombstone \<Rightarrow> radius_reply \<Rightarrow> bool" where
  "identifies lib t p \<longleftrightarrow>
     (t_OriginalUsername t \<noteq> [] \<longrightarrow> UserName (t_OriginalUsername t) \<in> set (ro_Attributes p))
   \<and> (t_CallingStationID t \<noteq> [] \<longrightarrow> CallingStationID (t_CallingStationID t) \<in> set (ro_Attributes p))
   \<and> (t_CallingStationID t = [] \<and> mac_of (t_MAC t) \<noteq> [] \<longrightarrow> CallingStationID (mac_of (t_MAC t)) \<in> set (ro_Attributes p))
   \<and> (t_AcctSessionID t \<noteq> [] \<longrightarrow> AcctSessionID (t_AcctSessionID t) \<in> set (ro_Attributes p))
   \<and> (t_Class t \<noteq> [] \<longrightarrow> ClassAttr (t_Class t) \<in> set (ro_Attributes p))
   \<and> (t_Class t = [] \<and> t_OldSessionID t \<noteq> [] \<longrightarrow> ClassAttr (bytes_of (t_OldSessionID t)) \<in> set (ro_Attributes p))
   \<and> (t_OldSubscriberIP t \<noteq> None \<longrightarrow> FramedIPAddress (t_OldSubscriberIP t) \<in> set (ro_Attributes p))"

lemma attributes_identify:
  assumes "rl_refuses lib = (\<lambda>_. None)"
  shows "identifies lib t (addDynamicAuthorizationAttributes lib t nasIP p)"
  unfolding identifies_def addDynamicAuthorizationAttributes_def Let_def
  by (simp add: set_or_skip_mem assms)

lemma coa_packet_fields:
  "ro_Code (coa_packet net cfg t i) = ck_code (coa_kind_of (rd_RequestType cfg))"
  "ro_Secret (coa_packet net cfg t i) = bytes_of (rd_Secret cfg)"
  by (simp_all add: coa_packet_def addDynamicAuthorizationAttributes_def Let_def)

section \<open>Addresses with colons\<close>

text \<open>The address is built without brackets: for an access point with an IPv6 address it has no port.\<close>

lemma coa_addr_ipv6:
  assumes "CHR '':'' \<in> set (t_NASIP t)" "hd (t_NASIP t) \<noteq> CHR ''[''" "0 \<le> rd_NASPort cfg"
  shows "\<exists>e. SplitHostPort (coa_addr cfg t) = Inl e"
proof -
  have d: "CHR '':'' \<notin> set (dec n)" for n
    using dec_digits [of "CHR '':''" n] by (auto simp: code_of_def)
  have "takeWhile (\<lambda>c. c \<noteq> CHR '':'') (rev (dec n)) = rev (dec n)" for n
    unfolding takeWhile_eq_all_conv using d by fastforce
  then have t: "takeWhile (\<lambda>c. c \<noteq> CHR '':'') (rev (coa_addr cfg t)) = rev (dec (nat (rd_NASPort cfg)))"
    using assms(3) by (simp add: coa_addr_def dec_int_def takeWhile_tail)
  then have l: "last_colon (coa_addr cfg t) = Some (length (t_NASIP t))"
    using assms(3) by (simp add: last_colon_def Let_def coa_addr_def dec_int_def)
  have "take (length (t_NASIP t)) (coa_addr cfg t) = t_NASIP t" "hd (coa_addr cfg t) \<noteq> CHR ''[''"
    using assms(1,2) by (cases "t_NASIP t"; simp add: coa_addr_def)+
  with l assms(1) show ?thesis by (auto simp: SplitHostPort_def Let_def)
qed

end
