(* ===== verification/RadiusProps.thy ===== *)
theory RadiusProps
  imports Radius RadiusCoA LifeProps ConfigProps
begin

text \<open>
  What the RADIUS server promises: the contents of an Access-Accept, the keys in it, the sources it
  answers, the packets that end the program, and the requests it sends to access points. The handlers
  run here on the model of the lifecycle service.
\<close>

section \<open>Building a reply\<close>

definition grown :: "nat set \<Rightarrow> radius_reply \<Rightarrow> radius_reply \<Rightarrow> bool" where
  \<comment> \<open>only attributes of the given types changed\<close>
  "grown T p p' \<longleftrightarrow> ro_Code p' = ro_Code p \<and> ro_Identifier p' = ro_Identifier p \<and> ro_Secret p' = ro_Secret p
     \<and> ro_Authenticator p' = ro_Authenticator p
     \<and> (\<forall>b. attr_type b \<notin> T \<longrightarrow> (b \<in> set (ro_Attributes p') \<longleftrightarrow> b \<in> set (ro_Attributes p)))
     \<and> (26 \<notin> T \<longrightarrow> (\<forall>ty. vendor_strings ty (ro_Attributes p') = vendor_strings ty (ro_Attributes p)))"

lemma grown_refl [simp]: "grown T p p"
  by (simp add: grown_def)

lemma grown_trans: "grown S p q \<Longrightarrow> grown T q r \<Longrightarrow> grown (S \<union> T) p r"
  by (auto simp: grown_def)

lemma grown_keep: "grown T p p' \<Longrightarrow> b \<in> set (ro_Attributes p) \<Longrightarrow> attr_type b \<notin> T \<Longrightarrow> b \<in> set (ro_Attributes p')"
  by (simp add: grown_def)

lemma grown_keys: "grown T p p' \<Longrightarrow> 26 \<notin> T \<Longrightarrow> nas_keys ty p' = nas_keys ty p"
  by (simp add: grown_def nas_keys_def)

lemma grown_code: "grown T p p' \<Longrightarrow> ro_Code p' = ro_Code p"
  by (simp add: grown_def)

lemma vendor_strings_filter: "k \<noteq> 26 \<Longrightarrow> vendor_strings ty (filter (\<lambda>b. attr_type b \<noteq> k) as) = vendor_strings ty as"
  by (induction as) (auto simp: vendor_strings_def split: radius_attr.split)

lemma vendor_strings_other: "attr_type a \<noteq> 26 \<Longrightarrow> vendor_strings ty [a] = []"
  by (cases a) (auto simp: vendor_strings_def)

lemma set_attr_grown: "set_attr lib a p = Inr p' \<Longrightarrow> grown {attr_type a} p p' \<and> a \<in> set (ro_Attributes p')"
  by (auto simp: set_attr_def grown_def vendor_strings_filter vendor_strings_other split: option.splits)

lemma set_or_skip_grown: "grown {attr_type a} p (set_or_skip lib a p)"
  using set_attr_grown by (auto simp: set_or_skip_def split: sum.split)

lemma add_attr_grown: "add_attr lib what a x = Inr p' \<Longrightarrow> \<exists>p. x = Inr p \<and> grown {attr_type a} p p'"
  using set_attr_grown by (auto simp: add_attr_def split: sum.splits)

lemma lifetime_grown: "addAccessAcceptLifetime env cfg p = Inr p' \<Longrightarrow> grown {27, 28, 29} p p'"
proof -
  assume a: "addAccessAcceptLifetime env cfg p = Inr p'"
  define p1 where "p1 = (if 0 < raa_SessionTimeoutSeconds cfg
    then add_attr (re_lib env) ''set radius session timeout'' (SessionTimeout (word_of_int (raa_SessionTimeoutSeconds cfg))) (Inr p)
    else Inr p)"
  have 1: "p1 = Inr q \<Longrightarrow> grown {27} p q" for q
    using add_attr_grown [of "re_lib env" _ "SessionTimeout (word_of_int (raa_SessionTimeoutSeconds cfg))" "Inr p" q]
    by (auto simp: p1_def split: if_splits)
  have 2: "(case p1 of Inl e \<Rightarrow> Inl e | Inr q \<Rightarrow>
            if raa_TerminationAction cfg = [] \<or> raa_TerminationAction cfg = ''radius_request''
            then add_attr (re_lib env) ''set radius termination action'' (TerminationAction 1) (Inr q)
            else if raa_TerminationAction cfg = ''default''
            then add_attr (re_lib env) ''set radius termination action'' (TerminationAction 0) (Inr q)
            else Inl (''unsupported radius termination action '' @ re_quote env (raa_TerminationAction cfg))) = Inr q
      \<Longrightarrow> grown ({27} \<union> {29}) p q" (is "?p2 = _ \<Longrightarrow> _") for q
  proof -
    assume "?p2 = Inr q"
    then obtain q0 where "p1 = Inr q0" "grown {29} q0 q"
      using add_attr_grown [of "re_lib env" _ "TerminationAction 1" "Inr _" q]
        add_attr_grown [of "re_lib env" _ "TerminationAction 0" "Inr _" q]
      by (auto split: sum.splits if_splits)
    from grown_trans [OF 1 [OF this(1)] this(2)] show "grown ({27} \<union> {29}) p q" .
  qed
  have "grown ({27} \<union> {29} \<union> {28}) p p'"
  proof (cases "0 < raa_IdleTimeoutSeconds cfg")
    case True
    with a obtain q where "?p2 = Inr q" "grown {28} q p'"
      using add_attr_grown [of "re_lib env" _ "IdleTimeout (word_of_int (raa_IdleTimeoutSeconds cfg))" ?p2 p']
      by (auto simp: addAccessAcceptLifetime_def p1_def Let_def)
    with 2 show ?thesis by (blast intro: grown_trans)
  next
    case False
    with a have "?p2 = Inr p'" by (simp add: addAccessAcceptLifetime_def p1_def Let_def)
    from grown_trans [OF 2 [OF this] grown_refl] show ?thesis .
  qed
  then show ?thesis by (simp add: insert_commute)
qed

lemma vlan_grown: "addVLAN lib vlanID p = Inr p' \<Longrightarrow> grown {64, 65, 81} p p'"
  unfolding addVLAN_def
  by (drule add_attr_grown, elim exE conjE, drule add_attr_grown, elim exE conjE, drule add_attr_grown)
    (auto dest: grown_trans simp: insert_commute)

section \<open>The message authenticator\<close>

fun is_ma :: "radius_attr \<Rightarrow> bool" where
  "is_ma (MessageAuthenticator _) = True"
| "is_ma _ = False"

definition zero_ma :: "radius_attr \<Rightarrow> radius_attr" where
  "zero_ma a = (if is_ma a then MessageAuthenticator (replicate 16 0) else a)"

definition ma_valid :: "radius_lib \<Rightarrow> radius_reply \<Rightarrow> bool" where
  \<comment> \<open>what a receiver checks (RFC 3579, section 3.2): the packet has one message authenticator, the HMAC of the
    packet with sixteen zeros in its place\<close>
  "ma_valid lib p \<longleftrightarrow> (\<exists>m wire. filter is_ma (ro_Attributes p) = [MessageAuthenticator m]
     \<and> rl_marshal lib (p\<lparr> ro_Attributes := map zero_ma (ro_Attributes p) \<rparr>) = Inr wire
     \<and> m = hmac md5 (ro_Secret p) wire)"

lemma is_ma_type: "is_ma a \<longleftrightarrow> attr_type a = 80"
  by (cases a) simp_all

lemma setMessageAuthenticator_valid:
  assumes "setMessageAuthenticator lib p = Inr p'" shows "ma_valid lib p'" "grown {80} p p'"
proof -
  let ?as = "filter (\<lambda>b. attr_type b \<noteq> 80) (ro_Attributes p)"
  from assms obtain wire where w: "rl_marshal lib (p\<lparr> ro_Attributes := ?as @ [MessageAuthenticator (replicate 16 0)] \<rparr>) = Inr wire"
    and p': "p' = p\<lparr> ro_Attributes := ?as @ [MessageAuthenticator (hmac md5 (ro_Secret p) wire)] \<rparr>"
    by (auto simp: setMessageAuthenticator_def set_attr_def split: option.splits sum.splits)
  have "map zero_ma ?as = ?as" by (rule map_idI) (simp add: zero_ma_def is_ma_type)
  moreover have "filter is_ma ?as = []" by (simp add: is_ma_type filter_empty_conv)
  ultimately show "ma_valid lib p'" using w by (simp add: ma_valid_def p' zero_ma_def)
  show "grown {80} p p'"
    by (auto simp: p' grown_def vendor_strings_filter vendor_strings_other)
qed

section \<open>Access-Accept\<close>

lemma addMPPEKeys_grown: "addMPPEKeys lib draws p msk = Some (Inr p') \<Longrightarrow> grown {26} p p' \<and> length msk = 64"
  by (drule addMPPEKeys_cases) (auto simp: grown_def ms_vsa_def)

definition accept_base :: "radius_lib \<Rightarrow> radius_packet \<Rightarrow> eap_response \<Rightarrow> radius_reply" where
  "accept_base lib r q =
     (let accept = Response r AccessAccept;
          a1 = (if ep_SubscriberIP q \<noteq> [] then set_or_skip lib (FramedIPAddress (parse_ip (ep_SubscriberIP q))) accept else accept)
      in if ep_SessionID q \<noteq> [] then set_or_skip lib (ClassAttr (bytes_of (ep_SessionID q))) a1 else a1)"

lemma accept_base_facts:
  "ro_Secret (accept_base lib r q) = ri_Secret r" "ro_Authenticator (accept_base lib r q) = ri_Authenticator r"
  "nas_keys ty (accept_base lib r q) = []"
  "ep_SubscriberIP q \<noteq> [] \<Longrightarrow> rl_refuses lib (FramedIPAddress (parse_ip (ep_SubscriberIP q))) = None
     \<Longrightarrow> FramedIPAddress (parse_ip (ep_SubscriberIP q)) \<in> set (ro_Attributes (accept_base lib r q))"
  "ep_SessionID q \<noteq> [] \<Longrightarrow> rl_refuses lib (ClassAttr (bytes_of (ep_SessionID q))) = None
     \<Longrightarrow> ClassAttr (bytes_of (ep_SessionID q)) \<in> set (ro_Attributes (accept_base lib r q))"
proof -
  have k: "nas_keys ty (set_or_skip lib a p) = nas_keys ty p" if "attr_type a \<noteq> 26" for a p
    using grown_keys [OF set_or_skip_grown] that by simp
  show "nas_keys ty (accept_base lib r q) = []"
    unfolding accept_base_def Let_def
    by (simp add: k) (simp add: nas_keys_def vendor_strings_def Response_def)
qed (auto simp: accept_base_def Let_def set_or_skip_mem Response_def)

lemma reject_code: "reject lib r e = Reply p \<Longrightarrow> ro_Code p = AccessReject"
  by (auto simp: reject_def Response_def)

lemma accept_out_Some:
  "accept_out env srv r (Some q) = (let lib = re_lib env in
     case addAccessAcceptLifetime env (rc_AccessAccept (rs_cfg srv)) (accept_base lib r q) of Inl e \<Rightarrow> reject lib r e
     | Inr a3 \<Rightarrow> (case addVLAN lib (rc_VLANID (rs_cfg srv)) a3 of Inl e \<Rightarrow> reject lib r e
     | Inr a4 \<Rightarrow>
        if ep_EAPPayload q = [] then Reply a4
        else let a5 = set_or_skip lib (EAPMessage (ep_EAPPayload q)) a4
             in case (if length (ep_MSK q) = 64 then addMPPEKeys lib (re_draws env) a5 (ep_MSK q) else Some (Inr a5)) of
                  None \<Rightarrow> Hangs | Some (Inl e) \<Rightarrow> reject lib r e
                | Some (Inr a6) \<Rightarrow> (case setMessageAuthenticator lib a6 of Inl e \<Rightarrow> reject lib r e | Inr a7 \<Rightarrow> Reply a7)))"
  by (simp add: accept_out_def accept_base_def Let_def cong: if_cong)

lemma accept_steps:
  assumes "accept_out env srv r (Some q) = Reply p" "ro_Code p = AccessAccept"
  obtains a where "grown {27, 28, 29, 64, 65, 81} (accept_base (re_lib env) r q) a"
    and "ep_EAPPayload q = [] \<Longrightarrow> p = a"
    and "\<And>thesis. ep_EAPPayload q \<noteq> [] \<Longrightarrow> (\<And>a5 a6. grown {79} a a5 \<Longrightarrow> grown {80} a6 p \<Longrightarrow> ma_valid (re_lib env) p
      \<Longrightarrow> (if length (ep_MSK q) = 64 then addMPPEKeys (re_lib env) (re_draws env) a5 (ep_MSK q) = Some (Inr a6) else a6 = a5)
      \<Longrightarrow> thesis) \<Longrightarrow> thesis"
proof -
  have acc: "reject l r e = Reply p \<Longrightarrow> False" for l e using assms(2) by (auto dest: reject_code)
  from assms(1) acc obtain a3 a4 where
    3: "addAccessAcceptLifetime env (rc_AccessAccept (rs_cfg srv)) (accept_base (re_lib env) r q) = Inr a3"
    and 4: "addVLAN (re_lib env) (rc_VLANID (rs_cfg srv)) a3 = Inr a4"
    by (auto simp: accept_out_Some Let_def split: sum.splits)
  have g: "grown {27, 28, 29, 64, 65, 81} (accept_base (re_lib env) r q) a4"
    using grown_trans [OF lifetime_grown [OF 3] vlan_grown [OF 4]] by (simp add: insert_commute)
  have last: thesis' if pay: "ep_EAPPayload q \<noteq> []" and th: "\<And>a5 a6. grown {79} a4 a5 \<Longrightarrow> grown {80} a6 p \<Longrightarrow> ma_valid (re_lib env) p
      \<Longrightarrow> (if length (ep_MSK q) = 64 then addMPPEKeys (re_lib env) (re_draws env) a5 (ep_MSK q) = Some (Inr a6) else a6 = a5)
      \<Longrightarrow> thesis'" for thesis'
  proof -
    define a5 where "a5 = set_or_skip (re_lib env) (EAPMessage (ep_EAPPayload q)) a4"
    define k where "k = (if length (ep_MSK q) = 64 then addMPPEKeys (re_lib env) (re_draws env) a5 (ep_MSK q) else Some (Inr a5))"
    have "(case k of None \<Rightarrow> Hangs | Some (Inl e) \<Rightarrow> reject (re_lib env) r e
        | Some (Inr a6) \<Rightarrow> (case setMessageAuthenticator (re_lib env) a6 of Inl e \<Rightarrow> reject (re_lib env) r e | Inr a7 \<Rightarrow> Reply a7)) = Reply p"
      using assms(1) pay unfolding accept_out_Some Let_def 3 4 sum.case a5_def k_def by (simp only: if_False)
    with acc obtain a6 where k: "k = Some (Inr a6)" and m: "setMessageAuthenticator (re_lib env) a6 = Inr p"
      by (auto split: sum.splits option.splits)
    have "grown {79} a4 a5" using set_or_skip_grown [of "EAPMessage (ep_EAPPayload q)" a4 "re_lib env"] by (simp add: a5_def)
    from th [OF this setMessageAuthenticator_valid(2,1) [OF m]] k show ?thesis by (simp add: k_def split: if_splits)
  qed
  have "ep_EAPPayload q = [] \<Longrightarrow> p = a4"
    using assms(1) 3 4 by (simp add: accept_out_Some Let_def)
  with g last that show thesis by blast
qed

lemma accept_keys:
  assumes "accept_out env srv r (Some q) = Reply p" "ro_Code p = AccessAccept"
  shows "nas_keys msMPPERecvKey p = (if ep_EAPPayload q \<noteq> [] \<and> length (ep_MSK q) = 64 then [Some (take 32 (ep_MSK q))] else [])"
    "nas_keys msMPPESendKey p = (if ep_EAPPayload q \<noteq> [] \<and> length (ep_MSK q) = 64 then [Some (drop 32 (ep_MSK q))] else [])"
    "ep_EAPPayload q \<noteq> [] \<Longrightarrow> ma_valid (re_lib env) p"
proof -
  obtain a where a: "grown {27, 28, 29, 64, 65, 81} (accept_base (re_lib env) r q) a" "ep_EAPPayload q = [] \<Longrightarrow> p = a"
    and rest: "\<And>thesis. ep_EAPPayload q \<noteq> [] \<Longrightarrow> (\<And>a5 a6. grown {79} a a5 \<Longrightarrow> grown {80} a6 p \<Longrightarrow> ma_valid (re_lib env) p
      \<Longrightarrow> (if length (ep_MSK q) = 64 then addMPPEKeys (re_lib env) (re_draws env) a5 (ep_MSK q) = Some (Inr a6) else a6 = a5)
      \<Longrightarrow> thesis) \<Longrightarrow> thesis"
    by (rule accept_steps [OF assms]) blast
  have none: "nas_keys ty a = []" for ty using grown_keys [OF a(1)] accept_base_facts(3) by simp
  have "nas_keys msMPPERecvKey p = (if length (ep_MSK q) = 64 then [Some (take 32 (ep_MSK q))] else [])
      \<and> nas_keys msMPPESendKey p = (if length (ep_MSK q) = 64 then [Some (drop 32 (ep_MSK q))] else [])
      \<and> ma_valid (re_lib env) p" if "ep_EAPPayload q \<noteq> []"
  proof (rule rest [OF that])
    fix a5 a6 assume 5: "grown {79} a a5" and 6: "grown {80} a6 p" and ma: "ma_valid (re_lib env) p"
      and k: "if length (ep_MSK q) = 64 then addMPPEKeys (re_lib env) (re_draws env) a5 (ep_MSK q) = Some (Inr a6) else a6 = a5"
    have "nas_keys ty a5 = []" "nas_keys ty p = nas_keys ty a6" for ty
      using grown_keys [OF 5] grown_keys [OF 6] none by simp_all
    with k ma addMPPEKeys_sound [of "re_lib env" "re_draws env" a5 "ep_MSK q" a6] show ?thesis by (simp split: if_splits)
  qed
  then show "nas_keys msMPPERecvKey p = (if ep_EAPPayload q \<noteq> [] \<and> length (ep_MSK q) = 64 then [Some (take 32 (ep_MSK q))] else [])"
    "nas_keys msMPPESendKey p = (if ep_EAPPayload q \<noteq> [] \<and> length (ep_MSK q) = 64 then [Some (drop 32 (ep_MSK q))] else [])"
    "ep_EAPPayload q \<noteq> [] \<Longrightarrow> ma_valid (re_lib env) p"
    using a(2) none by (cases "ep_EAPPayload q = []"; simp)+
qed

lemma accept_keeps:
  assumes "accept_out env srv r (Some q) = Reply p" "ro_Code p = AccessAccept"
    and "b \<in> set (ro_Attributes (accept_base (re_lib env) r q))" "attr_type b \<in> {8, 25}"
  shows "b \<in> set (ro_Attributes p)"
proof (rule accept_steps [OF assms(1,2)])
  fix a assume a: "grown {27, 28, 29, 64, 65, 81} (accept_base (re_lib env) r q) a" "ep_EAPPayload q = [] \<Longrightarrow> p = a"
    and rest: "\<And>thesis. ep_EAPPayload q \<noteq> [] \<Longrightarrow> (\<And>a5 a6. grown {79} a a5 \<Longrightarrow> grown {80} a6 p \<Longrightarrow> ma_valid (re_lib env) p
      \<Longrightarrow> (if length (ep_MSK q) = 64 then addMPPEKeys (re_lib env) (re_draws env) a5 (ep_MSK q) = Some (Inr a6) else a6 = a5)
      \<Longrightarrow> thesis) \<Longrightarrow> thesis"
  have b: "b \<in> set (ro_Attributes a)" using grown_keep [OF a(1) assms(3)] assms(4) by auto
  show ?thesis
  proof (cases "ep_EAPPayload q = []")
    case False
    show ?thesis
    proof (rule rest [OF False])
      fix a5 a6 assume 5: "grown {79} a a5" and 6: "grown {80} a6 p"
        and k: "if length (ep_MSK q) = 64 then addMPPEKeys (re_lib env) (re_draws env) a5 (ep_MSK q) = Some (Inr a6) else a6 = a5"
      have "b \<in> set (ro_Attributes a5)" using grown_keep [OF 5 b] assms(4) by auto
      moreover have "grown {26} a5 a6" using k addMPPEKeys_grown by (auto split: if_splits)
      ultimately have "b \<in> set (ro_Attributes a6)" using assms(4) by (auto dest: grown_keep)
      from grown_keep [OF 6 this] show ?thesis using assms(4) by auto
    qed
  qed (use a(2) b in simp)
qed

section \<open>The handlers on the service\<close>

lemma challenge_code: "challenge_out env r q = Reply p \<Longrightarrow> ro_Code p \<noteq> AccessAccept"
proof -
  assume a: "challenge_out env r q = Reply p"
  have "ro_Code (set_or_skip lib x y) = ro_Code y" for lib x y by simp
  moreover have "setMessageAuthenticator lib x = Inr y \<Longrightarrow> ro_Code y = ro_Code x" for lib x y
    using grown_code [OF setMessageAuthenticator_valid(2)] .
  ultimately show ?thesis using a
    by (auto simp: challenge_out_def Let_def Response_def dest!: reject_code split: option.splits if_splits sum.splits)
qed

lemma handle_accept:
  assumes "handle env srv eap addr r st = (Reply p, st')" "ro_Code p = AccessAccept"
  obtains q ro where "eapRequest (rs_sub srv) r addr = Some q" "eap q (snd st) = ((ro, None), snd st')"
    "accept_out env srv r ro = Reply p" "\<forall>x. ro = Some x \<longrightarrow> ep_State x \<noteq> EAPStateChallenge"
proof -
  obtain registry s where st: "st = (registry, s)" by (cases st)
  have acc: "\<not> reject l r e = Reply p" for l e using assms(2) by (auto dest: reject_code)
  have resp: "p \<noteq> Response r AccessReject" using assms(2) by (auto simp: Response_def)
  from assms(1) acc resp obtain q o1 where q: "eapRequest (rs_sub srv) r addr = Some q"
    "eap q s = (o1, snd st')" "eap_answer env srv r o1 = Reply p"
    by (auto simp: handle_def st Let_def split: if_splits option.splits prod.splits)
  obtain ro where ro: "o1 = (ro, None)" "accept_out env srv r ro = Reply p" "\<forall>x. ro = Some x \<longrightarrow> ep_State x \<noteq> EAPStateChallenge"
    using q(3) acc challenge_code [of env r _ p] assms(2)
    by (auto simp: eap_answer_def split: prod.splits option.splits if_splits)
  show thesis by (rule that [OF q(1) _ ro(2,3)]) (use q(2) ro(1) in \<open>simp add: st\<close>)
qed

lemma exchange_success:
  assumes "run_state (ExchangeEAP w q) s = ((Some x, None), s')" "ep_State x \<noteq> EAPStateChallenge"
  shows "\<exists>res. w_eap w (sv_events s) (eapWithDefaults (w_cfg w) q) = Inr res \<and> er_State res = EAPStateSuccess \<and> er_Allowed res
    \<and> ep_MSK x = er_MSK res \<and> ep_EAPPayload x = er_EAPPayload res"
  using assms
  by (auto simp: ExchangeEAP_def Let_def call_def split_beta eap_reply_def split: sum.splits prod.splits option.splits if_splits)

section \<open>Running the server\<close>

datatype radius_input =
    AuthPacket radius_env net_addr radius_packet   \<comment> \<open>a packet at the authentication port\<close>
  | AcctPacket radius_env net_addr radius_packet   \<comment> \<open>a packet at the accounting port\<close>
  | ServiceCall svc_call                           \<comment> \<open>a call of the service by another part\<close>

definition eap_of :: "env \<Rightarrow> eap_request \<Rightarrow> svc \<Rightarrow> (eap_response option \<times> svc_err option) \<times> svc" where
  "eap_of w q = run_state (ExchangeEAP w q)"

definition acct_of :: "env \<Rightarrow> accounting_request \<Rightarrow> svc \<Rightarrow> svc_err option \<times> svc" where
  "acct_of w q = run_state (HandleAccounting w q)"

definition radius_step :: "env \<Rightarrow> radius_server \<Rightarrow> radius_input \<Rightarrow> ap_registry \<times> svc \<Rightarrow> radius_out \<times> ap_registry \<times> svc" where
  "radius_step w srv i st = (case i of
       AuthPacket env addr r \<Rightarrow> handle env srv (eap_of w) addr r st
     | AcctPacket env addr r \<Rightarrow> handleAccounting env srv (acct_of w) addr r st
     | ServiceCall c \<Rightarrow> (NoReply, fst st, snd (run_state (exec_call w c) (snd st))))"

fun radius_run :: "env \<Rightarrow> radius_server \<Rightarrow> radius_input list \<Rightarrow> ap_registry \<times> svc \<Rightarrow> (ap_registry \<times> svc) option" where
  \<comment> \<open>one after the other; \<open>None\<close> once a handler has panicked\<close>
  "radius_run w srv [] st = Some st"
| "radius_run w srv (i # is) st =
     (case radius_step w srv i st of (out, st') \<Rightarrow> if out = Panics then None else radius_run w srv is st')"

lemma handle_call: "snd (snd (handle env srv (eap_of w) addr r st)) \<in> {snd st} \<union> range (\<lambda>q. snd (run_state (exec_call w (CallEAP q)) (snd st)))"
  by (cases st) (auto simp: handle_def eap_of_def Let_def drop_result_def split_beta split: option.split)

lemma accounting_call:
  "snd (snd (handleAccounting env srv (acct_of w) addr r st)) \<in> {snd st} \<union> range (\<lambda>q. snd (run_state (exec_call w (CallAccounting q)) (snd st)))"
  by (cases st) (auto simp: handleAccounting_def acct_of_def Let_def drop_result_def split_beta)

text \<open>What the server does to the service is a sequence of its calls, at most one for a packet.\<close>

lemma radius_step_calls: "\<exists>cs. length cs \<le> 1 \<and> snd (snd (radius_step w srv i st)) = run_calls w cs (snd st)"
proof -
  have one: "x \<in> {snd st} \<union> range (\<lambda>q. snd (run_state (exec_call w (f q)) (snd st))) \<Longrightarrow>
      \<exists>cs. length cs \<le> 1 \<and> x = run_calls w cs (snd st)" for x f
  proof (elim UnE)
    assume "x \<in> range (\<lambda>q. snd (run_state (exec_call w (f q)) (snd st)))"
    then obtain q where "x = run_calls w [f q] (snd st)" by auto
    then show ?thesis by (intro exI [of _ "[f q]"]) simp
  qed (auto intro: exI [of _ "[]"])
  show ?thesis
  proof (cases i)
    case (ServiceCall c)
    then show ?thesis by (intro exI [of _ "[c]"]) (simp add: radius_step_def)
  qed (use one [OF handle_call] one [OF accounting_call] in \<open>auto simp: radius_step_def\<close>)
qed

lemma radius_run_calls:
  "radius_run w srv is st = Some st' \<Longrightarrow> \<exists>cs. length cs \<le> length is \<and> snd st' = run_calls w cs (snd st)"
proof (induction "is" arbitrary: st)
  case Nil
  then show ?case by (intro exI [of _ "[]"]) simp
next
  case (Cons i "is")
  obtain out s1 where s1: "radius_step w srv i st = (out, s1)" by (cases "radius_step w srv i st")
  with Cons.prems have "radius_run w srv is s1 = Some st'" by (simp split: if_splits)
  from Cons.IH [OF this] obtain cs where cs: "length cs \<le> length is" "snd st' = run_calls w cs (snd s1)" by blast
  from radius_step_calls [of w srv i st] s1 obtain ds where "length ds \<le> 1" "snd s1 = run_calls w ds (snd st)" by auto
  with cs show ?case by (intro exI [of _ "ds @ cs"]) (simp add: run_calls_append)
qed

section \<open>Packets that end the program\<close>

definition identity_panics :: "bytes \<Rightarrow> bool" where
  \<comment> \<open>an identity response whose length field is less than 5\<close>
  "identity_panics p \<longleftrightarrow> 5 \<le> length p \<and> p ! 0 = 2 \<and> p ! 4 = 1 \<and> unat (be16 (p ! 2) (p ! 3)) < 5"

definition header_panics :: "bytes \<Rightarrow> bool" where
  \<comment> \<open>a request or response of exactly the four bytes of the header\<close>
  "header_panics p \<longleftrightarrow> length p = 4 \<and> (p ! 0 = 1 \<or> p ! 0 = 2) \<and> unat (be16 (p ! 2) (p ! 3)) = 4"

lemma eapIdentity_None: "eapIdentity p = None \<longleftrightarrow> identity_panics p"
  by (auto simp: eapIdentity_def identity_panics_def Let_def)

lemma describeEAP_None: "describeEAP p = None \<longleftrightarrow> header_panics p"
  by (auto simp: describeEAP_def header_panics_def Let_def)

lemma accept_no_panic: "accept_out env srv r ro \<noteq> Panics"
proof -
  have final: "(case k of None \<Rightarrow> Hangs | Some (Inl e) \<Rightarrow> reject lib r e | Some (Inr a6) \<Rightarrow>
      (case setMessageAuthenticator lib a6 of Inl e \<Rightarrow> reject lib r e | Inr a7 \<Rightarrow> Reply a7)) \<noteq> Panics" for k lib
    by (simp add: reject_def split: option.split sum.split)
  show ?thesis unfolding accept_out_def Let_def
    by (split sum.split, intro conjI allI impI, simp add: reject_def, split sum.split, intro conjI allI impI,
        simp add: reject_def, rule if_split [THEN iffD2], use final in auto)
qed

lemma answer_panics:
  "eap_answer env srv r out = Panics \<longleftrightarrow>
     (\<exists>x. out = (Some x, None) \<and> ep_State x = EAPStateChallenge \<and> header_panics (ep_EAPPayload x))"
proof -
  have "challenge_out env r x = Panics \<longleftrightarrow> header_panics (ep_EAPPayload x)" for x
    unfolding describeEAP_None [symmetric]
    by (auto simp: challenge_out_def reject_def Let_def split: option.split sum.split)
  then show ?thesis using accept_no_panic by (auto simp: eap_answer_def reject_def split: prod.split option.split)
qed

section \<open>An Access-Accept is sent\<close>

definition lib_ok :: "radius_lib \<Rightarrow> bool" where
  \<comment> \<open>every value is taken and every packet can be encoded\<close>
  "lib_ok lib \<longleftrightarrow> (\<forall>a. rl_refuses lib a = None) \<and> (\<forall>p. \<exists>wire. rl_marshal lib p = Inr wire)"

lemma set_attr_ok: "lib_ok lib \<Longrightarrow> \<exists>p'. set_attr lib a p = Inr p'"
  by (simp add: lib_ok_def set_attr_def)

lemma add_attr_ok: "lib_ok lib \<Longrightarrow> \<exists>p'. add_attr lib what a (Inr p) = Inr p'"
  using set_attr_ok [of lib a p] by (auto simp: add_attr_def)

lemma lifetime_ok:
  "lib_ok (re_lib env) \<Longrightarrow> raa_TerminationAction cfg \<in> {[], ''radius_request'', ''default''}
     \<Longrightarrow> \<exists>p'. addAccessAcceptLifetime env cfg p = Inr p'"
proof -
  assume l: "lib_ok (re_lib env)" and t: "raa_TerminationAction cfg \<in> {[], ''radius_request'', ''default''}"
  note add = add_attr_ok [OF l]
  define p1 where "p1 = (if 0 < raa_SessionTimeoutSeconds cfg
    then add_attr (re_lib env) ''set radius session timeout'' (SessionTimeout (word_of_int (raa_SessionTimeoutSeconds cfg))) (Inr p)
    else Inr p)"
  obtain q1 where 1: "p1 = Inr q1" using add unfolding p1_def by (cases "0 < raa_SessionTimeoutSeconds cfg") (simp; blast)+
  define p2 where "p2 = (if raa_TerminationAction cfg = [] \<or> raa_TerminationAction cfg = ''radius_request''
      then add_attr (re_lib env) ''set radius termination action'' (TerminationAction 1) (Inr q1)
      else add_attr (re_lib env) ''set radius termination action'' (TerminationAction 0) (Inr q1))"
  have 2: "\<exists>q2. p2 = Inr q2" using add by (auto simp: p2_def)
  have "addAccessAcceptLifetime env cfg p = (if 0 < raa_IdleTimeoutSeconds cfg
      then add_attr (re_lib env) ''set radius idle timeout'' (IdleTimeout (word_of_int (raa_IdleTimeoutSeconds cfg))) p2 else p2)"
    using t 1 unfolding addAccessAcceptLifetime_def Let_def p1_def [symmetric] p2_def by auto
  with 2 add show ?thesis by auto
qed

lemma vlan_ok: "lib_ok lib \<Longrightarrow> \<exists>p'. addVLAN lib v p = Inr p'"
  unfolding addVLAN_def by (metis add_attr_ok)

lemma ma_ok: "lib_ok lib \<Longrightarrow> \<exists>p'. setMessageAuthenticator lib p = Inr p'"
proof -
  assume l: "lib_ok lib"
  obtain p0 where "set_attr lib (MessageAuthenticator (replicate 16 0)) p = Inr p0" using set_attr_ok [OF l] by blast
  moreover obtain wire where "rl_marshal lib p0 = Inr wire" using l by (auto simp: lib_ok_def)
  ultimately show ?thesis using set_attr_ok [OF l] by (simp add: setMessageAuthenticator_def)
qed

lemma accept_sent:
  assumes "lib_ok (re_lib env)" "draws_ok (re_draws env)" "ri_Secret r \<noteq> []"
    and "raa_TerminationAction (rc_AccessAccept (rs_cfg srv)) \<in> {[], ''radius_request'', ''default''}"
  shows "\<exists>p. accept_out env srv r (Some q) = Reply p \<and> ro_Code p = AccessAccept"
proof -
  let ?lib = "re_lib env" and ?b = "accept_base (re_lib env) r q"
  obtain a3 where 3: "addAccessAcceptLifetime env (rc_AccessAccept (rs_cfg srv)) ?b = Inr a3"
    using lifetime_ok [OF assms(1,4)] by blast
  obtain a4 where 4: "addVLAN ?lib (rc_VLANID (rs_cfg srv)) a3 = Inr a4" using vlan_ok [OF assms(1)] by blast
  have c: "ro_Code ?b = AccessAccept" by (simp add: accept_base_def Let_def Response_def)
  have g: "grown {27, 28, 29, 64, 65, 81} ?b a4"
    using grown_trans [OF lifetime_grown [OF 3] vlan_grown [OF 4]] by (simp add: insert_commute)
  with c have c4: "ro_Code a4 = AccessAccept" by (simp add: grown_def)
  show ?thesis
  proof (cases "ep_EAPPayload q = []")
    case True
    with 3 4 c4 show ?thesis by (simp add: accept_out_Some Let_def)
  next
    case False
    define a5 where "a5 = set_or_skip ?lib (EAPMessage (ep_EAPPayload q)) a4"
    have 5: "ro_Code a5 = AccessAccept" "ro_Secret a5 \<noteq> []"
      using c4 g accept_base_facts(1) assms(3) by (simp_all add: a5_def grown_def)
    obtain a6 where 6: "(if length (ep_MSK q) = 64 then addMPPEKeys ?lib (re_draws env) a5 (ep_MSK q) else Some (Inr a5)) = Some (Inr a6)"
      using addMPPEKeys_total [OF assms(2) _ 5(2), of ?lib "ep_MSK q"] assms(1)
      by (cases "length (ep_MSK q) = 64") (auto simp: lib_ok_def)
    then have "ro_Code a6 = AccessAccept" using 5(1) addMPPEKeys_grown grown_code by (fastforce split: if_splits)
    moreover obtain a7 where 7: "setMessageAuthenticator ?lib a6 = Inr a7" using ma_ok [OF assms(1)] by blast
    moreover have "accept_out env srv r (Some q) = Reply a7"
      using False unfolding accept_out_Some Let_def 3 4 sum.case a5_def [symmetric] 6 option.case 7 by (simp only: if_False)
    ultimately show ?thesis using grown_code [OF setMessageAuthenticator_valid(2)] by fastforce
  qed
qed

end
