(* ===== verification/RadiusService.thy ===== *)
theory RadiusService
  imports RadiusProps
begin

text \<open>
  The properties of the RADIUS server. They speak of the server running on the model of the lifecycle
  service: \<open>radius_run\<close> handles packets of access points and calls of other parts, one after the other,
  and \<open>handle\<close> handles the next packet.
\<close>

section \<open>The service below an Access-Accept\<close>

lemma radius_good:
  assumes "env_ok w" "Suc (length is) < 2 ^ 64" "radius_run w srv is (Map.empty, svc_new) = Some st"
  obtains cs where "snd st = run_calls w cs svc_new" "length cs \<le> length is" "Suc (length cs) < 2 ^ 64"
    "good_at (length cs) {} (sv_mgr (snd st)) (held w (snd st))"
proof -
  from radius_run_calls [OF assms(3)] obtain cs where cs: "length cs \<le> length is" "snd st = run_calls w cs svc_new" by auto
  with assms(2) have "Suc (length cs) < 2 ^ 64" by simp
  with cs run_calls_good [OF assms(1), of cs] that show thesis by simp
qed

lemma accept_outcome:
  assumes "env_ok w" "Suc (length is) < 2 ^ 64" "radius_run w srv is (Map.empty, svc_new) = Some st"
    and "handle env srv (eap_of w) addr r st = (Reply p, st')" "ro_Code p = AccessAccept"
  obtains q x n where "eapRequest (rs_sub srv) r addr = Some q" "eap_of w q (snd st) = ((Some x, None), snd st')"
    "accept_out env srv r (Some x) = Reply p" "ep_State x \<noteq> EAPStateChallenge"
    "eap_outcome n (Some x, None) (sv_mgr (snd st')) (held w (snd st'))"
proof -
  obtain cs where "snd st = run_calls w cs svc_new" "length cs \<le> length is" and cs: "Suc (length cs) < 2 ^ 64"
    "good_at (length cs) {} (sv_mgr (snd st)) (held w (snd st))"
    by (rule radius_good [OF assms(1-3)])
  obtain q ro where q: "eapRequest (rs_sub srv) r addr = Some q"
    "eap_of w q (snd st) = ((ro, None), snd st')" "accept_out env srv r ro = Reply p" "\<forall>x. ro = Some x \<longrightarrow> ep_State x \<noteq> EAPStateChallenge"
    by (rule handle_accept [OF assms(4,5)])
  from tripleD [OF eap_triple [OF assms(1) cs(1)] cs(2), of q] q(2)
  have o: "eap_outcome (Suc (length cs)) (ro, None) (sv_mgr (snd st')) (held w (snd st'))" by (simp add: eap_of_def)
  then obtain x where x: "ro = Some x" by (auto simp: eap_outcome_def)
  show thesis
    by (rule that [OF q(1) q(2) [unfolded x] q(3) [unfolded x] q(4) [rule_format, OF x] o [unfolded x]])
qed

lemma attach_answered:
  assumes "cooperative w" "env_ok w" "Suc (length is) < 2 ^ 64" "radius_run w srv is (Map.empty, svc_new) = Some st"
    and "sourceAllowed (rs_allowedSources srv) addr" "addr \<noteq> NilAddr" "ri_Code r = AccessRequest" "ri_Secret r \<noteq> []"
    and "eapRequest (rs_sub srv) r addr = Some q" "ri_EAPMessage r \<noteq> []" "\<not> header_panics (ri_EAPMessage r)"
    and "w_eap w (sv_events (snd st)) (eapWithDefaults (w_cfg w) q) = Inr res" "er_State res = EAPStateSuccess" "er_Allowed res"
    and "imsi = coalesce [er_IMSI res, eq_IMSI q]" "strangers imsi (table_of (sv_mgr (snd st)))"
    and "lib_ok (re_lib env)" "draws_ok (re_draws env)"
    and "raa_TerminationAction (rc_AccessAccept (rs_cfg srv)) \<in> {[], ''radius_request'', ''default''}"
  shows "\<exists>p st' i a. handle env srv (eap_of w) addr r st = (Reply p, st') \<and> ro_Code p = AccessAccept
    \<and> table_of (sv_mgr (snd st)) i = None \<and> table_of (sv_mgr (snd st')) = (table_of (sv_mgr (snd st)))(i \<mapsto> a)
    \<and> s_State a = Active \<and> s_IMSI a = imsi"
proof (rule radius_good [OF assms(2-4)])
  fix cs assume cs: "Suc (length cs) < 2 ^ 64" "good_at (length cs) {} (sv_mgr (snd st)) (held w (snd st))"
  obtain registry s where st: "st = (registry, s)" by (cases st)
  from cs(2) obtain ops where ops: "legal_calls ops" "sv_mgr s = after ops" and n: "unat (m_next (sv_mgr s)) \<le> length cs"
    by (auto simp: st good_at_def inv_at_def)
  have "m_next (sv_mgr s) \<noteq> -1"
  proof
    assume "m_next (sv_mgr s) = -1"
    then have "unat (m_next (sv_mgr s)) = 2 ^ 64 - 1" by (simp add: unsigned_minus_1_eq_mask mask_eq_exp_minus_1)
    with n cs(1) show False by simp
  qed
  from eap_succeeds [OF assms(1) ops this assms(12) [unfolded st snd_conv] assms(13,14) assms(16) [unfolded st snd_conv] assms(15)]
  obtain x s' i a where e: "run_state (ExchangeEAP w q) s = ((Some x, None), s')" "ep_State x = EAPStateSuccess"
    "table_of (sv_mgr s) i = None" "table_of (sv_mgr s') = (table_of (sv_mgr s))(i \<mapsto> a)" "s_State a = Active" "s_IMSI a = imsi"
    by blast
  obtain p where p: "accept_out env srv r (Some x) = Reply p" "ro_Code p = AccessAccept"
    using accept_sent [OF assms(17,18,8,19)] by blast
  have m: "eq_EAPPayload q = ri_EAPMessage r" using assms(9) by (auto simp: eapRequest_def Let_def split: option.splits)
  have "describeEAP (eq_EAPPayload q) \<noteq> None" using assms(11) describeEAP_None m by simp
  then have "\<exists>reg'. handle env srv (eap_of w) addr r st = (Reply p, reg', s')"
    using assms(5-7,9,10) e(1,2) p(1) by (simp add: handle_def st Let_def m eap_of_def eap_answer_def)
  with p(2) e(3-6) show ?thesis by (fastforce simp: st)
qed

section \<open>Properties\<close>




text \<open>C39. Exactly these packets of an allowed source end the program: an Access-Request whose EAP message
  is an identity response with a length field below 5, or a request or response of only the four bytes
  of the EAP header, or one that the AAA server answers with such a header as a challenge.\<close>

theorem radius_panics:
  assumes "addr \<noteq> NilAddr"
  shows "fst (handle env srv eap addr r st) = Panics \<longleftrightarrow>
    sourceAllowed (rs_allowedSources srv) addr \<and> ri_Code r = AccessRequest
    \<and> (identity_panics (ri_EAPMessage r) \<or> header_panics (ri_EAPMessage r)
       \<or> ri_EAPMessage r \<noteq> [] \<and> (\<exists>q x. eapRequest (rs_sub srv) r addr = Some q \<and> fst (eap q (snd st)) = (Some x, None)
            \<and> ep_State x = EAPStateChallenge \<and> header_panics (ep_EAPPayload x)))"
proof -
  have q: "eapRequest (rs_sub srv) r addr = None \<longleftrightarrow> identity_panics (ri_EAPMessage r)"
    using eapIdentity_None [of "ri_EAPMessage r"] by (auto simp: eapRequest_def Let_def split: option.split)
  have m: "eapRequest (rs_sub srv) r addr = Some x \<Longrightarrow> eq_EAPPayload x = ri_EAPMessage r" for x
    by (auto simp: eapRequest_def Let_def split: option.splits)
  have e: "\<not> header_panics []" by (simp add: header_panics_def)
  show ?thesis
  proof (cases "eapRequest (rs_sub srv) r addr")
    case None
    with q assms show ?thesis by (auto simp: handle_def split: prod.split)
  next
    case (Some x)
    with q m [OF Some] assms e show ?thesis
      by (cases st) (auto simp: handle_def Let_def describeEAP_None answer_panics reject_def split_beta)
  qed
qed

text \<open>C17. With a loaded configuration the server serves exactly the configured subnets, or everyone if none is
  configured: no subnet is lost in parsing. A packet from elsewhere is not answered and changes nothing.\<close>

theorem radius_sources:
  assumes "Load contents decode = Inr c" "srv = radius_New (c_Radius c) sub acct"
  shows "(sourceAllowed (rs_allowedSources srv) addr \<longleftrightarrow> rc_AllowedSourceSubnets (c_Radius c) = []
      \<or> (\<exists>cidr n b. cidr \<in> set (rc_AllowedSourceSubnets (c_Radius c)) \<and> parse_cidr cidr = Some n
           \<and> parse_ip (radiusSourceIP addr) = Some b \<and> ipnet_contains n (Some b)))
    \<and> (sourceAllowed (rs_allowedSources srv) addr
      \<or> handle env srv eap addr r st = (NoReply, st) \<and> handleAccounting env srv ac addr r st = (NoReply, st))"
proof (intro conjI)
  have "Validate c = None" using load_valid [OF assms(1)] by blast
  then have v: "list_all (\<lambda>cidr. parse_cidr cidr \<noteq> None) (rc_AllowedSourceSubnets (c_Radius c))"
    using validated_sections(2) by (simp add: validate_radius_def Let_def)
  have s: "set (rs_allowedSources srv) = {n. \<exists>cidr\<in>set (rc_AllowedSourceSubnets (c_Radius c)). parse_cidr cidr = Some n}"
    by (auto simp: assms(2) radius_New_def parseAllowedSources_def split: option.splits)
  have e: "rs_allowedSources srv = [] \<longleftrightarrow> rc_AllowedSourceSubnets (c_Radius c) = []"
    using v by (cases "rc_AllowedSourceSubnets (c_Radius c)") (auto simp: assms(2) radius_New_def parseAllowedSources_def)
  show "sourceAllowed (rs_allowedSources srv) addr \<longleftrightarrow> rc_AllowedSourceSubnets (c_Radius c) = []
      \<or> (\<exists>cidr n b. cidr \<in> set (rc_AllowedSourceSubnets (c_Radius c)) \<and> parse_cidr cidr = Some n
           \<and> parse_ip (radiusSourceIP addr) = Some b \<and> ipnet_contains n (Some b))"
    using s e by (auto simp: sourceAllowed_def list_ex_iff split: option.split)
  show "sourceAllowed (rs_allowedSources srv) addr
      \<or> handle env srv eap addr r st = (NoReply, st) \<and> handleAccounting env srv ac addr r st = (NoReply, st)"
    by (auto simp: handle_def handleAccounting_def split: prod.split)
qed


section \<open>Examples\<close>

definition demo_lib :: radius_lib where
  "demo_lib = \<lparr> rl_refuses = (\<lambda>_. None), rl_marshal = (\<lambda>p. Inr (ro_Authenticator p)) \<rparr>"

definition demo_renv :: radius_env where
  "demo_renv = \<lparr> re_lib = demo_lib, re_draws = (\<lambda>i. Inr (0, word_of_nat i)), re_now = 0, re_text = (\<lambda>_. []), re_quote = id \<rparr>"

definition demo_packet :: "bytes \<Rightarrow> radius_packet" where
  "demo_packet payload = \<lparr> ri_Code = AccessRequest, ri_Identifier = 1, ri_Secret = [115], ri_Authenticator = replicate 16 7,
     ri_UserName = ''012345@x'', ri_EAPMessage = payload, ri_State = [], ri_CallingStationID = ''02-00-00-00-00-01'',
     ri_CalledStationID = [], ri_NASIPAddress = None, ri_NASIdentifier = [], ri_Class = [], ri_ConnectInfo = [],
     ri_FramedMTU = 0, ri_FramedIPAddress = None, ri_AcctStatusType = 0, ri_AcctStatusName = [], ri_AcctSessionID = [],
     ri_AcctMultiSessionID = [], ri_AcctInputOctets = 0, ri_AcctInputGigawords = 0, ri_AcctOutputOctets = 0,
     ri_AcctOutputGigawords = 0, ri_AcctInputPackets = 0, ri_AcctOutputPackets = 0, ri_AcctTerminateCause = [],
     ri_EventTimestamp = 0 \<rparr>"

definition demo_server :: radius_server where
  "demo_server = radius_New (c_Radius (ApplyDefaults demo_file)) (c_Subscriber (ApplyDefaults demo_file)) True"

definition demo_addr :: net_addr where
  "demo_addr = UDPAddr (Some [10, 0, 0, 9]) ''10.0.0.9:1812''"

definition demo_accepting :: env where
  \<comment> \<open>the AAA server accepts and sends keys\<close>
  "demo_accepting = demo_env\<lparr> w_eap := (\<lambda>_ _. Inr (demo_eap_result\<lparr> er_EAPPayload := [3, 1, 0, 4],
     er_MSK := replicate 32 1 @ replicate 32 2 \<rparr>)) \<rparr>"

definition demo_payload :: bytes where "demo_payload = [2, 1, 0, 6, 23, 1]"

lemma demo_accepting_ok: "env_ok demo_accepting" "cooperative demo_accepting"
  using demo_env_ok demo_cooperative by (simp_all add: demo_accepting_def env_ok_def cooperative_def)

lemma demo_renv_ok: "lib_ok (re_lib demo_renv)" "draws_ok (re_draws demo_renv)"
proof -
  show "lib_ok (re_lib demo_renv)" by (simp add: demo_renv_def demo_lib_def lib_ok_def)
  have "newMPPESalt (re_draws demo_renv) 1 \<noteq> newMPPESalt (re_draws demo_renv) 0"
    by (simp add: demo_renv_def newMPPESalt_def)
  then show "draws_ok (re_draws demo_renv)" unfolding draws_ok_def by (auto simp: demo_renv_def)
qed

lemma demo_server_ok:
  "sourceAllowed (rs_allowedSources demo_server) demo_addr"
  "raa_TerminationAction (rc_AccessAccept (rs_cfg demo_server)) \<in> {[], ''radius_request'', ''default''}"
  by code_simp+

lemma demo_request:
  "\<exists>q. eapRequest (rs_sub demo_server) (demo_packet demo_payload) demo_addr = Some q \<and> eq_IMSI q = ''12345''"
proof -
  have "eapIdentity demo_payload = Some []" "imsiFromNAI ''012345@x'' = ''12345''" by code_simp+
  then show ?thesis by (simp add: eapRequest_def demo_packet_def Let_def)
qed

lemma demo_packet_simps [simp]:
  "ri_Code (demo_packet m) = AccessRequest" "ri_EAPMessage (demo_packet m) = m" "ri_Secret (demo_packet m) = [115]"
  by (simp_all add: demo_packet_def)

lemma demo_start_radius: "radius_run demo_accepting demo_server [] (Map.empty, svc_new) = Some (Map.empty, svc_new)"
  by simp

lemma demo_accepts:
  "w_eap demo_accepting h q = Inr (demo_eap_result\<lparr> er_EAPPayload := [3, 1, 0, 4], er_MSK := replicate 32 1 @ replicate 32 2 \<rparr>)"
  by (simp add: demo_accepting_def)

lemma demo_strangers: "strangers ''12345'' (table_of (sv_mgr svc_new))"
  using demo_start by (simp add: strangers_def)

lemma demo_first_accept:
  "\<exists>p st' i a. handle demo_renv demo_server (eap_of demo_accepting) demo_addr (demo_packet demo_payload) (Map.empty, svc_new) = (Reply p, st')
    \<and> ro_Code p = AccessAccept \<and> table_of (sv_mgr (snd st')) = [i \<mapsto> a] \<and> s_State a = Active \<and> s_IMSI a = ''12345''"
proof -
  obtain q where q: "eapRequest (rs_sub demo_server) (demo_packet demo_payload) demo_addr = Some q" "eq_IMSI q = ''12345''"
    using demo_request by blast
  have n: "\<not> header_panics demo_payload" by (simp add: header_panics_def demo_payload_def)
  from attach_answered [OF demo_accepting_ok(2,1) _ demo_start_radius demo_server_ok(1) _ _ _ q(1) _ _ demo_accepts _ _ _ _ demo_renv_ok demo_server_ok(2),
      of "''12345''"] n q(2) demo_strangers demo_start
  show ?thesis by (simp add: demo_eap_result_def demo_addr_def demo_payload_def)
qed




theorem radius_panics_witness:
  "fst (handle demo_renv demo_server (eap_of demo_accepting) demo_addr (demo_packet [1, 7, 0, 4]) (Map.empty, svc_new)) = Panics
     \<and> fst (handle demo_renv demo_server (eap_of demo_accepting) demo_addr (demo_packet [2, 7, 0, 4, 1]) (Map.empty, svc_new)) = Panics"
proof -
  have "header_panics [1, 7, 0, 4]" "identity_panics [2, 7, 0, 4, 1]" by code_simp+
  then show ?thesis using demo_server_ok(1) by (simp add: radius_panics demo_addr_def)
qed

theorem radius_sources_witness:
  "sourceAllowed (rs_allowedSources (radius_New (c_Radius (ApplyDefaults demo_file)) (c_Subscriber Default) True)) demo_addr"
proof -
  have "Load (Inr []) (\<lambda>_ _. Inr demo_file) = Inr (ApplyDefaults demo_file)"
    by (simp add: Load_def Let_def demo_file_valid)
  moreover have "rc_AllowedSourceSubnets (c_Radius (ApplyDefaults demo_file)) = []" by code_simp
  ultimately show ?thesis using radius_sources [OF _ refl, of "Inr []" "\<lambda>_ _. Inr demo_file"] by blast
qed

section \<open>An access point that answers late\<close>

definition demo_coa :: coa_net where
  \<comment> \<open>the first attempt gets no answer, the second an acknowledgement\<close>
  "demo_coa = \<lparr> cn_fresh = (\<lambda>i. (word_of_nat i, replicate 16 0)),
     cn_exchange = (\<lambda>i _ _ _. if i = 1 then Inl ''timeout'' else Inr (DisconnectACK, [])), cn_code_name = (\<lambda>_. []), cn_lib = demo_lib \<rparr>"

definition demo_coa_config :: radius_disconnect_config where
  "demo_coa_config = \<lparr> rd_Enabled = True, rd_NASPort = 3799, rd_Secret = ''s'', rd_TimeoutSeconds = 3, rd_Retries = 2,
     rd_RequestType = ''disconnect'', rd_WaitForAccountingStop = False, rd_AccountingStopTimeoutSeconds = 0,
     rd_FallbackToRecoveryTombstone = True \<rparr>"

definition demo_lost :: tombstone where
  "demo_lost = \<lparr> t_MAC = Some [2, 0, 0, 0, 0, 1], t_IMSI = ''12345'', t_APN = ''a'', t_OldSubscriberIP = Some [10, 0, 0, 5],
     t_OldSessionID = ''i'', t_OldRemoteTEID = 0, t_OldLocalTEID = 0, t_OriginalUsername = ''u'', t_EAPIdentity = [],
     t_RadiusState = [], t_NASIP = ''10.0.0.9'', t_NASIdentifier = [], t_AcctSessionID = ''s'', t_CallingStationID = [],
     t_CalledStationID = [], t_Class = [], t_ConnectInfo = [], t_FramedMTU = 0, t_Reason = [], t_State = RecoveryRequired,
     t_CreatedAt = 0, t_ExpiresAt = 0, t_LastAction = [], t_LastError = [] \<rparr>"


end
