(* ===== verification/UserPlane.thy ===== *)
theory UserPlane
  imports Routing GtpU Config
begin

text \<open>
  The kernel user plane (\<open>internal/userplane/userplane.go\<close>): tunnels are PDP contexts of the Linux GTP
  driver, set up over netlink together with routes and policy rules. The state holds what the code keeps
  and the list of requests made so far; how the kernel answers a request is an argument and may depend on
  that list. Log lines, and what is only read for them, are left out.
\<close>

section \<open>Requests to the kernel\<close>

datatype errno = EEXIST | ErrExist | EPERM | EINVAL | EOPNOTSUPP | ENODEV | ENETDOWN | NotFoundErr nl_error | OtherErrno string

record klink =
  kl_Index :: int
  kl_Type :: string

record pdp =
  pd_Version :: u32
  pd_PeerAddress :: ip
  pd_MSAddress :: ip
  pd_ITEI :: u32
  pd_OTEI :: u32

datatype gtp_attr =
    AttrVersion u32 | AttrNetNsFd u32 | AttrLink u32 | AttrPeerAddress bytes | AttrMSAddress bytes | AttrITEI u32 | AttrOTEI u32

datatype kroute =
    HostRoute int ip          \<comment> \<open>link index and address, main table\<close>
  | PolicyDefault int int     \<comment> \<open>link index and table\<close>

datatype krule = PolicyRule ip int int   \<comment> \<open>source address, table, priority\<close>

datatype kcall =
    NewPDP "gtp_attr list"
  | DelPDP "gtp_attr list"
  | EchoReq "gtp_attr list"
  | KRouteReplace kroute
  | KRouteDel kroute
  | RuleAdd krule
  | RuleDel krule
  | ListenUDP ip int
  | CloseUDP int
  | LinkAdd string int int int   \<comment> \<open>name, namespace and the two sockets\<close>
  | LinkSetUp klink
  | LinkDel string
  | CloseHandle
  | CloseNs int
  | SendUDP bytes "ip \<times> nat"

record kernel_env =
  ke_call :: "kcall list \<Rightarrow> kcall \<Rightarrow> errno option"
  ke_link :: "kcall list \<Rightarrow> string \<Rightarrow> errno + klink"
  ke_family :: "kcall list \<Rightarrow> errno option"           \<comment> \<open>\<open>GenlFamilyGet\<close>\<close>
  ke_fd :: "kcall list \<Rightarrow> int \<Rightarrow> errno + int"          \<comment> \<open>the descriptor of the socket on a port\<close>
  ke_newHandle :: "errno option"
  ke_openNs :: "errno + int"
  ke_header :: bool                                   \<comment> \<open>the kernel header names \<open>GTP_CMD_ECHOREQ\<close>\<close>

datatype up_error =
    CtxError string
  | SessionRequired | NoSubscriberIP string | NoLocalTEID string | NoRemoteTEID string
  | NotStarted | HandleNotOpen | LookupLink string errno | WrongLinkType string string | NoPeerIP string
  | Netlink errno
  | AddPDP string errno | InstallRoute errno | PolicyRouteFailed errno | PolicyRuleFailed errno
  | RemoveRule errno | RemoveRoute errno | RemovePDP errno
  | OpenHandle errno | OpenNetns errno | LinkExists string | LookupGTP errno
  | BindSocket int errno | SocketFd errno | BadFd int | CreateLink errno | LookupCreated errno | SetUp errno
  | UnsupportedMode string | NoKernelSupport
  | InvalidRemoteIP | InvalidLocalIP | FamilyLookup errno | TriggerEcho errno | SocketNotOpen | SendEcho errno

fun up_root :: "up_error \<Rightarrow> errno option" where
  \<comment> \<open>what \<open>errors.Is\<close> and \<open>errors.As\<close> find behind the wrapping\<close>
  "up_root (LookupLink _ e) = Some e"
| "up_root (Netlink e) = Some e"
| "up_root (AddPDP _ e) = Some e"
| "up_root (InstallRoute e) = Some e"
| "up_root (PolicyRouteFailed e) = Some e"
| "up_root (PolicyRuleFailed e) = Some e"
| "up_root (RemoveRule e) = Some e"
| "up_root (RemoveRoute e) = Some e"
| "up_root (RemovePDP e) = Some e"
| "up_root (OpenHandle e) = Some e"
| "up_root (OpenNetns e) = Some e"
| "up_root (LookupGTP e) = Some e"
| "up_root (BindSocket _ e) = Some e"
| "up_root (SocketFd e) = Some e"
| "up_root (CreateLink e) = Some e"
| "up_root (LookupCreated e) = Some e"
| "up_root (SetUp e) = Some e"
| "up_root (FamilyLookup e) = Some e"
| "up_root (TriggerEcho e) = Some e"
| "up_root (SendEcho e) = Some e"
| "up_root _ = None"

definition isExists :: "errno \<Rightarrow> bool" where
  "isExists e \<longleftrightarrow> e = ErrExist \<or> e = EEXIST"

definition up_isNotFound :: "errno \<Rightarrow> bool" where
  "up_isNotFound e \<longleftrightarrow> (case e of NotFoundErr n \<Rightarrow> isNotFound n | _ \<Rightarrow> False)"

definition error_isNotFound :: "up_error \<Rightarrow> bool" where
  "error_isNotFound e \<longleftrightarrow> (case up_root e of None \<Rightarrow> False | Some x \<Rightarrow> up_isNotFound x)"

section \<open>The state\<close>

record echo_observation =
  eo_Peer :: "ip \<times> nat"
  eo_Sequence :: u16
  eo_At :: time

record kernel_gtp =
  kg_GTPInterface :: string
  kg_LocalGTPUIP :: string
  kg_RemotePGWGTPUIP :: string
  kg_userEchoCfg :: gtp_user_echo_config
  kg_routing :: routing_config
  kg_handle :: bool
  kg_nsFile :: "int option"
  kg_link :: "klink option"
  kg_gtp0 :: bool
  kg_gtp1 :: bool
  kg_created :: bool
  kg_reading :: bool                  \<comment> \<open>\<open>readControlLoop\<close> was started\<close>
  kg_calls :: "kcall list"            \<comment> \<open>the requests made\<close>
  kg_echoPending :: "nat option"      \<comment> \<open>a channel\<close>
  kg_chans :: "nat \<Rightarrow> echo_observation option"  \<comment> \<open>the buffers of the channels, of one place\<close>
  kg_nextChan :: nat
  kg_echoSequence :: u16
  kg_echoStarted :: bool
  kg_gtpuHealth :: string
  kg_gtpuEchoSupported :: bool
  kg_gtpuEchoDisabled :: bool
  kg_consecutiveEchoFailures :: int
  kg_lastEchoSuccess :: time
  kg_lastEchoFailure :: time
  kg_lastEchoLatency :: int

type_synonym 'a kact = "(kernel_gtp, 'a) State_Monad.state"

abbreviation kret :: "'a \<Rightarrow> 'a kact" where "kret \<equiv> State_Monad.return"

definition kask :: "(kernel_gtp \<Rightarrow> 'a) \<Rightarrow> 'a kact" where
  "kask f = State (\<lambda>k. (f k, k))"

definition kset :: "(kernel_gtp \<Rightarrow> kernel_gtp) \<Rightarrow> unit kact" where
  "kset f = State (\<lambda>k. ((), f k))"

definition kcall :: "kernel_env \<Rightarrow> kcall \<Rightarrow> errno option kact" where
  "kcall env c = State (\<lambda>k. (ke_call env (kg_calls k) c, k\<lparr> kg_calls := kg_calls k @ [c] \<rparr>))"

definition LinkByName :: "kernel_env \<Rightarrow> string \<Rightarrow> (errno + klink) kact" where
  "LinkByName env name = kask (\<lambda>k. ke_link env (kg_calls k) name)"

definition normalizeUserEchoConfig :: "gtp_user_echo_config \<Rightarrow> gtp_user_echo_config" where
  "normalizeUserEchoConfig cfg = cfg\<lparr>
     ue_Mode := (if ue_Mode cfg = [] then ''kernel_netlink'' else ue_Mode cfg),
     ue_IntervalSeconds := (if ue_IntervalSeconds cfg = 0 then MinGTPEchoIntervalSeconds
        else if 0 < ue_IntervalSeconds cfg \<and> ue_IntervalSeconds cfg < MinGTPEchoIntervalSeconds
        then MinGTPEchoIntervalSeconds else ue_IntervalSeconds cfg),
     ue_TimeoutSeconds := (if ue_TimeoutSeconds cfg = 0 then 5 else ue_TimeoutSeconds cfg),
     ue_MaxFailures := (if ue_MaxFailures cfg = 0 then 3 else ue_MaxFailures cfg) \<rparr>"

definition NewKernelGTP :: "gtp_config \<Rightarrow> routing_config \<Rightarrow> kernel_gtp" where
  "NewKernelGTP gtp routing = \<lparr> kg_GTPInterface = gc_KernelInterface gtp, kg_LocalGTPUIP = gc_LocalGTPUIP gtp,
     kg_RemotePGWGTPUIP = gc_RemotePGWGTPUIP gtp, kg_userEchoCfg = normalizeUserEchoConfig (gc_UserEcho gtp),
     kg_routing = routing, kg_handle = False, kg_nsFile = None, kg_link = None, kg_gtp0 = False, kg_gtp1 = False,
     kg_created = False, kg_reading = False, kg_calls = [], kg_echoPending = None, kg_chans = (\<lambda>_. None), kg_nextChan = 0,
     kg_echoSequence = 0, kg_echoStarted = False, kg_gtpuHealth = ''unknown'', kg_gtpuEchoSupported = False,
     kg_gtpuEchoDisabled = False, kg_consecutiveEchoFailures = 0, kg_lastEchoSuccess = 0, kg_lastEchoFailure = 0,
     kg_lastEchoLatency = 0 \<rparr>"

definition up_firstIP :: "ip list \<Rightarrow> ip" where
  "up_firstIP values = (case filter (\<lambda>x. x \<noteq> None) values of [] \<Rightarrow> None | x # _ \<Rightarrow> x)"

definition fdValue :: "int option \<Rightarrow> int" where
  "fdValue f = (case f of None \<Rightarrow> 0 | Some fd \<Rightarrow> fd)"

section \<open>PDP contexts\<close>

definition addPDPCommonAttrs :: "kernel_gtp \<Rightarrow> klink \<Rightarrow> pdp \<Rightarrow> gtp_attr list" where
  "addPDPCommonAttrs k link p =
     [AttrVersion (pd_Version p), AttrNetNsFd (word_of_int (fdValue (kg_nsFile k))), AttrLink (word_of_int (kl_Index link))]
     @ (if pd_PeerAddress p \<noteq> None then [AttrPeerAddress (ip_bytes (to4 (pd_PeerAddress p)))] else [])
     @ (if pd_MSAddress p \<noteq> None then [AttrMSAddress (ip_bytes (to4 (pd_MSAddress p)))] else [])
     @ [AttrITEI (pd_ITEI p)]"

definition gtpPDPAdd :: "kernel_env \<Rightarrow> klink \<Rightarrow> pdp \<Rightarrow> errno option kact" where
  "gtpPDPAdd env link p = do {
     k \<leftarrow> kask id;
     (case ke_family env (kg_calls k) of Some e \<Rightarrow> kret (Some e)
      | None \<Rightarrow> kcall env (NewPDP (addPDPCommonAttrs k link p @ [AttrOTEI (pd_OTEI p)])))
   }"

definition gtpPDPDel :: "kernel_env \<Rightarrow> klink \<Rightarrow> pdp \<Rightarrow> errno option kact" where
  "gtpPDPDel env link p = do {
     k \<leftarrow> kask id;
     (case ke_family env (kg_calls k) of Some e \<Rightarrow> kret (Some e)
      | None \<Rightarrow> kcall env (DelPDP (addPDPCommonAttrs k link p)))
   }"

definition currentLink :: "kernel_env \<Rightarrow> (up_error + klink) kact" where
  "currentLink env = do {
     k \<leftarrow> kask id;
     if \<not> kg_handle k then kret (Inl HandleNotOpen)
     else do {
       r \<leftarrow> LinkByName env (kg_GTPInterface k);
       (case r of Inl e \<Rightarrow> kret (Inl (LookupLink (kg_GTPInterface k) e))
        | Inr link \<Rightarrow>
            if kl_Type link \<noteq> ''gtp'' then kret (Inl (WrongLinkType (kg_GTPInterface k) (kl_Type link)))
            else do { _ \<leftarrow> kset (\<lambda>k. k\<lparr> kg_link := Some link \<rparr>); kret (Inr link) })
     }
   }"

section \<open>Routes and policy rules\<close>

definition hostNet :: "ip \<Rightarrow> ip" where
  \<comment> \<open>with a mask of 32 bits\<close>
  "hostNet a = to4 a"

definition kernelRoute :: "klink \<Rightarrow> ip \<Rightarrow> kroute" where
  "kernelRoute link a = HostRoute (kl_Index link) (hostNet a)"

definition kernelPolicyDefaultRoute :: "klink \<Rightarrow> int \<Rightarrow> kroute" where
  "kernelPolicyDefaultRoute link table = PolicyDefault (kl_Index link) table"

definition kernelPolicyRule :: "ip \<Rightarrow> int \<Rightarrow> int \<Rightarrow> krule" where
  "kernelPolicyRule a table priority = PolicyRule (hostNet a) table priority"

definition session_rule :: "kernel_gtp \<Rightarrow> session \<Rightarrow> krule" where
  "session_rule k sess = kernelPolicyRule (s_SubscriberIP sess) (ro_PolicyTable (kg_routing k)) (ro_PolicyPriority (kg_routing k))"

definition installPolicyRouting :: "kernel_env \<Rightarrow> klink \<Rightarrow> session \<Rightarrow> up_error option kact" where
  "installPolicyRouting env link sess = do {
     k \<leftarrow> kask id;
     if \<not> ro_PolicyRouting (kg_routing k) then kret None
     else do {
       r \<leftarrow> kcall env (KRouteReplace (kernelPolicyDefaultRoute link (ro_PolicyTable (kg_routing k))));
       (case r of Some e \<Rightarrow> kret (Some (PolicyRouteFailed e))
        | None \<Rightarrow> do {
            a \<leftarrow> kcall env (RuleAdd (session_rule k sess));
            kret (case a of None \<Rightarrow> None | Some e \<Rightarrow> if isExists e then None else Some (PolicyRuleFailed e))
          })
     }
   }"

definition removePolicyRouting :: "kernel_env \<Rightarrow> session \<Rightarrow> up_error option kact" where
  "removePolicyRouting env sess = do {
     k \<leftarrow> kask id;
     if \<not> ro_PolicyRouting (kg_routing k) then kret None
     else do {
       r \<leftarrow> kcall env (RuleDel (session_rule k sess));
       kret (case r of None \<Rightarrow> None | Some e \<Rightarrow> if up_isNotFound e then None else Some (RemoveRule e))
     }
   }"

section \<open>Sessions\<close>

definition validateKernelSession :: "session option \<Rightarrow> up_error option" where
  "validateKernelSession so = (case so of None \<Rightarrow> Some SessionRequired
     | Some s \<Rightarrow>
        if s_SubscriberIP s = None then Some (NoSubscriberIP (s_ID s))
        else if s_LocalGTPUTEID s = 0 then Some (NoLocalTEID (s_ID s))
        else if s_RemoteGTPUTEID s = 0 then Some (NoRemoteTEID (s_ID s)) else None)"

definition session_peer :: "kernel_gtp \<Rightarrow> session \<Rightarrow> ip" where
  "session_peer k sess = up_firstIP [s_PGWUserIP sess, parse_ip (kg_RemotePGWGTPUIP k)]"

definition undo_pdp :: "session \<Rightarrow> pdp" where
  \<comment> \<open>the request that takes the context of a session back\<close>
  "undo_pdp sess = \<lparr> pd_Version = 1, pd_PeerAddress = None, pd_MSAddress = None, pd_ITEI = s_LocalGTPUTEID sess, pd_OTEI = 0 \<rparr>"

definition k_AddSession :: "kernel_env \<Rightarrow> string option \<Rightarrow> session option \<Rightarrow> up_error option kact" where
  "k_AddSession env ctx so = (case ctx of Some e \<Rightarrow> kret (Some (CtxError e)) | None \<Rightarrow>
     (case validateKernelSession so of Some e \<Rightarrow> kret (Some e) | None \<Rightarrow>
     let sess = the so in do {
       k \<leftarrow> kask id;
       if kg_link k = None then kret (Some NotStarted)
       else do {
         cl \<leftarrow> currentLink env;
         (case cl of Inl e \<Rightarrow> kret (Some e) | Inr link \<Rightarrow>
            if session_peer k sess = None then kret (Some (NoPeerIP (s_ID sess)))
            else do {
              a \<leftarrow> gtpPDPAdd env link \<lparr> pd_Version = 1, pd_PeerAddress = session_peer k sess, pd_MSAddress = s_SubscriberIP sess,
                pd_ITEI = s_LocalGTPUTEID sess, pd_OTEI = s_RemoteGTPUTEID sess \<rparr>;
              if a \<noteq> None \<and> \<not> isExists (the a) then kret (Some (AddPDP (s_ID sess) (the a)))
              else do {
                r \<leftarrow> (if ro_PolicyRouting (kg_routing k) then kret None
                   else kcall env (KRouteReplace (kernelRoute link (s_SubscriberIP sess))));
                (case r of
                   Some e \<Rightarrow> do { _ \<leftarrow> gtpPDPDel env link (undo_pdp sess); kret (Some (InstallRoute e)) }
                 | None \<Rightarrow> do {
                     p \<leftarrow> installPolicyRouting env link sess;
                     (case p of None \<Rightarrow> kret None
                      | Some e \<Rightarrow> do {
                          _ \<leftarrow> (if ro_PolicyRouting (kg_routing k) then kret None
                             else kcall env (KRouteDel (kernelRoute link (s_SubscriberIP sess))));
                          _ \<leftarrow> gtpPDPDel env link (undo_pdp sess);
                          kret (Some e) })
                   })
              }
            })
       }
     }))"

definition k_RemoveSession :: "kernel_env \<Rightarrow> string option \<Rightarrow> session option \<Rightarrow> up_error option kact" where
  "k_RemoveSession env ctx so = (case ctx of Some e \<Rightarrow> kret (Some (CtxError e)) | None \<Rightarrow>
     (case so of None \<Rightarrow> kret None | Some sess \<Rightarrow> do {
       k \<leftarrow> kask id;
       cl \<leftarrow> currentLink env;
       (case cl of
          Inl e \<Rightarrow> kret (if error_isNotFound e then None else Some e)
        | Inr link \<Rightarrow> do {
            r \<leftarrow> (if s_SubscriberIP sess = None then kret None
              else do {
                p \<leftarrow> removePolicyRouting env sess;
                (case p of Some e \<Rightarrow> kret (Some e)
                 | None \<Rightarrow>
                     if ro_PolicyRouting (kg_routing k) then kret None
                     else do {
                       d \<leftarrow> kcall env (KRouteDel (kernelRoute link (s_SubscriberIP sess)));
                       kret (case d of None \<Rightarrow> None | Some e \<Rightarrow> if up_isNotFound e then None else Some (RemoveRoute e))
                     })
              });
            (case r of Some e \<Rightarrow> kret (Some e)
             | None \<Rightarrow>
                 if s_LocalGTPUTEID sess = 0 then kret None
                 else do {
                   d \<leftarrow> gtpPDPDel env link \<lparr> pd_Version = 1, pd_PeerAddress = session_peer k sess,
                     pd_MSAddress = s_SubscriberIP sess, pd_ITEI = s_LocalGTPUTEID sess, pd_OTEI = 0 \<rparr>;
                   kret (case d of None \<Rightarrow> None | Some e \<Rightarrow> if up_isNotFound e then None else Some (RemovePDP e))
                 })
          })
     }))"

section \<open>The interface\<close>

definition listenKernelGTPUDP :: "kernel_env \<Rightarrow> ip \<Rightarrow> int \<Rightarrow> up_error option kact" where
  "listenKernelGTPUDP env a port = do {
     r \<leftarrow> kcall env (ListenUDP a port);
     kret (map_option (BindSocket port) r)
   }"

definition udpConnFD :: "kernel_env \<Rightarrow> int \<Rightarrow> (up_error + int) kact" where
  "udpConnFD env port = kask (\<lambda>k. case ke_fd env (kg_calls k) port of Inl e \<Rightarrow> Inl (SocketFd e)
     | Inr fd \<Rightarrow> if fd < 0 then Inl (BadFd fd) else Inr fd)"

definition close_both :: "kernel_env \<Rightarrow> 'a \<Rightarrow> 'a kact" where
  "close_both env r = do { _ \<leftarrow> kcall env (CloseUDP 3386); _ \<leftarrow> kcall env (CloseUDP 2152); kret r }"

definition createLink :: "kernel_env \<Rightarrow> up_error option kact" where
  "createLink env = do {
     k \<leftarrow> kask id;
     l0 \<leftarrow> listenKernelGTPUDP env IPv4zero 3386;
     (case l0 of Some e \<Rightarrow> kret (Some e) | None \<Rightarrow> do {
       l1 \<leftarrow> listenKernelGTPUDP env (up_firstIP [parse_ip (kg_LocalGTPUIP k), IPv4zero]) 2152;
       (case l1 of Some e \<Rightarrow> do { _ \<leftarrow> kcall env (CloseUDP 3386); kret (Some e) } | None \<Rightarrow> do {
         f0 \<leftarrow> udpConnFD env 3386;
         (case f0 of Inl e \<Rightarrow> close_both env (Some e) | Inr fd0 \<Rightarrow> do {
           f1 \<leftarrow> udpConnFD env 2152;
           (case f1 of Inl e \<Rightarrow> close_both env (Some e) | Inr fd1 \<Rightarrow> do {
             a \<leftarrow> kcall env (LinkAdd (kg_GTPInterface k) (fdValue (kg_nsFile k)) fd0 fd1);
             (case a of Some e \<Rightarrow> close_both env (Some (CreateLink e)) | None \<Rightarrow> do {
               c \<leftarrow> LinkByName env (kg_GTPInterface k);
               (case c of
                  Inl e \<Rightarrow> do { _ \<leftarrow> kcall env (LinkDel (kg_GTPInterface k)); close_both env (Some (LookupCreated e)) }
                | Inr created \<Rightarrow> do {
                    u \<leftarrow> kcall env (LinkSetUp created);
                    (case u of
                       Some e \<Rightarrow> do { _ \<leftarrow> kcall env (LinkDel (kg_GTPInterface k)); close_both env (Some (SetUp e)) }
                     | None \<Rightarrow> do {
                         _ \<leftarrow> kset (\<lambda>k. k\<lparr> kg_gtp0 := True, kg_gtp1 := True, kg_link := Some created, kg_created := True \<rparr>);
                         kret None }) }) }) }) }) }) })
   }"

definition detectUserEchoSupport :: "kernel_env \<Rightarrow> up_error option kact" where
  "detectUserEchoSupport env = do {
     k \<leftarrow> kask id;
     let cfg = kg_userEchoCfg k;
     if \<not> ue_Enabled cfg then kret None
     else if ue_Mode cfg \<noteq> ''kernel_netlink'' then kret (Some (UnsupportedMode (ue_Mode cfg)))
     else let supported = ke_header env \<and> (\<not> kg_handle k \<or> ke_family env (kg_calls k) = None) in
       if \<not> supported
       then do {
         _ \<leftarrow> kset (\<lambda>k. k\<lparr> kg_gtpuEchoSupported := False, kg_gtpuEchoDisabled := True \<rparr>);
         kret (if ue_RequireKernelSupport cfg then Some NoKernelSupport else None)
       }
       else do { _ \<leftarrow> kset (\<lambda>k. k\<lparr> kg_gtpuEchoSupported := True \<rparr>); kret None }
   }"

definition k_Start :: "kernel_env \<Rightarrow> string option \<Rightarrow> up_error option kact" where
  "k_Start env ctx = (case ctx of Some e \<Rightarrow> kret (Some (CtxError e)) | None \<Rightarrow>
     (case ke_newHandle env of Some e \<Rightarrow> kret (Some (OpenHandle e)) | None \<Rightarrow> do {
       _ \<leftarrow> kset (\<lambda>k. k\<lparr> kg_handle := True \<rparr>);
       (case ke_openNs env of Inl e \<Rightarrow> kret (Some (OpenNetns e)) | Inr fd \<Rightarrow> do {
         _ \<leftarrow> kset (\<lambda>k. k\<lparr> kg_nsFile := Some fd \<rparr>);
         k \<leftarrow> kask id;
         l \<leftarrow> LinkByName env (kg_GTPInterface k);
         (case l of
            Inr link \<Rightarrow> kret (Some (if kl_Type link \<noteq> ''gtp'' then WrongLinkType (kg_GTPInterface k) (kl_Type link)
              else LinkExists (kg_GTPInterface k)))
          | Inl e \<Rightarrow>
              if \<not> up_isNotFound e then kret (Some (LookupGTP e))
              else do {
                c \<leftarrow> createLink env;
                (case c of Some e \<Rightarrow> kret (Some e) | None \<Rightarrow> do {
                   d \<leftarrow> detectUserEchoSupport env;
                   (case d of Some e \<Rightarrow> kret (Some e)
                    | None \<Rightarrow> do { _ \<leftarrow> kset (\<lambda>k. k\<lparr> kg_reading := True \<rparr>); kret None })
                })
              })
       })
     }))"

definition kcall_if :: "bool \<Rightarrow> kernel_env \<Rightarrow> kcall \<Rightarrow> errno option kact" where
  "kcall_if b env c = (if b then kcall env c else kret None)"

definition k_Stop :: "kernel_env \<Rightarrow> errno list kact" where
  \<comment> \<open>after both goroutines have ended; the errors that are joined\<close>
  "k_Stop env = do {
     k \<leftarrow> kask id;
     d \<leftarrow> kcall_if (kg_created k \<and> kg_link k \<noteq> None) env (LinkDel (kg_GTPInterface k));
     _ \<leftarrow> kcall_if (kg_handle k) env CloseHandle;
     n \<leftarrow> kcall_if (kg_nsFile k \<noteq> None) env (CloseNs (fdValue (kg_nsFile k)));
     c0 \<leftarrow> kcall_if (kg_gtp0 k) env (CloseUDP 3386);
     c1 \<leftarrow> kcall_if (kg_gtp1 k) env (CloseUDP 2152);
     _ \<leftarrow> kset (\<lambda>k. k\<lparr> kg_reading := False \<rparr>);
     kret (concat (map (\<lambda>e. case e of None \<Rightarrow> [] | Some x \<Rightarrow> [x])
       [if d \<noteq> None \<and> up_isNotFound (the d) then None else d, n, c0, c1]))
   }"

end
