(* ===== verification/UserEcho.thy ===== *)
theory UserEcho
  imports UserPlane
begin

text \<open>
  The echo probes of the kernel user plane (\<open>internal/userplane/userplane.go\<close>): a probe asks the kernel, or
  sends itself, a GTP-U Echo Request and waits on a channel of its own; the control loop, another goroutine,
  reads the answers. The steps interleave in any order; a channel is a number with a buffer of one place.
\<close>

section \<open>Health\<close>

definition recordUserEchoSuccess :: "time \<Rightarrow> int \<Rightarrow> unit kact" where
  "recordUserEchoSuccess now latency = kset (\<lambda>k. k\<lparr> kg_gtpuHealth := ''healthy'', kg_consecutiveEchoFailures := 0,
     kg_lastEchoSuccess := now, kg_lastEchoLatency := latency \<rparr>)"

definition recordUserEchoFailure :: "time \<Rightarrow> (int \<times> bool) kact" where
  "recordUserEchoFailure now = State (\<lambda>k.
     let n = kg_consecutiveEchoFailures k + 1;
         k1 = k\<lparr> kg_consecutiveEchoFailures := n, kg_lastEchoFailure := now \<rparr>
     in if ue_MaxFailures (kg_userEchoCfg k) \<le> n \<and> kg_gtpuHealth k \<noteq> ''unhealthy''
        then ((n, True), k1\<lparr> kg_gtpuHealth := ''unhealthy'' \<rparr>) else ((n, False), k1))"

record user_echo_health =
  uh_Health :: string
  uh_ConsecutiveFailures :: int
  uh_LastSuccess :: time
  uh_LastFailure :: time
  uh_LastLatency :: int
  uh_KernelSupported :: bool
  uh_Mode :: string

definition UserEchoHealth :: "kernel_gtp \<Rightarrow> user_echo_health" where
  "UserEchoHealth k = \<lparr> uh_Health = kg_gtpuHealth k, uh_ConsecutiveFailures = kg_consecutiveEchoFailures k,
     uh_LastSuccess = kg_lastEchoSuccess k, uh_LastFailure = kg_lastEchoFailure k, uh_LastLatency = kg_lastEchoLatency k,
     uh_KernelSupported = kg_gtpuEchoSupported k, uh_Mode = ue_Mode (kg_userEchoCfg k) \<rparr>"

definition isKernelEchoUnsupportedError :: "up_error \<Rightarrow> bool" where
  "isKernelEchoUnsupportedError e \<longleftrightarrow> up_root e \<in> {Some EINVAL, Some EOPNOTSUPP, Some ENODEV, Some ENETDOWN}"

definition disableUserEchoOnKernelReject :: "up_error \<Rightarrow> bool kact" where
  "disableUserEchoOnKernelReject e = State (\<lambda>k.
     if ue_RequireKernelSupport (kg_userEchoCfg k) \<or> \<not> isKernelEchoUnsupportedError e then (False, k)
     else (True, k\<lparr> kg_gtpuEchoDisabled := True, kg_gtpuEchoSupported := False \<rparr>))"

definition userEchoUnavailable :: "kernel_gtp \<Rightarrow> bool" where
  "userEchoUnavailable k \<longleftrightarrow> kg_gtpuEchoDisabled k \<or> \<not> kg_gtpuEchoSupported k"

section \<open>The pending probe\<close>

definition ensureUserEchoPending :: "nat kact" where
  "ensureUserEchoPending = State (\<lambda>k. (kg_nextChan k,
     k\<lparr> kg_echoPending := Some (kg_nextChan k), kg_nextChan := Suc (kg_nextChan k) \<rparr>))"

definition clearUserEchoPending :: "nat \<Rightarrow> unit kact" where
  "clearUserEchoPending ch = kset (\<lambda>k. if kg_echoPending k = Some ch then k\<lparr> kg_echoPending := None \<rparr> else k)"

definition observeUserEchoResponse :: "time \<Rightarrow> ip \<times> nat \<Rightarrow> u16 \<Rightarrow> kernel_gtp \<Rightarrow> kernel_gtp" where
  "observeUserEchoResponse now peer sequence k =
     (let expected = parse_ip (kg_RemotePGWGTPUIP k)
      in if expected \<noteq> None \<and> \<not> ip_equal (fst peer) expected then k
         else case kg_echoPending k of None \<Rightarrow> k
         | Some ch \<Rightarrow> if kg_chans k ch \<noteq> None then k
             else k\<lparr> kg_chans := (kg_chans k)(ch \<mapsto> \<lparr> eo_Peer = peer, eo_Sequence = sequence, eo_At = now \<rparr>) \<rparr>)"

section \<open>Sending a request\<close>

definition nextUserEchoSequence :: "u16 kact" where
  "nextUserEchoSequence = State (\<lambda>k.
     let n = kg_echoSequence k + 1; n' = (if n = 0 then 1 else n) in (n', k\<lparr> kg_echoSequence := n' \<rparr>))"

definition triggerUserEchoRequestNetlink :: "kernel_env \<Rightarrow> up_error option kact" where
  "triggerUserEchoRequestNetlink env = do {
     k \<leftarrow> kask id;
     if \<not> kg_handle k then kret (Some HandleNotOpen)
     else do {
       cl \<leftarrow> currentLink env;
       (case cl of Inl e \<Rightarrow> kret (Some e) | Inr link \<Rightarrow>
         (case ke_family env (kg_calls k) of Some e \<Rightarrow> kret (Some (FamilyLookup e)) | None \<Rightarrow>
            let peer = to4 (parse_ip (kg_RemotePGWGTPUIP k)); local = to4 (parse_ip (kg_LocalGTPUIP k)) in
            if peer = None then kret (Some InvalidRemoteIP)
            else if local = None then kret (Some InvalidLocalIP)
            else do {
              r \<leftarrow> kcall env (EchoReq [AttrVersion 1, AttrNetNsFd (word_of_int (fdValue (kg_nsFile k))),
                AttrLink (word_of_int (kl_Index link)), AttrPeerAddress (ip_bytes peer), AttrMSAddress (ip_bytes local)]);
              kret (map_option TriggerEcho r)
            }))
     }
   }"

definition triggerUserEchoRequestSocket :: "kernel_env \<Rightarrow> (up_error + u16) kact" where
  "triggerUserEchoRequestSocket env = do {
     k \<leftarrow> kask id;
     if \<not> kg_gtp1 k then kret (Inl SocketNotOpen)
     else if to4 (parse_ip (kg_RemotePGWGTPUIP k)) = None then kret (Inl InvalidRemoteIP)
     else do {
       sequence \<leftarrow> nextUserEchoSequence;
       r \<leftarrow> kcall env (SendUDP (EncodeEchoRequest sequence) (parse_ip (kg_RemotePGWGTPUIP k), 2152));
       kret (case r of Some e \<Rightarrow> Inl (SendEcho e) | None \<Rightarrow> Inr sequence)
     }
   }"

definition triggerUserEchoRequest :: "kernel_env \<Rightarrow> (up_error + u16 \<times> string) kact" where
  "triggerUserEchoRequest env = do {
     k \<leftarrow> kask id;
     e \<leftarrow> triggerUserEchoRequestNetlink env;
     (case e of None \<Rightarrow> kret (Inr (0, ue_Mode (kg_userEchoCfg k)))
      | Some err \<Rightarrow>
          if \<not> isKernelEchoUnsupportedError err then kret (Inl err)
          else do {
            r \<leftarrow> triggerUserEchoRequestSocket env;
            kret (case r of Inl e \<Rightarrow> Inl e | Inr sequence \<Rightarrow> Inr (sequence, ''kernel_registered_socket''))
          })
   }"

section \<open>A probe\<close>

datatype probe = ProbeDone "up_error option" | ProbeWaits nat time   \<comment> \<open>its channel and \<open>start\<close>\<close>

definition probe_begin :: "kernel_env \<Rightarrow> time \<Rightarrow> probe kact" where
  \<comment> \<open>\<open>runUserEchoProbe\<close> up to its \<open>select\<close>\<close>
  "probe_begin env now = do {
     pending \<leftarrow> ensureUserEchoPending;
     t \<leftarrow> triggerUserEchoRequest env;
     (case t of Inr _ \<Rightarrow> kret (ProbeWaits pending now)
      | Inl err \<Rightarrow> do {
          d \<leftarrow> disableUserEchoOnKernelReject err;
          r \<leftarrow> (if d then kret None else do { _ \<leftarrow> recordUserEchoFailure now; kret (Some err) });
          _ \<leftarrow> clearUserEchoPending pending;
          kret (ProbeDone r)
        })
   }"

definition probe_answered :: "time \<Rightarrow> nat \<Rightarrow> time \<Rightarrow> echo_observation \<Rightarrow> unit kact" where
  \<comment> \<open>\<open>case obs := <-pending\<close>\<close>
  "probe_answered now pending start obs = do {
     _ \<leftarrow> kset (\<lambda>k. k\<lparr> kg_chans := (kg_chans k)(pending := None) \<rparr>);
     _ \<leftarrow> recordUserEchoSuccess now (eo_At obs - start);
     clearUserEchoPending pending
   }"

definition probe_timed_out :: "time \<Rightarrow> nat \<Rightarrow> unit kact" where
  \<comment> \<open>\<open>case <-ctx.Done()\<close>\<close>
  "probe_timed_out now pending = do { _ \<leftarrow> recordUserEchoFailure now; clearUserEchoPending pending }"

definition ProbeUserEcho :: "kernel_env \<Rightarrow> time \<Rightarrow> probe kact" where
  "ProbeUserEcho env now = do {
     k \<leftarrow> kask id;
     if \<not> ue_Enabled (kg_userEchoCfg k) \<or> kg_gtpuEchoDisabled k then kret (ProbeDone None)
     else if \<not> kg_gtpuEchoSupported k then kret (ProbeDone (Some NoKernelSupport))
     else probe_begin env now
   }"

definition StartUserEchoWatchdog :: "kernel_gtp \<Rightarrow> bool \<times> kernel_gtp" where
  \<comment> \<open>whether the goroutine is started\<close>
  "StartUserEchoWatchdog k =
     (if \<not> ue_Enabled (kg_userEchoCfg k) \<or> kg_gtpuEchoDisabled k \<or> \<not> kg_gtpuEchoSupported k then (False, k)
      else if kg_echoStarted k then (False, k) else (True, k\<lparr> kg_echoStarted := True \<rparr>))"

definition watchdog_tick :: "kernel_env \<Rightarrow> time \<Rightarrow> probe option kact" where
  \<comment> \<open>\<open>None\<close>: the watchdog ends\<close>
  "watchdog_tick env now = do {
     k \<leftarrow> kask id;
     if userEchoUnavailable k then do { _ \<leftarrow> kset (\<lambda>k. k\<lparr> kg_echoStarted := False \<rparr>); kret None }
     else do { p \<leftarrow> probe_begin env now; kret (Some p) }
   }"

section \<open>The control loop\<close>

record error_indication =
  ei_RemoteAddr :: "ip \<times> nat"
  ei_OffendingTEID :: u32
  ei_RawPayload :: bytes

definition readControlLoop_turn :: "kernel_env \<Rightarrow> time \<Rightarrow> bytes \<Rightarrow> ip \<times> nat \<Rightarrow> error_indication option kact" where
  \<comment> \<open>one datagram; what is handed to the error handler, if there is one\<close>
  "readControlLoop_turn env now packet peer =
     (case DecodeControlPacket packet of Inl _ \<Rightarrow> kret None
      | Inr msg \<Rightarrow>
          if cm_Type msg = 1 then do { _ \<leftarrow> kcall env (SendUDP (EncodeEchoResponse (cm_Sequence msg)) peer); kret None }
          else if cm_Type msg = 2 then do { _ \<leftarrow> kset (observeUserEchoResponse now peer (cm_Sequence msg)); kret None }
          else if cm_Type msg = 26
          then kret (Some \<lparr> ei_RemoteAddr = peer, ei_OffendingTEID = cm_OffendingTEID msg, ei_RawPayload = cm_Payload msg \<rparr>)
          else kret None)"

section \<open>Interleaving\<close>

datatype echo_event =
    ProbeStarted nat
  | Observed nat "ip \<times> nat"   \<comment> \<open>an answer was put into the channel\<close>
  | ProbeSucceeded nat
  | ProbeFailed

record echo_world =
  ew_k :: kernel_gtp
  ew_probes :: "nat \<Rightarrow> time option"   \<comment> \<open>the probes at their \<open>select\<close>\<close>
  ew_log :: "echo_event list"

definition begin_probe :: "kernel_env \<Rightarrow> time \<Rightarrow> echo_world \<Rightarrow> echo_world" where
  "begin_probe env now w = (case run_state (probe_begin env now) (ew_k w) of
       (ProbeWaits ch start, k) \<Rightarrow> \<lparr> ew_k = k, ew_probes = (ew_probes w)(ch \<mapsto> start), ew_log = ew_log w @ [ProbeStarted ch] \<rparr>
     | (ProbeDone r, k) \<Rightarrow> w\<lparr> ew_k := k, ew_log := ew_log w @ (if r = None then [] else [ProbeFailed]) \<rparr>)"

definition take_packet :: "kernel_env \<Rightarrow> time \<Rightarrow> bytes \<Rightarrow> ip \<times> nat \<Rightarrow> echo_world \<Rightarrow> echo_world" where
  "take_packet env now packet peer w =
     (let k = snd (run_state (readControlLoop_turn env now packet peer) (ew_k w))
      in w\<lparr> ew_k := k, ew_log := ew_log w @
           (case kg_echoPending (ew_k w) of Some ch \<Rightarrow> if kg_chans k ch \<noteq> kg_chans (ew_k w) ch then [Observed ch peer] else []
            | None \<Rightarrow> []) \<rparr>)"

inductive echo_step :: "kernel_env \<Rightarrow> echo_world \<Rightarrow> echo_world \<Rightarrow> bool" for env where
  probe: "\<not> userEchoUnavailable (ew_k w) \<Longrightarrow> echo_step env w (begin_probe env now w)"
| answer: "ew_probes w ch = Some start \<Longrightarrow> kg_chans (ew_k w) ch = Some obs \<Longrightarrow>
    echo_step env w \<lparr> ew_k = snd (run_state (probe_answered now ch start obs) (ew_k w)),
      ew_probes = (ew_probes w)(ch := None), ew_log = ew_log w @ [ProbeSucceeded ch] \<rparr>"
| timeout: "ew_probes w ch = Some start \<Longrightarrow>
    echo_step env w \<lparr> ew_k = snd (run_state (probe_timed_out now ch) (ew_k w)),
      ew_probes = (ew_probes w)(ch := None), ew_log = ew_log w @ [ProbeFailed] \<rparr>"
| packet: "echo_step env w (take_packet env now packet peer w)"
| add: "echo_step env w (w\<lparr> ew_k := snd (run_state (k_AddSession env ctx so) (ew_k w)) \<rparr>)"
| remove: "echo_step env w (w\<lparr> ew_k := snd (run_state (k_RemoveSession env ctx so) (ew_k w)) \<rparr>)"

inductive echo_reachable :: "kernel_env \<Rightarrow> kernel_gtp \<Rightarrow> echo_world \<Rightarrow> bool" for env k0 where
  init: "echo_reachable env k0 \<lparr> ew_k = k0, ew_probes = (\<lambda>_. None), ew_log = [] \<rparr>"
| step: "echo_reachable env k0 w \<Longrightarrow> echo_step env w w' \<Longrightarrow> echo_reachable env k0 w'"

end
