(* ===== verification/UserPlaneProps.thy ===== *)
theory UserPlaneProps
  imports UserPlane
begin

text \<open>
  What the kernel user plane leaves behind in the kernel. The requests made, with the kernel's answers, say
  which PDP contexts, host routes, policy rules, sockets and interfaces there are: what the kernel has
  accepted and was not asked to remove since. The default route of the policy table, which all sessions
  share and the code never removes, is not counted.
\<close>

section \<open>What the kernel holds\<close>

definition itei_of :: "gtp_attr list \<Rightarrow> u32 option" where
  "itei_of as = (case filter (\<lambda>a. case a of AttrITEI _ \<Rightarrow> True | _ \<Rightarrow> False) as of AttrITEI t # _ \<Rightarrow> Some t | _ \<Rightarrow> None)"

datatype resource = PDPContext "u32 option" | Route int ip | Rule krule | Socket int | Interface string

fun gains :: "kcall \<Rightarrow> resource set" where
  "gains (NewPDP as) = {PDPContext (itei_of as)}"
| "gains (KRouteReplace (HostRoute ix a)) = {Route ix a}"
| "gains (RuleAdd r) = {Rule r}"
| "gains (ListenUDP a port) = {Socket port}"
| "gains (LinkAdd name ns f0 f1) = {Interface name}"
| "gains _ = {}"

fun gives_up :: "kcall \<Rightarrow> resource set" where
  "gives_up (DelPDP as) = {PDPContext (itei_of as)}"
| "gives_up (KRouteDel (HostRoute ix a)) = {Route ix a}"
| "gives_up (RuleDel r) = {Rule r}"
| "gives_up (CloseUDP port) = {Socket port}"
| "gives_up (LinkDel name) = {Interface name}"
| "gives_up _ = {}"

fun kernel_rev :: "kernel_env \<Rightarrow> kcall list \<Rightarrow> resource set" where
  "kernel_rev env [] = {}"
| "kernel_rev env (c # h) = kernel_rev env h \<union> (if ke_call env (rev h) c = None then gains c else {}) - gives_up c"

definition kernel_has :: "kernel_env \<Rightarrow> kernel_gtp \<Rightarrow> resource set" where
  "kernel_has env k = kernel_rev env (rev (kg_calls k))"

lemma kernel_has_cong: "kg_calls k' = kg_calls k \<Longrightarrow> kernel_has env k' = kernel_has env k"
  by (simp add: kernel_has_def)

lemma itei_common [simp]: "itei_of (addPDPCommonAttrs k link p) = Some (pd_ITEI p)"
  "itei_of (addPDPCommonAttrs k link p @ [AttrOTEI t]) = Some (pd_ITEI p)"
  by (simp_all add: itei_of_def addPDPCommonAttrs_def)

text \<open>A step of the user plane, as what it returns and where it leads; settings are never changed.\<close>

definition settings :: "kernel_gtp \<Rightarrow> string \<times> string \<times> string \<times> gtp_user_echo_config \<times> routing_config \<times> bool \<times> int option" where
  "settings k = (kg_GTPInterface k, kg_LocalGTPUIP k, kg_RemotePGWGTPUIP k, kg_userEchoCfg k, kg_routing k, kg_handle k, kg_nsFile k)"

lemma settings_simps [simp]:
  "settings (k\<lparr> kg_calls := cs \<rparr>) = settings k" "settings (k\<lparr> kg_link := l \<rparr>) = settings k"
  by (simp_all add: settings_def)

lemma kernel_has_link [simp]: "kernel_has env (k\<lparr> kg_link := l \<rparr>) = kernel_has env k"
  by (simp add: kernel_has_def)

definition gtp_loaded :: "kernel_env \<Rightarrow> bool" where
  \<comment> \<open>the GTP driver is there: its netlink family is always found\<close>
  "gtp_loaded env \<longleftrightarrow> (\<forall>h. ke_family env h = None)"

named_theorems kstep

lemma run_kernel_steps [kstep]:
  "run_state (kcall env c) k = (ke_call env (kg_calls k) c, k\<lparr> kg_calls := kg_calls k @ [c] \<rparr>)"
  "run_state (kask f) k = (f k, k)" "run_state (kset g) k = ((), g k)"
  "run_state (LinkByName env name) k = (ke_link env (kg_calls k) name, k)"
  by (simp_all add: kcall_def kask_def kset_def LinkByName_def)

lemma pdp_steps [kstep]:
  assumes "gtp_loaded env"
  shows "run_state (gtpPDPAdd env link p) k = run_state (kcall env (NewPDP (addPDPCommonAttrs k link p @ [AttrOTEI (pd_OTEI p)]))) k"
    "run_state (gtpPDPDel env link p) k = run_state (kcall env (DelPDP (addPDPCommonAttrs k link p))) k"
  using assms by (simp_all add: gtpPDPAdd_def gtpPDPDel_def gtp_loaded_def kstep)

lemma currentLink_cases:
  obtains (error) e where "run_state (currentLink env) k = (Inl e, k)"
    | (ok) link where "run_state (currentLink env) k = (Inr link, k\<lparr> kg_link := Some link \<rparr>)"
        "kg_handle k" "ke_link env (kg_calls k) (kg_GTPInterface k) = Inr link" "kl_Type link = ''gtp''"
  by (cases "kg_handle k"; cases "ke_link env (kg_calls k) (kg_GTPInterface k)")
    (fastforce simp: currentLink_def kstep)+

section \<open>Adding a session\<close>

definition session_pdp :: "kernel_gtp \<Rightarrow> session \<Rightarrow> pdp" where
  "session_pdp k sess = \<lparr> pd_Version = 1, pd_PeerAddress = session_peer k sess, pd_MSAddress = s_SubscriberIP sess,
     pd_ITEI = s_LocalGTPUTEID sess, pd_OTEI = s_RemoteGTPUTEID sess \<rparr>"

text \<open>The part of \<open>AddSession\<close> after the context: the routes, and what is undone if they fail.\<close>

definition add_routes :: "kernel_env \<Rightarrow> klink \<Rightarrow> session \<Rightarrow> kernel_gtp \<Rightarrow> up_error option \<times> kernel_gtp" where
  "add_routes env link sess k0 = run_state (do {
     k \<leftarrow> kask id;
     r \<leftarrow> (if ro_PolicyRouting (kg_routing k) then kret None
        else kcall env (KRouteReplace (kernelRoute link (s_SubscriberIP sess))));
     (case r of
        Some e \<Rightarrow> do { _ \<leftarrow> gtpPDPDel env link (undo_pdp sess); kret (Some (InstallRoute e)) }
      | None \<Rightarrow> do {
          p \<leftarrow> installPolicyRouting env link sess;
          (case p of None \<Rightarrow> kret None
           | Some e \<Rightarrow> do {
               _ \<leftarrow> (if ro_PolicyRouting (kg_routing k) then kret None
                  else kcall env (KRouteDel (kernelRoute link (s_SubscriberIP sess))));
               _ \<leftarrow> gtpPDPDel env link (undo_pdp sess);
               kret (Some e) })
        }) }) k0"

abbreviation ctx_of :: "session \<Rightarrow> resource" where "ctx_of sess \<equiv> PDPContext (Some (s_LocalGTPUTEID sess))"

definition path_of :: "kernel_gtp \<Rightarrow> klink \<Rightarrow> session \<Rightarrow> resource" where
  \<comment> \<open>the host route or the policy rule that leads to the tunnel\<close>
  "path_of k link sess = (if ro_PolicyRouting (kg_routing k) then Rule (session_rule k sess)
     else Route (kl_Index link) (to4 (s_SubscriberIP sess)))"

definition says_exists :: "kernel_env \<Rightarrow> kcall \<Rightarrow> bool" where
  "says_exists env c \<longleftrightarrow> (\<exists>h e. ke_call env h c = Some e \<and> isExists e)"

lemma says_existsI [intro]: "ke_call env h c = Some e \<Longrightarrow> isExists e \<Longrightarrow> says_exists env c"
  by (auto simp: says_exists_def)

lemma add_routes_result:
  assumes "gtp_loaded env" "add_routes env link sess k = (r, k')"
  shows "r \<noteq> None \<Longrightarrow> kernel_has env k' \<subseteq> kernel_has env k - {ctx_of sess}"
    and "r = None \<Longrightarrow> kernel_has env k' = insert (path_of k link sess) (kernel_has env k)
      \<or> kernel_has env k' = kernel_has env k \<and> ro_PolicyRouting (kg_routing k) \<and> says_exists env (RuleAdd (session_rule k sess))"
  using assms(2)
  by (auto simp: add_routes_def kernel_has_def installPolicyRouting_def kstep pdp_steps [OF assms(1)] kernelRoute_def hostNet_def
      kernelPolicyDefaultRoute_def undo_pdp_def path_of_def session_rule_def split: if_splits option.splits)

lemma addPDPCommonAttrs_link [simp]: "addPDPCommonAttrs (k\<lparr> kg_link := l \<rparr>) = addPDPCommonAttrs k"
  by (simp add: addPDPCommonAttrs_def fun_eq_iff)

definition new_pdp :: "kernel_gtp \<Rightarrow> klink \<Rightarrow> session \<Rightarrow> kcall" where
  \<comment> \<open>the request for the tunnel of a session: its address, its local and remote endpoint, its PGW\<close>
  "new_pdp k link sess = NewPDP (addPDPCommonAttrs k link (session_pdp k sess) @ [AttrOTEI (s_RemoteGTPUTEID sess)])"

lemma AddSession_cases:
  assumes "gtp_loaded env" "run_state (k_AddSession env ctx (Some sess)) k = (r, k')"
  obtains (early) "r \<noteq> None" "kg_calls k' = kg_calls k"
    | (refused) link e where "r = Some (AddPDP (s_ID sess) e)" "ke_call env (kg_calls k) (new_pdp k link sess) = Some e" "\<not> isExists e"
        "kg_calls k' = kg_calls k @ [new_pdp k link sess]"
    | (tunnel) link where "s_SubscriberIP sess \<noteq> None" "s_LocalGTPUTEID sess \<noteq> 0" "s_RemoteGTPUTEID sess \<noteq> 0" "session_peer k sess \<noteq> None"
        "ke_link env (kg_calls k) (kg_GTPInterface k) = Inr link" "kl_Type link = ''gtp''"
        "ke_call env (kg_calls k) (new_pdp k link sess) = None \<or> isExists (the (ke_call env (kg_calls k) (new_pdp k link sess)))"
        "add_routes env link sess (k\<lparr> kg_link := Some link, kg_calls := kg_calls k @ [new_pdp k link sess] \<rparr>) = (r, k')"
proof -
  have split: thesis if err: "r \<noteq> None \<Longrightarrow> k' = k \<Longrightarrow> thesis"
    and go: "ctx = None \<Longrightarrow> validateKernelSession (Some sess) = None \<Longrightarrow> kg_link k \<noteq> None \<Longrightarrow> thesis" for thesis
  proof (cases ctx)
    case None
    show ?thesis
    proof (cases "validateKernelSession (Some sess)")
      case v: None
      then show ?thesis using assms(2) None err go by (cases "kg_link k") (auto simp: k_AddSession_def kstep)
    next
      case (Some e)
      then have "r = Some e" "k' = k" using assms(2) None by (auto simp: k_AddSession_def)
      then show ?thesis by (intro err) simp_all
    qed
  next
    case (Some e)
    then have "r = Some (CtxError e)" "k' = k" using assms(2) by (auto simp: k_AddSession_def)
    then show ?thesis by (intro err) simp_all
  qed
  show thesis
  proof (rule split)
    assume "r \<noteq> None" "k' = k"
    then show thesis using early by simp
  next
    assume go: "ctx = None" "validateKernelSession (Some sess) = None" "kg_link k \<noteq> None"
    then have v: "s_SubscriberIP sess \<noteq> None" "s_LocalGTPUTEID sess \<noteq> 0" "s_RemoteGTPUTEID sess \<noteq> 0"
      by (auto simp: validateKernelSession_def split: if_splits)
    show thesis
    proof (cases rule: currentLink_cases [of env k])
      case (error e)
      then show thesis using assms(2) go early by (auto simp: k_AddSession_def kstep Let_def)
    next
      case (ok link)
      let ?k1 = "k\<lparr> kg_link := Some link, kg_calls := kg_calls k @ [new_pdp k link sess] \<rparr>"
      let ?a = "ke_call env (kg_calls k) (new_pdp k link sess)"
      show thesis
      proof (cases "session_peer k sess = None")
        case True
        then show thesis using assms(2) go ok early by (auto simp: k_AddSession_def kstep Let_def)
      next
        case False
        have run: "run_state (k_AddSession env ctx (Some sess)) k = (if ?a \<noteq> None \<and> \<not> isExists (the ?a)
            then (Some (AddPDP (s_ID sess) (the ?a)), ?k1) else add_routes env link sess ?k1)"
        proof -
          obtain l0 pb where "kg_link k = Some l0" "session_peer k sess = Some pb" using go(3) False by auto
          with go ok show ?thesis
            by (cases ?a) (simp_all add: k_AddSession_def new_pdp_def session_pdp_def add_routes_def kstep pdp_steps [OF assms(1)])
        qed
        show thesis
        proof (cases "?a \<noteq> None \<and> \<not> isExists (the ?a)")
          case True
          with run assms(2) have "r = Some (AddPDP (s_ID sess) (the ?a))" "k' = ?k1" by simp_all
          with True refused [of "the ?a" link] show thesis by simp
        next
          case f: False
          with run assms(2) have "add_routes env link sess ?k1 = (r, k')" by auto
          with f tunnel [OF v False ok(3,4)] show thesis by auto
        qed
      qed
    qed
  qed
qed


section \<open>Removing a session\<close>

lemma RemoveSession_removes:
  assumes "gtp_loaded env" "run_state (k_RemoveSession env ctx (Some sess)) k = (None, k')"
    and "kg_handle k" "ke_link env (kg_calls k) (kg_GTPInterface k) = Inr link"
  shows "kernel_has env k' = kernel_has env k
    - (if s_SubscriberIP sess = None then {} else {path_of k link sess})
    - (if s_LocalGTPUTEID sess = 0 then {} else {ctx_of sess})"
proof -
  have l: "run_state (currentLink env) k = (Inr link, k\<lparr> kg_link := Some link \<rparr>)" if "kl_Type link = ''gtp''"
    using assms(3,4) that by (simp add: currentLink_def kstep)
  have "kl_Type link = ''gtp''" using assms(2-4)
    by (auto simp: k_RemoveSession_def currentLink_def kstep error_isNotFound_def split: option.splits if_splits)
  from assms(2) l [OF this] show ?thesis
    by (auto simp: k_RemoveSession_def kstep pdp_steps [OF assms(1)] removePolicyRouting_def kernel_has_def kernelRoute_def hostNet_def
        path_of_def session_rule_def
        split: option.splits if_splits)
qed

section \<open>The interface\<close>

text \<open>Creating the interface opens both sockets and adds the link, or leaves nothing of it behind.\<close>

lemma createLink_all_or_nothing:
  assumes "run_state (createLink env) k = (r, k')"
  shows "if r = None then kernel_has env k' = kernel_has env k \<union> {Socket 3386, Socket 2152, Interface (kg_GTPInterface k)}
      else kernel_has env k' \<subseteq> kernel_has env k"
  using assms
  by (auto simp: createLink_def listenKernelGTPUDP_def udpConnFD_def close_both_def kernel_has_def kstep
      split: option.splits sum.splits if_splits)

definition is_up :: "string \<Rightarrow> kernel_gtp \<Rightarrow> bool" where
  "is_up name k \<longleftrightarrow> kg_created k \<and> kg_link k \<noteq> None \<and> kg_gtp0 k \<and> kg_gtp1 k \<and> kg_GTPInterface k = name"

lemma createLink_up:
  assumes "run_state (createLink env) k = (None, k')"
  shows "is_up (kg_GTPInterface k) k'"
  using assms
  by (auto simp: is_up_def createLink_def listenKernelGTPUDP_def udpConnFD_def close_both_def kstep split: option.splits sum.splits if_splits)

lemma createLink_errors:
  assumes "run_state (createLink env) k = (r, k')"
  shows "r \<noteq> Some NoKernelSupport \<and> r \<noteq> Some (UnsupportedMode mode)"
  using assms
  by (auto simp: createLink_def listenKernelGTPUDP_def udpConnFD_def close_both_def kstep split: option.splits sum.splits if_splits)

lemma detect_cases:
  assumes "run_state (detectUserEchoSupport env) k = (r, k')"
  shows "kernel_has env k' = kernel_has env k \<and> (is_up name k \<longrightarrow> is_up name k')
    \<and> (r = None \<or> r = Some NoKernelSupport \<or> (\<exists>mode. r = Some (UnsupportedMode mode)))"
  using assms by (auto simp: detectUserEchoSupport_def kstep Let_def kernel_has_def is_up_def split: if_splits)

lemma Start_cases:
  assumes "run_state (k_Start env ctx) k = (r, k')"
  obtains (early) "r \<noteq> None" "kg_calls k' = kg_calls k" "r \<noteq> Some NoKernelSupport" "\<And>mode. r \<noteq> Some (UnsupportedMode mode)"
    | (created) e k1 rc k2 where "ke_link env (kg_calls k) (kg_GTPInterface k) = Inl e" "up_isNotFound e"
        "kg_calls k1 = kg_calls k" "kg_GTPInterface k1 = kg_GTPInterface k" "run_state (createLink env) k1 = (rc, k2)"
        "(rc \<noteq> None \<and> r = rc \<and> k' = k2)
          \<or> (rc = None \<and> (\<exists>k3. run_state (detectUserEchoSupport env) k2 = (r, k3)
                \<and> k' = (if r = None then k3\<lparr> kg_reading := True \<rparr> else k3)))"
proof -
  let ?k1 = "k\<lparr> kg_handle := True, kg_nsFile := Some (projr (ke_openNs env)) \<rparr>"
  obtain rc k2 where 2: "run_state (createLink env) ?k1 = (rc, k2)" by fastforce
  obtain rd k3 where 3: "run_state (detectUserEchoSupport env) k2 = (rd, k3)" by fastforce
  show thesis
  proof (cases "ctx = None \<and> ke_newHandle env = None \<and> (\<exists>fd. ke_openNs env = Inr fd)
      \<and> (\<exists>e. ke_link env (kg_calls k) (kg_GTPInterface k) = Inl e \<and> up_isNotFound e)")
    case False
    have "r \<noteq> None \<and> kg_calls k' = kg_calls k \<and> r \<noteq> Some NoKernelSupport \<and> (\<forall>mode. r \<noteq> Some (UnsupportedMode mode))"
      using False assms
      by (cases ctx; cases "ke_newHandle env"; cases "ke_openNs env"; cases "ke_link env (kg_calls k) (kg_GTPInterface k)")
        (auto simp: k_Start_def kstep split: if_splits)
    with early show thesis by blast
  next
    case True
    then obtain fd e where t: "ctx = None" "ke_newHandle env = None" "ke_openNs env = Inr fd"
      "ke_link env (kg_calls k) (kg_GTPInterface k) = Inl e" "up_isNotFound e" by blast
    have run: "run_state (k_Start env ctx) k = (case rc of Some _ \<Rightarrow> (rc, k2)
        | None \<Rightarrow> (case rd of Some _ \<Rightarrow> (rd, k3) | None \<Rightarrow> (None, k3\<lparr> kg_reading := True \<rparr>)))"
      unfolding k_Start_def t by (simp add: kstep t 2 [unfolded t sum.sel] 3 split: option.split)
    have eq: "(r, k') = (case rc of Some _ \<Rightarrow> (rc, k2)
        | None \<Rightarrow> (case rd of Some _ \<Rightarrow> (rd, k3) | None \<Rightarrow> (None, k3\<lparr> kg_reading := True \<rparr>)))"
      by (rule trans [OF assms [symmetric] run])
    from eq 3 have outcome: "(rc \<noteq> None \<and> r = rc \<and> k' = k2)
          \<or> (rc = None \<and> run_state (detectUserEchoSupport env) k2 = (r, k3) \<and> k' = (if r = None then k3\<lparr> kg_reading := True \<rparr> else k3))"
      by (cases rc; cases rd) simp_all
    show thesis
    proof (rule created [OF t(4,5) _ _ 2])
      from outcome show "(rc \<noteq> None \<and> r = rc \<and> k' = k2)
          \<or> (rc = None \<and> (\<exists>k3. run_state (detectUserEchoSupport env) k2 = (r, k3)
                \<and> k' = (if r = None then k3\<lparr> kg_reading := True \<rparr> else k3)))" by blast
    qed simp_all
  qed
qed

lemma kernel_has_reading [simp]: "kernel_has env (k\<lparr> kg_reading := b \<rparr>) = kernel_has env k" "is_up n (k\<lparr> kg_reading := b \<rparr>) = is_up n k"
  by (simp_all add: kernel_has_def is_up_def)

lemma Start_is_up:
  assumes "run_state (k_Start env ctx) k = (None, k')"
  shows "is_up (kg_GTPInterface k) k'"
  using assms
proof (cases rule: Start_cases)
  case (created e k1 rc k2)
  then show ?thesis using createLink_up [of env k1 k2] detect_cases by (fastforce split: if_splits)
qed simp


section \<open>An example\<close>

definition demo_kernel :: kernel_env where
  \<comment> \<open>a kernel that grants every request\<close>
  "demo_kernel = \<lparr> ke_call = (\<lambda>h c. None),
     ke_link = (\<lambda>h name. if list_ex (\<lambda>c. case c of LinkAdd n _ _ _ \<Rightarrow> n = name | _ \<Rightarrow> False) h
        then Inr \<lparr> kl_Index = 7, kl_Type = ''gtp'' \<rparr> else Inl (NotFoundErr LinkNotFound)),
     ke_family = (\<lambda>h. None), ke_fd = (\<lambda>h port. Inr port), ke_newHandle = None, ke_openNs = Inr 3, ke_header = True \<rparr>"

definition demo_gtp :: gtp_config where
  "demo_gtp = default_gtp\<lparr> gc_LocalGTPUIP := ''10.0.0.1'', gc_RemotePGWGTPUIP := ''10.0.0.2'', gc_KernelInterface := ''gtp0'',
     gc_UserEcho := \<lparr> ue_Enabled = True, ue_Mode = [], ue_IntervalSeconds = 60, ue_TimeoutSeconds = 5, ue_MaxFailures = 3,
       ue_StartupProbe = False, ue_RequireKernelSupport = False \<rparr> \<rparr>"

definition demo_routing :: routing_config where
  "demo_routing = \<lparr> ro_EnableIPForwarding = True, ro_DisableRPFilter = True, ro_PolicyRouting = False, ro_PolicyTable = 100,
     ro_PolicyPriority = 100, ro_InstallRoutes = True \<rparr>"

definition demo_gtp_state :: kernel_gtp where
  "demo_gtp_state = snd (run_state (k_Start demo_kernel None) (NewKernelGTP demo_gtp demo_routing))"

definition demo_tunnel :: session where
  "demo_tunnel = zero_session\<lparr> s_ID := ''twag-5-1'', s_SubscriberIP := Some [10, 45, 0, 2], s_PGWUserIP := Some [10, 0, 0, 2],
     s_LocalGTPUTEID := 17, s_RemoteGTPUTEID := 42 \<rparr>"

lemma demo_kernel_loaded: "gtp_loaded demo_kernel"
  by (simp add: gtp_loaded_def demo_kernel_def)

lemma demo_started: "run_state (k_Start demo_kernel None) (NewKernelGTP demo_gtp demo_routing) = (None, demo_gtp_state)"
proof -
  have "fst (run_state (k_Start demo_kernel None) (NewKernelGTP demo_gtp demo_routing)) = None" by code_simp
  then show ?thesis by (simp add: demo_gtp_state_def prod_eq_iff)
qed

lemma demo_added: "fst (run_state (k_AddSession demo_kernel None (Some demo_tunnel)) demo_gtp_state) = None"
  by code_simp



end
