(* ===== verification/UserEchoProps.thy ===== *)
theory UserEchoProps
  imports UserEcho UserPlaneProps
begin

text \<open>
  What the health of the GTP-U path means: over any interleaving of probes, datagrams and sessions it is
  the outcome of the last probes, and a probe succeeds only because the PGW answered after it was started.
\<close>

section \<open>Steps that leave the health alone\<close>

definition echo_part :: "kernel_gtp \<Rightarrow> gtp_user_echo_config \<times> string \<times> int \<times> string \<times> (nat \<Rightarrow> echo_observation option) \<times> nat option \<times> nat" where
  "echo_part k = (kg_userEchoCfg k, kg_RemotePGWGTPUIP k, kg_consecutiveEchoFailures k, kg_gtpuHealth k, kg_chans k,
     kg_echoPending k, kg_nextChan k)"

definition keeps :: "(kernel_gtp \<Rightarrow> bool) \<Rightarrow> 'a kact \<Rightarrow> bool" where
  "keeps P m \<longleftrightarrow> (\<forall>k. P k \<longrightarrow> P (snd (run_state m k)))"

named_theorems keeps_rules

lemma keeps_basic [keeps_rules]:
  "keeps P (kret x)" "keeps P (kask f)" "keeps P (LinkByName env name)"
  by (simp_all add: keeps_def kstep)

lemma keeps_set [keeps_rules]: "(\<And>k. P k \<Longrightarrow> P (f k)) \<Longrightarrow> keeps P (kset f)"
  by (simp add: keeps_def kstep)

lemma keeps_bind [keeps_rules]:
  assumes "keeps P m" "\<And>x. keeps P (f x)"
  shows "keeps P (m \<bind> f)"
  unfolding keeps_def
proof (intro allI impI)
  fix k assume "P k"
  obtain x k' where r: "run_state m k = (x, k')" by fastforce
  with \<open>P k\<close> assms(1) have "P k'" unfolding keeps_def by (metis snd_conv)
  with r assms(2) show "P (snd (run_state (m \<bind> f) k))" by (simp add: keeps_def)
qed

lemma keeps_split [keeps_rules]:
  "(b \<Longrightarrow> keeps P m) \<Longrightarrow> (\<not> b \<Longrightarrow> keeps P m') \<Longrightarrow> keeps P (if b then m else m')"
  "(x = None \<Longrightarrow> keeps P m) \<Longrightarrow> (\<And>y. x = Some y \<Longrightarrow> keeps P (f y)) \<Longrightarrow> keeps P (case x of None \<Rightarrow> m | Some y \<Rightarrow> f y)"
  "(\<And>y. s = Inl y \<Longrightarrow> keeps P (g y)) \<Longrightarrow> (\<And>y. s = Inr y \<Longrightarrow> keeps P (h y)) \<Longrightarrow> keeps P (case s of Inl y \<Rightarrow> g y | Inr y \<Rightarrow> h y)"
  by (simp_all split: option.split sum.split)

lemma keepsD: "keeps P m \<Longrightarrow> run_state m k = (r, k') \<Longrightarrow> P k \<Longrightarrow> P k'"
  unfolding keeps_def by (metis snd_conv)

text \<open>A predicate that does not depend on the requests made, the cached link and the sequence number is kept by
  everything that adds and removes sessions and sends echo requests.\<close>

locale kernel_steps =
  fixes P :: "kernel_gtp \<Rightarrow> bool"
  assumes calls: "P k \<Longrightarrow> P (k\<lparr> kg_calls := cs \<rparr>)"
    and link: "P k \<Longrightarrow> P (k\<lparr> kg_link := Some l \<rparr>)"
    and sequence: "P k \<Longrightarrow> P (k\<lparr> kg_echoSequence := n \<rparr>)"
begin

lemma keeps_call: "keeps P (kcall env c)"
  by (simp add: keeps_def kstep calls)

lemma keeps_steps:
  "keeps P (currentLink env)" "keeps P (gtpPDPAdd env lnk p)" "keeps P (gtpPDPDel env lnk p)"
  "keeps P (installPolicyRouting env lnk sess)" "keeps P (removePolicyRouting env sess)"
  by (auto simp: currentLink_def gtpPDPAdd_def gtpPDPDel_def installPolicyRouting_def removePolicyRouting_def
      intro!: keeps_rules keeps_call link)

lemma keeps_sessions: "keeps P (k_AddSession env ctx so)" "keeps P (k_RemoveSession env ctx so)"
  by (auto simp: k_AddSession_def k_RemoveSession_def Let_def intro!: keeps_rules keeps_call keeps_steps)

lemma keeps_trigger: "keeps P (triggerUserEchoRequest env)"
proof -
  have s: "keeps P nextUserEchoSequence"
    by (simp add: keeps_def nextUserEchoSequence_def Let_def sequence)
  show ?thesis
    by (auto simp: triggerUserEchoRequest_def triggerUserEchoRequestNetlink_def triggerUserEchoRequestSocket_def Let_def
        intro!: keeps_rules keeps_call keeps_steps s)
qed

end

interpretation echo: kernel_steps "\<lambda>k. echo_part k = c" for c
  by unfold_locales (simp_all add: echo_part_def)

lemma echo_part_simps:
  "echo_part (k\<lparr> kg_gtp0 := b0, kg_gtp1 := b1, kg_link := l, kg_created := c \<rparr>) = echo_part k"
  "echo_part (k\<lparr> kg_handle := b0 \<rparr>) = echo_part k" "echo_part (k\<lparr> kg_nsFile := f \<rparr>) = echo_part k"
  "echo_part (k\<lparr> kg_reading := b0 \<rparr>) = echo_part k" "echo_part (k\<lparr> kg_gtpuEchoSupported := b0 \<rparr>) = echo_part k"
  "echo_part (k\<lparr> kg_gtpuEchoSupported := b0, kg_gtpuEchoDisabled := b1 \<rparr>) = echo_part k"
  by (simp_all add: echo_part_def)

lemma keeps_Start: "keeps (\<lambda>k. echo_part k = c) (k_Start env ctx)"
proof -
  have "keeps (\<lambda>k. echo_part k = c) (createLink env)"
    by (auto simp: createLink_def listenKernelGTPUDP_def udpConnFD_def close_both_def echo_part_simps intro!: keeps_rules echo.keeps_call)
  then show ?thesis
    by (auto simp: k_Start_def detectUserEchoSupport_def Let_def echo_part_simps intro!: keeps_rules)
qed

lemma keeps_echo_part: "(\<And>c. keeps (\<lambda>k. echo_part k = c) m) \<Longrightarrow> echo_part (snd (run_state m k)) = echo_part k"
  by (simp add: keeps_def)

lemma keeps_disable: "keeps (\<lambda>k. echo_part k = c) (disableUserEchoOnKernelReject e)"
  by (simp add: keeps_def disableUserEchoOnKernelReject_def echo_part_def)

section \<open>The log\<close>

fun failures_rev :: "echo_event list \<Rightarrow> nat" where
  "failures_rev [] = 0"
| "failures_rev (e # l) = (case e of ProbeSucceeded _ \<Rightarrow> 0 | ProbeFailed \<Rightarrow> Suc (failures_rev l) | _ \<Rightarrow> failures_rev l)"

definition failures_since_success :: "echo_event list \<Rightarrow> nat" where
  "failures_since_success l = failures_rev (rev l)"

definition has_success :: "echo_event list \<Rightarrow> bool" where
  "has_success l \<longleftrightarrow> list_ex (\<lambda>e. case e of ProbeSucceeded _ \<Rightarrow> True | _ \<Rightarrow> False) l"

definition health_of :: "int \<Rightarrow> echo_event list \<Rightarrow> string" where
  "health_of maxFailures l = (if maxFailures \<le> int (failures_since_success l) then ''unhealthy''
     else if has_success l then ''healthy'' else ''unknown'')"

definition from_pgw :: "string \<Rightarrow> ip \<times> nat \<Rightarrow> bool" where
  "from_pgw pgw peer \<longleftrightarrow> parse_ip pgw = None \<or> ip_equal (fst peer) (parse_ip pgw)"

definition was_observed :: "nat \<Rightarrow> echo_event list \<Rightarrow> bool" where
  "was_observed ch l \<longleftrightarrow> (\<exists>peer. Observed ch peer \<in> set l)"

lemma was_observed_simps [simp]:
  "\<not> was_observed ch []" "was_observed ch (l @ l') \<longleftrightarrow> was_observed ch l \<or> was_observed ch l'"
  "was_observed ch (Observed ch' peer # l) \<longleftrightarrow> ch' = ch \<or> was_observed ch l"
  "was_observed ch (ProbeStarted c # l) = was_observed ch l" "was_observed ch (ProbeSucceeded c # l) = was_observed ch l"
  "was_observed ch (ProbeFailed # l) = was_observed ch l" "was_observed ch (rev l) = was_observed ch l"
  by (auto simp: was_observed_def simp del: split_paired_Ex)

fun explained :: "string \<Rightarrow> echo_event list \<Rightarrow> bool" where
  \<comment> \<open>latest event first\<close>
  "explained pgw [] \<longleftrightarrow> True"
| "explained pgw (e # l) \<longleftrightarrow> explained pgw l \<and> (case e of
      ProbeSucceeded ch \<Rightarrow> was_observed ch l
    | Observed ch peer \<Rightarrow> ProbeStarted ch \<in> set l \<and> from_pgw pgw peer
    | _ \<Rightarrow> True)"

lemma explained_observed: "explained pgw l \<Longrightarrow> Observed ch peer \<in> set l \<Longrightarrow>
    from_pgw pgw peer \<and> (\<exists>as bs. l = as @ Observed ch peer # bs \<and> ProbeStarted ch \<in> set bs)"
proof (induction l)
  case (Cons e l)
  show ?case
  proof (cases "e = Observed ch peer")
    case True
    with Cons.prems show ?thesis by (auto intro: exI [of _ "[]"])
  next
    case False
    with Cons obtain as bs where "from_pgw pgw peer" "l = as @ Observed ch peer # bs" "ProbeStarted ch \<in> set bs" by auto
    then show ?thesis by (auto intro: exI [of _ "e # as"])
  qed
qed simp

lemma explained_append: "explained pgw (as @ bs) \<Longrightarrow> explained pgw bs"
  by (induction as) auto

lemma explained_success:
  assumes "explained pgw (rev l)" "l = as @ ProbeSucceeded ch # bs"
  shows "\<exists>peer xs ys. as = xs @ Observed ch peer # ys \<and> ProbeStarted ch \<in> set xs \<and> from_pgw pgw peer"
proof -
  have "explained pgw (ProbeSucceeded ch # rev as)"
    using assms explained_append [of pgw "rev bs" "ProbeSucceeded ch # rev as"] by simp
  then obtain peer where o: "Observed ch peer \<in> set (rev as)" "explained pgw (rev as)" by (auto simp: was_observed_def)
  from explained_observed [OF o(2,1)] obtain xs ys where
    x: "rev as = xs @ Observed ch peer # ys" "ProbeStarted ch \<in> set ys" "from_pgw pgw peer" by blast
  from x(1) have "as = rev ys @ Observed ch peer # rev xs"
    by (metis append.assoc append_Cons append_Nil rev.simps(2) rev_append rev_rev_ident)
  with x(2,3) show ?thesis by (metis set_rev)
qed

lemma log_snoc [simp]:
  "failures_since_success [] = 0" "\<not> has_success []"
  "failures_since_success (l @ [ProbeSucceeded ch]) = 0" "failures_since_success (l @ [ProbeFailed]) = Suc (failures_since_success l)"
  "failures_since_success (l @ [ProbeStarted ch]) = failures_since_success l"
  "failures_since_success (l @ [Observed ch peer]) = failures_since_success l"
  "has_success (l @ [ProbeSucceeded ch])" "has_success (l @ [ProbeFailed]) = has_success l"
  "has_success (l @ [ProbeStarted ch]) = has_success l" "has_success (l @ [Observed ch peer]) = has_success l"
  by (simp_all add: failures_since_success_def has_success_def)

section \<open>The invariant\<close>

definition echo_inv :: "gtp_user_echo_config \<Rightarrow> string \<Rightarrow> echo_world \<Rightarrow> bool" where
  "echo_inv cfg pgw w \<longleftrightarrow> (let k = ew_k w; l = ew_log w in
     kg_userEchoCfg k = cfg \<and> kg_RemotePGWGTPUIP k = pgw
     \<and> kg_consecutiveEchoFailures k = int (failures_since_success l) \<and> kg_gtpuHealth k = health_of (ue_MaxFailures cfg) l
     \<and> explained pgw (rev l)
     \<and> (\<forall>ch. kg_echoPending k = Some ch \<longrightarrow> ProbeStarted ch \<in> set l)
     \<and> (\<forall>ch obs. kg_chans k ch = Some obs \<longrightarrow> was_observed ch l))"

lemma echo_inv_part:
  assumes "echo_inv cfg pgw w" "echo_part k = echo_part (ew_k w)"
  shows "echo_inv cfg pgw (w\<lparr> ew_k := k \<rparr>)"
  using assms by (simp add: echo_inv_def echo_part_def Let_def)

lemma inv_add: "echo_inv cfg pgw w \<Longrightarrow> echo_inv cfg pgw (w\<lparr> ew_k := snd (run_state (k_AddSession env ctx so) (ew_k w)) \<rparr>)"
  and inv_remove: "echo_inv cfg pgw w \<Longrightarrow> echo_inv cfg pgw (w\<lparr> ew_k := snd (run_state (k_RemoveSession env ctx so) (ew_k w)) \<rparr>)"
  by (intro echo_inv_part keeps_echo_part echo.keeps_sessions; assumption)+

lemma inv_answer:
  assumes "echo_inv cfg pgw w" "kg_chans (ew_k w) ch = Some obs" "0 < ue_MaxFailures cfg"
  shows "echo_inv cfg pgw \<lparr> ew_k = snd (run_state (probe_answered now ch start obs) (ew_k w)),
      ew_probes = ps, ew_log = ew_log w @ [ProbeSucceeded ch] \<rparr>"
  using assms
  by (fastforce simp: echo_inv_def Let_def probe_answered_def recordUserEchoSuccess_def clearUserEchoPending_def kstep health_of_def)

lemma inv_failed:
  assumes "echo_inv cfg pgw w" "0 < ue_MaxFailures cfg"
  shows "echo_inv cfg pgw \<lparr> ew_k = snd (run_state (probe_timed_out now ch) (ew_k w)),
      ew_probes = ps, ew_log = ew_log w @ [ProbeFailed] \<rparr>"
  using assms
  by (auto simp: echo_inv_def Let_def probe_timed_out_def recordUserEchoFailure_def clearUserEchoPending_def kstep health_of_def split: if_splits)

lemma inv_packet:
  assumes "echo_inv cfg pgw w"
  shows "echo_inv cfg pgw (take_packet env now packet peer w)"
  using assms
  by (auto simp: echo_inv_def Let_def take_packet_def readControlLoop_turn_def observeUserEchoResponse_def kstep health_of_def from_pgw_def
      split: sum.splits option.splits if_splits)

lemma echo_part_sel:
  assumes "echo_part k = echo_part k'"
  shows "kg_userEchoCfg k = kg_userEchoCfg k'" "kg_RemotePGWGTPUIP k = kg_RemotePGWGTPUIP k'"
    "kg_consecutiveEchoFailures k = kg_consecutiveEchoFailures k'" "kg_gtpuHealth k = kg_gtpuHealth k'" "kg_chans k = kg_chans k'"
    "kg_echoPending k = kg_echoPending k'" "kg_nextChan k = kg_nextChan k'"
  using assms by (simp_all add: echo_part_def)

lemma inv_begin:
  assumes "echo_inv cfg pgw w" "0 < ue_MaxFailures cfg"
  shows "echo_inv cfg pgw (begin_probe env now w)"
proof -
  define k0 where "k0 = (ew_k w)\<lparr> kg_echoPending := Some (kg_nextChan (ew_k w)), kg_nextChan := Suc (kg_nextChan (ew_k w)) \<rparr>"
  obtain t k1 where t: "run_state (triggerUserEchoRequest env) k0 = (t, k1)" by fastforce
  note sel = echo_part_sel [OF keepsD [OF echo.keeps_trigger t refl]]
  have b: "run_state (probe_begin env now) (ew_k w) = run_state (case t of Inr _ \<Rightarrow> kret (ProbeWaits (kg_nextChan (ew_k w)) now)
      | Inl err \<Rightarrow> do {
          d \<leftarrow> disableUserEchoOnKernelReject err;
          r \<leftarrow> (if d then kret None else do { _ \<leftarrow> recordUserEchoFailure now; kret (Some err) });
          _ \<leftarrow> clearUserEchoPending (kg_nextChan (ew_k w));
          kret (ProbeDone r) }) k1"
    using t by (simp add: probe_begin_def ensureUserEchoPending_def k0_def kstep)
  show ?thesis
  proof (cases t)
    case (Inr x)
    with b assms sel show ?thesis
      by (auto simp: begin_probe_def echo_inv_def Let_def k0_def health_of_def)
  next
    case (Inl err)
    obtain d k2 where d: "run_state (disableUserEchoOnKernelReject err) k1 = (d, k2)" by fastforce
    note sel2 = echo_part_sel [OF keepsD [OF keeps_disable d refl]]
    from Inl b d assms sel sel2 show ?thesis
      by (cases d) (auto simp: begin_probe_def echo_inv_def Let_def k0_def health_of_def recordUserEchoFailure_def
          clearUserEchoPending_def kstep split: if_splits)
  qed
qed

lemma inv_step:
  assumes "echo_step env w w'" "echo_inv cfg pgw w" "0 < ue_MaxFailures cfg"
  shows "echo_inv cfg pgw w'"
  using assms by (cases rule: echo_step.cases) (auto intro: inv_begin inv_answer inv_failed inv_packet inv_add inv_remove)

lemma inv_reachable:
  assumes "echo_reachable env k0 w" "echo_inv cfg pgw \<lparr> ew_k = k0, ew_probes = (\<lambda>_. None), ew_log = [] \<rparr>" "0 < ue_MaxFailures cfg"
  shows "echo_inv cfg pgw w"
  using assms by (induction rule: echo_reachable.induct) (auto intro: inv_step)

lemma inv_started:
  assumes "run_state (k_Start env ctx) (NewKernelGTP gtp routing) = (r, k0)" "0 \<le> ue_MaxFailures (gc_UserEcho gtp)"
  shows "echo_inv (normalizeUserEchoConfig (gc_UserEcho gtp)) (gc_RemotePGWGTPUIP gtp) \<lparr> ew_k = k0, ew_probes = ps, ew_log = [] \<rparr>"
  using echo_part_sel [OF keepsD [OF keeps_Start assms(1) refl]] assms(2)
  by (simp add: echo_inv_def Let_def NewKernelGTP_def health_of_def normalizeUserEchoConfig_def)

section \<open>Health is the outcome of the last probes\<close>


definition echo_demo0 :: echo_world where
  "echo_demo0 = \<lparr> ew_k = demo_gtp_state, ew_probes = (\<lambda>_. None), ew_log = [] \<rparr>"

definition echo_demo1 :: echo_world where
  "echo_demo1 = begin_probe demo_kernel 100 echo_demo0"

definition echo_demo2 :: echo_world where
  "echo_demo2 = take_packet demo_kernel 130 (EncodeEchoResponse 0) (Some [10, 0, 0, 2], 2152) echo_demo1"

definition echo_demo3 :: echo_world where
  "echo_demo3 = \<lparr> ew_k = snd (run_state (probe_answered 140 0 100 \<lparr> eo_Peer = (Some [10, 0, 0, 2], 2152), eo_Sequence = 0, eo_At = 130 \<rparr>)
     (ew_k echo_demo2)), ew_probes = (ew_probes echo_demo2)(0 := None), ew_log = ew_log echo_demo2 @ [ProbeSucceeded 0] \<rparr>"

lemma echo_demo_values:
  "\<not> userEchoUnavailable (ew_k echo_demo0)" "ew_probes echo_demo2 0 = Some 100"
  "kg_chans (ew_k echo_demo2) 0 = Some \<lparr> eo_Peer = (Some [10, 0, 0, 2], 2152), eo_Sequence = 0, eo_At = 130 \<rparr>"
  "health_of 3 (ew_log echo_demo3) = ''healthy''"
  "ue_MaxFailures (normalizeUserEchoConfig (gc_UserEcho demo_gtp)) = 3" "0 \<le> ue_MaxFailures (gc_UserEcho demo_gtp)"
  by code_simp+

lemma echo_demo_reachable: "echo_reachable demo_kernel demo_gtp_state echo_demo3"
proof -
  have 0: "echo_reachable demo_kernel demo_gtp_state echo_demo0"
    unfolding echo_demo0_def by (rule echo_reachable.init)
  have 1: "echo_reachable demo_kernel demo_gtp_state echo_demo1"
    using 0 echo_step.probe [OF echo_demo_values(1)] unfolding echo_demo1_def by (rule echo_reachable.step)
  have 2: "echo_reachable demo_kernel demo_gtp_state echo_demo2"
    using 1 echo_step.packet unfolding echo_demo2_def by (rule echo_reachable.step)
  show ?thesis
    using 2 echo_step.answer [OF echo_demo_values(2,3)] unfolding echo_demo3_def by (rule echo_reachable.step)
qed


section \<open>Stopping\<close>

interpretation up: kernel_steps "is_up name" for name
  by unfold_locales (simp_all add: is_up_def)

lemma is_up_echo [keeps_rules]:
  "keeps (is_up name) (recordUserEchoFailure now)" "keeps (is_up name) (recordUserEchoSuccess now l)"
  "keeps (is_up name) (clearUserEchoPending ch)" "keeps (is_up name) ensureUserEchoPending"
  "keeps (is_up name) (disableUserEchoOnKernelReject e)" "keeps (is_up name) (kset (observeUserEchoResponse now peer sq))"
  by (simp_all add: keeps_def is_up_def recordUserEchoFailure_def recordUserEchoSuccess_def clearUserEchoPending_def
      ensureUserEchoPending_def disableUserEchoOnKernelReject_def observeUserEchoResponse_def Let_def kstep split: option.split)

lemma is_up_probe:
  "keeps (is_up name) (probe_begin env now)" "keeps (is_up name) (probe_answered now ch start obs)"
  "keeps (is_up name) (probe_timed_out now ch)" "keeps (is_up name) (readControlLoop_turn env now packet peer)"
proof -
  have c: "keeps (is_up name) (kset (\<lambda>k. k\<lparr> kg_chans := (kg_chans k)(ch := None) \<rparr>))"
    by (simp add: keeps_def is_up_def kstep)
  show "keeps (is_up name) (probe_begin env now)"
    by (auto simp: probe_begin_def intro!: keeps_rules up.keeps_trigger)
  show "keeps (is_up name) (probe_answered now ch start obs)"
    by (auto simp: probe_answered_def intro!: keeps_bind is_up_echo c)
  show "keeps (is_up name) (probe_timed_out now ch)"
    by (auto simp: probe_timed_out_def intro!: keeps_rules)
  show "keeps (is_up name) (readControlLoop_turn env now packet peer)"
    by (auto simp: readControlLoop_turn_def intro!: keeps_basic keeps_bind keeps_split is_up_echo up.keeps_call)
qed

lemma keeps_snd: "keeps P m \<Longrightarrow> P k \<Longrightarrow> P (snd (run_state m k))"
  by (simp add: keeps_def)

lemmas is_up_snd = keeps_snd [where P = "is_up name" for name]

lemma is_up_begin: "is_up name (ew_k w) \<Longrightarrow> is_up name (ew_k (begin_probe env now w))"
proof -
  assume up: "is_up name (ew_k w)"
  obtain p k where p: "run_state (probe_begin env now) (ew_k w) = (p, k)" by fastforce
  then have "is_up name k" using keepsD [OF is_up_probe(1)] up by blast
  with p show ?thesis by (cases p) (simp_all add: begin_probe_def)
qed

lemma is_up_packet: "is_up name (ew_k w) \<Longrightarrow> is_up name (ew_k (take_packet env now packet peer w))"
  by (simp add: take_packet_def Let_def is_up_snd [OF is_up_probe(4)])

lemma is_up_step:
  assumes "echo_step env w w'" "is_up name (ew_k w)"
  shows "is_up name (ew_k w')"
  using assms
proof (cases rule: echo_step.cases)
  case (answer ch start obs now)
  with assms(2) show ?thesis by (simp add: is_up_snd [OF is_up_probe(2)])
next
  case (timeout ch start now)
  with assms(2) show ?thesis by (simp add: is_up_snd [OF is_up_probe(3)])
qed (simp_all add: is_up_begin is_up_packet is_up_snd [OF up.keeps_sessions(1)] is_up_snd [OF up.keeps_sessions(2)])

lemma is_up_reachable: "echo_reachable env k0 w \<Longrightarrow> is_up name k0 \<Longrightarrow> is_up name (ew_k w)"
  by (induction rule: echo_reachable.induct) (auto intro: is_up_step)

lemma Stop_calls:
  assumes "is_up name k"
  shows "kg_calls (snd (run_state (k_Stop env) k)) = kg_calls k @ [LinkDel name] @ (if kg_handle k then [CloseHandle] else [])
    @ (if kg_nsFile k \<noteq> None then [CloseNs (fdValue (kg_nsFile k))] else []) @ [CloseUDP 3386, CloseUDP 2152]"
proof -
  obtain l where "kg_link k = Some l" "kg_created k" "kg_gtp0 k" "kg_gtp1 k" "kg_GTPInterface k = name"
    using assms by (auto simp: is_up_def)
  then show ?thesis
    by (cases "kg_handle k"; cases "kg_nsFile k") (simp_all add: k_Stop_def kcall_if_def kstep)
qed

text \<open>C27. Stopping takes the user plane back: whatever happened since it was started, after \<open>Stop\<close> the kernel was
  asked to delete the interface and both sockets were closed, and nothing was added.\<close>

theorem stop_takes_interface_back:
  assumes "run_state (k_Start env ctx) (NewKernelGTP gtp routing) = (None, k0)" "echo_reachable env k0 w"
  shows "kernel_has env (snd (run_state (k_Stop env) (ew_k w)))
    = kernel_has env (ew_k w) - {Interface (gc_KernelInterface gtp), Socket 3386, Socket 2152}"
proof -
  have "is_up (gc_KernelInterface gtp) k0" using Start_is_up [OF assms(1)] by (simp add: NewKernelGTP_def)
  from Stop_calls [OF is_up_reachable [OF assms(2) this]] show ?thesis
    by (cases "kg_handle (ew_k w)"; cases "kg_nsFile (ew_k w)") (auto simp: kernel_has_def)
qed

lemma stop_takes_interface_back_witness:
  "Interface ''gtp0'' \<notin> kernel_has demo_kernel (snd (run_state (k_Stop demo_kernel) (ew_k echo_demo3)))"
proof -
  have "gc_KernelInterface demo_gtp = ''gtp0''" by (simp add: demo_gtp_def)
  then show ?thesis using stop_takes_interface_back [OF demo_started echo_demo_reachable] by simp
qed

end
