(* ===== verification/Logging.thy ===== *)
theory Logging
  imports Config
begin

text \<open>
  The logger (\<open>internal/logging/logging.go\<close>): a JSON handler for the file, one for the console, and the
  handler that passes a record to both. What the file system answers and what a handler writes are
  arguments; a record is what is written, and the levels are the integers of package slog.
\<close>

definition LevelDebug :: int where "LevelDebug = - 4"
definition LevelInfo :: int where "LevelInfo = 0"
definition LevelWarn :: int where "LevelWarn = 4"
definition LevelError :: int where "LevelError = 8"

definition parseLevel :: "string \<Rightarrow> int" where
  "parseLevel level = (let l = to_lower (trim_space level) in
     if l = ''debug'' then LevelDebug
     else if l = ''warn'' \<or> l = ''warning'' then LevelWarn
     else if l = ''error'' then LevelError else LevelInfo)"

datatype sink = LogFile string | Console

datatype 'a scope = Attrs "'a list" | Group string

record 'a log_handler =
  lh_sink :: sink
  lh_level :: int
  lh_scopes :: "'a scope list"   \<comment> \<open>from \<open>WithAttrs\<close> and \<open>WithGroup\<close>, the latest last\<close>

definition jsonHandler :: "sink \<Rightarrow> int \<Rightarrow> 'a log_handler" where
  "jsonHandler s level = \<lparr> lh_sink = s, lh_level = level, lh_scopes = [] \<rparr>"

definition log_Enabled :: "'a log_handler list \<Rightarrow> int \<Rightarrow> bool" where
  "log_Enabled hs level \<longleftrightarrow> list_ex (\<lambda>h. lh_level h \<le> level) hs"

fun log_Handle :: "('a log_handler \<Rightarrow> 'r \<Rightarrow> string option) \<Rightarrow> 'a log_handler list \<Rightarrow> int \<Rightarrow> 'r
    \<Rightarrow> string list \<times> 'a log_handler list" where
  \<comment> \<open>the errors, and the handlers the record was given to\<close>
  "log_Handle handle [] level r = ([], [])"
| "log_Handle handle (h # hs) level r = (let (es, ws) = log_Handle handle hs level r in
     if \<not> lh_level h \<le> level then (es, ws)
     else (case handle h r of None \<Rightarrow> es | Some e \<Rightarrow> e # es, h # ws))"

definition log_WithAttrs :: "'a list \<Rightarrow> 'a log_handler list \<Rightarrow> 'a log_handler list" where
  "log_WithAttrs as hs = map (\<lambda>h. h\<lparr> lh_scopes := lh_scopes h @ [Attrs as] \<rparr>) hs"

definition log_WithGroup :: "string \<Rightarrow> 'a log_handler list \<Rightarrow> 'a log_handler list" where
  "log_WithGroup name hs = map (\<lambda>h. h\<lparr> lh_scopes := lh_scopes h @ [Group name] \<rparr>) hs"

datatype log_error = CreateLogDir string string | OpenLogFile string string | NoSink

record 'a logger =
  lg_handlers :: "'a log_handler list"
  lg_closes :: "string list"   \<comment> \<open>the open files\<close>

definition log_New :: "logging_config \<Rightarrow> bool \<Rightarrow> (string \<Rightarrow> string option) \<Rightarrow> (string \<Rightarrow> string option) \<Rightarrow> log_error + 'a logger" where
  \<comment> \<open>\<open>mkdir\<close> makes the directory of a file, \<open>openf\<close> opens a file\<close>
  "log_New cfg debugConsole mkdir openf =
     (let level = parseLevel (lc_Level cfg); f = lc_File cfg;
        opened = (if f = [] then Inr []
          else (case mkdir f of
              Some e \<Rightarrow> if \<not> debugConsole then Inl (CreateLogDir f e) else Inr []
            | None \<Rightarrow> (case openf f of
                Some e \<Rightarrow> if \<not> debugConsole then Inl (OpenLogFile f e) else Inr []
              | None \<Rightarrow> Inr [f])))
      in case opened of Inl e \<Rightarrow> Inl e
       | Inr fs \<Rightarrow>
           let handlers = map (\<lambda>f. jsonHandler (LogFile f) level) fs @ (if debugConsole then [jsonHandler Console LevelDebug] else [])
           in if handlers = [] then Inl NoSink else Inr \<lparr> lg_handlers = handlers, lg_closes = fs \<rparr>)"

definition log_Close :: "(string \<Rightarrow> string option) \<Rightarrow> 'a logger option \<Rightarrow> string list" where
  \<comment> \<open>the errors that are joined\<close>
  "log_Close closef lo = (case lo of None \<Rightarrow> []
     | Some l \<Rightarrow> concat (map (\<lambda>f. case closef f of None \<Rightarrow> [] | Some e \<Rightarrow> [e]) (lg_closes l)))"

section \<open>Where a record goes\<close>

lemma log_Handle_sinks: "snd (log_Handle handle hs level r) = filter (\<lambda>h. lh_level h \<le> level) hs"
  by (induction hs) (auto simp: Let_def split: prod.splits)

lemma log_Handle_enabled: "log_Enabled hs level \<longleftrightarrow> snd (log_Handle handle hs level r) \<noteq> []"
  by (auto simp: log_Handle_sinks log_Enabled_def list_ex_iff filter_empty_conv)

lemma log_Handle_scoped:
  "map lh_sink (snd (log_Handle handle (log_WithAttrs as hs) level r)) = map lh_sink (snd (log_Handle handle hs level r))"
  "map lh_sink (snd (log_Handle handle (log_WithGroup name hs) level r)) = map lh_sink (snd (log_Handle handle hs level r))"
  by (simp_all add: log_Handle_sinks log_WithAttrs_def log_WithGroup_def filter_map comp_def)

text \<open>The file gets the records from the configured level on and the console, with \<open>-d\<close>, all from debug on;
  only without \<open>-d\<close> does a file that cannot be opened end the program.\<close>

lemma logger_sinks:
  assumes "log_New cfg debug mkdir openf = Inr l"
  shows "map lh_sink (snd (log_Handle handle (lg_handlers l) level r)) =
      (if lc_File cfg \<noteq> [] \<and> mkdir (lc_File cfg) = None \<and> openf (lc_File cfg) = None \<and> parseLevel (lc_Level cfg) \<le> level
       then [LogFile (lc_File cfg)] else [])
      @ (if debug \<and> LevelDebug \<le> level then [Console] else [])"
  using assms
  by (auto simp: log_New_def log_Handle_sinks jsonHandler_def Let_def split: if_splits option.splits)

lemma logger_fails: "(\<exists>e. log_New cfg debug mkdir openf = Inl e) \<longleftrightarrow>
    \<not> debug \<and> (lc_File cfg = [] \<or> mkdir (lc_File cfg) \<noteq> None \<or> openf (lc_File cfg) \<noteq> None)"
  by (auto simp: log_New_def Let_def split: if_splits option.splits)

end
