(* ===== verification/Runtime.thy ===== *)
theory Runtime
  imports UserPlane Radius Logging
begin

text \<open>
  The program itself (\<open>cmd/twag/main.go\<close>): the order in which \<open>run\<close> builds, probes and starts its parts, and
  the order in which \<open>stopRuntime\<close> stops them; the drivers of the access interface (\<open>internal/access\<close>) and
  the start of the route manager. What a part does when it is built or started is an argument.
\<close>

section \<open>Starting\<close>

datatype stage =
    NewProvider | BuildAccess | NewPGWClient | NewUserPlane | ProbePGW | StartEchoWatchdog
  | StartProvider | StartAccess | StartRouting | StartUserPlane | ProbeEcho | StartEchoProbes | StartAccessSide | StartRadius

definition run_stages :: "config \<Rightarrow> stage list" where
  "run_stages cfg =
     [NewProvider, BuildAccess, NewPGWClient, NewUserPlane]
     @ (if ec_StartupProbe (gc_ControlEcho (c_GTP cfg)) then [ProbePGW] else [])
     @ [StartEchoWatchdog, StartProvider, StartAccess, StartRouting, StartUserPlane]
     @ (if ue_Enabled (gc_UserEcho (c_GTP cfg)) \<and> ue_StartupProbe (gc_UserEcho (c_GTP cfg)) then [ProbeEcho] else [])
     @ [StartEchoProbes, StartAccessSide, StartRadius]"

definition stage_error :: "stage \<Rightarrow> string \<Rightarrow> string" where
  "stage_error st e = (if st = ProbePGW then ''pgw probe failed: '' @ e
     else if st = ProbeEcho then ''GTP-U echo startup probe failed: '' @ e else e)"

fun run_until :: "(stage \<Rightarrow> string option) \<Rightarrow> stage list \<Rightarrow> string option \<times> stage list" where
  \<comment> \<open>the error that ends the start, and the stages that were done\<close>
  "run_until act [] = (None, [])"
| "run_until act (st # sts) = (case act st of Some e \<Rightarrow> (Some (stage_error st e), [])
     | None \<Rightarrow> (let (r, ds) = run_until act sts in (r, st # ds)))"

section \<open>Stopping\<close>

datatype component = Sessions | RadiusServer | AccessSideManager | UserPlaneComponent | PGWClient | AAAProvider | AccessDriver

datatype stop_outcome = Stopped "string option" | DeadlineWhileStopping

fun stop_all :: "(component \<Rightarrow> stop_outcome) \<Rightarrow> (component \<Rightarrow> bool) \<Rightarrow> component list
    \<Rightarrow> (component \<times> string) list \<times> component list" where
  \<comment> \<open>\<open>ended\<close>: the shutdown context has expired before this component; the errors, and the components asked to stop\<close>
  "stop_all out ended [] = ([], [])"
| "stop_all out ended (c # cs) = (let (es, ds) = stop_all out ended cs in
     if ended c then ((c, ''stop skipped'') # es, ds)
     else case out c of Stopped None \<Rightarrow> (es, c # ds)
       | Stopped (Some e) \<Rightarrow> ((c, e) # es, c # ds)
       | DeadlineWhileStopping \<Rightarrow> ((c, ''stop timeout'') # es, c # ds))"

definition stop_order :: "component list" where
  "stop_order = [Sessions, RadiusServer, AccessSideManager, UserPlaneComponent, PGWClient, AAAProvider, AccessDriver]"

definition stopRuntime :: "(component \<Rightarrow> stop_outcome) \<Rightarrow> (component \<Rightarrow> bool) \<Rightarrow> (component \<times> string) list \<times> component list" where
  "stopRuntime out ended = stop_all out ended stop_order"

definition run :: "config \<Rightarrow> (stage \<Rightarrow> string option) \<Rightarrow> (component \<Rightarrow> stop_outcome) \<Rightarrow> (component \<Rightarrow> bool)
    \<Rightarrow> string option \<times> (component \<times> string) list \<times> stage list \<times> component list" where
  \<comment> \<open>the error of the start, the errors of the stop, what was started and what was asked to stop\<close>
  "run cfg act out ended = (case run_until act (run_stages cfg) of
       (Some e, ds) \<Rightarrow> (Some e, [], ds, [])
     | (None, ds) \<Rightarrow> (let (es, cs) = stopRuntime out ended in (None, es, ds, cs)))"

section \<open>The access driver\<close>

definition NewDriver :: "string \<Rightarrow> string + string" where
  \<comment> \<open>by interface; the driver is the Ethernet driver on it\<close>
  "NewDriver iface = (if iface = [] then Inl ''access.interface is required'' else Inr iface)"

definition ethernet_Start :: "string option \<Rightarrow> string \<Rightarrow> string option" where
  "ethernet_Start ctx iface = (case ctx of Some e \<Rightarrow> Some e
     | None \<Rightarrow> if iface = [] then Some ''ethernet access interface is required'' else None)"

text \<open>The other two drivers, which \<open>NewDriver\<close> never chooses, cannot be started.\<close>

definition access_ErrNotImplemented :: string where
  "access_ErrNotImplemented = ''access driver not implemented''"

definition gre_Start :: "string option" where
  "gre_Start = Some (access_ErrNotImplemented @ '': gre'')"

definition l2tpv3_Start :: "string option" where
  "l2tpv3_Start = Some (access_ErrNotImplemented @ '': l2tpv3'')"

lemma driver_starts: "NewDriver iface = Inr d \<Longrightarrow> ethernet_Start None d = None"
  by (auto simp: NewDriver_def ethernet_Start_def split: if_splits)

section \<open>The start of the route manager\<close>

datatype sysctl = Sysctl string string

fun write_all :: "(sysctl \<Rightarrow> string option) \<Rightarrow> (string \<Rightarrow> string) \<Rightarrow> sysctl list \<Rightarrow> string option \<times> sysctl list" where
  "write_all write wrap [] = (None, [])"
| "write_all write wrap (Sysctl path value # ws) = (case write (Sysctl path value) of
      Some e \<Rightarrow> (Some (wrap path @ e), [Sysctl path value])
    | None \<Rightarrow> (let (r, ds) = write_all write wrap ws in (r, Sysctl path value # ds)))"

definition rt_Start :: "routing_config \<Rightarrow> (sysctl \<Rightarrow> string option) \<Rightarrow> string option \<Rightarrow> string option \<Rightarrow> bool
    \<Rightarrow> string option \<times> sysctl list \<times> bool" where
  \<comment> \<open>the last argument and result: the netlink handle is open\<close>
  "rt_Start cfg write newHandle ctx opened = (case ctx of Some e \<Rightarrow> (Some e, [], opened) | None \<Rightarrow>
     let (r1, w1) = (if ro_EnableIPForwarding cfg
            then write_all write (\<lambda>_. ''enable linux ip forwarding: '') [Sysctl ''net/ipv4/ip_forward'' (''1'' @ [CHR 0x0A])]
            else (None, []))
     in if r1 \<noteq> None then (r1, w1, opened)
        else let (r2, w2) = (if ro_DisableRPFilter cfg
               then write_all write (\<lambda>p. ''disable rp_filter '' @ p @ '': '')
                 [Sysctl ''net/ipv4/conf/all/rp_filter'' (''0'' @ [CHR 0x0A]), Sysctl ''net/ipv4/conf/default/rp_filter'' (''0'' @ [CHR 0x0A])]
               else (None, []))
        in if r2 \<noteq> None then (r2, w1 @ w2, opened)
           else if ro_InstallRoutes cfg \<and> \<not> opened
           then (case newHandle of Some e \<Rightarrow> (Some (''open routing netlink handle: '' @ e), w1 @ w2, opened)
             | None \<Rightarrow> (None, w1 @ w2, True))
           else (None, w1 @ w2, opened))"

section \<open>The program\<close>

record flags =
  fl_cfgPath :: string
  fl_validateOnly :: bool
  fl_showVersion :: bool
  fl_debug :: bool

datatype outcome = ShowedVersion | ConfigError string | ConfigValid | LoggingError log_error | RunFailed | RunEnded

definition twag_main :: "flags \<Rightarrow> (string \<Rightarrow> string + config) \<Rightarrow> (config \<Rightarrow> log_error option) \<Rightarrow> (config \<Rightarrow> bool) \<Rightarrow> outcome" where
  \<comment> \<open>\<open>load\<close> is \<open>config.Load\<close> on a path, \<open>newLogger\<close> the error of \<open>logging.New\<close>, \<open>runs\<close>: \<open>run\<close> returns no error\<close>
  "twag_main fl load newLogger runs =
     (if fl_showVersion fl then ShowedVersion
      else case load (fl_cfgPath fl) of Inl e \<Rightarrow> ConfigError e
        | Inr cfg \<Rightarrow> if fl_validateOnly fl then ConfigValid
            else case newLogger cfg of Some e \<Rightarrow> LoggingError e
              | None \<Rightarrow> if runs cfg then RunEnded else RunFailed)"

section \<open>What is started is stopped\<close>

lemma run_until_result:
  "run_until act sts = (r, ds) \<Longrightarrow>
     (case r of None \<Rightarrow> ds = sts \<and> (\<forall>st\<in>set sts. act st = None)
      | Some e \<Rightarrow> \<exists>st post msg. sts = ds @ st # post \<and> (\<forall>st\<in>set ds. act st = None) \<and> act st = Some msg \<and> e = stage_error st msg)"
proof (induction sts arbitrary: ds)
  case (Cons st sts)
  show ?case
  proof (cases "act st")
    case None
    obtain r' ds' where r': "run_until act sts = (r', ds')" by fastforce
    with Cons.prems None have r: "r = r'" "ds = st # ds'" by simp_all
    from Cons.IH [of ds'] r' r(1) have "case r of None \<Rightarrow> ds' = sts \<and> (\<forall>st\<in>set sts. act st = None)
      | Some e \<Rightarrow> \<exists>st post msg. sts = ds' @ st # post \<and> (\<forall>st\<in>set ds'. act st = None) \<and> act st = Some msg \<and> e = stage_error st msg"
      by simp
    with None r(2) show ?thesis by (auto split: option.splits)
  next
    case (Some msg)
    with Cons.prems show ?thesis by auto
  qed
qed simp

lemma stop_all_result:
  "snd (stop_all out ended cs) = filter (\<lambda>c. \<not> ended c) cs"
  "fst (stop_all out ended cs) = [] \<longleftrightarrow> (\<forall>c\<in>set cs. \<not> ended c \<and> out c = Stopped None)"
  by (induction cs) (auto simp: Let_def split: prod.splits stop_outcome.splits option.splits)


definition demo_failing :: "stage \<Rightarrow> string option" where
  "demo_failing st = (if st = StartRadius then Some ''address already in use'' else None)"


text \<open>No subscriber is served before the user plane is up, and none by a program that fails to start:
  the RADIUS server is the last part to start.\<close>

lemma radius_starts_last: "\<exists>pre. run_stages cfg = pre @ [StartRadius] \<and> StartUserPlane \<in> set pre \<and> StartProvider \<in> set pre"
  by (simp add: run_stages_def)

end
