(* ===== verification/Spec2Isabelle.thy ===== *)
theory Spec2Isabelle
  imports SessionProps AuthCache GtpIE GtpU DiamMsg Ipam AccessProps LifeProps GtpCallProps
    EapAkaProps StaProps StaProvider RadiusService
    UserEchoProps Runtime
begin

text \<open>
  A verification of VectorCore TWAG, a trusted WLAN access gateway written in Go. The gateway sits
  between Wi-Fi access points and a mobile core. An access point sends a RADIUS Access-Request
  with an EAP payload; the gateway passes the payload to the 3GPP AAA server over Diameter STa,
  and when the AAA server accepts the subscriber it creates a session at the PDN gateway (PGW)
  over GTPv2-C, binds a GTP-U tunnel, installs the subscriber's forwarding, and answers ARP and
  DHCP for the subscriber on the access side.

  How the parts interact. \<open>internal/radius\<close> calls the lifecycle service (\<open>internal/lifecycle\<close>);
  the service calls \<open>internal/aaa\<close> (and through it \<open>internal/diameter\<close>), \<open>internal/pgw\<close> (a thin
  layer over \<open>internal/gtp\<close>), \<open>internal/ipam\<close>, \<open>internal/userplane\<close> or \<open>internal/gtpu\<close>,
  \<open>internal/accessside\<close> and \<open>internal/routing\<close>, and it keeps all its data in the session manager
  (\<open>internal/session\<close>). DHCP and accounting call back into the service. The model follows these
  calls: a call of a component that is modelled here is a call of its model where the component is
  shared state (the session manager), and an argument of the caller where it is an interface of
  the source (AAA, PGW, user plane, access side, routes); every property of the service holds for
  every value of these arguments.

  Conventions. Bytes and machine integers are words of their width. A Go string is the list of its
  bytes, a \<open>net.IP\<close> and a \<open>net.HardwareAddr\<close> are lists of bytes, times and durations are integers
  in nanoseconds. An error is a value of a datatype or a message, and a function that may fail
  returns a sum. A map is a function to options; an order in which Go walks a map is an argument.
  Pointers to shared objects are addresses into a store. A method that holds a lock is one step;
  methods interleave in any order. What a goroutine, a timer or a socket decides is an argument or
  a step of a relation.

  Foundations.
  \<^item> \<open>Prelude\<close>: words, big-endian reads and writes, strings, decimal and hexadecimal numbers.
  \<^item> \<open>Net\<close>: the functions of Go's package \<open>net\<close> the gateway uses (\<open>ParseIP\<close>, \<open>ParseMAC\<close>,
    \<open>ParseCIDR\<close>, \<open>IP.String\<close>, \<open>Contains\<close>), with their round trips.
  \<^item> \<open>Wire\<close>: the interfaces of a stream of self-delimiting items and of a fixed packet, and what
    follows from their laws; interpreted in \<open>GtpV2\<close>, \<open>GtpIE\<close>, \<open>GtpU\<close>, \<open>DiamMsg\<close>, \<open>EapAkaProps\<close>.
  \<^item> \<open>Machine\<close>: the interface of a component with a state, legal operations and an invariant, and
    the lift to every legal sequence of operations; interpreted in \<open>SessionSpec\<close>, \<open>AuthCache\<close>,
    \<open>Recovery\<close>, \<open>GtpU\<close>.
  \<^item> \<open>Crypto\<close>: AES-128, SHA-1, MD5 and HMAC, as the gateway uses them of Go's \<open>crypto\<close> packages.

  The session manager (\<open>internal/session\<close>). \<open>Session\<close> has the types of \<open>session.go\<close>; \<open>SessionMgr\<close>
  the store of session objects, the indexes \<open>byID\<close>, \<open>byIMSI\<close>, \<open>byMAC\<close>, \<open>byIP\<close>, \<open>byTEID\<close> and every method
  of \<open>manager.go\<close> on them; \<open>SessionInv\<close> the invariant of the indexes, \<open>SessionOps\<close> its
  preservation, \<open>SessionSpec\<close> the abstract table (a map and a counter) and the refinement, and
  \<open>SessionProps\<close> the properties: states change along the life cycle only, a lookup returns a
  session that carries the key, deletion and expiry do exactly what they promise. \<open>AuthCache\<close> and
  \<open>Recovery\<close> model the cached authentications and the recovery tombstones of the same file.

  The lifecycle service (\<open>internal/lifecycle/service.go\<close>). \<open>LifeBase\<close> has its state, its
  surroundings (one function per interface method; each call is recorded in a log) and the action
  monad the handlers are written in; \<open>LifeOps\<close> the release and roll-back steps, \<open>LifeAttach\<close>
  attach and detach, \<open>LifeEvents\<close> the EAP exchange, accounting, recovery and deletions by the
  network, collected in \<open>exec_call\<close>. \<open>LifeInv\<close> has Hoare triples over these actions, \<open>LifeActivate\<close>
  and \<open>LifeRun\<close> the triples of the handlers, \<open>LifeLive\<close> the successful attach, and \<open>LifeProps\<close> the
  properties: the PGW holds exactly the active sessions after any sequence of calls, whatever the
  interfaces answer; no subscriber has two; an EAP success names a session in service; a
  detachment releases everything; an attach succeeds when the interfaces do.

  GTP. \<open>GtpV2\<close> has the GTPv2-C header and the sequence allocator (\<open>gtpv2.go\<close>, \<open>errors.go\<close>), \<open>GtpIE\<close>
  the information elements (\<open>gtpv2_ie.go\<close>), \<open>GtpClient\<close> the client's state, transactions and packet
  handlers (\<open>gtp.go\<close>), \<open>GtpCalls\<close> its calls split at the points where they wait, and the step
  relation of any number of calls with the read loop and \<open>Close\<close>; \<open>GtpCallInv\<close> the invariant of
  that relation and \<open>GtpCallProps\<close> what callers may rely on. \<open>GtpU\<close> is the user-space tunnel
  endpoint (\<open>internal/gtpu/forwarder.go\<close>).

  Configuration. \<open>Config\<close> has the records, the defaults and the validation of
  \<open>internal/config/config.go\<close>; \<open>ConfigProps\<close> what a loaded configuration guarantees to the rest.

  Diameter. \<open>DiamMsg\<close> is the codec of \<open>internal/diameter/message.go\<close>. \<open>EapAka\<close> is the EAP-AKA peer of
  \<open>eap_aka.go\<close>, \<open>EapAkaSpec\<close> the Milenage functions and the key derivation as their specifications
  have them, with the proof that the code computes the same, and \<open>EapAkaProps\<close> the exchange with a
  network that follows the specifications. \<open>StaMsg\<close> has the messages of the STa client
  (\<open>sta_client.go\<close>), \<open>StaClient\<close> its state and the step relation of calls, read loop, watchdog and
  loss of the connection; \<open>StaInv\<close> and \<open>StaTrack\<close> the invariants of that relation, and \<open>StaProps\<close> what
  callers may rely on. \<open>StaProvider\<close> is the AAA provider (\<open>internal/aaa\<close>).

  RADIUS. \<open>RadiusBase\<close> has packets, settings and helpers of \<open>internal/radius/server.go\<close> and the
  registry of access points, \<open>RadiusMppe\<close> the keys of an Access-Accept (\<open>mppe.go\<close>), \<open>Radius\<close> the two
  handlers, \<open>RadiusCoA\<close> the dynamic authorization client. \<open>RadiusProps\<close> and \<open>RadiusService\<close> run the
  handlers on the model of the lifecycle service: an Access-Accept names a session in service and
  carries the keys of the AAA server, and which packets are served, succeed, or end the program.

  The kernel user plane. \<open>UserPlane\<close> has starting and stopping, and adding and removing sessions, of
  \<open>internal/userplane/userplane.go\<close>, as a state with the list of requests made to the kernel; how
  the kernel answers is an argument and may depend on that list. \<open>UserEcho\<close> has the echo probes and the
  control loop with their interleaving. \<open>UserPlaneProps\<close> shows what is in the kernel after each
  operation, \<open>UserEchoProps\<close> what the health of the path means, by the interface \<open>kernel_steps\<close> of
  predicates that requests keep.

  The program. \<open>Runtime\<close> has the start and the stop of \<open>cmd/twag/main.go\<close>, the start of the
  access driver (\<open>internal/access\<close>) and of the route manager; \<open>Logging\<close> the handlers of
  \<open>internal/logging\<close>.

  The access side. \<open>Ipam\<close> is the address pool (\<open>internal/ipam\<close>). \<open>AccessNet\<close> has the ARP and DHCP
  packet formats, \<open>AccessSide\<close> the ARP proxy, the DHCP server and the forwarding manager
  (\<open>internal/accessside\<close>), \<open>AccessProps\<close> their properties. \<open>Routing\<close> is \<open>Install\<close> and \<open>Remove\<close> of
  \<open>internal/routing\<close>. The pool is an interpretation of the interface \<open>address_pool\<close>.

  Bounds and fuel. Three loops need not end and are \<open>partial_function (option)\<close>: the pool's scan for a
  free address and its count of usable addresses, and the search for a second salt in \<open>RadiusMppe\<close>.
  That the scan returns is part of the theorem on \<open>Allocate\<close>, that the count does not for prefix
  length 0 is a theorem too, and that the search ends is part of the theorem on the successful attach,
  where some draw differs. All other loops are structural or have a measure; no definition takes fuel.

  Not modelled. The raw packet sockets (\<open>raw.go\<close>), which are system calls only; the answers of the
  kernel, of the RADIUS library, of the YAML decoder and of the file system, which are arguments; log
  lines and what is read for them alone; in \<open>main.go\<close>, the goroutine profile written after a
  timeout. \<open>server.go.old\<close> is an old copy that is not compiled.
\<close>

end
